(* ===== verification/Prelude.thy ===== *)
theory Prelude
  imports "HOL-Library.AList" "HOL-Library.Sublist" "HOL-Library.List_Lexorder" "HOL-Library.Char_ord"
begin

text \<open>
  Shared vocabulary of the development: Python dictionaries as association lists in
  insertion order, the string operations of the standard library that the code calls, the
  dynamic values stored in \<open>dict[str, Any]\<close> fields, and results of fallible operations. The interfaces
  between components are locales of \<open>Interfaces\<close>.
\<close>

section \<open>Automation\<close>

named_theorems dict_simps \<open>lookup, keys and values of dictionaries after an update\<close>
named_theorems str_simps \<open>unfolding of the string helpers on concrete strings\<close>
named_theorems inv_intros \<open>operations that keep a well-formedness invariant\<close>


section \<open>Dictionaries\<close>

text \<open>
  A Python dictionary iterates in insertion order, and assigning to an existing key keeps
  its position. \<open>AList.update\<close> does exactly this.
\<close>

type_synonym ('k, 'v) dict = "('k \<times> 'v) list"

abbreviation dict_get :: "('k, 'v) dict \<Rightarrow> 'k \<Rightarrow> 'v option" where
  "dict_get d k \<equiv> map_of d k"

abbreviation dict_set :: "'k \<Rightarrow> 'v \<Rightarrow> ('k, 'v) dict \<Rightarrow> ('k, 'v) dict" where
  "dict_set k v d \<equiv> AList.update k v d"

abbreviation dict_del :: "'k \<Rightarrow> ('k, 'v) dict \<Rightarrow> ('k, 'v) dict" where
  "dict_del k d \<equiv> AList.delete k d"

abbreviation dict_values :: "('k, 'v) dict \<Rightarrow> 'v list" where
  "dict_values d \<equiv> map snd d"

abbreviation dict_wf :: "('k, 'v) dict \<Rightarrow> bool" where
  "dict_wf d \<equiv> distinct (map fst d)"

text \<open>The keys of a table of records agree with the identifiers of the records.\<close>

definition keyed_by :: "('v \<Rightarrow> 'k) \<Rightarrow> ('k, 'v) dict \<Rightarrow> bool" where
  "keyed_by f d \<longleftrightarrow> (\<forall>(k, v) \<in> set d. k = f v)"

lemma dict_get_set [dict_simps]: "dict_get (dict_set k v d) k' = (if k' = k then Some v else dict_get d k')"
  by (simp add: AList.update_conv')

lemma dict_get_del [dict_simps]: "dict_get (dict_del k d) k' = (if k' = k then None else dict_get d k')"
  by (simp add: AList.delete_conv')

lemma dict_wf_set [inv_intros, simp]: "dict_wf d \<Longrightarrow> dict_wf (dict_set k v d)"
  by (rule AList.distinct_update)

lemma dict_wf_del [inv_intros, simp]: "dict_wf d \<Longrightarrow> dict_wf (dict_del k d)"
  by (rule AList.distinct_delete)

lemma keyed_by_Nil [simp]: "keyed_by f []"
  by (simp add: keyed_by_def)

lemma keyed_byD: "keyed_by f d \<Longrightarrow> (k, v) \<in> set d \<Longrightarrow> k = f v"
  by (auto simp: keyed_by_def)

lemma keyed_by_get: "keyed_by f d \<Longrightarrow> dict_get d k = Some v \<Longrightarrow> f v = k"
  by (auto dest: map_of_SomeD keyed_byD)

lemma set_dict_set:
  "dict_wf d \<Longrightarrow> set (dict_set k v d) = insert (k, v) {(k', v'). (k', v') \<in> set d \<and> k' \<noteq> k}"
  by (induction d) (auto simp: image_iff)

lemma set_dict_del: "set (dict_del k d) = {(k', v'). (k', v') \<in> set d \<and> k' \<noteq> k}"
  by (auto simp: AList.delete_eq)

lemma keyed_by_set [inv_intros, simp]:
  assumes "dict_wf d" and "keyed_by f d"
  shows "keyed_by f (dict_set (f v) v d)"
  using assms by (auto simp: keyed_by_def set_dict_set)

lemma keyed_by_del [inv_intros, simp]: "keyed_by f d \<Longrightarrow> keyed_by f (dict_del k d)"
  by (auto simp: keyed_by_def set_dict_del)

lemma in_values_iff:
  "dict_wf d \<Longrightarrow> keyed_by f d \<Longrightarrow> v \<in> set (dict_values d) \<longleftrightarrow> dict_get d (f v) = Some v"
  by (force simp: keyed_by_def)

lemma values_dict_set:
  "dict_wf d \<Longrightarrow> keyed_by f d \<Longrightarrow>
    set (dict_values (dict_set (f v) v d)) = insert v {v' \<in> set (dict_values d). f v' \<noteq> f v}"
  by (force simp: set_dict_set keyed_by_def)

lemma values_dict_del:
  "keyed_by f d \<Longrightarrow> set (dict_values (dict_del k d)) = {v \<in> set (dict_values d). f v \<noteq> k}"
  by (force simp: set_dict_del keyed_by_def)

text \<open>Deleting a list of keys, one \<open>del d[k]\<close> after the other.\<close>

definition dict_del_all :: "'k list \<Rightarrow> ('k, 'v) dict \<Rightarrow> ('k, 'v) dict" where
  "dict_del_all ks d = fold AList.delete ks d"

lemma dict_del_all_eq: "dict_del_all ks d = filter (\<lambda>(k, v). k \<notin> set ks) d"
  unfolding dict_del_all_def
  by (induction ks arbitrary: d) (auto simp: AList.delete_eq intro!: filter_cong)

lemma dict_wf_del_all [inv_intros, simp]: "dict_wf d \<Longrightarrow> dict_wf (dict_del_all ks d)"
  by (simp add: dict_del_all_eq distinct_map_filter)

lemma keyed_by_del_all [inv_intros, simp]: "keyed_by f d \<Longrightarrow> keyed_by f (dict_del_all ks d)"
  by (auto simp: keyed_by_def dict_del_all_eq)

lemma values_dict_del_all:
  "keyed_by f d \<Longrightarrow> set (dict_values (dict_del_all ks d)) = {v \<in> set (dict_values d). f v \<notin> set ks}"
  by (force simp: dict_del_all_eq keyed_by_def)

lemma dict_get_del_all [dict_simps]:
  "dict_get (dict_del_all ks d) k = (if k \<in> set ks then None else dict_get d k)"
  unfolding dict_del_all_def by (induction ks arbitrary: d) (auto simp: dict_simps)


section \<open>Strings, slices and numbers\<close>

text \<open>
  Strings are ASCII strings: \<open>lower\<close> and \<open>upper\<close> change the letters of the English
  alphabet only and \<open>strip\<close> removes ASCII white space.
\<close>

abbreviation (input) startswith :: "string \<Rightarrow> string \<Rightarrow> bool" where
  "startswith s p \<equiv> prefix p s"

abbreviation (input) endswith :: "string \<Rightarrow> string \<Rightarrow> bool" where
  "endswith s p \<equiv> suffix p s"

fun contains :: "string \<Rightarrow> string \<Rightarrow> bool" where
  \<comment> \<open>\<open>contains s sub\<close> is the Python test \<open>sub in s\<close>\<close>
  "contains [] sub \<longleftrightarrow> sub = []"
| "contains (c # cs) sub \<longleftrightarrow> prefix sub (c # cs) \<or> contains cs sub"

lemma contains_iff_sublist: "contains s sub \<longleftrightarrow> sublist sub s"
  by (induction s) (auto simp: sublist_Cons_right)

definition lower_char :: "char \<Rightarrow> char" where
  "lower_char c = (if 65 \<le> (of_char c :: nat) \<and> (of_char c :: nat) \<le> 90 then char_of ((of_char c :: nat) + 32) else c)"

definition upper_char :: "char \<Rightarrow> char" where
  "upper_char c = (if 97 \<le> (of_char c :: nat) \<and> (of_char c :: nat) \<le> 122 then char_of ((of_char c :: nat) - 32) else c)"

definition lower :: "string \<Rightarrow> string" where
  "lower s = map lower_char s"

definition upper :: "string \<Rightarrow> string" where
  "upper s = map upper_char s"

definition is_space :: "char \<Rightarrow> bool" where
  "is_space c \<longleftrightarrow> (of_char c :: nat) \<in> {9, 10, 11, 12, 13, 28, 29, 30, 31, 32}"

definition lstrip_chars :: "string \<Rightarrow> string \<Rightarrow> string" where
  \<comment> \<open>\<open>s.lstrip(cs)\<close>\<close>
  "lstrip_chars cs s = dropWhile (\<lambda>c. c \<in> set cs) s"

definition strip :: "string \<Rightarrow> string" where
  "strip s = rev (dropWhile is_space (rev (dropWhile is_space s)))"

definition quoted :: "string \<Rightarrow> string" where
  \<comment> \<open>\<open>f"'{s}'"\<close>\<close>
  "quoted s = [CHR 0x27] @ s @ [CHR 0x27]"

fun nat_str :: "nat \<Rightarrow> string" where
  "nat_str n = (if n < 10 then [char_of (48 + n)] else nat_str (n div 10) @ [char_of (48 + n mod 10)])"

declare nat_str.simps [simp del]

definition int_str :: "int \<Rightarrow> string" where
  "int_str i = (if i < 0 then ''-'' @ nat_str (nat (- i)) else nat_str (nat i))"

fun join_with :: "string \<Rightarrow> string list \<Rightarrow> string" where
  "join_with sep [] = []"
| "join_with sep [s] = s"
| "join_with sep (s # ss) = s @ sep @ join_with sep ss"

text \<open>The slice \<open>xs[:n]\<close>, where a negative \<open>n\<close> counts from the end.\<close>

definition py_take :: "int \<Rightarrow> 'a list \<Rightarrow> 'a list" where
  "py_take n xs = (if 0 \<le> n then take (nat n) xs else take (length xs - nat (- n)) xs)"

text \<open>The truth value of an optional string, and \<open>x or y\<close> on it.\<close>

definition given :: "string option \<Rightarrow> bool" where
  "given x \<longleftrightarrow> x \<noteq> None \<and> x \<noteq> Some []"

definition or_else :: "string option \<Rightarrow> string \<Rightarrow> string" where
  "or_else x y = (if given x then the x else y)"

lemma given_simps [simp]: "\<not> given None" "\<not> given (Some [])" "given (Some s) \<longleftrightarrow> s \<noteq> []"
  by (auto simp: given_def)

lemma or_else_simps [simp]: "or_else None y = y" "or_else (Some s) y = (if s = [] then y else s)"
  by (auto simp: or_else_def)

lemmas [str_simps] =
  lower_def lower_char_def upper_def upper_char_def strip_def is_space_def lstrip_chars_def
  quoted_def


section \<open>Dynamic values\<close>

text \<open>
  The values a \<open>dict[str, Any]\<close> field holds: payloads of events, metadata, tool
  arguments, context references. A float is given by its \<open>repr\<close>, which
  determines it.
\<close>

datatype pyval =
  PNone
| PBool bool
| PInt int
| PFloat string
| PStr string
| PList "pyval list"
| PDict "(string \<times> pyval) list"

type_synonym pydict = "(string, pyval) dict"

definition opt_str :: "string option \<Rightarrow> pyval" where
  "opt_str x = (case x of None \<Rightarrow> PNone | Some s \<Rightarrow> PStr s)"

definition str_list :: "string list \<Rightarrow> pyval" where
  "str_list xs = PList (map PStr xs)"

fun truthy :: "pyval \<Rightarrow> bool" where
  "truthy PNone = False"
| "truthy (PBool b) = b"
| "truthy (PInt i) = (i \<noteq> 0)"
| "truthy (PFloat r) = (r \<noteq> ''0.0'' \<and> r \<noteq> ''-0.0'')"
| "truthy (PStr s) = (s \<noteq> [])"
| "truthy (PList xs) = (xs \<noteq> [])"
| "truthy (PDict d) = (d \<noteq> [])"

text \<open>\<open>repr\<close> of a string, and \<open>str\<close> of a dynamic value.\<close>

definition hex_digit :: "nat \<Rightarrow> char" where
  "hex_digit n = (if n < 10 then char_of (48 + n) else char_of (87 + n))"

definition repr_char :: "bool \<Rightarrow> char \<Rightarrow> string" where
  \<comment> \<open>the flag says that the enclosing quote is the single one\<close>
  "repr_char single c =
     (let n = of_char c :: nat in
      if n = 92 then [c, c]
      else if n = 39 \<and> single then [CHR 0x5C, c]
      else if n = 10 then [CHR 0x5C, CHR ''n'']
      else if n = 13 then [CHR 0x5C, CHR ''r'']
      else if n = 9 then [CHR 0x5C, CHR ''t'']
      else if n < 32 \<or> n = 127 then [CHR 0x5C, CHR ''x'', hex_digit (n div 16), hex_digit (n mod 16)]
      else [c])"

definition repr_str :: "string \<Rightarrow> string" where
  "repr_str s =
     (let single = (\<not> (CHR 0x27 \<in> set s \<and> CHR 0x22 \<notin> set s));
          q = (if single then CHR 0x27 else CHR 0x22)
      in [q] @ concat (map (repr_char single) s) @ [q])"

fun repr_val :: "pyval \<Rightarrow> string"
  and repr_vals :: "pyval list \<Rightarrow> string"
  and repr_items :: "(string \<times> pyval) list \<Rightarrow> string" where
  "repr_val PNone = ''None''"
| "repr_val (PBool b) = (if b then ''True'' else ''False'')"
| "repr_val (PInt i) = int_str i"
| "repr_val (PFloat r) = r"
| "repr_val (PStr s) = repr_str s"
| "repr_val (PList xs) = ''['' @ repr_vals xs @ '']''"
| "repr_val (PDict d) = ''{'' @ repr_items d @ ''}''"
| "repr_vals [] = []"
| "repr_vals [v] = repr_val v"
| "repr_vals (v # vs) = repr_val v @ '', '' @ repr_vals vs"
| "repr_items [] = []"
| "repr_items [(k, v)] = repr_str k @ '': '' @ repr_val v"
| "repr_items ((k, v) # kvs) = repr_str k @ '': '' @ repr_val v @ '', '' @ repr_items kvs"

definition str_val :: "pyval \<Rightarrow> string" where
  \<comment> \<open>\<open>str(v)\<close>: the string itself, the \<open>repr\<close> of anything else\<close>
  "str_val v = (case v of PStr s \<Rightarrow> s | _ \<Rightarrow> repr_val v)"

lemma str_val_PStr [simp]: "str_val (PStr s) = s"
  by (simp add: str_val_def)

end
