(* ===== verification/Interfaces.thy ===== *)
theory Interfaces
  imports Prelude
begin

text \<open>
  The interfaces between components, as locales: a table of records keyed by an identifier
  (what the runtime asks of the persistence layer), the same with deletion, and a life cycle
  whose transitions are validated against a table of allowed successors.
\<close>

section \<open>Keyed tables\<close>

text \<open>
  \<open>get\<close> and \<open>save\<close> are the operations a client calls; \<open>rows\<close> is what listing
  returns; \<open>inv\<close> is the invariant every operation keeps.
\<close>

locale keyed_table =
  fixes key :: "'r \<Rightarrow> 'k"
    and get :: "'s \<Rightarrow> 'k \<Rightarrow> 'r option"
    and save :: "'r \<Rightarrow> 's \<Rightarrow> 's"
    and rows :: "'s \<Rightarrow> 'r list"
    and inv :: "'s \<Rightarrow> bool"
  assumes get_save: "get (save r s) k = (if k = key r then Some r else get s k)"
    and inv_save: "inv s \<Longrightarrow> inv (save r s)"
    and rows_iff: "inv s \<Longrightarrow> r \<in> set (rows s) \<longleftrightarrow> get s (key r) = Some r"
    and key_get: "inv s \<Longrightarrow> get s k = Some r \<Longrightarrow> key r = k"
begin

lemma get_save_same: "get (save r s) (key r) = Some r"
  by (simp add: get_save)

lemma get_save_other: "k \<noteq> key r \<Longrightarrow> get (save r s) k = get s k"
  by (simp add: get_save)

lemma get_in_rows: "inv s \<Longrightarrow> get s k = Some r \<Longrightarrow> r \<in> set (rows s)"
  using rows_iff key_get by blast

lemma rows_save: "inv s \<Longrightarrow> set (rows (save r s)) = insert r {r' \<in> set (rows s). key r' \<noteq> key r}"
  by (auto simp: rows_iff inv_save get_save split: if_splits)

lemma rows_unique: "inv s \<Longrightarrow> r \<in> set (rows s) \<Longrightarrow> r' \<in> set (rows s) \<Longrightarrow> key r = key r' \<Longrightarrow> r = r'"
  by (simp add: rows_iff)

lemma inv_saves: "inv s \<Longrightarrow> inv (fold save rs s)"
  by (induction rs arbitrary: s) (auto intro: inv_save)

text \<open>A batch of records with distinct keys is read back whole, in any order.\<close>

lemma get_saves_other: "k \<notin> key ` set rs \<Longrightarrow> get (fold save rs s) k = get s k"
  by (induction rs arbitrary: s) (auto simp: get_save)

lemma get_saves: "distinct (map key rs) \<Longrightarrow> r \<in> set rs \<Longrightarrow> get (fold save rs s) (key r) = Some r"
  by (induction rs arbitrary: s) (auto simp: get_save get_saves_other)

text \<open>Saving twice is saving once, as far as any reader can tell.\<close>

lemma save_overwrites: "key r = key r' \<Longrightarrow> get (save r (save r' s)) k = get (save r s) k"
  by (simp add: get_save)

lemma save_commute: "key r \<noteq> key r' \<Longrightarrow> get (save r (save r' s)) k = get (save r' (save r s)) k"
  by (simp add: get_save)

end

locale deletable_table = keyed_table key get save rows inv
  for key :: "'r \<Rightarrow> 'k" and get :: "'s \<Rightarrow> 'k \<Rightarrow> 'r option" and save :: "'r \<Rightarrow> 's \<Rightarrow> 's"
    and rows :: "'s \<Rightarrow> 'r list" and inv :: "'s \<Rightarrow> bool" +
  fixes remove :: "'k \<Rightarrow> 's \<Rightarrow> bool \<times> 's"
  assumes remove_flag: "fst (remove k s) \<longleftrightarrow> get s k \<noteq> None"
    and get_remove: "get (snd (remove k s)) k' = (if k' = k then None else get s k')"
    and inv_remove: "inv s \<Longrightarrow> inv (snd (remove k s))"
begin

lemma remove_idem: "get (snd (remove k (snd (remove k s)))) k' = get (snd (remove k s)) k'"
  by (simp add: get_remove)

lemma remove_twice_flag: "\<not> fst (remove k (snd (remove k s)))"
  by (simp add: remove_flag get_remove)

lemma get_save_remove: "get (snd (remove (key r) (save r s))) k = (if k = key r then None else get s k)"
  by (simp add: get_remove get_save)

lemma rows_remove: "inv s \<Longrightarrow> set (rows (snd (remove k s))) = {r \<in> set (rows s). key r \<noteq> k}"
  by (auto simp: rows_iff inv_remove get_remove split: if_splits)

end


section \<open>Life cycles\<close>

text \<open>A sequence of requested transitions; the first one that is refused ends the run.\<close>

fun run_transitions :: "('e \<Rightarrow> 'st \<Rightarrow> 'x \<Rightarrow> 'err + 'e) \<Rightarrow> 'e \<Rightarrow> ('st \<times> 'x) list \<Rightarrow> 'err + 'e" where
  "run_transitions go e [] = Inr e"
| "run_transitions go e ((t, x) # ts) =
     (case go e t x of Inl err \<Rightarrow> Inl err | Inr e' \<Rightarrow> run_transitions go e' ts)"

definition allowed_rel :: "('st \<Rightarrow> 'st list) \<Rightarrow> ('st \<times> 'st) set" where
  "allowed_rel allowed = {(a, b). b \<in> set (allowed a)}"

text \<open>
  The validated transition \<open>go\<close> of an entity accepts a target exactly when it is the
  current status or one of its allowed successors, and leaves the entity in that status.
\<close>

locale lifecycle =
  fixes allowed :: "'st \<Rightarrow> 'st list"
    and status :: "'e \<Rightarrow> 'st"
    and go :: "'e \<Rightarrow> 'st \<Rightarrow> 'x \<Rightarrow> 'err + 'e"
  assumes go_status: "go e t x = Inr e' \<Longrightarrow> status e' = t"
    and go_accepts: "(\<exists>e'. go e t x = Inr e') \<longleftrightarrow> t = status e \<or> t \<in> set (allowed (status e))"
begin

lemma go_cases:
  assumes "go e t x = Inr e'"
  shows "status e' = t \<and> (t = status e \<or> t \<in> set (allowed (status e)))"
  using assms go_status go_accepts by blast

lemma go_refuses: "t \<noteq> status e \<Longrightarrow> t \<notin> set (allowed (status e)) \<Longrightarrow> \<exists>err. go e t x = Inl err"
  using go_accepts by (cases "go e t x") blast+

text \<open>A set of statuses that no allowed transition leaves is never left.\<close>

lemma run_closed:
  assumes "\<And>s. s \<in> S \<Longrightarrow> set (allowed s) \<subseteq> S"
  shows "run_transitions go e ts = Inr e' \<Longrightarrow> status e \<in> S \<Longrightarrow> status e' \<in> S"
proof (induction ts arbitrary: e)
  case (Cons p ts)
  obtain t x where p: "p = (t, x)" by (cases p)
  from Cons.prems(1) p obtain e1 where e1: "go e t x = Inr e1" and rest: "run_transitions go e1 ts = Inr e'"
    by (auto split: sum.splits)
  have "status e1 \<in> S" using go_cases [OF e1] Cons.prems(2) assms [of "status e"] by auto
  with rest show ?case by (rule Cons.IH)
qed simp

lemma run_terminal:
  assumes "allowed (status e) = []" and "run_transitions go e ts = Inr e'"
  shows "status e' = status e"
  using run_closed [of "{status e}"] assms by auto

text \<open>What a run reaches is reachable in the table, and conversely.\<close>

lemma run_reaches:
  "run_transitions go e ts = Inr e' \<Longrightarrow> (status e, status e') \<in> (allowed_rel allowed)\<^sup>*"
proof (induction ts arbitrary: e)
  case (Cons p ts)
  obtain t x where p: "p = (t, x)" by (cases p)
  from Cons.prems p obtain e1 where e1: "go e t x = Inr e1" and rest: "run_transitions go e1 ts = Inr e'"
    by (auto split: sum.splits)
  from e1 have "(status e, status e1) \<in> (allowed_rel allowed)\<^sup>*"
    by (auto simp: allowed_rel_def dest!: go_cases)
  then show ?case using Cons.IH [OF rest] by (rule rtrancl_trans)
qed simp

lemma reach_runs:
  assumes "(a, b) \<in> (allowed_rel allowed)\<^sup>*"
  shows "status e = a \<Longrightarrow> \<exists>ts e'. run_transitions go e ts = Inr e' \<and> status e' = b"
  using assms
proof (induction arbitrary: e rule: converse_rtrancl_induct)
  case base
  then show ?case by (intro exI [of _ "[]"]) simp
next
  case (step a c)
  obtain e1 where e1: "go e c undefined = Inr e1"
    using go_accepts [of e c undefined] step by (auto simp: allowed_rel_def)
  then have "status e1 = c" by (rule go_status)
  from step.IH [OF this] obtain ts e' where "run_transitions go e1 ts = Inr e'" "status e' = b"
    by blast
  with e1 show ?case by (intro exI [of _ "(c, undefined) # ts"]) simp
qed

end

end
