(* ===== verification/Models.thy ===== *)
theory Models
  imports Interfaces
begin

text \<open>
  The domain model of \<open>core/enums.py\<close>, \<open>core/models.py\<close>, \<open>core/memory/model.py\<close> (the
  document), \<open>core/manager/model.py\<close> (plan and decision) and \<open>core/events/model.py\<close>: the
  enumerations with their string values, the data classes as records, and the exceptions of
  \<open>core/errors.py\<close> as an error datatype. Fields carry a prefix per class: \<open>t_\<close> for tasks,
  \<open>w_\<close> for worker manifests, \<open>p_\<close> projects, \<open>d_\<close> dependencies, \<open>a_\<close> artifacts, \<open>m_\<close> memory
  documents, \<open>e_\<close> events, \<open>pl_\<close> plans, \<open>md_\<close> manager decisions, \<open>o_\<close> worker outputs.
\<close>

section \<open>Enumerations\<close>

datatype project_status =
  P_ACTIVE
| P_PAUSED
| P_ARCHIVED

primrec project_status_value :: "project_status \<Rightarrow> string" where
  "project_status_value P_ACTIVE = ''ACTIVE''"
| "project_status_value P_PAUSED = ''PAUSED''"
| "project_status_value P_ARCHIVED = ''ARCHIVED''"

definition project_status_all :: "project_status list" where
  "project_status_all = [P_ACTIVE, P_PAUSED, P_ARCHIVED]"

definition project_status_of :: "string \<Rightarrow> project_status option" where
  "project_status_of s = find (\<lambda>x. project_status_value x = s) project_status_all"

lemma project_status_of_value [simp]: "project_status_of (project_status_value x) = Some x"
  by (cases x) (simp_all add: project_status_of_def project_status_all_def)

datatype worker_status =
  W_REGISTERED
| W_IDLE
| W_ASSIGNED
| W_RUNNING
| W_REPORTING
| W_FAILED
| W_ERROR
| W_TERMINATED

primrec worker_status_value :: "worker_status \<Rightarrow> string" where
  "worker_status_value W_REGISTERED = ''REGISTERED''"
| "worker_status_value W_IDLE = ''IDLE''"
| "worker_status_value W_ASSIGNED = ''ASSIGNED''"
| "worker_status_value W_RUNNING = ''RUNNING''"
| "worker_status_value W_REPORTING = ''REPORTING''"
| "worker_status_value W_FAILED = ''FAILED''"
| "worker_status_value W_ERROR = ''ERROR''"
| "worker_status_value W_TERMINATED = ''TERMINATED''"

definition worker_status_all :: "worker_status list" where
  "worker_status_all = [W_REGISTERED, W_IDLE, W_ASSIGNED, W_RUNNING, W_REPORTING, W_FAILED, W_ERROR, W_TERMINATED]"

definition worker_status_of :: "string \<Rightarrow> worker_status option" where
  "worker_status_of s = find (\<lambda>x. worker_status_value x = s) worker_status_all"

lemma worker_status_of_value [simp]: "worker_status_of (worker_status_value x) = Some x"
  by (cases x) (simp_all add: worker_status_of_def worker_status_all_def)

datatype task_status =
  T_PENDING
| T_READY
| T_ASSIGNED
| T_RUNNING
| T_BLOCKED
| T_VERIFYING
| T_AWAITING_APPROVAL
| T_COMPLETED
| T_FAILED
| T_CANCELLED
| T_RETRYING

primrec task_status_value :: "task_status \<Rightarrow> string" where
  "task_status_value T_PENDING = ''PENDING''"
| "task_status_value T_READY = ''READY''"
| "task_status_value T_ASSIGNED = ''ASSIGNED''"
| "task_status_value T_RUNNING = ''RUNNING''"
| "task_status_value T_BLOCKED = ''BLOCKED''"
| "task_status_value T_VERIFYING = ''VERIFYING''"
| "task_status_value T_AWAITING_APPROVAL = ''AWAITING_APPROVAL''"
| "task_status_value T_COMPLETED = ''COMPLETED''"
| "task_status_value T_FAILED = ''FAILED''"
| "task_status_value T_CANCELLED = ''CANCELLED''"
| "task_status_value T_RETRYING = ''RETRYING''"

definition task_status_all :: "task_status list" where
  "task_status_all = [T_PENDING, T_READY, T_ASSIGNED, T_RUNNING, T_BLOCKED, T_VERIFYING, T_AWAITING_APPROVAL, T_COMPLETED, T_FAILED, T_CANCELLED, T_RETRYING]"

definition task_status_of :: "string \<Rightarrow> task_status option" where
  "task_status_of s = find (\<lambda>x. task_status_value x = s) task_status_all"

lemma task_status_of_value [simp]: "task_status_of (task_status_value x) = Some x"
  by (cases x) (simp_all add: task_status_of_def task_status_all_def)

datatype risk_level =
  R_LOW
| R_MEDIUM
| R_HIGH
| R_CRITICAL

primrec risk_level_value :: "risk_level \<Rightarrow> string" where
  "risk_level_value R_LOW = ''LOW''"
| "risk_level_value R_MEDIUM = ''MEDIUM''"
| "risk_level_value R_HIGH = ''HIGH''"
| "risk_level_value R_CRITICAL = ''CRITICAL''"

definition risk_level_all :: "risk_level list" where
  "risk_level_all = [R_LOW, R_MEDIUM, R_HIGH, R_CRITICAL]"

definition risk_level_of :: "string \<Rightarrow> risk_level option" where
  "risk_level_of s = find (\<lambda>x. risk_level_value x = s) risk_level_all"

lemma risk_level_of_value [simp]: "risk_level_of (risk_level_value x) = Some x"
  by (cases x) (simp_all add: risk_level_of_def risk_level_all_def)

datatype artifact_type =
  A_FILE
| A_REPORT
| A_PATCH
| A_OUTPUT
| A_RESOURCE

primrec artifact_type_value :: "artifact_type \<Rightarrow> string" where
  "artifact_type_value A_FILE = ''FILE''"
| "artifact_type_value A_REPORT = ''REPORT''"
| "artifact_type_value A_PATCH = ''PATCH''"
| "artifact_type_value A_OUTPUT = ''OUTPUT''"
| "artifact_type_value A_RESOURCE = ''RESOURCE''"

definition artifact_type_all :: "artifact_type list" where
  "artifact_type_all = [A_FILE, A_REPORT, A_PATCH, A_OUTPUT, A_RESOURCE]"

definition artifact_type_of :: "string \<Rightarrow> artifact_type option" where
  "artifact_type_of s = find (\<lambda>x. artifact_type_value x = s) artifact_type_all"

lemma artifact_type_of_value [simp]: "artifact_type_of (artifact_type_value x) = Some x"
  by (cases x) (simp_all add: artifact_type_of_def artifact_type_all_def)

datatype dependency_type =
  D_STRICT_SUCCESS
| D_COMPLETION_ANY

primrec dependency_type_value :: "dependency_type \<Rightarrow> string" where
  "dependency_type_value D_STRICT_SUCCESS = ''STRICT_SUCCESS''"
| "dependency_type_value D_COMPLETION_ANY = ''COMPLETION_ANY''"

definition dependency_type_all :: "dependency_type list" where
  "dependency_type_all = [D_STRICT_SUCCESS, D_COMPLETION_ANY]"

definition dependency_type_of :: "string \<Rightarrow> dependency_type option" where
  "dependency_type_of s = find (\<lambda>x. dependency_type_value x = s) dependency_type_all"

lemma dependency_type_of_value [simp]: "dependency_type_of (dependency_type_value x) = Some x"
  by (cases x) (simp_all add: dependency_type_of_def dependency_type_all_def)

datatype memory_type =
  M_PROJECT_MAP
| M_ARCHITECTURE
| M_CURRENT_STATE
| M_DECISION
| M_TASK_MEMORY
| M_REPORT
| M_ISSUE
| M_NOTE

primrec memory_type_value :: "memory_type \<Rightarrow> string" where
  "memory_type_value M_PROJECT_MAP = ''PROJECT_MAP''"
| "memory_type_value M_ARCHITECTURE = ''ARCHITECTURE''"
| "memory_type_value M_CURRENT_STATE = ''CURRENT_STATE''"
| "memory_type_value M_DECISION = ''DECISION''"
| "memory_type_value M_TASK_MEMORY = ''TASK_MEMORY''"
| "memory_type_value M_REPORT = ''REPORT''"
| "memory_type_value M_ISSUE = ''ISSUE''"
| "memory_type_value M_NOTE = ''NOTE''"

definition memory_type_all :: "memory_type list" where
  "memory_type_all = [M_PROJECT_MAP, M_ARCHITECTURE, M_CURRENT_STATE, M_DECISION, M_TASK_MEMORY, M_REPORT, M_ISSUE, M_NOTE]"

definition memory_type_of :: "string \<Rightarrow> memory_type option" where
  "memory_type_of s = find (\<lambda>x. memory_type_value x = s) memory_type_all"

lemma memory_type_of_value [simp]: "memory_type_of (memory_type_value x) = Some x"
  by (cases x) (simp_all add: memory_type_of_def memory_type_all_def)


section \<open>Data classes\<close>

record project =
  p_id :: string
  p_name :: string
  p_description :: string
  p_root_path :: string
  p_status :: project_status
  p_configuration :: pydict
  p_created_at :: string
  p_updated_at :: string

record worker =
  w_id :: string
  w_name :: string
  w_role :: string
  w_description :: string
  w_version :: string
  w_capabilities :: "string list"
  w_permissions :: "string list"
  w_tools :: "string list"
  w_model_policy :: pydict
  w_status :: worker_status
  w_active_task_id :: "string option"
  w_created_at :: string
  w_updated_at :: string

record task =
  t_id :: string
  t_project_id :: string
  t_title :: string
  t_objective :: string
  t_parent_task_id :: "string option"
  t_status :: task_status
  t_priority :: int
  t_risk :: risk_level
  t_assigned_worker :: "string option"
  t_dependencies :: "string list"
  t_success_criteria :: "pyval list"
  t_context_references :: "pyval list"
  t_artifacts :: "string list"
  t_attempts :: int
  t_max_attempts :: int
  t_metadata :: pydict
  t_created_at :: string
  t_started_at :: "string option"
  t_completed_at :: "string option"

record dependency =
  d_id :: string
  d_dependent_task_id :: string
  d_prerequisite_task_id :: string
  d_dependency_type :: dependency_type
  d_created_at :: string

record artifact =
  a_id :: string
  a_project_id :: string
  a_task_id :: string
  a_worker_id :: string
  a_type :: artifact_type
  a_path :: string
  a_description :: string
  a_checksum :: "string option"
  a_metadata :: pydict
  a_created_at :: string

record evidence =
  ev_id :: string
  ev_task_id :: string
  ev_evidence_type :: string
  ev_data :: string
  ev_checksum :: "string option"
  ev_created_at :: string

record worker_output =
  o_success :: bool
  o_summary :: string
  o_report_markdown :: string
  o_created_artifacts :: "pyval list"
  o_evidence_list :: "evidence list"
  o_error_message :: "string option"
  o_metadata :: pydict

record memory_document =
  m_id :: string
  m_project_id :: string
  m_memory_type :: memory_type
  m_title :: string
  m_relative_path :: string
  m_content :: string
  m_summary :: string
  m_tags :: "string list"
  m_references :: "string list"
  m_related_task_id :: "string option"
  m_related_worker_id :: "string option"
  m_version :: int
  m_checksum :: "string option"
  m_metadata :: pydict
  m_created_at :: string
  m_updated_at :: string

text \<open>
  \<open>EventType\<close> is a string enumeration of 214 members whose values are their names; an event
  type is represented by that string.
\<close>

type_synonym event_type = string

record event =
  e_event_id :: string
  e_event_type :: event_type
  e_timestamp :: string
  e_source :: string
  e_correlation_id :: string
  e_payload :: pydict
  e_sequence_number :: "int option"
  e_project_id :: "string option"
  e_task_id :: "string option"
  e_worker_id :: "string option"
  e_artifact_id :: "string option"
  e_causation_id :: "string option"
  e_schema_version :: int
  e_metadata :: pydict

record plan =
  pl_id :: string
  pl_project_id :: string
  pl_objective :: string
  pl_tasks :: "pyval list"
  pl_milestones :: "string list"
  pl_dependencies :: pydict
  pl_status :: string
  pl_version :: int
  pl_created_at :: string
  pl_updated_at :: string
  pl_metadata :: pydict

record manager_action =
  ma_action_type :: string
  ma_parameters :: pydict
  ma_rationale :: string

record manager_decision =
  md_decision_id :: string
  md_cycle_id :: string
  md_project_id :: string
  md_reasoning_summary :: string
  md_actions :: "manager_action list"
  md_assumptions :: "string list"
  md_risks :: "string list"
  md_confidence_level :: string
  md_plan_update :: "pydict option"
  md_metadata :: pydict
  md_created_at :: string


section \<open>Errors\<close>

text \<open>
  One constructor per exception class of \<open>core/errors.py\<close> with the arguments of its
  initialiser, and the exceptions Python itself raises in the modelled code.
\<close>

datatype error =
  ProjectNotFoundError string
| ProjectAlreadyExistsError string
| WorkerNotFoundError string
| WorkerAlreadyExistsError string
| WorkerNotEligibleError string string
| WorkerBusyError string string
| InvalidWorkerTransitionError string string string
| WorkerActivationFailedError string string "string option" bool string
| ResearcherActivationFailed string string "string option" bool string
| TaskNotFoundError string
| TaskAlreadyAssignedError string string
| TaskAlreadyCompletedError string
| InvalidTaskTransitionError string string string "string option"
| DependencyNotSatisfiedError string "string list"
| DependencyCycleError string string
| ExecutionFailedError string string string
| PersistenceError string string
| ArtifactNotFoundError string
| MemoryNotFoundError string "string option"
| MemoryAlreadyExistsError string
| MemoryValidationError string "string list"
| MemoryConflictError string int int
| ToolNotFoundError string
| ToolPermissionDeniedError string string "string list"
| ToolArgumentValidationError string "string list"
| ToolExecutionError string string "int option"
| ToolTimeoutError string int
| ToolWorkspaceViolationError string string
| ToolOutputLimitError string int int
| ToolUnavailableError string string
| ValidationError string pydict
| AttributeError string
| KeyError string
| TypeError string
| ValueError string
| OtherException string

primrec error_code :: "error \<Rightarrow> string option" where
  "error_code (ProjectNotFoundError _) = Some ''PROJECT_NOT_FOUND''"
| "error_code (ProjectAlreadyExistsError _) = Some ''PROJECT_ALREADY_EXISTS''"
| "error_code (WorkerNotFoundError _) = Some ''WORKER_NOT_FOUND''"
| "error_code (WorkerAlreadyExistsError _) = Some ''WORKER_ALREADY_EXISTS''"
| "error_code (WorkerNotEligibleError _ _) = Some ''WORKER_NOT_ELIGIBLE''"
| "error_code (WorkerBusyError _ _) = Some ''WORKER_BUSY''"
| "error_code (InvalidWorkerTransitionError _ _ _) = Some ''INVALID_WORKER_TRANSITION''"
| "error_code (WorkerActivationFailedError _ _ _ _ _) = Some ''WORKER_ACTIVATION_FAILED''"
| "error_code (ResearcherActivationFailed _ _ _ _ _) = Some ''WORKER_ACTIVATION_FAILED''"
| "error_code (TaskNotFoundError _) = Some ''TASK_NOT_FOUND''"
| "error_code (TaskAlreadyAssignedError _ _) = Some ''TASK_ALREADY_ASSIGNED''"
| "error_code (TaskAlreadyCompletedError _) = Some ''TASK_ALREADY_COMPLETED''"
| "error_code (InvalidTaskTransitionError _ _ _ _) = Some ''INVALID_TASK_TRANSITION''"
| "error_code (DependencyNotSatisfiedError _ _) = Some ''DEPENDENCY_NOT_SATISFIED''"
| "error_code (DependencyCycleError _ _) = Some ''DEPENDENCY_CYCLE_DETECTED''"
| "error_code (ExecutionFailedError _ _ _) = Some ''EXECUTION_FAILED''"
| "error_code (PersistenceError _ _) = Some ''PERSISTENCE_ERROR''"
| "error_code (ArtifactNotFoundError _) = Some ''ARTIFACT_NOT_FOUND''"
| "error_code (MemoryNotFoundError _ _) = Some ''MEMORY_NOT_FOUND''"
| "error_code (MemoryAlreadyExistsError _) = Some ''MEMORY_ALREADY_EXISTS''"
| "error_code (MemoryValidationError _ _) = Some ''MEMORY_VALIDATION_ERROR''"
| "error_code (MemoryConflictError _ _ _) = Some ''MEMORY_CONFLICT''"
| "error_code (ToolNotFoundError _) = Some ''TOOL_NOT_FOUND''"
| "error_code (ToolPermissionDeniedError _ _ _) = Some ''TOOL_PERMISSION_DENIED''"
| "error_code (ToolArgumentValidationError _ _) = Some ''TOOL_ARGUMENT_VALIDATION_ERROR''"
| "error_code (ToolExecutionError _ _ _) = Some ''TOOL_EXECUTION_ERROR''"
| "error_code (ToolTimeoutError _ _) = Some ''TOOL_TIMEOUT''"
| "error_code (ToolWorkspaceViolationError _ _) = Some ''TOOL_WORKSPACE_VIOLATION''"
| "error_code (ToolOutputLimitError _ _ _) = Some ''TOOL_OUTPUT_LIMIT_EXCEEDED''"
| "error_code (ToolUnavailableError _ _) = Some ''TOOL_UNAVAILABLE''"
| "error_code (ValidationError _ _) = Some ''VALIDATION_ERROR''"
| "error_code (AttributeError _) = None"
| "error_code (KeyError _) = None"
| "error_code (TypeError _) = None"
| "error_code (ValueError _) = None"
| "error_code (OtherException _) = None"

end
