(* ===== verification/State_Machines.thy ===== *)
theory State_Machines
  imports Models
begin

text \<open>
  The task and worker life cycles of \<open>core/task/state_machine.py\<close> and
  \<open>core/worker/state_machine.py\<close>: the two transition tables, the validated in-place
  transitions (here from record to record, with the clock reading passed in), and what the
  tables promise. Both are interpretations of the \<open>lifecycle\<close> interface.
\<close>

section \<open>Tasks\<close>

primrec task_allowed_transitions :: "task_status \<Rightarrow> task_status list" where
  "task_allowed_transitions T_PENDING = [T_READY, T_BLOCKED, T_CANCELLED]"
| "task_allowed_transitions T_READY = [T_ASSIGNED, T_BLOCKED, T_CANCELLED]"
| "task_allowed_transitions T_ASSIGNED = [T_RUNNING, T_READY, T_BLOCKED, T_CANCELLED]"
| "task_allowed_transitions T_RUNNING =
     [T_VERIFYING, T_AWAITING_APPROVAL, T_COMPLETED, T_BLOCKED, T_RETRYING, T_FAILED, T_CANCELLED]"
| "task_allowed_transitions T_BLOCKED = [T_READY, T_PENDING, T_CANCELLED]"
| "task_allowed_transitions T_VERIFYING =
     [T_COMPLETED, T_AWAITING_APPROVAL, T_RETRYING, T_FAILED, T_CANCELLED]"
| "task_allowed_transitions T_AWAITING_APPROVAL =
     [T_COMPLETED, T_RUNNING, T_RETRYING, T_FAILED, T_CANCELLED]"
| "task_allowed_transitions T_RETRYING = [T_READY, T_RUNNING, T_FAILED, T_CANCELLED]"
| "task_allowed_transitions T_COMPLETED = []"
| "task_allowed_transitions T_FAILED = [T_RETRYING]"
| "task_allowed_transitions T_CANCELLED = []"

definition task_can_transition :: "task_status \<Rightarrow> task_status \<Rightarrow> bool" where
  "task_can_transition current target \<longleftrightarrow> target \<in> set (task_allowed_transitions current)"

text \<open>
  \<open>now\<close> is the reading of \<open>utc_now()\<close>. The default reason quotes the two statuses.
\<close>

definition task_transition :: "task \<Rightarrow> task_status \<Rightarrow> string option \<Rightarrow> string \<Rightarrow> error + task" where
  "task_transition t target reason now =
     (let current = t_status t in
      if current = target then Inr t
      else if \<not> task_can_transition current target then
        Inl (InvalidTaskTransitionError (t_id t) (task_status_value current) (task_status_value target)
          (Some (or_else reason
             (''Transition from '' @ task_status_value current @ '' to '' @ task_status_value target
              @ '' is not permitted.''))))
      else
        let t1 = t\<lparr>t_status := target\<rparr> in
        if target = T_RUNNING \<and> \<not> given (t_started_at t1) then Inr (t1\<lparr>t_started_at := Some now\<rparr>)
        else if target \<in> {T_COMPLETED, T_FAILED, T_CANCELLED} then Inr (t1\<lparr>t_completed_at := Some now\<rparr>)
        else Inr t1)"

lemma task_transition_Inr:
  assumes "task_transition t target reason now = Inr t'"
  shows "t_status t' = target" "t_id t' = t_id t" "t_assigned_worker t' = t_assigned_worker t"
    "t_attempts t' = t_attempts t" "t_max_attempts t' = t_max_attempts t"
    "t_dependencies t' = t_dependencies t" "t_project_id t' = t_project_id t"
    "t_status t = target \<or> task_can_transition (t_status t) target"
  using assms by (auto simp: task_transition_def Let_def split: if_splits)

lemma task_transition_accepts:
  "(\<exists>t'. task_transition t target reason now = Inr t') \<longleftrightarrow>
    target = t_status t \<or> task_can_transition (t_status t) target"
  by (auto simp: task_transition_def Let_def)

lemma task_transition_Inl:
  "task_transition t target reason now = Inl e \<Longrightarrow>
    target \<noteq> t_status t \<and> \<not> task_can_transition (t_status t) target"
  by (auto simp: task_transition_def Let_def split: if_splits)

interpretation task_lc: lifecycle task_allowed_transitions t_status
  "\<lambda>t target (reason, now). task_transition t target reason now"
proof unfold_locales
  show "t_status e' = t"
    if "(\<lambda>(reason, now). task_transition e t reason now) x = Inr e'" for e t x e'
    using that by (cases x) (auto dest: task_transition_Inr)
  show "(\<exists>e'. (\<lambda>(reason, now). task_transition e t reason now) x = Inr e') \<longleftrightarrow>
      t = t_status e \<or> t \<in> set (task_allowed_transitions (t_status e))" for e t x
    by (cases x) (auto simp: task_transition_accepts task_can_transition_def)
qed

abbreviation task_run :: "task \<Rightarrow> (task_status \<times> string option \<times> string) list \<Rightarrow> error + task" where
  "task_run \<equiv> run_transitions (\<lambda>t target (reason, now). task_transition t target reason now)"


section \<open>Workers\<close>

primrec worker_allowed_transitions :: "worker_status \<Rightarrow> worker_status list" where
  "worker_allowed_transitions W_REGISTERED = [W_IDLE, W_TERMINATED]"
| "worker_allowed_transitions W_IDLE = [W_ASSIGNED, W_TERMINATED, W_ERROR]"
| "worker_allowed_transitions W_ASSIGNED = [W_RUNNING, W_IDLE, W_FAILED, W_ERROR]"
| "worker_allowed_transitions W_RUNNING = [W_REPORTING, W_IDLE, W_FAILED, W_ERROR, W_TERMINATED]"
| "worker_allowed_transitions W_REPORTING = [W_IDLE, W_FAILED, W_ERROR]"
| "worker_allowed_transitions W_FAILED = [W_IDLE, W_RUNNING, W_TERMINATED]"
| "worker_allowed_transitions W_ERROR = [W_IDLE, W_TERMINATED]"
| "worker_allowed_transitions W_TERMINATED = []"

definition worker_can_transition :: "worker_status \<Rightarrow> worker_status \<Rightarrow> bool" where
  "worker_can_transition current target \<longleftrightarrow> target \<in> set (worker_allowed_transitions current)"

definition worker_transition :: "worker \<Rightarrow> worker_status \<Rightarrow> string option \<Rightarrow> string \<Rightarrow> error + worker" where
  "worker_transition w target active now =
     (let current = w_status w in
      if current = target then Inr (w\<lparr>w_active_task_id := active\<rparr>)
      else if \<not> worker_can_transition current target then
        Inl (InvalidWorkerTransitionError (w_id w) (worker_status_value current) (worker_status_value target))
      else
        let w1 = w\<lparr>w_status := target\<rparr>;
            w2 = (if target \<in> {W_IDLE, W_TERMINATED} then w1\<lparr>w_active_task_id := None\<rparr>
                  else if active \<noteq> None then w1\<lparr>w_active_task_id := active\<rparr>
                  else w1)
        in Inr (w2\<lparr>w_updated_at := now\<rparr>))"

lemma worker_transition_Inr:
  assumes "worker_transition w target active now = Inr w'"
  shows "w_status w' = target" "w_id w' = w_id w" "w_permissions w' = w_permissions w"
    "w_role w' = w_role w"
    "w_status w = target \<or> worker_can_transition (w_status w) target"
    "w_active_task_id w' =
      (if w_status w = target then active
       else if target \<in> {W_IDLE, W_TERMINATED} then None
       else if active \<noteq> None then active else w_active_task_id w)"
  using assms by (auto simp: worker_transition_def Let_def split: if_splits)

lemma worker_transition_accepts:
  "(\<exists>w'. worker_transition w target active now = Inr w') \<longleftrightarrow>
    target = w_status w \<or> worker_can_transition (w_status w) target"
  by (auto simp: worker_transition_def Let_def)

lemma worker_transition_Inl:
  "worker_transition w target active now = Inl e \<Longrightarrow>
    target \<noteq> w_status w \<and> \<not> worker_can_transition (w_status w) target"
  by (auto simp: worker_transition_def Let_def split: if_splits)

interpretation worker_lc: lifecycle worker_allowed_transitions w_status
  "\<lambda>w target (active, now). worker_transition w target active now"
proof unfold_locales
  show "w_status e' = t"
    if "(\<lambda>(active, now). worker_transition e t active now) x = Inr e'" for e t x e'
    using that by (cases x) (auto dest: worker_transition_Inr)
  show "(\<exists>e'. (\<lambda>(active, now). worker_transition e t active now) x = Inr e') \<longleftrightarrow>
      t = w_status e \<or> t \<in> set (worker_allowed_transitions (w_status e))" for e t x
    by (cases x) (auto simp: worker_transition_accepts worker_can_transition_def)
qed

abbreviation worker_run :: "worker \<Rightarrow> (worker_status \<times> string option \<times> string) list \<Rightarrow> error + worker" where
  "worker_run \<equiv> run_transitions (\<lambda>w target (active, now). worker_transition w target active now)"

lemmas transition_defs = task_transition_def worker_transition_def task_can_transition_def
  worker_can_transition_def


section \<open>The statuses of a task that occupies a worker\<close>

text \<open>A worker in one of these statuses is assigned to, or executing, a task.\<close>

definition worker_engaged :: "worker_status \<Rightarrow> bool" where
  "worker_engaged st \<longleftrightarrow> st \<in> {W_ASSIGNED, W_RUNNING, W_REPORTING}"

section \<open>Samples\<close>

text \<open>A task and a worker in a given status, for the witnesses of this and later theories.\<close>

definition sample_task :: "string \<Rightarrow> task_status \<Rightarrow> task" where
  "sample_task tid st = \<lparr>t_id = tid, t_project_id = ''p'', t_title = ''T'', t_objective = ''O'',
     t_parent_task_id = None, t_status = st, t_priority = 1, t_risk = R_LOW, t_assigned_worker = None,
     t_dependencies = [], t_success_criteria = [], t_context_references = [], t_artifacts = [],
     t_attempts = 0, t_max_attempts = 3, t_metadata = [], t_created_at = ''c'', t_started_at = None,
     t_completed_at = None\<rparr>"

lemma sample_task_simps [simp]:
  "t_id (sample_task tid st) = tid" "t_status (sample_task tid st) = st"
  by (simp_all add: sample_task_def)

definition sample_worker :: "string \<Rightarrow> worker_status \<Rightarrow> worker" where
  "sample_worker wid st = \<lparr>w_id = wid, w_name = ''W'', w_role = ''Programmer'', w_description = ''D'',
     w_version = ''1.0'', w_capabilities = [''code''], w_permissions = [''file_read''], w_tools = [],
     w_model_policy = [], w_status = st, w_active_task_id = None, w_created_at = ''c'', w_updated_at = ''c''\<rparr>"

lemma sample_worker_simps [simp]:
  "w_id (sample_worker wid st) = wid" "w_status (sample_worker wid st) = st"
  "w_active_task_id (sample_worker wid st) = None"
  by (simp_all add: sample_worker_def)

definition sample_task_run :: "(task_status \<times> string option \<times> string) list" where
  "sample_task_run = map (\<lambda>st. (st, None, ''now'')) [T_READY, T_ASSIGNED, T_RUNNING, T_COMPLETED]"


section \<open>Properties\<close>

lemma task_executing_entry:
  "task_can_transition a b \<Longrightarrow> a \<in> {T_PENDING, T_READY, T_ASSIGNED, T_BLOCKED} \<Longrightarrow>
    b \<in> {T_PENDING, T_READY, T_ASSIGNED, T_BLOCKED, T_CANCELLED, T_RUNNING}"
  by (cases a) (auto simp: task_can_transition_def)

text \<open>
  \<open>COMPLETED\<close> and \<open>CANCELLED\<close> are final: whatever sequence of transitions is requested of such a
  task, as long as none is refused the task keeps its status; and every other status has a successor.
\<close>

theorem task_final_statuses:
  "(\<forall>ts t'. task_run t ts = Inr t' \<longrightarrow> t_status t' = t_status t) \<longleftrightarrow> t_status t \<in> {T_COMPLETED, T_CANCELLED}"
proof
  assume final: "\<forall>ts t'. task_run t ts = Inr t' \<longrightarrow> t_status t' = t_status t"
  show "t_status t \<in> {T_COMPLETED, T_CANCELLED}"
  proof (rule ccontr)
    assume "t_status t \<notin> {T_COMPLETED, T_CANCELLED}"
    then obtain b where b: "b \<in> set (task_allowed_transitions (t_status t))" "b \<noteq> t_status t"
      by (cases "t_status t") auto
    then have "(t_status t, b) \<in> (allowed_rel task_allowed_transitions)\<^sup>*" by (auto simp: allowed_rel_def)
    from task_lc.reach_runs [OF this refl] final b(2) show False by metis
  qed
next
  assume "t_status t \<in> {T_COMPLETED, T_CANCELLED}"
  then have "task_allowed_transitions (t_status t) = []" by auto
  then show "\<forall>ts t'. task_run t ts = Inr t' \<longrightarrow> t_status t' = t_status t"
    by (blast intro: task_lc.run_terminal)
qed

theorem task_final_statuses_witness:
  "t_status (projr (task_run (sample_task ''a'' T_CANCELLED) [(T_CANCELLED, None, ''now'')])) = T_CANCELLED"
proof -
  let ?run = "task_run (sample_task ''a'' T_CANCELLED) [(T_CANCELLED, None, ''now'')]"
  have "\<not> isl ?run" by code_simp
  then obtain t' where "?run = Inr t'" by (cases ?run) simp_all
  moreover from this task_final_statuses [of "sample_task ''a'' T_CANCELLED"] have "t_status t' = T_CANCELLED"
    by (metis insertI1 insertI2 sample_task_simps(2))
  ultimately show ?thesis by simp
qed

lemma task_started_invariant:
  assumes "task_run t ts = Inr t'"
    and "t_status t \<in> {T_PENDING, T_READY, T_ASSIGNED, T_BLOCKED, T_CANCELLED} \<or> t_started_at t \<noteq> None"
  shows "t_status t' \<in> {T_PENDING, T_READY, T_ASSIGNED, T_BLOCKED, T_CANCELLED} \<or> t_started_at t' \<noteq> None"
  using assms
proof (induction ts arbitrary: t)
  case (Cons p ts)
  obtain target reason now where p: "p = (target, reason, now)" by (cases p)
  with Cons.prems(1) obtain t1 where t1: "task_transition t target reason now = Inr t1" and rest: "task_run t1 ts = Inr t'"
    by (auto split: sum.splits)
  have "t_status t1 \<in> {T_PENDING, T_READY, T_ASSIGNED, T_BLOCKED, T_CANCELLED} \<or> t_started_at t1 \<noteq> None"
  proof (cases "t_status t = target")
    case False
    with t1 have "task_can_transition (t_status t) target" by (auto dest: task_transition_Inr(8))
    with t1 False Cons.prems(2) task_executing_entry [of "t_status t" target] show ?thesis
      by (cases "target = T_RUNNING") (auto simp: task_transition_def Let_def task_can_transition_def given_def split: if_splits)
  qed (use t1 Cons.prems(2) in \<open>simp add: task_transition_def\<close>)
  with rest show ?case by (rule Cons.IH)
qed simp

text \<open>
  No task is completed without having been started: a run of transitions that takes a task which
  has not begun executing to \<open>COMPLETED\<close> or \<open>FAILED\<close> passes through \<open>RUNNING\<close>, and leaves
  both time stamps set.
\<close>

theorem task_completion_requires_running:
  assumes "task_run t ts = Inr t'" and "t_status t \<in> {T_PENDING, T_READY, T_ASSIGNED, T_BLOCKED}"
    and "t_status t' \<in> {T_COMPLETED, T_FAILED}"
  shows "T_RUNNING \<in> fst ` set ts \<and> t_started_at t' \<noteq> None"
proof
  show "t_started_at t' \<noteq> None" using task_started_invariant [OF assms(1)] assms(2,3) by auto
  show "T_RUNNING \<in> fst ` set ts"
    using assms
  proof (induction ts arbitrary: t)
    case (Cons p ts)
    obtain target reason now where p: "p = (target, reason, now)" by (cases p)
    with Cons.prems(1) obtain t1 where t1: "task_transition t target reason now = Inr t1" and rest: "task_run t1 ts = Inr t'"
      by (auto split: sum.splits)
    have st: "t_status t1 = target" using t1 by (rule task_transition_Inr)
    consider "target = T_RUNNING" | "t_status t1 \<in> {T_PENDING, T_READY, T_ASSIGNED, T_BLOCKED}" | "target = T_CANCELLED"
      using task_executing_entry [of "t_status t" target] task_transition_Inr(8) [OF t1] Cons.prems(2) st by auto
    then show ?case
    proof cases
      case 2
      with Cons.IH [OF rest] Cons.prems(3) show ?thesis by simp
    next
      case 3
      then have "t_status t' = T_CANCELLED" using task_lc.run_terminal [OF _ rest] st by simp
      with Cons.prems(3) show ?thesis by simp
    qed (simp add: p)
  qed auto
qed

theorem task_completion_requires_running_witness:
  "T_RUNNING \<in> fst ` set sample_task_run
    \<and> t_started_at (projr (task_run (sample_task ''a'' T_PENDING) sample_task_run)) \<noteq> None"
proof -
  have "\<not> isl (task_run (sample_task ''a'' T_PENDING) sample_task_run)" by code_simp
  moreover have "t_status (projr (task_run (sample_task ''a'' T_PENDING) sample_task_run)) = T_COMPLETED" by code_simp
  ultimately show ?thesis
    by (intro task_completion_requires_running [of "sample_task ''a'' T_PENDING"]) simp_all
qed

lemma task_reach_running: "s \<notin> {T_COMPLETED, T_CANCELLED} \<Longrightarrow> (s, T_RUNNING) \<in> (allowed_rel task_allowed_transitions)\<^sup>*"
proof -
  have step: "(a, b) \<in> allowed_rel task_allowed_transitions" if "b \<in> set (task_allowed_transitions a)" for a b
    using that by (simp add: allowed_rel_def)
  have "(T_ASSIGNED, T_RUNNING) \<in> (allowed_rel task_allowed_transitions)\<^sup>*" by (rule r_into_rtrancl) (rule step, simp)
  then have r: "(T_READY, T_RUNNING) \<in> (allowed_rel task_allowed_transitions)\<^sup>*"
    by (rule converse_rtrancl_into_rtrancl [rotated]) (rule step, simp)
  assume "s \<notin> {T_COMPLETED, T_CANCELLED}"
  then consider "s = T_RUNNING" | "T_RUNNING \<in> set (task_allowed_transitions s)"
    | "T_READY \<in> set (task_allowed_transitions s)" | "s = T_READY"
    | "T_RETRYING \<in> set (task_allowed_transitions s)"
    by (cases s) auto
  then show ?thesis
  proof cases
    case 5
    have "(T_RETRYING, T_RUNNING) \<in> (allowed_rel task_allowed_transitions)\<^sup>*" by (rule r_into_rtrancl) (rule step, simp)
    with step [OF 5] show ?thesis by (rule converse_rtrancl_into_rtrancl)
  next
    case 3
    with r step show ?thesis by (blast intro: converse_rtrancl_into_rtrancl)
  qed (use r step in auto)
qed

text \<open>
  No task is stuck: from every status except \<open>COMPLETED\<close> and \<open>CANCELLED\<close> some sequence of
  accepted transitions ends in \<open>COMPLETED\<close>, and one ends in \<open>CANCELLED\<close>.
\<close>

theorem task_never_stuck:
  assumes "t_status t \<notin> {T_COMPLETED, T_CANCELLED}" and "goal \<in> {T_COMPLETED, T_CANCELLED}"
  shows "\<exists>ts t'. task_run t ts = Inr t' \<and> t_status t' = goal"
proof -
  have "(T_RUNNING, goal) \<in> allowed_rel task_allowed_transitions"
    using assms(2) by (auto simp: allowed_rel_def)
  with task_reach_running [OF assms(1)] have "(t_status t, goal) \<in> (allowed_rel task_allowed_transitions)\<^sup>*"
    by (rule rtrancl_into_rtrancl)
  from task_lc.reach_runs [OF this refl] show ?thesis .
qed

theorem task_never_stuck_witness:
  "\<exists>ts t'. task_run (sample_task ''a'' T_FAILED) ts = Inr t' \<and> t_status t' = T_COMPLETED"
  by (rule task_never_stuck) simp_all

text \<open>
  A worker that moves to \<open>IDLE\<close> or \<open>TERMINATED\<close> has no active task afterwards, whatever task the
  caller passes; a move to another status keeps the active task unless the caller passes one, and
  asking for the present status stores the task passed, even for an idle worker.
\<close>

theorem worker_active_task:
  "(\<exists>w'. worker_transition w target active now = Inr w') \<Longrightarrow>
    w_active_task_id (projr (worker_transition w target active now)) =
      (if w_status w = target then active
       else if target = W_IDLE \<or> target = W_TERMINATED then None
       else case active of None \<Rightarrow> w_active_task_id w | Some tid \<Rightarrow> Some tid)"
  by (auto simp: worker_transition_def Let_def split: if_splits option.splits)

theorem worker_active_task_witness:
  "w_active_task_id (projr (worker_transition (sample_worker ''w'' W_RUNNING) W_IDLE (Some ''a'') ''now'')) = None"
  using worker_active_task [of "sample_worker ''w'' W_RUNNING" W_IDLE "Some ''a''" "''now''"]
  by (simp add: worker_transition_accepts worker_can_transition_def)

text \<open>
  A terminated worker stays terminated, and every other worker can be brought back to \<open>IDLE\<close> by
  some sequence of accepted transitions.
\<close>

theorem worker_recoverable:
  "(\<exists>ts w'. worker_run w ts = Inr w' \<and> w_status w' = W_IDLE) \<longleftrightarrow> w_status w \<noteq> W_TERMINATED"
proof
  assume "\<exists>ts w'. worker_run w ts = Inr w' \<and> w_status w' = W_IDLE"
  then show "w_status w \<noteq> W_TERMINATED" using worker_lc.run_terminal [of w] by fastforce
next
  assume "w_status w \<noteq> W_TERMINATED"
  then have "w_status w = W_IDLE \<or> W_IDLE \<in> set (worker_allowed_transitions (w_status w))"
    by (cases "w_status w") auto
  then have "(w_status w, W_IDLE) \<in> (allowed_rel worker_allowed_transitions)\<^sup>*"
    by (auto simp: allowed_rel_def)
  from worker_lc.reach_runs [OF this refl] show "\<exists>ts w'. worker_run w ts = Inr w' \<and> w_status w' = W_IDLE" .
qed

end
