(* ===== verification/Errors.thy ===== *)
theory Errors
  imports State_Machines
begin

text \<open>
  What the exceptions of \<open>core/errors.py\<close> carry: the message, the details and the payload of
  \<open>to_dict\<close> that reaches the log and the clients. The codes are \<open>error_code\<close> of the data model. The
  exceptions of Python itself have a message but no payload.
\<close>

definition opt_int :: "int option \<Rightarrow> pyval" where
  "opt_int x = (case x of None \<Rightarrow> PNone | Some i \<Rightarrow> PInt i)"

primrec error_message :: "error \<Rightarrow> string" where
  "error_message (ProjectNotFoundError project_id) = ''Project with ID '' @ quoted project_id @ '' not found.''"
| "error_message (ProjectAlreadyExistsError project_id) =
     ''Project with ID '' @ quoted project_id @ '' already exists.''"
| "error_message (WorkerNotFoundError worker_id) = ''Worker with ID '' @ quoted worker_id @ '' not found.''"
| "error_message (WorkerAlreadyExistsError worker_id) =
     ''Worker with ID '' @ quoted worker_id @ '' is already registered.''"
| "error_message (WorkerNotEligibleError worker_id reason) =
     ''Worker '' @ quoted worker_id @ '' is not eligible: '' @ reason"
| "error_message (WorkerBusyError worker_id active_task_id) =
     ''Worker '' @ quoted worker_id @ '' is currently busy executing task '' @ quoted active_task_id @ ''.''"
| "error_message (InvalidWorkerTransitionError worker_id from_status to_status) =
     ''Invalid worker state transition from '' @ quoted from_status @ '' to '' @ quoted to_status
       @ '' for worker '' @ quoted worker_id @ ''.''"
| "error_message (WorkerActivationFailedError worker_id reason task_id retryable lifecycle_state) =
     ''Worker '' @ quoted worker_id @ '' activation failed: '' @ reason"
| "error_message (ResearcherActivationFailed worker_id reason task_id retryable lifecycle_state) =
     ''Worker '' @ quoted worker_id @ '' activation failed: '' @ reason"
| "error_message (TaskNotFoundError task_id) = ''Task with ID '' @ quoted task_id @ '' not found.''"
| "error_message (TaskAlreadyAssignedError task_id assigned_worker) =
     ''Task '' @ quoted task_id @ '' is already assigned to worker '' @ quoted assigned_worker @ ''.''"
| "error_message (TaskAlreadyCompletedError task_id) =
     ''Task '' @ quoted task_id @ '' is already completed and cannot be re-executed.''"
| "error_message (InvalidTaskTransitionError task_id from_status to_status reason) =
     ''Invalid task state transition from '' @ quoted from_status @ '' to '' @ quoted to_status
       @ '' for task '' @ quoted task_id @ ''.'' @ (if given reason then '' Reason: '' @ the reason else [])"
| "error_message (DependencyNotSatisfiedError task_id unfulfilled_dependencies) =
     ''Cannot execute task '' @ quoted task_id @ '': dependencies not satisfied: ''
       @ repr_val (str_list unfulfilled_dependencies)"
| "error_message (DependencyCycleError task_id prerequisite_id) =
     ''Adding dependency from '' @ quoted task_id @ '' to '' @ quoted prerequisite_id
       @ '' would create a circular dependency cycle.''"
| "error_message (ExecutionFailedError task_id worker_id cause) =
     ''Execution of task '' @ quoted task_id @ '' by worker '' @ quoted worker_id @ '' failed: '' @ cause"
| "error_message (PersistenceError operation cause) = ''Persistence error during '' @ quoted operation @ '': '' @ cause"
| "error_message (ArtifactNotFoundError artifact_id) = ''Artifact with ID '' @ quoted artifact_id @ '' not found.''"
| "error_message (MemoryNotFoundError memory_id path) =
     ''Memory document '' @ quoted memory_id @ '' not found.'' @ (if given path then '' (Path: ''
       @ the path @ '')'' else [])"
| "error_message (MemoryAlreadyExistsError identifier) =
     ''Memory document '' @ quoted identifier @ '' already exists.''"
| "error_message (MemoryValidationError memory_id issues) =
     ''Validation failed for memory document '' @ quoted memory_id @ '': '' @ repr_val (str_list issues)"
| "error_message (MemoryConflictError memory_id current_version expected_version) =
     ''Concurrent modification conflict on memory '' @ quoted memory_id @ '': current version is ''
       @ int_str current_version @ '', expected '' @ int_str expected_version @ ''.''"
| "error_message (ToolNotFoundError tool_id) = ''Tool with ID '' @ quoted tool_id @ '' not found in registry.''"
| "error_message (ToolPermissionDeniedError worker_id tool_id required_permissions) =
     ''Permission denied for worker '' @ quoted worker_id @ '' to execute tool '' @ quoted tool_id
       @ ''. Required: '' @ repr_val (str_list required_permissions)"
| "error_message (ToolArgumentValidationError tool_id errors) =
     ''Argument validation failed for tool '' @ quoted tool_id @ '': '' @ repr_val (str_list errors)"
| "error_message (ToolExecutionError tool_id message exit_code) =
     ''Execution of tool '' @ quoted tool_id @ '' failed: '' @ message"
| "error_message (ToolTimeoutError tool_id timeout_seconds) =
     ''Tool '' @ quoted tool_id @ '' timed out after '' @ int_str timeout_seconds @ '' seconds.''"
| "error_message (ToolWorkspaceViolationError attempted_path workspace_root) =
     ''Security violation: Attempted path '' @ quoted attempted_path
       @ '' escapes workspace boundary '' @ quoted workspace_root @ ''.''"
| "error_message (ToolOutputLimitError tool_id output_size limit_size) =
     ''Tool '' @ quoted tool_id @ '' exceeded output size limit: '' @ int_str output_size
       @ '' bytes (Limit: '' @ int_str limit_size @ '' bytes).''"
| "error_message (ToolUnavailableError tool_id reason) =
     ''Tool '' @ quoted tool_id @ '' is currently unavailable: '' @ reason"
| "error_message (ValidationError message details) = message"
| "error_message (AttributeError message) = message"
| "error_message (KeyError key) = repr_str key"
| "error_message (TypeError message) = message"
| "error_message (ValueError message) = message"
| "error_message (OtherException message) = message"

primrec error_details :: "error \<Rightarrow> pydict" where
  "error_details (ProjectNotFoundError project_id) = [(''project_id'', PStr project_id)]"
| "error_details (ProjectAlreadyExistsError project_id) = [(''project_id'', PStr project_id)]"
| "error_details (WorkerNotFoundError worker_id) = [(''worker_id'', PStr worker_id)]"
| "error_details (WorkerAlreadyExistsError worker_id) = [(''worker_id'', PStr worker_id)]"
| "error_details (WorkerNotEligibleError worker_id reason) =
     [(''worker_id'', PStr worker_id), (''reason'', PStr reason)]"
| "error_details (WorkerBusyError worker_id active_task_id) =
     [(''worker_id'', PStr worker_id), (''active_task_id'', PStr active_task_id)]"
| "error_details (InvalidWorkerTransitionError worker_id from_status to_status) =
     [(''worker_id'', PStr worker_id), (''from_status'', PStr from_status), (''to_status'', PStr to_status)]"
| "error_details (WorkerActivationFailedError worker_id reason task_id retryable lifecycle_state) =
     [(''worker_id'', PStr worker_id), (''reason'', PStr reason), (''task_id'', opt_str task_id),
       (''retryable'', PBool retryable), (''lifecycle_state'', PStr lifecycle_state)]"
| "error_details (ResearcherActivationFailed worker_id reason task_id retryable lifecycle_state) =
     [(''worker_id'', PStr worker_id), (''reason'', PStr reason), (''task_id'', opt_str task_id),
      (''retryable'', PBool retryable), (''lifecycle_state'', PStr lifecycle_state)]"
| "error_details (TaskNotFoundError task_id) = [(''task_id'', PStr task_id)]"
| "error_details (TaskAlreadyAssignedError task_id assigned_worker) =
     [(''task_id'', PStr task_id), (''assigned_worker'', PStr assigned_worker)]"
| "error_details (TaskAlreadyCompletedError task_id) = [(''task_id'', PStr task_id)]"
| "error_details (InvalidTaskTransitionError task_id from_status to_status reason) =
     [(''task_id'', PStr task_id), (''from_status'', PStr from_status),
       (''to_status'', PStr to_status), (''reason'', opt_str reason)]"
| "error_details (DependencyNotSatisfiedError task_id unfulfilled_dependencies) =
     [(''task_id'', PStr task_id), (''unfulfilled_dependencies'', str_list unfulfilled_dependencies)]"
| "error_details (DependencyCycleError task_id prerequisite_id) =
     [(''task_id'', PStr task_id), (''prerequisite_id'', PStr prerequisite_id)]"
| "error_details (ExecutionFailedError task_id worker_id cause) =
     [(''task_id'', PStr task_id), (''worker_id'', PStr worker_id), (''cause'', PStr cause)]"
| "error_details (PersistenceError operation cause) = [(''operation'', PStr operation), (''cause'', PStr cause)]"
| "error_details (ArtifactNotFoundError artifact_id) = [(''artifact_id'', PStr artifact_id)]"
| "error_details (MemoryNotFoundError memory_id path) = [(''memory_id'', PStr memory_id), (''path'', opt_str path)]"
| "error_details (MemoryAlreadyExistsError identifier) = [(''identifier'', PStr identifier)]"
| "error_details (MemoryValidationError memory_id issues) =
     [(''memory_id'', PStr memory_id), (''issues'', str_list issues)]"
| "error_details (MemoryConflictError memory_id current_version expected_version) =
     [(''memory_id'', PStr memory_id), (''current_version'', PInt current_version),
       (''expected_version'', PInt expected_version)]"
| "error_details (ToolNotFoundError tool_id) = [(''tool_id'', PStr tool_id)]"
| "error_details (ToolPermissionDeniedError worker_id tool_id required_permissions) =
     [(''worker_id'', PStr worker_id), (''tool_id'', PStr tool_id),
       (''required_permissions'', str_list required_permissions)]"
| "error_details (ToolArgumentValidationError tool_id errors) =
     [(''tool_id'', PStr tool_id), (''errors'', str_list errors)]"
| "error_details (ToolExecutionError tool_id message exit_code) =
     [(''tool_id'', PStr tool_id), (''exit_code'', opt_int exit_code), (''cause'', PStr message)]"
| "error_details (ToolTimeoutError tool_id timeout_seconds) =
     [(''tool_id'', PStr tool_id), (''timeout_seconds'', PInt timeout_seconds)]"
| "error_details (ToolWorkspaceViolationError attempted_path workspace_root) =
     [(''attempted_path'', PStr attempted_path), (''workspace_root'', PStr workspace_root)]"
| "error_details (ToolOutputLimitError tool_id output_size limit_size) =
     [(''tool_id'', PStr tool_id), (''output_size'', PInt output_size), (''limit_size'', PInt limit_size)]"
| "error_details (ToolUnavailableError tool_id reason) = [(''tool_id'', PStr tool_id), (''reason'', PStr reason)]"
| "error_details (ValidationError message details) = details"
| "error_details (AttributeError _) = []"
| "error_details (KeyError _) = []"
| "error_details (TypeError _) = []"
| "error_details (ValueError _) = []"
| "error_details (OtherException _) = []"

definition error_to_dict :: "error \<Rightarrow> pydict option" where
  "error_to_dict e =
     (case error_code e of
        None \<Rightarrow> None
      | Some code \<Rightarrow> Some [(''error'', PStr code), (''message'', PStr (error_message e)),
          (''details'', PDict (error_details e))])"

text \<open>\<open>isinstance(e, WorkerActivationFailedError)\<close> includes the subclass.\<close>

definition is_activation_failed :: "error \<Rightarrow> bool" where
  "is_activation_failed e =
     (case e of WorkerActivationFailedError _ _ _ _ _ \<Rightarrow> True | ResearcherActivationFailed _ _ _ _ _ \<Rightarrow> True | _ \<Rightarrow> False)"

lemma opt_str_inject [simp]: "opt_str x = opt_str y \<longleftrightarrow> x = y"
  by (cases x; cases y) (simp_all add: opt_str_def)

lemma opt_int_inject [simp]: "opt_int x = opt_int y \<longleftrightarrow> x = y"
  by (cases x; cases y) (simp_all add: opt_int_def)

lemma str_list_inject [simp]: "str_list xs = str_list ys \<longleftrightarrow> xs = ys"
  by (simp add: str_list_def inj_map_eq_map inj_on_def)

end
