(* ===== verification/Memory_Store.thy ===== *)
theory Memory_Store
  imports State_Machines
begin

text \<open>
  The persistence layer as the in-memory store of \<open>core/storage/memory_store.py\<close> keeps it:
  one dictionary per table and the append-only event log. Reading deep-copies and saving
  deep-copies, so records are values here. Each table is an interpretation of the
  \<open>keyed_table\<close> interface, with \<open>store_wf\<close> as the invariant that all operations keep.
\<close>

section \<open>State\<close>

record store =
  s_projects :: "(string, project) dict"
  s_workers :: "(string, worker) dict"
  s_tasks :: "(string, task) dict"
  s_dependencies :: "(string, dependency) dict"
  s_artifacts :: "(string, artifact) dict"
  s_events :: "event list"
  s_events_by_id :: "(string, event) dict"
  s_seq_counter :: int
  s_memory_docs :: "(string, memory_document) dict"
  s_plans :: "(string, plan) dict"
  s_manager_decisions :: "(string, manager_decision) dict"

definition empty_store :: store where
  "empty_store = \<lparr>s_projects = [], s_workers = [], s_tasks = [], s_dependencies = [],
     s_artifacts = [], s_events = [], s_events_by_id = [], s_seq_counter = 0,
     s_memory_docs = [], s_plans = [], s_manager_decisions = []\<rparr>"


section \<open>Projects, workers, tasks\<close>

definition save_project :: "project \<Rightarrow> store \<Rightarrow> store" where
  "save_project p s = s\<lparr>s_projects := dict_set (p_id p) p (s_projects s)\<rparr>"

definition get_project :: "store \<Rightarrow> string \<Rightarrow> project option" where
  "get_project s pid = dict_get (s_projects s) pid"

definition list_projects :: "store \<Rightarrow> project list" where
  "list_projects s = dict_values (s_projects s)"

definition save_worker :: "worker \<Rightarrow> store \<Rightarrow> store" where
  "save_worker w s = s\<lparr>s_workers := dict_set (w_id w) w (s_workers s)\<rparr>"

definition get_worker :: "store \<Rightarrow> string \<Rightarrow> worker option" where
  "get_worker s wid = dict_get (s_workers s) wid"

definition list_workers :: "store \<Rightarrow> worker list" where
  "list_workers s = dict_values (s_workers s)"

definition delete_worker :: "string \<Rightarrow> store \<Rightarrow> bool \<times> store" where
  "delete_worker wid s =
     (if dict_get (s_workers s) wid \<noteq> None
      then (True, s\<lparr>s_workers := dict_del wid (s_workers s)\<rparr>)
      else (False, s))"

definition update_worker_status :: "string \<Rightarrow> worker_status \<Rightarrow> string option \<Rightarrow> store \<Rightarrow> store" where
  "update_worker_status wid st active s =
     (case dict_get (s_workers s) wid of
        None \<Rightarrow> s
      | Some w \<Rightarrow> s\<lparr>s_workers := dict_set wid (w\<lparr>w_status := st, w_active_task_id := active\<rparr>) (s_workers s)\<rparr>)"

definition save_task :: "task \<Rightarrow> store \<Rightarrow> store" where
  "save_task t s = s\<lparr>s_tasks := dict_set (t_id t) t (s_tasks s)\<rparr>"

definition get_task :: "store \<Rightarrow> string \<Rightarrow> task option" where
  "get_task s tid = dict_get (s_tasks s) tid"

definition list_tasks :: "store \<Rightarrow> string option \<Rightarrow> task_status option \<Rightarrow> task list" where
  "list_tasks s pid st =
     (let res = dict_values (s_tasks s);
          res1 = (if given pid then filter (\<lambda>t. Some (t_project_id t) = pid) res else res)
      in case st of None \<Rightarrow> res1 | Some st' \<Rightarrow> filter (\<lambda>t. t_status t = st') res1)"

definition get_tasks_by_parent :: "store \<Rightarrow> string \<Rightarrow> task list" where
  "get_tasks_by_parent s parent = filter (\<lambda>t. t_parent_task_id t = Some parent) (dict_values (s_tasks s))"

text \<open>
  Deleting a task deletes the dependencies it occurs in and its artifacts. The tables are keyed
  by the identifiers of their records (\<open>store_wf\<close>), so no \<open>del\<close> of the loops misses its key.
\<close>

definition delete_task :: "string \<Rightarrow> store \<Rightarrow> bool \<times> store" where
  "delete_task tid s =
     (if dict_get (s_tasks s) tid \<noteq> None then
        let s1 = s\<lparr>s_tasks := dict_del tid (s_tasks s)\<rparr>;
            dep_ids = map d_id (filter (\<lambda>d. d_dependent_task_id d = tid \<or> d_prerequisite_task_id d = tid)
              (dict_values (s_dependencies s1)));
            s2 = s1\<lparr>s_dependencies := dict_del_all dep_ids (s_dependencies s1)\<rparr>;
            art_ids = map a_id (filter (\<lambda>a. a_task_id a = tid) (dict_values (s_artifacts s2)))
        in (True, s2\<lparr>s_artifacts := dict_del_all art_ids (s_artifacts s2)\<rparr>)
      else (False, s))"

definition delete_project :: "string \<Rightarrow> store \<Rightarrow> bool \<times> store" where
  "delete_project pid s =
     (if dict_get (s_projects s) pid \<noteq> None then
        let s1 = s\<lparr>s_projects := dict_del pid (s_projects s)\<rparr>;
            task_ids = map t_id (filter (\<lambda>t. t_project_id t = pid) (dict_values (s_tasks s1)));
            s2 = fold (\<lambda>tid s. snd (delete_task tid s)) task_ids s1;
            art_ids = map a_id (filter (\<lambda>a. a_project_id a = pid) (dict_values (s_artifacts s2)))
        in (True, s2\<lparr>s_artifacts := dict_del_all art_ids (s_artifacts s2)\<rparr>)
      else (False, s))"


section \<open>Dependencies and artifacts\<close>

text \<open>An edge between the same two tasks replaces the old one.\<close>

definition store_dependency :: "dependency \<Rightarrow> store \<Rightarrow> store" where
  "store_dependency d s =
     (let existing = map d_id (filter (\<lambda>d'. d_dependent_task_id d' = d_dependent_task_id d
            \<and> d_prerequisite_task_id d' = d_prerequisite_task_id d) (dict_values (s_dependencies s)))
      in s\<lparr>s_dependencies := dict_set (d_id d) d (dict_del_all existing (s_dependencies s))\<rparr>)"

definition get_dependencies_for_task :: "store \<Rightarrow> string \<Rightarrow> dependency list" where
  "get_dependencies_for_task s tid =
     filter (\<lambda>d. d_dependent_task_id d = tid) (dict_values (s_dependencies s))"

definition get_dependents_for_task :: "store \<Rightarrow> string \<Rightarrow> dependency list" where
  "get_dependents_for_task s tid =
     filter (\<lambda>d. d_prerequisite_task_id d = tid) (dict_values (s_dependencies s))"

definition remove_dependency :: "string \<Rightarrow> store \<Rightarrow> bool \<times> store" where
  "remove_dependency did s =
     (if dict_get (s_dependencies s) did \<noteq> None
      then (True, s\<lparr>s_dependencies := dict_del did (s_dependencies s)\<rparr>)
      else (False, s))"

definition save_artifact :: "artifact \<Rightarrow> store \<Rightarrow> store" where
  "save_artifact a s = s\<lparr>s_artifacts := dict_set (a_id a) a (s_artifacts s)\<rparr>"

definition get_artifact :: "store \<Rightarrow> string \<Rightarrow> artifact option" where
  "get_artifact s aid = dict_get (s_artifacts s) aid"

definition list_artifacts_for_task :: "store \<Rightarrow> string \<Rightarrow> artifact list" where
  "list_artifacts_for_task s tid = filter (\<lambda>a. a_task_id a = tid) (dict_values (s_artifacts s))"

definition list_artifacts_for_project :: "store \<Rightarrow> string \<Rightarrow> artifact list" where
  "list_artifacts_for_project s pid = filter (\<lambda>a. a_project_id a = pid) (dict_values (s_artifacts s))"


section \<open>The event log\<close>

definition append_event :: "event \<Rightarrow> store \<Rightarrow> error + event \<times> store" where
  "append_event e s =
     (if dict_get (s_events_by_id s) (e_event_id e) \<noteq> None then
        Inl (PersistenceError ''append_event''
          (''Event with ID '' @ quoted (e_event_id e) @ '' already exists (immutability violation)''))
      else
        let n = s_seq_counter s + 1;
            e' = e\<lparr>e_sequence_number := Some n\<rparr>
        in Inr (e', s\<lparr>s_seq_counter := n, s_events := s_events s @ [e'],
             s_events_by_id := dict_set (e_event_id e') e' (s_events_by_id s)\<rparr>))"

definition get_event :: "store \<Rightarrow> string \<Rightarrow> event option" where
  "get_event s eid = dict_get (s_events_by_id s) eid"

definition seq_or_zero :: "event \<Rightarrow> int" where
  "seq_or_zero e = (case e_sequence_number e of None \<Rightarrow> 0 | Some n \<Rightarrow> n)"

definition matches :: "'a option \<Rightarrow> 'a option \<Rightarrow> bool" where
  \<comment> \<open>a filter that is applied only when it is not \<open>None\<close>\<close>
  "matches flt v \<longleftrightarrow> flt = None \<or> v = flt"

definition list_events ::
  "store \<Rightarrow> string option \<Rightarrow> string option \<Rightarrow> string option \<Rightarrow> string option \<Rightarrow>
    event_type list option \<Rightarrow> int option \<Rightarrow> int option \<Rightarrow> event list" where
  "list_events s pid tid wid corr types since limit =
     (let results = s_events s;
          r1 = filter (\<lambda>e. matches pid (e_project_id e)) results;
          r2 = filter (\<lambda>e. matches tid (e_task_id e)) r1;
          r3 = filter (\<lambda>e. matches wid (e_worker_id e)) r2;
          r4 = filter (\<lambda>e. matches corr (Some (e_correlation_id e))) r3;
          r5 = (case types of None \<Rightarrow> r4 | Some ts \<Rightarrow> filter (\<lambda>e. e_event_type e \<in> set ts) r4);
          r6 = (case since of None \<Rightarrow> r5
                | Some n \<Rightarrow> filter (\<lambda>e. seq_or_zero e \<noteq> 0 \<and> seq_or_zero e > n) r5);
          r7 = sort_key seq_or_zero r6
      in case limit of None \<Rightarrow> r7 | Some n \<Rightarrow> if n = 0 then r7 else py_take n r7)"

definition get_events_by_correlation_id :: "store \<Rightarrow> string \<Rightarrow> event list" where
  "get_events_by_correlation_id s corr = list_events s None None None (Some corr) None None None"

definition get_events_by_task :: "store \<Rightarrow> string \<Rightarrow> event list" where
  "get_events_by_task s tid = list_events s None (Some tid) None None None None None"

definition get_events_by_project :: "store \<Rightarrow> string \<Rightarrow> event list" where
  "get_events_by_project s pid = list_events s (Some pid) None None None None None None"

text \<open>
  The loop of \<open>get_causal_chain\<close>: follow \<open>causation_id\<close> until it is empty, visited before or
  unknown. It ends because every round visits a new event of the log.
\<close>

function causal_loop :: "store \<Rightarrow> string option \<Rightarrow> string list \<Rightarrow> event list" where
  "causal_loop s cur visited =
     (if \<not> given cur \<or> the cur \<in> set visited then []
      else case get_event s (the cur) of
        None \<Rightarrow> []
      | Some e \<Rightarrow> e # causal_loop s (e_causation_id e) (the cur # visited))"
  by pat_completeness auto
termination
proof (relation "measure (\<lambda>(s, cur, visited). card (fst ` set (s_events_by_id s) - set visited))", goal_cases)
  case (2 s cur visited e)
  then have *: "the cur \<in> fst ` set (s_events_by_id s)" "the cur \<notin> set visited"
    by (auto simp: get_event_def dest!: map_of_SomeD) (metis fst_conv image_eqI)
  then have "0 < card (fst ` set (s_events_by_id s) - set visited)"
    by (auto simp: card_gt_0_iff)
  with * show ?case by simp
qed simp

declare causal_loop.simps [simp del]

definition get_causal_chain :: "store \<Rightarrow> string \<Rightarrow> event list" where
  "get_causal_chain s eid = rev (causal_loop s (Some eid) [])"


section \<open>Memory documents, plans, decisions\<close>

definition save_memory_document :: "memory_document \<Rightarrow> store \<Rightarrow> store" where
  "save_memory_document m s = s\<lparr>s_memory_docs := dict_set (m_id m) m (s_memory_docs s)\<rparr>"

definition get_memory_document :: "store \<Rightarrow> string \<Rightarrow> memory_document option" where
  "get_memory_document s mid = dict_get (s_memory_docs s) mid"

definition get_memory_document_by_path :: "store \<Rightarrow> string \<Rightarrow> string \<Rightarrow> memory_document option" where
  "get_memory_document_by_path s pid path =
     find (\<lambda>m. m_project_id m = pid \<and> m_relative_path m = path) (dict_values (s_memory_docs s))"

definition list_memory_documents ::
  "store \<Rightarrow> string option \<Rightarrow> memory_type option \<Rightarrow> string option \<Rightarrow> string option \<Rightarrow> memory_document list" where
  "list_memory_documents s pid mtype tag related =
     (let docs = dict_values (s_memory_docs s);
          d1 = (if given pid then filter (\<lambda>m. Some (m_project_id m) = pid) docs else docs);
          d2 = (case mtype of None \<Rightarrow> d1 | Some mt \<Rightarrow> filter (\<lambda>m. m_memory_type m = mt) d1);
          d3 = (if given tag then filter (\<lambda>m. the tag \<in> set (m_tags m)) d2 else d2)
      in if given related then filter (\<lambda>m. m_related_task_id m = related) d3 else d3)"

definition delete_memory_document :: "string \<Rightarrow> store \<Rightarrow> bool \<times> store" where
  "delete_memory_document mid s =
     (if dict_get (s_memory_docs s) mid \<noteq> None
      then (True, s\<lparr>s_memory_docs := dict_del mid (s_memory_docs s)\<rparr>)
      else (False, s))"

definition save_plan :: "plan \<Rightarrow> store \<Rightarrow> store" where
  "save_plan p s = s\<lparr>s_plans := dict_set (pl_id p) p (s_plans s)\<rparr>"

definition get_plan :: "store \<Rightarrow> string \<Rightarrow> plan option" where
  "get_plan s pid = dict_get (s_plans s) pid"

definition list_plans_for_project :: "store \<Rightarrow> string \<Rightarrow> plan list" where
  "list_plans_for_project s pid =
     sort_key pl_version (filter (\<lambda>p. pl_project_id p = pid) (dict_values (s_plans s)))"

definition save_manager_decision :: "manager_decision \<Rightarrow> store \<Rightarrow> store" where
  "save_manager_decision d s =
     s\<lparr>s_manager_decisions := dict_set (md_decision_id d) d (s_manager_decisions s)\<rparr>"

definition get_manager_decision :: "store \<Rightarrow> string \<Rightarrow> manager_decision option" where
  "get_manager_decision s did = dict_get (s_manager_decisions s) did"

definition list_manager_decisions_for_project :: "store \<Rightarrow> string \<Rightarrow> int option \<Rightarrow> manager_decision list" where
  "list_manager_decisions_for_project s pid limit =
     (let decisions = sort_key md_created_at
            (filter (\<lambda>d. md_project_id d = pid) (dict_values (s_manager_decisions s)))
      in case limit of None \<Rightarrow> decisions | Some n \<Rightarrow> if n = 0 then decisions else py_take n decisions)"

text \<open>Closing clears every table but keeps the sequence counter.\<close>

definition store_close :: "store \<Rightarrow> store" where
  "store_close s = empty_store\<lparr>s_seq_counter := s_seq_counter s\<rparr>"

section \<open>Well-formed stores\<close>

definition table_ok :: "('v \<Rightarrow> 'k) \<Rightarrow> ('k, 'v) dict \<Rightarrow> bool" where
  "table_ok f d \<longleftrightarrow> dict_wf d \<and> keyed_by f d"

lemma table_ok_Nil [simp]: "table_ok f []"
  by (simp add: table_ok_def)

lemma table_ok_set [simp]: "table_ok f d \<Longrightarrow> k = f v \<Longrightarrow> table_ok f (dict_set k v d)"
  by (simp add: table_ok_def)

lemma table_ok_del [simp]: "table_ok f d \<Longrightarrow> table_ok f (dict_del k d)"
  by (simp add: table_ok_def)

lemma table_ok_del_all [simp]: "table_ok f d \<Longrightarrow> table_ok f (dict_del_all ks d)"
  by (simp add: table_ok_def)

lemma table_ok_get: "table_ok f d \<Longrightarrow> dict_get d k = Some v \<Longrightarrow> f v = k"
  by (auto simp: table_ok_def dest: keyed_by_get)

lemma table_ok_values: "table_ok f d \<Longrightarrow> v \<in> set (dict_values d) \<longleftrightarrow> dict_get d (f v) = Some v"
  unfolding table_ok_def by (blast intro: in_values_iff [THEN iffD1] in_values_iff [THEN iffD2])

text \<open>Collecting the identifiers of the rows that satisfy a test, then deleting them one by one.\<close>

lemma values_del_selected:
  assumes "table_ok f d"
  shows "set (dict_values (dict_del_all (map f (filter P (dict_values d))) d)) = {v \<in> set (dict_values d). \<not> P v}"
proof -
  have key: "v = w" if "v \<in> set (dict_values d)" "w \<in> set (dict_values d)" "f v = f w" for v w
    using that table_ok_values [OF assms, of v] table_ok_values [OF assms, of w] by (metis option.inject)
  have "f v \<in> set (map f (filter P (dict_values d))) \<longleftrightarrow> P v" if "v \<in> set (dict_values d)" for v
    unfolding set_map [of f] set_filter using that key by blast
  then show ?thesis
    using values_dict_del_all [of f d] assms unfolding table_ok_def by blast
qed

text \<open>
  The event log: sequence numbers are assigned, strictly increasing and bounded by the counter;
  the dictionary by identifier lists the same events in the same order.
\<close>

definition events_ok :: "store \<Rightarrow> bool" where
  "events_ok s \<longleftrightarrow>
     0 \<le> s_seq_counter s
     \<and> (\<forall>e \<in> set (s_events s). \<exists>n. e_sequence_number e = Some n \<and> 0 < n \<and> n \<le> s_seq_counter s)
     \<and> sorted_wrt (\<lambda>a b. seq_or_zero a < seq_or_zero b) (s_events s)
     \<and> s_events_by_id s = map (\<lambda>e. (e_event_id e, e)) (s_events s)
     \<and> distinct (map e_event_id (s_events s))"

definition store_wf :: "store \<Rightarrow> bool" where
  "store_wf s \<longleftrightarrow>
     table_ok p_id (s_projects s) \<and> table_ok w_id (s_workers s) \<and> table_ok t_id (s_tasks s)
     \<and> table_ok d_id (s_dependencies s) \<and> table_ok a_id (s_artifacts s)
     \<and> table_ok m_id (s_memory_docs s) \<and> table_ok pl_id (s_plans s)
     \<and> table_ok md_decision_id (s_manager_decisions s) \<and> events_ok s"

lemma store_wf_empty [simp]: "store_wf empty_store"
  by (simp add: store_wf_def events_ok_def empty_store_def)

lemma store_wf_close [inv_intros, simp]: "store_wf s \<Longrightarrow> store_wf (store_close s)"
  by (simp add: store_wf_def events_ok_def store_close_def empty_store_def)

lemma events_ok_frame:
  "s_events s' = s_events s \<Longrightarrow> s_events_by_id s' = s_events_by_id s \<Longrightarrow> s_seq_counter s' = s_seq_counter s \<Longrightarrow>
    events_ok s' = events_ok s"
  by (simp add: events_ok_def)

lemmas save_defs = save_project_def save_worker_def save_task_def save_artifact_def
  save_memory_document_def save_plan_def save_manager_decision_def

lemmas get_defs = get_project_def get_worker_def get_task_def get_artifact_def
  get_memory_document_def get_plan_def get_manager_decision_def get_event_def

lemmas delete_defs = delete_worker_def remove_dependency_def delete_memory_document_def

lemma store_wf_saves [inv_intros, simp]:
  assumes "store_wf s"
  shows "store_wf (save_project p s)" "store_wf (save_worker w s)" "store_wf (save_task t s)"
    "store_wf (save_artifact a s)" "store_wf (save_memory_document m s)" "store_wf (save_plan pl s)"
    "store_wf (save_manager_decision md s)"
  using assms by (simp_all add: store_wf_def save_defs events_ok_def)

lemma store_wf_store_dependency [inv_intros, simp]: "store_wf s \<Longrightarrow> store_wf (store_dependency d s)"
  by (simp add: store_wf_def store_dependency_def Let_def events_ok_def)

lemma store_wf_deletes [inv_intros, simp]:
  assumes "store_wf s"
  shows "store_wf (snd (delete_worker wid s))" "store_wf (snd (remove_dependency did s))"
    "store_wf (snd (delete_memory_document mid s))"
  using assms by (simp_all add: store_wf_def delete_defs events_ok_def)

lemma store_wf_update_worker_status [inv_intros, simp]:
  assumes "store_wf s"
  shows "store_wf (update_worker_status wid st active s)"
proof (cases "dict_get (s_workers s) wid")
  case (Some w)
  then have "w_id w = wid" using assms by (auto simp: store_wf_def intro: table_ok_get)
  with Some assms show ?thesis
    by (simp add: update_worker_status_def store_wf_def events_ok_def)
qed (simp add: assms update_worker_status_def)

lemma store_wf_delete_task [inv_intros, simp]: "store_wf s \<Longrightarrow> store_wf (snd (delete_task tid s))"
  by (simp add: store_wf_def delete_task_def Let_def events_ok_def)

lemma store_wf_delete_tasks: "store_wf s \<Longrightarrow> store_wf (fold (\<lambda>tid s. snd (delete_task tid s)) tids s)"
  by (induction tids arbitrary: s) simp_all

lemma store_wf_artifacts: "store_wf s \<Longrightarrow> table_ok a_id d \<Longrightarrow> store_wf (s\<lparr>s_artifacts := d\<rparr>)"
  by (simp add: store_wf_def events_ok_def)

lemma store_wf_delete_project [inv_intros, simp]:
  assumes "store_wf s"
  shows "store_wf (snd (delete_project pid s))"
proof -
  have "store_wf (s\<lparr>s_projects := dict_del pid (s_projects s)\<rparr>)"
    using assms by (simp add: store_wf_def events_ok_def)
  note del = store_wf_delete_tasks [OF this]
  then show ?thesis
    using assms by (auto simp: delete_project_def Let_def intro!: store_wf_artifacts)
      (simp add: store_wf_def)
qed

lemma append_event_Inr:
  assumes "append_event e s = Inr (e', s')"
  shows "e' = e\<lparr>e_sequence_number := Some (s_seq_counter s + 1)\<rparr>"
    and "s' = s\<lparr>s_seq_counter := s_seq_counter s + 1, s_events := s_events s @ [e'],
             s_events_by_id := dict_set (e_event_id e) e' (s_events_by_id s)\<rparr>"
    and "dict_get (s_events_by_id s) (e_event_id e) = None"
  using assms by (auto simp: append_event_def Let_def split: if_splits)

lemma dict_set_fresh: "dict_get d k = None \<Longrightarrow> dict_set k v d = d @ [(k, v)]"
  by (induction d) (auto split: if_splits)

lemma store_wf_append_event [inv_intros]:
  assumes "store_wf s" and "append_event e s = Inr (e', s')"
  shows "store_wf s'"
proof -
  note a = append_event_Inr [OF assms(2)]
  have ev: "events_ok s" using assms(1) by (simp add: store_wf_def)
  then have fresh: "e_event_id e \<notin> e_event_id ` set (s_events s)"
    using a(3) by (auto simp: events_ok_def map_of_eq_None_iff image_image)
  have "\<forall>x \<in> set (s_events s). seq_or_zero x < s_seq_counter s + 1"
    using ev by (fastforce simp: events_ok_def seq_or_zero_def)
  with ev fresh have "events_ok s'"
    unfolding a(2) using a(1) dict_set_fresh [OF a(3)]
    by (force simp: events_ok_def sorted_wrt_append seq_or_zero_def)
  then show ?thesis
    using assms(1) by (simp add: store_wf_def a(2))
qed


section \<open>The tables as interpretations of the interface\<close>

interpretation projects_tbl: keyed_table p_id get_project save_project list_projects store_wf
  by unfold_locales
    (auto simp: get_project_def save_project_def list_projects_def store_wf_def events_ok_def dict_simps
      table_ok_values [of p_id] simp del: set_map dest: table_ok_get)

interpretation workers_tbl: deletable_table w_id get_worker save_worker list_workers store_wf delete_worker
  by unfold_locales
    (auto simp: get_worker_def save_worker_def list_workers_def delete_worker_def store_wf_def events_ok_def
      dict_simps table_ok_values [of w_id] simp del: set_map dest: table_ok_get)

interpretation tasks_tbl: keyed_table t_id get_task save_task "\<lambda>s. list_tasks s None None" store_wf
  by unfold_locales
    (auto simp: get_task_def save_task_def list_tasks_def store_wf_def events_ok_def dict_simps
      table_ok_values [of t_id] simp del: set_map dest: table_ok_get)

interpretation artifacts_tbl: keyed_table a_id get_artifact save_artifact "\<lambda>s. dict_values (s_artifacts s)" store_wf
  by unfold_locales
    (auto simp: get_artifact_def save_artifact_def store_wf_def events_ok_def dict_simps
      table_ok_values [of a_id] simp del: set_map dest: table_ok_get)

interpretation memory_tbl: deletable_table m_id get_memory_document save_memory_document
  "\<lambda>s. list_memory_documents s None None None None" store_wf delete_memory_document
  by unfold_locales
    (auto simp: get_memory_document_def save_memory_document_def list_memory_documents_def
      delete_memory_document_def store_wf_def events_ok_def dict_simps
      table_ok_values [of m_id] simp del: set_map dest: table_ok_get)

end
