(* ===== verification/Tool_Policy.thy ===== *)
theory Tool_Policy
  imports Errors Memory_Store
begin

text \<open>
  Tools: their data model (\<open>core/tools/model.py\<close>, \<open>core/tools/types.py\<close>, \<open>core/tools/base.py\<close>), the built-in
  definitions (\<open>core/tools/builtins/\<close>), the permission policy (\<open>core/tools/policy.py\<close>) and the tool registry
  (\<open>core/tools/registry.py\<close>). The policy that guards execution and the test that drives discovery are two
  pieces of code; both are interpretations of one interface.
\<close>

section \<open>Data model\<close>

datatype tool_status = TS_SUCCESS | TS_FAILED | TS_DENIED | TS_TIMEOUT | TS_CANCELLED | TS_VALIDATION_ERROR

primrec tool_status_value :: "tool_status \<Rightarrow> string" where
  "tool_status_value TS_SUCCESS = ''SUCCESS''"
| "tool_status_value TS_FAILED = ''FAILED''"
| "tool_status_value TS_DENIED = ''DENIED''"
| "tool_status_value TS_TIMEOUT = ''TIMEOUT''"
| "tool_status_value TS_CANCELLED = ''CANCELLED''"
| "tool_status_value TS_VALIDATION_ERROR = ''VALIDATION_ERROR''"

datatype tool_category = TC_FILESYSTEM | TC_SHELL | TC_GIT | TC_WEB | TC_VISION | TC_OCR | TC_CUSTOM

primrec tool_category_value :: "tool_category \<Rightarrow> string" where
  "tool_category_value TC_FILESYSTEM = ''FILESYSTEM''"
| "tool_category_value TC_SHELL = ''SHELL''"
| "tool_category_value TC_GIT = ''GIT''"
| "tool_category_value TC_WEB = ''WEB''"
| "tool_category_value TC_VISION = ''VISION''"
| "tool_category_value TC_OCR = ''OCR''"
| "tool_category_value TC_CUSTOM = ''CUSTOM''"

record tool_definition =
  td_id :: string
  td_name :: string
  td_description :: string
  td_version :: string
  td_category :: tool_category
  td_capabilities :: "string list"
  td_input_schema :: pydict
  td_output_schema :: pydict
  td_risk_level :: risk_level
  td_permissions_required :: "string list"
  td_timeout_seconds :: int
  td_output_limit_bytes :: int
  td_metadata :: pydict

record tool_request =
  tq_project_id :: string
  tq_task_id :: string
  tq_worker_id :: string
  tq_tool_id :: string
  tq_arguments :: pydict
  tq_request_id :: string
  tq_correlation_id :: "string option"
  tq_causation_id :: "string option"
  tq_timeout_seconds :: "int option"
  tq_metadata :: pydict
  tq_created_at :: string

text \<open>A duration is given by the representation of the floating-point number.\<close>

record tool_result =
  tr_result_id :: string
  tr_request_id :: string
  tr_tool_id :: string
  tr_status :: tool_status
  tr_output :: pyval
  tr_error_message :: "string option"
  tr_is_truncated :: bool
  tr_duration_ms :: string
  tr_artifacts_created :: "string list"
  tr_metadata :: pydict

record tool_context =
  tx_project_id :: string
  tx_workspace_root :: string
  tx_task_id :: string
  tx_worker_id :: string
  tx_permissions :: "string list"
  tx_environment :: "(string, string) dict"
  tx_timeout_seconds :: int
  tx_output_limit_bytes :: int


section \<open>Argument validation\<close>

definition required_keys :: "tool_definition \<Rightarrow> string list" where
  "required_keys d =
     (case dict_get (td_input_schema d) ''required'' of
        Some (PList ks) \<Rightarrow> map str_val ks
      | _ \<Rightarrow> [])"

definition missing_arguments :: "tool_definition \<Rightarrow> pydict \<Rightarrow> string list" where
  "missing_arguments d args =
     filter (\<lambda>k. dict_get args k = None \<or> dict_get args k = Some PNone) (required_keys d)"

definition validate_arguments :: "tool_definition \<Rightarrow> pydict \<Rightarrow> error + unit" where
  "validate_arguments d args =
     (let errors = map (\<lambda>k. ''Missing required argument: '' @ quoted k) (missing_arguments d args)
      in if errors \<noteq> [] then Inl (ToolArgumentValidationError (td_id d) errors) else Inr ())"


section \<open>Built-in definitions\<close>

definition tool_schema :: "(string \<times> pyval) list \<Rightarrow> string list \<Rightarrow> pydict" where
  "tool_schema props required =
     [(''type'', PStr ''object''), (''properties'', PDict props)]
     @ (if required = [] then [] else [(''required'', str_list required)])"

definition prop_of :: "string \<Rightarrow> pyval" where
  "prop_of ty = PDict [(''type'', PStr ty)]"

definition prop_default :: "string \<Rightarrow> pyval \<Rightarrow> pyval" where
  "prop_default ty v = PDict [(''type'', PStr ty), (''default'', v)]"

definition prop_enum :: "string list \<Rightarrow> pyval" where
  "prop_enum vs = PDict [(''type'', PStr ''string''), (''enum'', str_list vs)]"

definition filesystem_tool :: "string \<Rightarrow> tool_definition" where
  "filesystem_tool tid =
     \<lparr>td_id = tid, td_name = ''Filesystem Operations ('' @ tid @ '')'',
      td_description = ''Safe, workspace-confined filesystem operations (read, write, list, delete, stat).'',
      td_version = ''1.0.0'', td_category = TC_FILESYSTEM,
      td_capabilities = [''filesystem.read'', ''filesystem.write'', ''filesystem.list'', ''filesystem.delete''],
      td_input_schema = tool_schema
        [(''action'', prop_enum [''read_file'', ''write_file'', ''create_file'', ''delete_file'', ''list_directory'',
           ''file_exists'', ''stat_file'']),
         (''path'', prop_of ''string''), (''content'', prop_of ''string''),
         (''encoding'', prop_default ''string'' (PStr ''utf-8'')), (''overwrite'', prop_default ''boolean'' (PBool True))]
        [''path''],
      td_output_schema = [],
      td_risk_level = (if contains tid ''write'' then R_MEDIUM else if contains tid ''delete'' then R_HIGH else R_LOW),
      td_permissions_required =
        [if tid \<in> {''filesystem.write_file'', ''filesystem.delete_file''} then ''filesystem.write'' else ''filesystem.read''],
      td_timeout_seconds = 10, td_output_limit_bytes = 200000, td_metadata = []\<rparr>"

definition shell_tool :: "string \<Rightarrow> tool_definition" where
  "shell_tool tid =
     \<lparr>td_id = tid, td_name = ''Controlled Shell Execution'',
      td_description = ''Execute shell commands inside the project workspace with timeout and output bounds.'',
      td_version = ''1.0.0'', td_category = TC_SHELL, td_capabilities = [''shell.execute''],
      td_input_schema = tool_schema
        [(''command'', prop_of ''string''),
         (''args'', PDict [(''type'', PStr ''array''), (''items'', prop_of ''string'')]),
         (''working_directory'', prop_of ''string''),
         (''timeout_seconds'', prop_default ''integer'' (PInt 30)), (''env'', prop_of ''object'')] [],
      td_output_schema = [], td_risk_level = R_HIGH, td_permissions_required = [''shell.execute''],
      td_timeout_seconds = 30, td_output_limit_bytes = 100000, td_metadata = []\<rparr>"

definition git_tool :: "string \<Rightarrow> tool_definition" where
  "git_tool tid =
     \<lparr>td_id = tid, td_name = ''Git Version Control Tool'',
      td_description = ''Execute controlled Git operations (status, diff, log, branch, add, commit) in the workspace.'',
      td_version = ''1.0.0'', td_category = TC_GIT, td_capabilities = [''git.read'', ''git.write''],
      td_input_schema = tool_schema
        [(''action'', prop_enum [''status'', ''diff'', ''log'', ''branch'', ''add'', ''commit'']),
         (''path'', prop_of ''string''), (''message'', prop_of ''string''),
         (''max_count'', prop_default ''integer'' (PInt 10))] [''action''],
      td_output_schema = [], td_risk_level = R_MEDIUM, td_permissions_required = [''git.read''],
      td_timeout_seconds = 20, td_output_limit_bytes = 100000, td_metadata = []\<rparr>"

definition web_tool :: "string \<Rightarrow> tool_definition" where
  "web_tool tid =
     \<lparr>td_id = tid, td_name = ''Web Search and Fetch Tool'',
      td_description = ''Provider-independent web search and content retrieval.'',
      td_version = ''1.0.0'', td_category = TC_WEB, td_capabilities = [''web.search'', ''web.fetch''],
      td_input_schema = tool_schema
        [(''action'', prop_enum [''search'', ''fetch'']), (''query'', prop_of ''string''), (''url'', prop_of ''string''),
         (''limit'', prop_default ''integer'' (PInt 5))] [''action''],
      td_output_schema = [], td_risk_level = R_LOW,
      td_permissions_required = [if contains tid ''search'' then ''web.search'' else ''web.fetch''],
      td_timeout_seconds = 15, td_output_limit_bytes = 100000, td_metadata = []\<rparr>"

definition screenshot_tool :: "string \<Rightarrow> tool_definition" where
  "screenshot_tool tid =
     \<lparr>td_id = tid, td_name = ''Screenshot Capture Tool'',
      td_description = ''Capture screen/window viewports and register image artifacts.'',
      td_version = ''1.0.0'', td_category = TC_VISION, td_capabilities = [''screenshot.capture''],
      td_input_schema = tool_schema
        [(''filename'', prop_default ''string'' (PStr ''screenshot.png'')), (''target_window'', prop_of ''string'')] [],
      td_output_schema = [], td_risk_level = R_LOW, td_permissions_required = [''screenshot.capture''],
      td_timeout_seconds = 10, td_output_limit_bytes = 100000, td_metadata = []\<rparr>"

definition ocr_tool :: "string \<Rightarrow> tool_definition" where
  "ocr_tool tid =
     \<lparr>td_id = tid, td_name = ''Optical Character Recognition (OCR) Tool'',
      td_description = ''Extract text from image files with structured confidence metadata.'',
      td_version = ''1.0.0'', td_category = TC_OCR, td_capabilities = [''ocr.process''],
      td_input_schema = tool_schema [(''image_path'', prop_of ''string'')] [''image_path''],
      td_output_schema = [], td_risk_level = R_LOW, td_permissions_required = [''ocr.process''],
      td_timeout_seconds = 15, td_output_limit_bytes = 100000, td_metadata = []\<rparr>"

text \<open>The suite registered by \<open>_register_default_tools\<close>, in order.\<close>

definition default_tools :: "tool_definition list" where
  "default_tools =
     map filesystem_tool [''filesystem'', ''filesystem.read_file'', ''filesystem.write_file'', ''filesystem.create_file'',
       ''filesystem.delete_file'', ''filesystem.list_directory'', ''filesystem.file_exists'', ''filesystem.stat_file'']
     @ [shell_tool ''shell.execute'', git_tool ''git'', web_tool ''web'', web_tool ''web.search'', web_tool ''web.fetch'',
        screenshot_tool ''screenshot.capture'', ocr_tool ''ocr.extract_text'']"


section \<open>The permission policy\<close>

text \<open>\<open>g.endswith(".*") and req.startswith(g[:-2])\<close>\<close>

definition wildcard_covers :: "string \<Rightarrow> string \<Rightarrow> bool" where
  "wildcard_covers g req \<longleftrightarrow> endswith g ''.*'' \<and> startswith req (take (length g - 2) g)"

definition permission_matched :: "string list \<Rightarrow> string \<Rightarrow> bool" where
  "permission_matched granted req \<longleftrightarrow> req \<in> set granted \<or> (\<exists>g \<in> set granted. wildcard_covers g req)"

definition evaluate_permissions :: "string list \<Rightarrow> string list \<Rightarrow> string \<Rightarrow> string \<Rightarrow> error + unit" where
  "evaluate_permissions granted required wid tid =
     (if ''*'' \<in> set granted \<or> ''all'' \<in> set granted then Inr ()
      else
        let missing = filter (\<lambda>req. \<not> permission_matched granted req) required
        in if missing \<noteq> [] then Inl (ToolPermissionDeniedError wid tid required) else Inr ())"

text \<open>The early-exit loop of the registry's own test.\<close>

fun authorized_loop :: "string list \<Rightarrow> string list \<Rightarrow> bool" where
  "authorized_loop granted [] = True"
| "authorized_loop granted (req # reqs) =
     (if permission_matched granted req then authorized_loop granted reqs else False)"

definition is_authorized_for_permissions :: "string list \<Rightarrow> string list \<Rightarrow> bool" where
  "is_authorized_for_permissions required granted =
     (if ''*'' \<in> set granted \<or> ''all'' \<in> set granted then True else authorized_loop granted required)"

definition sensitive_env_patterns :: "string list" where
  "sensitive_env_patterns = [''SECRET'', ''PASSWORD'', ''PASS'', ''TOKEN'', ''API_KEY'', ''APIKEY'', ''AUTH'', ''PRIVATE'',
     ''CREDENTIAL'', ''AWS_'', ''SSH_'', ''GEMINI_'', ''OPENAI_'', ''ANTHROPIC_'', ''GITHUB_TOKEN'', ''GH_TOKEN'']"

definition safe_env_vars :: "string list" where
  "safe_env_vars = [''PATH'', ''HOME'', ''USER'', ''LANG'', ''LC_ALL'', ''TMPDIR'', ''SHELL'', ''TERM'', ''PYTHONPATH'',
     ''SYSTEMROOT'', ''WINDIR'']"

definition env_sensitive :: "string \<Rightarrow> bool" where
  "env_sensitive k \<longleftrightarrow> (\<exists>p \<in> set sensitive_env_patterns. contains (upper k) p)"

text \<open>\<open>host\<close> is \<open>os.environ\<close>.\<close>

definition sanitize_environment ::
  "(string, string) dict \<Rightarrow> (string, string) dict \<Rightarrow> bool \<Rightarrow> (string, string) dict" where
  "sanitize_environment host custom include_host_safe =
     fold (\<lambda>(k, v). dict_set k v) custom
       (if include_host_safe
        then fold (\<lambda>(k, v) env. if \<not> env_sensitive k \<or> k \<in> set safe_env_vars then dict_set k v env else env) host []
        else [])"

text \<open>
  Confinement of a path. \<open>parts\<close> gives the components of \<open>Path(root).resolve()\<close> and \<open>target\<close> those of the
  resolved target, absolute or below the root.
\<close>

definition validate_path_confinement ::
  "(string \<Rightarrow> string list) \<Rightarrow> (string \<Rightarrow> string \<Rightarrow> string list) \<Rightarrow> (string list \<Rightarrow> string) \<Rightarrow> string \<Rightarrow> string \<Rightarrow>
    error + string list" where
  "validate_path_confinement parts target render path root =
     (if prefix (parts root) (target root path) then Inr (target root path)
      else Inl (ToolWorkspaceViolationError path (render (parts root))))"


section \<open>The registry\<close>

text \<open>\<open>'x\<close> is whatever else a tool carries; only its definition matters here.\<close>

type_synonym 'x tool_table = "(string, tool_definition \<times> 'x) dict"

definition register_tool :: "tool_definition \<times> 'x \<Rightarrow> 'x tool_table \<Rightarrow> 'x tool_table" where
  "register_tool tool tbl = dict_set (td_id (fst tool)) tool tbl"

definition unregister_tool :: "string \<Rightarrow> 'x tool_table \<Rightarrow> bool \<times> 'x tool_table" where
  "unregister_tool tid tbl = (if dict_get tbl tid \<noteq> None then (True, dict_del tid tbl) else (False, tbl))"

definition get_tool :: "string \<Rightarrow> 'x tool_table \<Rightarrow> error + (tool_definition \<times> 'x)" where
  "get_tool tid tbl = (case dict_get tbl tid of None \<Rightarrow> Inl (ToolNotFoundError tid) | Some t \<Rightarrow> Inr t)"

definition list_tools :: "'x tool_table \<Rightarrow> tool_definition list" where
  "list_tools tbl = map fst (dict_values tbl)"

definition list_tools_for_worker :: "worker \<Rightarrow> 'x tool_table \<Rightarrow> tool_definition list" where
  "list_tools_for_worker w tbl =
     filter (\<lambda>d. is_authorized_for_permissions (td_permissions_required d) (w_permissions w)) (list_tools tbl)"

definition find_by_capability :: "string \<Rightarrow> 'x tool_table \<Rightarrow> (tool_definition \<times> 'x) list" where
  "find_by_capability cap tbl = filter (\<lambda>t. cap \<in> set (td_capabilities (fst t))) (dict_values tbl)"

interpretation tools_tbl: deletable_table "td_id \<circ> fst" "\<lambda>tbl tid. dict_get tbl tid" register_tool dict_values
  "table_ok (td_id \<circ> fst)" unregister_tool
  by unfold_locales
    (auto simp: register_tool_def unregister_tool_def dict_simps table_ok_values [of "td_id \<circ> fst"]
      simp del: set_map split_paired_All split_paired_Ex dest: table_ok_get)


section \<open>Authorization as an interface\<close>

text \<open>What the runtime relies on: every requirement is judged by itself, and more grants never hurt.\<close>

locale authorizer =
  fixes permits :: "string list \<Rightarrow> string list \<Rightarrow> bool"
  assumes permits_each: "permits granted required \<longleftrightarrow> (\<forall>req \<in> set required. permits granted [req])"
    and permits_mono: "set granted \<subseteq> set granted' \<Longrightarrow> permits granted required \<Longrightarrow> permits granted' required"
    and permits_own: "req \<in> set granted \<Longrightarrow> permits granted [req]"
begin

lemma permits_empty: "permits granted []"
  by (subst permits_each) simp

lemma permits_fewer: "set required \<subseteq> set required' \<Longrightarrow> permits granted required' \<Longrightarrow> permits granted required"
  by (subst permits_each, subst (asm) permits_each) blast

lemma permits_subset: "set required \<subseteq> set granted \<Longrightarrow> permits granted required"
  by (subst permits_each) (blast intro: permits_own)

lemma permits_append: "permits granted (r @ r') \<longleftrightarrow> permits granted r \<and> permits granted r'"
  by (subst (1 2 3) permits_each) auto

end

definition policy_permits :: "string list \<Rightarrow> string list \<Rightarrow> bool" where
  "policy_permits granted required \<longleftrightarrow> evaluate_permissions granted required [] [] = Inr ()"

definition super_granted :: "string list \<Rightarrow> bool" where
  "super_granted granted \<longleftrightarrow> ''*'' \<in> set granted \<or> ''all'' \<in> set granted"

lemma permission_matched_own: "req \<in> set granted \<Longrightarrow> permission_matched granted req"
  by (simp add: permission_matched_def)

lemma permission_matched_mono: "set granted \<subseteq> set granted' \<Longrightarrow> permission_matched granted r \<Longrightarrow> permission_matched granted' r"
  by (auto simp: permission_matched_def)

lemma evaluate_permissions_iff:
  "evaluate_permissions granted required wid tid = Inr () \<longleftrightarrow>
    super_granted granted \<or> (\<forall>req \<in> set required. permission_matched granted req)"
  by (auto simp: evaluate_permissions_def super_granted_def Let_def filter_empty_conv)

lemma authorized_loop_iff: "authorized_loop granted required \<longleftrightarrow> (\<forall>req \<in> set required. permission_matched granted req)"
  by (induction required) auto

lemma is_authorized_iff:
  "is_authorized_for_permissions required granted \<longleftrightarrow>
    super_granted granted \<or> (\<forall>req \<in> set required. permission_matched granted req)"
  by (auto simp: is_authorized_for_permissions_def super_granted_def authorized_loop_iff)

lemma super_granted_mono: "set granted \<subseteq> set granted' \<Longrightarrow> super_granted granted \<Longrightarrow> super_granted granted'"
  by (auto simp: super_granted_def)

interpretation policy: authorizer policy_permits
  by unfold_locales
    (auto simp: policy_permits_def evaluate_permissions_iff
      intro: permission_matched_own permission_matched_mono super_granted_mono)

interpretation discovery: authorizer "\<lambda>granted required. is_authorized_for_permissions required granted"
  by unfold_locales
    (auto simp: is_authorized_iff intro: permission_matched_own permission_matched_mono super_granted_mono)


section \<open>Properties\<close>

text \<open>
  C33: discovery and enforcement agree: a tool is listed for a worker exactly when it is registered
  and the policy would let this worker execute it.
\<close>

theorem discovery_matches_enforcement:
  "d \<in> set (list_tools_for_worker w tbl) \<longleftrightarrow>
    d \<in> set (list_tools tbl) \<and> evaluate_permissions (w_permissions w) (td_permissions_required d) (w_id w) (td_id d) = Inr ()"
  by (simp add: list_tools_for_worker_def is_authorized_iff evaluate_permissions_iff)

text \<open>
  Granting is monotone and requiring is antitone: a request that is authorized stays authorized when
  the worker gets more permissions or the tool requires fewer, and a worker that holds each required
  permission itself is always authorized.
\<close>

theorem permissions_monotone:
  assumes "evaluate_permissions granted required wid tid = Inr ()"
    and "set granted \<subseteq> set granted'" and "set required' \<subseteq> set required"
  shows "evaluate_permissions granted' required' wid' tid' = Inr ()"
proof -
  have "policy_permits granted required" using assms(1) by (simp add: policy_permits_def evaluate_permissions_iff)
  then have "policy_permits granted' required'"
    using policy.permits_mono [OF assms(2)] policy.permits_fewer [OF assms(3)] by blast
  then show ?thesis by (simp add: policy_permits_def evaluate_permissions_iff)
qed

theorem permissions_monotone_witness:
  "evaluate_permissions [''web.fetch'', ''git.*''] [''git.read''] ''w'' ''git'' = Inr ()"
  by (rule permissions_monotone [of "[''git.*'']" "[''git.read'', ''git.write'']" "''w''" "''git''"]) (code_simp, simp_all)

text \<open>
  The wildcard does not stop at a dot: a grant \<open>p.*\<close> covers every permission that starts with \<open>p\<close>, so
  \<open>git.*\<close> also grants \<open>github.write\<close>.
\<close>

theorem wildcard_crosses_namespace:
  "evaluate_permissions [p @ ''.*''] [p @ rest] wid tid = Inr ()
    \<and> evaluate_permissions [''git.*''] [''github.write''] wid tid = Inr ()"
proof -
  have "wildcard_covers (p @ ''.*'') (p @ rest)" for p rest :: string
    by (simp add: wildcard_covers_def suffix_def)
  then have all: "evaluate_permissions [p @ ''.*''] [p @ rest] wid tid = Inr ()" for p rest
    by (simp add: evaluate_permissions_iff permission_matched_def)
  from this [of p rest] this [of "''git''" "''hub.write''"] show ?thesis by simp
qed

text \<open>
  Of the built-in tools that can modify files, \<open>filesystem.create_file\<close> and the generic \<open>filesystem\<close>
  ask only for the read permission: a worker that may only read is allowed to execute them, while
  \<open>filesystem.write_file\<close> and \<open>filesystem.delete_file\<close> are refused.
\<close>

theorem read_permission_suffices_to_write:
  "evaluate_permissions [''filesystem.read''] (td_permissions_required (filesystem_tool tid)) wid tid = Inr ()
    \<longleftrightarrow> tid \<noteq> ''filesystem.write_file'' \<and> tid \<noteq> ''filesystem.delete_file''"
proof -
  have "\<not> permission_matched [''filesystem.read''] ''filesystem.write''" by code_simp
  moreover have "permission_matched [''filesystem.read''] ''filesystem.read''" by (simp add: permission_matched_def)
  moreover have "\<not> super_granted [''filesystem.read'']" by (simp add: super_granted_def)
  ultimately show ?thesis by (simp add: filesystem_tool_def evaluate_permissions_iff)
qed

lemma env_fold_get:
  "dict_get (fold (\<lambda>(k, v) env. if P k then dict_set k v env else env) host env0) x = Some v \<Longrightarrow>
    dict_get env0 x = Some v \<or> (P x \<and> (x, v) \<in> set host)"
  by (induction host arbitrary: env0) (fastforce simp: dict_simps split: if_splits)+

text \<open>
  No sensitive variable of the host reaches a tool: a variable of the sanitized environment that the
  tool did not set itself has the host's value, and its name matches no sensitive pattern unless it
  is one of the listed safe names.
\<close>

theorem sanitized_environment_safe:
  assumes "dict_get (sanitize_environment host [] True) k = Some v"
  shows "(k, v) \<in> set host \<and> (env_sensitive k \<longrightarrow> k \<in> set safe_env_vars)"
  using assms env_fold_get [of "\<lambda>k. \<not> env_sensitive k \<or> k \<in> set safe_env_vars" host "[]" k v]
  by (auto simp: sanitize_environment_def)

theorem sanitized_environment_safe_witness:
  "(''LANG'', ''C'') \<in> set [(''LANG'', ''C''), (''MY_TOKEN'', ''x'')]"
proof (rule sanitized_environment_safe [THEN conjunct1])
  show "dict_get (sanitize_environment [(''LANG'', ''C''), (''MY_TOKEN'', ''x'')] [] True) ''LANG'' = Some ''C''"
    by code_simp
qed

end
