(* ===== verification/Event_Log.thy ===== *)
theory Event_Log
  imports Memory_Store
begin

text \<open>
  What the event log of the store promises: numbers assigned by \<open>append_event\<close> are consecutive
  and never reused, a reader that polls with \<open>since_sequence\<close> sees each later event once and in
  order, a limit cuts a prefix, and \<open>get_causal_chain\<close> returns a linked, repetition-free path
  that ends in the event asked for.
\<close>

section \<open>Listing\<close>

lemma seq_pos: "store_wf s \<Longrightarrow> e \<in> set (s_events s) \<Longrightarrow> 0 < seq_or_zero e \<and> seq_or_zero e \<le> s_seq_counter s"
  by (fastforce simp: store_wf_def events_ok_def seq_or_zero_def)

lemma sorted_events: "store_wf s \<Longrightarrow> sorted (map seq_or_zero (s_events s))"
  unfolding store_wf_def events_ok_def sorted_map
  by (auto elim: sorted_wrt_mono_rel [rotated])

lemma sort_filter_events:
  "store_wf s \<Longrightarrow> sort_key seq_or_zero (filter P (s_events s)) = filter P (s_events s)"
  by (intro sort_key_id_if_sorted sorted_filter sorted_events)

text \<open>The filters of \<open>list_events\<close> as one predicate.\<close>

definition event_selected ::
  "string option \<Rightarrow> string option \<Rightarrow> string option \<Rightarrow> string option \<Rightarrow>
    event_type list option \<Rightarrow> int option \<Rightarrow> event \<Rightarrow> bool" where
  "event_selected pid tid wid corr types since e \<longleftrightarrow>
     matches pid (e_project_id e) \<and> matches tid (e_task_id e) \<and> matches wid (e_worker_id e)
     \<and> matches corr (Some (e_correlation_id e))
     \<and> (case types of None \<Rightarrow> True | Some ts \<Rightarrow> e_event_type e \<in> set ts)
     \<and> (case since of None \<Rightarrow> True | Some n \<Rightarrow> n < seq_or_zero e)"

lemma list_events_eq_filter:
  assumes "store_wf s"
  shows "list_events s pid tid wid corr types since None =
    filter (event_selected pid tid wid corr types since) (s_events s)"
proof -
  have nz: "e \<in> set (s_events s) \<Longrightarrow> seq_or_zero e \<noteq> 0" for e
    using seq_pos [OF assms] by (metis less_irrefl)
  show ?thesis
    using sort_filter_events [OF assms]
    by (auto simp: list_events_def Let_def event_selected_def conj_ac nz split: option.splits
      intro!: filter_cong dest: nz)
qed

lemma list_events_limit:
  "0 < n \<Longrightarrow> list_events s pid tid wid corr types since (Some n) =
    take (nat n) (list_events s pid tid wid corr types since None)"
  by (simp add: list_events_def Let_def py_take_def)

lemma append_event_events:
  "append_event e s = Inr (e', s') \<Longrightarrow> s_events s' = s_events s @ [e'] \<and> seq_or_zero e' = s_seq_counter s + 1"
  using append_event_Inr [of e s e' s'] by (simp add: seq_or_zero_def)


section \<open>Causal chains\<close>

fun linked_back :: "event list \<Rightarrow> bool" where
  "linked_back (a # b # es) \<longleftrightarrow> e_causation_id a = Some (e_event_id b) \<and> linked_back (b # es)"
| "linked_back _ \<longleftrightarrow> True"

text \<open>In a returned chain, oldest event first, each event was caused by the one before it.\<close>

definition caused_in_order :: "event list \<Rightarrow> bool" where
  "caused_in_order es \<longleftrightarrow> linked_back (rev es)"

lemma get_event_id: "store_wf s \<Longrightarrow> get_event s i = Some e \<Longrightarrow> e_event_id e = i \<and> e \<in> set (s_events s)"
  by (auto simp: store_wf_def events_ok_def get_event_def dest: map_of_SomeD)

lemma causal_loop_step:
  assumes "given cur" and "the cur \<notin> set visited" and "get_event s (the cur) = Some e"
  shows "causal_loop s cur visited = e # causal_loop s (e_causation_id e) (the cur # visited)"
  using assms by (simp add: causal_loop.simps [of s cur visited])

lemma causal_loop_stop:
  assumes "\<not> given cur \<or> the cur \<in> set visited \<or> get_event s (the cur) = None"
  shows "causal_loop s cur visited = []"
  using assms by (auto simp: causal_loop.simps [of s cur visited])

lemma causal_loop_hd:
  assumes "store_wf s" and "causal_loop s cur visited = e # es"
  shows "cur = Some (e_event_id e) \<and> given cur \<and> e_event_id e \<notin> set visited"
proof (cases "\<not> given cur \<or> the cur \<in> set visited \<or> get_event s (the cur) = None")
  case True
  then show ?thesis using causal_loop_stop [OF True] assms(2) by simp
next
  case False
  then obtain e1 where e1: "get_event s (the cur) = Some e1" by blast
  with False assms have "e1 = e" by (simp add: causal_loop_step)
  with e1 False get_event_id [OF assms(1) e1] show ?thesis by (auto simp: given_def)
qed

lemma causal_loop_facts:
  assumes "store_wf s"
  shows "set (causal_loop s cur visited) \<subseteq> set (s_events s)
    \<and> distinct (map e_event_id (causal_loop s cur visited))
    \<and> e_event_id ` set (causal_loop s cur visited) \<inter> set visited = {}
    \<and> linked_back (causal_loop s cur visited)"
proof (induction s\<equiv>s cur visited rule: causal_loop.induct)
  case (1 cur visited)
  show ?case
  proof (cases "\<not> given cur \<or> the cur \<in> set visited \<or> get_event s (the cur) = None")
    case True
    then show ?thesis by (simp add: causal_loop_stop)
  next
    case False
    then obtain e where e: "get_event s (the cur) = Some e" by blast
    let ?rest = "causal_loop s (e_causation_id e) (the cur # visited)"
    have id: "e_event_id e = the cur" "e \<in> set (s_events s)" using get_event_id [OF assms e] by auto
    have IH: "set ?rest \<subseteq> set (s_events s) \<and> distinct (map e_event_id ?rest)
        \<and> e_event_id ` set ?rest \<inter> set (the cur # visited) = {} \<and> linked_back ?rest"
      using 1 [OF _ e] False by blast
    have "linked_back (e # ?rest)"
    proof (cases ?rest)
      case (Cons b es)
      then show ?thesis using IH causal_loop_hd [OF assms Cons] by simp
    qed simp
    with IH id e False show ?thesis by (auto simp: causal_loop_step)
  qed
qed

text \<open>Where the chain stops: no cause, a cause that is not logged, or one already in the chain.\<close>

lemma causal_loop_root:
  assumes "store_wf s" and "causal_loop s cur visited = es" and "es \<noteq> []"
  shows "\<not> given (e_causation_id (last es)) \<or> get_event s (the (e_causation_id (last es))) = None
    \<or> the (e_causation_id (last es)) \<in> e_event_id ` set es \<union> set visited"
  using assms(2,3)
proof (induction s\<equiv>s cur visited arbitrary: es rule: causal_loop.induct)
  case (1 cur visited)
  have go: "\<not> (\<not> given cur \<or> the cur \<in> set visited \<or> get_event s (the cur) = None)"
    using 1(2,3) causal_loop_stop [of cur visited s] by blast
  then obtain e where e: "get_event s (the cur) = Some e" by blast
  let ?rest = "causal_loop s (e_causation_id e) (the cur # visited)"
  have es: "es = e # ?rest" using 1(2) go e by (simp add: causal_loop_step)
  have id: "e_event_id e = the cur" using get_event_id [OF assms(1) e] by simp
  show ?case
  proof (cases "?rest = []")
    case True
    have "\<not> given (e_causation_id e) \<or> the (e_causation_id e) \<in> set (the cur # visited)
        \<or> get_event s (the (e_causation_id e)) = None"
      using True causal_loop_step [of "e_causation_id e" "the cur # visited" s] by fastforce
    with True es id show ?thesis by auto
  next
    case False
    then show ?thesis using 1(1) [OF _ e refl False] go es id by auto
  qed
qed

end
