(* ===== verification/Store_Invariant.thy ===== *)
theory Store_Invariant
  imports Event_Log
begin

text \<open>
  The store as a state machine: one rule per operation of \<open>core/storage/memory_store.py\<close> that changes
  it. What holds of every reachable store: the tables stay well formed, the event log only grows
  and never reuses a sequence number; and what cascading deletion removes.
\<close>

section \<open>Steps\<close>

inductive store_step :: "store \<Rightarrow> store \<Rightarrow> bool" where
  saved_project: "store_step s (save_project p s)"
| saved_worker: "store_step s (save_worker w s)"
| saved_task: "store_step s (save_task t s)"
| saved_artifact: "store_step s (save_artifact a s)"
| saved_memory: "store_step s (save_memory_document m s)"
| saved_plan: "store_step s (save_plan pl s)"
| saved_decision: "store_step s (save_manager_decision md s)"
| stored_dependency: "store_step s (store_dependency d s)"
| updated_worker: "store_step s (update_worker_status wid st active s)"
| deleted_worker: "store_step s (snd (delete_worker wid s))"
| deleted_task: "store_step s (snd (delete_task tid s))"
| deleted_project: "store_step s (snd (delete_project pid s))"
| removed_dependency: "store_step s (snd (remove_dependency did s))"
| deleted_memory: "store_step s (snd (delete_memory_document mid s))"
| appended: "append_event e s = Inr (e', s') \<Longrightarrow> store_step s s'"
| closed: "store_step s (store_close s)"

inductive_cases store_stepE: "store_step s s'"

definition event_part :: "store \<Rightarrow> event list \<times> (string, event) dict \<times> int" where
  "event_part s = (s_events s, s_events_by_id s, s_seq_counter s)"

lemma event_part_saves [simp]:
  "event_part (save_project p s) = event_part s" "event_part (save_worker w s) = event_part s"
  "event_part (save_task t s) = event_part s" "event_part (save_artifact a s) = event_part s"
  "event_part (save_memory_document m s) = event_part s" "event_part (save_plan pl s) = event_part s"
  "event_part (save_manager_decision md s) = event_part s" "event_part (store_dependency d s) = event_part s"
  by (simp_all add: event_part_def save_defs store_dependency_def Let_def)

lemma event_part_updates [simp]:
  "event_part (update_worker_status wid st active s) = event_part s"
  "event_part (snd (delete_worker wid s)) = event_part s"
  "event_part (snd (delete_task tid s)) = event_part s"
  "event_part (snd (remove_dependency did s)) = event_part s"
  "event_part (snd (delete_memory_document mid s)) = event_part s"
  by (simp_all add: event_part_def update_worker_status_def delete_task_def delete_defs Let_def split: option.splits)

lemma event_part_delete_tasks [simp]:
  "event_part (fold (\<lambda>tid s. snd (delete_task tid s)) tids s) = event_part s"
  by (induction tids arbitrary: s) simp_all

lemma event_part_delete_project [simp]: "event_part (snd (delete_project pid s)) = event_part s"
proof -
  let ?s1 = "s\<lparr>s_projects := dict_del pid (s_projects s)\<rparr>"
  have "event_part (fold (\<lambda>tid s. snd (delete_task tid s)) tids ?s1) = event_part s" for tids
    unfolding event_part_delete_tasks by (simp add: event_part_def)
  then show ?thesis by (simp add: delete_project_def Let_def event_part_def)
qed

lemma store_step_wf: "store_step s s' \<Longrightarrow> store_wf s \<Longrightarrow> store_wf s'"
  by (induction rule: store_step.induct) (auto intro: store_wf_append_event)

lemma store_step_events:
  assumes "store_step s s'"
  shows "s' = store_close s \<or> event_part s' = event_part s
    \<or> (\<exists>e. s_events s' = s_events s @ [e] \<and> e_sequence_number e = Some (s_seq_counter s + 1)
          \<and> s_seq_counter s' = s_seq_counter s + 1)"
  using assms
proof cases
  case (appended e e')
  note a = append_event_Inr [OF appended]
  have "s_events s' = s_events s @ [e']" "s_seq_counter s' = s_seq_counter s + 1" by (simp_all add: a(2))
  moreover have "e_sequence_number e' = Some (s_seq_counter s + 1)" by (simp add: a(1))
  ultimately show ?thesis by blast
qed simp_all


section \<open>Deletion\<close>

lemma values_tasks_fold_delete:
  "s_tasks (fold (\<lambda>tid s. snd (delete_task tid s)) tids s) = dict_del_all tids (s_tasks s)"
proof (induction tids arbitrary: s)
  case (Cons tid tids)
  have "s_tasks (snd (delete_task tid s)) = dict_del tid (s_tasks s)"
    by (auto simp: delete_task_def Let_def map_of_eq_None_iff AList.delete_id)
  with Cons show ?case by (simp add: dict_del_all_def)
qed (simp add: dict_del_all_def)

lemma get_task_delete_task: "get_task (snd (delete_task tid s)) x = (if x = tid then None else get_task s x)"
  by (auto simp: delete_task_def get_task_def Let_def dict_simps)

lemma deps_delete_task:
  assumes "store_wf s" and "get_task s tid \<noteq> None"
  shows "set (dict_values (s_dependencies (snd (delete_task tid s)))) =
    {d \<in> set (dict_values (s_dependencies s)). d_dependent_task_id d \<noteq> tid \<and> d_prerequisite_task_id d \<noteq> tid}"
proof -
  let ?P = "\<lambda>d. d_dependent_task_id d = tid \<or> d_prerequisite_task_id d = tid"
  have "s_dependencies (snd (delete_task tid s)) =
      dict_del_all (map d_id (filter ?P (dict_values (s_dependencies s)))) (s_dependencies s)"
    using assms(2) by (simp add: delete_task_def get_task_def Let_def)
  moreover have "table_ok d_id (s_dependencies s)" using assms(1) by (simp add: store_wf_def)
  ultimately show ?thesis using values_del_selected [of d_id "s_dependencies s" ?P] by (simp del: set_map)
qed

lemma artifacts_delete_task:
  assumes "store_wf s" and "get_task s tid \<noteq> None"
  shows "set (dict_values (s_artifacts (snd (delete_task tid s)))) =
    {a \<in> set (dict_values (s_artifacts s)). a_task_id a \<noteq> tid}"
  using values_del_selected [of a_id "s_artifacts s" "\<lambda>a. a_task_id a = tid"] assms
  by (simp add: delete_task_def get_task_def Let_def store_wf_def del: set_map)


section \<open>Samples\<close>

definition sample_event :: "string \<Rightarrow> string option \<Rightarrow> event" where
  "sample_event eid cause = \<lparr>e_event_id = eid, e_event_type = ''TASK_CREATED'', e_timestamp = ''now'',
     e_source = ''runtime'', e_correlation_id = ''corr'', e_payload = [], e_sequence_number = None,
     e_project_id = Some ''p'', e_task_id = Some ''a'', e_worker_id = None, e_artifact_id = None,
     e_causation_id = cause, e_schema_version = 1, e_metadata = []\<rparr>"

text \<open>Appending a batch of events, stopping at the first one that is refused.\<close>

fun append_events :: "event list \<Rightarrow> store \<Rightarrow> error + event list \<times> store" where
  "append_events [] s = Inr ([], s)"
| "append_events (e # es) s =
     (case append_event e s of
        Inl err \<Rightarrow> Inl err
      | Inr (e', s1) \<Rightarrow>
          (case append_events es s1 of Inl err \<Rightarrow> Inl err | Inr (es', s2) \<Rightarrow> Inr (e' # es', s2)))"

definition sample_log :: "event list \<times> store" where
  "sample_log = projr (append_events [sample_event ''e1'' None, sample_event ''e2'' (Some ''e1''),
     sample_event ''e3'' (Some ''e2'')] empty_store)"


section \<open>Properties\<close>

text \<open>
  C21: every store reachable from the empty one by the operations of the memory store is well
  formed: each table holds each record once, under its own identifier, and the event log carries
  strictly increasing sequence numbers up to the counter and agrees with the index by identifier.
\<close>

theorem store_reachable_wf: "store_step\<^sup>*\<^sup>* empty_store s \<Longrightarrow> store_wf s"
  by (induction rule: rtranclp_induct) (auto dest: store_step_wf)

theorem store_reachable_wf_witness:
  "store_wf (snd (delete_project ''p'' (save_task (sample_task ''a'' T_READY) empty_store)))"
proof (rule store_reachable_wf)
  show "store_step\<^sup>*\<^sup>* empty_store (snd (delete_project ''p'' (save_task (sample_task ''a'' T_READY) empty_store)))"
    by (rule rtranclp.rtrancl_into_rtrancl [OF r_into_rtranclp [of store_step, OF saved_task] deleted_project])
qed

text \<open>
  The event log is append-only: between any two states, no operation other than \<open>close\<close> alters or
  removes a recorded event, and the counter never decreases, not even across \<open>close\<close>.
\<close>

theorem event_log_append_only:
  assumes "(\<lambda>s s'. store_step s s' \<and> s' \<noteq> store_close s)\<^sup>*\<^sup>* s s'"
  shows "prefix (s_events s) (s_events s') \<and> s_seq_counter s \<le> s_seq_counter s'
    \<and> s_seq_counter (store_close s') = s_seq_counter s'"
  using assms
proof (induction rule: rtranclp_induct)
  case (step s1 s2)
  then have "event_part s2 = event_part s1
    \<or> (\<exists>e. s_events s2 = s_events s1 @ [e] \<and> s_seq_counter s2 = s_seq_counter s1 + 1)"
    using store_step_events [of s1 s2] by blast
  then show ?case using step.IH by (auto simp: event_part_def store_close_def)
qed (simp add: store_close_def)

theorem event_log_append_only_witness:
  "prefix (s_events (snd sample_log)) (s_events (save_task (sample_task ''a'' T_READY) (snd sample_log)))"
proof -
  have "s_tasks (save_task (sample_task ''a'' T_READY) (snd sample_log)) \<noteq> []" by code_simp
  then have "save_task (sample_task ''a'' T_READY) (snd sample_log) \<noteq> store_close (snd sample_log)"
    by (auto simp: store_close_def empty_store_def)
  then show ?thesis
    using event_log_append_only [of "snd sample_log" "save_task (sample_task ''a'' T_READY) (snd sample_log)"]
      saved_task by blast
qed

lemma append_events_effect:
  assumes "store_wf s" and "append_events es s = Inr (es', s')"
  shows "store_wf s' \<and> s_events s' = s_events s @ es' \<and> s_seq_counter s' = s_seq_counter s + int (length es)
    \<and> map seq_or_zero es' = map (\<lambda>i. s_seq_counter s + int i + 1) [0..<length es]
    \<and> map e_event_id es' = map e_event_id es"
  using assms
proof (induction es arbitrary: s es')
  case (Cons e es)
  from Cons.prems(2) obtain e1 s1 es1 where a: "append_event e s = Inr (e1, s1)"
    "append_events es s1 = Inr (es1, s')" "es' = e1 # es1" by (auto split: sum.splits)
  note e1 = append_event_Inr [OF a(1)] append_event_events [OF a(1)]
  have "store_wf s1" using Cons.prems(1) a(1) by (rule store_wf_append_event)
  from Cons.IH [OF this a(2)] e1 a(3) show ?case
    by (auto simp: map_upt_Suc simp del: upt_Suc)
qed simp

lemma sample_log_appends:
  "append_events [sample_event ''e1'' None, sample_event ''e2'' (Some ''e1''), sample_event ''e3'' (Some ''e2'')] empty_store
    = Inr (fst sample_log, snd sample_log)" (is "?a = _")
proof -
  have "\<not> isl ?a" by code_simp
  then show ?thesis by (cases ?a) (auto simp: sample_log_def)
qed

text \<open>
  Polling loses and repeats nothing: after any batch of appended events, listing with
  \<open>since_sequence\<close> set to the counter read before returns exactly the new events, in the order in
  which they were appended.
\<close>

theorem polling_exact:
  assumes "store_wf s" and "append_events es s = Inr (es', s')"
  shows "list_events s' None None None None None (Some (s_seq_counter s)) None = es'
    \<and> map seq_or_zero es' = map (\<lambda>i. s_seq_counter s + int i + 1) [0..<length es]
    \<and> map e_event_id es' = map e_event_id es"
proof -
  note eff = append_events_effect [OF assms]
  have "seq_or_zero e \<in> set (map (\<lambda>i. s_seq_counter s + int i + 1) [0..<length es])" if "e \<in> set es'" for e
    using eff that by (metis image_eqI set_map)
  then have "s_seq_counter s < seq_or_zero e" if "e \<in> set es'" for e
    using that by fastforce
  then have "filter (event_selected None None None None None (Some (s_seq_counter s))) (s_events s') = es'"
    using eff seq_pos [OF assms(1)] by (auto simp: event_selected_def matches_def filter_empty_conv not_less intro!: filter_True)
  then show ?thesis using eff list_events_eq_filter [of s'] by simp
qed

theorem polling_exact_witness:
  "list_events (snd sample_log) None None None None None (Some 0) None = fst sample_log
    \<and> map e_event_id (fst sample_log) = [''e1'', ''e2'', ''e3'']"
  using polling_exact [OF store_wf_empty sample_log_appends] by (simp add: empty_store_def sample_event_def)

text \<open>
  A limited listing returns the oldest matching events, so \<open>limit=1\<close> gives the first match of
  the log and never the most recent one when there are several.
\<close>

theorem limit_one_is_oldest:
  assumes "store_wf s"
  shows "list_events s pid tid wid corr types since (Some 1) =
    (case find (event_selected pid tid wid corr types since) (s_events s) of None \<Rightarrow> [] | Some e \<Rightarrow> [e])
    \<and> (\<forall>e \<in> set (s_events s). event_selected pid tid wid corr types since e \<longrightarrow>
        (\<forall>e' \<in> set (list_events s pid tid wid corr types since (Some 1)). seq_or_zero e' \<le> seq_or_zero e))"
proof -
  let ?P = "event_selected pid tid wid corr types since"
  have l: "list_events s pid tid wid corr types since (Some 1) = take 1 (filter ?P (s_events s))"
    using list_events_limit [of 1 s] list_events_eq_filter [OF assms] by simp
  have f: "take 1 (filter ?P es) = (case find ?P es of None \<Rightarrow> [] | Some e \<Rightarrow> [e])" for es
    by (induction es) auto
  have "\<forall>e \<in> set es. ?P e \<longrightarrow> (\<forall>e' \<in> set (take 1 (filter ?P es)). seq_or_zero e' \<le> seq_or_zero e)"
    if "sorted (map seq_or_zero es)" for es
    using that by (induction es) auto
  from this [OF sorted_events [OF assms]] show ?thesis unfolding l f by blast
qed

text \<open>
  C34: the causal chain of a logged event is a repetition-free list of logged events that ends in that
  event and in which each event was caused by the one before it; it starts at an event with no
  cause, with a cause that is not logged, or with a cause inside the chain.
\<close>

theorem causal_chain_correct:
  assumes "store_wf s" and "get_event s eid = Some e" and "eid \<noteq> []"
  shows "last (get_causal_chain s eid) = e \<and> get_causal_chain s eid \<noteq> []
    \<and> set (get_causal_chain s eid) \<subseteq> set (s_events s) \<and> distinct (map e_event_id (get_causal_chain s eid))
    \<and> caused_in_order (get_causal_chain s eid)
    \<and> (let cause = e_causation_id (hd (get_causal_chain s eid))
       in \<not> given cause \<or> get_event s (the cause) = None \<or> the cause \<in> e_event_id ` set (get_causal_chain s eid))"
proof -
  define es where "es = causal_loop s (e_causation_id e) [eid]"
  have es: "causal_loop s (Some eid) [] = e # es"
    using causal_loop_step [of "Some eid" "[]" s e] assms(2,3) by (simp add: es_def)
  note facts = causal_loop_facts [OF assms(1), of "Some eid" "[]", unfolded es]
  have chain: "get_causal_chain s eid = rev (e # es)" by (simp only: get_causal_chain_def es)
  have "distinct (map e_event_id (rev (e # es)))" unfolding rev_map [symmetric] distinct_rev using facts by blast
  moreover have "caused_in_order (rev (e # es))" unfolding caused_in_order_def rev_rev_ident using facts by blast
  moreover have "\<not> given (e_causation_id (last (e # es))) \<or> get_event s (the (e_causation_id (last (e # es)))) = None
      \<or> the (e_causation_id (last (e # es))) \<in> e_event_id ` set (rev (e # es))"
    using causal_loop_root [OF assms(1) es] by (simp only: set_rev) simp
  ultimately show ?thesis
    unfolding chain Let_def hd_rev last_rev set_rev using facts by simp
qed

theorem causal_chain_correct_witness:
  "map e_event_id (get_causal_chain (snd sample_log) ''e3'') = [''e1'', ''e2'', ''e3'']
    \<and> caused_in_order (get_causal_chain (snd sample_log) ''e3'')"
proof -
  have "store_wf (snd sample_log)"
    using append_events_effect [OF store_wf_empty sample_log_appends] by blast
  moreover obtain e where "get_event (snd sample_log) ''e3'' = Some e"
  proof -
    have "get_event (snd sample_log) ''e3'' \<noteq> None" by code_simp
    with that show thesis by blast
  qed
  ultimately have "caused_in_order (get_causal_chain (snd sample_log) ''e3'')"
    using causal_chain_correct [of "snd sample_log" "''e3''"] by blast
  moreover have "map e_event_id (get_causal_chain (snd sample_log) ''e3'') = [''e1'', ''e2'', ''e3'']" by code_simp
  ultimately show ?thesis by blast
qed

text \<open>
  Deleting a task removes it, every dependency in which it occurs and every artifact it
  produced, and nothing else; the flag tells whether there was such a task.
\<close>

theorem delete_task_cascade:
  assumes "store_wf s" and "get_task s tid \<noteq> None"
  shows "fst (delete_task tid s)
    \<and> get_task (snd (delete_task tid s)) x = (if x = tid then None else get_task s x)
    \<and> set (dict_values (s_dependencies (snd (delete_task tid s)))) =
        {d \<in> set (dict_values (s_dependencies s)). d_dependent_task_id d \<noteq> tid \<and> d_prerequisite_task_id d \<noteq> tid}
    \<and> set (dict_values (s_artifacts (snd (delete_task tid s)))) =
        {a \<in> set (dict_values (s_artifacts s)). a_task_id a \<noteq> tid}"
  unfolding deps_delete_task [OF assms] artifacts_delete_task [OF assms] get_task_delete_task
  using assms(2) by (simp add: delete_task_def get_task_def Let_def)

theorem delete_task_cascade_witness:
  "get_task (snd (delete_task ''a'' (save_task (sample_task ''a'' T_READY) empty_store))) ''a'' = None"
proof -
  have "store_wf (save_task (sample_task ''a'' T_READY) empty_store)" by simp
  moreover have "get_task (save_task (sample_task ''a'' T_READY) empty_store) ''a'' \<noteq> None" by code_simp
  ultimately show ?thesis using delete_task_cascade [of _ "''a''" "''a''"] by simp
qed

theorem limit_one_is_oldest_witness:
  "map e_event_id (list_events (snd sample_log) None None None None None None (Some 1)) = [''e1'']"
proof -
  have wf: "store_wf (snd sample_log)"
    using append_events_effect [OF store_wf_empty sample_log_appends] by blast
  have "map e_event_id (case find (event_selected None None None None None None) (s_events (snd sample_log)) of
      None \<Rightarrow> [] | Some e \<Rightarrow> [e]) = [''e1'']" by code_simp
  then show ?thesis using limit_one_is_oldest [OF wf, of None None None None None None] by simp
qed

end
