(* ===== verification/Registries.thy ===== *)
theory Registries
  imports Errors Store_Invariant
begin

text \<open>
  The registries of \<open>core/runtime/\<close>: projects (\<open>project_registry.py\<close>), artifacts
  (\<open>artifact_registry.py\<close>) and workers (\<open>worker_registry.py\<close>) with their in-memory instances and
  factories. An operation that raises returns \<open>Inl\<close> together with the state it leaves behind, since
  what was persisted before the exception stays. The reading of the clock (\<open>now\<close>) and a fresh
  identifier (\<open>nid\<close>) are arguments; one reading stands for all readings of one operation.
\<close>

section \<open>Projects\<close>

text \<open>\<open>resolve\<close> is \<open>str(Path(root_path).resolve())\<close>; the directory it creates is outside the model.\<close>

definition registry_create_project ::
  "(string \<Rightarrow> string) \<Rightarrow> string \<Rightarrow> string \<Rightarrow> string \<Rightarrow> string option \<Rightarrow> pydict option \<Rightarrow> string \<Rightarrow> string \<Rightarrow>
    store \<Rightarrow> (error + project) \<times> store" where
  "registry_create_project resolve name root_path description pid config nid now s =
     (let pid' = or_else pid nid in
      case get_project s pid' of
        Some _ \<Rightarrow> (Inl (ProjectAlreadyExistsError pid'), s)
      | None \<Rightarrow>
          let p = \<lparr>p_id = pid', p_name = name, p_description = description,
                p_root_path = resolve root_path, p_status = P_ACTIVE,
                p_configuration = (case config of None \<Rightarrow> [] | Some c \<Rightarrow> c),
                p_created_at = now, p_updated_at = now\<rparr>
          in (Inr p, save_project p s))"

definition registry_get_project :: "string \<Rightarrow> store \<Rightarrow> error + project" where
  "registry_get_project pid s =
     (case get_project s pid of None \<Rightarrow> Inl (ProjectNotFoundError pid) | Some p \<Rightarrow> Inr p)"

definition registry_update_project ::
  "string \<Rightarrow> string option \<Rightarrow> string option \<Rightarrow> project_status option \<Rightarrow> pydict option \<Rightarrow> string \<Rightarrow>
    store \<Rightarrow> (error + project) \<times> store" where
  "registry_update_project pid name description status config now s =
     (case registry_get_project pid s of
        Inl e \<Rightarrow> (Inl e, s)
      | Inr p \<Rightarrow>
          let p1 = (case name of None \<Rightarrow> p | Some x \<Rightarrow> p\<lparr>p_name := x\<rparr>);
              p2 = (case description of None \<Rightarrow> p1 | Some x \<Rightarrow> p1\<lparr>p_description := x\<rparr>);
              p3 = (case status of None \<Rightarrow> p2 | Some x \<Rightarrow> p2\<lparr>p_status := x\<rparr>);
              p4 = (case config of None \<Rightarrow> p3 | Some x \<Rightarrow> p3\<lparr>p_configuration := x\<rparr>);
              p5 = p4\<lparr>p_updated_at := now\<rparr>
          in (Inr p5, save_project p5 s))"

definition registry_delete_project :: "string \<Rightarrow> store \<Rightarrow> (error + bool) \<times> store" where
  "registry_delete_project pid s =
     (case registry_get_project pid s of
        Inl e \<Rightarrow> (Inl e, s)
      | Inr _ \<Rightarrow> (let (b, s') = delete_project pid s in (Inr b, s')))"


section \<open>Artifacts\<close>

text \<open>
  \<open>sha\<close> is the hexadecimal SHA-256 digest of the content and \<open>join_path\<close> is \<open>str(Path(base) / rel)\<close>;
  writing the file is outside the model.
\<close>

definition register_artifact ::
  "(string \<Rightarrow> string) \<Rightarrow> (string \<Rightarrow> string \<Rightarrow> string) \<Rightarrow> string \<Rightarrow> string \<Rightarrow> string \<Rightarrow> artifact_type \<Rightarrow> string \<Rightarrow>
    string \<Rightarrow> string option \<Rightarrow> string option \<Rightarrow> pydict option \<Rightarrow> string option \<Rightarrow> string \<Rightarrow> string \<Rightarrow>
    store \<Rightarrow> artifact \<times> store" where
  "register_artifact sha join_path pid tid wid ty rel description content base metadata aid nid now s =
     (let aid' = or_else aid nid;
          checksum = (case content of None \<Rightarrow> None | Some c \<Rightarrow> Some (sha c));
          target = (if content \<noteq> None \<and> given base then join_path (the base) rel else rel);
          a = \<lparr>a_id = aid', a_project_id = pid, a_task_id = tid, a_worker_id = wid, a_type = ty,
            a_path = target, a_description = description, a_checksum = checksum,
            a_metadata = (case metadata of None \<Rightarrow> [] | Some m \<Rightarrow> m), a_created_at = now\<rparr>;
          s1 = save_artifact a s;
          s2 = (case get_task s1 tid of
                  None \<Rightarrow> s1
                | Some t \<Rightarrow> if aid' \<notin> set (t_artifacts t)
                    then save_task (t\<lparr>t_artifacts := t_artifacts t @ [aid']\<rparr>) s1 else s1)
      in (a, s2))"

definition registry_get_artifact :: "string \<Rightarrow> store \<Rightarrow> error + artifact" where
  "registry_get_artifact aid s =
     (case get_artifact s aid of None \<Rightarrow> Inl (ArtifactNotFoundError aid) | Some a \<Rightarrow> Inr a)"


section \<open>Workers\<close>

text \<open>
  A worker instance of \<open>pkg/sdk/worker.py\<close>: its manifest at a reading of the clock, whether
  \<open>get_manifest\<close> returns the one cached object (so that changes made to the result are kept), and the
  error its \<open>validate_task\<close> raises, if any.
\<close>

record worker_instance =
  wi_manifest :: "string \<Rightarrow> worker"
  wi_cached :: bool
  wi_validate :: "task \<Rightarrow> error option"

type_synonym factory = "string \<Rightarrow> string \<Rightarrow> error + worker_instance"
  \<comment> \<open>worker identifier and clock reading to an instance, or the exception thrown\<close>

record registry =
  r_store :: store
  r_instances :: "(string, worker_instance) dict"
  r_factories :: "(string, factory) dict"

definition wi_set :: "worker \<Rightarrow> worker_instance \<Rightarrow> worker_instance" where
  "wi_set m wi = (if wi_cached wi then wi\<lparr>wi_manifest := (\<lambda>_. m)\<rparr> else wi)"

definition put_instance :: "string \<Rightarrow> worker_instance \<Rightarrow> registry \<Rightarrow> registry" where
  "put_instance wid wi r = r\<lparr>r_instances := dict_set wid wi (r_instances r)\<rparr>"

definition put_store :: "store \<Rightarrow> registry \<Rightarrow> registry" where
  "put_store s r = r\<lparr>r_store := s\<rparr>"

text \<open>The specialists of \<open>workers/researcher\<close>, \<open>workers/programmer\<close>, \<open>workers/tester\<close> and the dummy worker.\<close>

definition specialist_manifest ::
  "string \<Rightarrow> string \<Rightarrow> string \<Rightarrow> string \<Rightarrow> string list \<Rightarrow> string list \<Rightarrow> string list \<Rightarrow> string \<Rightarrow> worker" where
  "specialist_manifest wid name role description capabilities permissions tools now =
     \<lparr>w_id = wid, w_name = name, w_role = role, w_description = description, w_version = ''1.0.0'',
      w_capabilities = capabilities, w_permissions = permissions, w_tools = tools, w_model_policy = [],
      w_status = W_REGISTERED, w_active_task_id = None, w_created_at = now, w_updated_at = now\<rparr>"

definition make_researcher :: factory where
  "make_researcher wid now =
     (let m = specialist_manifest (if wid = [] then ''worker.researcher'' else wid)
        ''AutonomOS Specialist Researcher'' ''Researcher''
        ''Autonomous specialist gathering, cross-checking, and synthesizing evidence-backed research''
        [''RESEARCH'', ''WEB_ACCESS'', ''STRUCTURED_OUTPUT'', ''DOCUMENTATION'', ''INFORMATION_SYNTHESIS'',
         ''SOURCE_ANALYSIS'', ''EVIDENCE_EXTRACTION'']
        [''web'', ''web.search'', ''web.fetch'', ''filesystem.read_file'', ''filesystem.list_directory'', ''*''] [] now
      in Inr \<lparr>wi_manifest = (\<lambda>_. m), wi_cached = True, wi_validate = (\<lambda>_. None)\<rparr>)"

definition make_programmer :: factory where
  "make_programmer wid now =
     (let m = specialist_manifest (if wid = [] then ''worker.programmer'' else wid)
        ''AutonomOS Specialist Programmer'' ''Programmer''
        ''Autonomous specialist for software implementation, code editing, testing, and evidence generation''
        [''CODE_GENERATION'', ''CODE_ANALYSIS'', ''REPOSITORY_ANALYSIS'', ''FILE_MANIPULATION'', ''CODE_EXECUTION'',
         ''TESTING'', ''VERSION_CONTROL'', ''DEBUGGING'', ''REFACTORING'', ''BUILD_EXECUTION'']
        [''filesystem'', ''filesystem.read_file'', ''filesystem.write_file'', ''filesystem.delete_file'',
         ''filesystem.list_directory'', ''shell.execute'', ''git'', ''git.status'', ''git.diff'', ''*''] [] now
      in Inr \<lparr>wi_manifest = (\<lambda>_. m), wi_cached = True, wi_validate = (\<lambda>_. None)\<rparr>)"

definition make_tester :: factory where
  "make_tester wid now =
     Inr \<lparr>wi_manifest = specialist_manifest (if wid = [] then ''worker.tester'' else wid)
         ''Specialist Tester Worker'' ''Independent QA & Evaluation Engineer''
         ''Executes independent tests, verifies requirements, isolates regressions, investigates defects, and logs authoritative evidence.''
         [''TESTING'', ''CODE_ANALYSIS'', ''UI_ANALYSIS'', ''CODE_EXECUTION'', ''VISION'', ''STRUCTURED_OUTPUT'']
         [''*''] [''shell.execute'', ''filesystem.read'', ''filesystem.list''],
       wi_cached = False, wi_validate = (\<lambda>_. None)\<rparr>"

definition dummy_validate :: "string \<Rightarrow> task \<Rightarrow> error option" where
  "dummy_validate wid t =
     (if contains (t_title t) ''REJECT_TASK''
      then Some (WorkerNotEligibleError wid ''Task rejected by policy in title.'') else None)"

definition register_worker_factory :: "string \<Rightarrow> factory \<Rightarrow> registry \<Rightarrow> registry" where
  "register_worker_factory key f r = r\<lparr>r_factories := dict_set (lower key) f (r_factories r)\<rparr>"

definition new_registry :: "store \<Rightarrow> registry" where
  "new_registry s =
     fold (\<lambda>(k, f). register_worker_factory k f)
       [(''Researcher'', make_researcher), (''worker.researcher'', make_researcher),
        (''worker.researcher.codebase'', make_researcher), (''worker.researcher.spec'', make_researcher),
        (''Programmer'', make_programmer), (''worker.programmer'', make_programmer),
        (''worker.programmer.general'', make_programmer),
        (''Tester'', make_tester), (''worker.tester'', make_tester),
        (''worker.tester.verification'', make_tester)]
       \<lparr>r_store = s, r_instances = [], r_factories = []\<rparr>"

definition has_worker :: "string \<Rightarrow> registry \<Rightarrow> bool" where
  "has_worker wid r \<longleftrightarrow> dict_get (r_instances r) wid \<noteq> None \<or> get_worker (r_store r) wid \<noteq> None"

definition matches_role :: "string \<Rightarrow> worker \<Rightarrow> bool" where
  "matches_role role_lower w \<longleftrightarrow> lower (w_role w) = role_lower \<or> contains (lower (w_id w)) role_lower"

definition get_active_worker_for_role :: "string \<Rightarrow> registry \<Rightarrow> worker option" where
  "get_active_worker_for_role role r =
     (let workers = list_workers (r_store r); role_lower = lower role in
      case find (\<lambda>w. matches_role role_lower w \<and> w_status w = W_IDLE) workers of
        Some w \<Rightarrow> Some w
      | None \<Rightarrow> find (\<lambda>w. matches_role role_lower w \<and> w_status w \<notin> {W_TERMINATED, W_ERROR, W_FAILED}) workers)"

definition is_worker_busy :: "string \<Rightarrow> registry \<Rightarrow> bool" where
  "is_worker_busy wid r =
     (case get_worker (r_store r) wid of None \<Rightarrow> False | Some w \<Rightarrow> worker_engaged (w_status w))"

fun find_factory_loop :: "string \<Rightarrow> (string, factory) dict \<Rightarrow> factory option" where
  "find_factory_loop idl [] = None"
| "find_factory_loop idl ((key, f) # rest) =
     (if startswith idl key \<or> startswith key idl then Some f
      else if contains idl ''research'' \<and> contains key ''research'' then Some f
      else if contains idl ''program'' \<and> contains key ''program'' then Some f
      else if contains idl ''test'' \<and> contains key ''test'' then Some f
      else find_factory_loop idl rest)"

definition find_factory :: "string \<Rightarrow> registry \<Rightarrow> factory option" where
  "find_factory ident r =
     (let idl = lower ident in
      case dict_get (r_factories r) idl of
        Some f \<Rightarrow> Some f
      | None \<Rightarrow> find_factory_loop idl (r_factories r))"

text \<open>\<open>self._find_factory(w.role) or self._find_factory(w.id)\<close>\<close>

definition find_factory_for :: "worker \<Rightarrow> registry \<Rightarrow> factory option" where
  "find_factory_for w r =
     (case find_factory (w_role w) r of Some f \<Rightarrow> Some f | None \<Rightarrow> find_factory (w_id w) r)"

text \<open>Restoring the instance of a persisted worker; an exception of the factory is only logged.\<close>

definition restore_instance :: "worker \<Rightarrow> string \<Rightarrow> registry \<Rightarrow> registry" where
  "restore_instance w now r =
     (case find_factory_for w r of
        None \<Rightarrow> r
      | Some f \<Rightarrow> (case f (w_id w) now of Inl _ \<Rightarrow> r | Inr wi \<Rightarrow> put_instance (w_id w) wi r))"

definition provision_worker ::
  "string \<Rightarrow> worker_status \<Rightarrow> string \<Rightarrow> registry \<Rightarrow> (error + worker \<times> bool) \<times> registry" where
  "provision_worker ident initial now r =
     (case get_worker (r_store r) ident of
        Some w \<Rightarrow>
          (Inr (w, False), if dict_get (r_instances r) ident = None then restore_instance w now r else r)
      | None \<Rightarrow>
          (case get_active_worker_for_role ident r of
             Some w \<Rightarrow>
               (Inr (w, False), if dict_get (r_instances r) (w_id w) = None then restore_instance w now r else r)
           | None \<Rightarrow>
               (case find_factory ident r of
                  None \<Rightarrow>
                    (Inl (WorkerActivationFailedError ident
                       (''No factory registered for worker identifier or role '' @ quoted ident) None False ''FAILED''), r)
                | Some f \<Rightarrow>
                    let target = (if contains ident ''.'' then ident else ''worker.'' @ lower ident) in
                    (case f target now of
                      Inl e \<Rightarrow>
                        (Inl (WorkerActivationFailedError target
                           (''Instantiation threw exception: '' @ error_message e) None False ''FAILED''), r)
                    | Inr wi \<Rightarrow>
                        let m = wi_manifest wi now\<lparr>w_status := W_REGISTERED\<rparr>;
                            r1 = put_store (save_worker m (r_store r)) (put_instance (w_id m) (wi_set m wi) r)
                        in if initial = W_REGISTERED then (Inr (m, True), r1)
                           else (case worker_transition m initial None now of
                             Inl e \<Rightarrow> (Inl e, r1)
                           | Inr m' \<Rightarrow>
                               (Inr (m', True),
                                put_store (save_worker m' (r_store r1)) (put_instance (w_id m) (wi_set m' wi) r1)))))))"

definition register_worker :: "worker_instance \<Rightarrow> worker_status \<Rightarrow> string \<Rightarrow> registry \<Rightarrow> (error + worker) \<times> registry" where
  "register_worker wi initial now r =
     (let m = wi_manifest wi now; wid = w_id m in
      if get_worker (r_store r) wid \<noteq> None then (Inl (WorkerAlreadyExistsError wid), r)
      else
        let m' = m\<lparr>w_status := initial\<rparr>
        in (Inr m', put_store (save_worker m' (r_store r)) (put_instance wid (wi_set m' wi) r)))"

definition register_worker_instance_only :: "worker_instance \<Rightarrow> string \<Rightarrow> registry \<Rightarrow> registry" where
  "register_worker_instance_only wi now r =
     (let m = wi_manifest wi now;
          r1 = put_instance (w_id m) wi r
      in if get_worker (r_store r) (w_id m) = None then put_store (save_worker m (r_store r)) r1 else r1)"

definition registry_get_worker :: "string \<Rightarrow> registry \<Rightarrow> error + worker" where
  "registry_get_worker wid r =
     (case get_worker (r_store r) wid of None \<Rightarrow> Inl (WorkerNotFoundError wid) | Some w \<Rightarrow> Inr w)"

definition get_worker_instance :: "string \<Rightarrow> string \<Rightarrow> registry \<Rightarrow> (error + worker_instance) \<times> registry" where
  "get_worker_instance wid now r =
     (case dict_get (r_instances r) wid of
        Some wi \<Rightarrow> (Inr wi, r)
      | None \<Rightarrow>
          (case registry_get_worker wid r of
             Inl e \<Rightarrow> (Inl e, r)
           | Inr m \<Rightarrow>
               (case find_factory_for m r of
                  None \<Rightarrow> (Inl (WorkerNotFoundError (wid @ '' (instance not loaded into memory)'')), r)
                | Some f \<Rightarrow>
                    (case f (w_id m) now of
                       Inl e \<Rightarrow> (Inl e, r)
                     | Inr wi \<Rightarrow> (Inr wi, put_instance (w_id m) wi r)))))"

definition registry_update_worker_status ::
  "string \<Rightarrow> worker_status \<Rightarrow> string option \<Rightarrow> string \<Rightarrow> registry \<Rightarrow> (error + worker) \<times> registry" where
  "registry_update_worker_status wid target active now r =
     (case registry_get_worker wid r of
        Inl e \<Rightarrow> (Inl e, r)
      | Inr m \<Rightarrow>
          (case worker_transition m target active now of
             Inl e \<Rightarrow> (Inl e, r)
           | Inr m' \<Rightarrow> (Inr m', put_store (save_worker m' (r_store r)) r)))"

definition remove_worker :: "string \<Rightarrow> registry \<Rightarrow> (error + bool) \<times> registry" where
  "remove_worker wid r =
     (case registry_get_worker wid r of
        Inl e \<Rightarrow> (Inl e, r)
      | Inr _ \<Rightarrow>
          let r1 = r\<lparr>r_instances := dict_del wid (r_instances r)\<rparr>;
              (b, s') = delete_worker wid (r_store r1)
          in (Inr b, put_store s' r1))"

lemma r_store_simps [simp]:
  "r_store (put_store s r) = s" "r_store (put_instance wid wi r) = r_store r"
  "r_store (new_registry s) = s" "r_store (restore_instance w now r) = r_store r"
  by (simp_all add: put_store_def put_instance_def new_registry_def register_worker_factory_def
      restore_instance_def split: option.splits sum.splits)


section \<open>Provisioning\<close>

lemma lower_append [simp]: "lower (a @ b) = lower a @ lower b"
  by (simp add: lower_def)

lemma lower_char_idem [simp]: "lower_char (lower_char c) = lower_char c"
  by (auto simp: lower_char_def)

lemma lower_idem [simp]: "lower (lower s) = lower s"
  by (simp add: lower_def)

text \<open>The factories build instances whose manifest has the identifier they were given.\<close>

definition honest_factories :: "registry \<Rightarrow> bool" where
  "honest_factories r \<longleftrightarrow> (\<forall>f \<in> snd ` set (r_factories r). \<forall>wid now wi now'.
     wid \<noteq> [] \<longrightarrow> f wid now = Inr wi \<longrightarrow> w_id (wi_manifest wi now') = wid)"

lemma find_factory_loop_mem: "find_factory_loop idl d = Some f \<Longrightarrow> f \<in> snd ` set d"
  by (induction idl d rule: find_factory_loop.induct) (auto split: if_splits)

lemma find_factory_mem: "find_factory ident r = Some f \<Longrightarrow> f \<in> snd ` set (r_factories r)"
  unfolding find_factory_def Let_def
  by (auto split: option.splits dest: find_factory_loop_mem map_of_SomeD intro: rev_image_eqI)

lemma values_dict_set_subset: "snd ` set (dict_set k v d) \<subseteq> insert v (snd ` set d)"
  by (induction d) auto

lemma honest_set_factory:
  assumes "honest_factories r"
    and "\<And>wid now wi now'. wid \<noteq> [] \<Longrightarrow> f wid now = Inr wi \<Longrightarrow> w_id (wi_manifest wi now') = wid"
  shows "honest_factories (register_worker_factory k f r)"
proof -
  have "snd ` set (r_factories (register_worker_factory k f r)) \<subseteq> insert f (snd ` set (r_factories r))"
    using values_dict_set_subset by (simp add: register_worker_factory_def)
  then show ?thesis using assms unfolding honest_factories_def by blast
qed

lemma honest_register_default:
  assumes "honest_factories r" and "f \<in> {make_researcher, make_programmer, make_tester}"
  shows "honest_factories (register_worker_factory k f r)"
proof (rule honest_set_factory [OF assms(1)])
  fix wid now wi now'
  assume "wid \<noteq> []" and "f wid now = Inr wi"
  with assms(2) show "w_id (wi_manifest wi now') = wid"
    by (elim insertE emptyE)
      (auto simp: make_researcher_def make_programmer_def make_tester_def specialist_manifest_def Let_def)
qed

lemma honest_new_registry: "honest_factories (new_registry s)"
proof -
  have "honest_factories \<lparr>r_store = s, r_instances = [], r_factories = []\<rparr>"
    by (simp add: honest_factories_def)
  then show ?thesis
    unfolding new_registry_def by (simp add: honest_register_default)
qed

definition provision_target :: "string \<Rightarrow> string" where
  "provision_target ident = (if contains ident ''.'' then ident else ''worker.'' @ lower ident)"

lemma provision_target_ne: "provision_target ident \<noteq> []"
  by (auto simp: provision_target_def)

lemma role_in_target: "contains (lower (''worker.'' @ lower ident)) (lower ident)"
  unfolding contains_iff_sublist lower_append lower_idem sublist_def by (metis append_Nil2)

text \<open>A worker under the target identifier would have been found by role unless it is out of service.\<close>

lemma provision_target_free:
  assumes "store_wf (r_store r)" and "get_worker (r_store r) ident = None"
    and "get_active_worker_for_role ident r = None" and "get_worker (r_store r) (provision_target ident) = Some v"
  shows "w_status v \<in> {W_TERMINATED, W_ERROR, W_FAILED}"
proof -
  have t: "provision_target ident = ''worker.'' @ lower ident"
    using assms(2,4) by (auto simp: provision_target_def split: if_splits)
  have "v \<in> set (list_workers (r_store r))" using workers_tbl.get_in_rows [OF assms(1,4)] .
  moreover have "matches_role (lower ident) v"
    using workers_tbl.key_get [OF assms(1,4)] role_in_target [of ident]
    unfolding t matches_role_def by simp
  ultimately show ?thesis
    using assms(3) by (auto simp: get_active_worker_for_role_def Let_def find_None_iff split: option.splits)
qed

lemma provision_worker_cases:
  assumes "store_wf (r_store r)" and "honest_factories r"
  obtains (failed) e where "provision_worker ident W_IDLE now r = (Inl e, r)"
      "get_worker (r_store r) ident = None" "get_active_worker_for_role ident r = None"
    | (existing) w r' where "provision_worker ident W_IDLE now r = (Inr (w, False), r')"
      "r_store r' = r_store r" "r_factories r' = r_factories r"
      "get_worker (r_store r) ident = Some w
        \<or> get_worker (r_store r) ident = None \<and> get_active_worker_for_role ident r = Some w"
    | (fresh) w r' where "provision_worker ident W_IDLE now r = (Inr (w, True), r')"
      "w_id w = provision_target ident" "w_status w = W_IDLE" "r_store r' = save_worker w (r_store r)"
      "r_factories r' = r_factories r"
      "get_worker (r_store r) ident = None" "get_active_worker_for_role ident r = None"
proof -
  have fac: "r_factories (restore_instance w now r) = r_factories r" for w
    by (simp add: restore_instance_def put_instance_def split: option.splits sum.splits)
  show thesis
  proof (cases "get_worker (r_store r) ident")
    case (Some w)
    then show thesis
      by (intro existing [of w "snd (provision_worker ident W_IDLE now r)"]) (simp_all add: provision_worker_def fac)
  next
    case None
    note n1 = None
    show thesis
    proof (cases "get_active_worker_for_role ident r")
      case (Some w)
      with n1 show thesis
        by (intro existing [of w "snd (provision_worker ident W_IDLE now r)"]) (simp_all add: provision_worker_def fac)
    next
      case None
      show thesis
      proof (cases "find_factory ident r")
        case None
        with n1 \<open>get_active_worker_for_role ident r = None\<close> show thesis
          by (intro failed) (simp_all add: provision_worker_def)
      next
        case (Some f)
        note base = n1 \<open>get_active_worker_for_role ident r = None\<close> Some
        show thesis
        proof (cases "f (provision_target ident) now")
          case (Inl e)
          with base show thesis
            by (intro failed) (simp_all add: provision_worker_def provision_target_def)
        next
          case (Inr wi)
          let ?m = "wi_manifest wi now\<lparr>w_status := W_REGISTERED\<rparr>"
          let ?m' = "wi_manifest wi now\<lparr>w_status := W_IDLE, w_active_task_id := None, w_updated_at := now\<rparr>"
          have id: "w_id (wi_manifest wi now) = provision_target ident"
            using assms(2) find_factory_mem [OF Some] Inr provision_target_ne
            unfolding honest_factories_def by blast
          have go: "worker_transition ?m W_IDLE None now = Inr ?m'"
            by (simp add: worker_transition_def worker_can_transition_def Let_def)
          let ?r' = "put_store (save_worker ?m' (save_worker ?m (r_store r)))
                (put_instance (w_id ?m) (wi_set ?m' wi)
                  (put_store (save_worker ?m (r_store r)) (put_instance (w_id ?m) (wi_set ?m wi) r)))"
          have "provision_worker ident W_IDLE now r = (Inr (?m', True), ?r')"
            using base Inr go by (simp add: provision_worker_def provision_target_def Let_def)
          moreover have "save_worker ?m' (save_worker ?m (r_store r)) = save_worker ?m' (r_store r)"
            by (simp add: save_worker_def)
          ultimately show thesis
            using base id by (intro fresh [of ?m' ?r']) (simp_all add: put_store_def put_instance_def)
        qed
      qed
    qed
  qed
qed


section \<open>Properties\<close>

text \<open>
  Provisioning is idempotent: once a worker has been provisioned for an identifier or a role, a
  second request returns the same manifest, registers nothing new and leaves the store unchanged.
\<close>

theorem provision_idempotent:
  assumes "store_wf (r_store r)" and "honest_factories r"
    and "provision_worker ident W_IDLE now r = (Inr (w, b), r1)"
  shows "fst (provision_worker ident W_IDLE now' r1) = Inr (w, False)
    \<and> r_store (snd (provision_worker ident W_IDLE now' r1)) = r_store r1"
  using assms(1,2)
proof (cases rule: provision_worker_cases [of r ident now])
  case (existing v r')
  with assms(3) have *: "v = w" "r' = r1" by simp_all
  with existing have "get_worker (r_store r1) ident = Some w
      \<or> get_worker (r_store r1) ident = None \<and> get_active_worker_for_role ident r1 = Some w"
    by (simp add: get_active_worker_for_role_def)
  then show ?thesis by (auto simp: provision_worker_def)
next
  case (fresh v r')
  with assms(3) have *: "v = w" "r' = r1" by simp_all
  have wf1: "store_wf (r_store r1)" using fresh * assms(1) by simp
  have got: "get_worker (r_store r1) (provision_target ident) = Some w"
    using fresh * by (simp add: workers_tbl.get_save)
  have ident: "get_worker (r_store r1) ident = (if provision_target ident = ident then Some w else None)"
    using fresh * by (auto simp: workers_tbl.get_save)
  have "get_active_worker_for_role ident r1 = Some w" if "provision_target ident \<noteq> ident"
  proof -
    have t: "provision_target ident = ''worker.'' @ lower ident"
      using that by (auto simp: provision_target_def split: if_splits)
    have role: "matches_role (lower ident) w"
      using fresh * t role_in_target [of ident] unfolding matches_role_def by simp
    have others: "\<not> (matches_role (lower ident) u \<and> w_status u = W_IDLE)"
      if "u \<in> set (list_workers (r_store r1))" "u \<noteq> w" for u
    proof -
      have "u \<in> set (list_workers (r_store r))"
        using that fresh * workers_tbl.rows_save [OF assms(1)] by simp
      with fresh show ?thesis
        by (auto simp: get_active_worker_for_role_def Let_def find_None_iff split: option.splits)
    qed
    have "w \<in> set (list_workers (r_store r1))" using workers_tbl.get_in_rows [OF wf1 got] .
    then have "find (\<lambda>u. matches_role (lower ident) u \<and> w_status u = W_IDLE) (list_workers (r_store r1)) \<noteq> None"
      using role fresh * by (auto simp: find_None_iff)
    then obtain u where u: "find (\<lambda>u. matches_role (lower ident) u \<and> w_status u = W_IDLE) (list_workers (r_store r1)) = Some u"
      by blast
    then have "u \<in> set (list_workers (r_store r1))" "matches_role (lower ident) u \<and> w_status u = W_IDLE"
      by (auto simp: find_Some_iff)
    then have "u = w" using others by blast
    with u show ?thesis by (simp add: get_active_worker_for_role_def Let_def)
  qed
  with ident show ?thesis by (auto simp: provision_worker_def)
qed (use assms(3) in simp)

theorem provision_idempotent_witness:
  "fst (provision_worker ''Programmer'' W_IDLE ''later''
      (snd (provision_worker ''Programmer'' W_IDLE ''now'' (new_registry empty_store))))
    = Inr (fst (projr (fst (provision_worker ''Programmer'' W_IDLE ''now'' (new_registry empty_store)))), False)"
proof -
  let ?p = "provision_worker ''Programmer'' W_IDLE ''now'' (new_registry empty_store)"
  have "\<not> isl (fst ?p)" by code_simp
  then obtain w b where "fst ?p = Inr (w, b)" by (cases "fst ?p") auto
  then have "?p = (Inr (w, b), snd ?p)" by (metis prod.collapse)
  from provision_idempotent [OF _ honest_new_registry this, of "''later''"] \<open>fst ?p = Inr (w, b)\<close>
  show ?thesis by simp
qed

end
