(* ===== verification/Safety.thy ===== *)
theory Safety
  imports Tool_Policy Registries
begin

text \<open>
  The evaluation of a tool request in its context by the safety layer (\<open>core/safety/evaluator.py\<close>) with its
  configuration and decisions (\<open>core/safety/model.py\<close>). Regular expressions and the resolution of paths by the
  operating system are parameters.
\<close>

section \<open>Data model\<close>

datatype safety_action = SA_ALLOW | SA_ALLOW_WITH_CHECKPOINT | SA_DENY | SA_REQUIRES_APPROVAL | SA_ESCALATE

primrec safety_action_value :: "safety_action \<Rightarrow> string" where
  "safety_action_value SA_ALLOW = ''ALLOW''"
| "safety_action_value SA_ALLOW_WITH_CHECKPOINT = ''ALLOW_WITH_CHECKPOINT''"
| "safety_action_value SA_DENY = ''DENY''"
| "safety_action_value SA_REQUIRES_APPROVAL = ''REQUIRES_APPROVAL''"
| "safety_action_value SA_ESCALATE = ''ESCALATE''"

record safety_config =
  sc_auto_checkpoint :: bool
  sc_max_retries :: int
  sc_max_changed_files :: int
  sc_max_diff_bytes :: int
  sc_protected_paths :: "string list"
  sc_allow_high_risk :: bool
  sc_strict_scope_enforcement :: bool

definition default_safety_config :: safety_config where
  "default_safety_config =
     \<lparr>sc_auto_checkpoint = True, sc_max_retries = 2, sc_max_changed_files = 25, sc_max_diff_bytes = 500000,
      sc_protected_paths = [''.git'', ''.autonomos/memory/architecture.md'', ''.autonomos/memory/project-map.md'',
        ''.env'', ''production.env'', ''secrets''],
      sc_allow_high_risk = False, sc_strict_scope_enforcement = True\<rparr>"

record safety_decision =
  sd_decision :: safety_action
  sd_risk_level :: risk_level
  sd_reasons :: "string list"
  sd_required_checkpoint :: bool
  sd_required_approval :: bool
  sd_allowed_paths :: "string list"
  sd_metadata :: pydict


section \<open>Paths and scope\<close>

text \<open>\<open>s.strip().lstrip("/\\")\<close>\<close>

definition clean_path :: "string \<Rightarrow> string" where
  "clean_path s = lstrip_chars [CHR ''/'', CHR 0x5C] (strip s)"

definition protected_by :: "string \<Rightarrow> string \<Rightarrow> bool" where
  "protected_by prot path \<longleftrightarrow>
     (let p = clean_path prot
      in path = p \<or> startswith path (p @ ''/'') \<or> startswith path (p @ [CHR 0x5C]))"

definition in_scope :: "string list \<Rightarrow> string \<Rightarrow> bool" where
  "in_scope allowed path \<longleftrightarrow>
     (\<exists>ap \<in> set allowed. path = ap \<or> startswith path (ap @ ''/'') \<or> startswith ap (path @ ''/''))"

text \<open>\<open>d.get(k1) or d.get(k2) or ...\<close>: the first truthy value, else the last one.\<close>

fun first_truthy :: "pydict \<Rightarrow> string list \<Rightarrow> pyval" where
  "first_truthy d [] = PNone"
| "first_truthy d [k] = (case dict_get d k of None \<Rightarrow> PNone | Some v \<Rightarrow> v)"
| "first_truthy d (k # k' # ks) =
     (case dict_get d k of Some v \<Rightarrow> if truthy v then v else first_truthy d (k' # ks) | None \<Rightarrow> first_truthy d (k' # ks))"

definition reference_path :: "pyval \<Rightarrow> string option" where
  "reference_path ref =
     (case ref of
        PDict d \<Rightarrow> (let p = first_truthy d [''path'', ''target'', ''file'']
                    in if truthy p then Some (clean_path (str_val p)) else None)
      | PStr s \<Rightarrow> Some (clean_path s)
      | _ \<Rightarrow> None)"

definition task_allowed_paths :: "task \<Rightarrow> string list" where
  "task_allowed_paths t = List.map_filter reference_path (t_context_references t)"


section \<open>Evaluation of a request\<close>

definition dangerous_shell_patterns :: "string list" where
  "dangerous_shell_patterns =
     [[CHR 0x5C] @ ''brm'' @ [CHR 0x5C] @ ''s+-[rRfF]+'' @ [CHR 0x5C] @ ''s+(/|'' @ [CHR 0x5C] @ ''*|~|'' @ [CHR 0x5C] @ ''.''
        @ [CHR 0x5C] @ ''.)'',
      [CHR 0x5C] @ ''bmkfs'' @ [CHR 0x5C] @ ''b'',
      [CHR 0x5C] @ ''bdd'' @ [CHR 0x5C] @ ''s+if='',
      [CHR 0x5C] @ ''bshutdown'' @ [CHR 0x5C] @ ''b'',
      [CHR 0x5C] @ ''breboot'' @ [CHR 0x5C] @ ''b'',
      [CHR 0x5C] @ ''bkillall'' @ [CHR 0x5C] @ ''b'',
      [CHR 0x5C] @ ''bgit'' @ [CHR 0x5C] @ ''s+reset'' @ [CHR 0x5C] @ ''s+--hard'' @ [CHR 0x5C] @ ''b'',
      [CHR 0x5C] @ ''bgit'' @ [CHR 0x5C] @ ''s+clean'' @ [CHR 0x5C] @ ''s+-[fdx]+'' @ [CHR 0x5C] @ ''b'',
      [CHR 0x5C] @ ''bgit'' @ [CHR 0x5C] @ ''s+push'' @ [CHR 0x5C] @ ''s+--force'' @ [CHR 0x5C] @ ''b'',
      [CHR 0x5C] @ ''bchmod'' @ [CHR 0x5C] @ ''s+-R'' @ [CHR 0x5C] @ ''s+777'' @ [CHR 0x5C] @ ''b'']"

text \<open>
  What the evaluation takes from the environment: \<open>env_parts\<close> are the components of a resolved root,
  \<open>env_resolve\<close> those of \<open>(root / path).resolve()\<close> or the exception text, and \<open>env_search\<close> is
  \<open>re.search(pattern, command, re.IGNORECASE)\<close>.
\<close>

record safety_env =
  env_parts :: "string \<Rightarrow> string list"
  env_resolve :: "string \<Rightarrow> string \<Rightarrow> string + string list"
  env_search :: "string \<Rightarrow> string \<Rightarrow> bool"

definition request_path :: "pydict \<Rightarrow> string" where
  "request_path args =
     (let v = first_truthy args [''path'', ''image_path''] in if truthy v then str_val v else [])"

text \<open>\<open>" ".join(args or [])\<close>: a list of strings, the characters of a string, the keys of a dictionary.\<close>

definition py_join :: "string \<Rightarrow> pyval \<Rightarrow> error + string" where
  "py_join sep v =
     (if \<not> truthy v then Inr []
      else case v of
        PList xs \<Rightarrow>
          if (\<forall>x \<in> set xs. case x of PStr _ \<Rightarrow> True | _ \<Rightarrow> False) then Inr (join_with sep (map str_val xs))
          else Inl (TypeError ''sequence item: expected str instance'')
      | PStr s \<Rightarrow> Inr (join_with sep (map (\<lambda>c. [c]) s))
      | PDict d \<Rightarrow> Inr (join_with sep (map fst d))
      | _ \<Rightarrow> Inl (TypeError ''can only join an iterable''))"

definition shell_command :: "pydict \<Rightarrow> error + string" where
  "shell_command args =
     (case dict_get args ''command'' of
        Some v \<Rightarrow> if truthy v then Inr (str_val v)
          else py_join '' '' (case dict_get args ''args'' of None \<Rightarrow> PNone | Some a \<Rightarrow> a)
      | None \<Rightarrow> py_join '' '' (case dict_get args ''args'' of None \<Rightarrow> PNone | Some a \<Rightarrow> a))"

definition has_action :: "pydict \<Rightarrow> string list \<Rightarrow> bool" where
  "has_action args actions \<longleftrightarrow> (\<exists>a \<in> set actions. dict_get args ''action'' = Some (PStr a))"

definition names_mutation :: "string \<Rightarrow> bool" where
  "names_mutation tid \<longleftrightarrow> contains tid ''delete'' \<or> contains tid ''write''"

text \<open>Stage 0: the path must stay below the root of the project.\<close>

definition boundary_check :: "safety_env \<Rightarrow> string \<Rightarrow> string \<Rightarrow> safety_decision option" where
  "boundary_check env root path =
     (if path = [] \<or> root = [] then None
      else case env_resolve env root path of
        Inl err \<Rightarrow> Some
          \<lparr>sd_decision = SA_DENY, sd_risk_level = R_CRITICAL,
           sd_reasons = [''Invalid target path structure '' @ quoted path @ '': '' @ err],
           sd_required_checkpoint = False, sd_required_approval = False, sd_allowed_paths = [],
           sd_metadata = [(''target_path'', PStr path), (''error'', PStr err)]\<rparr>
      | Inr target \<Rightarrow>
          if prefix (env_parts env root) target then None
          else Some
            \<lparr>sd_decision = SA_DENY, sd_risk_level = R_CRITICAL,
             sd_reasons = [''Target path '' @ quoted path @ '' escapes workspace boundary ('' @ quoted root
               @ ''). Operation denied.''],
             sd_required_checkpoint = False, sd_required_approval = False, sd_allowed_paths = [],
             sd_metadata = [(''target_path'', PStr path), (''project_root'', PStr root)]\<rparr>)"

text \<open>Stage 1: protected paths.\<close>

definition protected_check :: "safety_config \<Rightarrow> string \<Rightarrow> string \<Rightarrow> safety_decision option" where
  "protected_check cfg tid path =
     (case find (\<lambda>prot. path \<noteq> [] \<and> protected_by prot path \<and> names_mutation tid) (sc_protected_paths cfg) of
        None \<Rightarrow> None
      | Some prot \<Rightarrow> Some
          \<lparr>sd_decision = (if sc_allow_high_risk cfg then SA_REQUIRES_APPROVAL else SA_DENY), sd_risk_level = R_CRITICAL,
           sd_reasons = [''Target path '' @ quoted path @ '' is a protected resource ('' @ quoted prot
             @ ''). Destructive modification is restricted.''],
           sd_required_checkpoint = False, sd_required_approval = True, sd_allowed_paths = [],
           sd_metadata = [(''target_path'', PStr path), (''protected_rule'', PStr prot)]\<rparr>)"

text \<open>Stage 2: dangerous shell commands.\<close>

definition shell_check :: "safety_env \<Rightarrow> string \<Rightarrow> pydict \<Rightarrow> error + safety_decision option" where
  "shell_check env tid args =
     (if tid \<noteq> ''shell.execute'' then Inr None
      else case shell_command args of
        Inl e \<Rightarrow> Inl e
      | Inr cmd \<Rightarrow>
          (case find (\<lambda>p. env_search env p cmd) dangerous_shell_patterns of
             None \<Rightarrow> Inr None
           | Some p \<Rightarrow> Inr (Some
               \<lparr>sd_decision = SA_REQUIRES_APPROVAL, sd_risk_level = R_CRITICAL,
                sd_reasons = [''Command '' @ quoted (take 60 cmd) @ '' matches dangerous execution pattern '' @ quoted p @ ''.''],
                sd_required_checkpoint = False, sd_required_approval = True, sd_allowed_paths = [],
                sd_metadata = [(''command'', PStr cmd), (''matched_pattern'', PStr p)]\<rparr>)))"

text \<open>Stage 3: the contextual risk, whether a checkpoint is asked for, and the reason given.\<close>

definition contextual_risk :: "string \<Rightarrow> pydict \<Rightarrow> risk_level \<times> bool \<times> string" where
  "contextual_risk tid args =
     (if contains tid ''delete'' \<or> has_action args [''delete_file''] then
        (R_HIGH, True, ''Destructive filesystem deletion operation detected (High Risk).'')
      else if contains tid ''write'' \<or> has_action args [''write_file'', ''create_file''] then
        (R_MEDIUM, True, ''Filesystem modification operation detected (Medium Risk).'')
      else if tid = ''shell.execute'' then
        (R_HIGH, True, ''Shell execution capability carries environmental mutation potential (High Risk).'')
      else if startswith tid ''git'' \<and> has_action args [''commit'', ''add''] then
        (R_MEDIUM, True, ''Version control modification operation detected (Medium Risk).'')
      else (R_LOW, False, ''Read-only or idempotent inspection operation ('' @ tid @ '').''))"

text \<open>Stages 4 and 5: the declared scope of the task and the final decision.\<close>

definition final_decision ::
  "safety_config \<Rightarrow> string \<Rightarrow> string \<Rightarrow> string list \<Rightarrow> risk_level \<Rightarrow> bool \<Rightarrow> string list \<Rightarrow> safety_decision" where
  "final_decision cfg tid path allowed risk req reasons =
     \<lparr>sd_decision =
        (if risk = R_CRITICAL then if sc_allow_high_risk cfg then SA_REQUIRES_APPROVAL else SA_DENY
         else if risk = R_HIGH \<or> risk = R_MEDIUM then
           if sc_auto_checkpoint cfg then SA_ALLOW_WITH_CHECKPOINT else SA_ALLOW
         else SA_ALLOW),
      sd_risk_level = risk, sd_reasons = reasons,
      sd_required_checkpoint = req \<and> sc_auto_checkpoint cfg,
      sd_required_approval = (risk = R_CRITICAL), sd_allowed_paths = allowed,
      sd_metadata = [(''tool_id'', PStr tid), (''target_path'', PStr path)]\<rparr>"

definition scope_and_decide ::
  "safety_config \<Rightarrow> string \<Rightarrow> string \<Rightarrow> string list \<Rightarrow> risk_level \<Rightarrow> bool \<Rightarrow> string \<Rightarrow> safety_decision" where
  "scope_and_decide cfg tid path allowed risk req reason =
     (if path \<noteq> [] \<and> allowed \<noteq> [] \<and> \<not> in_scope allowed path \<and> names_mutation tid then
        let reasons = [reason, ''Target path '' @ quoted path @ '' is outside explicitly declared task scope ('' @
              repr_val (str_list allowed) @ '').'']
        in if sc_strict_scope_enforcement cfg \<and> risk = R_HIGH then
             \<lparr>sd_decision = SA_REQUIRES_APPROVAL, sd_risk_level = R_CRITICAL, sd_reasons = reasons,
              sd_required_checkpoint = False, sd_required_approval = True, sd_allowed_paths = allowed, sd_metadata = []\<rparr>
           else final_decision cfg tid path allowed risk req reasons
      else final_decision cfg tid path allowed risk req [reason])"

definition evaluate_request ::
  "safety_env \<Rightarrow> safety_config \<Rightarrow> tool_definition \<Rightarrow> project \<Rightarrow> task \<Rightarrow> pydict \<Rightarrow> error + safety_decision" where
  "evaluate_request env cfg tool p t args =
     (let tid = td_id tool; target = request_path args; path = clean_path target in
      case boundary_check env (p_root_path p) target of
        Some d \<Rightarrow> Inr d
      | None \<Rightarrow>
          (case protected_check cfg tid path of
             Some d \<Rightarrow> Inr d
           | None \<Rightarrow>
               (case shell_check env tid args of
                  Inl e \<Rightarrow> Inl e
                | Inr (Some d) \<Rightarrow> Inr d
                | Inr None \<Rightarrow>
                    (let (risk, req, reason) = contextual_risk tid args
                     in Inr (scope_and_decide cfg tid path (task_allowed_paths t) risk req reason)))))"


section \<open>What a decision means\<close>

text \<open>The path of the request leaves the project, or cannot be resolved.\<close>

definition escapes :: "safety_env \<Rightarrow> string \<Rightarrow> string \<Rightarrow> bool" where
  "escapes env root path \<longleftrightarrow> path \<noteq> [] \<and> root \<noteq> []
     \<and> (case env_resolve env root path of Inl _ \<Rightarrow> True | Inr q \<Rightarrow> \<not> prefix (env_parts env root) q)"

text \<open>The request names a mutation in its tool identifier and a protected path, as text, in its arguments.\<close>

definition hits_protected :: "safety_config \<Rightarrow> string \<Rightarrow> string \<Rightarrow> bool" where
  "hits_protected cfg tid path \<longleftrightarrow>
     names_mutation tid \<and> path \<noteq> [] \<and> (\<exists>prot \<in> set (sc_protected_paths cfg). protected_by prot path)"

text \<open>The requests whose effect a checkpoint must be able to undo.\<close>

definition mutating_request :: "string \<Rightarrow> pydict \<Rightarrow> bool" where
  "mutating_request tid args \<longleftrightarrow>
     names_mutation tid \<or> has_action args [''write_file'', ''create_file'', ''delete_file''] \<or> tid = ''shell.execute''
     \<or> (startswith tid ''git'' \<and> has_action args [''commit'', ''add''])"

lemma boundary_check_None: "boundary_check env root path = None \<longleftrightarrow> \<not> escapes env root path"
  by (auto simp: boundary_check_def escapes_def split: sum.splits)

lemma boundary_check_deny: "boundary_check env root path = Some d \<Longrightarrow> sd_decision d = SA_DENY \<and> \<not> sd_required_checkpoint d"
  by (auto simp: boundary_check_def split: sum.splits if_splits)

lemma protected_check_None: "protected_check cfg tid path = None \<longleftrightarrow> \<not> hits_protected cfg tid path"
proof -
  have "protected_check cfg tid path = None \<longleftrightarrow>
      find (\<lambda>prot. path \<noteq> [] \<and> protected_by prot path \<and> names_mutation tid) (sc_protected_paths cfg) = None"
    by (simp add: protected_check_def split: option.splits)
  also have "\<dots> \<longleftrightarrow> \<not> hits_protected cfg tid path"
    unfolding find_None_iff hits_protected_def by blast
  finally show ?thesis .
qed

lemma protected_check_Some:
  "protected_check cfg tid path = Some d \<Longrightarrow>
    sd_decision d = (if sc_allow_high_risk cfg then SA_REQUIRES_APPROVAL else SA_DENY) \<and> \<not> sd_required_checkpoint d"
  by (auto simp: protected_check_def split: option.splits)

lemma shell_check_Some:
  "shell_check env tid args = Inr (Some d) \<Longrightarrow> sd_decision d = SA_REQUIRES_APPROVAL \<and> \<not> sd_required_checkpoint d"
  by (auto simp: shell_check_def split: option.splits sum.splits if_splits)

lemma contextual_risk_cases:
  "contextual_risk tid args = (risk, req, reason) \<Longrightarrow>
    (mutating_request tid args \<and> req \<and> (risk = R_HIGH \<or> risk = R_MEDIUM))
    \<or> (\<not> mutating_request tid args \<and> \<not> req \<and> risk = R_LOW)"
  by (auto simp: contextual_risk_def mutating_request_def names_mutation_def has_action_def split: if_splits)

lemma scope_and_decide_decision:
  "risk \<noteq> R_CRITICAL \<Longrightarrow> req = (risk \<noteq> R_LOW) \<Longrightarrow>
    let d = scope_and_decide cfg tid path allowed risk req reason in
    sd_decision d = (if sd_decision d = SA_REQUIRES_APPROVAL then SA_REQUIRES_APPROVAL
      else if risk = R_LOW \<or> \<not> sc_auto_checkpoint cfg then SA_ALLOW else SA_ALLOW_WITH_CHECKPOINT)
    \<and> (sd_required_checkpoint d \<longleftrightarrow> sd_decision d = SA_ALLOW_WITH_CHECKPOINT)"
  by (cases risk) (auto simp: scope_and_decide_def final_decision_def Let_def)

lemma evaluate_request_cases:
  assumes "evaluate_request env cfg tool p t args = Inr d"
  obtains
    (denied) "escapes env (p_root_path p) (request_path args)" "sd_decision d = SA_DENY" "\<not> sd_required_checkpoint d"
  | (guarded) "\<not> escapes env (p_root_path p) (request_path args)"
      "hits_protected cfg (td_id tool) (clean_path (request_path args))"
      "sd_decision d = (if sc_allow_high_risk cfg then SA_REQUIRES_APPROVAL else SA_DENY)" "\<not> sd_required_checkpoint d"
  | (shell) "\<not> escapes env (p_root_path p) (request_path args)"
      "\<not> hits_protected cfg (td_id tool) (clean_path (request_path args))"
      "sd_decision d = SA_REQUIRES_APPROVAL" "\<not> sd_required_checkpoint d"
  | (judged) risk req reason where "\<not> escapes env (p_root_path p) (request_path args)"
      "\<not> hits_protected cfg (td_id tool) (clean_path (request_path args))"
      "contextual_risk (td_id tool) args = (risk, req, reason)"
      "d = scope_and_decide cfg (td_id tool) (clean_path (request_path args)) (task_allowed_paths t) risk req reason"
  using assms
  by (auto simp: evaluate_request_def Let_def boundary_check_None protected_check_None
      dest: boundary_check_deny protected_check_Some shell_check_Some split: option.splits sum.splits prod.splits)
    (metis boundary_check_None boundary_check_deny protected_check_None protected_check_Some option.distinct(1))+


definition sample_safety_env :: safety_env where
  "sample_safety_env = \<lparr>env_parts = (\<lambda>_. [''p'']),
     env_resolve = (\<lambda>_ q. if contains q ''..'' then Inr [''etc''] else Inr [''p'', q]), env_search = (\<lambda>_ _. False)\<rparr>"

definition sample_project :: "string \<Rightarrow> project" where
  "sample_project pid = \<lparr>p_id = pid, p_name = ''P'', p_description = [], p_root_path = ''/p'', p_status = P_ACTIVE,
     p_configuration = [], p_created_at = ''now'', p_updated_at = ''now''\<rparr>"

text \<open>
  C32: a request is denied exactly when its path leaves the project (or cannot be resolved), or when its
  tool is named after a mutation, its path is a protected one and high risk is not allowed. No other
  stage ever denies, not even the final one for critical risk, and nothing is ever escalated.
\<close>

theorem safety_denied_iff:
  assumes "evaluate_request env cfg tool p t args = Inr d"
  shows "(sd_decision d = SA_DENY \<longleftrightarrow>
      escapes env (p_root_path p) (request_path args)
      \<or> (hits_protected cfg (td_id tool) (clean_path (request_path args)) \<and> \<not> sc_allow_high_risk cfg))
    \<and> sd_decision d \<noteq> SA_ESCALATE"
  using assms
proof (cases rule: evaluate_request_cases)
  case (judged risk req reason)
  then have "risk \<noteq> R_CRITICAL" "req = (risk \<noteq> R_LOW)" using contextual_risk_cases[OF judged(3)] by auto
  from scope_and_decide_decision[OF this, of cfg "td_id tool" "clean_path (request_path args)" "task_allowed_paths t" reason]
  show ?thesis using judged by (auto simp: Let_def split: if_splits)
qed auto

theorem safety_denied_iff_witness:
  "sd_decision (projr (evaluate_request sample_safety_env default_safety_config (filesystem_tool ''filesystem.write_file'')
     (sample_project ''p'') (sample_task ''t'' T_RUNNING) [(''path'', PStr ''../x'')])) = SA_DENY"
proof -
  let ?d = "projr (evaluate_request sample_safety_env default_safety_config (filesystem_tool ''filesystem.write_file'')
     (sample_project ''p'') (sample_task ''t'' T_RUNNING) [(''path'', PStr ''../x'')])"
  have "evaluate_request sample_safety_env default_safety_config (filesystem_tool ''filesystem.write_file'')
     (sample_project ''p'') (sample_task ''t'' T_RUNNING) [(''path'', PStr ''../x'')] = Inr ?d"
    by code_simp
  moreover have "escapes sample_safety_env (p_root_path (sample_project ''p'')) (request_path [(''path'', PStr ''../x'')])"
    by code_simp
  ultimately show ?thesis by (rule safety_denied_iff[THEN conjunct1, THEN iffD2, OF _ disjI1])
qed

lemma mutation_needs_checkpoint:
  assumes "evaluate_request env cfg tool p t args = Inr d" and "sc_auto_checkpoint cfg"
  shows "(sd_decision d = SA_ALLOW \<longrightarrow> \<not> mutating_request (td_id tool) args)
    \<and> (sd_required_checkpoint d \<longleftrightarrow> sd_decision d = SA_ALLOW_WITH_CHECKPOINT)"
  using assms(1)
proof (cases rule: evaluate_request_cases)
  case (judged risk req reason)
  then have "risk \<noteq> R_CRITICAL" "req = (risk \<noteq> R_LOW)" using contextual_risk_cases[OF judged(3)] by auto
  from scope_and_decide_decision[OF this, of cfg "td_id tool" "clean_path (request_path args)" "task_allowed_paths t" reason]
  show ?thesis using judged assms(2) contextual_risk_cases[OF judged(3)] by (auto simp: Let_def split: if_splits)
qed auto

text \<open>
  Nothing that mutates runs without a checkpoint while automatic checkpoints are on: a request that
  is allowed outright is not a mutating one, and a checkpoint is asked for exactly by the decision
  \<open>ALLOW_WITH_CHECKPOINT\<close>.
\<close>

theorem checkpoint_before_mutation:
  assumes "evaluate_request env cfg tool p t args = Inr d" and "sc_auto_checkpoint cfg"
  shows "(sd_decision d = SA_ALLOW \<longrightarrow> \<not> mutating_request (td_id tool) args)
    \<and> (sd_required_checkpoint d \<longleftrightarrow> sd_decision d = SA_ALLOW_WITH_CHECKPOINT)"
  by (rule mutation_needs_checkpoint[OF assms])

theorem checkpoint_before_mutation_witness:
  "sd_required_checkpoint (projr (evaluate_request sample_safety_env default_safety_config (git_tool ''git'')
     (sample_project ''p'') (sample_task ''t'' T_RUNNING) [(''action'', PStr ''commit'')]))"
proof -
  let ?d = "projr (evaluate_request sample_safety_env default_safety_config (git_tool ''git'')
     (sample_project ''p'') (sample_task ''t'' T_RUNNING) [(''action'', PStr ''commit'')])"
  have "evaluate_request sample_safety_env default_safety_config (git_tool ''git'')
     (sample_project ''p'') (sample_task ''t'' T_RUNNING) [(''action'', PStr ''commit'')] = Inr ?d"
    by code_simp
  moreover have "sc_auto_checkpoint default_safety_config" by code_simp
  moreover have "sd_decision ?d = SA_ALLOW_WITH_CHECKPOINT" by code_simp
  ultimately show ?thesis using checkpoint_before_mutation by blast
qed

text \<open>
  Protection is textual: the path \<open>./p\<close> of a protected \<open>p\<close> names the same file, but a request to
  write it passes the protected-path check and is allowed, with a checkpoint, whatever scope the task
  declares.
\<close>

theorem protected_path_alias:
  assumes "prot \<in> set (sc_protected_paths default_safety_config)"
    and "\<not> escapes env (p_root_path p) (''./'' @ prot)"
  shows "\<exists>d. evaluate_request env default_safety_config (filesystem_tool ''filesystem.write_file'') p t
      [(''action'', PStr ''write_file''), (''path'', PStr (''./'' @ prot))] = Inr d
    \<and> sd_decision d = SA_ALLOW_WITH_CHECKPOINT \<and> sd_risk_level d = R_MEDIUM"
proof -
  define q where "q = ''./'' @ prot"
  let ?args = "[(''action'', PStr ''write_file''), (''path'', PStr q)]"
  have path: "request_path ?args = q" by (simp add: request_path_def q_def)
  have clean: "\<not> hits_protected default_safety_config ''filesystem.write_file'' (clean_path q)"
    using assms(1) unfolding default_safety_config_def q_def by (simp, elim disjE; simp; code_simp)
  have id: "td_id (filesystem_tool ''filesystem.write_file'') = ''filesystem.write_file''"
    by (simp add: filesystem_tool_def)
  have risk: "contextual_risk ''filesystem.write_file'' ?args =
      (R_MEDIUM, True, ''Filesystem modification operation detected (Medium Risk).'')"
    by (simp add: contextual_risk_def has_action_def)
  have "boundary_check env (p_root_path p) q = None" using assms(2) by (simp add: boundary_check_None q_def)
  moreover have "protected_check default_safety_config ''filesystem.write_file'' (clean_path q) = None"
    using clean by (simp add: protected_check_None)
  ultimately have "evaluate_request env default_safety_config (filesystem_tool ''filesystem.write_file'') p t ?args =
      Inr (scope_and_decide default_safety_config ''filesystem.write_file'' (clean_path q) (task_allowed_paths t) R_MEDIUM
        True ''Filesystem modification operation detected (Medium Risk).'')"
    by (simp add: evaluate_request_def path id risk shell_check_def)
  moreover have "sc_auto_checkpoint default_safety_config" by (simp add: default_safety_config_def)
  ultimately show ?thesis
    unfolding q_def by (simp add: scope_and_decide_def final_decision_def)
qed

theorem protected_path_alias_witness:
  "\<exists>d. evaluate_request sample_safety_env default_safety_config (filesystem_tool ''filesystem.write_file'')
      (sample_project ''p'') (sample_task ''t'' T_RUNNING)
      [(''action'', PStr ''write_file''), (''path'', PStr (''./'' @ ''.env''))] = Inr d
    \<and> sd_decision d = SA_ALLOW_WITH_CHECKPOINT \<and> sd_risk_level d = R_MEDIUM"
proof (rule protected_path_alias)
  show "''.env'' \<in> set (sc_protected_paths default_safety_config)" by code_simp
  show "\<not> escapes sample_safety_env (p_root_path (sample_project ''p'')) (''./'' @ ''.env'')" by code_simp
qed

end
