(* ===== verification/File_System.thy ===== *)
theory File_System
  imports Prelude
begin

text \<open>
  The file system as the code uses it through \<open>pathlib\<close> and \<open>shutil\<close>: regular files with their contents and
  directories, addressed by absolute paths, i.e. lists of components. Symbolic links, permissions and time
  stamps are outside the model.
\<close>

section \<open>Paths\<close>

type_synonym path = "string list"

fun split_on :: "char \<Rightarrow> string \<Rightarrow> string list" where
  "split_on c [] = [[]]"
| "split_on c (x # xs) =
     (if x = c then [] # split_on c xs
      else case split_on c xs of [] \<Rightarrow> [[x]] | w # ws \<Rightarrow> (x # w) # ws)"

definition path_parts :: "string \<Rightarrow> path" where
  "path_parts s = filter (\<lambda>c. c \<noteq> [] \<and> c \<noteq> ''.'') (split_on (CHR ''/'') s)"

definition up_or_down :: "string \<Rightarrow> path \<Rightarrow> path" where
  "up_or_down c acc = (if c = ''..'' then tl acc else c # acc)"

definition collapse :: "path \<Rightarrow> path" where
  \<comment> \<open>removing \<open>..\<close> components, as \<open>Path.resolve\<close> does; the parent of the root is the root\<close>
  "collapse p = rev (fold up_or_down p [])"

definition resolve_path :: "path \<Rightarrow> string \<Rightarrow> path" where
  \<comment> \<open>\<open>(root / s).resolve()\<close>\<close>
  "resolve_path root s = collapse (if startswith s ''/'' then path_parts s else root @ path_parts s)"

definition path_str :: "path \<Rightarrow> string" where
  "path_str p = join_with ''/'' p"

lemma split_on_neq_Nil [simp]: "split_on c s \<noteq> []"
  by (induction c s rule: split_on.induct) (auto split: list.splits)

lemma split_on_append: "c \<notin> set w \<Longrightarrow> split_on c (w @ c # s) = w # split_on c s"
  by (induction w) auto

lemma split_on_free: "c \<notin> set w \<Longrightarrow> split_on c w = [w]"
  by (induction w) auto

text \<open>A component as \<open>rglob\<close> and \<open>resolve\<close> produce it.\<close>

definition plain_component :: "string \<Rightarrow> bool" where
  "plain_component c \<longleftrightarrow> c \<noteq> [] \<and> c \<noteq> ''.'' \<and> c \<noteq> ''..'' \<and> CHR ''/'' \<notin> set c"

abbreviation plain_path :: "path \<Rightarrow> bool" where
  "plain_path p \<equiv> list_all plain_component p"

lemma path_parts_join:
  "plain_path p \<Longrightarrow> path_parts (path_str p) = p"
proof (induction p rule: induct_list012)
  case (2 c)
  then show ?case by (simp add: path_parts_def path_str_def plain_component_def split_on_free)
next
  case (3 c d p)
  then have "path_parts (path_str (d # p)) = d # p" by simp
  moreover have "path_str (c # d # p) = c @ CHR ''/'' # path_str (d # p)" by (simp add: path_str_def)
  ultimately show ?case using 3(3) by (simp add: path_parts_def plain_component_def split_on_append)
qed (simp add: path_parts_def path_str_def)

lemma path_str_inj: "plain_path p \<Longrightarrow> plain_path q \<Longrightarrow> path_str p = path_str q \<longleftrightarrow> p = q"
  by (metis path_parts_join)

lemma fold_up_plain: "plain_path p \<Longrightarrow> fold up_or_down p acc = rev p @ acc"
  by (induction p arbitrary: acc) (auto simp: up_or_down_def plain_component_def)

lemma collapse_plain: "plain_path p \<Longrightarrow> collapse p = p"
  by (simp add: collapse_def fold_up_plain)

lemma path_str_starts_slash: "plain_path p \<Longrightarrow> \<not> prefix ''/'' (path_str p)"
proof (cases p)
  case (Cons c p')
  moreover assume "plain_path p"
  ultimately obtain x xs where "c = x # xs" "x \<noteq> CHR ''/''" by (cases c) (auto simp: plain_component_def)
  with Cons show ?thesis by (cases p') (auto simp: path_str_def)
qed (simp add: path_str_def)

lemma resolve_plain: "plain_path root \<Longrightarrow> plain_path p \<Longrightarrow> resolve_path root (path_str p) = root @ p"
  by (simp add: resolve_path_def path_str_starts_slash path_parts_join collapse_plain)


lemma split_on_parts_free: "w \<in> set (split_on c s) \<Longrightarrow> c \<notin> set w"
  by (induction c s arbitrary: w rule: split_on.induct) (auto split: if_splits list.splits)

lemma plain_up_or_down:
  "list_all (\<lambda>c. c = ''..'' \<or> plain_component c) p \<Longrightarrow> plain_path acc \<Longrightarrow> plain_path (fold up_or_down p acc)"
proof (induction p arbitrary: acc)
  case (Cons c p)
  then have "plain_path (up_or_down c acc)" by (cases acc) (auto simp: up_or_down_def)
  then show ?case using Cons by simp
qed simp

lemma plain_collapse: "plain_path (collapse (path_parts s))"
proof -
  have "c = ''..'' \<or> plain_component c" if "c \<in> set (path_parts s)" for c
    using that split_on_parts_free[of c "CHR ''/''" s] by (auto simp: path_parts_def plain_component_def)
  then have "list_all (\<lambda>c. c = ''..'' \<or> plain_component c) (path_parts s)" by (simp add: list_all_iff)
  then have "plain_path (fold up_or_down (path_parts s) [])" by (rule plain_up_or_down) simp
  then show ?thesis by (simp add: collapse_def list_all_iff)
qed


section \<open>Files and directories\<close>

record filesystem =
  fs_files :: "(path, string) dict"
  fs_dirs :: "path list"

definition is_file :: "filesystem \<Rightarrow> path \<Rightarrow> bool" where
  "is_file fs p \<longleftrightarrow> dict_get (fs_files fs) p \<noteq> None"

definition is_dir :: "filesystem \<Rightarrow> path \<Rightarrow> bool" where
  "is_dir fs p \<longleftrightarrow> p = [] \<or> p \<in> set (fs_dirs fs)"

definition path_exists :: "filesystem \<Rightarrow> path \<Rightarrow> bool" where
  "path_exists fs p \<longleftrightarrow> is_file fs p \<or> is_dir fs p"

text \<open>
  What the operating system makes of a path with \<open>..\<close> components: each must follow an existing directory.
\<close>

definition os_path :: "filesystem \<Rightarrow> path \<Rightarrow> path option" where
  "os_path fs p =
     (if list_all (\<lambda>i. p ! i = ''..'' \<longrightarrow> is_dir fs (collapse (take i p))) [0..<length p] then Some (collapse p) else None)"

lemma os_path_plain: "plain_path p \<Longrightarrow> os_path fs p = Some p"
proof -
  assume plain: "plain_path p"
  then have "p ! i \<noteq> ''..''" if "i < length p" for i using that by (auto simp: list_all_length plain_component_def)
  then show ?thesis by (auto simp: os_path_def list_all_iff collapse_plain[OF plain])
qed

definition os_exists :: "filesystem \<Rightarrow> path \<Rightarrow> bool" where
  "os_exists fs p \<longleftrightarrow> (case os_path fs p of None \<Rightarrow> False | Some q \<Rightarrow> path_exists fs q)"

text \<open>\<open>p.mkdir(parents=True, exist_ok=True)\<close> fails, without effect, when the path or an ancestor is a file.\<close>

definition mkdir_parents :: "path \<Rightarrow> filesystem \<Rightarrow> string + filesystem" where
  "mkdir_parents p fs =
     (if list_ex (is_file fs) (prefixes p) then Inl ''Not a directory''
      else Inr (fs\<lparr>fs_dirs := fs_dirs fs @ filter (\<lambda>q. \<not> is_dir fs q) (prefixes p)\<rparr>))"

definition write_file :: "path \<Rightarrow> string \<Rightarrow> filesystem \<Rightarrow> filesystem" where
  "write_file p c fs = fs\<lparr>fs_files := dict_set p c (fs_files fs)\<rparr>"

definition unlink :: "path \<Rightarrow> filesystem \<Rightarrow> filesystem" where
  "unlink p fs = fs\<lparr>fs_files := dict_del p (fs_files fs)\<rparr>"

text \<open>\<open>shutil.rmtree(p, ignore_errors=True)\<close>\<close>

definition rmtree :: "path \<Rightarrow> filesystem \<Rightarrow> filesystem" where
  "rmtree p fs =
     fs\<lparr>fs_files := filter (\<lambda>(q, _). \<not> prefix p q) (fs_files fs), fs_dirs := filter (\<lambda>q. \<not> prefix p q) (fs_dirs fs)\<rparr>"

text \<open>
  \<open>_atomic_write_file\<close> of \<open>core/memory/manager.py\<close>: a temporary file beside the target replaces it; the
  replacement of a directory fails and the temporary file is removed.
\<close>

definition atomic_write :: "path \<Rightarrow> string \<Rightarrow> filesystem \<Rightarrow> (string + unit) \<times> filesystem" where
  "atomic_write p c fs =
     (case mkdir_parents (butlast p) fs of
        Inl e \<Rightarrow> (Inl e, fs)
      | Inr fs1 \<Rightarrow> if is_dir fs1 p then (Inl ''Is a directory'', fs1) else (Inr (), write_file p c fs1))"

text \<open>The files below a directory, as \<open>rglob("*")\<close> with \<open>is_file\<close> finds them, by their path below it.\<close>

definition files_below :: "path \<Rightarrow> filesystem \<Rightarrow> (path \<times> string) list" where
  "files_below root fs =
     List.map_filter (\<lambda>(p, c). if strict_prefix root p then Some (drop (length root) p, c) else None) (fs_files fs)"

lemma file_ops_get [dict_simps]:
  "dict_get (fs_files (write_file p c fs)) q = (if q = p then Some c else dict_get (fs_files fs) q)"
  "dict_get (fs_files (unlink p fs)) q = (if q = p then None else dict_get (fs_files fs) q)"
  by (simp_all add: write_file_def unlink_def dict_simps)

lemma file_ops_dirs [simp]: "fs_dirs (write_file p c fs) = fs_dirs fs" "fs_dirs (unlink p fs) = fs_dirs fs"
  by (simp_all add: write_file_def unlink_def)

lemma file_ops_is_dir [simp]: "is_dir (write_file p c fs) = is_dir fs" "is_dir (unlink p fs) = is_dir fs"
  by (simp_all add: is_dir_def fun_eq_iff)

lemma file_ops_wf [simp]:
  "dict_wf (fs_files fs) \<Longrightarrow> dict_wf (fs_files (write_file p c fs))"
  "dict_wf (fs_files fs) \<Longrightarrow> dict_wf (fs_files (unlink p fs))"
  by (simp_all add: write_file_def unlink_def)

lemma mkdir_parents_files: "mkdir_parents p fs = Inr fs' \<Longrightarrow> fs_files fs' = fs_files fs"
  by (auto simp: mkdir_parents_def split: if_splits)

lemma mkdir_parents_is_dir: "mkdir_parents p fs = Inr fs' \<Longrightarrow> is_dir fs' q \<longleftrightarrow> is_dir fs q \<or> prefix q p"
  by (auto simp: mkdir_parents_def is_dir_def split: if_splits)

lemma atomic_write_Inr:
  assumes "atomic_write p c fs = (Inr u, fs')"
  shows "dict_get (fs_files fs') q = (if q = p then Some c else dict_get (fs_files fs) q)"
  using assms
  by (auto simp: atomic_write_def dict_simps mkdir_parents_files split: sum.splits if_splits)

lemma atomic_write_Inl: "atomic_write p c fs = (Inl e, fs') \<Longrightarrow> fs_files fs' = fs_files fs"
  by (auto simp: atomic_write_def mkdir_parents_files split: sum.splits if_splits)

lemma files_below_iff:
  "dict_wf (fs_files fs) \<Longrightarrow> (r, c) \<in> set (files_below root fs) \<longleftrightarrow> r \<noteq> [] \<and> dict_get (fs_files fs) (root @ r) = Some c"
  by (force simp: files_below_def List.map_filter_def strict_prefix_def prefix_def split: if_splits)

end
