(* ===== verification/Memory_Manager.thy ===== *)
theory Memory_Manager
  imports Registries File_System
begin

text \<open>
  The project memory of \<open>core/memory/manager.py\<close>: Markdown documents that are files below \<open>.autonomos/\<close> of the
  project and rows of the store at once. The state is the store together with the file system; an operation
  that raises returns \<open>Inl\<close> with the state it leaves. \<open>sha\<close> is the SHA-256 digest, \<open>nid\<close> a fresh identifier and
  \<open>now\<close> the clock reading of one operation. Text outside ASCII is given by its UTF-8 bytes.
\<close>

section \<open>State and paths\<close>

type_synonym digest = "string \<Rightarrow> string"
type_synonym ident = string
type_synonym timestamp = string

record workspace =
  ws_store :: store
  ws_fs :: filesystem

type_synonym memory_result = "(error + memory_document) \<times> workspace"

definition put_ws_store :: "store \<Rightarrow> workspace \<Rightarrow> workspace" where
  "put_ws_store s w = w\<lparr>ws_store := s\<rparr>"

text \<open>\<open>Path(project.root_path).resolve()\<close>, where the stored root is absolute.\<close>

definition project_root :: "project \<Rightarrow> path" where
  "project_root p = collapse (path_parts (p_root_path p))"

definition get_project_root :: "string \<Rightarrow> store \<Rightarrow> error + path" where
  "get_project_root pid s =
     (case get_project s pid of None \<Rightarrow> Inl (ProjectNotFoundError pid) | Some p \<Rightarrow> Inr (project_root p))"

definition clean_rel :: "string \<Rightarrow> string" where
  "clean_rel rel =
     (let c = lstrip_chars [CHR ''/'', CHR 0x5C] rel
      in if startswith c ''.autonomos'' then c else ''.autonomos/'' @ c)"

definition resolve_full_path :: "string \<Rightarrow> string \<Rightarrow> store \<Rightarrow> error + path" where
  "resolve_full_path pid rel s =
     (case get_project_root pid s of
        Inl e \<Rightarrow> Inl e
      | Inr root \<Rightarrow> Inr (resolve_path root (clean_rel rel)))"


section \<open>Documents\<close>

record new_memory =
  nm_type :: memory_type
  nm_title :: string
  nm_content :: string
  nm_relative_path :: string
  nm_summary :: string
  nm_tags :: "string list"
  nm_references :: "string list"
  nm_related_task_id :: "string option"
  nm_related_worker_id :: "string option"
  nm_metadata :: pydict
  nm_memory_id :: "string option"

definition new_document :: "(string \<Rightarrow> string) \<Rightarrow> string \<Rightarrow> new_memory \<Rightarrow> string \<Rightarrow> string \<Rightarrow> memory_document" where
  "new_document sha pid a mid now =
     \<lparr>m_id = mid, m_project_id = pid, m_memory_type = nm_type a, m_title = nm_title a,
      m_relative_path = clean_rel (nm_relative_path a), m_content = nm_content a, m_summary = nm_summary a,
      m_tags = nm_tags a, m_references = nm_references a, m_related_task_id = nm_related_task_id a,
      m_related_worker_id = nm_related_worker_id a, m_version = 1, m_checksum = Some (sha (nm_content a)),
      m_metadata = nm_metadata a, m_created_at = now, m_updated_at = now\<rparr>"

definition create_memory ::
  "digest \<Rightarrow> ident \<Rightarrow> new_memory \<Rightarrow> ident \<Rightarrow> timestamp \<Rightarrow> workspace \<Rightarrow> memory_result" where
  "create_memory sha pid a nid now w =
     (let s = ws_store w in
      case get_project_root pid s of
        Inl e \<Rightarrow> (Inl e, w)
      | Inr _ \<Rightarrow>
          let mid = or_else (nm_memory_id a) (''mem-'' @ nid); rel = clean_rel (nm_relative_path a) in
          if get_memory_document s mid \<noteq> None then (Inl (MemoryAlreadyExistsError mid), w)
          else if get_memory_document_by_path s pid rel \<noteq> None then
            (Inl (MemoryAlreadyExistsError (''Path '' @ quoted rel @ '' already exists in project '' @ quoted pid)), w)
          else (case resolve_full_path pid rel s of
            Inl e \<Rightarrow> (Inl e, w)
          | Inr full \<Rightarrow>
              (case atomic_write full (nm_content a) (ws_fs w) of
                 (Inl e, fs) \<Rightarrow> (Inl (OtherException e), w\<lparr>ws_fs := fs\<rparr>)
               | (Inr _, fs) \<Rightarrow>
                   let doc = new_document sha pid a mid now
                   in (Inr doc, \<lparr>ws_store = save_memory_document doc s, ws_fs = fs\<rparr>))))"

definition read_memory :: "string \<Rightarrow> string \<Rightarrow> store \<Rightarrow> error + memory_document" where
  "read_memory pid mid s =
     (case get_memory_document s mid of
        None \<Rightarrow> Inl (MemoryNotFoundError mid None)
      | Some d \<Rightarrow> if m_project_id d \<noteq> pid then Inl (MemoryNotFoundError mid None) else Inr d)"

definition read_memory_by_path :: "string \<Rightarrow> string \<Rightarrow> store \<Rightarrow> error + memory_document" where
  "read_memory_by_path pid rel s =
     (case get_memory_document_by_path s pid (clean_rel rel) of
        None \<Rightarrow> Inl (MemoryNotFoundError (clean_rel rel) (Some (clean_rel rel)))
      | Some d \<Rightarrow> Inr d)"

text \<open>\<open>MemoryDocument.update_content\<close>\<close>

definition update_content ::
  "digest \<Rightarrow> string \<Rightarrow> string option \<Rightarrow> string list option \<Rightarrow> string list option \<Rightarrow> timestamp \<Rightarrow>
    memory_document \<Rightarrow> memory_document" where
  "update_content sha content summary tags refs now d =
     d\<lparr>m_content := content, m_checksum := Some (sha content),
       m_summary := (case summary of None \<Rightarrow> m_summary d | Some x \<Rightarrow> x),
       m_tags := (case tags of None \<Rightarrow> m_tags d | Some x \<Rightarrow> x),
       m_references := (case refs of None \<Rightarrow> m_references d | Some x \<Rightarrow> x),
       m_version := m_version d + 1, m_updated_at := now\<rparr>"

definition retitled :: "string option \<Rightarrow> memory_document \<Rightarrow> memory_document" where
  "retitled title d = (case title of None \<Rightarrow> d | Some x \<Rightarrow> d\<lparr>m_title := x\<rparr>)"

definition update_memory ::
  "digest \<Rightarrow> ident \<Rightarrow> ident \<Rightarrow> string \<Rightarrow> string option \<Rightarrow> string option \<Rightarrow> string list option \<Rightarrow>
    string list option \<Rightarrow> int option \<Rightarrow> timestamp \<Rightarrow> workspace \<Rightarrow> memory_result" where
  "update_memory sha pid mid content title summary tags refs expected now w =
     (case read_memory pid mid (ws_store w) of
        Inl e \<Rightarrow> (Inl e, w)
      | Inr d0 \<Rightarrow>
          if expected \<noteq> None \<and> expected \<noteq> Some (m_version d0) then
            (Inl (MemoryConflictError mid (m_version d0) (the expected)), w)
          else
            let d = update_content sha content summary tags refs now (retitled title d0) in
            (case resolve_full_path pid (m_relative_path d) (ws_store w) of
               Inl e \<Rightarrow> (Inl e, w)
             | Inr full \<Rightarrow>
                 (case atomic_write full content (ws_fs w) of
                    (Inl e, fs) \<Rightarrow> (Inl (OtherException e), w\<lparr>ws_fs := fs\<rparr>)
                  | (Inr _, fs) \<Rightarrow> (Inr d, \<lparr>ws_store = save_memory_document d (ws_store w), ws_fs = fs\<rparr>))))"

definition delete_memory :: "string \<Rightarrow> string \<Rightarrow> workspace \<Rightarrow> (error + bool) \<times> workspace" where
  "delete_memory pid mid w =
     (case read_memory pid mid (ws_store w) of
        Inl e \<Rightarrow> (Inl e, w)
      | Inr d \<Rightarrow>
          (case resolve_full_path pid (m_relative_path d) (ws_store w) of
             Inl e \<Rightarrow> (Inl e, w)
           | Inr full \<Rightarrow>
               let fs = (if is_file (ws_fs w) full then unlink full (ws_fs w) else ws_fs w);
                   (b, s') = delete_memory_document mid (ws_store w)
               in (Inr b, \<lparr>ws_store = s', ws_fs = fs\<rparr>)))"

definition list_memory ::
  "string \<Rightarrow> memory_type option \<Rightarrow> string option \<Rightarrow> string option \<Rightarrow> store \<Rightarrow> memory_document list" where
  "list_memory pid mtype tag related s = list_memory_documents s (Some pid) mtype tag related"

definition memory_exists :: "string \<Rightarrow> string \<Rightarrow> store \<Rightarrow> bool" where
  "memory_exists pid mid s =
     (case get_memory_document s mid of None \<Rightarrow> False | Some d \<Rightarrow> m_project_id d = pid)"


section \<open>Texts\<close>

definition text_lines :: "string list \<Rightarrow> string" where
  "text_lines ls = concat (map (\<lambda>l. l @ [CHR 0x0A]) ls)"

definition em_dash :: string where
  "em_dash = [CHR 0xE2, CHR 0x80, CHR 0x94]"

text \<open>\<open>"\n".join(f"- {x}" for x in xs) or fallback\<close>\<close>

definition bullets :: "string list \<Rightarrow> string \<Rightarrow> string" where
  "bullets xs fallback = (if xs = [] then fallback else join_with [CHR 0x0A] (map (\<lambda>x. ''- '' @ x) xs))"

definition str_or :: "string \<Rightarrow> string \<Rightarrow> string" where
  "str_or s d = (if s = [] then d else s)"

text \<open>The format \<open>{n:04d}\<close>\<close>

definition pad4 :: "int \<Rightarrow> string" where
  "pad4 n =
     (if n < 0 then let d = nat_str (nat (- n)) in ''-'' @ replicate (3 - length d) (CHR ''0'') @ d
      else let d = nat_str (nat n) in replicate (4 - length d) (CHR ''0'') @ d)"

definition backticked :: "string \<Rightarrow> string" where
  "backticked s = ''`'' @ s @ ''`''"

definition project_map_text :: "string \<Rightarrow> string \<Rightarrow> string" where
  "project_map_text name description = text_lines
     [''# Project Map: '' @ name, [],
      ''## Purpose'', str_or description ''Autonomous AI workforce project repository.'', [],
      ''## Major Components'',
      ''- **Core Runtime**: Deterministic state engine, registries, and worker host.'',
      ''- **Memory Subsystem**: Persistent Markdown documentation and structured indexing.'',
      ''- **Event Bus**: Append-only historical fact log.'', [],
      ''## Important Locations'',
      ''- `.autonomos/`: Managed project memory, decision logs, and runtime state.'',
      ''- `core/`: Core workforce runtime implementation.'',
      ''- `pkg/sdk/`: Universal worker contracts and execution interfaces.'',
      ''- `workers/`: Workforce employee implementations.'', [],
      ''## Current Development Areas'',
      ''- Core runtime foundation and persistent project memory.'']"

definition architecture_text :: "string \<Rightarrow> string" where
  "architecture_text name = text_lines
     [''# Architecture & Invariants: '' @ name, [],
      ''## System Overview'',
      ''The system operates as a deterministic runtime where AI models are reasoning engines rather than the system itself.'', [],
      ''## Core Architectural Invariants'',
      ''1. **The LLM is not the entire system**: Reasoning, state, memory, tools, and execution are decoupled.'',
      ''2. **Context is not memory**: Persistent memory is stored in versionable external Markdown and structured stores.'',
      ''3. **AI Claims are untrusted**: Deterministic verification gates validate claims before completion.'',
      ''4. **All work is reversible**: Checkpoints protect against unintended changes.'',
      ''5. **State is owned by the runtime**: Workers cannot arbitrarily mutate task or system status.'']"

definition current_state_text :: "string \<Rightarrow> string" where
  "current_state_text name = text_lines
     [''# Current Project State: '' @ name, [],
      ''## Current Milestone'',
      ''Stage 3 '' @ em_dash @ '' Persistent Project Memory & Knowledge Architecture'', [],
      ''## Completed Capabilities'',
      ''- Deterministic Task State Machine and DAG Dependency Resolver.'',
      ''- Worker Lifecycle and Worker SDK Contract.'',
      ''- Append-Only Event Store with Causation and Correlation Tracking.'',
      ''- Markdown-first persistent project memory with atomic writes.'', [],
      ''## Active Work'',
      ''- Persistent project memory integration and reference verification.'', [],
      ''## Known Limitations'',
      ''- Context Engine and LLM routing are scheduled for subsequent stages.'']"

definition new_memory_of :: "memory_type \<Rightarrow> string \<Rightarrow> string \<Rightarrow> string \<Rightarrow> string \<Rightarrow> string list \<Rightarrow> new_memory" where
  "new_memory_of ty title rel content summary tags =
     \<lparr>nm_type = ty, nm_title = title, nm_content = content, nm_relative_path = rel, nm_summary = summary,
      nm_tags = tags, nm_references = [], nm_related_task_id = None, nm_related_worker_id = None,
      nm_metadata = [], nm_memory_id = None\<rparr>"


section \<open>Scaffold and loggers\<close>

text \<open>Three documents are created in turn; the first failure ends the call. \<open>nid\<close> numbers the fresh identifiers.\<close>

definition initialize_project_memory ::
  "digest \<Rightarrow> ident \<Rightarrow> string \<Rightarrow> string \<Rightarrow> (nat \<Rightarrow> ident) \<Rightarrow> timestamp \<Rightarrow> workspace \<Rightarrow>
    (error + memory_document \<times> memory_document \<times> memory_document) \<times> workspace" where
  "initialize_project_memory sha pid name description nid now w =
     (case create_memory sha pid
         (new_memory_of M_PROJECT_MAP (''Project Map '' @ em_dash @ '' '' @ name) ''.autonomos/memory/project-map.md''
            (project_map_text name description) (''High-level component and location map for '' @ name)
            [''navigation'', ''map'', ''overview'']) (nid 0) now w of
        (Inl e, w1) \<Rightarrow> (Inl e, w1)
      | (Inr d1, w1) \<Rightarrow>
          (case create_memory sha pid
             (new_memory_of M_ARCHITECTURE (''Architecture & Invariants '' @ em_dash @ '' '' @ name)
                ''.autonomos/memory/architecture.md'' (architecture_text name)
                ''Core architectural decisions, invariants, and component boundaries''
                [''architecture'', ''invariants'', ''constraints'']) (nid 1) now w1 of
             (Inl e, w2) \<Rightarrow> (Inl e, w2)
           | (Inr d2, w2) \<Rightarrow>
               (case create_memory sha pid
                  (new_memory_of M_CURRENT_STATE (''Current State '' @ em_dash @ '' '' @ name)
                     ''.autonomos/memory/current-state.md'' (current_state_text name)
                     ''Active milestones, completed capabilities, and known limitations''
                     [''status'', ''milestones'', ''state'']) (nid 2) now w2 of
                  (Inl e, w3) \<Rightarrow> (Inl e, w3)
                | (Inr d3, w3) \<Rightarrow> (Inr (d1, d2, d3), w3))))"

definition decision_slug :: "string \<Rightarrow> string" where
  "decision_slug title = take 40 (map (\<lambda>c. if c = CHR '' '' \<or> c = CHR ''/'' then CHR ''-'' else c) (lower title))"

definition record_decision ::
  "digest \<Rightarrow> ident \<Rightarrow> string \<Rightarrow> string \<Rightarrow> string \<Rightarrow> string \<Rightarrow> string \<Rightarrow> int \<Rightarrow> string \<Rightarrow> string list \<Rightarrow>
    ident \<Rightarrow> timestamp \<Rightarrow> workspace \<Rightarrow> memory_result" where
  "record_decision sha pid title ctx decision reasoning consequences number status refs nid now w =
     create_memory sha pid
       ((new_memory_of M_DECISION (''ADR '' @ pad4 number @ '': '' @ title)
          (''.autonomos/decisions/'' @ pad4 number @ ''-'' @ decision_slug title @ ''.md'')
          (text_lines
             [''# Decision '' @ pad4 number @ '': '' @ title, [],
              ''**Status**: '' @ status @ ''  '', ''**Date**: '' @ now, [],
              ''## Context'', ctx, [], ''## Decision'', decision, [], ''## Reasoning'', reasoning, [],
              ''## Consequences'', consequences])
          (''Decision: '' @ title @ '' ('' @ status @ '')'') [''adr'', ''decision'', ''architecture'']
        )\<lparr>nm_references := refs\<rparr>) nid now w"

definition report_path :: "string \<Rightarrow> string \<Rightarrow> string" where
  "report_path tid report_type = ''.autonomos/reports/'' @ tid @ ''/'' @ report_type @ ''.md''"

definition record_report ::
  "digest \<Rightarrow> ident \<Rightarrow> ident \<Rightarrow> ident \<Rightarrow> string \<Rightarrow> string \<Rightarrow> string \<Rightarrow> string \<Rightarrow> ident \<Rightarrow> timestamp \<Rightarrow>
    workspace \<Rightarrow> memory_result" where
  "record_report sha pid tid wid title summary body report_type nid now w =
     create_memory sha pid
       ((new_memory_of M_REPORT title (report_path tid report_type)
          (text_lines
             [''# '' @ title, [], ''- **Task ID**: '' @ backticked tid, ''- **Worker**: '' @ backticked wid,
              ''- **Report Type**: '' @ backticked report_type, ''- **Timestamp**: '' @ backticked now, [],
              ''## Summary'', summary, [], ''## Report Details'', body])
          summary [''report'', report_type, tid]
        )\<lparr>nm_related_task_id := Some tid, nm_related_worker_id := Some wid\<rparr>) nid now w"

definition record_task_memory ::
  "digest \<Rightarrow> ident \<Rightarrow> ident \<Rightarrow> string \<Rightarrow> string \<Rightarrow> string \<Rightarrow> string \<Rightarrow> string list \<Rightarrow> string \<Rightarrow> string \<Rightarrow>
    ident \<Rightarrow> timestamp \<Rightarrow> workspace \<Rightarrow> memory_result" where
  "record_task_memory sha pid tid title objective scope constraints relevant findings result nid now w =
     create_memory sha pid
       ((new_memory_of M_TASK_MEMORY (''Task Memory: '' @ title) (''.autonomos/tasks/'' @ tid @ ''.md'')
          (text_lines
             [''# Task Memory: '' @ title, [], ''- **Task ID**: '' @ backticked tid,
              ''- **Recorded At**: '' @ backticked now, [], ''## Objective'', objective, [],
              ''## Scope & Constraints'', ''- **Scope**: '' @ str_or scope ''Standard task scope'',
              ''- **Constraints**: '' @ str_or constraints ''Standard sandbox limits'', [],
              ''## Relevant Repository Files'', bullets (map backticked relevant) ''None specified.'', [],
              ''## Findings & Progress'', str_or findings ''Execution completed normally.'', [],
              ''## Final Outcome'', str_or result ''Task completed.''])
          (''Task knowledge memory for '' @ title) [''task_memory'', tid]
        )\<lparr>nm_references := relevant, nm_related_task_id := Some tid\<rparr>) nid now w"

datatype issue_severity = IS_LOW | IS_MEDIUM | IS_HIGH | IS_CRITICAL

primrec issue_severity_value :: "issue_severity \<Rightarrow> string" where
  "issue_severity_value IS_LOW = ''LOW''"
| "issue_severity_value IS_MEDIUM = ''MEDIUM''"
| "issue_severity_value IS_HIGH = ''HIGH''"
| "issue_severity_value IS_CRITICAL = ''CRITICAL''"

datatype issue_status = IT_OPEN | IT_IN_PROGRESS | IT_RESOLVED | IT_CLOSED

primrec issue_status_value :: "issue_status \<Rightarrow> string" where
  "issue_status_value IT_OPEN = ''OPEN''"
| "issue_status_value IT_IN_PROGRESS = ''IN_PROGRESS''"
| "issue_status_value IT_RESOLVED = ''RESOLVED''"
| "issue_status_value IT_CLOSED = ''CLOSED''"

text \<open>Here \<open>nid\<close> is the hexadecimal identifier, of which the first eight digits are taken.\<close>

definition record_issue ::
  "digest \<Rightarrow> ident \<Rightarrow> string \<Rightarrow> string \<Rightarrow> issue_severity \<Rightarrow> issue_status \<Rightarrow> string \<Rightarrow> ident option \<Rightarrow>
    ident option \<Rightarrow> ident \<Rightarrow> timestamp \<Rightarrow> workspace \<Rightarrow> memory_result" where
  "record_issue sha pid title description severity status area rtask issue_id nid now w =
     (let iid = or_else issue_id (''issue-'' @ take 8 nid) in
      create_memory sha pid
        ((new_memory_of M_ISSUE (''Issue: '' @ title) (''.autonomos/issues/'' @ iid @ ''.md'')
           (text_lines
              [''# Issue: '' @ title, [], ''- **ID**: '' @ backticked iid,
               ''- **Severity**: '' @ backticked (issue_severity_value severity),
               ''- **Status**: '' @ backticked (issue_status_value status),
               ''- **Affected Area**: '' @ backticked (str_or area ''General''),
               ''- **Related Task**: '' @ backticked (or_else rtask ''None''),
               ''- **Discovered**: '' @ backticked now, [], ''## Description'', description])
           title [''issue'', lower (issue_severity_value severity), lower (issue_status_value status)]
         )\<lparr>nm_related_task_id := rtask, nm_memory_id := Some iid\<rparr>) nid now w)"

definition update_current_state ::
  "digest \<Rightarrow> ident \<Rightarrow> string \<Rightarrow> string list \<Rightarrow> string list \<Rightarrow> string list \<Rightarrow> string \<Rightarrow> timestamp \<Rightarrow>
    workspace \<Rightarrow> memory_result" where
  "update_current_state sha pid stage milestones active limits notes now w =
     (case read_memory_by_path pid ''.autonomos/memory/current-state.md'' (ws_store w) of
        Inl e \<Rightarrow> (Inl e, w)
      | Inr d \<Rightarrow>
          update_memory sha pid (m_id d)
            (text_lines
               [''# Current Project State'', [], ''## Current Stage'', stage, [],
                ''## Completed Milestones'', bullets milestones ''- None'', [],
                ''## Active Work'', bullets active ''- None'', [],
                ''## Known Limitations'', bullets limits ''- None'', [],
                ''## Notes'', str_or notes ''All subsystems operating deterministically.'', [],
                ''*Last Updated: '' @ now @ ''*''])
            None (Some (''Stage: '' @ stage @ '' | Milestones: '' @ nat_str (length milestones))) None None None now w)"


section \<open>References\<close>

record validation_report =
  vr_memory_id :: string
  vr_relative_path :: string
  vr_is_valid :: bool
  vr_broken_files :: "string list"
  vr_broken_tasks :: "string list"
  vr_broken_workers :: "string list"

definition clean_reference :: "string \<Rightarrow> string" where
  "clean_reference r = lstrip_chars [CHR ''/'', CHR 0x5C] (strip r)"

definition broken_files :: "filesystem \<Rightarrow> path \<Rightarrow> string list \<Rightarrow> string list" where
  "broken_files fs root refs =
     filter (\<lambda>c. \<not> os_exists fs (root @ path_parts c)) (map clean_reference refs)"

definition validate_memory_references :: "string \<Rightarrow> string \<Rightarrow> workspace \<Rightarrow> error + validation_report" where
  "validate_memory_references pid mid w =
     (let s = ws_store w in
      case read_memory pid mid s of
        Inl e \<Rightarrow> Inl e
      | Inr d \<Rightarrow>
          (case get_project_root pid s of
             Inl e \<Rightarrow> Inl e
           | Inr root \<Rightarrow>
               let files = broken_files (ws_fs w) root (m_references d);
                   tasks = (if given (m_related_task_id d) \<and> get_task s (the (m_related_task_id d)) = None
                            then [the (m_related_task_id d)] else []);
                   workers = (if given (m_related_worker_id d) \<and> get_worker s (the (m_related_worker_id d)) = None
                              then [the (m_related_worker_id d)] else [])
               in Inr \<lparr>vr_memory_id = m_id d, vr_relative_path = m_relative_path d,
                    vr_is_valid = (length files + length tasks + length workers = 0),
                    vr_broken_files = files, vr_broken_tasks = tasks, vr_broken_workers = workers\<rparr>))"

fun validate_all :: "string \<Rightarrow> memory_document list \<Rightarrow> workspace \<Rightarrow> error + validation_report list" where
  "validate_all pid [] w = Inr []"
| "validate_all pid (d # ds) w =
     (case validate_memory_references pid (m_id d) w of
        Inl e \<Rightarrow> Inl e
      | Inr r \<Rightarrow> (case validate_all pid ds w of Inl e \<Rightarrow> Inl e | Inr rs \<Rightarrow> Inr (r # rs)))"

definition audit_project_memory :: "string \<Rightarrow> workspace \<Rightarrow> error + validation_report list" where
  "audit_project_memory pid w = validate_all pid (list_memory pid None None None (ws_store w)) w"


section \<open>What the operations do\<close>

lemma clean_rel_idem [simp]: "clean_rel (clean_rel r) = clean_rel r"
  by (auto simp: clean_rel_def lstrip_chars_def Let_def prefix_def)

lemma clean_rel_prefix: "prefix ''.autonomos'' (clean_rel r)"
  by (auto simp: clean_rel_def Let_def)

lemma by_path_None:
  assumes "store_wf s"
  shows "get_memory_document_by_path s pid rel = None \<longleftrightarrow>
    (\<forall>mid d. get_memory_document s mid = Some d \<longrightarrow> \<not> (m_project_id d = pid \<and> m_relative_path d = rel))"
proof -
  have "d \<in> set (dict_values (s_memory_docs s)) \<longleftrightarrow> get_memory_document s (m_id d) = Some d" for d
    using memory_tbl.rows_iff[OF assms] by (simp add: list_memory_documents_def)
  moreover have "get_memory_document s mid = Some d \<Longrightarrow> m_id d = mid" for mid d
    by (rule memory_tbl.key_get[OF assms])
  ultimately show ?thesis
    unfolding get_memory_document_by_path_def find_None_iff by (metis (no_types, lifting))
qed

lemma by_path_Some:
  assumes "store_wf s" and "get_memory_document_by_path s pid rel = Some d"
  shows "get_memory_document s (m_id d) = Some d" and "m_project_id d = pid" and "m_relative_path d = rel"
proof -
  from assms(2) have "d \<in> set (dict_values (s_memory_docs s))" and *: "m_project_id d = pid \<and> m_relative_path d = rel"
    using find_Some_iff[THEN iffD1, OF assms(2)[unfolded get_memory_document_by_path_def]] nth_mem by blast+
  then show "get_memory_document s (m_id d) = Some d"
    using memory_tbl.rows_iff[OF assms(1)] by (simp add: list_memory_documents_def)
  show "m_project_id d = pid" "m_relative_path d = rel" using * by simp_all
qed

lemma get_project_save_memory [simp]: "get_project (save_memory_document d s) = get_project s"
  by (simp add: fun_eq_iff get_project_def save_memory_document_def)

lemma get_project_delete_memory [simp]: "get_project (snd (delete_memory_document mid s)) = get_project s"
  by (simp add: fun_eq_iff get_project_def delete_memory_document_def)

lemma read_memory_Inr: "read_memory pid mid s = Inr d \<longleftrightarrow> get_memory_document s mid = Some d \<and> m_project_id d = pid"
  by (auto simp: read_memory_def split: option.splits if_splits)

lemma create_memory_Inr:
  assumes "create_memory sha pid a nid now w = (Inr d, w')"
  obtains p fs u mid where "get_project (ws_store w) pid = Some p"
    and "mid = or_else (nm_memory_id a) (''mem-'' @ nid)" and "d = new_document sha pid a mid now"
    and "get_memory_document (ws_store w) mid = None"
    and "get_memory_document_by_path (ws_store w) pid (clean_rel (nm_relative_path a)) = None"
    and "atomic_write (resolve_path (project_root p) (clean_rel (nm_relative_path a))) (nm_content a) (ws_fs w) = (Inr u, fs)"
    and "w' = \<lparr>ws_store = save_memory_document d (ws_store w), ws_fs = fs\<rparr>"
  using assms
  by (auto simp: create_memory_def Let_def get_project_root_def resolve_full_path_def
      split: option.splits sum.splits if_splits prod.splits)

lemma create_memory_Inl: "create_memory sha pid a nid now w = (Inl e, w') \<Longrightarrow>
    ws_store w' = ws_store w \<and> fs_files (ws_fs w') = fs_files (ws_fs w)"
  by (auto simp: create_memory_def Let_def split: option.splits sum.splits if_splits prod.splits dest: atomic_write_Inl)

lemma update_memory_Inr:
  assumes "update_memory sha pid mid content title summary tags refs expected now w = (Inr d, w')"
  obtains d0 p fs u where "get_memory_document (ws_store w) mid = Some d0" and "m_project_id d0 = pid"
    and "get_project (ws_store w) pid = Some p"
    and "expected = None \<or> expected = Some (m_version d0)"
    and "d = update_content sha content summary tags refs now (retitled title d0)"
    and "atomic_write (resolve_path (project_root p) (clean_rel (m_relative_path d0))) content (ws_fs w) = (Inr u, fs)"
    and "w' = \<lparr>ws_store = save_memory_document d (ws_store w), ws_fs = fs\<rparr>"
  using assms
  by (auto simp: update_memory_def Let_def get_project_root_def resolve_full_path_def read_memory_Inr update_content_def
      retitled_def split: option.splits sum.splits if_splits prod.splits)

lemma update_memory_Inl:
  "update_memory sha pid mid content title summary tags refs expected now w = (Inl e, w') \<Longrightarrow>
    ws_store w' = ws_store w \<and> fs_files (ws_fs w') = fs_files (ws_fs w)"
  by (auto simp: update_memory_def Let_def split: option.splits sum.splits if_splits prod.splits dest: atomic_write_Inl)

lemma delete_memory_store:
  "ws_store (snd (delete_memory pid mid w)) =
     (if (\<exists>d. get_memory_document (ws_store w) mid = Some d \<and> m_project_id d = pid) \<and> get_project (ws_store w) pid \<noteq> None
      then snd (delete_memory_document mid (ws_store w)) else ws_store w)"
  by (auto simp: delete_memory_def read_memory_def Let_def resolve_full_path_def get_project_root_def
      split: option.splits sum.splits if_splits prod.splits)

lemma update_content_fields [simp]:
  "m_id (update_content sha c su ta re now d) = m_id d" "m_project_id (update_content sha c su ta re now d) = m_project_id d"
  "m_relative_path (update_content sha c su ta re now d) = m_relative_path d"
  "m_content (update_content sha c su ta re now d) = c" "m_checksum (update_content sha c su ta re now d) = Some (sha c)"
  "m_version (update_content sha c su ta re now d) = m_version d + 1"
  by (simp_all add: update_content_def)

lemma retitled_fields [simp]:
  "m_id (retitled t d) = m_id d" "m_project_id (retitled t d) = m_project_id d"
  "m_relative_path (retitled t d) = m_relative_path d" "m_version (retitled t d) = m_version d"
  by (simp_all add: retitled_def split: option.splits)

lemma new_document_fields [simp]:
  "m_id (new_document sha pid a mid now) = mid" "m_project_id (new_document sha pid a mid now) = pid"
  "m_relative_path (new_document sha pid a mid now) = clean_rel (nm_relative_path a)"
  "m_content (new_document sha pid a mid now) = nm_content a" "m_version (new_document sha pid a mid now) = 1"
  "m_checksum (new_document sha pid a mid now) = Some (sha (nm_content a))"
  by (simp_all add: new_document_def)


section \<open>Invariant of the project memory\<close>

definition document_ok :: "(string \<Rightarrow> string) \<Rightarrow> memory_document \<Rightarrow> bool" where
  "document_ok sha d \<longleftrightarrow> m_checksum d = Some (sha (m_content d)) \<and> 1 \<le> m_version d \<and> prefix ''.autonomos'' (m_relative_path d)
     \<and> clean_rel (m_relative_path d) = m_relative_path d"

definition paths_unique :: "store \<Rightarrow> bool" where
  "paths_unique s \<longleftrightarrow> (\<forall>i j d e. get_memory_document s i = Some d \<longrightarrow> get_memory_document s j = Some e \<longrightarrow>
     m_project_id d = m_project_id e \<longrightarrow> m_relative_path d = m_relative_path e \<longrightarrow> i = j)"

definition memory_ok :: "(string \<Rightarrow> string) \<Rightarrow> store \<Rightarrow> bool" where
  "memory_ok sha s \<longleftrightarrow> store_wf s \<and> paths_unique s
     \<and> (\<forall>mid d. get_memory_document s mid = Some d \<longrightarrow> document_ok sha d)"

lemma memory_okD:
  assumes "memory_ok sha s"
  shows "store_wf s" "paths_unique s" "get_memory_document s mid = Some d \<Longrightarrow> document_ok sha d"
    "get_memory_document s mid = Some d \<Longrightarrow> m_id d = mid"
proof -
  show wf: "store_wf s" and "paths_unique s" using assms by (simp_all add: memory_ok_def)
  show "get_memory_document s mid = Some d \<Longrightarrow> document_ok sha d" using assms unfolding memory_ok_def by blast
  show "get_memory_document s mid = Some d \<Longrightarrow> m_id d = mid" by (rule memory_tbl.key_get[OF wf])
qed

lemma memory_ok_save:
  assumes ok: "memory_ok sha s" and doc: "document_ok sha d"
    and fresh: "\<And>i e. get_memory_document s i = Some e \<Longrightarrow> m_project_id e = m_project_id d \<Longrightarrow>
      m_relative_path e = m_relative_path d \<Longrightarrow> i = m_id d"
  shows "memory_ok sha (save_memory_document d s)"
proof -
  have "paths_unique (save_memory_document d s)"
    unfolding paths_unique_def memory_tbl.get_save
    using memory_okD(2)[OF ok] fresh by (auto simp: paths_unique_def split: if_splits)
  moreover have "document_ok sha e" if "get_memory_document (save_memory_document d s) i = Some e" for i e
    using that doc memory_okD(3)[OF ok] by (auto simp: memory_tbl.get_save split: if_splits)
  ultimately show ?thesis using memory_okD(1)[OF ok] by (simp add: memory_ok_def)
qed

lemma memory_ok_delete:
  assumes ok: "memory_ok sha s"
  shows "memory_ok sha (snd (delete_memory_document mid s))"
proof -
  have "paths_unique (snd (delete_memory_document mid s))"
    using memory_okD(2)[OF ok] by (auto simp: paths_unique_def memory_tbl.get_remove split: if_splits)
  moreover have "document_ok sha e" if "get_memory_document (snd (delete_memory_document mid s)) i = Some e" for i e
    using that memory_okD(3)[OF ok] by (auto simp: memory_tbl.get_remove split: if_splits)
  ultimately show ?thesis using memory_okD(1)[OF ok] by (simp add: memory_ok_def)
qed

lemma memory_ok_create:
  assumes ok: "memory_ok sha (ws_store w)"
  shows "memory_ok sha (ws_store (snd (create_memory sha pid a nid now w)))"
proof (cases "create_memory sha pid a nid now w")
  case (Pair res w')
  show ?thesis
  proof (cases res)
    case (Inr d)
    with Pair have "create_memory sha pid a nid now w = (Inr d, w')" by simp
    then obtain mid where d: "d = new_document sha pid a mid now"
      and free: "get_memory_document_by_path (ws_store w) pid (clean_rel (nm_relative_path a)) = None"
      and w': "ws_store w' = save_memory_document d (ws_store w)"
      by (elim create_memory_Inr) simp
    have "document_ok sha d" by (simp add: d document_ok_def clean_rel_prefix)
    moreover have "i = m_id d" if "get_memory_document (ws_store w) i = Some e" "m_project_id e = m_project_id d"
        "m_relative_path e = m_relative_path d" for i e
      using that free by (simp add: d by_path_None[OF memory_okD(1)[OF ok]])
    ultimately have "memory_ok sha (save_memory_document d (ws_store w))" by (rule memory_ok_save[OF ok])
    then show ?thesis by (simp add: Pair w')
  next
    case (Inl e)
    with Pair have "ws_store w' = ws_store w" by (auto dest: create_memory_Inl)
    then show ?thesis using ok by (simp add: Pair)
  qed
qed

lemma memory_ok_update:
  assumes ok: "memory_ok sha (ws_store w)"
  shows "memory_ok sha (ws_store (snd (update_memory sha pid mid content title summary tags refs expected now w)))"
proof (cases "update_memory sha pid mid content title summary tags refs expected now w")
  case (Pair res w')
  show ?thesis
  proof (cases res)
    case (Inr d)
    with Pair have "update_memory sha pid mid content title summary tags refs expected now w = (Inr d, w')" by simp
    then obtain d0 where d0: "get_memory_document (ws_store w) mid = Some d0"
      and d: "d = update_content sha content summary tags refs now (retitled title d0)"
      and w': "ws_store w' = save_memory_document d (ws_store w)"
      by (elim update_memory_Inr) simp
    have id: "m_id d0 = mid" by (rule memory_okD(4)[OF ok d0])
    have "document_ok sha d0" by (rule memory_okD(3)[OF ok d0])
    then have "document_ok sha d" by (simp add: d document_ok_def)
    moreover have "i = m_id d" if "get_memory_document (ws_store w) i = Some e" "m_project_id e = m_project_id d"
        "m_relative_path e = m_relative_path d" for i e
      using memory_okD(2)[OF ok] that d0 unfolding paths_unique_def d by (simp add: id)
    ultimately have "memory_ok sha (save_memory_document d (ws_store w))" by (rule memory_ok_save[OF ok])
    then show ?thesis by (simp add: Pair w')
  next
    case (Inl e)
    with Pair have "ws_store w' = ws_store w" by (auto dest: update_memory_Inl)
    then show ?thesis using ok by (simp add: Pair)
  qed
qed

lemma memory_ok_delete_memory: "memory_ok sha (ws_store w) \<Longrightarrow> memory_ok sha (ws_store (snd (delete_memory pid mid w)))"
  by (simp add: delete_memory_store memory_ok_delete)

text \<open>The operations of the memory manager as steps; the loggers and the scaffold are creations and updates.\<close>

inductive memory_step :: "(string \<Rightarrow> string) \<Rightarrow> workspace \<Rightarrow> workspace \<Rightarrow> bool" for sha where
  create: "memory_step sha w (snd (create_memory sha pid a nid now w))"
| update: "memory_step sha w (snd (update_memory sha pid mid content title summary tags refs expected now w))"
| delete: "memory_step sha w (snd (delete_memory pid mid w))"
| scaffold: "memory_step sha w (snd (initialize_project_memory sha pid name description nids now w))"
| decision: "memory_step sha w (snd (record_decision sha pid title ctx dec reasoning cons number status refs nid now w))"
| report: "memory_step sha w (snd (record_report sha pid tid wid title summary body ty nid now w))"
| task_memory: "memory_step sha w (snd (record_task_memory sha pid tid title obj scope constraints files findings result nid now w))"
| issue: "memory_step sha w (snd (record_issue sha pid title descr severity status area rtask iid nid now w))"
| current_state: "memory_step sha w (snd (update_current_state sha pid stage milestones active limits notes now w))"

lemma memory_ok_scaffold:
  assumes "memory_ok sha (ws_store w)"
  shows "memory_ok sha (ws_store (snd (initialize_project_memory sha pid name description nids now w)))"
  unfolding initialize_project_memory_def
  by (auto split: prod.splits sum.splits intro!: assms)
    (metis assms memory_ok_create snd_conv)+

lemma memory_step_ok:
  assumes "memory_step sha w w'" and "memory_ok sha (ws_store w)"
  shows "memory_ok sha (ws_store w')"
  using assms(1)
proof cases
  case scaffold
  then show ?thesis using memory_ok_scaffold[OF assms(2)] by simp
next
  case current_state
  then show ?thesis
    using assms(2) memory_ok_update[OF assms(2)] by (simp add: update_current_state_def split: sum.splits)
qed (use assms(2) in \<open>simp_all add: memory_ok_create memory_ok_update memory_ok_delete_memory record_decision_def
    record_report_def record_task_memory_def record_issue_def Let_def\<close>)


section \<open>Properties\<close>

definition sample_workspace :: workspace where
  "sample_workspace = \<lparr>ws_store = save_project
     \<lparr>p_id = ''p'', p_name = ''P'', p_description = [], p_root_path = ''/home/p'', p_status = P_ACTIVE, p_configuration = [],
      p_created_at = ''now'', p_updated_at = ''now''\<rparr> empty_store, ws_fs = \<lparr>fs_files = [], fs_dirs = []\<rparr>\<rparr>"

definition sample_note :: "string \<Rightarrow> new_memory" where
  "sample_note rel = new_memory_of M_NOTE ''N'' rel ''text'' [] []\<lparr>nm_memory_id := Some ''m''\<rparr>"

text \<open>
  Starting from a project without documents, whatever is created, updated, deleted, logged or
  scaffolded: every document carries the checksum of its content, a version of at least one and a
  normalised path that starts with \<open>.autonomos\<close>, and no two documents of a project share a path.
\<close>

theorem memory_reachable_ok:
  assumes "(memory_step sha)\<^sup>*\<^sup>* w w'" and "store_wf (ws_store w)" and "s_memory_docs (ws_store w) = []"
  shows "memory_ok sha (ws_store w')"
proof -
  have "memory_ok sha (ws_store w)"
    using assms(2,3) by (simp add: memory_ok_def paths_unique_def get_memory_document_def)
  with assms(1) show ?thesis by (induction rule: rtranclp_induct) (blast intro: memory_step_ok)+
qed

theorem memory_reachable_ok_witness:
  "memory_ok (\<lambda>x. x) (ws_store (snd (create_memory (\<lambda>x. x) ''p'' (sample_note ''a.md'') ''n'' ''now'' sample_workspace)))"
proof (rule memory_reachable_ok)
  show "(memory_step (\<lambda>x. x))\<^sup>*\<^sup>* sample_workspace
      (snd (create_memory (\<lambda>x. x) ''p'' (sample_note ''a.md'') ''n'' ''now'' sample_workspace))"
    by (rule r_into_rtranclp) (rule memory_step.create)
  show "store_wf (ws_store sample_workspace)" by (simp add: sample_workspace_def)
  show "s_memory_docs (ws_store sample_workspace) = []" by code_simp
qed

text \<open>
  C40: no update is lost: an update that names the version it was based on succeeds only on that version,
  moves it on by one, and a second update based on the same version is then refused with a conflict
  that names both versions and changes nothing.
\<close>

theorem no_lost_update:
  assumes "store_wf (ws_store w)"
    and "update_memory sha pid mid content title summary tags refs (Some v) now w = (Inr d, w')"
  shows "\<exists>d0. get_memory_document (ws_store w) mid = Some d0 \<and> m_version d0 = v \<and> m_version d = v + 1
    \<and> get_memory_document (ws_store w') mid = Some d
    \<and> update_memory sha pid mid content2 title2 summary2 tags2 refs2 (Some v) now2 w' =
        (Inl (MemoryConflictError mid (v + 1) v), w')"
proof -
  from assms(2) obtain d0 where d0: "get_memory_document (ws_store w) mid = Some d0" "m_project_id d0 = pid"
    "m_version d0 = v" and d: "d = update_content sha content summary tags refs now (retitled title d0)"
    and w': "ws_store w' = save_memory_document d (ws_store w)"
    by (elim update_memory_Inr) simp
  have "m_id d0 = mid" by (rule memory_tbl.key_get[OF assms(1) d0(1)])
  then have saved: "get_memory_document (ws_store w') mid = Some d"
    by (simp add: w' d memory_tbl.get_save)
  then have "read_memory pid mid (ws_store w') = Inr d" using d0(2) by (simp add: read_memory_Inr d)
  then show ?thesis using d0 saved by (simp add: update_memory_def d)
qed

definition noted_workspace :: workspace where
  "noted_workspace = snd (create_memory (\<lambda>x. x) ''p'' (sample_note ''a.md'') ''n'' ''now'' sample_workspace)"

lemma sample_workspace_ok: "memory_ok sha (ws_store sample_workspace)"
  by (simp add: memory_ok_def paths_unique_def sample_workspace_def get_memory_document_def)
    (simp add: save_project_def empty_store_def)

lemma noted_workspace_ok: "memory_ok (\<lambda>x. x) (ws_store noted_workspace)"
  unfolding noted_workspace_def by (rule memory_ok_create[OF sample_workspace_ok])

theorem no_lost_update_witness:
  "\<exists>d w'. update_memory (\<lambda>x. x) ''p'' ''m'' ''two'' None None None None (Some 1) ''now'' noted_workspace = (Inr d, w')
    \<and> update_memory (\<lambda>x. x) ''p'' ''m'' ''other'' None None None None (Some 1) ''later'' w' =
        (Inl (MemoryConflictError ''m'' 2 1), w')"
proof -
  define r where "r = update_memory (\<lambda>x. x) ''p'' ''m'' ''two'' None None None None (Some 1) ''now'' noted_workspace"
  have "isl (fst r) = False" unfolding r_def by code_simp
  then obtain d w' where r: "r = (Inr d, w')" by (cases r; cases "fst r") auto
  from no_lost_update[OF memory_okD(1)[OF noted_workspace_ok] r[unfolded r_def]]
  have "update_memory (\<lambda>x. x) ''p'' ''m'' ''other'' None None None None (Some 1) ''later'' w' =
        (Inl (MemoryConflictError ''m'' (1 + 1) 1), w')" by blast
  then show ?thesis using r unfolding r_def by auto
qed

text \<open>
  A document that was created or updated is what a read by identifier and by path returns, and the file
  at its path holds exactly its content.
\<close>

theorem memory_write_through:
  assumes "memory_ok sha (ws_store w)" and "get_project (ws_store w) pid = Some p"
    and "create_memory sha pid a nid now w = (Inr d, w')
      \<or> update_memory sha pid mid content title summary tags refs expected now w = (Inr d, w')"
  shows "read_memory pid (m_id d) (ws_store w') = Inr d
    \<and> read_memory_by_path pid (m_relative_path d) (ws_store w') = Inr d
    \<and> dict_get (fs_files (ws_fs w')) (resolve_path (project_root p) (m_relative_path d)) = Some (m_content d)"
proof -
  have "memory_ok sha (ws_store w') \<and> ws_store w' = save_memory_document d (ws_store w) \<and> m_project_id d = pid
      \<and> dict_get (fs_files (ws_fs w')) (resolve_path (project_root p) (clean_rel (m_relative_path d))) = Some (m_content d)"
    using assms(3)
  proof
    assume c: "create_memory sha pid a nid now w = (Inr d, w')"
    have ok: "memory_ok sha (ws_store w')" using memory_ok_create[OF assms(1), of pid a nid now] by (simp add: c)
    show ?thesis
      by (rule create_memory_Inr[OF c]) (use ok assms(2) in \<open>simp add: atomic_write_Inr\<close>)
  next
    assume u: "update_memory sha pid mid content title summary tags refs expected now w = (Inr d, w')"
    have ok: "memory_ok sha (ws_store w')"
      using memory_ok_update[OF assms(1), of pid mid content title summary tags refs expected now] by (simp add: u)
    show ?thesis
      by (rule update_memory_Inr[OF u]) (use ok assms(2) in \<open>simp add: atomic_write_Inr\<close>)
  qed
  then have ok: "memory_ok sha (ws_store w')" and s: "ws_store w' = save_memory_document d (ws_store w)"
    and pid: "m_project_id d = pid"
    and disk: "dict_get (fs_files (ws_fs w')) (resolve_path (project_root p) (clean_rel (m_relative_path d))) = Some (m_content d)"
    by blast+
  have got: "get_memory_document (ws_store w') (m_id d) = Some d" by (simp add: s memory_tbl.get_save)
  then have by_id: "read_memory pid (m_id d) (ws_store w') = Inr d" by (simp add: read_memory_Inr pid)
  have clean: "clean_rel (m_relative_path d) = m_relative_path d"
    using memory_okD(3)[OF ok got] by (simp add: document_ok_def)
  note wf = memory_okD(1)[OF ok]
  have "get_memory_document_by_path (ws_store w') pid (m_relative_path d) \<noteq> None"
    unfolding by_path_None[OF wf] using got pid by auto
  then obtain e where e: "get_memory_document_by_path (ws_store w') pid (m_relative_path d) = Some e" by blast
  have id: "m_id e = m_id d"
    by (rule memory_okD(2)[OF ok, unfolded paths_unique_def, rule_format, OF by_path_Some(1)[OF wf e] got])
      (simp_all add: by_path_Some[OF wf e] pid)
  have "Some e = Some d"
    by (rule trans[OF by_path_Some(1)[OF wf e, symmetric]]) (simp only: id got)
  then have "e = d" by (simp only: option.inject)
  then have "read_memory_by_path pid (m_relative_path d) (ws_store w') = Inr d"
    by (simp add: read_memory_by_path_def clean e)
  then show ?thesis using by_id disk by (simp add: clean)
qed

theorem memory_write_through_witness:
  "\<exists>d w'. create_memory (\<lambda>x. x) ''p'' (sample_note ''a.md'') ''n'' ''now'' sample_workspace = (Inr d, w')
    \<and> read_memory_by_path ''p'' (m_relative_path d) (ws_store w') = Inr d"
proof -
  define r where "r = create_memory (\<lambda>x. x) ''p'' (sample_note ''a.md'') ''n'' ''now'' sample_workspace"
  have "isl (fst r) = False" unfolding r_def by code_simp
  then obtain d w' where r: "r = (Inr d, w')" by (cases r; cases "fst r") auto
  have "get_project (ws_store sample_workspace) ''p'' \<noteq> None" by code_simp
  then obtain p where p: "get_project (ws_store sample_workspace) ''p'' = Some p" by blast
  have "create_memory (\<lambda>x. x) ''p'' (sample_note ''a.md'') ''n'' ''now'' sample_workspace = (Inr d, w')
      \<or> update_memory (\<lambda>x. x) ''p'' [] [] None None None None None ''now'' sample_workspace = (Inr d, w')"
    using r unfolding r_def by blast
  from memory_write_through[OF sample_workspace_ok p this] r show ?thesis unfolding r_def by blast
qed

text \<open>
  A task gets one report of each type: recording a second one is always refused, with an error that
  names the report's path (or a repeated identifier), and changes nothing, although the task may have
  been retried.
\<close>

theorem report_only_once:
  assumes "store_wf (ws_store w)"
    and "record_report sha pid tid wid title summary body ty nid now w = (Inr d, w')"
  shows "\<exists>x. record_report sha pid tid wid2 title2 summary2 body2 ty nid2 now2 w' =
    (Inl (MemoryAlreadyExistsError x), w')"
proof -
  from assms(2) have "create_memory sha pid (new_memory_of M_REPORT title (report_path tid ty)
      (text_lines
             [''# '' @ title, [], ''- **Task ID**: '' @ backticked tid, ''- **Worker**: '' @ backticked wid,
              ''- **Report Type**: '' @ backticked ty, ''- **Timestamp**: '' @ backticked now, [],
              ''## Summary'', summary, [], ''## Report Details'', body]) summary [''report'', ty, tid]
        \<lparr>nm_related_task_id := Some tid, nm_related_worker_id := Some wid\<rparr>) nid now w = (Inr d, w')"
    by (simp add: record_report_def)
  then obtain p where p: "get_project (ws_store w) pid = Some p"
    and d: "m_project_id d = pid" "m_relative_path d = clean_rel (report_path tid ty)"
    and w': "ws_store w' = save_memory_document d (ws_store w)"
    by (elim create_memory_Inr) (simp add: new_memory_of_def)
  have "store_wf (ws_store w')" using assms(1) by (simp add: w')
  then have "get_memory_document_by_path (ws_store w') pid (clean_rel (report_path tid ty)) \<noteq> None"
    unfolding by_path_None[OF \<open>store_wf (ws_store w')\<close>] using d
    by (auto simp: w' memory_tbl.get_save)
  moreover have "get_project_root pid (ws_store w') = Inr (project_root p)"
    by (simp add: get_project_root_def w' p)
  ultimately show ?thesis
    by (auto simp: record_report_def create_memory_def Let_def new_memory_of_def)
qed

definition report_result :: "(error + memory_document) \<times> workspace" where
  "report_result = record_report (\<lambda>x. x) ''p'' ''t1'' ''w1'' ''T'' ''S'' ''B'' ''execution'' ''n1'' ''now'' sample_workspace"

theorem report_only_once_witness:
  "\<exists>x. record_report (\<lambda>x. x) ''p'' ''t1'' ''w2'' ''T2'' ''S2'' ''B2'' ''execution'' ''n2'' ''later'' (snd report_result) =
    (Inl (MemoryAlreadyExistsError x), snd report_result)"
proof -
  have "\<not> isl (fst report_result)" by code_simp
  then obtain d where "report_result = (Inr d, snd report_result)" by (metis sum.collapse(2) prod.collapse)
  from report_only_once[OF memory_okD(1)[OF sample_workspace_ok] this[unfolded report_result_def]]
  show ?thesis unfolding report_result_def by blast
qed

text \<open>
  The path of a document is not confined to the project: creating a document with the relative path
  \<open>../../x\<close> writes the file \<open>x\<close> beside the project's directory.
\<close>

theorem memory_path_escapes:
  assumes "get_project (ws_store w) pid = Some p" and "project_root p = r @ [c]" and "plain_path (r @ [c])"
    and "plain_component x" and "x \<noteq> c"
    and "nm_relative_path a = ''../../'' @ x" and "create_memory sha pid a nid now w = (Inr d, w')"
  shows "dict_get (fs_files (ws_fs w')) (r @ [x]) = Some (nm_content a) \<and> \<not> prefix (project_root p) (r @ [x])"
proof -
  have "clean_rel (''../../'' @ x) = ''.autonomos/../../'' @ x"
    by (simp add: clean_rel_def lstrip_chars_def Let_def)
  moreover have "path_parts (''.autonomos/../../'' @ x) = [''.autonomos'', ''..'', ''..'', x]"
    using assms(4) by (simp add: path_parts_def split_on_free plain_component_def)
  moreover have "collapse ((r @ [c]) @ [''.autonomos'', ''..'', ''..'', x]) = r @ [x]"
    using assms(3,4) by (simp add: collapse_def fold_up_plain up_or_down_def plain_component_def)
  ultimately have full: "resolve_path (project_root p) (clean_rel (nm_relative_path a)) = r @ [x]"
    unfolding assms(2,6) by (simp add: resolve_path_def)
  have "dict_get (fs_files (ws_fs w')) (r @ [x]) = Some (nm_content a)"
    by (rule create_memory_Inr[OF assms(7)]) (use full assms(1) in \<open>simp add: atomic_write_Inr\<close>)
  then show ?thesis using assms(2,5) by simp
qed

theorem memory_path_escapes_witness:
  "dict_get (fs_files (ws_fs (snd (create_memory (\<lambda>x. x) ''p'' (sample_note ''../../passwd'') ''n'' ''now'' sample_workspace))))
    [''home'', ''passwd''] = Some ''text''"
proof -
  define r where "r = create_memory (\<lambda>x. x) ''p'' (sample_note (''../../'' @ ''passwd'')) ''n'' ''now'' sample_workspace"
  have "isl (fst r) = False" unfolding r_def by code_simp
  then obtain d w' where r: "r = (Inr d, w')" by (cases r; cases "fst r") auto
  define p where "p = the (get_project (ws_store sample_workspace) ''p'')"
  have p: "get_project (ws_store sample_workspace) ''p'' = Some p" unfolding p_def by code_simp
  have root: "project_root p = [''home''] @ [''p'']" unfolding p_def by code_simp
  have plain: "plain_path ([''home''] @ [''p''])" "plain_component ''passwd''" "''passwd'' \<noteq> ''p''"
    by (simp_all add: plain_component_def)
  have "nm_relative_path (sample_note (''../../'' @ ''passwd'')) = ''../../'' @ ''passwd''"
    by (simp add: sample_note_def new_memory_of_def)
  from memory_path_escapes[OF p root plain this r[unfolded r_def]] r
  show ?thesis unfolding r_def by (simp add: sample_note_def new_memory_of_def)
qed

end
