(* ===== verification/Checkpoints.thy ===== *)
theory Checkpoints
  imports Safety Memory_Manager
begin

text \<open>
  Checkpoints (\<open>core/safety/checkpoint.py\<close>), the detection of changes outside the scope of a task
  (\<open>core/safety/scope.py\<close>) and rollback (\<open>core/safety/rollback.py\<close>). The directory of a checkpoint below
  \<open>.autonomos/checkpoints\<close> is kept in the checkpoint itself (\<open>ck_backup\<close>) and not in the file tree. The \<open>git\<close>
  program is a parameter. \<open>sha\<close> is the SHA-256 digest.
\<close>

section \<open>Data model\<close>

datatype checkpoint_type = CT_GIT_COMMIT | CT_GIT_WORKING_TREE | CT_FILESYSTEM_SNAPSHOT | CT_MEMORY_SNAPSHOT

primrec checkpoint_type_value :: "checkpoint_type \<Rightarrow> string" where
  "checkpoint_type_value CT_GIT_COMMIT = ''GIT_COMMIT''"
| "checkpoint_type_value CT_GIT_WORKING_TREE = ''GIT_WORKING_TREE''"
| "checkpoint_type_value CT_FILESYSTEM_SNAPSHOT = ''FILESYSTEM_SNAPSHOT''"
| "checkpoint_type_value CT_MEMORY_SNAPSHOT = ''MEMORY_SNAPSHOT''"

datatype checkpoint_status = CS_CREATED | CS_ACTIVE | CS_COMMITTED | CS_ROLLED_BACK | CS_ROLLBACK_FAILED | CS_EXPIRED

datatype rollback_status = RS_SUCCESS | RS_PARTIAL_FAILURE | RS_FAILED | RS_BLOCKED_DIRTY_USER_STATE

datatype scope_deviation_type = SD_UNEXPECTED_FILE_MODIFIED | SD_UNEXPECTED_FILE_DELETED | SD_PROTECTED_PATH_MODIFIED
  | SD_MAX_FILES_EXCEEDED | SD_MAX_DIFF_EXCEEDED

record checkpoint =
  ck_id :: string
  ck_project_id :: string
  ck_task_id :: string
  ck_worker_id :: string
  ck_type :: checkpoint_type
  ck_status :: checkpoint_status
  ck_head_commit :: string                    \<comment> \<open>\<open>state_reference["head_commit"]\<close>\<close>
  ck_dirty_files :: "(string, string) dict"   \<comment> \<open>\<open>state_reference["dirty_user_files"]\<close>\<close>
  ck_snapshot_map :: "(string, string) dict"  \<comment> \<open>\<open>state_reference["snapshot_map"]\<close>: path to digest\<close>
  ck_backup :: "(string, string) dict"        \<comment> \<open>the copies in \<open>state_reference["backup_dir"]\<close>\<close>
  ck_memory_reference :: "(string, int) dict"
  ck_created_at :: string
  ck_updated_at :: string
  ck_metadata :: pydict

record change_record =
  cr_path :: string
  cr_change_type :: string
  cr_before_hash :: "string option"
  cr_after_hash :: "string option"

record scope_deviation =
  sv_type :: scope_deviation_type
  sv_target_path :: string
  sv_message :: string
  sv_details :: pydict

record rollback_result =
  rb_rollback_id :: string
  rb_checkpoint_id :: string
  rb_status :: rollback_status
  rb_restored_files :: "string list"
  rb_deleted_files :: "string list"
  rb_preserved_user_files :: "string list"
  rb_error_message :: "string option"
  rb_verified :: bool

text \<open>
  What is asked of git, as a function of the project root and the file tree: the output of
  \<open>git rev-parse HEAD\<close> and the lines of \<open>git status --porcelain\<close> when they exit with code zero, and the tree
  after \<open>git checkout -- .\<close> (or the exception of a missing program).
\<close>

record git_env =
  ge_head :: "path \<Rightarrow> filesystem \<Rightarrow> string option"
  ge_status :: "path \<Rightarrow> filesystem \<Rightarrow> string list option"
  ge_checkout :: "path \<Rightarrow> filesystem \<Rightarrow> string + filesystem"

definition status_lines :: "git_env \<Rightarrow> path \<Rightarrow> filesystem \<Rightarrow> string list" where
  "status_lines g root fs =
     (case ge_status g root fs of
        None \<Rightarrow> []
      | Some ls \<Rightarrow> if list_ex (\<lambda>l. strip l \<noteq> []) ls then ls else [])"

definition status_path :: "string \<Rightarrow> string" where
  "status_path line = strip (drop 3 line)"


section \<open>Capturing the state\<close>

definition join_path :: "path \<Rightarrow> string \<Rightarrow> path" where
  \<comment> \<open>\<open>root / s\<close>\<close>
  "join_path root s = (if startswith s ''/'' then path_parts s else root @ path_parts s)"

definition file_checksum :: "(string \<Rightarrow> string) \<Rightarrow> filesystem \<Rightarrow> path \<Rightarrow> string" where
  "file_checksum sha fs p = (case dict_get (fs_files fs) p of None \<Rightarrow> [] | Some c \<Rightarrow> sha c)"

definition skipped :: "string \<Rightarrow> bool" where
  "skipped rel \<longleftrightarrow> startswith rel ''.autonomos'' \<or> startswith rel ''.git''"

definition tracked_files :: "path \<Rightarrow> filesystem \<Rightarrow> (string, string) dict" where
  "tracked_files root fs =
     filter (\<lambda>(rel, c). \<not> skipped rel) (map (\<lambda>(p, c). (path_str p, c)) (files_below root fs))"

definition capture_fs_state :: "(string \<Rightarrow> string) \<Rightarrow> path \<Rightarrow> filesystem \<Rightarrow> (string, string) dict \<times> (string, string) dict" where
  "capture_fs_state sha root fs =
     (map (\<lambda>(rel, c). (rel, sha c)) (tracked_files root fs), tracked_files root fs)"

fun capture_dirty ::
  "(string \<Rightarrow> string) \<Rightarrow> path \<Rightarrow> filesystem \<Rightarrow> string list \<Rightarrow> (string, string) dict \<times> (string, string) dict \<Rightarrow>
    (string, string) dict \<times> (string, string) dict" where
  "capture_dirty sha root fs [] acc = acc"
| "capture_dirty sha root fs (line # ls) (dirty, backup) =
     (let rel = status_path line in
      if startswith rel ''.autonomos'' then capture_dirty sha root fs ls (dirty, backup)
      else case dict_get (fs_files fs) (join_path root rel) of
        None \<Rightarrow> capture_dirty sha root fs ls (dirty, backup)
      | Some c \<Rightarrow> capture_dirty sha root fs ls (dict_set rel (sha c) dirty, dict_set rel c backup))"

definition capture_git_state ::
  "git_env \<Rightarrow> (string \<Rightarrow> string) \<Rightarrow> path \<Rightarrow> filesystem \<Rightarrow> string \<times> (string, string) dict \<times> (string, string) dict" where
  "capture_git_state g sha root fs =
     ((case ge_head g root fs of None \<Rightarrow> ''UNCOMMITTED'' | Some h \<Rightarrow> strip h),
      capture_dirty sha root fs (status_lines g root fs) ([], []))"

definition memory_versions :: "string \<Rightarrow> store \<Rightarrow> (string, int) dict" where
  "memory_versions pid s =
     fold (\<lambda>d m. dict_set (m_id d) (m_version d) m) (list_memory_documents s (Some pid) None None None) []"


section \<open>The checkpoint manager\<close>

text \<open>The table of checkpoints holds the objects themselves, so a later change of a checkpoint shows in it.\<close>

record checkpoint_state =
  cs_ws :: workspace
  cs_table :: "(string, checkpoint) dict"

definition put_checkpoint :: "checkpoint \<Rightarrow> checkpoint_state \<Rightarrow> checkpoint_state" where
  "put_checkpoint c cs = cs\<lparr>cs_table := dict_set (ck_id c) c (cs_table cs)\<rparr>"

definition checkpoint_dir :: "path \<Rightarrow> string \<Rightarrow> path" where
  "checkpoint_dir root cid = join_path (root @ [''.autonomos'', ''checkpoints'']) cid"

definition captured_checkpoint ::
  "git_env \<Rightarrow> (string \<Rightarrow> string) \<Rightarrow> string \<Rightarrow> string \<Rightarrow> string \<Rightarrow> string \<Rightarrow> path \<Rightarrow> filesystem \<Rightarrow> store \<Rightarrow> string \<Rightarrow> checkpoint" where
  "captured_checkpoint g sha pid tid wid cid root fs s now =
     (let is_git = is_dir fs (root @ [''.git'']);
          (head, dirty, git_backup) = (if is_git then capture_git_state g sha root fs else ([], [], []));
          (snapshot, fs_backup) = (if is_git then ([], []) else capture_fs_state sha root fs)
      in \<lparr>ck_id = cid, ck_project_id = pid, ck_task_id = tid, ck_worker_id = wid,
          ck_type = (if is_git then CT_GIT_WORKING_TREE else CT_FILESYSTEM_SNAPSHOT), ck_status = CS_ACTIVE,
          ck_head_commit = head, ck_dirty_files = dirty, ck_snapshot_map = snapshot,
          ck_backup = (if is_git then git_backup else fs_backup),
          ck_memory_reference = memory_versions pid s, ck_created_at = now, ck_updated_at = now,
          ck_metadata = [(''is_git'', PBool is_git),
            (''checkpoint_dir'', PStr (''/'' @ path_str (checkpoint_dir root cid)))]\<rparr>)"

definition create_checkpoint ::
  "git_env \<Rightarrow> (string \<Rightarrow> string) \<Rightarrow> string \<Rightarrow> string \<Rightarrow> string \<Rightarrow> string option \<Rightarrow> string \<Rightarrow> string \<Rightarrow>
    checkpoint_state \<Rightarrow> (error + checkpoint) \<times> checkpoint_state" where
  "create_checkpoint g sha pid tid wid checkpoint_id nid now cs =
     (let w = cs_ws cs in
      case get_project (ws_store w) pid of
        None \<Rightarrow> (Inl (ProjectNotFoundError pid), cs)
      | Some p \<Rightarrow>
          let cid = or_else checkpoint_id (''chk-'' @ take 10 nid); root = project_root p in
          (case mkdir_parents (checkpoint_dir root cid) (ws_fs w) of
             Inl e \<Rightarrow> (Inl (OtherException e), cs)
           | Inr fs \<Rightarrow>
               let c = captured_checkpoint g sha pid tid wid cid root fs (ws_store w) now
               in (Inr c, put_checkpoint c (cs\<lparr>cs_ws := w\<lparr>ws_fs := fs\<rparr>\<rparr>))))"

definition get_checkpoint :: "string \<Rightarrow> checkpoint_state \<Rightarrow> checkpoint option" where
  "get_checkpoint cid cs = dict_get (cs_table cs) cid"

definition get_active_checkpoint_for_task :: "string \<Rightarrow> checkpoint_state \<Rightarrow> checkpoint option" where
  "get_active_checkpoint_for_task tid cs =
     find (\<lambda>c. ck_task_id c = tid \<and> ck_status c = CS_ACTIVE) (dict_values (cs_table cs))"

definition commit_checkpoint :: "string \<Rightarrow> string \<Rightarrow> checkpoint_state \<Rightarrow> checkpoint_state" where
  "commit_checkpoint cid now cs =
     (case dict_get (cs_table cs) cid of
        Some c \<Rightarrow> if ck_status c = CS_ACTIVE
          then cs\<lparr>cs_table := dict_set cid (c\<lparr>ck_status := CS_COMMITTED, ck_updated_at := now\<rparr>) (cs_table cs)\<rparr> else cs
      | None \<Rightarrow> cs)"


section \<open>Changes since a checkpoint\<close>

definition snapshot_changes :: "(string, string) dict \<Rightarrow> (string, string) dict \<Rightarrow> change_record list" where
  "snapshot_changes snapshot current =
     List.map_filter (\<lambda>(rel, h).
         case dict_get snapshot rel of
           None \<Rightarrow> Some \<lparr>cr_path = rel, cr_change_type = ''created'', cr_before_hash = None, cr_after_hash = Some h\<rparr>
         | Some h0 \<Rightarrow> if h0 \<noteq> h
             then Some \<lparr>cr_path = rel, cr_change_type = ''modified'', cr_before_hash = Some h0, cr_after_hash = Some h\<rparr>
             else None) current
     @ List.map_filter (\<lambda>(rel, h0).
         if dict_get current rel = None
         then Some \<lparr>cr_path = rel, cr_change_type = ''deleted'', cr_before_hash = Some h0, cr_after_hash = None\<rparr>
         else None) snapshot"

definition status_change ::
  "(string \<Rightarrow> string) \<Rightarrow> path \<Rightarrow> filesystem \<Rightarrow> (string, string) dict \<Rightarrow> string \<Rightarrow> change_record option" where
  "status_change sha root fs dirty line =
     (let code = strip (take 2 line); rel = status_path line; full = join_path root rel in
      if startswith rel ''.autonomos'' then None
      else if is_file fs full \<and> dict_get dirty rel = Some (file_checksum sha fs full) then None
      else Some \<lparr>cr_path = rel,
        cr_change_type = (if code = ''??'' \<or> code = ''A'' then ''created'' else if code = ''D'' then ''deleted'' else ''modified''),
        cr_before_hash = None, cr_after_hash = None\<rparr>)"

definition get_changed_files ::
  "git_env \<Rightarrow> (string \<Rightarrow> string) \<Rightarrow> checkpoint \<Rightarrow> path \<Rightarrow> filesystem \<Rightarrow> change_record list" where
  "get_changed_files g sha c root fs =
     (case ck_type c of
        CT_FILESYSTEM_SNAPSHOT \<Rightarrow> snapshot_changes (ck_snapshot_map c) (fst (capture_fs_state sha root fs))
      | CT_MEMORY_SNAPSHOT \<Rightarrow> []
      | _ \<Rightarrow> List.map_filter (status_change sha root fs (ck_dirty_files c)) (status_lines g root fs))"

definition protected_deviations :: "safety_config \<Rightarrow> change_record \<Rightarrow> scope_deviation list" where
  "protected_deviations cfg ch =
     map (\<lambda>prot. \<lparr>sv_type = SD_PROTECTED_PATH_MODIFIED, sv_target_path = cr_path ch,
         sv_message = ''Protected path '' @ quoted (cr_path ch) @ '' was modified by worker.'',
         sv_details = [(''change_type'', PStr (cr_change_type ch)), (''protected_rule'', PStr prot)]\<rparr>)
       (filter (\<lambda>prot. protected_by prot (clean_path (cr_path ch))) (sc_protected_paths cfg))"

definition scope_deviations :: "safety_config \<Rightarrow> string list \<Rightarrow> change_record \<Rightarrow> scope_deviation list" where
  "scope_deviations cfg allowed ch =
     (if allowed \<noteq> [] \<and> sc_strict_scope_enforcement cfg \<and> \<not> in_scope allowed (clean_path (cr_path ch))
      then [\<lparr>sv_type = (if cr_change_type ch = ''deleted'' then SD_UNEXPECTED_FILE_DELETED else SD_UNEXPECTED_FILE_MODIFIED),
        sv_target_path = cr_path ch,
        sv_message = ''Modified file '' @ quoted (cr_path ch) @ '' is outside declared task scope (''
          @ repr_val (str_list allowed) @ '').'',
        sv_details = [(''change_type'', PStr (cr_change_type ch)), (''allowed_paths'', str_list allowed)]\<rparr>]
      else [])"

definition check_deviations ::
  "git_env \<Rightarrow> (string \<Rightarrow> string) \<Rightarrow> safety_config \<Rightarrow> checkpoint \<Rightarrow> path \<Rightarrow> task \<Rightarrow> filesystem \<Rightarrow> scope_deviation list" where
  "check_deviations g sha cfg c root t fs =
     (let changes = get_changed_files g sha c root fs; n = int (length changes); allowed = task_allowed_paths t
      in (if n > sc_max_changed_files cfg
          then [\<lparr>sv_type = SD_MAX_FILES_EXCEEDED, sv_target_path = ''*'',
            sv_message = ''Total changed files ('' @ int_str n @ '') exceeds safety threshold (''
              @ int_str (sc_max_changed_files cfg) @ '').'',
            sv_details = [(''count'', PInt n), (''limit'', PInt (sc_max_changed_files cfg))]\<rparr>] else [])
         @ concat (map (\<lambda>ch. protected_deviations cfg ch @ scope_deviations cfg allowed ch) changes))"


section \<open>Rollback\<close>

text \<open>
  \<open>dest.parent.mkdir(parents=True, exist_ok=True); shutil.copy2(src, dest)\<close>, where copying onto a directory
  copies into it.
\<close>

definition copy_into :: "path \<Rightarrow> string \<Rightarrow> filesystem \<Rightarrow> string + filesystem" where
  "copy_into dest content fs =
     (case mkdir_parents (butlast dest) fs of
        Inl e \<Rightarrow> Inl e
      | Inr fs1 \<Rightarrow>
          let target = (if is_dir fs1 dest then dest @ (if dest = [] then [] else [last dest]) else dest)
          in if is_dir fs1 target then Inl ''Is a directory'' else Inr (write_file target content fs1))"

fun restore_loop ::
  "(string \<Rightarrow> string) \<Rightarrow> path \<Rightarrow> (string, string) dict \<Rightarrow> (string, string) dict \<Rightarrow> string list \<Rightarrow> filesystem \<Rightarrow>
    (string + string list) \<times> filesystem" where
  "restore_loop sha root backup [] done_files fs = (Inr done_files, fs)"
| "restore_loop sha root backup ((rel, orig) # rest) done_files fs =
     (case dict_get backup rel of
        None \<Rightarrow> restore_loop sha root backup rest done_files fs
      | Some content \<Rightarrow>
          let dest = join_path root rel in
          if path_exists fs dest \<and> file_checksum sha fs dest = orig then restore_loop sha root backup rest done_files fs
          else (case copy_into dest content fs of
            Inl e \<Rightarrow> (Inl e, fs)
          | Inr fs1 \<Rightarrow> restore_loop sha root backup rest (done_files @ [rel]) fs1))"

definition created_files :: "path \<Rightarrow> (string, string) dict \<Rightarrow> filesystem \<Rightarrow> string list" where
  "created_files root snapshot fs = filter (\<lambda>rel. dict_get snapshot rel = None) (map fst (tracked_files root fs))"

definition unlink_all :: "path \<Rightarrow> string list \<Rightarrow> filesystem \<Rightarrow> filesystem" where
  "unlink_all root rels fs = fold (\<lambda>rel. unlink (join_path root rel)) rels fs"

definition rollback_fs_workspace ::
  "(string \<Rightarrow> string) \<Rightarrow> checkpoint \<Rightarrow> path \<Rightarrow> filesystem \<Rightarrow> (string + string list \<times> string list) \<times> filesystem" where
  "rollback_fs_workspace sha c root fs =
     (let created = created_files root (ck_snapshot_map c) fs in
      case restore_loop sha root (ck_backup c) (ck_snapshot_map c) [] (unlink_all root created fs) of
        (Inl e, fs2) \<Rightarrow> (Inl e, fs2)
      | (Inr restored, fs2) \<Rightarrow> (Inr (restored, created), fs2))"

fun restore_dirty ::
  "path \<Rightarrow> (string, string) dict \<Rightarrow> string list \<Rightarrow> string list \<Rightarrow> filesystem \<Rightarrow> (string + string list) \<times> filesystem" where
  "restore_dirty root backup [] kept fs = (Inr kept, fs)"
| "restore_dirty root backup (rel # rels) kept fs =
     (case dict_get backup rel of
        None \<Rightarrow> restore_dirty root backup rels kept fs
      | Some content \<Rightarrow>
          (case copy_into (join_path root rel) content fs of
             Inl e \<Rightarrow> (Inl e, fs)
           | Inr fs1 \<Rightarrow> restore_dirty root backup rels (kept @ [rel]) fs1))"

fun remove_untracked ::
  "path \<Rightarrow> (string, string) dict \<Rightarrow> string list \<Rightarrow> string list \<Rightarrow> filesystem \<Rightarrow> string list \<times> filesystem" where
  "remove_untracked root dirty [] deleted fs = (deleted, fs)"
| "remove_untracked root dirty (line # ls) deleted fs =
     (let rel = status_path line; full = join_path root rel in
      if \<not> startswith line ''??'' \<or> startswith rel ''.autonomos'' \<or> dict_get dirty rel \<noteq> None
      then remove_untracked root dirty ls deleted fs
      else if is_file fs full then remove_untracked root dirty ls (deleted @ [rel]) (unlink full fs)
      else if is_dir fs full then remove_untracked root dirty ls (deleted @ [rel]) (rmtree full fs)
      else remove_untracked root dirty ls deleted fs)"

definition rollback_git_workspace ::
  "git_env \<Rightarrow> checkpoint \<Rightarrow> path \<Rightarrow> filesystem \<Rightarrow> (string + string list \<times> string list) \<times> filesystem" where
  "rollback_git_workspace g c root fs =
     (case ge_checkout g root fs of
        Inl e \<Rightarrow> (Inl e, fs)
      | Inr fs1 \<Rightarrow>
          (case restore_dirty root (ck_backup c) (map fst (ck_dirty_files c)) [] fs1 of
             (Inl e, fs2) \<Rightarrow> (Inl e, fs2)
           | (Inr kept, fs2) \<Rightarrow>
               let (deleted, fs3) = remove_untracked root (ck_dirty_files c) (status_lines g root fs2) [] fs2
               in (Inr (kept, deleted), fs3)))"

definition rollback_memory_documents :: "checkpoint \<Rightarrow> workspace \<Rightarrow> workspace" where
  "rollback_memory_documents c w =
     fold (\<lambda>d w. if dict_get (ck_memory_reference c) (m_id d) = None then snd (delete_memory (ck_project_id c) (m_id d) w) else w)
       (list_memory_documents (ws_store w) (Some (ck_project_id c)) None None None) w"

definition verify_restoration :: "(string \<Rightarrow> string) \<Rightarrow> checkpoint \<Rightarrow> path \<Rightarrow> filesystem \<Rightarrow> bool" where
  "verify_restoration sha c root fs =
     (let matches = list_all (\<lambda>(rel, h). path_exists fs (join_path root rel) \<and> file_checksum sha fs (join_path root rel) = h)
      in case ck_type c of
        CT_FILESYSTEM_SNAPSHOT \<Rightarrow> matches (ck_snapshot_map c)
      | CT_MEMORY_SNAPSHOT \<Rightarrow> True
      | _ \<Rightarrow> matches (ck_dirty_files c))"

definition empty_result :: "string \<Rightarrow> string \<Rightarrow> rollback_result" where
  "empty_result rid cid = \<lparr>rb_rollback_id = rid, rb_checkpoint_id = cid, rb_status = RS_FAILED, rb_restored_files = [],
     rb_deleted_files = [], rb_preserved_user_files = [], rb_error_message = None, rb_verified = False\<rparr>"

text \<open>The checkpoint object is updated in place; here the new one is returned.\<close>

definition rollback ::
  "git_env \<Rightarrow> (string \<Rightarrow> string) \<Rightarrow> checkpoint \<Rightarrow> path \<Rightarrow> string \<Rightarrow> string \<Rightarrow> workspace \<Rightarrow>
    rollback_result \<times> checkpoint \<times> workspace" where
  "rollback g sha c root rid now w =
     (let res = empty_result rid (ck_id c) in
      if ck_status c = CS_ROLLED_BACK then
        (res\<lparr>rb_status := RS_SUCCESS, rb_error_message := Some ''Checkpoint has already been rolled back.'',
           rb_verified := True\<rparr>, c, w)
      else
        let is_git = (ck_type c = CT_GIT_WORKING_TREE \<or> ck_type c = CT_GIT_COMMIT);
            (files, fs1) = (if is_git then rollback_git_workspace g c root (ws_fs w)
                            else rollback_fs_workspace sha c root (ws_fs w))
        in case files of
          Inl e \<Rightarrow>
            (res\<lparr>rb_error_message := Some (''Rollback failed with exception: '' @ e)\<rparr>,
             c\<lparr>ck_status := CS_ROLLBACK_FAILED, ck_updated_at := now\<rparr>, w\<lparr>ws_fs := fs1\<rparr>)
        | Inr (put_back, deleted) \<Rightarrow>
            let w2 = rollback_memory_documents c (w\<lparr>ws_fs := fs1\<rparr>);
                ok = verify_restoration sha c root (ws_fs w2)
            in (res\<lparr>rb_status := (if ok then RS_SUCCESS else RS_FAILED),
                  rb_restored_files := (if is_git then [] else put_back), rb_deleted_files := deleted,
                  rb_preserved_user_files := (if is_git then put_back else []), rb_verified := ok\<rparr>,
                c\<lparr>ck_status := (if ok then CS_ROLLED_BACK else CS_ROLLBACK_FAILED), ck_updated_at := now\<rparr>, w2))"


section \<open>Tracked files\<close>

definition tracked_paths :: "path \<Rightarrow> filesystem \<Rightarrow> (path \<times> string) list" where
  "tracked_paths root fs = filter (\<lambda>(q, c). \<not> skipped (path_str q)) (files_below root fs)"

lemma tracked_files_paths: "tracked_files root fs = map (\<lambda>(q, c). (path_str q, c)) (tracked_paths root fs)"
  by (simp add: tracked_files_def tracked_paths_def filter_map o_def case_prod_unfold)

text \<open>A file tree in which paths are plain and nothing lies below a file.\<close>

definition tree_ok :: "filesystem \<Rightarrow> bool" where
  "tree_ok fs \<longleftrightarrow> dict_wf (fs_files fs) \<and> (\<forall>p. is_file fs p \<longrightarrow> plain_path p)
     \<and> (\<forall>p q. is_file fs p \<longrightarrow> is_file fs q \<longrightarrow> \<not> strict_prefix p q)"

lemma tree_okD:
  assumes "tree_ok fs"
  shows "dict_wf (fs_files fs)" "is_file fs p \<Longrightarrow> plain_path p" "is_file fs p \<Longrightarrow> is_file fs q \<Longrightarrow> \<not> strict_prefix p q"
  using assms by (auto simp: tree_ok_def)

lemma files_below_keys_distinct: "dict_wf d \<Longrightarrow>
  distinct (map fst (List.map_filter (\<lambda>(p, c). if strict_prefix root p then Some (drop (length root) p, c) else None) d))"
proof (induction d)
  case (Cons pc d)
  obtain p c where pc: "pc = (p, c)" by force
  have ne: "drop (length root) p' \<noteq> drop (length root) p"
    if "(p', b) \<in> set d" "strict_prefix root p" "strict_prefix root p'" for p' b
  proof
    assume "drop (length root) p' = drop (length root) p"
    with that(2,3) have "p' = p" by (auto simp: strict_prefix_def prefix_def)
    then show False using that(1) Cons.prems pc by force
  qed
  with Cons pc show ?case
    by (auto simp: List.map_filter_simps map_filter_def split: if_splits dest: ne)
qed (simp add: List.map_filter_simps)

lemma tracked_paths_distinct: "dict_wf (fs_files fs) \<Longrightarrow> distinct (map fst (tracked_paths root fs))"
  unfolding tracked_paths_def by (rule distinct_map_filter) (simp add: files_below_def files_below_keys_distinct)

lemma tracked_paths_iff:
  "dict_wf (fs_files fs) \<Longrightarrow> (q, c) \<in> set (tracked_paths root fs) \<longleftrightarrow>
    q \<noteq> [] \<and> \<not> skipped (path_str q) \<and> dict_get (fs_files fs) (root @ q) = Some c"
  by (auto simp: tracked_paths_def files_below_iff)

lemma tracked_paths_plain:
  assumes "tree_ok fs" and "(q, c) \<in> set (tracked_paths root fs)"
  shows "plain_path q"
proof -
  have "dict_get (fs_files fs) (root @ q) = Some c"
    using assms(2) unfolding tracked_paths_iff[OF tree_okD(1)[OF assms(1)]] by blast
  then have "plain_path (root @ q)" by (intro tree_okD(2)[OF assms(1)]) (simp add: is_file_def)
  then show ?thesis by simp
qed

lemma join_plain: "plain_path q \<Longrightarrow> join_path root (path_str q) = root @ q"
  by (simp add: join_path_def path_str_starts_slash path_parts_join)

lemma map_path_str_distinct:
  assumes "distinct (map fst T)" and "\<And>q c. (q, c) \<in> set T \<Longrightarrow> plain_path q"
  shows "distinct (map fst (map (\<lambda>(q, c). (path_str q, f c)) T))"
proof -
  have "inj_on path_str (set (map fst T))"
  proof (rule inj_onI)
    fix x y assume "x \<in> set (map fst T)" "y \<in> set (map fst T)" and eq: "path_str x = path_str y"
    then obtain c d where "(x, c) \<in> set T" "(y, d) \<in> set T" by auto
    then show "x = y" using eq assms(2) path_str_inj by blast
  qed
  with assms(1) have "distinct (map path_str (map fst T))" by (simp only: distinct_map) 
  then show ?thesis by (simp add: comp_def case_prod_unfold)
qed

lemma map_of_path_str:
  assumes "plain_path q" and "\<And>r c. (r, c) \<in> set T \<Longrightarrow> plain_path r"
  shows "map_of (map (\<lambda>(r, c). (path_str r, f c)) T) (path_str q) = map_option f (map_of T q)"
  using assms(2)
proof (induction T)
  case (Cons a T)
  obtain r c where a: "a = (r, c)" by force
  have "plain_path r" using Cons.prems[of r c] a by simp
  then have "path_str r = path_str q \<longleftrightarrow> r = q" using assms(1) by (simp add: path_str_inj)
  moreover have "map_of (map (\<lambda>(r, c). (path_str r, f c)) T) (path_str q) = map_option f (map_of T q)"
    by (rule Cons.IH) (auto intro: Cons.prems)
  ultimately show ?case by (auto simp: a)
qed simp

lemma tracked_get:
  assumes "tree_ok fs" and "plain_path q" and "q \<noteq> []"
  shows "dict_get (tracked_files root fs) (path_str q) =
    (if skipped (path_str q) then None else dict_get (fs_files fs) (root @ q))"
proof -
  note wf = tree_okD(1)[OF assms(1)]
  have "dict_get (tracked_files root fs) (path_str q) = map_of (tracked_paths root fs) q"
    using map_of_path_str[OF assms(2), of "tracked_paths root fs" "\<lambda>c. c"] tracked_paths_plain[OF assms(1)]
    by (simp add: tracked_files_paths option.map_ident)
  also have "\<dots> = (if skipped (path_str q) then None else dict_get (fs_files fs) (root @ q))"
  proof (cases "map_of (tracked_paths root fs) q")
    case None
    then have "(q, c) \<notin> set (tracked_paths root fs)" for c by (force simp: map_of_eq_None_iff)
    then show ?thesis using None assms(3) by (cases "dict_get (fs_files fs) (root @ q)") (auto simp: tracked_paths_iff[OF wf])
  next
    case (Some c)
    then show ?thesis by (auto simp: tracked_paths_iff[OF wf] dest: map_of_SomeD)
  qed
  finally show ?thesis .
qed

lemma tracked_keys_plain:
  assumes "tree_ok fs" and "dict_get (tracked_files root fs) rel = Some c"
  obtains q where "rel = path_str q" "plain_path q" "q \<noteq> []"
proof -
  from assms(2) obtain q where "(q, c) \<in> set (tracked_paths root fs)" "rel = path_str q"
    by (auto simp: tracked_files_paths dest!: map_of_SomeD)
  with that tracked_paths_plain[OF assms(1)] tracked_paths_iff[OF tree_okD(1)[OF assms(1)]] show ?thesis by blast
qed


section \<open>Restoring a snapshot\<close>

text \<open>
  What the restoring loop needs of the tree: below the paths to restore there is neither a file above nor
  a directory at the path itself; the loop keeps this, because no path to restore is above another.
\<close>

definition restorable :: "path set \<Rightarrow> filesystem \<Rightarrow> bool" where
  "restorable S fs \<longleftrightarrow> (\<forall>p \<in> S. \<not> is_dir fs p \<and> (\<forall>q. strict_prefix q p \<longrightarrow> \<not> is_file fs q))"

definition prefix_free :: "path set \<Rightarrow> bool" where
  "prefix_free S \<longleftrightarrow> (\<forall>p \<in> S. \<forall>q \<in> S. \<not> strict_prefix p q)"

lemma strict_prefix_butlast: "p \<noteq> [] \<Longrightarrow> prefix q (butlast p) \<longleftrightarrow> strict_prefix q p"
  by (cases p rule: rev_cases) (auto simp: strict_prefix_def)

lemma copy_into_restorable:
  assumes "restorable S fs" and "prefix_free S" and "p \<in> S"
  obtains fs1 where "copy_into p c fs = Inr fs1" "fs_files fs1 = dict_set p c (fs_files fs)" "restorable S fs1"
proof -
  from assms(1,3) have nodir: "\<not> is_dir fs p" and above: "strict_prefix q p \<Longrightarrow> \<not> is_file fs q" for q
    by (auto simp: restorable_def)
  from nodir have "p \<noteq> []" by (auto simp: is_dir_def)
  then have below: "prefix q (butlast p) \<longleftrightarrow> strict_prefix q p" for q by (rule strict_prefix_butlast)
  have "\<not> list_ex (is_file fs) (prefixes (butlast p))" using above by (auto simp: list_ex_iff below)
  then obtain fs0 where mk: "mkdir_parents (butlast p) fs = Inr fs0" by (simp add: mkdir_parents_def)
  have dirs: "is_dir fs0 q \<longleftrightarrow> is_dir fs q \<or> strict_prefix q p" for q
    by (simp add: mkdir_parents_is_dir[OF mk] below)
  then have "copy_into p c fs = Inr (write_file p c fs0)"
    using mk nodir by (simp add: copy_into_def)
  moreover have "fs_files (write_file p c fs0) = dict_set p c (fs_files fs)"
    by (simp add: write_file_def mkdir_parents_files[OF mk])
  moreover have "restorable S (write_file p c fs0)"
    unfolding restorable_def
  proof (intro ballI conjI allI impI)
    fix r q assume r: "r \<in> S"
    show "\<not> is_dir (write_file p c fs0) r"
      using r assms by (auto simp: dirs restorable_def prefix_free_def)
    assume "strict_prefix q r"
    then have "\<not> is_file fs q" "q \<noteq> p" using r assms by (auto simp: restorable_def prefix_free_def)
    then show "\<not> is_file (write_file p c fs0) q"
      by (simp add: is_file_def dict_simps mkdir_parents_files[OF mk])
  qed
  ultimately show ?thesis by (rule that)
qed

text \<open>The loop writes exactly the recorded contents and touches nothing else.\<close>

lemma restore_loop_correct:
  assumes "inj sha" and "distinct (map fst T)" and "\<And>q c. (q, c) \<in> set T \<Longrightarrow> plain_path q \<and> root @ q \<in> S"
    and "\<And>q c. (q, c) \<in> set T \<Longrightarrow> dict_get backup (path_str q) = Some c"
    and "prefix_free S" and "restorable S fs"
  shows "\<exists>done' fs'. restore_loop sha root backup (map (\<lambda>(q, c). (path_str q, sha c)) T) done_files fs = (Inr done', fs')
    \<and> (\<forall>p. dict_get (fs_files fs') p =
          (case find (\<lambda>(q, c). root @ q = p) T of Some (q, c) \<Rightarrow> Some c | None \<Rightarrow> dict_get (fs_files fs) p))"
  using assms(2-4,6)
proof (induction T arbitrary: done_files fs)
  case (Cons a T)
  obtain q c where a: "a = (q, c)" by force
  have plain: "plain_path q" and inS: "root @ q \<in> S" and bak: "dict_get backup (path_str q) = Some c"
    using Cons.prems(2,3)[of q c] a by auto
  have tl: "distinct (map fst T)" "\<And>q c. (q, c) \<in> set T \<Longrightarrow> plain_path q \<and> root @ q \<in> S"
    "\<And>q c. (q, c) \<in> set T \<Longrightarrow> dict_get backup (path_str q) = Some c"
    using Cons.prems by auto
  have notin: "find (\<lambda>(q', c). root @ q' = root @ q) T = None"
    using Cons.prems(1) a by (force simp: find_None_iff)
  have nodir: "\<not> is_dir fs (root @ q)" using Cons.prems(4) inS by (auto simp: restorable_def)
  define goes where "goes fs1 \<longleftrightarrow> restorable S fs1
    \<and> (\<forall>p. dict_get (fs_files fs1) p = (if p = root @ q then Some c else dict_get (fs_files fs) p))" for fs1
  obtain fs1 d1 where step: "restore_loop sha root backup (map (\<lambda>(q, c). (path_str q, sha c)) (a # T)) done_files fs =
      restore_loop sha root backup (map (\<lambda>(q, c). (path_str q, sha c)) T) d1 fs1" and fs1: "goes fs1"
  proof (cases "path_exists fs (root @ q) \<and> file_checksum sha fs (root @ q) = sha c")
    case True
    with nodir assms(1) have "dict_get (fs_files fs) (root @ q) = Some c"
      by (auto simp: path_exists_def is_file_def file_checksum_def inj_eq)
    then have "goes fs" using Cons.prems(4) by (simp add: goes_def)
    moreover have "restore_loop sha root backup (map (\<lambda>(q, c). (path_str q, sha c)) (a # T)) done_files fs =
      restore_loop sha root backup (map (\<lambda>(q, c). (path_str q, sha c)) T) done_files fs"
      using True by (simp add: a bak join_plain[OF plain])
    ultimately show ?thesis by (metis that)
  next
    case False
    obtain fs1 where cp: "copy_into (root @ q) c fs = Inr fs1" "fs_files fs1 = dict_set (root @ q) c (fs_files fs)"
      "restorable S fs1" by (rule copy_into_restorable[OF Cons.prems(4) assms(5) inS])
    then have "goes fs1" by (simp add: goes_def dict_simps)
    moreover have "restore_loop sha root backup (map (\<lambda>(q, c). (path_str q, sha c)) (a # T)) done_files fs =
      restore_loop sha root backup (map (\<lambda>(q, c). (path_str q, sha c)) T) (done_files @ [path_str q]) fs1"
      using False cp(1) by (auto simp: a bak join_plain[OF plain])
    ultimately show ?thesis by (metis that)
  qed
  have "restorable S fs1" using fs1 by (simp add: goes_def)
  have "\<exists>done' fs'. restore_loop sha root backup (map (\<lambda>(q, c). (path_str q, sha c)) T) d1 fs1 = (Inr done', fs')
    \<and> (\<forall>p. dict_get (fs_files fs') p =
          (case find (\<lambda>(q, c). root @ q = p) T of Some (q, c) \<Rightarrow> Some c | None \<Rightarrow> dict_get (fs_files fs1) p))"
    by (rule Cons.IH[OF tl(1) _ _ \<open>restorable S fs1\<close>]) (use tl(2,3) in blast)+
  then obtain done' fs'
    where "restore_loop sha root backup (map (\<lambda>(q, c). (path_str q, sha c)) T) d1 fs1 = (Inr done', fs')"
      and get: "\<And>p. dict_get (fs_files fs') p =
          (case find (\<lambda>(q, c). root @ q = p) T of Some (q, c) \<Rightarrow> Some c | None \<Rightarrow> dict_get (fs_files fs1) p)"
    by blast
  moreover have "dict_get (fs_files fs') p =
      (case find (\<lambda>(q, c). root @ q = p) (a # T) of Some (q, c) \<Rightarrow> Some c | None \<Rightarrow> dict_get (fs_files fs) p)" for p
    using get[of p] notin fs1 by (auto simp: a goes_def split: option.splits)
  ultimately show ?case unfolding step by blast
qed simp


lemma unlink_all_get:
  "dict_get (fs_files (unlink_all root rels fs)) p = (if p \<in> join_path root ` set rels then None else dict_get (fs_files fs) p)"
  unfolding unlink_all_def by (induction rels arbitrary: fs) (auto simp: dict_simps)

lemma unlink_all_is_dir [simp]: "is_dir (unlink_all root rels fs) = is_dir fs"
  unfolding unlink_all_def by (induction rels arbitrary: fs) auto

lemma path_str_prefix: "prefix r q \<Longrightarrow> prefix (path_str r) (path_str q)"
proof (induction r arbitrary: q rule: induct_list012)
  case (2 x)
  then obtain q' where "q = x # q'" by (cases q) auto
  then show ?case by (cases q') (simp_all add: path_str_def)
next
  case (3 x y zs)
  then obtain q' where q: "q = x # y # q'" and "prefix zs q'" by (cases q; cases "tl q") auto
  then have "prefix (path_str (y # zs)) (path_str (y # q'))" using 3(2) by simp
  then show ?case using q by (simp add: path_str_def)
qed (simp add: path_str_def)

lemma skipped_prefix: "skipped a \<Longrightarrow> prefix a b \<Longrightarrow> skipped b"
  by (auto simp: skipped_def dest: prefix_order.trans)

definition tracked_at :: "path \<Rightarrow> path \<Rightarrow> bool" where
  "tracked_at root p \<longleftrightarrow> (\<exists>q. p = root @ q \<and> q \<noteq> [] \<and> \<not> skipped (path_str q))"

lemma in_tracked: "tree_ok fs \<Longrightarrow> (q, c) \<in> set (tracked_paths root fs) \<longleftrightarrow>
    tracked_at root (root @ q) \<and> dict_get (fs_files fs) (root @ q) = Some c"
  by (auto simp: tracked_paths_iff[OF tree_okD(1)] tracked_at_def)

lemma find_tracked:
  assumes "tree_ok fs"
  shows "(case find (\<lambda>(q, c). root @ q = p) (tracked_paths root fs) of Some (q, c) \<Rightarrow> Some c | None \<Rightarrow> x) =
    (if tracked_at root p \<and> is_file fs p then dict_get (fs_files fs) p else x)"
proof (cases "find (\<lambda>(q, c). root @ q = p) (tracked_paths root fs)")
  case None
  then have "(q, c) \<in> set (tracked_paths root fs) \<Longrightarrow> root @ q \<noteq> p" for q c by (auto simp: find_None_iff)
  then have "\<not> (tracked_at root p \<and> is_file fs p)"
    unfolding is_file_def in_tracked[OF assms] by (auto simp: tracked_at_def)
  then show ?thesis using None by auto
next
  case (Some qc)
  obtain q c where qc: "qc = (q, c)" by force
  with Some have "(q, c) \<in> set (tracked_paths root fs)" "root @ q = p"
    by (auto simp: find_Some_iff in_set_conv_nth)
  then show ?thesis using Some qc by (auto simp: in_tracked[OF assms] is_file_def)
qed

lemma created_files_iff:
  assumes "tree_ok fs0" and "tree_ok fs1"
  shows "p \<in> join_path root ` set (created_files root (fst (capture_fs_state sha root fs0)) fs1) \<longleftrightarrow>
    tracked_at root p \<and> is_file fs1 p \<and> \<not> is_file fs0 p"
proof -
  have snap: "dict_get (fst (capture_fs_state sha root fs0)) (path_str q) = None \<longleftrightarrow> (\<nexists>c. (q, c) \<in> set (tracked_paths root fs0))"
    if "plain_path q" for q
    using map_of_path_str[OF that, of "tracked_paths root fs0" sha] tracked_paths_plain[OF assms(1)]
    by (auto simp: capture_fs_state_def tracked_files_paths comp_def case_prod_unfold map_of_eq_None_iff image_iff)
  show ?thesis
  proof
    assume "p \<in> join_path root ` set (created_files root (fst (capture_fs_state sha root fs0)) fs1)"
    then obtain q c where q: "(q, c) \<in> set (tracked_paths root fs1)" "p = join_path root (path_str q)"
      "dict_get (fst (capture_fs_state sha root fs0)) (path_str q) = None"
      by (auto simp: created_files_def tracked_files_paths)
    note plain = tracked_paths_plain[OF assms(2) q(1)]
    from q(2) have "p = root @ q" by (simp add: join_plain[OF plain])
    with q show "tracked_at root p \<and> is_file fs1 p \<and> \<not> is_file fs0 p"
      by (auto simp: snap[OF plain] in_tracked[OF assms(1)] in_tracked[OF assms(2)] is_file_def)
  next
    assume p: "tracked_at root p \<and> is_file fs1 p \<and> \<not> is_file fs0 p"
    then obtain q c where q: "p = root @ q" "(q, c) \<in> set (tracked_paths root fs1)"
      by (auto simp: tracked_at_def is_file_def in_tracked[OF assms(2)])
    note plain = tracked_paths_plain[OF assms(2) q(2)]
    have "(q, c') \<notin> set (tracked_paths root fs0)" for c'
      using p q(1) by (auto simp: in_tracked[OF assms(1)] is_file_def)
    then have "path_str q \<in> set (created_files root (fst (capture_fs_state sha root fs0)) fs1)"
      using q(2) by (force simp: created_files_def tracked_files_paths snap[OF plain])
    then show "p \<in> join_path root ` set (created_files root (fst (capture_fs_state sha root fs0)) fs1)"
      using q(1) join_plain[OF plain] by (metis imageI)
  qed
qed

text \<open>No directory has replaced a tracked file, and the project has not been replaced by a file.\<close>

definition no_clash :: "path \<Rightarrow> filesystem \<Rightarrow> filesystem \<Rightarrow> bool" where
  "no_clash root fs0 fs1 \<longleftrightarrow> (\<forall>p. tracked_at root p \<longrightarrow> is_file fs0 p \<longrightarrow> \<not> is_dir fs1 p)
     \<and> (\<forall>p. prefix p root \<longrightarrow> \<not> is_file fs1 p)"

lemma rollback_fs_exact:
  assumes "inj sha" and ok: "tree_ok fs0" "tree_ok fs1" and "no_clash root fs0 fs1"
    and "ck_snapshot_map c = fst (capture_fs_state sha root fs0)" and "ck_backup c = snd (capture_fs_state sha root fs0)"
  shows "\<exists>r d fs2. rollback_fs_workspace sha c root fs1 = (Inr (r, d), fs2)
    \<and> (\<forall>p. dict_get (fs_files fs2) p = (if tracked_at root p then dict_get (fs_files fs0) p else dict_get (fs_files fs1) p))"
proof -
  define T where "T = tracked_paths root fs0"
  define S where "S = (\<lambda>(q, c). root @ q) ` set T"
  define fsd where "fsd = unlink_all root (created_files root (ck_snapshot_map c) fs1) fs1"
  have inS: "p \<in> S \<Longrightarrow> tracked_at root p \<and> is_file fs0 p" for p
    by (auto simp: S_def T_def in_tracked[OF ok(1)] is_file_def)
  have gone: "dict_get (fs_files fsd) p =
      (if tracked_at root p \<and> is_file fs1 p \<and> \<not> is_file fs0 p then None else dict_get (fs_files fs1) p)" for p
    by (simp add: fsd_def unlink_all_get assms(5) created_files_iff[OF ok])
  have "prefix_free S"
    using tree_okD(3)[OF ok(1)] inS unfolding prefix_free_def by blast
  moreover have "restorable S fsd"
    unfolding restorable_def
  proof (intro ballI conjI allI impI)
    fix p r assume p: "p \<in> S"
    show "\<not> is_dir fsd p" using inS[OF p] assms(4) by (simp add: fsd_def no_clash_def)
    assume r: "strict_prefix r p"
    from inS[OF p] obtain q where q: "p = root @ q" "\<not> skipped (path_str q)" by (auto simp: tracked_at_def)
    show "\<not> is_file fsd r"
    proof (cases "prefix r root")
      case True
      then show ?thesis using assms(4) by (simp add: no_clash_def is_file_def gone)
    next
      case False
      with r q(1) obtain s where s: "r = root @ s" "s \<noteq> []" "prefix s q"
        by (auto simp: strict_prefix_def prefix_append)
      then have "\<not> skipped (path_str s)" using q(2) skipped_prefix path_str_prefix by blast
      then have "tracked_at root r" using s by (auto simp: tracked_at_def)
      moreover have "\<not> is_file fs0 r" using tree_okD(3)[OF ok(1)] inS[OF p] r by blast
      ultimately show ?thesis by (simp add: is_file_def gone)
    qed
  qed
  moreover have "plain_path q \<and> root @ q \<in> S" and "dict_get (ck_backup c) (path_str q) = Some x"
    if "(q, x) \<in> set T" for q x
  proof -
    note plain = tracked_paths_plain[OF ok(1) that[unfolded T_def]]
    then show "plain_path q \<and> root @ q \<in> S" using that by (force simp: S_def)
    have "q \<noteq> []" using that by (simp add: T_def tracked_paths_iff[OF tree_okD(1)[OF ok(1)]])
    then have "dict_get (tracked_files root fs0) (path_str q) = Some x"
      using that by (simp add: tracked_get[OF ok(1) plain] T_def tracked_paths_iff[OF tree_okD(1)[OF ok(1)]])
    then show "dict_get (ck_backup c) (path_str q) = Some x" by (simp add: assms(6) capture_fs_state_def)
  qed
  moreover have "distinct (map fst T)" unfolding T_def by (rule tracked_paths_distinct[OF tree_okD(1)[OF ok(1)]])
  ultimately obtain done' fs' where loop: "restore_loop sha root (ck_backup c) (map (\<lambda>(q, c). (path_str q, sha c)) T) [] fsd =
      (Inr done', fs')" and get: "\<And>p. dict_get (fs_files fs') p =
      (case find (\<lambda>(q, c). root @ q = p) T of Some (q, c) \<Rightarrow> Some c | None \<Rightarrow> dict_get (fs_files fsd) p)"
    using restore_loop_correct[OF assms(1), of T root S "ck_backup c" fsd "[]"] by blast
  have "ck_snapshot_map c = map (\<lambda>(q, c). (path_str q, sha c)) T"
    by (simp add: assms(5) capture_fs_state_def tracked_files_paths T_def case_prod_unfold)
  with loop have "rollback_fs_workspace sha c root fs1 = (Inr (done', created_files root (ck_snapshot_map c) fs1), fs')"
    by (simp add: rollback_fs_workspace_def fsd_def)
  moreover have "dict_get (fs_files fs') p = (if tracked_at root p then dict_get (fs_files fs0) p else dict_get (fs_files fs1) p)" for p
    unfolding get T_def find_tracked[OF ok(1)] gone by (auto simp: is_file_def)
  ultimately show ?thesis by blast
qed


section \<open>Rolling back the documents\<close>

lemma delete_memory_get:
  assumes "get_project (ws_store w) pid \<noteq> None"
  shows "get_memory_document (ws_store (snd (delete_memory pid mid w))) i =
    (if i = mid \<and> (\<exists>d. get_memory_document (ws_store w) mid = Some d \<and> m_project_id d = pid) then None
     else get_memory_document (ws_store w) i)"
  using assms by (auto simp: delete_memory_store memory_tbl.get_remove)

lemma delete_memory_project: "get_project (ws_store (snd (delete_memory pid mid w))) = get_project (ws_store w)"
  by (simp add: delete_memory_store)

lemma delete_memory_fs:
  obtains "ws_fs (snd (delete_memory pid mid w)) = ws_fs w"
  | d p where "get_memory_document (ws_store w) mid = Some d" "m_project_id d = pid" "get_project (ws_store w) pid = Some p"
      "ws_fs (snd (delete_memory pid mid w)) = unlink (resolve_path (project_root p) (clean_rel (m_relative_path d))) (ws_fs w)"
proof (cases "read_memory pid mid (ws_store w)")
  case (Inr d)
  show ?thesis
  proof (cases "get_project (ws_store w) pid")
    case (Some p)
    from Inr have d: "get_memory_document (ws_store w) mid = Some d" "m_project_id d = pid" by (simp_all add: read_memory_Inr)
    let ?full = "resolve_path (project_root p) (clean_rel (m_relative_path d))"
    have "ws_fs (snd (delete_memory pid mid w)) = (if is_file (ws_fs w) ?full then unlink ?full (ws_fs w) else ws_fs w)"
      using Inr Some by (simp add: delete_memory_def resolve_full_path_def get_project_root_def Let_def split: prod.split)
    then show ?thesis using that d Some by (cases "is_file (ws_fs w) ?full") auto
  qed (use that Inr in \<open>auto simp: delete_memory_def resolve_full_path_def get_project_root_def\<close>)
qed (use that in \<open>auto simp: delete_memory_def\<close>)

lemma fold_delete_get:
  assumes "get_project (ws_store w) pid \<noteq> None"
  shows "get_memory_document (ws_store (fold (\<lambda>d w. if new d then snd (delete_memory pid (m_id d) w) else w) ds w)) i =
    (if i \<in> m_id ` {d \<in> set ds. new d} \<and> (\<exists>d. get_memory_document (ws_store w) i = Some d \<and> m_project_id d = pid) then None
     else get_memory_document (ws_store w) i)"
  using assms
proof (induction ds arbitrary: w)
  case (Cons d ds)
  then show ?case by (auto simp: delete_memory_get delete_memory_project)
qed simp

text \<open>Deleting documents removes their files and nothing else.\<close>

definition docs_untracked :: "path \<Rightarrow> string \<Rightarrow> store \<Rightarrow> bool" where
  "docs_untracked root pid s \<longleftrightarrow> (\<forall>mid d p. get_memory_document s mid = Some d \<longrightarrow> m_project_id d = pid \<longrightarrow>
     get_project s pid = Some p \<longrightarrow> \<not> tracked_at root (resolve_path (project_root p) (clean_rel (m_relative_path d))))"

lemma docs_untracked_delete:
  "docs_untracked root pid (ws_store w) \<Longrightarrow> docs_untracked root pid (ws_store (snd (delete_memory pid mid w)))"
  by (auto simp: docs_untracked_def delete_memory_store memory_tbl.get_remove split: if_splits)

lemma fold_delete_fs:
  assumes "docs_untracked root pid (ws_store w)"
  shows "(\<forall>p. tracked_at root p \<longrightarrow> dict_get (fs_files (ws_fs (fold (\<lambda>d w. if new d then snd (delete_memory pid (m_id d) w) else w)
      ds w))) p = dict_get (fs_files (ws_fs w)) p)"
  using assms
proof (induction ds arbitrary: w)
  case (Cons d ds)
  show ?case
  proof (cases "new d")
    case True
    let ?w = "snd (delete_memory pid (m_id d) w)"
    have "dict_get (fs_files (ws_fs ?w)) p = dict_get (fs_files (ws_fs w)) p" if "tracked_at root p" for p
      by (rule delete_memory_fs[of pid "m_id d" w]) (use that Cons.prems in \<open>auto simp: dict_simps docs_untracked_def\<close>)
    then show ?thesis using Cons.IH[OF docs_untracked_delete[OF Cons.prems]] True by simp
  qed (use Cons in simp)
qed simp

lemma delete_memory_files_sub: "is_file (ws_fs (snd (delete_memory pid mid w))) p \<Longrightarrow> is_file (ws_fs w) p"
  by (rule delete_memory_fs[of pid mid w]) (auto simp: is_file_def dict_simps split: if_splits)

lemma rollback_memory_files_sub: "is_file (ws_fs (rollback_memory_documents c w)) p \<Longrightarrow> is_file (ws_fs w) p"
proof -
  have "is_file (ws_fs (fold (\<lambda>d w. if new d then snd (delete_memory pid (m_id d) w) else w) ds w)) p \<Longrightarrow> is_file (ws_fs w) p"
    for new pid ds and w :: workspace
    by (induction ds arbitrary: w) (auto dest: delete_memory_files_sub split: if_splits)
  then show "is_file (ws_fs (rollback_memory_documents c w)) p \<Longrightarrow> is_file (ws_fs w) p"
    unfolding rollback_memory_documents_def .
qed

lemma verify_snapshot:
  assumes "tree_ok fs0" and "ck_type c = CT_FILESYSTEM_SNAPSHOT" and "ck_snapshot_map c = fst (capture_fs_state sha root fs0)"
    and "\<And>p. tracked_at root p \<Longrightarrow> dict_get (fs_files fs) p = dict_get (fs_files fs0) p"
  shows "verify_restoration sha c root fs"
proof -
  have "path_exists fs (join_path root rel) \<and> file_checksum sha fs (join_path root rel) = h"
    if "(rel, h) \<in> set (ck_snapshot_map c)" for rel h
  proof -
    from that obtain q x where q: "(q, x) \<in> set (tracked_paths root fs0)" "rel = path_str q" "h = sha x"
      by (auto simp: assms(3) capture_fs_state_def tracked_files_paths)
    then have "dict_get (fs_files fs) (root @ q) = Some x" using assms(4) by (simp add: in_tracked[OF assms(1)])
    then show ?thesis
      using q by (simp add: join_plain[OF tracked_paths_plain[OF assms(1) q(1)]] path_exists_def is_file_def file_checksum_def)
  qed
  then show ?thesis by (auto simp: verify_restoration_def assms(2) list_all_iff)
qed


section \<open>Properties\<close>

lemma captured_snapshot:
  assumes "\<not> is_dir fs (root @ [''.git''])" and "c = captured_checkpoint g sha pid tid wid cid root fs s now"
  shows "ck_type c = CT_FILESYSTEM_SNAPSHOT" "ck_snapshot_map c = fst (capture_fs_state sha root fs)"
    "ck_backup c = snd (capture_fs_state sha root fs)" "ck_status c = CS_ACTIVE" "ck_project_id c = pid" "ck_id c = cid"
  using assms by (simp_all add: captured_checkpoint_def case_prod_unfold Let_def)

lemma bex_map_filter:
  "(\<exists>y \<in> set (List.map_filter f xs). P y) \<longleftrightarrow> (\<exists>k v. (k, v) \<in> set xs \<and> (\<exists>y. f (k, v) = Some y \<and> P y))"
  by (force simp: List.map_filter_def)

lemma snapshot_change_kind:
  assumes "dict_wf old" and "dict_wf new"
  shows "(\<exists>ch \<in> set (snapshot_changes old new). cr_path ch = rel \<and> cr_change_type ch = kind) \<longleftrightarrow>
    (case (dict_get old rel, dict_get new rel) of
       (None, Some _) \<Rightarrow> kind = ''created''
     | (Some x, Some y) \<Rightarrow> x \<noteq> y \<and> kind = ''modified''
     | (Some _, None) \<Rightarrow> kind = ''deleted''
     | (None, None) \<Rightarrow> False)"
proof -
  have mem: "(k, v) \<in> set d \<longleftrightarrow> dict_get d k = Some v" if "dict_wf d" for k v and d :: "(string, string) dict"
    by (simp only: map_of_eq_Some_iff[OF that])
  have now: "(\<exists>y. (case dict_get old k of
           None \<Rightarrow> Some \<lparr>cr_path = k, cr_change_type = ''created'', cr_before_hash = None, cr_after_hash = Some v\<rparr>
         | Some h0 \<Rightarrow> if h0 \<noteq> v
             then Some \<lparr>cr_path = k, cr_change_type = ''modified'', cr_before_hash = Some h0, cr_after_hash = Some v\<rparr>
             else None) = Some y \<and> cr_path y = rel \<and> cr_change_type y = kind) \<longleftrightarrow>
      k = rel \<and> (if dict_get old k = None then kind = ''created'' else dict_get old k \<noteq> Some v \<and> kind = ''modified'')" for k v
    by (cases "dict_get old k") auto
  have before: "(\<exists>y. (if dict_get new k = None
         then Some \<lparr>cr_path = k, cr_change_type = ''deleted'', cr_before_hash = Some v, cr_after_hash = None\<rparr>
         else None) = Some y \<and> cr_path y = rel \<and> cr_change_type y = kind) \<longleftrightarrow>
      k = rel \<and> dict_get new k = None \<and> kind = ''deleted''" for k and v :: string
    by auto
  have "(\<exists>ch \<in> set (snapshot_changes old new). cr_path ch = rel \<and> cr_change_type ch = kind) \<longleftrightarrow>
      (\<exists>v. dict_get new rel = Some v \<and> (if dict_get old rel = None then kind = ''created''
         else dict_get old rel \<noteq> Some v \<and> kind = ''modified''))
    \<or> (\<exists>v. dict_get old rel = Some v \<and> dict_get new rel = None \<and> kind = ''deleted'')"
    unfolding snapshot_changes_def set_append bex_Un bex_map_filter mem[OF assms(1)] mem[OF assms(2)] prod.case now before
    by blast
  then show ?thesis by (cases "dict_get old rel"; cases "dict_get new rel") auto
qed

lemma snapshot_map_get: "dict_get (map (\<lambda>(rel, c). (rel, f c)) T) rel = map_option f (dict_get T rel)"
  by (induction T) auto

lemma tracked_files_wf: "tree_ok fs \<Longrightarrow> dict_wf (tracked_files root fs)"
  unfolding tracked_files_paths
  by (rule map_path_str_distinct[where f = "\<lambda>c. c"]) (auto intro: tracked_paths_distinct tree_okD(1) tracked_paths_plain)

text \<open>
  The reported changes are exact: comparing the tree now with a snapshot reports a path as created,
  modified or deleted exactly when it is a tracked file now and was none, has another content, or was one
  and is none now, provided the digest is injective.
\<close>

theorem snapshot_changes_exact:
  assumes "inj sha" and "tree_ok fs0" and "tree_ok fs1" and "\<not> is_dir fs0 (root @ [''.git''])"
    and "c = captured_checkpoint g sha pid tid wid cid root fs0 s now"
  shows "(\<exists>ch \<in> set (get_changed_files g sha c root fs1). cr_path ch = rel \<and> cr_change_type ch = kind) \<longleftrightarrow>
    (case (dict_get (tracked_files root fs0) rel, dict_get (tracked_files root fs1) rel) of
       (None, Some _) \<Rightarrow> kind = ''created''
     | (Some x, Some y) \<Rightarrow> x \<noteq> y \<and> kind = ''modified''
     | (Some _, None) \<Rightarrow> kind = ''deleted''
     | (None, None) \<Rightarrow> False)"
proof -
  let ?m = "\<lambda>fs. map (\<lambda>(rel, c). (rel, sha c)) (tracked_files root fs)"
  have changes: "get_changed_files g sha c root fs1 = snapshot_changes (?m fs0) (?m fs1)"
    by (simp add: get_changed_files_def captured_snapshot[OF assms(4,5)] capture_fs_state_def)
  have "dict_wf (?m fs)" if "tree_ok fs" for fs
    using tracked_files_wf[OF that, of root] by (simp add: comp_def case_prod_unfold)
  from snapshot_change_kind[OF this[OF assms(2)] this[OF assms(3)]] show ?thesis
    unfolding changes snapshot_map_get
    by (cases "dict_get (tracked_files root fs0) rel"; cases "dict_get (tracked_files root fs1) rel")
      (simp_all add: inj_eq[OF assms(1)])
qed

definition sample_tree :: "(string \<times> string) list \<Rightarrow> filesystem" where
  "sample_tree fs = \<lparr>fs_files = map (\<lambda>(n, c). ([''p'', n], c)) fs, fs_dirs = [[''p'']]\<rparr>"

lemma sample_tree_ok:
  "distinct (map fst fs) \<Longrightarrow> list_all (\<lambda>(n, c). plain_component n) fs \<Longrightarrow> tree_ok (sample_tree fs)"
  by (force simp: tree_ok_def sample_tree_def is_file_def distinct_map inj_on_def list_all_iff plain_component_def
      strict_prefix_def prefix_def comp_def case_prod_unfold map_of_eq_None_iff dest!: map_of_SomeD)

definition no_git :: git_env where
  "no_git = \<lparr>ge_head = (\<lambda>_ _. None), ge_status = (\<lambda>_ _. None), ge_checkout = (\<lambda>_ fs. Inr fs)\<rparr>"

definition sample_snapshot :: checkpoint where
  "sample_snapshot = captured_checkpoint no_git (\<lambda>x. x) ''p'' ''t'' ''w'' ''c'' [''p'']
     (sample_tree [(''a'', ''1''), (''b'', ''2'')]) (ws_store sample_workspace) ''now''"

definition changed_tree :: filesystem where
  "changed_tree = sample_tree [(''b'', ''3''), (''n'', ''4'')]"

lemma sample_trees_ok: "tree_ok (sample_tree [(''a'', ''1''), (''b'', ''2'')])" "tree_ok changed_tree"
  unfolding changed_tree_def by (rule sample_tree_ok; simp add: plain_component_def)+

theorem snapshot_changes_exact_witness:
  "\<exists>ch \<in> set (get_changed_files no_git (\<lambda>x. x) sample_snapshot [''p''] changed_tree). cr_path ch = ''a'' \<and> cr_change_type ch = ''deleted''"
proof -
  have git: "\<not> is_dir (sample_tree [(''a'', ''1''), (''b'', ''2'')]) ([''p''] @ [''.git''])" by code_simp
  have "dict_get (tracked_files [''p''] (sample_tree [(''a'', ''1''), (''b'', ''2'')])) ''a'' = Some ''1''" by code_simp
  moreover have "dict_get (tracked_files [''p''] changed_tree) ''a'' = None" by code_simp
  ultimately show ?thesis
    using snapshot_changes_exact[OF inj_on_id2 sample_trees_ok git sample_snapshot_def, of "''a''" "''deleted''"] by simp
qed


definition sample_rollback :: "rollback_result \<times> checkpoint \<times> workspace" where
  "sample_rollback = rollback no_git (\<lambda>x. x) sample_snapshot [''p''] ''r'' ''later''
     (sample_workspace\<lparr>ws_fs := changed_tree\<rparr>)"


text \<open>
  What a rollback does to the project memory: it deletes exactly the documents of the project that the
  checkpoint does not know; a document that was changed since keeps its new content and version, although
  the checkpoint recorded the old version.
\<close>

theorem rollback_keeps_memory_versions:
  assumes "store_wf (ws_store w)" and "get_project (ws_store w) (ck_project_id c) \<noteq> None" and "ck_project_id c \<noteq> []"
  shows "get_memory_document (ws_store (rollback_memory_documents c w)) mid =
    (case get_memory_document (ws_store w) mid of
       None \<Rightarrow> None
     | Some d \<Rightarrow> if m_project_id d = ck_project_id c \<and> dict_get (ck_memory_reference c) mid = None then None else Some d)"
proof -
  let ?docs = "list_memory_documents (ws_store w) (Some (ck_project_id c)) None None None"
  have listed: "d \<in> set ?docs \<longleftrightarrow> get_memory_document (ws_store w) (m_id d) = Some d \<and> m_project_id d = ck_project_id c" for d
    using memory_tbl.rows_iff[OF assms(1)] assms(3) by (auto simp: list_memory_documents_def Let_def)
  have key: "get_memory_document (ws_store w) i = Some d \<Longrightarrow> m_id d = i" for i d by (rule memory_tbl.key_get[OF assms(1)])
  have "mid \<in> m_id ` {d \<in> set ?docs. dict_get (ck_memory_reference c) (m_id d) = None} \<longleftrightarrow>
      (\<exists>d. get_memory_document (ws_store w) mid = Some d \<and> m_project_id d = ck_project_id c)
        \<and> dict_get (ck_memory_reference c) mid = None"
    using key by (auto simp: listed image_iff)
  then show ?thesis
    unfolding rollback_memory_documents_def
    using fold_delete_get[OF assms(2), of "\<lambda>d. dict_get (ck_memory_reference c) (m_id d) = None" ?docs mid]
    by (auto split: option.splits)
qed

theorem rollback_keeps_memory_versions_witness:
  "get_memory_document (ws_store (rollback_memory_documents (sample_snapshot\<lparr>ck_memory_reference := [(''m'', 0)]\<rparr>) noted_workspace)) ''m'' =
    get_memory_document (ws_store noted_workspace) ''m''"
proof -
  let ?c = "sample_snapshot\<lparr>ck_memory_reference := [(''m'', 0)]\<rparr>"
  have "get_project (ws_store noted_workspace) (ck_project_id ?c) \<noteq> None" by code_simp
  moreover have "ck_project_id ?c \<noteq> []" by code_simp
  ultimately show ?thesis
    using rollback_keeps_memory_versions[OF memory_okD(1)[OF noted_workspace_ok], of ?c "''m''"]
    by (auto split: option.splits)
qed


lemma capture_dirty_files:
  assumes "\<And>rel. dict_get dirty rel \<noteq> None \<Longrightarrow> is_file fs (join_path root rel)"
  shows "dict_get (fst (capture_dirty sha root fs ls (dirty, backup))) rel \<noteq> None \<Longrightarrow> is_file fs (join_path root rel)"
  using assms
proof (induction ls arbitrary: dirty backup)
  case (Cons line ls)
  show ?case
  proof (cases "startswith (status_path line) ''.autonomos'' \<or> dict_get (fs_files fs) (join_path root (status_path line)) = None")
    case True
    then show ?thesis using Cons by (auto simp: Let_def split: option.splits)
  next
    case False
    then obtain x where x: "dict_get (fs_files fs) (join_path root (status_path line)) = Some x" by blast
    have "is_file fs (join_path root r)" if "dict_get (dict_set (status_path line) (sha x) dirty) r \<noteq> None" for r
      using that Cons.prems(2) x by (auto simp: dict_simps is_file_def split: if_splits)
    moreover have "capture_dirty sha root fs (line # ls) (dirty, backup) =
        capture_dirty sha root fs ls (dict_set (status_path line) (sha x) dirty, dict_set (status_path line) x backup)"
      using False x by (simp add: Let_def)
    ultimately show ?thesis using Cons.IH Cons.prems(1) by metis
  qed
qed simp

lemma captured_dirty_files:
  assumes "is_dir fs (root @ [''.git''])" and "c = captured_checkpoint g sha pid tid wid cid root fs s now"
  shows "dict_get (ck_dirty_files c) rel \<noteq> None \<Longrightarrow> is_file fs (join_path root rel)"
    and "ck_type c = CT_GIT_WORKING_TREE" and "ck_status c = CS_ACTIVE"
  using assms capture_dirty_files[of "[]" fs root sha "status_lines g root fs" "[]" rel]
  by (simp_all add: captured_checkpoint_def capture_git_state_def case_prod_unfold Let_def)

lemma rmtree_is_file: "is_file (rmtree p fs) q \<Longrightarrow> is_file fs q \<and> \<not> prefix p q"
proof -
  assume "is_file (rmtree p fs) q"
  then obtain x where "map_of (filter (\<lambda>(q, _). \<not> prefix p q) (fs_files fs)) q = Some x"
    by (auto simp: is_file_def rmtree_def)
  then have "(q, x) \<in> set (fs_files fs)" "\<not> prefix p q" by (auto dest: map_of_SomeD)
  then show ?thesis by (force simp: is_file_def map_of_eq_None_iff)
qed

lemma unlink_is_file: "is_file (unlink p fs) q \<Longrightarrow> is_file fs q"
  by (auto simp: is_file_def dict_simps split: if_splits)

lemma rmtree_is_dir: "is_dir fs q \<Longrightarrow> \<not> prefix p q \<Longrightarrow> is_dir (rmtree p fs) q"
  by (auto simp: is_dir_def rmtree_def)

text \<open>Once the line of an untracked directory has been passed, nothing is left below it.\<close>

definition doomed :: "path \<Rightarrow> filesystem \<Rightarrow> bool" where
  "doomed full fs \<longleftrightarrow> \<not> is_file fs full \<and> (is_dir fs full \<or> (\<forall>p. prefix full p \<longrightarrow> \<not> is_file fs p))"

lemma doomed_unlink: "doomed full fs \<Longrightarrow> doomed full (unlink p fs)"
  by (auto simp: doomed_def dest: unlink_is_file)

lemma doomed_rmtree: "doomed full fs \<Longrightarrow> doomed full (rmtree p fs)"
  by (cases "prefix p full") (auto simp: doomed_def dest: rmtree_is_file intro: rmtree_is_dir prefix_order.trans)

lemma remove_untracked_sub: "is_file (snd (remove_untracked root dirty ls del fs)) p \<Longrightarrow> is_file fs p"
  by (induction root dirty ls del fs rule: remove_untracked.induct)
    (auto simp: Let_def dest: unlink_is_file rmtree_is_file split: if_splits)

lemma remove_untracked_dir:
  assumes "doomed full fs" and "line \<in> set ls" and "startswith line ''??''" and "\<not> startswith (status_path line) ''.autonomos''"
    and "dict_get dirty (status_path line) = None" and "full = join_path root (status_path line)" and "prefix full p"
  shows "\<not> is_file (snd (remove_untracked root dirty ls del fs)) p"
  using assms(1,2)
proof (induction ls arbitrary: del fs)
  case (Cons l ls)
  show ?case
  proof (cases "l = line")
    case True
    have "\<not> is_file fs full" using Cons.prems(1) by (simp add: doomed_def)
    show ?thesis
    proof (cases "is_dir fs full")
      case True
      then have step: "remove_untracked root dirty (l # ls) del fs =
          remove_untracked root dirty ls (del @ [status_path line]) (rmtree full fs)"
        using assms(3-6) \<open>l = line\<close> \<open>\<not> is_file fs full\<close> by (simp add: Let_def)
      show ?thesis unfolding step using remove_untracked_sub rmtree_is_file assms(7) by blast
    next
      case False
      then have "\<not> is_file fs p" using Cons.prems(1) assms(7) by (simp add: doomed_def)
      then show ?thesis using remove_untracked_sub by blast
    qed
  next
    case False
    then have "line \<in> set ls" using Cons.prems(2) by simp
    then have IH: "doomed full fs' \<Longrightarrow> \<not> is_file (snd (remove_untracked root dirty ls d' fs')) p" for d' fs'
      by (rule Cons.IH[rotated])
    show ?thesis using IH Cons.prems(1) by (auto simp: Let_def doomed_unlink doomed_rmtree)
  qed
qed simp

lemma join_directory: "plain_component d \<Longrightarrow> join_path root (d @ ''/'') = root @ [d]"
  by (cases d) (auto simp: join_path_def path_parts_def plain_component_def split_on_append)

text \<open>
  A rollback in a git project removes a directory of the user: git reports an untracked directory as a
  whole, as \<open>?? d/\<close>, the checkpoint records files only, so the rollback takes the directory for the work of
  the task and deletes it with everything in it, although it was there when the checkpoint was taken.
\<close>

theorem git_rollback_deletes_user_directory:
  assumes "is_dir fs0 (root @ [''.git''])" and "is_dir fs0 (root @ [d])" and "\<not> is_file fs0 (root @ [d])"
    and "c = captured_checkpoint g sha pid tid wid cid root fs0 s now0"
    and "plain_component d" and "\<not> prefix ''.autonomos'' d" and "strip (d @ ''/'') = d @ ''/''"
    and "ge_checkout g root (ws_fs w) = Inr fs1"
    and "restore_dirty root (ck_backup c) (map fst (ck_dirty_files c)) [] fs1 = (Inr kept, fs2)"
    and "''?? '' @ d @ ''/'' \<in> set (status_lines g root fs2)"
    and "is_dir fs2 (root @ [d])" and "\<not> is_file fs2 (root @ [d])"
    and "rollback g sha c root rid now w = (res, c', w')"
  shows "\<not> is_file (ws_fs w') (root @ d # q)"
proof
  assume still: "is_file (ws_fs w') (root @ d # q)"
  note cap = captured_dirty_files[OF assms(1,4)]
  let ?line = "''?? '' @ d @ ''/''"
  have rel: "status_path ?line = d @ ''/''" using assms(7) by (simp add: status_path_def)
  have full: "join_path root (status_path ?line) = root @ [d]" by (simp only: rel join_directory[OF assms(5)])
  have none: "dict_get (ck_dirty_files c) (status_path ?line) = None"
    unfolding rel using contrapos_nn[OF assms(3) cap(1)[of "d @ ''/''", unfolded join_directory[OF assms(5)]]] by blast
  have skip: "\<not> prefix ''.autonomos'' (status_path ?line)"
  proof
    assume "prefix ''.autonomos'' (status_path ?line)"
    then have "''.autonomos'' = d @ ''/''" using assms(6) unfolding rel prefix_snoc by blast
    then have "last ''.autonomos'' = CHR ''/''" by (metis last_snoc)
    then show False by simp
  qed
  obtain deleted fs3 where rm: "remove_untracked root (ck_dirty_files c) (status_lines g root fs2) [] fs2 = (deleted, fs3)"
    by force
  have "doomed (root @ [d]) fs2" using assms(11,12) by (simp add: doomed_def)
  from remove_untracked_dir[OF this assms(10) _ skip none full[symmetric], of "root @ d # q" "[]"]
  have gone: "\<not> is_file fs3 (root @ d # q)" by (simp add: rm)
  have "rollback_git_workspace g c root (ws_fs w) = (Inr (kept, deleted), fs3)"
    by (simp add: rollback_git_workspace_def assms(8,9) rm)
  then have "w' = rollback_memory_documents c (w\<lparr>ws_fs := fs3\<rparr>)"
    using assms(13) by (auto simp: rollback_def cap(2,3) Let_def split: if_splits)
  with still gone show False by (auto dest: rollback_memory_files_sub)
qed

definition user_git :: git_env where
  "user_git = \<lparr>ge_head = (\<lambda>_ _. Some ''abc''), ge_status = (\<lambda>_ _. Some [''?? notes/'']), ge_checkout = (\<lambda>_ fs. Inr fs)\<rparr>"

definition user_tree :: filesystem where
  "user_tree = \<lparr>fs_files = [([''p'', ''notes'', ''x''], ''mine'')], fs_dirs = [[''p''], [''p'', ''.git''], [''p'', ''notes'']]\<rparr>"

definition user_checkpoint :: checkpoint where
  "user_checkpoint = captured_checkpoint user_git (\<lambda>x. x) ''p'' ''t'' ''w'' ''c'' [''p''] user_tree (ws_store sample_workspace) ''now''"

theorem git_rollback_deletes_user_directory_witness:
  "is_file user_tree [''p'', ''notes'', ''x'']
    \<and> \<not> is_file (ws_fs (snd (snd (rollback user_git (\<lambda>x. x) user_checkpoint [''p''] ''r'' ''later''
        (sample_workspace\<lparr>ws_fs := user_tree\<rparr>))))) ([''p''] @ ''notes'' # [''x''])"
proof -
  let ?w = "sample_workspace\<lparr>ws_fs := user_tree\<rparr>"
  obtain res c' w' where r: "rollback user_git (\<lambda>x. x) user_checkpoint [''p''] ''r'' ''later'' ?w = (res, c', w')"
    by (metis prod_cases3)
  have dirs: "is_dir user_tree ([''p''] @ [''.git''])" "is_dir user_tree ([''p''] @ [''notes''])"
    "\<not> is_file user_tree ([''p''] @ [''notes''])" by code_simp+
  have name: "plain_component ''notes''" "\<not> prefix ''.autonomos'' ''notes''" "strip (''notes'' @ ''/'') = ''notes'' @ ''/''"
    by code_simp+
  have co: "ge_checkout user_git [''p''] (ws_fs ?w) = Inr user_tree" by (simp add: user_git_def)
  have rd: "restore_dirty [''p''] (ck_backup user_checkpoint) (map fst (ck_dirty_files user_checkpoint)) [] user_tree = (Inr [], user_tree)"
    by code_simp
  have line: "''?? '' @ ''notes'' @ ''/'' \<in> set (status_lines user_git [''p''] user_tree)" by code_simp
  have "\<not> is_file (ws_fs w') ([''p''] @ ''notes'' # [''x''])"
    by (rule git_rollback_deletes_user_directory[OF dirs user_checkpoint_def name co rd line dirs(2,3) r])
  moreover have "is_file user_tree [''p'', ''notes'', ''x'']" by code_simp
  ultimately show ?thesis by (simp add: r)
qed

end
