(* ===== verification/Dependencies.thy ===== *)
theory Dependencies
  imports Memory_Store
begin

text \<open>
  The dependency resolver of \<open>core/task/dependencies.py\<close>: adding an edge with cycle detection
  by a depth-first search over the stored edges, the readiness check, and the promotion of
  downstream tasks. The lemmas relate the search to reachability in the graph of the stored
  edges, so that \<open>acyclic\<close> is an invariant, and give the exact effect of the promotion.
\<close>

section \<open>Operations\<close>

text \<open>
  The loop of \<open>_would_create_cycle\<close>. The head of \<open>stack\<close> is its top: the code pops the last
  element and appends the prerequisites in order, so the last one is examined first.
\<close>

function cycle_search :: "store \<Rightarrow> string \<Rightarrow> string list \<Rightarrow> string list \<Rightarrow> bool" where
  "cycle_search s dependent [] visited = False"
| "cycle_search s dependent (cur # stack) visited =
     (if cur = dependent then True
      else if cur \<in> set visited then cycle_search s dependent stack visited
      else cycle_search s dependent
        (rev (filter (\<lambda>p. p \<notin> set (cur # visited))
           (map d_prerequisite_task_id (get_dependencies_for_task s cur))) @ stack)
        (cur # visited))"
  by pat_completeness auto

abbreviation dependents :: "store \<Rightarrow> string set" where
  "dependents s \<equiv> d_dependent_task_id ` set (dict_values (s_dependencies s))"

lemma no_dependencies: "cur \<notin> dependents s \<Longrightarrow> get_dependencies_for_task s cur = []"
  by (auto simp: get_dependencies_for_task_def filter_empty_conv)

termination cycle_search
proof (relation "inv_image (less_than <*lex*> less_than)
    (\<lambda>(s, dependent, stack, visited). (card (dependents s - set visited), length stack))", goal_cases)
  case (3 s dependent cur stack visited)
  show ?case
  proof (cases "cur \<in> dependents s")
    case True
    with 3 have "0 < card (dependents s - set visited)"
      by (auto simp: card_gt_0_iff)
    with True 3 show ?thesis by simp
  qed (simp add: no_dependencies)
qed auto

declare cycle_search.simps(2) [simp del]

lemma cycle_search_hit: "cycle_search s a (a # stack) visited"
  by (simp add: cycle_search.simps)

lemma cycle_search_seen:
  "cur \<noteq> a \<Longrightarrow> cur \<in> set visited \<Longrightarrow> cycle_search s a (cur # stack) visited = cycle_search s a stack visited"
  by (simp add: cycle_search.simps(2))

lemma cycle_search_new:
  "cur \<noteq> a \<Longrightarrow> cur \<notin> set visited \<Longrightarrow> cycle_search s a (cur # stack) visited =
    cycle_search s a (rev (filter (\<lambda>p. p \<notin> set (cur # visited))
      (map d_prerequisite_task_id (get_dependencies_for_task s cur))) @ stack) (cur # visited)"
  by (subst cycle_search.simps(2)) simp

definition would_create_cycle :: "store \<Rightarrow> string \<Rightarrow> string \<Rightarrow> bool" where
  "would_create_cycle s dependent prerequisite = cycle_search s dependent [prerequisite] []"

definition default_dependency_id :: "string \<Rightarrow> string \<Rightarrow> string" where
  "default_dependency_id dependent prerequisite =
     ''dep-'' @ take 8 dependent @ ''-'' @ take 8 prerequisite"

definition resolver_add_dependency ::
  "string \<Rightarrow> string \<Rightarrow> dependency_type \<Rightarrow> string option \<Rightarrow> string \<Rightarrow> store \<Rightarrow> (error + dependency) \<times> store" where
  "resolver_add_dependency dependent prerequisite dtype did now s =
     (if dependent = prerequisite then (Inl (DependencyCycleError dependent prerequisite), s)
      else if would_create_cycle s dependent prerequisite then
        (Inl (DependencyCycleError dependent prerequisite), s)
      else
        let dep = \<lparr>d_id = or_else did (default_dependency_id dependent prerequisite),
              d_dependent_task_id = dependent, d_prerequisite_task_id = prerequisite,
              d_dependency_type = dtype, d_created_at = now\<rparr>;
            s1 = store_dependency dep s;
            s2 = (case get_task s1 dependent of
                    None \<Rightarrow> s1
                  | Some t \<Rightarrow>
                      if prerequisite \<notin> set (t_dependencies t)
                      then save_task (t\<lparr>t_dependencies := t_dependencies t @ [prerequisite]\<rparr>) s1
                      else s1)
        in (Inr dep, s2))"

text \<open>The message for one unfulfilled dependency, if it is unfulfilled.\<close>

definition unfulfilled_dependency :: "store \<Rightarrow> dependency \<Rightarrow> string option" where
  "unfulfilled_dependency s d =
     (case get_task s (d_prerequisite_task_id d) of
        None \<Rightarrow> Some (d_prerequisite_task_id d @ '' (not found)'')
      | Some p \<Rightarrow>
          if (case d_dependency_type d of
                D_STRICT_SUCCESS \<Rightarrow> t_status p \<noteq> T_COMPLETED
              | D_COMPLETION_ANY \<Rightarrow> t_status p \<notin> {T_COMPLETED, T_FAILED, T_CANCELLED})
          then Some (t_id p @ '' (status: '' @ task_status_value (t_status p) @ '')'')
          else None)"

definition are_dependencies_satisfied :: "store \<Rightarrow> string \<Rightarrow> bool \<times> string list" where
  "are_dependencies_satisfied s tid =
     (let unfulfilled = List.map_filter (unfulfilled_dependency s) (get_dependencies_for_task s tid)
      in (length unfulfilled = 0, unfulfilled))"

definition validate_task_readiness :: "task \<Rightarrow> store \<Rightarrow> error + unit" where
  "validate_task_readiness t s =
     (let (satisfied, unfulfilled) = are_dependencies_satisfied s (t_id t)
      in if \<not> satisfied then Inl (DependencyNotSatisfiedError (t_id t) unfulfilled) else Inr ())"

fun resolve_downstream_loop :: "dependency list \<Rightarrow> store \<Rightarrow> task list \<times> store" where
  "resolve_downstream_loop [] s = ([], s)"
| "resolve_downstream_loop (d # ds) s =
     (case get_task s (d_dependent_task_id d) of
        None \<Rightarrow> resolve_downstream_loop ds s
      | Some t \<Rightarrow>
          if t_status t = T_PENDING \<and> fst (are_dependencies_satisfied s (t_id t)) then
            let t' = t\<lparr>t_status := T_READY\<rparr>;
                (ready, s') = resolve_downstream_loop ds (save_task t' s)
            in (t' # ready, s')
          else resolve_downstream_loop ds s)"

definition resolve_downstream_tasks :: "string \<Rightarrow> store \<Rightarrow> task list \<times> store" where
  "resolve_downstream_tasks completed s = resolve_downstream_loop (get_dependents_for_task s completed) s"


section \<open>The dependency graph\<close>

definition dep_edges :: "store \<Rightarrow> (string \<times> string) set" where
  "dep_edges s = (\<lambda>d. (d_dependent_task_id d, d_prerequisite_task_id d)) ` set (dict_values (s_dependencies s))"

lemma finite_dep_edges [simp]: "finite (dep_edges s)"
  by (simp add: dep_edges_def)

lemma dep_edges_successors:
  "d_prerequisite_task_id ` set (get_dependencies_for_task s c) = dep_edges s `` {c}"
  by (force simp: get_dependencies_for_task_def dep_edges_def image_iff)

lemma dep_edges_empty [simp]: "dep_edges empty_store = {}"
  by (simp add: dep_edges_def empty_store_def)

lemma dep_edges_frame: "s_dependencies s' = s_dependencies s \<Longrightarrow> dep_edges s' = dep_edges s"
  by (simp add: dep_edges_def)

lemma dep_edges_saves [simp]:
  "dep_edges (save_task t s) = dep_edges s" "dep_edges (save_worker w s) = dep_edges s"
  "dep_edges (save_project p s) = dep_edges s" "dep_edges (save_artifact a s) = dep_edges s"
  by (simp_all add: dep_edges_def save_defs)

text \<open>The stored dependencies after one is stored: the same edge and the same identifier are replaced.\<close>

lemma values_store_dependency:
  assumes "table_ok d_id (s_dependencies s)"
  shows "set (dict_values (s_dependencies (store_dependency d s))) =
    insert d {v \<in> set (dict_values (s_dependencies s)).
      \<not> (d_dependent_task_id v = d_dependent_task_id d \<and> d_prerequisite_task_id v = d_prerequisite_task_id d)
      \<and> d_id v \<noteq> d_id d}"
proof -
  let ?D = "s_dependencies s"
  let ?same = "\<lambda>d'. d_dependent_task_id d' = d_dependent_task_id d \<and> d_prerequisite_task_id d' = d_prerequisite_task_id d"
  let ?ids = "map d_id (filter ?same (dict_values ?D))"
  have ok: "table_ok d_id (dict_del_all ?ids ?D)" using assms by simp
  have "set (dict_values (s_dependencies (store_dependency d s))) =
      insert d {v \<in> set (dict_values (dict_del_all ?ids ?D)). d_id v \<noteq> d_id d}"
    unfolding store_dependency_def Let_def
    using values_dict_set [of "dict_del_all ?ids ?D" d_id d] ok by (simp add: table_ok_def)
  then show ?thesis unfolding values_del_selected [OF assms] by blast
qed

lemma dep_edges_store_dependency:
  "table_ok d_id (s_dependencies s) \<Longrightarrow> dep_edges (store_dependency d s) =
    insert (d_dependent_task_id d, d_prerequisite_task_id d)
      {(d_dependent_task_id d', d_prerequisite_task_id d') | d'. d' \<in> set (dict_values (s_dependencies s)) \<and> d_id d' \<noteq> d_id d}"
  unfolding dep_edges_def values_store_dependency by blast

lemma dep_edges_store_dependency_subset:
  "table_ok d_id (s_dependencies s) \<Longrightarrow>
    dep_edges (store_dependency d s) \<subseteq> insert (d_dependent_task_id d, d_prerequisite_task_id d) (dep_edges s)"
  by (subst dep_edges_store_dependency) (auto simp: dep_edges_def)


section \<open>The search decides reachability\<close>

lemma cycle_search_sound:
  "cycle_search s a stack visited \<Longrightarrow> \<exists>c \<in> set stack. (c, a) \<in> (dep_edges s)\<^sup>*"
proof (induction s a stack visited rule: cycle_search.induct)
  case (2 s a cur stack visited)
  consider "cur = a" | "cur \<noteq> a" "cur \<in> set visited" | "cur \<noteq> a" "cur \<notin> set visited" by blast
  then show ?case
  proof cases
    case 2
    with "2.IH"(1) "2.prems" show ?thesis by (auto simp: cycle_search_seen)
  next
    case 3
    with "2.IH"(2) "2.prems" obtain c where c: "(c, a) \<in> (dep_edges s)\<^sup>*"
      "c \<in> d_prerequisite_task_id ` set (get_dependencies_for_task s cur) \<union> set stack"
      by (auto simp: cycle_search_new)
    from c(2) show ?thesis
    proof
      assume "c \<in> d_prerequisite_task_id ` set (get_dependencies_for_task s cur)"
      then have "(cur, c) \<in> dep_edges s" by (simp add: dep_edges_successors)
      with c(1) show ?thesis by (auto intro: converse_rtrancl_into_rtrancl)
    qed (use c(1) in auto)
  qed simp
qed simp

text \<open>
  When the search fails, the visited nodes and the stack lie in a set that is closed under the
  edges and avoids the dependent task.
\<close>

lemma cycle_search_complete:
  "\<not> cycle_search s a stack visited \<Longrightarrow> dep_edges s `` set visited \<subseteq> set visited \<union> set stack \<Longrightarrow>
    a \<notin> set visited \<Longrightarrow>
    \<exists>V. set visited \<union> set stack \<subseteq> V \<and> dep_edges s `` V \<subseteq> V \<and> a \<notin> V"
proof (induction s a stack visited rule: cycle_search.induct)
  case (1 s a visited)
  then show ?case by auto
next
  case (2 s a cur stack visited)
  have ne: "cur \<noteq> a" using "2.prems"(1) cycle_search_hit by blast
  show ?case
  proof (cases "cur \<in> set visited")
    case True
    have "\<not> cycle_search s a stack visited"
      using "2.prems"(1) by (simp only: cycle_search_seen [OF ne True] simp_thms)
    moreover have "set visited \<union> set (cur # stack) = set visited \<union> set stack" using True by auto
    ultimately show ?thesis using "2.IH"(1) [OF ne True] "2.prems"(2,3) by presburger
  next
    case False
    let ?new = "rev (filter (\<lambda>p. p \<notin> set (cur # visited))
       (map d_prerequisite_task_id (get_dependencies_for_task s cur)))"
    have "dep_edges s `` {cur} \<subseteq> set (cur # visited) \<union> set ?new"
      by (auto simp: dep_edges_successors [symmetric])
    then have closed: "dep_edges s `` set (cur # visited) \<subseteq> set (cur # visited) \<union> set (?new @ stack)"
      using "2.prems"(2) by auto
    have "\<not> cycle_search s a (?new @ stack) (cur # visited)"
      using "2.prems"(1) by (simp only: cycle_search_new [OF ne False] simp_thms)
    from "2.IH"(2) [OF ne False this closed] "2.prems"(3) ne
    obtain V where "set (cur # visited) \<union> set (?new @ stack) \<subseteq> V" "dep_edges s `` V \<subseteq> V" "a \<notin> V"
      by auto
    then show ?thesis by (intro exI [of _ V]) simp
  qed
qed

lemma would_create_cycle_iff: "would_create_cycle s a p \<longleftrightarrow> (p, a) \<in> (dep_edges s)\<^sup>*"
proof
  assume "would_create_cycle s a p"
  then show "(p, a) \<in> (dep_edges s)\<^sup>*"
    using cycle_search_sound [of s a "[p]" "[]"] by (simp add: would_create_cycle_def)
next
  assume path: "(p, a) \<in> (dep_edges s)\<^sup>*"
  show "would_create_cycle s a p"
  proof (rule ccontr)
    assume "\<not> would_create_cycle s a p"
    then obtain V where V: "p \<in> V" "dep_edges s `` V \<subseteq> V" "a \<notin> V"
      using cycle_search_complete [of s a "[p]" "[]"] by (auto simp: would_create_cycle_def)
    from path V(1,2) have "a \<in> V" by (induction rule: rtrancl_induct) auto
    with V(3) show False by simp
  qed
qed

section \<open>Effect of the operations\<close>

lemma resolver_add_dependency_Inl:
  "resolver_add_dependency a p ty did now s = (Inl e, s') \<Longrightarrow>
    s' = s \<and> e = DependencyCycleError a p \<and> (p, a) \<in> (dep_edges s)\<^sup>*"
  by (auto simp: resolver_add_dependency_def Let_def would_create_cycle_iff split: if_splits)

lemma resolver_add_dependency_Inr:
  assumes "resolver_add_dependency a p ty did now s = (Inr d, s')"
  shows "(p, a) \<notin> (dep_edges s)\<^sup>*"
    and "d = \<lparr>d_id = or_else did (default_dependency_id a p), d_dependent_task_id = a,
           d_prerequisite_task_id = p, d_dependency_type = ty, d_created_at = now\<rparr>"
    and "s_dependencies s' = s_dependencies (store_dependency d s)"
  using assms
  by (auto simp: save_task_def resolver_add_dependency_def Let_def would_create_cycle_iff split: if_splits option.splits)

lemma store_wf_resolver_add_dependency [inv_intros]:
  assumes "store_wf s"
  shows "store_wf (snd (resolver_add_dependency a p ty did now s))"
  using assms by (auto simp: resolver_add_dependency_def Let_def split: option.splits)

text \<open>When a stored dependency counts as satisfied.\<close>

definition dependency_met :: "store \<Rightarrow> dependency \<Rightarrow> bool" where
  "dependency_met s d \<longleftrightarrow>
     (case get_task s (d_prerequisite_task_id d) of
        None \<Rightarrow> False
      | Some p \<Rightarrow> (case d_dependency_type d of
            D_STRICT_SUCCESS \<Rightarrow> t_status p = T_COMPLETED
          | D_COMPLETION_ANY \<Rightarrow> t_status p \<in> {T_COMPLETED, T_FAILED, T_CANCELLED}))"

lemma unfulfilled_iff: "unfulfilled_dependency s d = None \<longleftrightarrow> dependency_met s d"
  by (auto simp: unfulfilled_dependency_def dependency_met_def split: option.splits dependency_type.splits)

lemma map_filter_eq_Nil: "List.map_filter f xs = [] \<longleftrightarrow> (\<forall>x \<in> set xs. f x = None)"
  by (induction xs) (auto simp: List.map_filter_simps split: option.splits)

lemma satisfied_iff:
  "fst (are_dependencies_satisfied s tid) \<longleftrightarrow> (\<forall>d \<in> set (get_dependencies_for_task s tid). dependency_met s d)"
  by (simp add: are_dependencies_satisfied_def Let_def map_filter_eq_Nil unfulfilled_iff)

text \<open>
  A change between two open statuses meets nobody's dependencies and breaks nobody's, so the
  order in which the dependents are promoted does not matter.
\<close>

lemma get_deps_save_task [simp]: "get_dependencies_for_task (save_task t s) x = get_dependencies_for_task s x"
  by (simp add: get_dependencies_for_task_def save_task_def)

lemma get_dependents_save_task [simp]: "get_dependents_for_task (save_task t s) x = get_dependents_for_task s x"
  by (simp add: get_dependents_for_task_def save_task_def)

lemma dependency_met_open:
  assumes "get_task s (t_id t') = Some t" and "t_status t \<notin> {T_COMPLETED, T_FAILED, T_CANCELLED}"
    and "t_status t' \<notin> {T_COMPLETED, T_FAILED, T_CANCELLED}"
  shows "dependency_met (save_task t' s) d = dependency_met s d"
  using assms by (auto simp: dependency_met_def tasks_tbl.get_save split: dependency_type.splits)

lemma satisfied_open:
  assumes "get_task s (t_id t') = Some t" and "t_status t \<notin> {T_COMPLETED, T_FAILED, T_CANCELLED}"
    and "t_status t' \<notin> {T_COMPLETED, T_FAILED, T_CANCELLED}"
  shows "fst (are_dependencies_satisfied (save_task t' s) x) = fst (are_dependencies_satisfied s x)"
  by (simp add: satisfied_iff dependency_met_open [OF assms])

definition promoted :: "store \<Rightarrow> string set \<Rightarrow> task \<Rightarrow> task" where
  "promoted s ids t =
     (if t_status t = T_PENDING \<and> t_id t \<in> ids \<and> fst (are_dependencies_satisfied s (t_id t))
      then t\<lparr>t_status := T_READY\<rparr> else t)"

lemma t_id_promoted [simp]: "t_id (promoted s ids t) = t_id t"
  by (simp add: promoted_def)

lemma resolve_downstream_loop_effect:
  assumes "store_wf s" and "resolve_downstream_loop ds s = (ready, s')"
  shows "store_wf s' \<and> s'\<lparr>s_tasks := s_tasks s\<rparr> = s
    \<and> (\<forall>tid. get_task s' tid = map_option (promoted s (d_dependent_task_id ` set ds)) (get_task s tid))"
  using assms
proof (induction ds arbitrary: s ready s')
  case Nil
  then show ?case by (auto simp: promoted_def option.map_id0 option.map_ident)
next
  case (Cons d ds)
  let ?x = "d_dependent_task_id d"
  let ?T = "promoted s (d_dependent_task_id ` set (d # ds))"
  show ?case
  proof (cases "\<exists>t. get_task s ?x = Some t \<and> t_status t = T_PENDING \<and> fst (are_dependencies_satisfied s (t_id t))")
    case False
    then have "resolve_downstream_loop ds s = (ready, s')" using Cons.prems(2) by (auto split: option.splits)
    from Cons.IH [OF Cons.prems(1) this]
    have IH: "store_wf s'" "s'\<lparr>s_tasks := s_tasks s\<rparr> = s"
      "get_task s' tid = map_option (promoted s (d_dependent_task_id ` set ds)) (get_task s tid)" for tid
      by auto
    have "promoted s (d_dependent_task_id ` set ds) t = ?T t" if "get_task s tid = Some t" for tid t
      using False that tasks_tbl.key_get [OF Cons.prems(1) that] by (auto simp: promoted_def)
    with IH show ?thesis by (auto intro!: option.map_cong0 simp: option.set_sel dest: sym)
  next
    case True
    then obtain t where t: "get_task s ?x = Some t" "t_status t = T_PENDING" "fst (are_dependencies_satisfied s (t_id t))"
      by blast
    have id: "t_id t = ?x" using tasks_tbl.key_get [OF Cons.prems(1) t(1)] .
    define s1 where "s1 = save_task (t\<lparr>t_status := T_READY\<rparr>) s"
    obtain ready1 where r: "resolve_downstream_loop ds s1 = (ready1, s')"
      using Cons.prems(2) t by (auto simp: s1_def Let_def split: prod.splits)
    have wf1: "store_wf s1" using Cons.prems(1) by (simp add: s1_def)
    from Cons.IH [OF wf1 r]
    have IH: "store_wf s'" "s'\<lparr>s_tasks := s_tasks s1\<rparr> = s1"
      "get_task s' tid = map_option (promoted s1 (d_dependent_task_id ` set ds)) (get_task s1 tid)" for tid
      by auto
    have sat: "fst (are_dependencies_satisfied s1 x) = fst (are_dependencies_satisfied s x)" for x
      unfolding s1_def using t id by (intro satisfied_open [of _ _ t]) simp_all
    have "s'\<lparr>s_tasks := s_tasks s\<rparr> = (s'\<lparr>s_tasks := s_tasks s1\<rparr>)\<lparr>s_tasks := s_tasks s\<rparr>" by simp
    also have "\<dots> = s" unfolding IH(2) by (simp add: s1_def save_task_def)
    finally have frame: "s'\<lparr>s_tasks := s_tasks s\<rparr> = s" .
    have "get_task s' tid = map_option ?T (get_task s tid)" for tid
    proof (cases "tid = ?x")
      case True
      then show ?thesis using t id by (simp add: IH(3) s1_def tasks_tbl.get_save promoted_def)
    next
      case False
      have "promoted s1 (d_dependent_task_id ` set ds) t' = ?T t'" if "get_task s tid = Some t'" for t'
        using False that tasks_tbl.key_get [OF Cons.prems(1) that] by (simp add: promoted_def sat)
      then show ?thesis using False id
        by (auto simp: IH(3) s1_def tasks_tbl.get_save intro!: option.map_cong0 simp: option.set_sel dest: sym)
    qed
    with frame IH(1) show ?thesis by blast
  qed
qed

lemma dependents_of_set:
  "d_dependent_task_id ` set (get_dependents_for_task s c) = {a. (a, c) \<in> dep_edges s}"
  by (force simp: get_dependents_for_task_def dep_edges_def image_iff)


section \<open>A sample store\<close>

text \<open>Two of the sample tasks; \<open>b\<close> is pending and waits for the completed \<open>a\<close>. The witnesses use it.\<close>

definition sample_dependency :: dependency where
  "sample_dependency = \<lparr>d_id = ''dep-b-a'', d_dependent_task_id = ''b'', d_prerequisite_task_id = ''a'',
     d_dependency_type = D_STRICT_SUCCESS, d_created_at = ''c''\<rparr>"

definition sample_store :: store where
  "sample_store = store_dependency sample_dependency
     (save_task (sample_task ''b'' T_PENDING) (save_task (sample_task ''a'' T_COMPLETED) empty_store))"

lemma sample_store_wf: "store_wf sample_store"
  by (simp add: sample_store_def)

lemma sample_store_edges: "dep_edges sample_store = {(''b'', ''a'')}"
  by (simp add: dep_edges_def sample_store_def store_dependency_def dict_del_all_def Let_def save_task_def
      empty_store_def sample_dependency_def)

lemma sample_store_acyclic: "acyclic (dep_edges sample_store)"
  by (simp add: sample_store_edges) (simp add: acyclic_def)

lemma sample_store_get:
  "get_task sample_store x = (if x = ''b'' then Some (sample_task ''b'' T_PENDING)
     else if x = ''a'' then Some (sample_task ''a'' T_COMPLETED) else None)"
  by (simp add: sample_store_def store_dependency_def Let_def get_task_def save_task_def empty_store_def sample_task_def)

definition collision_first :: "(error + dependency) \<times> store" where
  "collision_first = resolver_add_dependency ''c'' ''task-0001-a'' D_STRICT_SUCCESS None ''now'' sample_store"

definition collision_second :: "(error + dependency) \<times> store" where
  "collision_second = resolver_add_dependency ''c'' ''task-0001-b'' D_STRICT_SUCCESS None ''now'' (snd collision_first)"


section \<open>Properties\<close>

text \<open>
  C20: adding a dependency is refused exactly when the prerequisite already depends, directly or
  transitively, on the dependent task (or is that task), with \<open>DependencyCycleError\<close>; a refusal
  leaves the store as it was.
\<close>

theorem dependency_refused_iff_cycle:
  "(fst (resolver_add_dependency a p ty did now s) = Inl (DependencyCycleError a p)
      \<longleftrightarrow> (p, a) \<in> (dep_edges s)\<^sup>*)
    \<and> ((p, a) \<in> (dep_edges s)\<^sup>* \<longleftrightarrow> resolver_add_dependency a p ty did now s = (Inl (DependencyCycleError a p), s))"
  by (auto simp: resolver_add_dependency_def Let_def would_create_cycle_iff split: option.splits)

text \<open>
  Adding dependencies through the resolver keeps the dependency graph free of cycles and the
  store well formed, whether the call succeeds or is refused.
\<close>

theorem resolver_keeps_acyclic:
  assumes "store_wf s" and "acyclic (dep_edges s)"
  shows "acyclic (dep_edges (snd (resolver_add_dependency a p ty did now s)))
    \<and> store_wf (snd (resolver_add_dependency a p ty did now s))"
proof (cases "resolver_add_dependency a p ty did now s")
  case (Pair r s')
  show ?thesis
  proof (cases r)
    case (Inl e)
    with Pair show ?thesis using assms resolver_add_dependency_Inl [of a p ty did now s e s'] by simp
  next
    case (Inr d)
    note add = resolver_add_dependency_Inr [OF Pair [unfolded Inr]]
    have "acyclic (insert (a, p) (dep_edges s))" using assms(2) add(1) by (simp add: acyclic_insert)
    moreover have "dep_edges s' \<subseteq> insert (a, p) (dep_edges s)"
      using dep_edges_store_dependency_subset [of s d] assms(1) dep_edges_frame [OF add(3)]
      by (simp add: add(2) store_wf_def)
    ultimately have "acyclic (dep_edges s')" by (rule acyclic_subset)
    then show ?thesis
      using store_wf_resolver_add_dependency [OF assms(1), of a p ty did now] Pair by simp
  qed
qed

theorem resolver_keeps_acyclic_witness:
  "acyclic (dep_edges (snd (resolver_add_dependency ''c'' ''b'' D_STRICT_SUCCESS None ''now'' sample_store)))"
  using resolver_keeps_acyclic [OF sample_store_wf sample_store_acyclic, of "''c''" "''b''" D_STRICT_SUCCESS None "''now''"]
  by simp

text \<open>
  C25: what completing a task does to its dependents: exactly the \<open>PENDING\<close> dependents all of whose
  dependencies are met become \<open>READY\<close>; every other task and every other table is unchanged.
\<close>

theorem resolve_downstream_exact:
  assumes "store_wf s" and "resolve_downstream_tasks c s = (ready, s')"
  shows "get_task s' tid =
      (case get_task s tid of
         None \<Rightarrow> None
       | Some t \<Rightarrow> Some (if t_status t = T_PENDING \<and> (tid, c) \<in> dep_edges s
             \<and> fst (are_dependencies_satisfied s tid) then t\<lparr>t_status := T_READY\<rparr> else t))
    \<and> s'\<lparr>s_tasks := s_tasks s\<rparr> = s"
proof (cases "get_task s tid")
  case None
  then show ?thesis
    using resolve_downstream_loop_effect [OF assms(1), of "get_dependents_for_task s c" ready s'] assms(2)
    by (simp add: resolve_downstream_tasks_def)
next
  case (Some t)
  moreover have "t_id t = tid" using tasks_tbl.key_get [OF assms(1) Some] .
  ultimately show ?thesis
    using resolve_downstream_loop_effect [OF assms(1), of "get_dependents_for_task s c" ready s'] assms(2)
    by (simp add: resolve_downstream_tasks_def dependents_of_set promoted_def)
qed

theorem resolve_downstream_exact_witness:
  "get_task (snd (resolve_downstream_tasks ''a'' sample_store)) ''b''
    = Some (sample_task ''b'' T_PENDING\<lparr>t_status := T_READY\<rparr>)"
proof -
  have "fst (are_dependencies_satisfied sample_store ''b'')" by code_simp
  then show ?thesis
    using resolve_downstream_exact [OF sample_store_wf, of "''a''" "fst (resolve_downstream_tasks ''a'' sample_store)"
        "snd (resolve_downstream_tasks ''a'' sample_store)" "''b''"]
    by (simp add: sample_store_get sample_store_edges sample_task_def)
qed



text \<open>
  The generated dependency identifier keeps only eight characters of each task identifier, so
  a second prerequisite with the same eight characters silently drops the first edge.
\<close>

theorem default_id_collision_drops_edge:
  assumes "store_wf s" and "p \<noteq> p'" and "take 8 p = take 8 p'"
    and "resolver_add_dependency a p ty None now s = (Inr d, s1)"
    and "resolver_add_dependency a p' ty' None now' s1 = (Inr d', s2)"
  shows "(a, p) \<in> dep_edges s1 \<and> (a, p) \<notin> dep_edges s2"
proof -
  note add = resolver_add_dependency_Inr [OF assms(4)] and add' = resolver_add_dependency_Inr [OF assms(5)]
  have wf1: "store_wf s1" using store_wf_resolver_add_dependency [OF assms(1)] assms(4) by (metis snd_conv)
  have ids: "d_id d = d_id d'" using add(2) add'(2) assms(3) by (simp add: default_dependency_id_def)
  have vals1: "set (dict_values (s_dependencies s1)) = insert d {v \<in> set (dict_values (s_dependencies s)).
      \<not> (d_dependent_task_id v = a \<and> d_prerequisite_task_id v = p) \<and> d_id v \<noteq> d_id d}"
    using values_store_dependency [of s d] assms(1) unfolding add(3) by (simp add: store_wf_def add(2))
  have "dep_edges s2 = insert (a, p') {(d_dependent_task_id v, d_prerequisite_task_id v) | v.
      v \<in> set (dict_values (s_dependencies s1)) \<and> d_id v \<noteq> d_id d'}"
    using dep_edges_store_dependency [of s1 d'] wf1 dep_edges_frame [OF add'(3)]
    by (simp add: store_wf_def add'(2))
  then have "(a, p) \<notin> dep_edges s2"
    unfolding vals1 using assms(2) ids by auto
  moreover have "(a, p) \<in> dep_edges s1"
    unfolding dep_edges_def vals1 by (simp add: add(2))
  ultimately show ?thesis by blast
qed

theorem default_id_collision_drops_edge_witness:
  "(''c'', ''task-0001-a'') \<in> dep_edges (snd collision_first)
    \<and> (''c'', ''task-0001-a'') \<notin> dep_edges (snd collision_second)"
proof -
  have "\<not> isl (fst collision_first)" "\<not> isl (fst collision_second)" by code_simp+
  then obtain d s1 d' s2 where "collision_first = (Inr d, s1)" "collision_second = (Inr d', s2)"
    by (metis isl_def old.sum.exhaust prod.collapse)
  then show ?thesis
    using default_id_collision_drops_edge [OF sample_store_wf, of "''task-0001-a''" "''task-0001-b''"]
    unfolding collision_first_def collision_second_def by fastforce
qed

end
