(* ===== verification/Task_Engine.thy ===== *)
theory Task_Engine
  imports Registries Dependencies
begin

text \<open>
  The task engine of \<open>core/runtime/task_engine.py\<close>: creation, queries and hierarchy, dependencies,
  assignment and cancellation, over the state of the worker registry it shares. The lemmas give the
  exact guard and effect of an assignment and what a refused operation leaves behind.
\<close>

section \<open>Operations\<close>

definition engine_get_task :: "string \<Rightarrow> store \<Rightarrow> error + task" where
  "engine_get_task tid s = (case get_task s tid of None \<Rightarrow> Inl (TaskNotFoundError tid) | Some t \<Rightarrow> Inr t)"

definition engine_list_tasks :: "string option \<Rightarrow> task_status option \<Rightarrow> store \<Rightarrow> task list" where
  "engine_list_tasks pid st s = list_tasks s pid st"

text \<open>Adding the requested dependencies one by one; the first refusal ends the loop.\<close>

fun add_dependencies_loop :: "string \<Rightarrow> string list \<Rightarrow> string \<Rightarrow> store \<Rightarrow> (error + unit) \<times> store" where
  "add_dependencies_loop tid [] now s = (Inr (), s)"
| "add_dependencies_loop tid (p # ps) now s =
     (case resolver_add_dependency tid p D_STRICT_SUCCESS None now s of
        (Inl e, s1) \<Rightarrow> (Inl e, s1)
      | (Inr _, s1) \<Rightarrow> add_dependencies_loop tid ps now s1)"

definition create_task ::
  "string \<Rightarrow> string \<Rightarrow> string \<Rightarrow> string option \<Rightarrow> int \<Rightarrow> risk_level \<Rightarrow> string list \<Rightarrow> pyval list \<Rightarrow> pyval list \<Rightarrow>
    int \<Rightarrow> string option \<Rightarrow> pydict \<Rightarrow> string \<Rightarrow> string \<Rightarrow> store \<Rightarrow> (error + task) \<times> store" where
  "create_task pid title objective parent priority risk deps criteria ctx_refs max_attempts tid metadata nid now s =
     (case get_project s pid of
        None \<Rightarrow> (Inl (ProjectNotFoundError pid), s)
      | Some _ \<Rightarrow>
          if given parent \<and> get_task s (the parent) = None then (Inl (TaskNotFoundError (the parent)), s)
          else
            let tid' = or_else tid nid;
                t = \<lparr>t_id = tid', t_project_id = pid, t_title = title, t_objective = objective,
                  t_parent_task_id = parent, t_status = (if deps = [] then T_READY else T_PENDING),
                  t_priority = priority, t_risk = risk, t_assigned_worker = None, t_dependencies = [],
                  t_success_criteria = criteria, t_context_references = ctx_refs, t_artifacts = [],
                  t_attempts = 0, t_max_attempts = max_attempts, t_metadata = metadata, t_created_at = now,
                  t_started_at = None, t_completed_at = None\<rparr>;
                s1 = save_task t s
            in (case add_dependencies_loop tid' deps now s1 of
                 (Inl e, s2) \<Rightarrow> (Inl e, s2)
               | (Inr _, s2) \<Rightarrow>
                   let s3 = (if deps \<noteq> [] \<and> fst (are_dependencies_satisfied s2 tid')
                             then save_task (t\<lparr>t_status := T_READY\<rparr>) s2 else s2)
                   in (engine_get_task tid' s3, s3)))"

definition get_child_tasks :: "string \<Rightarrow> store \<Rightarrow> error + task list" where
  "get_child_tasks parent s =
     (case engine_get_task parent s of Inl e \<Rightarrow> Inl e | Inr _ \<Rightarrow> Inr (get_tasks_by_parent s parent))"

text \<open>
  The recursion of \<open>get_task_hierarchy\<close> need not end: nothing keeps the parent links free of cycles.
  \<open>None\<close> stands for a recursion deeper than the fuel.
\<close>

datatype task_tree = Task_Tree task "task_tree list"

fun build_tree :: "nat \<Rightarrow> store \<Rightarrow> task \<Rightarrow> task_tree option" where
  "build_tree 0 s t = None"
| "build_tree (Suc n) s t =
     map_option (Task_Tree t) (those (map (build_tree n s) (get_tasks_by_parent s (t_id t))))"

definition get_task_hierarchy :: "nat \<Rightarrow> string \<Rightarrow> store \<Rightarrow> error + task_tree option" where
  "get_task_hierarchy fuel root s =
     (case engine_get_task root s of Inl e \<Rightarrow> Inl e | Inr t \<Rightarrow> Inr (build_tree fuel s t))"

definition engine_add_dependency ::
  "string \<Rightarrow> string \<Rightarrow> dependency_type \<Rightarrow> string \<Rightarrow> store \<Rightarrow> (error + unit) \<times> store" where
  "engine_add_dependency dependent prereq ty now s =
     (case engine_get_task dependent s of
        Inl e \<Rightarrow> (Inl e, s)
      | Inr _ \<Rightarrow>
          (case engine_get_task prereq s of
             Inl e \<Rightarrow> (Inl e, s)
           | Inr _ \<Rightarrow>
               (case resolver_add_dependency dependent prereq ty None now s of
                  (Inl e, s1) \<Rightarrow> (Inl e, s1)
                | (Inr _, s1) \<Rightarrow>
                    (case engine_get_task dependent s1 of
                       Inl e \<Rightarrow> (Inl e, s1)
                     | Inr t \<Rightarrow>
                         if \<not> fst (are_dependencies_satisfied s1 dependent) \<and> t_status t = T_READY
                         then (Inr (), save_task (t\<lparr>t_status := T_PENDING\<rparr>) s1)
                         else (Inr (), s1)))))"

text \<open>
  The part of \<open>assign_task\<close> from the check for \<open>READY\<close> on, for the task as it is after a retrying task
  was made ready again. Only a \<open>WorkerNotFoundError\<close> of the instance check is swallowed.
\<close>

definition is_worker_not_found :: "error \<Rightarrow> bool" where
  "is_worker_not_found e = (case e of WorkerNotFoundError _ \<Rightarrow> True | _ \<Rightarrow> False)"

definition validate_with_instance :: "string \<Rightarrow> task \<Rightarrow> string \<Rightarrow> registry \<Rightarrow> (error + unit) \<times> registry" where
  "validate_with_instance wid t now r =
     (case get_worker_instance wid now r of
        (Inl e, r1) \<Rightarrow> (if is_worker_not_found e then Inr () else Inl e, r1)
      | (Inr wi, r1) \<Rightarrow>
          (case wi_validate wi t of
             None \<Rightarrow> (Inr (), r1)
           | Some e \<Rightarrow> (if is_worker_not_found e then Inr () else Inl e, r1)))"

definition assign_ready :: "task \<Rightarrow> string \<Rightarrow> string \<Rightarrow> registry \<Rightarrow> (error + task \<times> worker) \<times> registry" where
  "assign_ready t wid now r =
     (if t_status t \<noteq> T_READY then
        (Inl (InvalidTaskTransitionError (t_id t) (task_status_value (t_status t)) ''ASSIGNED''
           (Some (''Task must be in READY state before assignment, current is '' @ task_status_value (t_status t)))), r)
      else (case validate_task_readiness t (r_store r) of
        Inl e \<Rightarrow> (Inl e, r)
      | Inr _ \<Rightarrow>
          (case registry_get_worker wid r of
             Inl e \<Rightarrow> (Inl e, r)
           | Inr w \<Rightarrow>
               if w_status w \<noteq> W_IDLE then (Inl (WorkerBusyError wid (or_else (w_active_task_id w) ''unknown'')), r)
               else (case validate_with_instance wid t now r of
                 (Inl e, r1) \<Rightarrow> (Inl e, r1)
               | (Inr _, r1) \<Rightarrow>
                   (case task_transition t T_ASSIGNED None now of
                      Inl e \<Rightarrow> (Inl e, r1)
                    | Inr t1 \<Rightarrow>
                        let t2 = t1\<lparr>t_assigned_worker := Some wid\<rparr>;
                            r2 = put_store (save_task t2 (r_store r1)) r1
                        in (case registry_update_worker_status wid W_ASSIGNED (Some (t_id t2)) now r2 of
                             (Inl e, r3) \<Rightarrow> (Inl e, r3)
                           | (Inr w', r3) \<Rightarrow> (Inr (t2, w'), r3)))))))"

definition assign_task :: "string \<Rightarrow> string \<Rightarrow> string \<Rightarrow> registry \<Rightarrow> (error + task \<times> worker) \<times> registry" where
  "assign_task tid wid now r =
     (case engine_get_task tid (r_store r) of
        Inl e \<Rightarrow> (Inl e, r)
      | Inr t \<Rightarrow>
          if t_status t = T_COMPLETED then (Inl (TaskAlreadyCompletedError tid), r)
          else if t_status t = T_ASSIGNED then
            if t_assigned_worker t = Some wid then
              (case registry_get_worker wid r of Inl e \<Rightarrow> (Inl e, r) | Inr w \<Rightarrow> (Inr (t, w), r))
            else (Inl (TaskAlreadyAssignedError tid (or_else (t_assigned_worker t) ''unknown'')), r)
          else if t_status t = T_RETRYING then
            (case task_transition t T_READY None now of
               Inl e \<Rightarrow> (Inl e, r)
             | Inr t1 \<Rightarrow> assign_ready t1 wid now (put_store (save_task t1 (r_store r)) r))
          else assign_ready t wid now r)"

text \<open>
  Freeing the worker of a cancelled task. The tuple \<open>(WorkerStatus.ASSIGNED, WorkerStatus.BUSY)\<close> is
  built whenever the active task differs, and \<open>WorkerStatus\<close> has no member \<open>BUSY\<close>, so that branch
  raises; a missing worker is ignored.
\<close>

definition cancel_free_worker :: "task \<Rightarrow> string \<Rightarrow> registry \<Rightarrow> (error + unit) \<times> registry" where
  "cancel_free_worker t now r =
     (if \<not> given (t_assigned_worker t) then (Inr (), r)
      else let wid = the (t_assigned_worker t) in
        (case registry_get_worker wid r of
          Inl e \<Rightarrow> (if is_worker_not_found e then Inr () else Inl e, r)
        | Inr w \<Rightarrow>
            if w_active_task_id w = Some (t_id t) then
              (case registry_update_worker_status wid W_IDLE None now r of
                 (Inl e, r1) \<Rightarrow> (if is_worker_not_found e then Inr () else Inl e, r1)
               | (Inr _, r1) \<Rightarrow> (Inr (), r1))
            else (Inl (AttributeError ''BUSY''), r)))"

definition cancel_task :: "string \<Rightarrow> string \<Rightarrow> string \<Rightarrow> registry \<Rightarrow> (error + task) \<times> registry" where
  "cancel_task tid reason now r =
     (case engine_get_task tid (r_store r) of
        Inl e \<Rightarrow> (Inl e, r)
      | Inr t \<Rightarrow>
          (case cancel_free_worker t now r of
             (Inl e, r1) \<Rightarrow> (Inl e, r1)
           | (Inr _, r1) \<Rightarrow>
               (case task_transition t T_CANCELLED (Some reason) now of
                  Inl e \<Rightarrow> (Inl e, r1)
                | Inr t' \<Rightarrow> (Inr t', put_store (save_task t' (r_store r1)) r1))))"


section \<open>Guards and effects\<close>

lemma engine_get_task_cases:
  "engine_get_task tid s = Inr t \<longleftrightarrow> get_task s tid = Some t"
  "engine_get_task tid s = Inl e \<longleftrightarrow> get_task s tid = None \<and> e = TaskNotFoundError tid"
  by (auto simp: engine_get_task_def split: option.splits)

lemma registry_get_worker_cases:
  "registry_get_worker wid r = Inr w \<longleftrightarrow> get_worker (r_store r) wid = Some w"
  "registry_get_worker wid r = Inl e \<longleftrightarrow> get_worker (r_store r) wid = None \<and> e = WorkerNotFoundError wid"
  by (auto simp: registry_get_worker_def split: option.splits)

lemma r_store_get_worker_instance [simp]: "r_store (snd (get_worker_instance wid now r)) = r_store r"
  by (auto simp: get_worker_instance_def split: option.splits sum.splits)

lemma r_store_validate_with_instance: "validate_with_instance wid t now r = (res, r1) \<Longrightarrow> r_store r1 = r_store r"
  using r_store_get_worker_instance [of wid now r]
  by (cases "get_worker_instance wid now r") (auto simp: validate_with_instance_def split: sum.splits option.splits)

lemma readiness_iff:
  "validate_task_readiness t s = Inr () \<longleftrightarrow> fst (are_dependencies_satisfied s (t_id t))"
  by (auto simp: validate_task_readiness_def split: prod.splits)

lemma save_task_worker [simp]: "get_worker (save_task t s) wid = get_worker s wid"
  by (simp add: save_task_def get_worker_def)

lemma save_worker_task [simp]: "get_task (save_worker w s) tid = get_task s tid"
  by (simp add: save_worker_def get_task_def)

lemma store_dependency_get [simp]:
  "get_task (store_dependency d s) tid = get_task s tid" "get_worker (store_dependency d s) wid = get_worker s wid"
  "get_project (store_dependency d s) pid = get_project s pid"
  by (simp_all add: store_dependency_def Let_def get_defs)

text \<open>The assignment of a ready task: when it succeeds, and the state it produces.\<close>

definition assignable :: "task \<Rightarrow> string \<Rightarrow> store \<Rightarrow> bool" where
  "assignable t wid s \<longleftrightarrow> t_status t = T_READY \<and> fst (are_dependencies_satisfied s (t_id t))
     \<and> (\<exists>w. get_worker s wid = Some w \<and> w_status w = W_IDLE)"

definition assigned :: "task \<Rightarrow> string \<Rightarrow> task" where
  "assigned t wid = t\<lparr>t_status := T_ASSIGNED, t_assigned_worker := Some wid\<rparr>"

definition engaged_on :: "task \<Rightarrow> string \<Rightarrow> worker \<Rightarrow> worker" where
  "engaged_on t now w = w\<lparr>w_status := W_ASSIGNED, w_active_task_id := Some (t_id t), w_updated_at := now\<rparr>"

lemma assign_ready_refused:
  assumes "\<not> assignable t wid (r_store r)"
  shows "\<exists>e. assign_ready t wid now r = (Inl e, r)"
proof -
  consider "t_status t \<noteq> T_READY" | "t_status t = T_READY" "validate_task_readiness t (r_store r) \<noteq> Inr ()"
    | "t_status t = T_READY" "validate_task_readiness t (r_store r) = Inr ()" "get_worker (r_store r) wid = None"
    | w where "t_status t = T_READY" "validate_task_readiness t (r_store r) = Inr ()"
        "get_worker (r_store r) wid = Some w" "w_status w \<noteq> W_IDLE"
    using assms unfolding assignable_def readiness_iff by (cases "get_worker (r_store r) wid") blast+
  then show ?thesis
  proof cases
    case 2
    then show ?thesis by (cases "validate_task_readiness t (r_store r)") (simp_all add: assign_ready_def)
  qed (simp_all add: assign_ready_def registry_get_worker_def)
qed

lemma assign_ready_accepted:
  assumes "assignable t wid (r_store r)" and "get_worker (r_store r) wid = Some w"
    and "validate_with_instance wid t now r = (res, r1)"
  shows "assign_ready t wid now r =
    (case res of
       Inl e \<Rightarrow> (Inl e, r1)
     | Inr _ \<Rightarrow> (Inr (assigned t wid, engaged_on t now w),
         put_store (save_worker (engaged_on t now w) (save_task (assigned t wid) (r_store r))) r1))"
proof -
  have "task_transition t T_ASSIGNED None now = Inr (t\<lparr>t_status := T_ASSIGNED\<rparr>)"
    using assms(1) by (simp add: assignable_def task_transition_def task_can_transition_def Let_def)
  moreover have "validate_task_readiness t (r_store r) = Inr ()"
    using assms(1) by (simp add: assignable_def readiness_iff)
  ultimately show ?thesis
    using assms r_store_validate_with_instance [OF assms(3)]
    by (cases res)
      (auto simp: assign_ready_def assignable_def registry_get_worker_def Let_def put_store_def assigned_def
        engaged_on_def registry_update_worker_status_def worker_transition_def worker_can_transition_def)
qed

lemma assign_ready_Inl: "assign_ready t wid now r = (Inl e, r') \<Longrightarrow> r_store r' = r_store r"
proof (cases "assignable t wid (r_store r)")
  case True
  then obtain w where w: "get_worker (r_store r) wid = Some w" by (auto simp: assignable_def)
  obtain res r1 where v: "validate_with_instance wid t now r = (res, r1)" by fastforce
  assume "assign_ready t wid now r = (Inl e, r')"
  then show ?thesis
    unfolding assign_ready_accepted [OF True w v] r_store_validate_with_instance [OF v, symmetric]
    by (cases res) simp_all
next
  case False
  assume "assign_ready t wid now r = (Inl e, r')"
  with assign_ready_refused [OF False, of now] show ?thesis by auto
qed

lemma assign_ready_Inr:
  assumes "assign_ready t wid now r = (Inr (t', w'), r')"
  shows "assignable t wid (r_store r) \<and> t' = assigned t wid
    \<and> (\<exists>w. get_worker (r_store r) wid = Some w \<and> w' = engaged_on t now w)
    \<and> r_store r' = save_worker w' (save_task t' (r_store r))"
proof (cases "assignable t wid (r_store r)")
  case True
  then obtain w where w: "get_worker (r_store r) wid = Some w" by (auto simp: assignable_def)
  obtain res r1 where v: "validate_with_instance wid t now r = (res, r1)" by fastforce
  show ?thesis
    using assms True w unfolding assign_ready_accepted [OF True w v] by (cases res) auto
next
  case False
  with assms assign_ready_refused [OF False, of now] show ?thesis by auto
qed

text \<open>Retrying tasks are first made ready, and stay so if the assignment is refused afterwards.\<close>

lemma task_transition_retry:
  "t_status t = T_RETRYING \<Longrightarrow> task_transition t T_READY None now = Inr (t\<lparr>t_status := T_READY\<rparr>)"
  by (simp add: task_transition_def task_can_transition_def Let_def)

lemma assign_task_cases:
  assumes "get_task (r_store r) tid = Some t" and "t_status t \<notin> {T_COMPLETED, T_ASSIGNED}"
  shows "assign_task tid wid now r =
    (if t_status t = T_RETRYING
     then assign_ready (t\<lparr>t_status := T_READY\<rparr>) wid now (put_store (save_task (t\<lparr>t_status := T_READY\<rparr>) (r_store r)) r)
     else assign_ready t wid now r)"
  using assms by (simp add: assign_task_def engine_get_task_def task_transition_retry)

section \<open>Who works on what\<close>

text \<open>
  Every task that is assigned or running has a worker that is engaged on exactly this task.
\<close>

definition task_busy :: "task \<Rightarrow> bool" where
  "task_busy t \<longleftrightarrow> t_status t \<in> {T_ASSIGNED, T_RUNNING}"

definition assignment_ok :: "store \<Rightarrow> string \<Rightarrow> task \<Rightarrow> bool" where
  "assignment_ok s tid t \<longleftrightarrow> (\<exists>wid w. t_assigned_worker t = Some wid \<and> get_worker s wid = Some w
     \<and> w_active_task_id w = Some tid \<and> worker_engaged (w_status w))"

definition assignments_exclusive :: "store \<Rightarrow> bool" where
  "assignments_exclusive s \<longleftrightarrow> (\<forall>tid t. get_task s tid = Some t \<longrightarrow> task_busy t \<longrightarrow> assignment_ok s tid t)"

lemma assignments_exclusiveD:
  "assignments_exclusive s \<Longrightarrow> get_task s tid = Some t \<Longrightarrow> task_busy t \<Longrightarrow> assignment_ok s tid t"
  by (simp add: assignments_exclusive_def)

lemma assignments_exclusive_empty [simp]: "assignments_exclusive empty_store"
  by (simp add: assignments_exclusive_def get_task_def empty_store_def)

text \<open>An operation that leaves the workers alone and creates no busy task keeps the invariant.\<close>

definition quiet :: "store \<Rightarrow> store \<Rightarrow> bool" where
  "quiet s s' \<longleftrightarrow> (\<forall>wid. get_worker s' wid = get_worker s wid)
     \<and> (\<forall>x t'. get_task s' x = Some t' \<longrightarrow> task_busy t' \<longrightarrow>
          (\<exists>t. get_task s x = Some t \<and> task_busy t \<and> t_assigned_worker t = t_assigned_worker t'))"

lemma quiet_refl [simp]: "quiet s s"
  by (auto simp: quiet_def)

lemma quiet_trans: "quiet s1 s2 \<Longrightarrow> quiet s2 s3 \<Longrightarrow> quiet s1 s3"
  unfolding quiet_def by metis

lemma quiet_exclusive: "quiet s s' \<Longrightarrow> assignments_exclusive s \<Longrightarrow> assignments_exclusive s'"
  unfolding quiet_def assignments_exclusive_def assignment_ok_def by metis

lemma quiet_save_task:
  assumes "\<not> task_busy t \<or> (\<exists>t0. get_task s (t_id t) = Some t0 \<and> task_busy t0 \<and> t_assigned_worker t0 = t_assigned_worker t)"
  shows "quiet s (save_task t s)"
  using assms by (auto simp: quiet_def tasks_tbl.get_save)

lemma quiet_resolver_add_dependency:
  assumes "store_wf s"
  shows "quiet s (snd (resolver_add_dependency a p ty did now s))"
proof -
  have dep: "quiet s (store_dependency d s)" for d by (auto simp: quiet_def)
  have "quiet (store_dependency d s) (save_task (t\<lparr>t_dependencies := ds\<rparr>) (store_dependency d s))"
    if "get_task (store_dependency d s) a = Some t" for d t ds
    using tasks_tbl.key_get [OF store_wf_store_dependency [OF assms] that] that
    by (intro quiet_save_task) (auto simp: task_busy_def)
  with dep have upd: "quiet s (save_task (t\<lparr>t_dependencies := ds\<rparr>) (store_dependency d s))"
    if "get_task (store_dependency d s) a = Some t" for d t ds
    using that by (blast intro: quiet_trans)
  show ?thesis
    unfolding resolver_add_dependency_def Let_def
    by (simp add: dep upd split: option.splits del: store_dependency_get)
qed

lemma add_dependencies_loop_quiet:
  "store_wf s \<Longrightarrow> quiet s (snd (add_dependencies_loop tid ps now s)) \<and> store_wf (snd (add_dependencies_loop tid ps now s))"
proof (induction ps arbitrary: s)
  case (Cons p ps)
  obtain res s1 where 1: "resolver_add_dependency tid p D_STRICT_SUCCESS None now s = (res, s1)" by fastforce
  have "quiet s s1" "store_wf s1"
    using quiet_resolver_add_dependency [OF Cons.prems, of tid p D_STRICT_SUCCESS None now]
      store_wf_resolver_add_dependency [OF Cons.prems, of tid p D_STRICT_SUCCESS None now] 1 by simp_all
  then show ?case using Cons.IH [of s1] 1 quiet_trans by (auto split: sum.splits)
qed simp

lemma create_task_quiet:
  assumes "store_wf s"
  shows "quiet s (snd (create_task pid title obj par prio risk deps crit refs maxa tid meta nid now s))
    \<and> store_wf (snd (create_task pid title obj par prio risk deps crit refs maxa tid meta nid now s))"
proof -
  have save: "quiet s0 (save_task t s0)" if "t_status t \<in> {T_READY, T_PENDING}" for t s0
    using that by (intro quiet_save_task) (auto simp: task_busy_def)
  have loop: "quiet s s2 \<and> store_wf s2"
    if "add_dependencies_loop tid' deps now (save_task t s) = (res, s2)" "t_status t \<in> {T_READY, T_PENDING}" for t tid' res s2
    using add_dependencies_loop_quiet [of "save_task t s" tid' deps now] quiet_trans [OF save [OF that(2), of s]] assms
    by (simp add: that(1))
  have final: "quiet s (save_task (t\<lparr>t_status := T_READY\<rparr>) s2) \<and> store_wf (save_task (t\<lparr>t_status := T_READY\<rparr>) s2)"
    if "quiet s s2" "store_wf s2" for t s2
    using quiet_trans [OF that(1) save [of "t\<lparr>t_status := T_READY\<rparr>" s2]] that(2) by simp
  show ?thesis
  proof (cases "get_project s pid = None \<or> given par \<and> get_task s (the par) = None")
    case True
    then show ?thesis using assms by (auto simp: create_task_def split: option.splits)
  next
    case False
    let ?t = "\<lparr>t_id = or_else tid nid, t_project_id = pid, t_title = title, t_objective = obj,
                  t_parent_task_id = par, t_status = (if deps = [] then T_READY else T_PENDING),
                  t_priority = prio, t_risk = risk, t_assigned_worker = None, t_dependencies = [],
                  t_success_criteria = crit, t_context_references = refs, t_artifacts = [],
                  t_attempts = 0, t_max_attempts = maxa, t_metadata = meta, t_created_at = now,
                  t_started_at = None, t_completed_at = None\<rparr>"
    obtain res s2 where r: "add_dependencies_loop (or_else tid nid) deps now (save_task ?t s) = (res, s2)" by fastforce
    have "quiet s s2 \<and> store_wf s2" using loop [OF r] by simp
    with final [of s2 ?t] False r show ?thesis
      by (cases res) (auto simp: create_task_def Let_def)
  qed
qed

lemma engine_add_dependency_quiet:
  assumes "store_wf s"
  shows "quiet s (snd (engine_add_dependency a p ty now s)) \<and> store_wf (snd (engine_add_dependency a p ty now s))"
proof (cases "get_task s a = None \<or> get_task s p = None")
  case True
  then show ?thesis using assms by (auto simp: engine_add_dependency_def engine_get_task_def split: option.splits)
next
  case False
  obtain res s1 where r: "resolver_add_dependency a p ty None now s = (res, s1)" by fastforce
  have q: "quiet s s1" "store_wf s1"
    using quiet_resolver_add_dependency [OF assms, of a p ty None now]
      store_wf_resolver_add_dependency [OF assms, of a p ty None now] r by simp_all
  have "quiet s1 (save_task (t\<lparr>t_status := T_PENDING\<rparr>) s1)" for t
    by (rule quiet_save_task) (simp add: task_busy_def)
  then have "quiet s (save_task (t\<lparr>t_status := T_PENDING\<rparr>) s1)" for t
    using quiet_trans [OF q(1)] by blast
  with False q r show ?thesis
    by (auto simp: engine_add_dependency_def engine_get_task_def split: sum.splits option.splits)
qed

text \<open>The store after an accepted assignment, and after a refused one.\<close>

lemma assign_task_store:
  assumes "store_wf (r_store r)" and "assign_task tid wid now r = (res, r')"
  shows "(case res of
      Inr (t', w') \<Rightarrow>
        (\<exists>t. get_task (r_store r) tid = Some t \<and>
          (t_status t = T_ASSIGNED \<and> t_assigned_worker t = Some wid \<and> t' = t
             \<and> get_worker (r_store r) wid = Some w' \<and> r_store r' = r_store r
           \<or> t_status t \<in> {T_READY, T_RETRYING} \<and> fst (are_dependencies_satisfied (r_store r) tid)
             \<and> (\<exists>w. get_worker (r_store r) wid = Some w \<and> w_status w = W_IDLE \<and> w' = engaged_on t now w)
             \<and> t' = assigned t wid
             \<and> (\<exists>s1. (s1 = r_store r \<or> s1 = save_task (t\<lparr>t_status := T_READY\<rparr>) (r_store r))
                 \<and> r_store r' = save_worker w' (save_task t' s1))))
    | Inl e \<Rightarrow> r_store r' = r_store r
        \<or> (\<exists>t. get_task (r_store r) tid = Some t \<and> t_status t = T_RETRYING
             \<and> r_store r' = save_task (t\<lparr>t_status := T_READY\<rparr>) (r_store r)))"
proof (cases "get_task (r_store r) tid")
  case None
  with assms(2) show ?thesis by (auto simp: assign_task_def engine_get_task_def)
next
  case (Some t)
  have id: "t_id t = tid" using tasks_tbl.key_get [OF assms(1) Some] .
  let ?t1 = "t\<lparr>t_status := T_READY\<rparr>"
  let ?r1 = "put_store (save_task ?t1 (r_store r)) r"
  have sat: "fst (are_dependencies_satisfied (save_task ?t1 (r_store r)) tid)
      = fst (are_dependencies_satisfied (r_store r) tid)" if "t_status t = T_RETRYING"
    using that Some id by (intro satisfied_open [of _ _ t]) simp_all
  consider "t_status t = T_COMPLETED" | "t_status t = T_ASSIGNED" | "t_status t = T_RETRYING"
    | "t_status t \<notin> {T_COMPLETED, T_ASSIGNED, T_RETRYING}" by blast
  then show ?thesis
  proof cases
    case 2
    with assms(2) Some show ?thesis
      by (auto simp: assign_task_def engine_get_task_def registry_get_worker_def split: option.splits if_splits)
  next
    case 3
    then have go: "assign_task tid wid now r = assign_ready ?t1 wid now ?r1"
      using assign_task_cases [OF Some] by simp
    show ?thesis
    proof (cases res)
      case (Inl e)
      with go assms(2) have "assign_ready ?t1 wid now ?r1 = (Inl e, r')" by simp
      from assign_ready_Inl [OF this] Inl 3 Some show ?thesis by auto
    next
      case (Inr p)
      obtain t' w' where p: "p = (t', w')" by (cases p)
      from assign_ready_Inr [of ?t1 wid now ?r1 t' w' r'] go assms(2) Inr p
      have *: "assignable ?t1 wid (save_task ?t1 (r_store r))" "t' = assigned ?t1 wid"
        "\<exists>w. get_worker (r_store r) wid = Some w \<and> w' = engaged_on ?t1 now w"
        "r_store r' = save_worker w' (save_task t' (save_task ?t1 (r_store r)))" by auto
      have "assigned ?t1 wid = assigned t wid" "engaged_on ?t1 now w = engaged_on t now w" for w
        by (simp_all add: assigned_def engaged_on_def)
      with * show ?thesis
        using 3 Some id sat Inr p by (auto simp: assignable_def)
    qed
  next
    case 4
    then have go: "assign_task tid wid now r = assign_ready t wid now r"
      using assign_task_cases [OF Some] by simp
    show ?thesis
    proof (cases res)
      case (Inl e)
      with go assms(2) have "assign_ready t wid now r = (Inl e, r')" by simp
      from assign_ready_Inl [OF this] Inl show ?thesis by auto
    next
      case (Inr p)
      obtain t' w' where p: "p = (t', w')" by (cases p)
      from assign_ready_Inr [of t wid now r t' w' r'] go assms(2) Inr p Some id show ?thesis
        by (auto simp: assignable_def)
    qed
  qed (use assms(2) Some in \<open>auto simp: assign_task_def engine_get_task_def\<close>)
qed

lemma assign_task_wf:
  assumes "store_wf (r_store r)" and "assign_task tid wid now r = (res, r')"
  shows "store_wf (r_store r')"
  using assign_task_store [OF assms] assms(1) by (auto split: sum.splits)

lemma assign_task_exclusive:
  assumes wf: "store_wf (r_store r)" and ex: "assignments_exclusive (r_store r)"
    and a: "assign_task tid wid now r = (res, r')"
  shows "assignments_exclusive (r_store r')"
proof -
  have quiet: "assignments_exclusive (save_task (t\<lparr>t_status := T_READY\<rparr>) (r_store r))" for t
    by (rule quiet_exclusive [OF _ ex]) (rule quiet_save_task, simp add: task_busy_def)
  show ?thesis
  proof (cases res)
    case (Inl e)
    with assign_task_store [OF wf a] ex quiet show ?thesis by auto
  next
    case (Inr p)
    obtain t' w' where p: "p = (t', w')" by (cases p)
    show ?thesis
    proof (cases "r_store r' = r_store r")
      case False
      with assign_task_store [OF wf a] Inr p obtain t w s1 where
        *: "get_task (r_store r) tid = Some t" "get_worker (r_store r) wid = Some w" "w_status w = W_IDLE"
        "w' = engaged_on t now w" "t' = assigned t wid"
        "s1 = r_store r \<or> s1 = save_task (t\<lparr>t_status := T_READY\<rparr>) (r_store r)"
        "r_store r' = save_worker w' (save_task t' s1)" by auto
      have ids: "t_id t' = tid" "w_id w' = wid"
        using tasks_tbl.key_get [OF wf *(1)] workers_tbl.key_get [OF wf *(2)] *(4,5)
        by (simp_all add: assigned_def engaged_on_def)
      have ex1: "assignments_exclusive s1" using *(6) ex quiet by blast
      have w1: "get_worker s1 wid = Some w" using *(2,6) by auto
      show ?thesis unfolding assignments_exclusive_def
      proof (intro allI impI)
        fix x u assume u: "get_task (r_store r') x = Some u" "task_busy u"
        show "assignment_ok (r_store r') x u"
        proof (cases "x = tid")
          case True
          with u ids *(7) have "u = t'" by (simp add: tasks_tbl.get_save)
          moreover have "get_worker (r_store r') wid = Some w'" using ids *(7) by (simp add: workers_tbl.get_save)
          ultimately show ?thesis
            using True *(4,5) tasks_tbl.key_get [OF wf *(1)]
            by (simp add: assignment_ok_def assigned_def engaged_on_def worker_engaged_def)
        next
          case False
          with u ids *(7) have u1: "get_task s1 x = Some u" by (simp add: tasks_tbl.get_save)
          from assignments_exclusiveD [OF ex1 this u(2)] obtain y v where
            y: "t_assigned_worker u = Some y" "get_worker s1 y = Some v" "w_active_task_id v = Some x"
            "worker_engaged (w_status v)"
            by (auto simp: assignment_ok_def)
          moreover have "y \<noteq> wid" using y(2,4) w1 *(3) by (auto simp: worker_engaged_def)
          ultimately show ?thesis
            using ids *(7) by (simp add: assignment_ok_def workers_tbl.get_save)
        qed
      qed
    qed (use ex in simp)
  qed
qed

lemma cancel_free_worker_store:
  assumes "store_wf (r_store r)" and "cancel_free_worker t now r = (res, r')"
  shows "r_store r' = r_store r \<or>
    (\<exists>wid w w'. t_assigned_worker t = Some wid \<and> get_worker (r_store r) wid = Some w \<and> w_id w' = wid
       \<and> w_active_task_id w = Some (t_id t) \<and> res = Inr () \<and> r_store r' = save_worker w' (r_store r))"
proof (cases "given (t_assigned_worker t) \<and> (\<exists>w. get_worker (r_store r) (the (t_assigned_worker t)) = Some w
    \<and> w_active_task_id w = Some (t_id t))")
  case False
  then show ?thesis using assms(2)
    by (auto simp: cancel_free_worker_def Let_def registry_get_worker_def split: option.splits if_splits)
next
  case True
  then obtain wid w where w: "t_assigned_worker t = Some wid" "get_worker (r_store r) wid = Some w"
    "w_active_task_id w = Some (t_id t)" "given (t_assigned_worker t)" by (auto simp: given_def)
  have "w_id w = wid" using workers_tbl.key_get [OF assms(1) w(2)] .
  with w assms(2) show ?thesis
    by (cases "worker_transition w W_IDLE None now")
      (auto simp: cancel_free_worker_def registry_get_worker_def registry_update_worker_status_def put_store_def
        dest: worker_transition_Inr(2) split: if_splits)
qed

lemma cancel_task_exclusive:
  assumes wf: "store_wf (r_store r)" and ex: "assignments_exclusive (r_store r)"
    and c: "cancel_task tid reason now r = (res, r')"
  shows "store_wf (r_store r') \<and> assignments_exclusive (r_store r')"
proof (cases "get_task (r_store r) tid")
  case None
  with c wf ex show ?thesis by (auto simp: cancel_task_def engine_get_task_def)
next
  case (Some t)
  have id: "t_id t = tid" using tasks_tbl.key_get [OF wf Some] .
  obtain fres r1 where f: "cancel_free_worker t now r = (fres, r1)" by fastforce
  have wf1: "store_wf (r_store r1)" using cancel_free_worker_store [OF wf f] wf by auto
  have tasks1: "get_task (r_store r1) x = get_task (r_store r) x" for x
    using cancel_free_worker_store [OF wf f] by auto
  \<comment> \<open>after freeing the worker only the cancelled task may have lost it\<close>
  have ok1: "assignment_ok (r_store r1) x u" if "get_task (r_store r) x = Some u" "task_busy u" "x \<noteq> tid" for x u
    using cancel_free_worker_store [OF wf f] assignments_exclusiveD [OF ex that(1,2)] that(3) id
    by (auto simp: assignment_ok_def workers_tbl.get_save split: if_splits)
  consider (err) e where "fres = Inl e" "r' = r1"
    | (refused) e where "fres = Inr ()" "task_transition t T_CANCELLED (Some reason) now = Inl e" "r' = r1"
    | (cancelled) t' where "fres = Inr ()" "task_transition t T_CANCELLED (Some reason) now = Inr t'"
        "r_store r' = save_task t' (r_store r1)"
    using c Some f by (cases fres) (auto simp: cancel_task_def engine_get_task_def split: sum.splits)
  then show ?thesis
  proof cases
    case err
    then have "r_store r1 = r_store r" using cancel_free_worker_store [OF wf f] by auto
    with err ex wf show ?thesis by simp
  next
    case refused
    then have "\<not> task_busy t" by (auto simp: task_busy_def task_can_transition_def dest!: task_transition_Inl)
    then have "assignments_exclusive (r_store r1)"
      unfolding assignments_exclusive_def tasks1 using ok1 Some by (metis option.inject)
    with refused wf1 show ?thesis by simp
  next
    case cancelled
    note t' = task_transition_Inr(1,2) [OF cancelled(2)]
    then have "assignments_exclusive (r_store r')"
      unfolding assignments_exclusive_def cancelled(3) using ok1 id
      by (auto simp: tasks_tbl.get_save tasks1 task_busy_def assignment_ok_def split: if_splits)
    with cancelled wf1 show ?thesis by simp
  qed
qed

text \<open>Registering and provisioning add a worker or restore an instance; neither replaces an engaged one.\<close>

lemma fresh_worker_exclusive:
  assumes "assignments_exclusive s" and "\<And>v. get_worker s (w_id w) = Some v \<Longrightarrow> \<not> worker_engaged (w_status v)"
  shows "assignments_exclusive (save_worker w s)"
  unfolding assignments_exclusive_def
proof (intro allI impI)
  fix tid t assume "get_task (save_worker w s) tid = Some t" "task_busy t"
  with assignments_exclusiveD [OF assms(1)] have "assignment_ok s tid t" by simp
  then show "assignment_ok (save_worker w s) tid t"
    using assms(2) by (fastforce simp: assignment_ok_def workers_tbl.get_save)
qed

lemma register_worker_exclusive:
  assumes "store_wf (r_store r)" and "assignments_exclusive (r_store r)"
  shows "store_wf (r_store (snd (register_worker wi st now r)))
    \<and> assignments_exclusive (r_store (snd (register_worker wi st now r)))"
  using assms by (auto simp: register_worker_def Let_def intro: fresh_worker_exclusive)

lemma provision_worker_exclusive:
  assumes "store_wf (r_store r)" and "assignments_exclusive (r_store r)" and "honest_factories r"
  shows "store_wf (r_store (snd (provision_worker ident W_IDLE now r)))
    \<and> assignments_exclusive (r_store (snd (provision_worker ident W_IDLE now r)))
    \<and> honest_factories (snd (provision_worker ident W_IDLE now r))"
  using assms(1,3)
proof (cases rule: provision_worker_cases [of r ident now])
  case (fresh w r')
  have "assignments_exclusive (save_worker w (r_store r))"
  proof (rule fresh_worker_exclusive [OF assms(2)])
    fix v assume "get_worker (r_store r) (w_id w) = Some v"
    with provision_target_free [OF assms(1) fresh(6,7)] fresh(2) show "\<not> worker_engaged (w_status v)"
      by (auto simp: worker_engaged_def)
  qed
  with fresh assms show ?thesis by (simp add: honest_factories_def)
qed (use assms in \<open>simp_all add: honest_factories_def\<close>)

lemma r_factories_simps [simp]:
  "r_factories (put_store s r) = r_factories r" "r_factories (put_instance wid wi r) = r_factories r"
  "r_factories (snd (get_worker_instance wid now r)) = r_factories r"
  by (auto simp: put_store_def put_instance_def get_worker_instance_def split: option.splits sum.splits)

lemma r_factories_validate: "validate_with_instance wid t now r = (res, r1) \<Longrightarrow> r_factories r1 = r_factories r"
  using r_factories_simps(3) [of wid now r]
  by (cases "get_worker_instance wid now r") (auto simp: validate_with_instance_def split: sum.splits option.splits)

lemma r_factories_update_status [simp]:
  "r_factories (snd (registry_update_worker_status wid st a now r)) = r_factories r"
  by (auto simp: registry_update_worker_status_def split: sum.splits)

lemma r_factories_assign_ready [simp]: "r_factories (snd (assign_ready t wid now r)) = r_factories r"
proof (cases "assignable t wid (r_store r)")
  case True
  then obtain w where w: "get_worker (r_store r) wid = Some w" by (auto simp: assignable_def)
  obtain res r1 where v: "validate_with_instance wid t now r = (res, r1)" by fastforce
  show ?thesis
    using r_factories_validate [OF v] unfolding assign_ready_accepted [OF True w v] by (cases res) simp_all
next
  case False
  with assign_ready_refused [OF False, of now] show ?thesis by auto
qed

lemma r_factories_engine [simp]:
  "r_factories (snd (assign_task tid wid now r)) = r_factories r"
  "r_factories (snd (cancel_task tid reason now r)) = r_factories r"
  "r_factories (snd (register_worker wi st now r)) = r_factories r"
proof -
  have "r_factories (snd (cancel_free_worker t now r)) = r_factories r" for t
    using r_factories_update_status [of "the (t_assigned_worker t)" W_IDLE None now r]
    by (cases "registry_update_worker_status (the (t_assigned_worker t)) W_IDLE None now r")
      (auto simp: cancel_free_worker_def Let_def split: sum.splits)
  then show "r_factories (snd (cancel_task tid reason now r)) = r_factories r"
    unfolding cancel_task_def by (auto split: sum.splits prod.splits) (metis snd_conv)+
qed (auto simp: assign_task_def register_worker_def Let_def split: sum.splits)


lemma quiet_projects:
  "quiet s (save_project p s)" "store_wf s \<Longrightarrow> quiet s (snd (delete_project pid s))"
proof -
  show "quiet s (save_project p s)" by (auto simp: quiet_def get_defs save_project_def)
  have workers: "s_workers (fold (\<lambda>tid s. snd (delete_task tid s)) tids s0) = s_workers s0" for tids s0
    by (induction tids arbitrary: s0) (simp_all add: delete_task_def Let_def)
  show "quiet s (snd (delete_project pid s))"
    by (auto simp: quiet_def get_worker_def get_task_def delete_project_def Let_def workers
        values_tasks_fold_delete dict_simps split: if_splits)
qed

lemma project_registry_quiet:
  assumes "store_wf s"
  shows "quiet s (snd (registry_create_project resolve name root descr pid config nid now s))
      \<and> store_wf (snd (registry_create_project resolve name root descr pid config nid now s))"
    and "quiet s (snd (registry_update_project pid' name' descr' status config now s))
      \<and> store_wf (snd (registry_update_project pid' name' descr' status config now s))"
    and "quiet s (snd (registry_delete_project pid' s)) \<and> store_wf (snd (registry_delete_project pid' s))"
proof -
  show "quiet s (snd (registry_delete_project pid' s)) \<and> store_wf (snd (registry_delete_project pid' s))"
    using assms quiet_projects(2) [OF assms, of pid'] store_wf_delete_project [OF assms, of pid']
    by (cases "delete_project pid' s"; cases "registry_get_project pid' s")
      (simp_all add: registry_delete_project_def del: store_wf_delete_project)
qed (use assms in \<open>auto simp: registry_create_project_def registry_update_project_def Let_def
      quiet_projects(1) split: option.splits sum.splits\<close>)

lemma register_artifact_quiet:
  assumes "store_wf s"
  shows "quiet s (snd (register_artifact sha jp pid tid wid ty rel descr content base meta aid nid now s))
    \<and> store_wf (snd (register_artifact sha jp pid tid wid ty rel descr content base meta aid nid now s))"
proof -
  have art: "quiet s (save_artifact a s)" for a by (auto simp: quiet_def get_defs save_artifact_def)
  have "quiet s (save_task (t\<lparr>t_artifacts := as\<rparr>) (save_artifact a s))"
    if "get_task (save_artifact a s) tid = Some t" for a t as
    using tasks_tbl.key_get [OF store_wf_saves(4) [OF assms] that] that
    by (intro quiet_trans [OF art quiet_save_task]) (auto simp: task_busy_def)
  with art assms show ?thesis
    by (simp add: register_artifact_def Let_def split: option.splits)
qed


section \<open>The engine as a state machine\<close>

inductive engine_step :: "registry \<Rightarrow> registry \<Rightarrow> bool" where
  project_created: "engine_step r (put_store (snd (registry_create_project resolve name root descr opid config nid now
      (r_store r))) r)"
| project_updated: "engine_step r (put_store (snd (registry_update_project pid oname odescr status config now (r_store r))) r)"
| project_deleted: "engine_step r (put_store (snd (registry_delete_project pid (r_store r))) r)"
| artifact_registered: "engine_step r (put_store (snd (register_artifact sha jp pid tid wid ty rel descr content base meta
      aid nid now (r_store r))) r)"
| created: "engine_step r (put_store (snd (create_task pid title obj par prio risk deps crit refs maxa tid meta nid now
      (r_store r))) r)"
| depended: "engine_step r (put_store (snd (engine_add_dependency a p ty now (r_store r))) r)"
| assigned: "engine_step r (snd (assign_task tid wid now r))"
| cancelled: "engine_step r (snd (cancel_task tid reason now r))"
| registered: "engine_step r (snd (register_worker wi st now r))"
| provisioned: "engine_step r (snd (provision_worker ident W_IDLE now r))"

definition engine_ok :: "registry \<Rightarrow> bool" where
  "engine_ok r \<longleftrightarrow> store_wf (r_store r) \<and> assignments_exclusive (r_store r) \<and> honest_factories r"

lemma engine_okI:
  "engine_ok r \<Longrightarrow> store_wf (r_store r') \<Longrightarrow> assignments_exclusive (r_store r') \<Longrightarrow>
    r_factories r' = r_factories r \<Longrightarrow> engine_ok r'"
  by (simp add: engine_ok_def honest_factories_def)

lemma engine_okD:
  "engine_ok r \<Longrightarrow> store_wf (r_store r)" "engine_ok r \<Longrightarrow> assignments_exclusive (r_store r)"
  "engine_ok r \<Longrightarrow> honest_factories r"
  by (simp_all add: engine_ok_def)

lemma quiet_engine_ok: "engine_ok r \<Longrightarrow> quiet (r_store r) s \<and> store_wf s \<Longrightarrow> engine_ok (put_store s r)"
  by (rule engine_okI) (auto intro: quiet_exclusive dest: engine_okD)

lemma engine_step_ok: "engine_step r r' \<Longrightarrow> engine_ok r \<Longrightarrow> engine_ok r'"
proof (induction rule: engine_step.induct)
  case (project_created r resolve name root descr opid config nid now)
  then show ?case by (intro quiet_engine_ok project_registry_quiet engine_okD(1))
next
  case (project_updated r pid oname odescr status config now)
  then show ?case by (intro quiet_engine_ok project_registry_quiet engine_okD(1))
next
  case (project_deleted r pid)
  then show ?case by (intro quiet_engine_ok project_registry_quiet engine_okD(1))
next
  case (artifact_registered r sha jp pid tid wid ty rel descr content base meta aid nid now)
  then show ?case by (intro quiet_engine_ok register_artifact_quiet engine_okD(1))
next
  case (created r pid title obj par prio risk deps crit refs maxa tid meta nid now)
  then show ?case by (intro quiet_engine_ok create_task_quiet engine_okD(1))
next
  case (depended r a p ty now)
  then show ?case by (intro quiet_engine_ok engine_add_dependency_quiet engine_okD(1))
next
  case (assigned r tid wid now)
  obtain res r' where a: "assign_task tid wid now r = (res, r')" by fastforce
  note ok = engine_okD [OF assigned]
  have "r_factories r' = r_factories r" using r_factories_engine(1) [of tid wid now r] a by simp
  with engine_okI [OF assigned assign_task_wf [OF ok(1) a] assign_task_exclusive [OF ok(1,2) a]] a
  show ?case by simp
next
  case (cancelled r tid reason now)
  obtain res r' where c: "cancel_task tid reason now r = (res, r')" by fastforce
  note ok = engine_okD [OF cancelled]
  have "r_factories r' = r_factories r" using r_factories_engine(2) [of tid reason now r] c by simp
  with engine_okI [OF cancelled] cancel_task_exclusive [OF ok(1,2) c] c
  show ?case by simp
next
  case (registered r wi st now)
  with register_worker_exclusive [OF engine_okD(1,2) [OF registered], of wi st now] show ?case
    by (intro engine_okI [OF registered]) simp_all
next
  case (provisioned r ident now)
  with provision_worker_exclusive [OF engine_okD [OF provisioned], of ident now] show ?case
    by (simp add: engine_ok_def)
qed


section \<open>A sample run\<close>

text \<open>A project with two tasks, each assigned to a registered worker.\<close>

definition do_create_project :: "string \<Rightarrow> registry \<Rightarrow> registry" where
  "do_create_project pid r = put_store (snd (registry_create_project id ''P'' ''/p'' [] (Some pid) None ''n'' ''now''
     (r_store r))) r"

definition do_create_task :: "string \<Rightarrow> string option \<Rightarrow> string \<Rightarrow> registry \<Rightarrow> registry" where
  "do_create_task pid parent tid r = put_store (snd (create_task pid ''T'' [] parent 1 R_LOW [] [] [] 3 (Some tid) []
     ''n'' ''now'' (r_store r))) r"

definition run_project :: registry where
  "run_project = do_create_project ''p'' (new_registry empty_store)"

definition sample_instance :: "string \<Rightarrow> worker_instance" where
  "sample_instance wid = \<lparr>wi_manifest = (\<lambda>_. sample_worker wid W_REGISTERED), wi_cached = False,
     wi_validate = dummy_validate wid\<rparr>"

definition run_programmer :: registry where
  "run_programmer = snd (register_worker (sample_instance ''v'') W_IDLE ''now'' run_project)"

definition run_tester :: registry where
  "run_tester = snd (register_worker (sample_instance ''w'') W_IDLE ''now'' run_programmer)"

definition run_task_a :: registry where
  "run_task_a = do_create_task ''p'' None ''a'' run_tester"

definition run_task_b :: registry where
  "run_task_b = do_create_task ''p'' (Some ''a'') ''b'' run_task_a"

definition run_assigned_a :: registry where
  "run_assigned_a = snd (assign_task ''a'' ''v'' ''now'' run_task_b)"

definition run_assigned :: registry where
  "run_assigned = snd (assign_task ''b'' ''w'' ''now'' run_assigned_a)"

lemma engine_chain: "engine_step\<^sup>*\<^sup>* r0 r \<Longrightarrow> engine_step r r' \<Longrightarrow> engine_step\<^sup>*\<^sup>* r0 r'"
  by (rule rtranclp.rtrancl_into_rtrancl)

lemma run_assigned_reachable: "engine_step\<^sup>*\<^sup>* (new_registry empty_store) run_assigned"
  and run_task_b_reachable: "engine_step\<^sup>*\<^sup>* (new_registry empty_store) run_task_b"
proof -
  have "engine_step\<^sup>*\<^sup>* (new_registry empty_store) run_project"
    unfolding run_project_def do_create_project_def by (rule r_into_rtranclp [of engine_step, OF project_created])
  then have "engine_step\<^sup>*\<^sup>* (new_registry empty_store) run_programmer"
    unfolding run_programmer_def by (rule engine_chain [OF _ registered])
  then have "engine_step\<^sup>*\<^sup>* (new_registry empty_store) run_tester"
    unfolding run_tester_def by (rule engine_chain [OF _ registered])
  then have "engine_step\<^sup>*\<^sup>* (new_registry empty_store) run_task_a"
    unfolding run_task_a_def do_create_task_def by (rule engine_chain [OF _ created])
  then show b: "engine_step\<^sup>*\<^sup>* (new_registry empty_store) run_task_b"
    unfolding run_task_b_def do_create_task_def by (rule engine_chain [OF _ created])
  then have "engine_step\<^sup>*\<^sup>* (new_registry empty_store) run_assigned_a"
    unfolding run_assigned_a_def by (rule engine_chain [OF _ assigned])
  then show "engine_step\<^sup>*\<^sup>* (new_registry empty_store) run_assigned"
    unfolding run_assigned_def by (rule engine_chain [OF _ assigned])
qed

lemma engine_reachable_ok: "engine_step\<^sup>*\<^sup>* (new_registry empty_store) r \<Longrightarrow> engine_ok r"
proof (induction rule: rtranclp_induct)
  case base
  show ?case by (simp add: engine_ok_def honest_new_registry)
qed (rule engine_step_ok)

lemma run_wf [simp]: "store_wf (r_store run_task_b)" "store_wf (r_store run_assigned)"
  "assignments_exclusive (r_store run_assigned)"
  using engine_reachable_ok [OF run_task_b_reachable] engine_reachable_ok [OF run_assigned_reachable]
  by (simp_all add: engine_ok_def)


section \<open>Properties\<close>



text \<open>
  The guard and the effect of a successful assignment: the task was ready (or retrying) with all
  dependencies met and the worker was idle; afterwards the task is assigned to the worker, the
  worker is engaged on the task, and every other task and worker is as before.
\<close>

theorem assign_task_effect:
  assumes "store_wf (r_store r)" and "assign_task tid wid now r = (Inr (t', w'), r')"
    and "get_task (r_store r) tid = Some t" and "t_status t \<noteq> T_ASSIGNED"
  shows "t_status t \<in> {T_READY, T_RETRYING} \<and> validate_task_readiness t (r_store r) = Inr ()
    \<and> (\<exists>w. get_worker (r_store r) wid = Some w \<and> w_status w = W_IDLE)
    \<and> t_status t' = T_ASSIGNED \<and> t_assigned_worker t' = Some wid
    \<and> w_status w' = W_ASSIGNED \<and> w_active_task_id w' = Some tid
    \<and> get_task (r_store r') x = (if x = tid then Some t' else get_task (r_store r) x)
    \<and> get_worker (r_store r') y = (if y = wid then Some w' else get_worker (r_store r) y)"
proof -
  from assign_task_store [OF assms(1,2)] assms(3,4) obtain w s1 where
    *: "t_status t \<in> {T_READY, T_RETRYING}" "fst (are_dependencies_satisfied (r_store r) tid)"
    "get_worker (r_store r) wid = Some w" "w_status w = W_IDLE" "w' = engaged_on t now w" "t' = assigned t wid"
    "s1 = r_store r \<or> s1 = save_task (t\<lparr>t_status := T_READY\<rparr>) (r_store r)"
    "r_store r' = save_worker w' (save_task t' s1)" by auto
  have ids: "t_id t = tid" "w_id w = wid"
    using tasks_tbl.key_get [OF assms(1,3)] workers_tbl.key_get [OF assms(1) *(3)] by simp_all
  have "get_task (r_store r') x = (if x = tid then Some t' else get_task (r_store r) x)"
    using *(6,7) ids unfolding *(8) by (auto simp: tasks_tbl.get_save assigned_def)
  moreover have "get_worker (r_store r') y = (if y = wid then Some w' else get_worker (r_store r) y)"
    using *(5,7) ids unfolding *(8) by (auto simp: workers_tbl.get_save engaged_on_def)
  moreover have "validate_task_readiness t (r_store r) = Inr ()" using *(2) ids readiness_iff by blast
  ultimately show ?thesis using * ids by (simp add: assigned_def engaged_on_def)
qed

theorem assign_task_effect_witness:
  "\<exists>t' w' r'. assign_task ''a'' ''v'' ''now'' run_task_b = (Inr (t', w'), r')
    \<and> t_status t' = T_ASSIGNED \<and> w_active_task_id w' = Some ''a''"
proof -
  let ?a = "assign_task ''a'' ''v'' ''now'' run_task_b"
  have "\<not> isl (fst ?a)" by code_simp
  then obtain t' w' where a: "?a = (Inr (t', w'), snd ?a)" by (cases ?a; cases "fst ?a") auto
  have "map_option t_status (get_task (r_store run_task_b) ''a'') = Some T_READY" by code_simp
  then obtain t where "get_task (r_store run_task_b) ''a'' = Some t" "t_status t \<noteq> T_ASSIGNED" by auto
  from assign_task_effect [OF run_wf(1) a this] a show ?thesis by blast
qed

text \<open>
  A refused assignment changes no task and no worker, with one exception: a retrying task has
  been made \<open>READY\<close> and stays so.
\<close>

theorem assign_task_refused:
  assumes "store_wf (r_store r)" and "assign_task tid wid now r = (Inl e, r')"
  shows "get_worker (r_store r') y = get_worker (r_store r) y
    \<and> (get_task (r_store r') x = get_task (r_store r) x
       \<or> x = tid \<and> (\<exists>t. get_task (r_store r) tid = Some t \<and> t_status t = T_RETRYING
            \<and> get_task (r_store r') tid = Some (t\<lparr>t_status := T_READY\<rparr>)))"
proof -
  from assign_task_store [OF assms] consider "r_store r' = r_store r"
    | t where "get_task (r_store r) tid = Some t" "t_status t = T_RETRYING"
        "r_store r' = save_task (t\<lparr>t_status := T_READY\<rparr>) (r_store r)" by auto
  then show ?thesis
  proof cases
    case (2 t)
    then show ?thesis using tasks_tbl.key_get [OF assms(1) 2(1)] by (auto simp: tasks_tbl.get_save)
  qed simp
qed

theorem assign_task_refused_witness:
  "\<exists>e r'. assign_task ''a'' ''w'' ''now'' run_assigned = (Inl e, r')
    \<and> get_worker (r_store r') ''w'' = get_worker (r_store run_assigned) ''w''"
proof -
  let ?a = "assign_task ''a'' ''w'' ''now'' run_assigned"
  have "isl (fst ?a)" by code_simp
  then obtain e where a: "?a = (Inl e, snd ?a)" by (cases ?a; cases "fst ?a") auto
  from assign_task_refused [OF run_wf(2) a] a show ?thesis by blast
qed

text \<open>
  Cancelling a task whose recorded worker is not currently active on it always fails with an
  \<open>AttributeError\<close> (the code asks for the non-existent status \<open>BUSY\<close>), so the task, for instance one
  that is retrying after a failure, cannot be cancelled; nothing changes.
\<close>

theorem cancel_task_attribute_error:
  assumes "get_task (r_store r) tid = Some t" and "t_assigned_worker t = Some wid" and "wid \<noteq> []"
    and "get_worker (r_store r) wid = Some w" and "w_active_task_id w \<noteq> Some (t_id t)"
  shows "cancel_task tid reason now r = (Inl (AttributeError ''BUSY''), r)"
  using assms by (simp add: cancel_task_def engine_get_task_def cancel_free_worker_def registry_get_worker_def)

definition stale_assignment :: registry where
  "stale_assignment = new_registry (save_worker (sample_worker ''w'' W_IDLE)
     (save_task (sample_task ''a'' T_RETRYING\<lparr>t_assigned_worker := Some ''w''\<rparr>) empty_store))"

theorem cancel_task_attribute_error_witness:
  "cancel_task ''a'' ''reason'' ''now'' stale_assignment = (Inl (AttributeError ''BUSY''), stale_assignment)"
  by (rule cancel_task_attribute_error [of _ _ "sample_task ''a'' T_RETRYING\<lparr>t_assigned_worker := Some ''w''\<rparr>" "''w''"
      "sample_worker ''w'' W_IDLE"])
    (simp_all add: stale_assignment_def tasks_tbl.get_save workers_tbl.get_save)

text \<open>
  Cancelling a task that is being worked on frees its worker and makes the task final: the
  worker is \<open>IDLE\<close> without a task and the task is \<open>CANCELLED\<close> with its completion time set.
\<close>

theorem cancel_task_frees_worker:
  assumes "store_wf (r_store r)" and "assignments_exclusive (r_store r)"
    and "get_task (r_store r) tid = Some t" and "task_busy t" and "t_assigned_worker t \<noteq> Some []"
  shows "\<exists>t' r' wid w'. cancel_task tid reason now r = (Inr t', r') \<and> t_status t' = T_CANCELLED
    \<and> t_completed_at t' = Some now \<and> get_task (r_store r') tid = Some t'
    \<and> t_assigned_worker t = Some wid \<and> get_worker (r_store r') wid = Some w'
    \<and> w_status w' = W_IDLE \<and> w_active_task_id w' = None"
proof -
  have id: "t_id t = tid" using tasks_tbl.key_get [OF assms(1,3)] .
  from assignments_exclusiveD [OF assms(2-4)] obtain wid w where
    w: "t_assigned_worker t = Some wid" "get_worker (r_store r) wid = Some w" "w_active_task_id w = Some tid"
    "worker_engaged (w_status w)" by (auto simp: assignment_ok_def)
  have wid: "w_id w = wid" using workers_tbl.key_get [OF assms(1) w(2)] .
  let ?w' = "w\<lparr>w_status := W_IDLE, w_active_task_id := None, w_updated_at := now\<rparr>"
  let ?t' = "t\<lparr>t_status := T_CANCELLED, t_completed_at := Some now\<rparr>"
  have "worker_transition w W_IDLE None now = Inr ?w'"
    using w(4) by (cases "w_status w")
      (simp_all add: worker_transition_def worker_can_transition_def worker_engaged_def Let_def)
  moreover have "task_transition t T_CANCELLED (Some reason) now = Inr ?t'"
    using assms(4) by (cases "t_status t")
      (simp_all add: task_transition_def task_can_transition_def task_busy_def Let_def)
  ultimately have "cancel_task tid reason now r =
      (Inr ?t', put_store (save_task ?t' (save_worker ?w' (r_store r))) (put_store (save_worker ?w' (r_store r)) r))"
    using w id assms(3,5) by (simp add: cancel_task_def engine_get_task_def cancel_free_worker_def given_def
        registry_get_worker_def registry_update_worker_status_def)
  then show ?thesis using w(1) id wid by (auto simp: tasks_tbl.get_save workers_tbl.get_save)
qed

theorem cancel_task_frees_worker_witness:
  "\<exists>t' r' w'. cancel_task ''a'' ''reason'' ''now'' run_assigned = (Inr t', r') \<and> t_status t' = T_CANCELLED
    \<and> get_worker (r_store r') ''v'' = Some w' \<and> w_status w' = W_IDLE"
proof -
  have "map_option (\<lambda>t. task_busy t \<and> t_assigned_worker t = Some ''v'')
      (get_task (r_store run_assigned) ''a'') = Some True" by code_simp
  then obtain t where t: "get_task (r_store run_assigned) ''a'' = Some t" "task_busy t"
    "t_assigned_worker t = Some ''v''" by auto
  from cancel_task_frees_worker [OF run_wf(2,3) t(1,2)] t(3) show ?thesis by fastforce
qed


section \<open>Creation and hierarchy\<close>

lemma dep_edges_added:
  assumes "store_wf s" and "resolver_add_dependency a p ty did now s = (Inr d, s')"
  shows "(a, p) \<in> dep_edges s'"
  using values_store_dependency [of s d] assms(1) resolver_add_dependency_Inr(2,3) [OF assms(2)]
  by (auto simp: dep_edges_def store_wf_def)

lemma resolver_get_task:
  assumes "store_wf s" and "resolver_add_dependency a p ty did now s = (Inr d, s')" and "get_task s a = Some t"
  shows "\<exists>ds. get_task s' a = Some (t\<lparr>t_dependencies := ds\<rparr>) \<and> set ds = insert p (set (t_dependencies t))"
proof (cases "p \<in> set (t_dependencies t)")
  case True
  then have "get_task s' a = Some (t\<lparr>t_dependencies := t_dependencies t\<rparr>)"
    using assms(2,3) by (auto simp: resolver_add_dependency_def Let_def split: if_splits)
  with True show ?thesis by (intro exI [of _ "t_dependencies t"]) auto
next
  case False
  then have "get_task s' a = Some (t\<lparr>t_dependencies := t_dependencies t @ [p]\<rparr>)"
    using assms(2,3) tasks_tbl.key_get [OF assms(1,3)]
    by (auto simp: resolver_add_dependency_def Let_def tasks_tbl.get_save split: if_splits)
  then show ?thesis by auto
qed

lemma add_dependencies_loop_effect:
  assumes "store_wf s" and "add_dependencies_loop tid ps now s = (Inr u, s')" and "get_task s tid = Some t"
  shows "(\<exists>ds. get_task s' tid = Some (t\<lparr>t_dependencies := ds\<rparr>) \<and> set ds = set (t_dependencies t) \<union> set ps)
    \<and> (ps \<noteq> [] \<longrightarrow> (tid, last ps) \<in> dep_edges s')"
  using assms
proof (induction ps arbitrary: s t)
  case Nil
  then show ?case by (intro conjI exI [of _ "t_dependencies t"]) auto
next
  case (Cons p ps)
  obtain d s1 where 1: "resolver_add_dependency tid p D_STRICT_SUCCESS None now s = (Inr d, s1)"
    and rest: "add_dependencies_loop tid ps now s1 = (Inr u, s')"
    using Cons.prems(2) by (auto split: sum.splits prod.splits)
  have wf1: "store_wf s1"
    using store_wf_resolver_add_dependency [OF Cons.prems(1), of tid p D_STRICT_SUCCESS None now] 1 by simp
  obtain ds where ds: "get_task s1 tid = Some (t\<lparr>t_dependencies := ds\<rparr>)" "set ds = insert p (set (t_dependencies t))"
    using resolver_get_task [OF Cons.prems(1) 1 Cons.prems(3)] by blast
  from Cons.IH [OF wf1 rest ds(1)] ds(2) have
    "(\<exists>ds'. get_task s' tid = Some (t\<lparr>t_dependencies := ds'\<rparr>) \<and> set ds' = set (t_dependencies t) \<union> set (p # ps))
      \<and> (ps \<noteq> [] \<longrightarrow> (tid, last ps) \<in> dep_edges s')" by auto
  moreover have "(tid, p) \<in> dep_edges s'" if "ps = []"
    using that rest dep_edges_added [OF Cons.prems(1) 1] by simp
  ultimately show ?case by auto
qed

text \<open>Parent links: \<open>(t, c)\<close> when the stored task \<open>c\<close> is a child of the stored task \<open>t\<close>.\<close>

definition child_rel :: "store \<Rightarrow> (task \<times> task) set" where
  "child_rel s = {(t, c). t \<in> set (list_tasks s None None) \<and> c \<in> set (get_tasks_by_parent s (t_id t))}"

lemma children_stored: "c \<in> set (get_tasks_by_parent s p) \<Longrightarrow> c \<in> set (list_tasks s None None)"
  by (auto simp: get_tasks_by_parent_def list_tasks_def)

lemma finite_child_rel: "finite (child_rel s)"
proof (rule finite_subset)
  show "child_rel s \<subseteq> set (list_tasks s None None) \<times> set (list_tasks s None None)"
    using children_stored by (fastforce simp: child_rel_def)
qed simp

lemma those_eq_Some_iff: "those xs \<noteq> None \<longleftrightarrow> None \<notin> set xs"
  by (induction xs) (auto split: option.splits)

lemma build_tree_defined:
  "build_tree (Suc n) s t \<noteq> None \<longleftrightarrow> (\<forall>c \<in> set (get_tasks_by_parent s (t_id t)). build_tree n s c \<noteq> None)"
proof -
  have "build_tree (Suc n) s t \<noteq> None \<longleftrightarrow> those (map (build_tree n s) (get_tasks_by_parent s (t_id t))) \<noteq> None"
    by simp
  also have "\<dots> \<longleftrightarrow> None \<notin> build_tree n s ` set (get_tasks_by_parent s (t_id t))"
    unfolding those_eq_Some_iff by simp
  finally show ?thesis by (metis imageE image_eqI)
qed

lemma build_tree_mono: "build_tree n s t \<noteq> None \<Longrightarrow> n \<le> m \<Longrightarrow> build_tree m s t \<noteq> None"
proof (induction n arbitrary: t m)
  case (Suc n)
  obtain m' where m: "m = Suc m'" "n \<le> m'" using Suc.prems(2) by (cases m) auto
  from Suc.prems(1) have "\<forall>c \<in> set (get_tasks_by_parent s (t_id t)). build_tree n s c \<noteq> None"
    unfolding build_tree_defined .
  then have "\<forall>c \<in> set (get_tasks_by_parent s (t_id t)). build_tree m' s c \<noteq> None"
    using Suc.IH m(2) by blast
  then show ?case unfolding m(1) build_tree_defined .
qed simp

text \<open>
  What becomes of the requested prerequisites: the last edge is stored, and if the new task has to
  wait it lists exactly the requested prerequisites; but if they are already met, the task
  object from before the dependencies were added is saved again and the list is empty.
\<close>

theorem create_task_dependencies:
  assumes "store_wf s"
    and "create_task pid title obj par prio risk deps crit refs maxa tid meta nid now s = (Inr t, s')"
    and "deps \<noteq> []"
  shows "(t_id t, last deps) \<in> dep_edges s'
    \<and> (t_status t = T_READY \<and> t_dependencies t = []
       \<or> t_status t = T_PENDING \<and> set (t_dependencies t) = set deps)"
proof -
  let ?id = "or_else tid nid"
  let ?t = "\<lparr>t_id = ?id, t_project_id = pid, t_title = title, t_objective = obj,
                  t_parent_task_id = par, t_status = (if deps = [] then T_READY else T_PENDING),
                  t_priority = prio, t_risk = risk, t_assigned_worker = None, t_dependencies = [],
                  t_success_criteria = crit, t_context_references = refs, t_artifacts = [],
                  t_attempts = 0, t_max_attempts = maxa, t_metadata = meta, t_created_at = now,
                  t_started_at = None, t_completed_at = None\<rparr>"
  have ok: "get_project s pid \<noteq> None \<and> \<not> (given par \<and> get_task s (the par) = None)"
    using assms(2) by (auto simp: create_task_def split: option.splits if_splits)
  obtain res s2 where l: "add_dependencies_loop ?id deps now (save_task ?t s) = (res, s2)" by fastforce
  have "\<not> isl res" using assms(2) ok l by (cases res) (auto simp: create_task_def Let_def)
  then obtain u where res: "res = Inr u" by (cases res) auto
  have wf: "store_wf (save_task ?t s)" "get_task (save_task ?t s) ?id = Some ?t"
    using assms(1) by (simp_all add: tasks_tbl.get_save)
  obtain ds where ds: "get_task s2 ?id = Some (?t\<lparr>t_dependencies := ds\<rparr>)" "set ds = set deps"
    "(?id, last deps) \<in> dep_edges s2"
    using add_dependencies_loop_effect [OF wf(1) l [unfolded res] wf(2)] assms(3) by auto
  show ?thesis
  proof (cases "fst (are_dependencies_satisfied s2 ?id)")
    case True
    then have "s' = save_task (?t\<lparr>t_status := T_READY\<rparr>) s2" "t = ?t\<lparr>t_status := T_READY\<rparr>"
      using assms(2,3) ok l res by (auto simp: create_task_def Let_def engine_get_task_def tasks_tbl.get_save)
    then show ?thesis using ds(3) by simp
  next
    case False
    then have "s' = s2" "t = ?t\<lparr>t_dependencies := ds\<rparr>"
      using assms(2,3) ok l res ds(1) by (auto simp: create_task_def Let_def engine_get_task_def)
    then show ?thesis using ds(2,3) assms(3) by simp
  qed
qed

theorem create_task_dependencies_witness:
  "\<exists>t s'. create_task ''p'' ''C'' [] None 1 R_LOW [''a'', ''b''] [] [] 3 (Some ''c'') [] ''n'' ''now'' (r_store run_task_b)
      = (Inr t, s') \<and> t_status t = T_PENDING \<and> set (t_dependencies t) = {''a'', ''b''}"
proof -
  let ?c = "create_task ''p'' ''C'' [] None 1 R_LOW [''a'', ''b''] [] [] 3 (Some ''c'') [] ''n'' ''now'' (r_store run_task_b)"
  have "case fst ?c of Inr t \<Rightarrow> t_status t = T_PENDING | Inl _ \<Rightarrow> False" by code_simp
  then obtain t where t: "?c = (Inr t, snd ?c)" "t_status t = T_PENDING"
    by (cases ?c) (auto split: sum.splits)
  from create_task_dependencies [OF run_wf(1) t(1)] t show ?thesis by auto
qed

text \<open>
  C35: the recursion of \<open>get_task_hierarchy\<close> returns for a stored task when the parent links have no
  cycle, and never returns for a task that is its own descendant.
\<close>

theorem hierarchy_termination:
  "(store_wf s \<and> acyclic (child_rel s) \<and> get_task s tid = Some t \<longrightarrow>
      (\<exists>n. \<forall>m \<ge> n. \<exists>tree. get_task_hierarchy m tid s = Inr (Some tree)))
    \<and> (get_task s tid = Some t \<and> (t, t) \<in> (child_rel s)\<^sup>+ \<longrightarrow> get_task_hierarchy m tid s = Inr None)"
proof (intro conjI impI; elim conjE)
  assume wf: "store_wf s" and acyc: "acyclic (child_rel s)" and t: "get_task s tid = Some t"
  have "wf ((child_rel s)\<inverse>)" using acyc finite_child_rel by (rule finite_acyclic_wf_converse [rotated])
  then have "u \<in> set (list_tasks s None None) \<longrightarrow> (\<exists>n. build_tree n s u \<noteq> None)" for u
  proof (induction u rule: wf_induct_rule)
    case (less u)
    show ?case
    proof
      assume u: "u \<in> set (list_tasks s None None)"
      have "\<exists>n. build_tree n s c \<noteq> None" if c: "c \<in> set (get_tasks_by_parent s (t_id u))" for c
      proof -
        have "(c, u) \<in> (child_rel s)\<inverse>" using u c by (simp add: child_rel_def)
        from less [OF this] children_stored [OF c] show ?thesis by blast
      qed
      then obtain f where f: "\<forall>c \<in> set (get_tasks_by_parent s (t_id u)). build_tree (f c) s c \<noteq> None"
        using bchoice [of "set (get_tasks_by_parent s (t_id u))" "\<lambda>c n. build_tree n s c \<noteq> None"] by blast
      let ?n = "Max (insert 0 (f ` set (get_tasks_by_parent s (t_id u))))"
      have "build_tree ?n s c \<noteq> None" if c: "c \<in> set (get_tasks_by_parent s (t_id u))" for c
      proof (rule build_tree_mono)
        show "build_tree (f c) s c \<noteq> None" using f c by blast
        show "f c \<le> ?n" using c by (intro Max_ge) simp_all
      qed
      then have "build_tree (Suc ?n) s u \<noteq> None" unfolding build_tree_defined by blast
      then show "\<exists>n. build_tree n s u \<noteq> None" by blast
    qed
  qed
  with tasks_tbl.get_in_rows [OF wf t] obtain n where "build_tree n s t \<noteq> None" by blast
  then have "\<forall>m \<ge> n. \<exists>tree. build_tree m s t = Some tree" using build_tree_mono by blast
  then show "\<exists>n. \<forall>m \<ge> n. \<exists>tree. get_task_hierarchy m tid s = Inr (Some tree)"
    using t by (intro exI [of _ n]) (simp add: get_task_hierarchy_def engine_get_task_def)
next
  assume t: "get_task s tid = Some t" and cyc: "(t, t) \<in> (child_rel s)\<^sup>+"
  have "(u, u) \<in> (child_rel s)\<^sup>+ \<Longrightarrow> build_tree n s u = None" for n u
  proof (induction n arbitrary: u)
    case (Suc n)
    from Suc.prems obtain c where c: "(u, c) \<in> child_rel s" "(c, u) \<in> (child_rel s)\<^sup>*"
      by (meson tranclD)
    then have "(c, c) \<in> (child_rel s)\<^sup>+" by (rule rtrancl_into_trancl1 [rotated])
    then have "build_tree n s c = None" by (rule Suc.IH)
    moreover have "c \<in> set (get_tasks_by_parent s (t_id u))" using c(1) by (simp add: child_rel_def)
    ultimately show ?case using build_tree_defined [of n s u] by blast
  qed simp
  with cyc t show "get_task_hierarchy m tid s = Inr None"
    by (simp add: get_task_hierarchy_def engine_get_task_def)
qed

text \<open>Creating \<open>a\<close> again below its own child \<open>b\<close> is accepted and closes a cycle of parent links.\<close>

definition parent_cycle :: registry where
  "parent_cycle = do_create_task ''p'' (Some ''b'') ''a'' run_task_b"

lemma child_relI:
  assumes "store_wf s" and "get_task s x = Some t" and "get_task s y = Some c" and "t_parent_task_id c = Some x"
  shows "(t, c) \<in> child_rel s"
  using tasks_tbl.get_in_rows [OF assms(1,2)] tasks_tbl.get_in_rows [OF assms(1,3)] tasks_tbl.key_get [OF assms(1,2)] assms(4)
  by (simp add: child_rel_def get_tasks_by_parent_def list_tasks_def)

theorem hierarchy_termination_witness:
  "\<exists>t. get_task (r_store parent_cycle) ''a'' = Some t \<and> (t, t) \<in> (child_rel (r_store parent_cycle))\<^sup>+
    \<and> get_task_hierarchy 1000 ''a'' (r_store parent_cycle) = Inr None"
proof -
  have wf: "store_wf (r_store parent_cycle)"
    unfolding parent_cycle_def do_create_task_def r_store_simps by (rule create_task_quiet [THEN conjunct2, OF run_wf(1)])
  have "map_option t_parent_task_id (get_task (r_store parent_cycle) ''a'') = Some (Some ''b'')" by code_simp
  then obtain t where t: "get_task (r_store parent_cycle) ''a'' = Some t" "t_parent_task_id t = Some ''b''"
    by (cases "get_task (r_store parent_cycle) ''a''") simp_all
  have "map_option t_parent_task_id (get_task (r_store parent_cycle) ''b'') = Some (Some ''a'')" by code_simp
  then obtain c where c: "get_task (r_store parent_cycle) ''b'' = Some c" "t_parent_task_id c = Some ''a''"
    by (cases "get_task (r_store parent_cycle) ''b''") simp_all
  have "(t, t) \<in> (child_rel (r_store parent_cycle))\<^sup>+"
    using child_relI [OF wf t(1) c(1,2)] child_relI [OF wf c(1) t(1,2)] by (rule trancl_trans [OF r_into_trancl r_into_trancl])
  with hierarchy_termination [of "r_store parent_cycle" "''a''" t 1000] t(1) show ?thesis by blast
qed

end
