(* ===== verification/Event_Logging.thy ===== *)
theory Event_Logging
  imports Task_Engine
begin

text \<open>
  The recording of events: \<open>Event.create\<close> of \<open>core/events/model.py\<close> and \<open>log_event\<close> of
  \<open>core/runtime/workforce_runtime.py\<close>. Fresh identifiers and clock readings come from a supply that
  is indexed by the number of readings so far; operations that log are written in a small state and
  exception monad, because \<open>append_event\<close> may raise.
\<close>

section \<open>Identifiers and the clock\<close>

record readings =
  or_uuid :: "nat \<Rightarrow> string"
  or_now :: "nat \<Rightarrow> string"
  or_duration :: "nat \<Rightarrow> string"
  \<comment> \<open>the representation of a measured duration in milliseconds\<close>

text \<open>What \<open>uuid4\<close> is relied on for: no two readings are equal.\<close>

definition fresh_uuids :: "readings \<Rightarrow> bool" where
  "fresh_uuids orc \<longleftrightarrow> inj (or_uuid orc)"

record log_state =
  lg_store :: store
  lg_tick :: nat


section \<open>Computations that log and may raise\<close>

type_synonym ('s, 'a) action = "'s \<Rightarrow> (error + 'a) \<times> 's"

definition ret :: "'a \<Rightarrow> ('s, 'a) action" where
  "ret x s = (Inr x, s)"

definition raise :: "error \<Rightarrow> ('s, 'a) action" where
  "raise e s = (Inl e, s)"

definition bind :: "('s, 'a) action \<Rightarrow> ('a \<Rightarrow> ('s, 'b) action) \<Rightarrow> ('s, 'b) action" where
  "bind m f s = (case m s of (Inl e, s') \<Rightarrow> (Inl e, s') | (Inr x, s') \<Rightarrow> f x s')"

definition try_catch :: "('s, 'a) action \<Rightarrow> (error \<Rightarrow> ('s, 'a) action) \<Rightarrow> ('s, 'a) action" where
  "try_catch m h s = (case m s of (Inl e, s') \<Rightarrow> h e s' | (Inr x, s') \<Rightarrow> (Inr x, s'))"

fun each :: "('a \<Rightarrow> ('s, unit) action) \<Rightarrow> 'a list \<Rightarrow> ('s, unit) action" where
  \<comment> \<open>a \<open>for\<close> loop\<close>
  "each f [] = ret ()"
| "each f (x # xs) = bind (f x) (\<lambda>_. each f xs)"

lemma ret_apply [simp]: "ret x s = (Inr x, s)" and raise_apply [simp]: "raise e s = (Inl e, s)"
  by (simp_all add: ret_def raise_def)

lemma bind_ret [simp]: "bind (ret x) f = f x" and bind_raise [simp]: "bind (raise e) f = raise e"
  by (simp_all add: bind_def fun_eq_iff)

lemma bind_assoc: "bind (bind m f) g = bind m (\<lambda>x. bind (f x) g)"
  by (auto simp: bind_def fun_eq_iff split: prod.splits sum.splits)

lemma bind_Inr: "bind m f s = (Inr y, s2) \<longleftrightarrow> (\<exists>x s1. m s = (Inr x, s1) \<and> f x s1 = (Inr y, s2))"
  by (auto simp: bind_def split: prod.splits sum.splits)

text \<open>An invariant that every step keeps is kept by the composition, whether it raises or not.\<close>

definition keeps :: "('s \<Rightarrow> 's \<Rightarrow> bool) \<Rightarrow> ('s, 'a) action \<Rightarrow> bool" where
  "keeps R m \<longleftrightarrow> (\<forall>s. R s (snd (m s)))"

lemma keeps_ret: "reflp R \<Longrightarrow> keeps R (ret x)" and keeps_raise: "reflp R \<Longrightarrow> keeps R (raise e)"
  by (simp_all add: keeps_def reflp_def)

lemma keeps_bind: "transp R \<Longrightarrow> keeps R m \<Longrightarrow> (\<And>x. keeps R (f x)) \<Longrightarrow> keeps R (bind m f)"
  unfolding keeps_def bind_def by (auto split: prod.splits sum.splits) (metis snd_conv transpD)+

lemma keeps_try: "transp R \<Longrightarrow> keeps R m \<Longrightarrow> (\<And>e. keeps R (h e)) \<Longrightarrow> keeps R (try_catch m h)"
  unfolding keeps_def try_catch_def by (auto split: prod.splits sum.splits) (metis snd_conv transpD)+

lemma keeps_each: "reflp R \<Longrightarrow> transp R \<Longrightarrow> (\<And>x. keeps R (f x)) \<Longrightarrow> keeps R (each f xs)"
  by (induction xs) (simp_all add: keeps_ret keeps_bind)

lemma keeps_weaken: "keeps R m \<Longrightarrow> (\<And>a b. R a b \<Longrightarrow> R' a b) \<Longrightarrow> keeps R' m"
  by (simp add: keeps_def)

lemma keepsD: "keeps R m \<Longrightarrow> m st = (r, st') \<Longrightarrow> R st st'"
  by (metis keeps_def snd_conv)

lemma keeps_snd: "keeps R m \<Longrightarrow> R st (snd (m st))"
  by (simp add: keeps_def)


section \<open>Events\<close>

record event_args =
  ea_type :: event_type
  ea_payload :: pydict
  ea_source :: string
  ea_correlation :: "string option"
  ea_causation :: "string option"
  ea_project :: "string option"
  ea_task :: "string option"
  ea_worker :: "string option"
  ea_artifact :: "string option"
  ea_metadata :: pydict

text \<open>
  \<open>Event.create\<close>. Reading number \<open>n\<close> gives the correlation identifier when none is given (or it is
  empty), reading \<open>n + 1\<close> the event identifier.
\<close>

definition event_create :: "readings \<Rightarrow> nat \<Rightarrow> event_args \<Rightarrow> event" where
  "event_create orc n a =
     \<lparr>e_event_id = ''evt-'' @ or_uuid orc (n + 1), e_event_type = ea_type a, e_timestamp = or_now orc (n + 1),
      e_source = ea_source a, e_correlation_id = or_else (ea_correlation a) (or_uuid orc n),
      e_payload = ea_payload a, e_sequence_number = None, e_project_id = ea_project a, e_task_id = ea_task a,
      e_worker_id = ea_worker a, e_artifact_id = ea_artifact a, e_causation_id = ea_causation a,
      e_schema_version = 1, e_metadata = ea_metadata a\<rparr>"

text \<open>
  \<open>log_event\<close>. A type that is no member of \<open>EventType\<close> is logged as \<open>WORKER_PROGRESS_LOGGED\<close> with the
  custom type in the payload (a key of the caller's payload wins). \<open>known\<close> is the membership test.
  The subscribers, whose exceptions are swallowed, are outside the model.
\<close>

definition normal_event_args :: "(string \<Rightarrow> bool) \<Rightarrow> event_args \<Rightarrow> event_args" where
  "normal_event_args known a =
     (if known (ea_type a) then a
      else a\<lparr>ea_type := ''WORKER_PROGRESS_LOGGED'',
             ea_payload := fold (\<lambda>(k, v). dict_set k v) (ea_payload a) [(''custom_event_type'', PStr (ea_type a))]\<rparr>)"

definition log_event :: "readings \<Rightarrow> event_args \<Rightarrow> (log_state, event) action" where
  "log_event orc a st =
     (case append_event (event_create orc (lg_tick st) a) (lg_store st) of
        Inl e \<Rightarrow> (Inl e, st\<lparr>lg_tick := lg_tick st + 2\<rparr>)
      | Inr (e', s') \<Rightarrow> (Inr e', \<lparr>lg_store = s', lg_tick = lg_tick st + 2\<rparr>))"

definition log_custom_event :: "readings \<Rightarrow> (string \<Rightarrow> bool) \<Rightarrow> event_args \<Rightarrow> (log_state, event) action" where
  "log_custom_event orc known a = log_event orc (normal_event_args known a)"


section \<open>What logging promises\<close>

text \<open>The events of the log whose identifiers were drawn before reading \<open>n\<close>.\<close>

definition drawn_before :: "readings \<Rightarrow> nat \<Rightarrow> string \<Rightarrow> bool" where
  "drawn_before orc n i \<longleftrightarrow> (\<exists>k < n. i = ''evt-'' @ or_uuid orc k)"

definition log_ok :: "readings \<Rightarrow> log_state \<Rightarrow> bool" where
  "log_ok orc st \<longleftrightarrow> store_wf (lg_store st)
     \<and> (\<forall>e \<in> set (s_events (lg_store st)). drawn_before orc (lg_tick st) (e_event_id e))"

lemma drawn_before_mono: "drawn_before orc n i \<Longrightarrow> n \<le> m \<Longrightarrow> drawn_before orc m i"
  unfolding drawn_before_def using order_less_le_trans by blast

lemma event_id_fresh:
  assumes "fresh_uuids orc" and "log_ok orc st"
  shows "dict_get (s_events_by_id (lg_store st)) (''evt-'' @ or_uuid orc (lg_tick st + 1)) = None"
proof -
  have "\<not> drawn_before orc (lg_tick st) (''evt-'' @ or_uuid orc (lg_tick st + 1))"
    using assms(1) by (auto simp: drawn_before_def fresh_uuids_def dest: injD)
  then have "''evt-'' @ or_uuid orc (lg_tick st + 1) \<notin> e_event_id ` set (s_events (lg_store st))"
    using assms(2) by (auto simp: log_ok_def simp del: append_Cons)
  then show ?thesis
    using assms(2) by (simp add: log_ok_def store_wf_def events_ok_def map_of_eq_None_iff image_image del: append_Cons)
qed

lemma log_event_ok:
  assumes "fresh_uuids orc" and "log_ok orc st"
  obtains e st' where "log_event orc a st = (Inr e, st')" "log_ok orc st'"
    "s_events (lg_store st') = s_events (lg_store st) @ [e]"
    "e_event_type e = ea_type a" "e_causation_id e = ea_causation a"
    "lg_tick st' = lg_tick st + 2"
    "lg_store st' = (lg_store st)\<lparr>s_events := s_events (lg_store st'), s_events_by_id := s_events_by_id (lg_store st'),
        s_seq_counter := s_seq_counter (lg_store st) + 1\<rparr>"
    "e_event_id e = ''evt-'' @ or_uuid orc (lg_tick st + 1)"
proof -
  let ?e = "event_create orc (lg_tick st) a"
  have "dict_get (s_events_by_id (lg_store st)) (e_event_id ?e) = None"
    using event_id_fresh [OF assms] by (simp add: event_create_def)
  then obtain e' s' where app: "append_event ?e (lg_store st) = Inr (e', s')"
    by (simp add: append_event_def Let_def)
  note eff = append_event_Inr [OF app]
  have wf: "store_wf s'" using assms(2) app by (auto simp: log_ok_def intro: store_wf_append_event)
  have id: "e_event_id e' = ''evt-'' @ or_uuid orc (lg_tick st + 1)" by (simp add: eff(1) event_create_def)
  have "drawn_before orc (lg_tick st + 2) (e_event_id e')"
    unfolding id drawn_before_def by (intro exI [of _ "lg_tick st + 1"]) simp
  moreover have "drawn_before orc (lg_tick st + 2) (e_event_id x)" if "x \<in> set (s_events (lg_store st))" for x
    using that assms(2) drawn_before_mono [of orc "lg_tick st" "e_event_id x" "lg_tick st + 2"] by (simp add: log_ok_def)
  ultimately have "log_ok orc \<lparr>lg_store = s', lg_tick = lg_tick st + 2\<rparr>"
    using wf by (auto simp: log_ok_def eff(2))
  then show thesis
    using app id by (intro that [of e' "\<lparr>lg_store = s', lg_tick = lg_tick st + 2\<rparr>"])
      (simp_all add: log_event_def eff(2) eff(1) event_create_def)
qed

end
