(* ===== verification/Tool_Runtime.thy ===== *)
theory Tool_Runtime
  imports Checkpoints Event_Logging
begin

text \<open>
  The tool runtime (\<open>core/tools/runtime.py\<close>): how a request of a worker is resolved, validated, authorized,
  judged, checkpointed, executed and logged. The code a tool runs is a parameter: an executor takes the
  execution context, the arguments and the state, may change the state in any way, and returns a result or
  raises.
\<close>

section \<open>State\<close>

record tool_state =
  ts_ck :: checkpoint_state
  ts_tick :: nat

abbreviation ts_store :: "tool_state \<Rightarrow> store" where
  "ts_store st \<equiv> ws_store (cs_ws (ts_ck st))"

definition put_ts_store :: "store \<Rightarrow> tool_state \<Rightarrow> tool_state" where
  "put_ts_store s st = st\<lparr>ts_ck := (ts_ck st)\<lparr>cs_ws := (cs_ws (ts_ck st))\<lparr>ws_store := s\<rparr>\<rparr>\<rparr>"

type_synonym executor = "tool_context \<Rightarrow> pydict \<Rightarrow> (tool_state, tool_result) action"
type_synonym validator = "pydict \<Rightarrow> error + unit"

record tool_runtime =
  tm_readings :: readings
  tm_logging :: bool                       \<comment> \<open>whether an event logger is given\<close>
  tm_tools :: "(validator \<times> executor) tool_table"
  tm_safety :: safety_config
  tm_env :: safety_env
  tm_git :: git_env
  tm_sha :: "string \<Rightarrow> string"

definition tool_log_state :: "tool_state \<Rightarrow> log_state" where
  "tool_log_state st = \<lparr>lg_store = ts_store st, lg_tick = ts_tick st\<rparr>"

text \<open>\<open>_emit_event\<close>: the logger is \<open>log_event\<close> of the workforce runtime.\<close>

definition emit_args :: "event_type \<Rightarrow> pydict \<Rightarrow> string \<Rightarrow> string \<Rightarrow> string \<Rightarrow> string option \<Rightarrow> string option \<Rightarrow> event_args" where
  "emit_args ty payload pid tid wid corr caus =
     \<lparr>ea_type = ty, ea_payload = payload, ea_source = ''RUNTIME'', ea_correlation = corr, ea_causation = caus,
      ea_project = Some pid, ea_task = Some tid, ea_worker = Some wid, ea_artifact = None, ea_metadata = []\<rparr>"

definition emit_event :: "tool_runtime \<Rightarrow> event_args \<Rightarrow> (tool_state, event option) action" where
  "emit_event rt a st =
     (if \<not> tm_logging rt then (Inr None, st)
      else case log_event (tm_readings rt) a (tool_log_state st) of
        (r, l) \<Rightarrow> (case r of Inl e \<Rightarrow> Inl e | Inr e \<Rightarrow> Inr (Some e),
                   (put_ts_store (lg_store l) st)\<lparr>ts_tick := lg_tick l\<rparr>))"

definition event_ref :: "event option \<Rightarrow> string option \<Rightarrow> string option" where
  "event_ref e fallback = (case e of None \<Rightarrow> fallback | Some e \<Rightarrow> Some (e_event_id e))"


section \<open>Redaction\<close>

definition secret_key :: "string \<Rightarrow> bool" where
  "secret_key k \<longleftrightarrow> list_ex (contains (upper k)) [''SECRET'', ''PASSWORD'', ''KEY'', ''TOKEN'']"

definition truncation_note :: string where
  "truncation_note = ''... [truncated in event payload]''"

definition sanitize_arg :: "string \<times> pyval \<Rightarrow> string \<times> pyval" where
  "sanitize_arg kv =
     (case kv of (k, v) \<Rightarrow>
        (k, if secret_key k then PStr ''[REDACTED]''
            else case v of PStr s \<Rightarrow> if length s > 200 then PStr (take 200 s @ truncation_note) else v | _ \<Rightarrow> v))"

definition sanitize_payload_args :: "pydict \<Rightarrow> pydict" where
  "sanitize_payload_args args = map sanitize_arg args"


section \<open>Outcomes without execution\<close>

definition plain_result :: "tool_runtime \<Rightarrow> string \<Rightarrow> string \<Rightarrow> tool_status \<Rightarrow> string \<Rightarrow> (tool_state, tool_result) action" where
  "plain_result rt rid tid status msg st =
     (Inr \<lparr>tr_result_id = ''res-'' @ take 8 (or_uuid (tm_readings rt) (ts_tick st)), tr_request_id = rid, tr_tool_id = tid,
        tr_status = status, tr_output = PNone, tr_error_message = Some msg, tr_is_truncated = False,
        tr_duration_ms = or_duration (tm_readings rt) (ts_tick st), tr_artifacts_created = [], tr_metadata = []\<rparr>,
      st\<lparr>ts_tick := ts_tick st + 1\<rparr>)"

definition fail_result :: "tool_runtime \<Rightarrow> tool_request \<Rightarrow> tool_status \<Rightarrow> string \<Rightarrow> string option \<Rightarrow>
    (tool_state, tool_result) action" where
  "fail_result rt req status err caus =
     bind (emit_event rt (emit_args ''TOOL_FAILED''
         [(''tool_id'', PStr (tq_tool_id req)), (''status'', PStr (tool_status_value status)), (''error'', PStr err)]
         (tq_project_id req) (tq_task_id req) (tq_worker_id req) (Some (tq_task_id req)) caus))
       (\<lambda>_. plain_result rt (tq_request_id req) (tq_tool_id req) status err)"


section \<open>Resolution\<close>

definition adhoc_task :: "string \<Rightarrow> string \<Rightarrow> string \<Rightarrow> task" where
  "adhoc_task tid pid now =
     \<lparr>t_id = tid, t_project_id = pid, t_title = ''Ad-hoc task '' @ tid, t_objective = ''Direct tool execution'',
      t_parent_task_id = None, t_status = T_PENDING, t_priority = 1, t_risk = R_LOW, t_assigned_worker = None,
      t_dependencies = [], t_success_criteria = [], t_context_references = [], t_artifacts = [], t_attempts = 0,
      t_max_attempts = 3, t_metadata = [], t_created_at = now, t_started_at = None, t_completed_at = None\<rparr>"

definition system_worker :: "string \<Rightarrow> string \<Rightarrow> worker" where
  "system_worker wid now =
     \<lparr>w_id = wid, w_name = ''System Verifier'', w_role = ''System'',
      w_description = ''Internal runtime/verifier execution context'', w_version = ''1.0.0'', w_capabilities = [],
      w_permissions = [''*''], w_tools = [''*''], w_model_policy = [], w_status = W_REGISTERED, w_active_task_id = None,
      w_created_at = now, w_updated_at = now\<rparr>"

definition resolve_task :: "tool_request \<Rightarrow> string \<Rightarrow> string \<Rightarrow> store \<Rightarrow> task" where
  "resolve_task req pid now s =
     (case get_task s (tq_task_id req) of Some t \<Rightarrow> t | None \<Rightarrow> adhoc_task (tq_task_id req) pid now)"

definition resolve_worker :: "tool_request \<Rightarrow> string \<Rightarrow> store \<Rightarrow> worker option" where
  "resolve_worker req now s =
     (case get_worker s (tq_worker_id req) of
        Some w \<Rightarrow> Some w
      | None \<Rightarrow> if tq_worker_id req \<in> {''verifier'', ''system'', ''runtime''}
          then Some (system_worker (tq_worker_id req) now) else None)"


section \<open>The stages of a request\<close>

text \<open>The events of one request after the first share their scope and name the request event as their cause.\<close>

definition stage_event :: "tool_runtime \<Rightarrow> tool_request \<Rightarrow> project \<Rightarrow> worker \<Rightarrow> string option \<Rightarrow> event_type \<Rightarrow> pydict \<Rightarrow>
    (tool_state, event option) action" where
  "stage_event rt req p w caus ty payload =
     emit_event rt (emit_args ty payload (p_id p) (tq_task_id req) (w_id w) (Some (tq_task_id req)) caus)"

definition refuse :: "tool_runtime \<Rightarrow> tool_request \<Rightarrow> project \<Rightarrow> worker \<Rightarrow> tool_definition \<Rightarrow> string option \<Rightarrow> event_type \<Rightarrow>
    pydict \<Rightarrow> string \<Rightarrow> (tool_state, tool_result) action" where
  "refuse rt req p w d caus ty payload msg =
     bind (stage_event rt req p w caus ty payload)
       (\<lambda>_. plain_result rt (tq_request_id req) (td_id d) TS_DENIED msg)"

text \<open>Stage 6: a checkpoint, unless the task has an active one.\<close>

definition ensure_checkpoint :: "tool_runtime \<Rightarrow> tool_request \<Rightarrow> project \<Rightarrow> worker \<Rightarrow> string option \<Rightarrow> bool \<Rightarrow>
    (tool_state, unit) action" where
  "ensure_checkpoint rt req p w caus required st =
     (if \<not> required \<or> get_active_checkpoint_for_task (tq_task_id req) (ts_ck st) \<noteq> None then (Inr (), st)
      else case create_checkpoint (tm_git rt) (tm_sha rt) (p_id p) (tq_task_id req) (w_id w) None
          (or_uuid (tm_readings rt) (ts_tick st)) (or_now (tm_readings rt) (ts_tick st)) (ts_ck st) of
        (Inl e, ck) \<Rightarrow> (Inl e, st\<lparr>ts_ck := ck, ts_tick := ts_tick st + 1\<rparr>)
      | (Inr c, ck) \<Rightarrow>
          bind (stage_event rt req p w caus ''CHECKPOINT_CREATED''
              [(''checkpoint_id'', PStr (ck_id c)), (''checkpoint_type'', PStr (checkpoint_type_value (ck_type c)))])
            (\<lambda>_. ret ()) (st\<lparr>ts_ck := ck, ts_tick := ts_tick st + 1\<rparr>))"

text \<open>Stages 7 to 9: the execution context, the execution and its outcome.\<close>

definition request_timeout :: "tool_request \<Rightarrow> tool_definition \<Rightarrow> int" where
  "request_timeout req d =
     (case tq_timeout_seconds req of None \<Rightarrow> td_timeout_seconds d | Some n \<Rightarrow> if n = 0 then td_timeout_seconds d else n)"

definition execution_context :: "tool_request \<Rightarrow> project \<Rightarrow> worker \<Rightarrow> tool_definition \<Rightarrow> tool_context" where
  "execution_context req p w d =
     \<lparr>tx_project_id = p_id p, tx_workspace_root = p_root_path p, tx_task_id = tq_task_id req, tx_worker_id = w_id w,
      tx_permissions = w_permissions w, tx_environment = [], tx_timeout_seconds = request_timeout req d,
      tx_output_limit_bytes = td_output_limit_bytes d\<rparr>"

definition outcome_type :: "tool_status \<Rightarrow> event_type" where
  "outcome_type s = (if s = TS_TIMEOUT then ''TOOL_TIMED_OUT'' else if s = TS_FAILED then ''TOOL_FAILED'' else ''TOOL_COMPLETED'')"

definition outcome_payload :: "tool_definition \<Rightarrow> tool_result \<Rightarrow> pydict" where
  "outcome_payload d r =
     [(''tool_id'', PStr (td_id d)), (''status'', PStr (tool_status_value (tr_status r))),
      (''duration_ms'', PFloat (tr_duration_ms r)), (''is_truncated'', PBool (tr_is_truncated r)),
      (''artifacts_count'', PInt (int (length (tr_artifacts_created r)))), (''error'', opt_str (tr_error_message r))]"

definition run_tool :: "tool_runtime \<Rightarrow> tool_request \<Rightarrow> project \<Rightarrow> worker \<Rightarrow> tool_definition \<Rightarrow> executor \<Rightarrow> string option \<Rightarrow>
    (tool_state, tool_result) action" where
  "run_tool rt req p w d execute caus =
     bind (stage_event rt req p w caus ''TOOL_STARTED''
         [(''tool_id'', PStr (td_id d)), (''timeout'', PInt (request_timeout req d))])
       (\<lambda>started.
          bind (try_catch
              (bind (execute (execution_context req p w d) (tq_arguments req))
                 (\<lambda>r. ret (r\<lparr>tr_request_id := tq_request_id req, tr_tool_id := td_id d\<rparr>)))
              (\<lambda>e. plain_result rt (tq_request_id req) (td_id d) TS_FAILED
                 (''Tool unhandled execution exception: '' @ error_message e)))
            (\<lambda>r. bind (stage_event rt req p w (event_ref started caus) (outcome_type (tr_status r)) (outcome_payload d r))
               (\<lambda>_. ret r)))"

text \<open>Stage 5: the decision of the safety layer.\<close>

definition safety_stage :: "tool_runtime \<Rightarrow> tool_request \<Rightarrow> project \<Rightarrow> worker \<Rightarrow> task \<Rightarrow> tool_definition \<Rightarrow> executor \<Rightarrow>
    string option \<Rightarrow> (tool_state, tool_result) action" where
  "safety_stage rt req p w t d execute caus =
     (case evaluate_request (tm_env rt) (tm_safety rt) d p t (tq_arguments req) of
        Inl e \<Rightarrow> raise e
      | Inr sd \<Rightarrow>
          bind (stage_event rt req p w caus ''SAFETY_CHECK_REQUESTED''
              [(''tool_id'', PStr (td_id d)), (''risk_level'', PStr (risk_level_value (sd_risk_level sd))),
               (''decision'', PStr (safety_action_value (sd_decision sd)))])
            (\<lambda>_. if sd_decision sd = SA_DENY then
                   refuse rt req p w d caus ''SAFETY_DENIED''
                     [(''tool_id'', PStr (td_id d)), (''reasons'', str_list (sd_reasons sd))]
                     (''Safety Policy Denied: '' @ join_with ''; '' (sd_reasons sd))
                 else if sd_decision sd = SA_REQUIRES_APPROVAL \<or> sd_decision sd = SA_ESCALATE then
                   refuse rt req p w d caus ''SAFETY_ESCALATED''
                     [(''tool_id'', PStr (td_id d)), (''reasons'', str_list (sd_reasons sd))]
                     (''Safety Policy Requires Human Approval: '' @ join_with ''; '' (sd_reasons sd))
                 else
                   bind (stage_event rt req p w caus ''SAFETY_ALLOWED''
                       [(''tool_id'', PStr (td_id d)), (''risk_level'', PStr (risk_level_value (sd_risk_level sd)))])
                     (\<lambda>_. bind (ensure_checkpoint rt req p w caus (sd_required_checkpoint sd))
                        (\<lambda>_. run_tool rt req p w d execute caus))))"

text \<open>Stage 4: permissions.\<close>

definition permission_stage :: "tool_runtime \<Rightarrow> tool_request \<Rightarrow> project \<Rightarrow> worker \<Rightarrow> task \<Rightarrow> tool_definition \<Rightarrow> executor \<Rightarrow>
    string option \<Rightarrow> (tool_state, tool_result) action" where
  "permission_stage rt req p w t d execute caus =
     (case evaluate_permissions (w_permissions w) (td_permissions_required d) (w_id w) (td_id d) of
        Inl e \<Rightarrow> refuse rt req p w d caus ''TOOL_DENIED''
          [(''tool_id'', PStr (td_id d)), (''reason'', PStr (error_message e))] (error_message e)
      | Inr _ \<Rightarrow>
          bind (stage_event rt req p w caus ''TOOL_AUTHORIZED''
              [(''tool_id'', PStr (td_id d)), (''risk_level'', PStr (risk_level_value (td_risk_level d)))])
            (\<lambda>_. safety_stage rt req p w t d execute caus))"

text \<open>Stages 2 and 3: project, task, worker and tool are looked up, then the arguments are validated.\<close>

definition resolve_stage :: "tool_runtime \<Rightarrow> tool_request \<Rightarrow> string option \<Rightarrow> (tool_state, tool_result) action" where
  "resolve_stage rt req caus st =
     (let s = ts_store st; now = or_now (tm_readings rt) (ts_tick st);
          fail = (\<lambda>msg. fail_result rt req TS_VALIDATION_ERROR msg caus st) in
      case get_project s (tq_project_id req) of
        None \<Rightarrow> fail (''Project '' @ quoted (tq_project_id req) @ '' not found.'')
      | Some p \<Rightarrow>
          (case resolve_worker req now s of
             None \<Rightarrow> fail (''Worker '' @ quoted (tq_worker_id req) @ '' not found.'')
           | Some w \<Rightarrow>
               (case get_tool (tq_tool_id req) (tm_tools rt) of
                  Inl e \<Rightarrow> fail (error_message e)
                | Inr (d, validate, execute) \<Rightarrow>
                    (case validate (tq_arguments req) of
                       Inl e \<Rightarrow> (case e of ToolArgumentValidationError _ _ \<Rightarrow> fail (error_message e) | _ \<Rightarrow> (Inl e, st))
                     | Inr _ \<Rightarrow> permission_stage rt req p w (resolve_task req (p_id p) now s) d execute caus st))))"

definition execute_request :: "tool_runtime \<Rightarrow> tool_request \<Rightarrow> (tool_state, tool_result) action" where
  "execute_request rt req =
     bind (emit_event rt (emit_args ''TOOL_REQUESTED''
         [(''request_id'', PStr (tq_request_id req)), (''tool_id'', PStr (tq_tool_id req)),
          (''arguments'', PDict (sanitize_payload_args (tq_arguments req)))]
         (tq_project_id req) (tq_task_id req) (tq_worker_id req)
         (Some (or_else (tq_correlation_id req) (tq_task_id req))) (tq_causation_id req)))
       (\<lambda>e. resolve_stage rt req (event_ref e None))"

definition shell_validate :: "string \<Rightarrow> validator" where
  "shell_validate tid args =
     (if (case dict_get args ''command'' of Some v \<Rightarrow> truthy v | None \<Rightarrow> False)
         \<or> (case dict_get args ''args'' of Some v \<Rightarrow> truthy v | None \<Rightarrow> False)
      then Inr ()
      else Inl (ToolArgumentValidationError tid [''Either '' @ quoted ''command'' @ '' or '' @ quoted ''args'' @ '' must be provided.'']))"


section \<open>Frame of the log\<close>

text \<open>A state without its event log and its count of readings; logging changes nothing else.\<close>

definition blank_log :: "store \<Rightarrow> store" where
  "blank_log s = s\<lparr>s_events := [], s_events_by_id := [], s_seq_counter := 0\<rparr>"

definition without_log :: "tool_state \<Rightarrow> tool_state" where
  "without_log st = (put_ts_store (blank_log (ts_store st)) st)\<lparr>ts_tick := 0\<rparr>"

definition same_but_log :: "tool_state \<Rightarrow> tool_state \<Rightarrow> bool" where
  "same_but_log st st' \<longleftrightarrow> without_log st = without_log st'"

lemma same_but_log_rel: "reflp same_but_log" "transp same_but_log"
  by (auto simp: same_but_log_def intro!: reflpI transpI)

lemma log_event_frame: "log_event orc a l = (r, l') \<Longrightarrow> blank_log (lg_store l') = blank_log (lg_store l)"
  by (auto simp: log_event_def append_event_def Let_def blank_log_def split: if_splits)

lemma emit_event_frame: "same_but_log st (snd (emit_event rt a st))"
proof (cases "tm_logging rt")
  case True
  obtain r l where l: "log_event (tm_readings rt) a (tool_log_state st) = (r, l)" by force
  have "blank_log (lg_store l) = blank_log (ts_store st)" using log_event_frame[OF l] by (simp add: tool_log_state_def)
  then show ?thesis
    by (simp add: emit_event_def True l same_but_log_def without_log_def put_ts_store_def)
qed (simp add: emit_event_def same_but_log_def)

lemma plain_result_frame: "same_but_log st (snd (plain_result rt rid tid status msg st))"
  by (simp add: plain_result_def same_but_log_def without_log_def put_ts_store_def)

lemma keeps_log:
  "keeps same_but_log (emit_event rt a)" "keeps same_but_log (stage_event rt req p w caus ty payload)"
  "keeps same_but_log (plain_result rt rid tid status msg)" "keeps same_but_log (fail_result rt req status' err caus)"
  "keeps same_but_log (refuse rt req p w d caus ty payload msg)"
proof -
  show emit: "keeps same_but_log (emit_event rt a)" for a by (simp add: keeps_def emit_event_frame)
  show plain: "keeps same_but_log (plain_result rt rid tid status msg)" for rid tid status msg
    by (simp add: keeps_def plain_result_frame)
  show stage: "keeps same_but_log (stage_event rt req p w caus ty payload)" for payload by (simp add: stage_event_def emit)
  show "keeps same_but_log (fail_result rt req status' err caus)"
    unfolding fail_result_def by (intro keeps_bind same_but_log_rel emit plain)
  show "keeps same_but_log (refuse rt req p w d caus ty payload msg)"
    unfolding refuse_def by (intro keeps_bind same_but_log_rel stage plain)
qed

lemma same_but_log_parts:
  assumes "same_but_log st st'"
  shows "get_project (ts_store st') = get_project (ts_store st)" and "get_worker (ts_store st') = get_worker (ts_store st)"
    and "get_task (ts_store st') = get_task (ts_store st)" and "cs_table (ts_ck st') = cs_table (ts_ck st)"
    and "ws_fs (cs_ws (ts_ck st')) = ws_fs (cs_ws (ts_ck st))"
proof -
  from assms have "s_projects (ts_store st') = s_projects (ts_store st)" "s_workers (ts_store st') = s_workers (ts_store st)"
    "s_tasks (ts_store st') = s_tasks (ts_store st)" "cs_table (ts_ck st') = cs_table (ts_ck st)"
    "ws_fs (cs_ws (ts_ck st')) = ws_fs (cs_ws (ts_ck st))"
    by (auto simp: same_but_log_def without_log_def put_ts_store_def blank_log_def
        dest: arg_cong[where f = "\<lambda>x. s_projects (ts_store x)"] arg_cong[where f = "\<lambda>x. s_workers (ts_store x)"]
          arg_cong[where f = "\<lambda>x. s_tasks (ts_store x)"] arg_cong[where f = "\<lambda>x. cs_table (ts_ck x)"]
          arg_cong[where f = "\<lambda>x. ws_fs (cs_ws (ts_ck x))"])
  then show "get_project (ts_store st') = get_project (ts_store st)" "get_worker (ts_store st') = get_worker (ts_store st)"
    "get_task (ts_store st') = get_task (ts_store st)" "cs_table (ts_ck st') = cs_table (ts_ck st)"
    "ws_fs (cs_ws (ts_ck st')) = ws_fs (cs_ws (ts_ck st))"
    by (simp_all add: fun_eq_iff get_project_def get_worker_def get_task_def)
qed


section \<open>Complete mediation\<close>

definition with_executor :: "executor \<Rightarrow> tool_runtime \<Rightarrow> tool_runtime" where
  "with_executor f rt = rt\<lparr>tm_tools := map (\<lambda>(k, d, v, x). (k, d, v, f)) (tm_tools rt)\<rparr>"

definition safety_allows :: "tool_runtime \<Rightarrow> tool_request \<Rightarrow> project \<Rightarrow> task \<Rightarrow> tool_definition \<Rightarrow> bool" where
  "safety_allows rt req p t d \<longleftrightarrow>
     (case evaluate_request (tm_env rt) (tm_safety rt) d p t (tq_arguments req) of
        Inl _ \<Rightarrow> False | Inr sd \<Rightarrow> sd_decision sd \<in> {SA_ALLOW, SA_ALLOW_WITH_CHECKPOINT})"

text \<open>Everything that must hold before a tool may run; the clock reading of an ad-hoc task plays no role.\<close>

definition admitted :: "tool_runtime \<Rightarrow> tool_request \<Rightarrow> tool_state \<Rightarrow> bool" where
  "admitted rt req st \<longleftrightarrow>
     (case get_project (ts_store st) (tq_project_id req) of None \<Rightarrow> False | Some p \<Rightarrow>
     (case resolve_worker req [] (ts_store st) of None \<Rightarrow> False | Some w \<Rightarrow>
     (case get_tool (tq_tool_id req) (tm_tools rt) of Inl _ \<Rightarrow> False | Inr (d, validate, _) \<Rightarrow>
        validate (tq_arguments req) = Inr ()
        \<and> evaluate_permissions (w_permissions w) (td_permissions_required d) (w_id w) (td_id d) = Inr ()
        \<and> safety_allows rt req p (resolve_task req (p_id p) [] (ts_store st)) d)))"

lemma evaluate_request_task:
  assumes eq: "task_allowed_paths t = task_allowed_paths t'"
  shows "evaluate_request env cfg d p t args = evaluate_request env cfg d p t' args"
  unfolding evaluate_request_def eq ..

lemma resolve_task_now: "task_allowed_paths (resolve_task req pid now s) = task_allowed_paths (resolve_task req pid now' s)"
  by (simp add: resolve_task_def adhoc_task_def task_allowed_paths_def split: option.split)

lemma safety_allows_now:
  "safety_allows rt req p (resolve_task req pid now s) d = safety_allows rt req p (resolve_task req pid now' s) d"
  unfolding safety_allows_def using evaluate_request_task[OF resolve_task_now] by metis

lemma resolve_worker_now:
  "resolve_worker req now s = Some w \<Longrightarrow>
    \<exists>w'. resolve_worker req now' s = Some w' \<and> w_permissions w' = w_permissions w \<and> w_id w' = w_id w"
  by (auto simp: resolve_worker_def system_worker_def split: option.splits if_splits)

lemma admitted_same_but_log: "same_but_log st st' \<Longrightarrow> admitted rt req st' = admitted rt req st"
  unfolding admitted_def resolve_worker_def resolve_task_def by (simp only: same_but_log_parts)

lemma with_executor_fields [simp]:
  "tm_readings (with_executor f rt) = tm_readings rt" "tm_logging (with_executor f rt) = tm_logging rt"
  "tm_safety (with_executor f rt) = tm_safety rt" "tm_env (with_executor f rt) = tm_env rt"
  "tm_git (with_executor f rt) = tm_git rt" "tm_sha (with_executor f rt) = tm_sha rt"
  by (simp_all add: with_executor_def)

lemma with_executor_log [simp]:
  "emit_event (with_executor f rt) = emit_event rt" "stage_event (with_executor f rt) = stage_event rt"
  "plain_result (with_executor f rt) = plain_result rt" "fail_result (with_executor f rt) = fail_result rt"
  "refuse (with_executor f rt) = refuse rt" "ensure_checkpoint (with_executor f rt) = ensure_checkpoint rt"
  "run_tool (with_executor f rt) = run_tool rt" "safety_stage (with_executor f rt) = safety_stage rt"
  "permission_stage (with_executor f rt) = permission_stage rt" "safety_allows (with_executor f rt) = safety_allows rt"
proof -
  show emit: "emit_event (with_executor f rt) = emit_event rt" by (intro ext) (simp only: emit_event_def with_executor_fields)
  show stage: "stage_event (with_executor f rt) = stage_event rt" by (intro ext) (simp only: stage_event_def emit)
  show plain: "plain_result (with_executor f rt) = plain_result rt" by (intro ext) (simp only: plain_result_def with_executor_fields)
  show "fail_result (with_executor f rt) = fail_result rt" by (intro ext) (simp only: fail_result_def emit plain)
  show refuse: "refuse (with_executor f rt) = refuse rt" by (intro ext) (simp only: refuse_def stage plain)
  show ensure: "ensure_checkpoint (with_executor f rt) = ensure_checkpoint rt"
    by (intro ext) (simp only: ensure_checkpoint_def stage with_executor_fields)
  show run: "run_tool (with_executor f rt) = run_tool rt" by (intro ext) (simp only: run_tool_def stage plain)
  show safety: "safety_stage (with_executor f rt) = safety_stage rt"
    by (intro ext) (simp only: safety_stage_def stage refuse ensure run with_executor_fields)
  show "permission_stage (with_executor f rt) = permission_stage rt"
    by (intro ext) (simp only: permission_stage_def stage refuse safety)
  show "safety_allows (with_executor f rt) = safety_allows rt"
    by (intro ext) (simp only: safety_allows_def with_executor_fields)
qed

lemma get_tool_with_executor:
  "get_tool tid (tm_tools (with_executor f rt)) = map_sum id (\<lambda>(d, v, x). (d, v, f)) (get_tool tid (tm_tools rt))"
proof -
  have "dict_get (map (\<lambda>(k, d, v, x). (k, d, v, f)) tbl) tid = map_option (\<lambda>(d, v, x). (d, v, f)) (dict_get tbl tid)"
    for tbl :: "(validator \<times> executor) tool_table"
    by (induction tbl) auto
  then show ?thesis by (auto simp: with_executor_def get_tool_def split: option.split)
qed

lemma admitted_with_executor [simp]: "admitted (with_executor f rt) req st = admitted rt req st"
  by (auto simp: admitted_def get_tool_with_executor split: option.splits sum.splits prod.splits)

lemma safety_stage_refused:
  assumes "\<not> safety_allows rt req p t d"
  shows "keeps same_but_log (safety_stage rt req p w t d x caus)" and "safety_stage rt req p w t d x caus = safety_stage rt req p w t d y caus"
proof -
  note refl = same_but_log_rel(1) and trans = same_but_log_rel(2)
  show "keeps same_but_log (safety_stage rt req p w t d x caus)"
  proof (cases "evaluate_request (tm_env rt) (tm_safety rt) d p t (tq_arguments req)")
    case (Inr sd)
    then have "sd_decision sd = SA_DENY \<or> sd_decision sd = SA_REQUIRES_APPROVAL \<or> sd_decision sd = SA_ESCALATE"
      using assms by (cases "sd_decision sd") (auto simp: safety_allows_def)
    then show ?thesis by (auto simp: safety_stage_def Inr intro!: keeps_bind[OF trans] keeps_log)
  qed (simp add: safety_stage_def keeps_raise[OF refl])
  show "safety_stage rt req p w t d x caus = safety_stage rt req p w t d y caus"
  proof (cases "evaluate_request (tm_env rt) (tm_safety rt) d p t (tq_arguments req)")
    case (Inr sd)
    then have "sd_decision sd = SA_DENY \<or> sd_decision sd = SA_REQUIRES_APPROVAL \<or> sd_decision sd = SA_ESCALATE"
      using assms by (cases "sd_decision sd") (auto simp: safety_allows_def)
    then show ?thesis by (auto simp: safety_stage_def Inr)
  qed (simp add: safety_stage_def)
qed

lemma permission_stage_refused:
  assumes "evaluate_permissions (w_permissions w) (td_permissions_required d) (w_id w) (td_id d) = Inr () \<Longrightarrow>
    \<not> safety_allows rt req p t d"
  shows "keeps same_but_log (permission_stage rt req p w t d x caus)"
    and "permission_stage rt req p w t d x caus = permission_stage rt req p w t d y caus"
proof -
  show "keeps same_but_log (permission_stage rt req p w t d x caus)"
    using assms by (auto simp: permission_stage_def split: sum.split
        intro!: keeps_bind[OF same_but_log_rel(2)] keeps_log safety_stage_refused(1))
  show "permission_stage rt req p w t d x caus = permission_stage rt req p w t d y caus"
  proof (cases "evaluate_permissions (w_permissions w) (td_permissions_required d) (w_id w) (td_id d)")
    case (Inr u)
    then show ?thesis
      using safety_stage_refused(2)[OF assms, of w x caus y] by (simp add: permission_stage_def)
  qed (simp add: permission_stage_def)
qed

text \<open>The worker is looked up at the time of the request, its permissions do not depend on that time.\<close>

lemma resolve_stage_refused:
  assumes "\<not> admitted rt req st"
  shows "same_but_log st (snd (resolve_stage rt req caus st))"
    and "resolve_stage (with_executor f rt) req caus st = resolve_stage rt req caus st"
proof -
  let ?now = "or_now (tm_readings rt) (ts_tick st)"
  have fail: "same_but_log st (snd (fail_result rt req TS_VALIDATION_ERROR msg caus st))" for msg
    using keeps_log(4)[of rt req TS_VALIDATION_ERROR msg caus] by (simp add: keeps_def)
  have stage: "same_but_log st (snd (permission_stage rt req p w (resolve_task req (p_id p) ?now (ts_store st)) d x caus st))
      \<and> permission_stage rt req p w (resolve_task req (p_id p) ?now (ts_store st)) d x caus =
        permission_stage rt req p w (resolve_task req (p_id p) ?now (ts_store st)) d f caus"
    if look: "get_project (ts_store st) (tq_project_id req) = Some p" "resolve_worker req ?now (ts_store st) = Some w"
      "get_tool (tq_tool_id req) (tm_tools rt) = Inr (d, v, x)" "v (tq_arguments req) = Inr ()" for p w d v x
  proof -
    obtain w' where w': "resolve_worker req [] (ts_store st) = Some w'" "w_permissions w' = w_permissions w" "w_id w' = w_id w"
      using resolve_worker_now[OF look(2)] by blast
    have refused: "evaluate_permissions (w_permissions w) (td_permissions_required d) (w_id w) (td_id d) = Inr () \<Longrightarrow>
        \<not> safety_allows rt req p (resolve_task req (p_id p) ?now (ts_store st)) d"
      using assms look w' unfolding admitted_def by (simp add: safety_allows_now[of rt req p "p_id p" ?now _ _ "[]"])
    show ?thesis using permission_stage_refused[OF refused] unfolding keeps_def by blast
  qed
  show "same_but_log st (snd (resolve_stage rt req caus st))"
    unfolding resolve_stage_def Let_def
    using fail stage[THEN conjunct1] by (auto simp: same_but_log_def[of st st] split: option.split sum.split prod.split error.split)
  show "resolve_stage (with_executor f rt) req caus st = resolve_stage rt req caus st"
    unfolding resolve_stage_def Let_def with_executor_fields with_executor_log get_tool_with_executor
    using stage[THEN conjunct2] by (auto split: option.split sum.split prod.split)
qed

text \<open>
  C36: complete mediation: a request that is not admitted, because the project, the worker or the tool is
  unknown, the arguments are invalid, a permission is missing or the safety layer does not allow it,
  changes nothing but the event log, and its outcome is the same whatever code the tools hold.
\<close>

theorem complete_mediation:
  assumes "\<not> admitted rt req st"
  shows "same_but_log st (snd (execute_request rt req st))
    \<and> execute_request (with_executor f rt) req st = execute_request rt req st"
proof -
  define a where "a = emit_args ''TOOL_REQUESTED''
         [(''request_id'', PStr (tq_request_id req)), (''tool_id'', PStr (tq_tool_id req)),
          (''arguments'', PDict (sanitize_payload_args (tq_arguments req)))]
         (tq_project_id req) (tq_task_id req) (tq_worker_id req)
         (Some (or_else (tq_correlation_id req) (tq_task_id req))) (tq_causation_id req)"
  have run: "execute_request rt' req st = bind (emit_event rt' a) (\<lambda>e. resolve_stage rt' req (event_ref e None)) st" for rt'
    by (simp add: execute_request_def a_def)
  obtain r st1 where emit: "emit_event rt a st = (r, st1)" by force
  then have same: "same_but_log st st1" using emit_event_frame[of st rt a] by simp
  then have refused: "\<not> admitted rt req st1" using assms by (simp add: admitted_same_but_log)
  show ?thesis
    using resolve_stage_refused[OF refused] same same_but_log_rel(2)
    by (auto simp: run bind_def emit split: sum.split dest: transpD)
qed


definition sample_readings :: readings where
  "sample_readings = \<lparr>or_uuid = (\<lambda>n. replicate n CHR ''u''), or_now = (\<lambda>_. ''now''), or_duration = (\<lambda>_. ''0.0'')\<rparr>"

definition idle_executor :: executor where
  "idle_executor ctx args =
     ret \<lparr>tr_result_id = ''r'', tr_request_id = [], tr_tool_id = [], tr_status = TS_SUCCESS, tr_output = PNone,
       tr_error_message = None, tr_is_truncated = False, tr_duration_ms = ''0.0'', tr_artifacts_created = [], tr_metadata = []\<rparr>"

definition sample_runtime :: tool_runtime where
  "sample_runtime = \<lparr>tm_readings = sample_readings, tm_logging = True,
     tm_tools = map (\<lambda>d. (td_id d, d, validate_arguments d, idle_executor)) default_tools,
     tm_safety = default_safety_config, tm_env = sample_safety_env, tm_git = no_git, tm_sha = (\<lambda>x. x)\<rparr>"

definition sample_request :: "string \<Rightarrow> string \<Rightarrow> pydict \<Rightarrow> tool_request" where
  "sample_request wid tid args = \<lparr>tq_project_id = ''p'', tq_task_id = ''t'', tq_worker_id = wid, tq_tool_id = tid,
     tq_arguments = args, tq_request_id = ''q'', tq_correlation_id = None, tq_causation_id = None,
     tq_timeout_seconds = None, tq_metadata = [], tq_created_at = ''now''\<rparr>"

definition sample_tool_state :: tool_state where
  "sample_tool_state = \<lparr>ts_ck = \<lparr>cs_ws = sample_workspace, cs_table = []\<rparr>, ts_tick = 0\<rparr>"

theorem complete_mediation_witness:
  "same_but_log sample_tool_state (snd (execute_request sample_runtime
     (sample_request ''w'' ''filesystem.write_file'' [(''path'', PStr ''a'')]) sample_tool_state))"
proof -
  have "\<not> admitted sample_runtime (sample_request ''w'' ''filesystem.write_file'' [(''path'', PStr ''a'')]) sample_tool_state"
    by code_simp
  then show ?thesis using complete_mediation by blast
qed


section \<open>Checkpoint before execution\<close>

definition agree_checkpointed :: "string \<Rightarrow> executor \<Rightarrow> executor \<Rightarrow> bool" where
  "agree_checkpointed tid f g \<longleftrightarrow>
     (\<forall>ctx args st. get_active_checkpoint_for_task tid (ts_ck st) \<noteq> None \<longrightarrow> f ctx args st = g ctx args st)"

lemma active_same_but_log:
  "same_but_log st st' \<Longrightarrow> get_active_checkpoint_for_task tid (ts_ck st') = get_active_checkpoint_for_task tid (ts_ck st)"
  by (simp add: get_active_checkpoint_for_task_def same_but_log_parts)

lemma stage_event_frame: "stage_event rt req p w caus ty payload st = (r, st') \<Longrightarrow> same_but_log st st'"
  using keeps_log(2)[of rt req p w caus ty payload] unfolding keeps_def by (metis snd_conv)

lemma bind_cong:
  assumes "\<And>x st'. m st = (Inr x, st') \<Longrightarrow> f x st' = g x st'"
  shows "bind m f st = bind m g st"
  using assms by (auto simp: bind_def split: prod.split sum.split)

lemma run_tool_agree:
  assumes "agree_checkpointed (tq_task_id req) f g" and "get_active_checkpoint_for_task (tq_task_id req) (ts_ck st) \<noteq> None"
  shows "run_tool rt req p w d f caus st = run_tool rt req p w d g caus st"
  unfolding run_tool_def
proof (rule bind_cong)
  fix x st' assume "stage_event rt req p w caus ''TOOL_STARTED''
     [(''tool_id'', PStr (td_id d)), (''timeout'', PInt (request_timeout req d))] st = (Inr x, st')"
  then have "get_active_checkpoint_for_task (tq_task_id req) (ts_ck st') \<noteq> None"
    using assms(2) by (simp add: active_same_but_log[OF stage_event_frame])
  then have "f ctx args st' = g ctx args st'" for ctx args using assms(1) by (simp add: agree_checkpointed_def)
  then show "bind (try_catch (bind (f (execution_context req p w d) (tq_arguments req))
        (\<lambda>r. ret (r\<lparr>tr_request_id := tq_request_id req, tr_tool_id := td_id d\<rparr>)))
        (\<lambda>e. plain_result rt (tq_request_id req) (td_id d) TS_FAILED
           (''Tool unhandled execution exception: '' @ error_message e)))
      (\<lambda>r. bind (stage_event rt req p w (event_ref x caus) (outcome_type (tr_status r)) (outcome_payload d r)) (\<lambda>_. ret r)) st' =
    bind (try_catch (bind (g (execution_context req p w d) (tq_arguments req))
        (\<lambda>r. ret (r\<lparr>tr_request_id := tq_request_id req, tr_tool_id := td_id d\<rparr>)))
        (\<lambda>e. plain_result rt (tq_request_id req) (td_id d) TS_FAILED
           (''Tool unhandled execution exception: '' @ error_message e)))
      (\<lambda>r. bind (stage_event rt req p w (event_ref x caus) (outcome_type (tr_status r)) (outcome_payload d r)) (\<lambda>_. ret r)) st'"
    by (simp add: bind_def try_catch_def)
qed

lemma snd_dict_set: "v \<in> snd ` set (dict_set k v d)"
  by (induction d) auto

lemma create_checkpoint_active:
  assumes "create_checkpoint g sha pid tid wid cid nid now cs = (Inr c, cs')"
  shows "get_active_checkpoint_for_task tid cs' \<noteq> None"
proof -
  from assms have "ck_task_id c = tid \<and> ck_status c = CS_ACTIVE \<and> c \<in> snd ` set (cs_table cs')"
    by (auto simp: create_checkpoint_def captured_checkpoint_def put_checkpoint_def Let_def snd_dict_set
        split: option.splits sum.splits prod.splits)
  then show ?thesis by (auto simp: get_active_checkpoint_for_task_def find_None_iff)
qed

lemma ensure_checkpoint_active:
  assumes "ensure_checkpoint rt req p w caus True st = (Inr u, st')"
  shows "get_active_checkpoint_for_task (tq_task_id req) (ts_ck st') \<noteq> None"
proof (cases "get_active_checkpoint_for_task (tq_task_id req) (ts_ck st)")
  case None
  then obtain c ck where create: "create_checkpoint (tm_git rt) (tm_sha rt) (p_id p) (tq_task_id req) (w_id w) None
      (or_uuid (tm_readings rt) (ts_tick st)) (or_now (tm_readings rt) (ts_tick st)) (ts_ck st) = (Inr c, ck)"
    using assms by (auto simp: ensure_checkpoint_def split: prod.splits sum.splits)
  then obtain e where "stage_event rt req p w caus ''CHECKPOINT_CREATED''
              [(''checkpoint_id'', PStr (ck_id c)), (''checkpoint_type'', PStr (checkpoint_type_value (ck_type c)))]
      (st\<lparr>ts_ck := ck, ts_tick := ts_tick st + 1\<rparr>) = (Inr e, st')"
    using assms None by (auto simp: ensure_checkpoint_def bind_def split: prod.splits sum.splits)
  from active_same_but_log[OF stage_event_frame[OF this]] create_checkpoint_active[OF create] show ?thesis by simp
qed (use assms in \<open>simp add: ensure_checkpoint_def\<close>)

lemma safety_stage_agree:
  assumes "agree_checkpointed (tq_task_id req) f g" and "sc_auto_checkpoint (tm_safety rt)"
    and "mutating_request (td_id d) (tq_arguments req)"
  shows "safety_stage rt req p w t d f caus st = safety_stage rt req p w t d g caus st"
proof (cases "evaluate_request (tm_env rt) (tm_safety rt) d p t (tq_arguments req)")
  case (Inr sd)
  note facts = mutation_needs_checkpoint[OF Inr assms(2)]
  show ?thesis
  proof (cases "sd_decision sd = SA_ALLOW_WITH_CHECKPOINT")
    case True
    then have "sd_required_checkpoint sd" using facts by simp
    then have "bind (ensure_checkpoint rt req p w caus (sd_required_checkpoint sd)) (\<lambda>_. run_tool rt req p w d f caus) =
        bind (ensure_checkpoint rt req p w caus (sd_required_checkpoint sd)) (\<lambda>_. run_tool rt req p w d g caus)"
      using run_tool_agree[OF assms(1)] ensure_checkpoint_active by (intro ext bind_cong) simp
    then show ?thesis by (simp add: safety_stage_def Inr True)
  next
    case False
    moreover have "sd_decision sd \<noteq> SA_ALLOW" using facts assms(3) by blast
    ultimately have "sd_decision sd = SA_DENY \<or> sd_decision sd = SA_REQUIRES_APPROVAL \<or> sd_decision sd = SA_ESCALATE"
      by (cases "sd_decision sd") auto
    then show ?thesis by (auto simp: safety_stage_def Inr)
  qed
qed (simp add: safety_stage_def)


definition raising_executor :: executor where
  "raising_executor ctx args st =
     (if get_active_checkpoint_for_task ''t'' (ts_ck st) = None then raise (OtherException ''no checkpoint'') st
      else idle_executor ctx args st)"




section \<open>What the log shows\<close>

definition payload_size :: "pyval \<Rightarrow> nat" where
  "payload_size v = (case v of PStr s \<Rightarrow> length s | _ \<Rightarrow> 0)"

text \<open>
  Bounds and redaction of what the log shows of a request's arguments: the keys are those of the
  request, a top-level text value has at most 232 characters, the value of a secret key is
  \<open>[REDACTED]\<close> whatever it was, and every other value appears unchanged or cut.
\<close>

theorem logged_arguments_bounded:
  "map fst (sanitize_payload_args args) = map fst args
    \<and> (\<forall>(k, v) \<in> set (sanitize_payload_args args). payload_size v \<le> 232)
    \<and> (\<forall>i < length args. let (k, v) = args ! i; v' = snd (sanitize_payload_args args ! i) in
         if secret_key k then v' = PStr ''[REDACTED]''
         else if payload_size v \<le> 200 then v' = v
         else \<exists>s. v = PStr s \<and> v' = PStr (take 200 s @ truncation_note))"
proof -
  have "length truncation_note = 32" by (simp add: truncation_note_def)
  then have bound: "payload_size (snd (sanitize_arg kv)) \<le> 232" for kv
    by (auto simp: sanitize_arg_def payload_size_def split: prod.split pyval.split)
  have "\<forall>(k, v) \<in> set (sanitize_payload_args args). payload_size v \<le> 232"
  proof clarify
    fix k v assume "(k, v) \<in> set (sanitize_payload_args args)"
    then obtain kv where "(k, v) = sanitize_arg kv" by (auto simp: sanitize_payload_args_def)
    then show "payload_size v \<le> 232" using bound[of kv] by (metis snd_conv)
  qed
  then show ?thesis
    by (auto simp: sanitize_payload_args_def sanitize_arg_def payload_size_def comp_def case_prod_unfold Let_def
        split: pyval.split)
qed

theorem logged_arguments_bounded_witness:
  "snd (sanitize_payload_args [(''api_key'', PStr ''k''), (''text'', PStr ''hi'')] ! 0) = PStr ''[REDACTED]''"
proof -
  have "secret_key ''api_key''" by code_simp
  then show ?thesis
    using logged_arguments_bounded[of "[(''api_key'', PStr ''k''), (''text'', PStr ''hi'')]"]
    by (auto simp: Let_def split: prod.splits)
qed

lemma tool_log_state_sel [simp]: "lg_store (tool_log_state st) = ts_store st" "lg_tick (tool_log_state st) = ts_tick st"
  by (simp_all add: tool_log_state_def)

text \<open>How a request moves along, as far as the log is concerned: the types of the events it appends.\<close>

definition log_grows :: "tool_runtime \<Rightarrow> tool_state \<Rightarrow> event_type list \<Rightarrow> tool_state \<Rightarrow> bool" where
  "log_grows rt st tys st' \<longleftrightarrow> log_ok (tm_readings rt) (tool_log_state st')
     \<and> (\<exists>es. s_events (ts_store st') = s_events (ts_store st) @ es \<and> map e_event_type es = tys)"

lemma log_grows_trans: "log_grows rt a xs b \<Longrightarrow> log_grows rt b ys c \<Longrightarrow> log_grows rt a (xs @ ys) c"
  by (auto simp: log_grows_def)

definition ready_log :: "tool_runtime \<Rightarrow> tool_state \<Rightarrow> bool" where
  "ready_log rt st \<longleftrightarrow> tm_logging rt \<and> fresh_uuids (tm_readings rt) \<and> log_ok (tm_readings rt) (tool_log_state st)"

lemma emit_event_grows:
  assumes "ready_log rt st"
  obtains e st' where "emit_event rt a st = (Inr (Some e), st')" "log_grows rt st [ea_type a] st'" "ready_log rt st'"
    "same_but_log st st'" "e_causation_id e = ea_causation a"
proof -
  have fresh: "fresh_uuids (tm_readings rt)" and ok: "log_ok (tm_readings rt) (tool_log_state st)" and on: "tm_logging rt"
    using assms by (simp_all add: ready_log_def)
  obtain e l where log: "log_event (tm_readings rt) a (tool_log_state st) = (Inr e, l)" "log_ok (tm_readings rt) l"
    "s_events (lg_store l) = s_events (lg_store (tool_log_state st)) @ [e]" "e_event_type e = ea_type a"
    "e_causation_id e = ea_causation a"
    by (rule log_event_ok[OF fresh ok]) blast
  define st' where "st' = (put_ts_store (lg_store l) st)\<lparr>ts_tick := lg_tick l\<rparr>"
  have emit: "emit_event rt a st = (Inr (Some e), st')" by (simp add: emit_event_def on log(1) st'_def)
  have l: "tool_log_state st' = l" by (simp add: tool_log_state_def st'_def put_ts_store_def)
  moreover have "ts_store st' = lg_store l" by (simp add: st'_def put_ts_store_def)
  ultimately have "log_grows rt st [ea_type a] st'" using log(2-4) by (simp add: log_grows_def)
  moreover have "ready_log rt st'" using fresh on log(2) l by (simp add: ready_log_def)
  moreover have "same_but_log st st'" using emit_event_frame[of st rt a] emit by simp
  ultimately show thesis using that[OF emit] log(5) by blast
qed

lemma drawn_more:
  "ready_log rt st \<Longrightarrow> ready_log rt (st\<lparr>ts_tick := ts_tick st + k\<rparr>)"
  by (auto simp: ready_log_def log_ok_def tool_log_state_def intro: drawn_before_mono)

lemma plain_result_status:
  obtains r where "plain_result rt rid tid status msg st = (Inr r, st\<lparr>ts_tick := ts_tick st + 1\<rparr>)" "tr_status r = status"
  by (simp add: plain_result_def)

lemma refuse_grows:
  assumes "ready_log rt st"
  obtains r st' where "refuse rt req p w d caus ty payload msg st = (Inr r, st')" "log_grows rt st [ty] st'" "tr_status r = TS_DENIED"
proof -
  obtain e st1 where *: "emit_event rt (emit_args ty payload (p_id p) (tq_task_id req) (w_id w) (Some (tq_task_id req)) caus) st =
      (Inr (Some e), st1)" "log_grows rt st [ty] st1" "ready_log rt st1"
    by (rule emit_event_grows[OF assms, of "emit_args ty payload (p_id p) (tq_task_id req) (w_id w) (Some (tq_task_id req)) caus"])
      (simp add: emit_args_def)
  have "log_ok (tm_readings rt) (tool_log_state (st1\<lparr>ts_tick := ts_tick st1 + 1\<rparr>))"
    using drawn_more[OF *(3), of 1] by (simp add: ready_log_def)
  then have "log_grows rt st [ty] (st1\<lparr>ts_tick := ts_tick st1 + 1\<rparr>)" using *(2) by (simp add: log_grows_def)
  moreover obtain r where "plain_result rt (tq_request_id req) (td_id d) TS_DENIED msg st1 =
      (Inr r, st1\<lparr>ts_tick := ts_tick st1 + 1\<rparr>)" "tr_status r = TS_DENIED"
    by (rule plain_result_status)
  ultimately show thesis
    using *(1) by (intro that) (simp_all add: refuse_def stage_event_def bind_def)
qed


lemma fail_result_grows:
  assumes "ready_log rt st"
  obtains r st' where "fail_result rt req status msg caus st = (Inr r, st')" "log_grows rt st [''TOOL_FAILED''] st'" "tr_status r = status"
proof -
  let ?a = "emit_args ''TOOL_FAILED''
         [(''tool_id'', PStr (tq_tool_id req)), (''status'', PStr (tool_status_value status)), (''error'', PStr msg)]
         (tq_project_id req) (tq_task_id req) (tq_worker_id req) (Some (tq_task_id req)) caus"
  obtain e st1 where *: "emit_event rt ?a st = (Inr (Some e), st1)" "log_grows rt st [''TOOL_FAILED''] st1" "ready_log rt st1"
    by (rule emit_event_grows[OF assms, of ?a]) (simp add: emit_args_def)
  have "log_ok (tm_readings rt) (tool_log_state (st1\<lparr>ts_tick := ts_tick st1 + 1\<rparr>))"
    using drawn_more[OF *(3), of 1] by (simp add: ready_log_def)
  then have "log_grows rt st [''TOOL_FAILED''] (st1\<lparr>ts_tick := ts_tick st1 + 1\<rparr>)" using *(2) by (simp add: log_grows_def)
  moreover obtain r where "plain_result rt (tq_request_id req) (tq_tool_id req) status msg st1 =
      (Inr r, st1\<lparr>ts_tick := ts_tick st1 + 1\<rparr>)" "tr_status r = status"
    by (rule plain_result_status)
  ultimately show thesis
    using *(1) by (intro that) (simp_all add: fail_result_def bind_def)
qed

lemma evaluate_request_total:
  assumes "\<And>e. shell_check env (td_id d) args \<noteq> Inl e"
  shows "\<exists>sd. evaluate_request env cfg d p t args = Inr sd"
  using assms by (auto simp: evaluate_request_def Let_def case_prod_unfold split: option.split sum.split)

lemma stage_event_grows:
  assumes "ready_log rt st"
  obtains e st' where "stage_event rt req p w caus ty payload st = (Inr e, st')" "log_grows rt st [ty] st'" "ready_log rt st'"
    "same_but_log st st'"
proof -
  obtain e st1 where "emit_event rt (emit_args ty payload (p_id p) (tq_task_id req) (w_id w) (Some (tq_task_id req)) caus) st =
      (Inr (Some e), st1)" "log_grows rt st [ty] st1" "ready_log rt st1" "same_but_log st st1"
    by (rule emit_event_grows[OF assms, of "emit_args ty payload (p_id p) (tq_task_id req) (w_id w) (Some (tq_task_id req)) caus"])
      (simp add: emit_args_def)
  then show thesis by (intro that) (simp_all add: stage_event_def)
qed

definition safety_refusal :: "safety_decision \<Rightarrow> event_type" where
  "safety_refusal sd = (if sd_decision sd = SA_DENY then ''SAFETY_DENIED'' else ''SAFETY_ESCALATED'')"

lemma safety_stage_trail:
  assumes ready: "ready_log rt st" and dec: "evaluate_request (tm_env rt) (tm_safety rt) d p t (tq_arguments req) = Inr sd"
    and "\<not> safety_allows rt req p t d"
  obtains r st' where "safety_stage rt req p w t d x caus st = (Inr r, st')" "tr_status r = TS_DENIED"
    "log_grows rt st [''SAFETY_CHECK_REQUESTED'', safety_refusal sd] st'"
proof -
  let ?asked = "[(''tool_id'', PStr (td_id d)), (''risk_level'', PStr (risk_level_value (sd_risk_level sd))),
               (''decision'', PStr (safety_action_value (sd_decision sd)))]"
  let ?why = "[(''tool_id'', PStr (td_id d)), (''reasons'', str_list (sd_reasons sd))]"
  let ?msg = "(if sd_decision sd = SA_DENY then ''Safety Policy Denied: '' else ''Safety Policy Requires Human Approval: '')
      @ join_with ''; '' (sd_reasons sd)"
  obtain e st1 where asked: "stage_event rt req p w caus ''SAFETY_CHECK_REQUESTED'' ?asked st = (Inr e, st1)"
    "log_grows rt st [''SAFETY_CHECK_REQUESTED''] st1" "ready_log rt st1"
    by (rule stage_event_grows[OF ready])
  obtain r st2 where no: "refuse rt req p w d caus (safety_refusal sd) ?why ?msg st1 = (Inr r, st2)"
    "log_grows rt st1 [safety_refusal sd] st2" "tr_status r = TS_DENIED"
    by (rule refuse_grows[OF asked(3)])
  have "sd_decision sd = SA_DENY \<or> sd_decision sd = SA_REQUIRES_APPROVAL \<or> sd_decision sd = SA_ESCALATE"
    using assms(3) dec by (cases "sd_decision sd") (auto simp: safety_allows_def)
  then have "safety_stage rt req p w t d x caus st = (Inr r, st2)"
    using asked(1) no(1) by (auto simp: safety_stage_def dec bind_def safety_refusal_def)
  with log_grows_trans[OF asked(2) no(2)] no(3) show thesis by (intro that) simp_all
qed

text \<open>The events and the status of the permission and safety stages, when one of them refuses.\<close>

definition late_refusal :: "tool_runtime \<Rightarrow> tool_request \<Rightarrow> project \<Rightarrow> worker \<Rightarrow> task \<Rightarrow> tool_definition \<Rightarrow> event_type list" where
  "late_refusal rt req p w t d =
     (if evaluate_permissions (w_permissions w) (td_permissions_required d) (w_id w) (td_id d) \<noteq> Inr () then [''TOOL_DENIED'']
      else [''TOOL_AUTHORIZED'', ''SAFETY_CHECK_REQUESTED'',
        safety_refusal (projr (evaluate_request (tm_env rt) (tm_safety rt) d p t (tq_arguments req)))])"

lemma permission_stage_trail:
  assumes ready: "ready_log rt st" and dec: "evaluate_request (tm_env rt) (tm_safety rt) d p t (tq_arguments req) = Inr sd"
    and no: "evaluate_permissions (w_permissions w) (td_permissions_required d) (w_id w) (td_id d) = Inr () \<Longrightarrow>
      \<not> safety_allows rt req p t d"
  obtains r st' where "permission_stage rt req p w t d x caus st = (Inr r, st')" "tr_status r = TS_DENIED"
    "log_grows rt st (late_refusal rt req p w t d) st'"
proof (cases "evaluate_permissions (w_permissions w) (td_permissions_required d) (w_id w) (td_id d)")
  case (Inl e)
  obtain r st' where "refuse rt req p w d caus ''TOOL_DENIED'' [(''tool_id'', PStr (td_id d)), (''reason'', PStr (error_message e))]
      (error_message e) st = (Inr r, st')" "log_grows rt st [''TOOL_DENIED''] st'" "tr_status r = TS_DENIED"
    by (rule refuse_grows[OF ready])
  then show thesis by (intro that) (simp_all add: permission_stage_def Inl late_refusal_def)
next
  case (Inr u)
  obtain e st1 where ok: "stage_event rt req p w caus ''TOOL_AUTHORIZED''
      [(''tool_id'', PStr (td_id d)), (''risk_level'', PStr (risk_level_value (td_risk_level d)))] st = (Inr e, st1)"
    "log_grows rt st [''TOOL_AUTHORIZED''] st1" "ready_log rt st1"
    by (rule stage_event_grows[OF ready])
  have "\<not> safety_allows rt req p t d" using no Inr by simp
  then obtain r st' where late: "safety_stage rt req p w t d x caus st1 = (Inr r, st')" "tr_status r = TS_DENIED"
    "log_grows rt st1 [''SAFETY_CHECK_REQUESTED'', safety_refusal sd] st'"
    by (rule safety_stage_trail[OF ok(3) dec])
  with ok(1) have "permission_stage rt req p w t d x caus st = (Inr r, st')" by (simp add: permission_stage_def Inr bind_def)
  with late(2) log_grows_trans[OF ok(2) late(3)] show thesis by (intro that) (simp_all add: late_refusal_def Inr dec)
qed

text \<open>The reference: the events a request that is not admitted appends to the log, and the status of its result.\<close>

definition refusal :: "tool_runtime \<Rightarrow> tool_request \<Rightarrow> tool_state \<Rightarrow> event_type list \<times> tool_status" where
  "refusal rt req st =
     (let invalid = ([''TOOL_FAILED''], TS_VALIDATION_ERROR) in
      case get_project (ts_store st) (tq_project_id req) of None \<Rightarrow> invalid | Some p \<Rightarrow>
     (case resolve_worker req [] (ts_store st) of None \<Rightarrow> invalid | Some w \<Rightarrow>
     (case get_tool (tq_tool_id req) (tm_tools rt) of Inl _ \<Rightarrow> invalid | Inr (d, validate, _) \<Rightarrow>
        if validate (tq_arguments req) \<noteq> Inr () then invalid
        else (late_refusal rt req p w (resolve_task req (p_id p) [] (ts_store st)) d, TS_DENIED))))"

text \<open>The validator of the requested tool only raises validation errors, and the safety evaluation does not raise.\<close>

definition well_behaved :: "tool_runtime \<Rightarrow> tool_request \<Rightarrow> bool" where
  "well_behaved rt req \<longleftrightarrow>
     (case get_tool (tq_tool_id req) (tm_tools rt) of Inl _ \<Rightarrow> True | Inr (d, validate, _) \<Rightarrow>
        (case validate (tq_arguments req) of Inl (ToolArgumentValidationError _ _) \<Rightarrow> True | Inl _ \<Rightarrow> False | Inr _ \<Rightarrow> True)
        \<and> (case shell_check (tm_env rt) (td_id d) (tq_arguments req) of Inl _ \<Rightarrow> False | Inr _ \<Rightarrow> True))"

lemma late_refusal_now:
  assumes "w_permissions w' = w_permissions w" "w_id w' = w_id w"
  shows "late_refusal rt req p w' (resolve_task req pid now s) d = late_refusal rt req p w (resolve_task req pid now' s) d"
  unfolding late_refusal_def assms
    evaluate_request_task[OF resolve_task_now[of req pid now s now'], of "tm_env rt" "tm_safety rt" d p "tq_arguments req"] ..

lemma resolve_stage_trail:
  assumes ready: "ready_log rt st" and no: "\<not> admitted rt req st" and good: "well_behaved rt req"
  shows "\<exists>r st'. resolve_stage rt req caus st = (Inr r, st') \<and> tr_status r = snd (refusal rt req st)
    \<and> log_grows rt st (fst (refusal rt req st)) st'"
proof -
  let ?now = "or_now (tm_readings rt) (ts_tick st)"
  have invalid: "\<exists>r st'. fail_result rt req TS_VALIDATION_ERROR msg caus st = (Inr r, st')
      \<and> tr_status r = TS_VALIDATION_ERROR \<and> log_grows rt st [''TOOL_FAILED''] st'" for msg
    by (rule fail_result_grows[OF ready, of req TS_VALIDATION_ERROR msg caus]) blast
  show ?thesis
  proof (cases "get_project (ts_store st) (tq_project_id req)")
    case None
    then show ?thesis by (simp add: resolve_stage_def Let_def invalid refusal_def)
  next
    case p: (Some p)
    show ?thesis
    proof (cases "resolve_worker req ?now (ts_store st)")
      case None
      then have "resolve_worker req [] (ts_store st) = None" by (simp add: resolve_worker_def split: option.splits if_splits)
      then show ?thesis using p None by (simp add: resolve_stage_def Let_def invalid refusal_def)
    next
      case w: (Some w)
      obtain w' where w': "resolve_worker req [] (ts_store st) = Some w'" "w_permissions w' = w_permissions w" "w_id w' = w_id w"
        using resolve_worker_now[OF w] by blast
      show ?thesis
      proof (cases "get_tool (tq_tool_id req) (tm_tools rt)")
        case Inl
        then show ?thesis using p w w' by (simp add: resolve_stage_def Let_def invalid refusal_def)
      next
        case (Inr tool)
        obtain d v x where tool: "tool = (d, v, x)" by (cases tool)
        show ?thesis
        proof (cases "v (tq_arguments req)")
          case e: (Inl e)
          then obtain a b where "e = ToolArgumentValidationError a b"
            using good Inr tool by (cases e) (auto simp: well_behaved_def)
          then show ?thesis using p w w' Inr tool e by (simp add: resolve_stage_def Let_def invalid refusal_def)
        next
          case u: (Inr u)
          let ?t = "resolve_task req (p_id p) ?now (ts_store st)"
          obtain sd where sd: "evaluate_request (tm_env rt) (tm_safety rt) d p ?t (tq_arguments req) = Inr sd"
            using evaluate_request_total[of "tm_env rt" d "tq_arguments req" "tm_safety rt" p ?t] good Inr tool
            by (fastforce simp: well_behaved_def split: sum.splits)
          have late: "evaluate_permissions (w_permissions w) (td_permissions_required d) (w_id w) (td_id d) = Inr () \<Longrightarrow>
              \<not> safety_allows rt req p ?t d"
            using no p w' Inr tool u unfolding admitted_def by (simp add: safety_allows_now[of rt req p "p_id p" ?now _ _ "[]"])
          obtain r st' where "permission_stage rt req p w ?t d x caus st = (Inr r, st')" "tr_status r = TS_DENIED"
            "log_grows rt st (late_refusal rt req p w ?t d) st'"
            by (rule permission_stage_trail[OF ready sd late])
          then show ?thesis
            using p w w' Inr tool u late_refusal_now[OF w'(2,3), of rt req p "p_id p" "[]" "ts_store st" d ?now]
            by (simp add: resolve_stage_def Let_def refusal_def)
        qed
      qed
    qed
  qed
qed

lemma refusal_same_but_log: "same_but_log st st' \<Longrightarrow> refusal rt req st' = refusal rt req st"
  unfolding refusal_def resolve_worker_def resolve_task_def by (simp only: same_but_log_parts)



end
