(* ===== verification/Dynamic_Values.thy ===== *)
theory Dynamic_Values
  imports Models
begin

text \<open>
  Reading dynamic values (\<open>dict[str, Any]\<close>) as the \<open>from_dict\<close> functions and the verification adapters do:
  subscripts, \<open>get\<close> with a default, \<open>or\<close>, \<open>list()\<close> and \<open>dict()\<close>, with the exception each of them raises. A
  dictionary is a list of pairs in insertion order, its keys are text.
\<close>

section \<open>Computations that may raise\<close>

definition sbind :: "'e + 'a \<Rightarrow> ('a \<Rightarrow> 'e + 'b) \<Rightarrow> 'e + 'b" where
  "sbind m f = (case m of Inl e \<Rightarrow> Inl e | Inr x \<Rightarrow> f x)"

lemma sbind_simps [simp]: "sbind (Inl e) f = Inl e" "sbind (Inr x) f = f x"
  by (simp_all add: sbind_def)

lemma sbind_Inr: "sbind m f = Inr y \<longleftrightarrow> (\<exists>x. m = Inr x \<and> f x = Inr y)"
  by (cases m) simp_all

fun traverse :: "('a \<Rightarrow> 'e + 'b) \<Rightarrow> 'a list \<Rightarrow> 'e + 'b list" where
  \<comment> \<open>a list comprehension whose element expression may raise\<close>
  "traverse f [] = Inr []"
| "traverse f (x # xs) = sbind (f x) (\<lambda>y. sbind (traverse f xs) (\<lambda>ys. Inr (y # ys)))"

lemma traverse_map: "(\<And>x. x \<in> set xs \<Longrightarrow> f (g x) = Inr x) \<Longrightarrow> traverse f (map g xs) = Inr xs"
  by (induction xs) simp_all

lemma traverse_length: "traverse f xs = Inr ys \<Longrightarrow> length ys = length xs"
  by (induction xs arbitrary: ys) (auto simp: sbind_Inr)

lemma traverse_Inl: "traverse f xs = Inl e \<Longrightarrow> \<exists>x \<in> set xs. f x = Inl e"
  by (induction xs) (auto simp: sbind_def split: sum.splits)


section \<open>Operations on dynamic values\<close>

definition py_type :: "pyval \<Rightarrow> string" where
  "py_type v = (case v of PNone \<Rightarrow> ''NoneType'' | PBool _ \<Rightarrow> ''bool'' | PInt _ \<Rightarrow> ''int'' | PFloat _ \<Rightarrow> ''float''
     | PStr _ \<Rightarrow> ''str'' | PList _ \<Rightarrow> ''list'' | PDict _ \<Rightarrow> ''dict'')"

definition p_or :: "pyval \<Rightarrow> pyval \<Rightarrow> pyval" where
  "p_or a b = (if truthy a then a else b)"

definition get_item :: "pydict \<Rightarrow> string \<Rightarrow> error + pyval" where
  \<comment> \<open>\<open>d[k]\<close>\<close>
  "get_item d k = (case dict_get d k of None \<Rightarrow> Inl (OtherException (repr_str k)) | Some v \<Rightarrow> Inr v)"

definition get_or :: "pydict \<Rightarrow> string \<Rightarrow> pyval \<Rightarrow> pyval" where
  \<comment> \<open>\<open>d.get(k, v)\<close>\<close>
  "get_or d k v = (case dict_get d k of None \<Rightarrow> v | Some x \<Rightarrow> x)"

definition py_get :: "pydict \<Rightarrow> string \<Rightarrow> pyval" where
  \<comment> \<open>\<open>d.get(k)\<close>\<close>
  "py_get d k = get_or d k PNone"

definition not_iterable :: "pyval \<Rightarrow> error" where
  "not_iterable v = OtherException (quoted (py_type v) @ '' object is not iterable'')"

definition list_of :: "pyval \<Rightarrow> error + pyval list" where
  \<comment> \<open>\<open>list(v)\<close>, and the values a loop over \<open>v\<close> sees\<close>
  "list_of v = (case v of PList xs \<Rightarrow> Inr xs | PStr s \<Rightarrow> Inr (map (\<lambda>c. PStr [c]) s)
     | PDict d \<Rightarrow> Inr (map (PStr \<circ> fst) d) | _ \<Rightarrow> Inl (not_iterable v))"

text \<open>
  \<open>dict(v)\<close> of a dictionary, or of a list of pairs whose first components are text. Any other value raises.
\<close>

fun pair_of :: "pyval \<Rightarrow> error + string \<times> pyval" where
  "pair_of (PList [PStr k, v]) = Inr (k, v)"
| "pair_of (PStr [a, b]) = Inr ([a], PStr [b])"
| "pair_of v = Inl (OtherException ''cannot convert dictionary update sequence'')"

definition dict_of :: "pyval \<Rightarrow> error + pydict" where
  "dict_of v = (case v of PDict d \<Rightarrow> Inr d
     | _ \<Rightarrow> sbind (list_of v) (\<lambda>xs. sbind (traverse pair_of xs) (\<lambda>kvs. Inr (fold (\<lambda>(k, x). dict_set k x) kvs []))))"

definition enum_of :: "(string \<Rightarrow> 'a option) \<Rightarrow> string \<Rightarrow> pyval \<Rightarrow> error + 'a" where
  \<comment> \<open>\<open>Enum(v)\<close> of an enumeration over text\<close>
  "enum_of of_value name v =
     (case (case v of PStr s \<Rightarrow> of_value s | _ \<Rightarrow> None) of
        None \<Rightarrow> Inl (OtherException (repr_val v @ '' is not a valid '' @ name)) | Some x \<Rightarrow> Inr x)"

text \<open>Equality of a dynamic value with an integer and with text; \<open>True == 1\<close> and \<open>1.0 == 1\<close> hold in Python.\<close>

definition eq_int :: "pyval \<Rightarrow> int \<Rightarrow> bool" where
  "eq_int v n = (case v of PInt i \<Rightarrow> i = n | PBool b \<Rightarrow> of_bool b = n | PFloat r \<Rightarrow> r = int_str n @ ''.0'' | _ \<Rightarrow> False)"

definition eq_str :: "pyval \<Rightarrow> string \<Rightarrow> bool" where
  "eq_str v s = (case v of PStr t \<Rightarrow> t = s | _ \<Rightarrow> False)"

lemma dict_of_PDict [simp]: "dict_of (PDict d) = Inr d"
  by (simp add: dict_of_def)

lemma list_of_PList [simp]: "list_of (PList xs) = Inr xs"
  by (simp add: list_of_def)

lemma enum_of_PStr [simp]: "of_value s = Some x \<Longrightarrow> enum_of of_value name (PStr s) = Inr x"
  by (simp add: enum_of_def)

lemma get_item_Cons [simp]: "get_item ((k, v) # d) k' = (if k' = k then Inr v else get_item d k')"
  by (simp add: get_item_def)

lemma get_or_Cons [simp]: "get_or ((k, v) # d) k' x = (if k' = k then v else get_or d k' x)"
  by (simp add: get_or_def)

lemma get_Nil [simp]: "get_item [] k = Inl (OtherException (repr_str k))" "get_or [] k x = x"
  by (simp_all add: get_item_def get_or_def)

end
