(* ===== verification/Verification.thy ===== *)
theory Verification
  imports Tool_Runtime Dynamic_Values
begin

text \<open>
  The verification engine of \<open>core/verification\<close>: the plan of a task, the four check adapters, the aggregation
  of their results and the report. The state is that of the tool runtime, through which command checks
  run. Regular expressions, \<open>int()\<close> of text, the output of git and the formatting of floating point numbers
  are parameters.
\<close>

section \<open>Data\<close>

datatype verification_status = V_PENDING | V_RUNNING | V_PASSED | V_FAILED | V_UNCERTAIN | V_BLOCKED

primrec verification_status_value :: "verification_status \<Rightarrow> string" where
  "verification_status_value V_PENDING = ''PENDING''"
| "verification_status_value V_RUNNING = ''RUNNING''"
| "verification_status_value V_PASSED = ''PASSED''"
| "verification_status_value V_FAILED = ''FAILED''"
| "verification_status_value V_UNCERTAIN = ''UNCERTAIN''"
| "verification_status_value V_BLOCKED = ''BLOCKED''"

datatype check_status = K_NOT_RUN | K_RUNNING | K_PASSED | K_FAILED | K_SKIPPED | K_UNCERTAIN | K_ERROR

primrec check_status_value :: "check_status \<Rightarrow> string" where
  "check_status_value K_NOT_RUN = ''NOT_RUN''"
| "check_status_value K_RUNNING = ''RUNNING''"
| "check_status_value K_PASSED = ''PASSED''"
| "check_status_value K_FAILED = ''FAILED''"
| "check_status_value K_SKIPPED = ''SKIPPED''"
| "check_status_value K_UNCERTAIN = ''UNCERTAIN''"
| "check_status_value K_ERROR = ''ERROR''"

datatype check_type = FILE_EXISTS | FILE_NOT_EXISTS | FILE_HASH | FILE_CONTENT_MATCH
  | GIT_DIFF | GIT_STATUS | EXPECTED_FILES_CHANGED | UNEXPECTED_FILES_CHANGED
  | BUILD | COMPILE | TEST_SUITE | TEST_CASE | LINT | TYPE_CHECK
  | COMMAND_EXIT_CODE | COMMAND_OUTPUT_MATCH | ARTIFACT_EXISTS | ARTIFACT_HASH

definition check_type_table :: "(check_type \<times> string) list" where
  "check_type_table =
     [(FILE_EXISTS, ''FILE_EXISTS''), (FILE_NOT_EXISTS, ''FILE_NOT_EXISTS''), (FILE_HASH, ''FILE_HASH''),
      (FILE_CONTENT_MATCH, ''FILE_CONTENT_MATCH''), (GIT_DIFF, ''GIT_DIFF''), (GIT_STATUS, ''GIT_STATUS''),
      (EXPECTED_FILES_CHANGED, ''EXPECTED_FILES_CHANGED''), (UNEXPECTED_FILES_CHANGED, ''UNEXPECTED_FILES_CHANGED''),
      (BUILD, ''BUILD''), (COMPILE, ''COMPILE''), (TEST_SUITE, ''TEST_SUITE''), (TEST_CASE, ''TEST_CASE''),
      (LINT, ''LINT''), (TYPE_CHECK, ''TYPE_CHECK''), (COMMAND_EXIT_CODE, ''COMMAND_EXIT_CODE''),
      (COMMAND_OUTPUT_MATCH, ''COMMAND_OUTPUT_MATCH''), (ARTIFACT_EXISTS, ''ARTIFACT_EXISTS''),
      (ARTIFACT_HASH, ''ARTIFACT_HASH'')]"

definition check_type_value :: "check_type \<Rightarrow> string" where
  "check_type_value t = the (map_of check_type_table t)"

definition check_type_of :: "string \<Rightarrow> check_type option" where
  "check_type_of s = map_of (map prod.swap check_type_table) s"

lemma check_type_of_value [simp]: "check_type_of (check_type_value t) = Some t"
  by (cases t) (simp_all add: check_type_of_def check_type_value_def check_type_table_def)

record success_criterion =
  sn_id :: pyval
  sn_description :: pyval
  sn_check_type :: check_type
  sn_parameters :: pydict
  sn_required :: pyval
  sn_metadata :: pydict

record verification_plan =
  vp_id :: pyval
  vp_task_id :: pyval
  vp_criteria :: "success_criterion list"
  vp_metadata :: pydict

record verification_check =
  vk_id :: string
  vk_verification_id :: string
  vk_check_type :: check_type
  vk_description :: pyval
  vk_criterion_id :: pyval
  vk_expected_result :: pyval
  vk_actual_result :: pyval
  vk_status :: check_status
  vk_required :: pyval
  vk_evidence_ids :: "string list"
  vk_error_message :: "string option"
  vk_duration_ms :: string
  vk_metadata :: pydict

record verification =
  vn_id :: string
  vn_project_id :: string
  vn_task_id :: string
  vn_checkpoint_id :: "string option"
  vn_status :: verification_status
  vn_checks :: "verification_check list"
  vn_evidence_ids :: "string list"
  vn_summary :: string
  vn_started_at :: string
  vn_completed_at :: "string option"
  vn_duration_ms :: string
  vn_report_markdown :: string
  vn_metadata :: pydict

text \<open>\<open>to_dict\<close> and \<open>from_dict\<close> of criteria and plans.\<close>

definition criterion_to_dict :: "success_criterion \<Rightarrow> pyval" where
  "criterion_to_dict c = PDict
     [(''id'', sn_id c), (''description'', sn_description c), (''check_type'', PStr (check_type_value (sn_check_type c))),
      (''parameters'', PDict (sn_parameters c)), (''required'', sn_required c), (''metadata'', PDict (sn_metadata c))]"

definition as_mapping :: "pyval \<Rightarrow> error + pydict" where
  \<comment> \<open>a value that is subscripted with text: anything but a dictionary raises\<close>
  "as_mapping v = (case v of PDict d \<Rightarrow> Inr d | _ \<Rightarrow> Inl (OtherException (quoted (py_type v) @ '' object is not subscriptable'')))"

definition criterion_from_dict :: "pyval \<Rightarrow> error + success_criterion" where
  "criterion_from_dict v =
     sbind (as_mapping v) (\<lambda>d.
     sbind (get_item d ''id'') (\<lambda>i.
     sbind (get_item d ''description'') (\<lambda>descr.
     sbind (sbind (get_item d ''check_type'') (enum_of check_type_of ''CheckType'')) (\<lambda>ty.
     sbind (dict_of (get_or d ''parameters'' (PDict []))) (\<lambda>params.
     sbind (dict_of (get_or d ''metadata'' (PDict []))) (\<lambda>meta.
       Inr \<lparr>sn_id = i, sn_description = descr, sn_check_type = ty, sn_parameters = params,
            sn_required = get_or d ''required'' (PBool True), sn_metadata = meta\<rparr>))))))"

definition plan_to_dict :: "verification_plan \<Rightarrow> pyval" where
  "plan_to_dict p = PDict
     [(''id'', vp_id p), (''task_id'', vp_task_id p), (''criteria'', PList (map criterion_to_dict (vp_criteria p))),
      (''metadata'', PDict (vp_metadata p))]"

definition plan_from_dict :: "pydict \<Rightarrow> error + verification_plan" where
  "plan_from_dict d =
     sbind (get_item d ''id'') (\<lambda>i.
     sbind (get_item d ''task_id'') (\<lambda>tid.
     sbind (sbind (list_of (get_or d ''criteria'' (PList []))) (traverse criterion_from_dict)) (\<lambda>cs.
     sbind (dict_of (get_or d ''metadata'' (PDict []))) (\<lambda>meta.
       Inr \<lparr>vp_id = i, vp_task_id = tid, vp_criteria = cs, vp_metadata = meta\<rparr>))))"

lemma criterion_round_trip: "criterion_from_dict (criterion_to_dict c) = Inr c"
  by (simp add: criterion_from_dict_def criterion_to_dict_def as_mapping_def)

text \<open>C30: a verification plan survives \<open>to_dict\<close> and \<open>from_dict\<close>, with all its criteria.\<close>

theorem plan_round_trip: "sbind (as_mapping (plan_to_dict p)) plan_from_dict = Inr p"
  by (simp add: plan_from_dict_def plan_to_dict_def as_mapping_def traverse_map criterion_round_trip)


section \<open>Surroundings\<close>

record verify_env =
  ve_search :: "string \<Rightarrow> string \<Rightarrow> string + bool"          \<comment> \<open>\<open>re.search(pattern, text)\<close>, or the message of \<open>re.error\<close>\<close>
  ve_int :: "pyval \<Rightarrow> int option"                         \<comment> \<open>\<open>int(v)\<close> of text and floating point numbers\<close>
  ve_fixed :: "nat \<Rightarrow> string \<Rightarrow> string"                    \<comment> \<open>formatting with a number of decimals\<close>
  ve_git_status :: "path \<Rightarrow> filesystem \<Rightarrow> string + string list"  \<comment> \<open>lines of \<open>git status --porcelain\<close>, or an exception\<close>
  ve_git_diff :: "path \<Rightarrow> filesystem \<Rightarrow> string + string"

record check_context =
  cx_project_id :: string
  cx_root :: path
  cx_task_id :: string
  cx_worker_id :: "string option"

type_synonym check_runner = "check_context \<Rightarrow> success_criterion \<Rightarrow> string \<Rightarrow> (tool_state, verification_check) action"

record check_adapter =
  ad_supports :: "check_type \<Rightarrow> bool"
  ad_execute :: check_runner

text \<open>A fresh identifier with a prefix, the clock and the time elapsed.\<close>

definition fresh :: "tool_runtime \<Rightarrow> string \<Rightarrow> nat \<Rightarrow> (tool_state, string) action" where
  "fresh rt pre k st = (Inr (pre @ take k (or_uuid (tm_readings rt) (ts_tick st))), st\<lparr>ts_tick := ts_tick st + 1\<rparr>)"

definition clock :: "tool_runtime \<Rightarrow> (tool_state, string) action" where
  "clock rt st = (Inr (or_now (tm_readings rt) (ts_tick st)), st)"

definition elapsed :: "tool_runtime \<Rightarrow> (tool_state, string) action" where
  "elapsed rt st = (Inr (or_duration (tm_readings rt) (ts_tick st)), st)"

definition read_fs :: "(tool_state, filesystem) action" where
  "read_fs st = (Inr (ws_fs (cs_ws (ts_ck st))), st)"

definition read_store :: "(tool_state, store) action" where
  "read_store st = (Inr (ts_store st), st)"

text \<open>What a check found: its status, the expected and the actual result and the error message.\<close>

type_synonym finding = "check_status \<times> pyval \<times> pyval \<times> string option"

definition found :: "bool \<Rightarrow> pyval \<Rightarrow> pyval \<Rightarrow> string \<Rightarrow> finding" where
  "found ok expected actual msg = (if ok then (K_PASSED, expected, actual, None) else (K_FAILED, expected, actual, Some msg))"

definition record_of :: "string \<Rightarrow> string \<Rightarrow> success_criterion \<Rightarrow> pyval \<Rightarrow> finding \<Rightarrow> string list \<Rightarrow> string \<Rightarrow> pydict \<Rightarrow> verification_check" where
  "record_of cid vid c descr f evidence duration meta =
     (case f of (status, expected, actual, msg) \<Rightarrow>
       \<lparr>vk_id = cid, vk_verification_id = vid, vk_check_type = sn_check_type c, vk_description = p_or (sn_description c) descr,
        vk_criterion_id = sn_id c, vk_expected_result = expected, vk_actual_result = actual, vk_status = status,
        vk_required = sn_required c, vk_evidence_ids = evidence, vk_error_message = msg, vk_duration_ms = duration,
        vk_metadata = meta\<rparr>)"

text \<open>The evidence identifier is drawn at the end of the guarded part, so a check that raised has none.\<close>

definition evidence_for :: "tool_runtime \<Rightarrow> string \<Rightarrow> finding \<Rightarrow> (tool_state, string list) action" where
  "evidence_for rt pre f = (if fst f = K_ERROR then ret [] else bind (fresh rt pre 8) (\<lambda>e. ret [e]))"


section \<open>File checks\<close>

text \<open>A file looked up through a path that may have \<open>..\<close> components.\<close>

definition file_at :: "filesystem \<Rightarrow> path \<Rightarrow> string option" where
  "file_at fs p = (case os_path fs p of None \<Rightarrow> None | Some q \<Rightarrow> dict_get (fs_files fs) q)"

definition search_in :: "verify_env \<Rightarrow> pydict \<Rightarrow> string \<Rightarrow> string \<Rightarrow> string + bool" where
  "search_in ve params pattern text =
     (if truthy (get_or params ''is_regex'' (PBool False)) then ve_search ve pattern text else Inr (contains text pattern))"

definition check_path :: "success_criterion \<Rightarrow> string" where
  "check_path c = lstrip_chars [CHR ''/'', CHR 0x5C] (strip (str_val (get_or (sn_parameters c) ''path'' (PStr []))))"

definition file_finding :: "verify_env \<Rightarrow> digest \<Rightarrow> filesystem \<Rightarrow> path \<Rightarrow> success_criterion \<Rightarrow> finding" where
  "file_finding ve sha fs root c =
     (let params = sn_parameters c; rel = check_path c; target = join_path root rel; expected = py_get params ''expected'';
          exists = os_exists fs target in
      if sn_check_type c = FILE_EXISTS then
        found exists (PBool True) (PBool exists) (''Expected file '' @ quoted rel @ '' to exist, but it was missing.'')
      else if sn_check_type c = FILE_NOT_EXISTS then
        found (\<not> exists) (PBool False) (PBool exists)
          (''Expected file '' @ quoted rel @ '' to NOT exist, but it exists on disk.'')
      else if sn_check_type c = FILE_HASH then
        (let hash = str_val (p_or (p_or (py_get params ''expected_hash'') expected) (PStr [])) in
         case file_at fs target of
           None \<Rightarrow> (K_FAILED, PStr hash, PStr ''FILE_MISSING'', Some (''File '' @ quoted rel @ '' not found for checksum comparison.''))
         | Some content \<Rightarrow> found (lower (sha content) = lower hash) (PStr hash) (PStr (sha content))
             (''File '' @ quoted rel @ '' hash mismatch. Expected '' @ hash @ '', got '' @ sha content @ ''.''))
      else
        (let pattern = str_val (p_or (p_or (py_get params ''pattern'') expected) (PStr [])) in
         case file_at fs target of
           None \<Rightarrow> (K_FAILED, PStr pattern, PStr ''FILE_MISSING'', Some (''File '' @ quoted rel @ '' not found for content matching.''))
         | Some content \<Rightarrow>
             (case search_in ve params pattern content of
                Inl msg \<Rightarrow> (K_ERROR, PStr pattern, PNone, Some (''Exception during file check: '' @ msg))
              | Inr matched \<Rightarrow> found matched (PStr pattern) (PStr (''Matched: '' @ (if matched then ''True'' else ''False'')))
                  (''File '' @ quoted rel @ '' did not match expected pattern: '' @ quoted (take 100 pattern) @ ''.''))))"

definition file_execute :: "tool_runtime \<Rightarrow> verify_env \<Rightarrow> check_runner" where
  "file_execute rt ve cx c vid =
     bind (fresh rt ''chk-'' 8) (\<lambda>cid.
     bind read_fs (\<lambda>fs.
       (let f = file_finding ve (tm_sha rt) fs (cx_root cx) c in
        bind (evidence_for rt ''ev-file-'' f) (\<lambda>ev.
        bind (elapsed rt) (\<lambda>ms.
          ret (record_of cid vid c (PStr (check_type_value (sn_check_type c) @ '' on '' @ check_path c)) f ev ms
            [(''target_path'', PStr (check_path c))]))))))"

definition file_supports :: "check_type \<Rightarrow> bool" where
  "file_supports t \<longleftrightarrow> t \<in> {FILE_EXISTS, FILE_NOT_EXISTS, FILE_HASH, FILE_CONTENT_MATCH}"


section \<open>Artifact checks\<close>

definition artifact_by_id :: "store \<Rightarrow> pyval \<Rightarrow> artifact option" where
  "artifact_by_id s v = (case v of PStr i \<Rightarrow> if i = [] then None else get_artifact s i | _ \<Rightarrow> None)"

text \<open>The first artifact of the task whose path ends with the given one; a path that is no text raises.\<close>

definition artifact_by_path :: "store \<Rightarrow> string \<Rightarrow> pyval \<Rightarrow> string + artifact option" where
  "artifact_by_path s tid v =
     (let arts = list_artifacts_for_task s tid in
      if \<not> truthy v \<or> arts = [] then Inr None
      else case v of PStr p \<Rightarrow> Inr (find (\<lambda>a. endswith (a_path a) p \<or> a_path a = p) arts)
      | _ \<Rightarrow> Inl (''endswith first arg must be str or a tuple of str, not '' @ py_type v))"

definition artifact_target :: "store \<Rightarrow> string \<Rightarrow> pydict \<Rightarrow> string + artifact option" where
  "artifact_target s tid params =
     (case artifact_by_id s (py_get params ''artifact_id'') of
        Some a \<Rightarrow> Inr (Some a)
      | None \<Rightarrow> artifact_by_path s tid (py_get params ''path''))"

definition artifact_file :: "filesystem \<Rightarrow> path \<Rightarrow> artifact \<Rightarrow> string option" where
  "artifact_file fs root a = file_at fs (join_path root (a_path a))"

definition artifact_actual :: "digest \<Rightarrow> filesystem \<Rightarrow> path \<Rightarrow> artifact \<Rightarrow> string" where
  "artifact_actual sha fs root a =
     (case artifact_file fs root a of
        None \<Rightarrow> if given (a_checksum a) then the (a_checksum a) else ''FILE_MISSING''
      | Some content \<Rightarrow> sha content)"

definition artifact_finding :: "digest \<Rightarrow> filesystem \<Rightarrow> store \<Rightarrow> check_context \<Rightarrow> success_criterion \<Rightarrow> finding" where
  "artifact_finding sha fs s cx c =
     (let params = sn_parameters c; hash = py_get params ''expected_hash'' in
      case artifact_target s (cx_task_id cx) params of
        Inl msg \<Rightarrow> (K_ERROR, p_or (py_get params ''expected'') (PBool True), PNone,
          Some (''Exception during artifact verification: '' @ msg))
      | Inr target \<Rightarrow>
          if sn_check_type c = ARTIFACT_EXISTS then
            (case target of
               None \<Rightarrow> (K_FAILED, PBool True, PBool False,
                 Some (''Artifact (id='' @ str_val (py_get params ''artifact_id'') @ '', path='' @ str_val (py_get params ''path'')
                   @ '') not registered in ArtifactRegistry.''))
             | Some a \<Rightarrow> found (artifact_file fs (cx_root cx) a \<noteq> None \<or> a_checksum a \<noteq> None) (PBool True) (PBool True)
                 (''Artifact '' @ quoted (a_id a) @ '' registered but physical file '' @ quoted (a_path a) @ '' missing.''))
          else
            (case target of
               None \<Rightarrow> (K_FAILED, hash, PStr ''ARTIFACT_NOT_FOUND'', Some ''Artifact not found for checksum comparison.'')
             | Some a \<Rightarrow> (let actual = artifact_actual sha fs (cx_root cx) a in
                 found (actual \<noteq> [] \<and> lower actual = lower (str_val hash)) hash (PStr actual)
                   (''Artifact checksum mismatch. Expected '' @ str_val hash @ '', got '' @ actual @ ''.''))))"

definition artifact_execute :: "tool_runtime \<Rightarrow> check_runner" where
  "artifact_execute rt cx c vid =
     bind (fresh rt ''chk-'' 8) (\<lambda>cid.
     bind read_fs (\<lambda>fs.
     bind read_store (\<lambda>s.
       (let f = artifact_finding (tm_sha rt) fs s cx c in
        bind (evidence_for rt ''ev-art-'' f) (\<lambda>ev.
        bind (elapsed rt) (\<lambda>ms.
          ret (record_of cid vid c (PStr (check_type_value (sn_check_type c))) f ev ms [])))))))"

definition artifact_supports :: "check_type \<Rightarrow> bool" where
  "artifact_supports t \<longleftrightarrow> t \<in> {ARTIFACT_EXISTS, ARTIFACT_HASH}"


section \<open>Git checks\<close>

definition git_error :: "pyval \<Rightarrow> pyval \<Rightarrow> string \<Rightarrow> finding" where
  "git_error expected actual msg = (K_ERROR, expected, actual, Some (''Exception during git check: '' @ msg))"

definition changed_paths :: "string list \<Rightarrow> string list" where
  "changed_paths ls = map status_path (filter (\<lambda>l. strip l \<noteq> []) ls)"

definition git_status_finding :: "success_criterion \<Rightarrow> string list \<Rightarrow> finding" where
  "git_status_finding c ls =
     (let output = strip (join_with [CHR 10] ls); clean = truthy (get_or (sn_parameters c) ''expect_clean'' (PBool False));
          actual = (if output = [] then PStr ''CLEAN'' else PStr output) in
      if clean then found (output = []) (PStr ''CLEAN'') actual
        (''Expected clean git working tree, but found uncommitted files:'' @ [CHR 10] @ output)
      else (K_PASSED, PStr ''ANY'', actual, None))"

definition expected_files_finding :: "pyval list \<Rightarrow> string list \<Rightarrow> finding" where
  "expected_files_finding wanted ls =
     (let changed = changed_paths ls; missing = filter (\<lambda>v. \<not> list_ex (eq_str v) changed) wanted in
      found (missing = []) (PList wanted) (str_list changed)
        (''Expected changes in '' @ repr_val (PList wanted) @ '', but missing: '' @ repr_val (PList missing)))"

definition unexpected_files_finding :: "pyval list \<Rightarrow> string list \<Rightarrow> finding" where
  "unexpected_files_finding allowed ls =
     (let changed = filter (\<lambda>p. \<not> startswith p ''.autonomos'') (changed_paths ls);
          forbidden = filter (\<lambda>p. \<not> list_ex (\<lambda>v. eq_str v p) allowed) changed in
      found (forbidden = []) (PStr (''Only '' @ repr_val (PList allowed))) (str_list changed)
        (''Unexpected files modified outside allowed set: '' @ repr_val (str_list forbidden)))"

definition git_finding :: "verify_env \<Rightarrow> filesystem \<Rightarrow> path \<Rightarrow> success_criterion \<Rightarrow> finding" where
  "git_finding ve fs root c =
     (let params = sn_parameters c; expected = py_get params ''expected'' in
      if sn_check_type c = GIT_STATUS then
        (case ve_git_status ve root fs of Inl msg \<Rightarrow> git_error expected PNone msg | Inr ls \<Rightarrow> git_status_finding c ls)
      else if sn_check_type c = EXPECTED_FILES_CHANGED then
        (case list_of (p_or (py_get params ''files'') (PList [])) of
           Inl e \<Rightarrow> git_error expected PNone (error_message e)
         | Inr wanted \<Rightarrow>
             (case ve_git_status ve root fs of
                Inl msg \<Rightarrow> git_error (PList wanted) PNone msg
              | Inr ls \<Rightarrow> expected_files_finding wanted ls))
      else if sn_check_type c = UNEXPECTED_FILES_CHANGED then
        (case list_of (p_or (py_get params ''allowed_files'') (PList [])) of
           Inl e \<Rightarrow> git_error expected PNone (error_message e)
         | Inr allowed \<Rightarrow>
             (case ve_git_status ve root fs of
                Inl msg \<Rightarrow> git_error (PStr (''Only '' @ repr_val (PList allowed))) PNone msg
              | Inr ls \<Rightarrow> unexpected_files_finding allowed ls))
      else
        (case ve_git_diff ve root fs of
           Inl msg \<Rightarrow> git_error expected PNone msg
         | Inr diff \<Rightarrow> (K_PASSED, expected, PStr (''Diff length: '' @ nat_str (length diff) @ '' chars''), None)))"

definition not_a_repository :: "success_criterion \<Rightarrow> finding" where
  "not_a_repository c =
     (if truthy (sn_required c) then K_FAILED else K_SKIPPED, py_get (sn_parameters c) ''expected'',
      PStr ''NOT_A_GIT_REPOSITORY'', Some ''Project workspace is not a Git repository.'')"

definition git_execute :: "tool_runtime \<Rightarrow> verify_env \<Rightarrow> check_runner" where
  "git_execute rt ve cx c vid =
     bind (fresh rt ''chk-'' 8) (\<lambda>cid.
     bind read_fs (\<lambda>fs.
       if \<not> is_dir fs (cx_root cx @ [''.git'']) then
         bind (elapsed rt) (\<lambda>ms.
           ret (record_of cid vid c (PStr ''Git check on non-git workspace'') (not_a_repository c) [] ms []))
       else
         (let f = git_finding ve fs (cx_root cx) c in
          bind (evidence_for rt ''ev-git-'' f) (\<lambda>ev.
          bind (elapsed rt) (\<lambda>ms.
            ret (record_of cid vid c (PStr (check_type_value (sn_check_type c))) f ev ms []))))))"

definition git_supports :: "check_type \<Rightarrow> bool" where
  "git_supports t \<longleftrightarrow> t \<in> {GIT_DIFF, GIT_STATUS, EXPECTED_FILES_CHANGED, UNEXPECTED_FILES_CHANGED}"


section \<open>Command checks\<close>

definition int_of :: "verify_env \<Rightarrow> pyval \<Rightarrow> error + int" where
  \<comment> \<open>\<open>int(v)\<close>\<close>
  "int_of ve v = (case v of PInt i \<Rightarrow> Inr i | PBool b \<Rightarrow> Inr (of_bool b)
     | PStr _ \<Rightarrow> (case ve_int ve v of None \<Rightarrow> Inl (OtherException (''invalid literal for int() with base 10: '' @ repr_val v)) | Some i \<Rightarrow> Inr i)
     | PFloat _ \<Rightarrow> (case ve_int ve v of None \<Rightarrow> Inl (OtherException ''cannot convert float to integer'') | Some i \<Rightarrow> Inr i)
     | _ \<Rightarrow> Inl (OtherException (''int() argument must be a string, a bytes-like object or a real number, not '' @ quoted (py_type v))))"

definition text_of :: "pyval \<Rightarrow> error + string" where
  \<comment> \<open>an argument of \<open>join\<close>; the index in the message is left out\<close>
  "text_of v = (case v of PStr s \<Rightarrow> Inr s
     | _ \<Rightarrow> Inl (OtherException (''sequence item: expected str instance, '' @ py_type v @ '' found'')))"

text \<open>The command, the exit code expected and the output expected; each conversion may raise.\<close>

definition command_parameters :: "verify_env \<Rightarrow> pydict \<Rightarrow> error + string \<times> int \<times> pyval" where
  "command_parameters ve params =
     (let command = str_val (p_or (py_get params ''command'') (PStr [])) in
      sbind (list_of (p_or (py_get params ''args'') (PList []))) (\<lambda>args.
      sbind (int_of ve (get_or params ''expected_exit_code'' (PInt 0))) (\<lambda>code.
      sbind (if command = [] \<and> args \<noteq> [] then sbind (traverse text_of args) (\<lambda>ws. Inr (join_with '' '' ws)) else Inr command)
        (\<lambda>cmd. Inr (cmd, code, p_or (py_get params ''pattern'') (py_get params ''expected_output''))))))"

definition expected_command :: "int \<Rightarrow> pyval \<Rightarrow> pyval" where
  "expected_command code pattern =
     PDict ((''exit_code'', PInt code) # (if truthy pattern then [(''output_pattern'', PStr (str_val pattern))] else []))"

definition combined_output :: "pydict \<Rightarrow> string" where
  "combined_output out = strip (str_val (get_or out ''stdout'' (PStr [])) @ [CHR 10] @ str_val (get_or out ''stderr'' (PStr [])))"

definition command_output_finding :: "verify_env \<Rightarrow> pydict \<Rightarrow> int \<Rightarrow> pyval \<Rightarrow> pydict \<Rightarrow> error + finding" where
  "command_output_finding ve params code pattern out =
     (let exit = get_or out ''exit_code'' (PInt (- 1)); text = combined_output out; ok = eq_int exit code;
          actual = PDict [(''exit_code'', exit), (''output_snippet'', PStr (take 300 text))] in
      case (if truthy pattern then search_in ve params (str_val pattern) text else Inr True) of
        Inl msg \<Rightarrow> Inl (OtherException msg)
      | Inr matched \<Rightarrow>
          Inr (found (ok \<and> matched) (expected_command code pattern) actual
            (''Command verification failed ('' @ join_with ''; ''
               ((if ok then [] else [''exit_code '' @ str_val exit @ '' != expected '' @ int_str code])
                @ (if matched then [] else [''output did not match '' @ quoted (str_val pattern)]))
             @ ''). Output:'' @ [CHR 10] @ take 400 text)))"

definition command_finding :: "verify_env \<Rightarrow> pydict \<Rightarrow> string \<Rightarrow> int \<Rightarrow> pyval \<Rightarrow> tool_result \<Rightarrow> error + finding" where
  "command_finding ve params cmd code pattern r =
     (let expected = expected_command code pattern; err = opt_str (tr_error_message r) in
      if tr_status r = TS_TIMEOUT then
        Inr (K_UNCERTAIN, expected, PDict [(''status'', PStr ''TIMEOUT''), (''error'', err)],
          Some (''Command timed out after '' @ str_val (p_or (py_get params ''timeout_seconds'') (PInt 30)) @ ''s: '' @ quoted cmd))
      else if tr_status r = TS_DENIED then
        Inr (K_ERROR, expected, PDict [(''status'', PStr ''DENIED''), (''error'', err)],
          Some (''Command execution denied by safety/permissions: '' @ str_val err))
      else case tr_output r of
        PDict (kv # out) \<Rightarrow> command_output_finding ve params code pattern (kv # out)
      | _ \<Rightarrow> Inr (K_ERROR, expected, PDict [(''error'', err)],
          Some (''Unexpected tool execution result: '' @ str_val (p_or err (PStr ''No output returned'')))))"

text \<open>
  A long output is not saved: the code names \<open>ArtifactType.LOG\<close>, which the enumeration does not have, and swallows
  the \<open>AttributeError\<close>.
\<close>

definition command_request :: "tool_runtime \<Rightarrow> check_context \<Rightarrow> string \<Rightarrow> pyval \<Rightarrow> (tool_state, tool_request) action" where
  "command_request rt cx cmd timeout =
     bind (fresh rt ''tool-req-'' 10) (\<lambda>rid.
     bind (clock rt) (\<lambda>now.
       ret \<lparr>tq_project_id = cx_project_id cx, tq_task_id = cx_task_id cx, tq_worker_id = or_else (cx_worker_id cx) ''verifier'',
         tq_tool_id = ''shell.execute'', tq_arguments = [(''command'', PStr cmd), (''timeout_seconds'', timeout)],
         tq_request_id = rid, tq_correlation_id = None, tq_causation_id = None, tq_timeout_seconds = None,
         tq_metadata = [], tq_created_at = now\<rparr>))"

definition lift_sum :: "error + 'a \<Rightarrow> ('s, 'a) action" where
  "lift_sum m = (case m of Inl e \<Rightarrow> raise e | Inr x \<Rightarrow> ret x)"

definition command_execute :: "tool_runtime \<Rightarrow> verify_env \<Rightarrow> check_runner" where
  "command_execute rt ve cx c vid =
     bind (fresh rt ''chk-'' 8) (\<lambda>cid.
     bind (lift_sum (command_parameters ve (sn_parameters c))) (\<lambda>(cmd, code, pattern).
       if cmd = [] then
         bind (elapsed rt) (\<lambda>ms.
           ret (record_of cid vid c (PStr ''Empty command verification check'')
             (K_ERROR, expected_command code pattern, PStr ''MISSING_COMMAND'', Some ''No command string provided for command verification check.'')
             [] ms []))
       else
         bind (command_request rt cx cmd (py_get (sn_parameters c) ''timeout_seconds'')) (\<lambda>req.
         bind (execute_request rt req) (\<lambda>r.
         bind (lift_sum (command_finding ve (sn_parameters c) cmd code pattern r)) (\<lambda>f.
         bind (fresh rt ''ev-cmd-'' 8) (\<lambda>e.
         bind (elapsed rt) (\<lambda>ms.
           ret (record_of cid vid c (PStr (check_type_value (sn_check_type c) @ '': `'' @ take 60 cmd @ ''`'')) f [e] ms
             [(''command'', PStr cmd)]))))))))"

definition command_supports :: "check_type \<Rightarrow> bool" where
  "command_supports t \<longleftrightarrow>
     t \<in> {BUILD, COMPILE, TEST_SUITE, TEST_CASE, LINT, TYPE_CHECK, COMMAND_EXIT_CODE, COMMAND_OUTPUT_MATCH}"


section \<open>The engine\<close>

definition default_adapters :: "tool_runtime \<Rightarrow> verify_env \<Rightarrow> check_adapter list" where
  "default_adapters rt ve =
     [\<lparr>ad_supports = file_supports, ad_execute = file_execute rt ve\<rparr>,
      \<lparr>ad_supports = command_supports, ad_execute = command_execute rt ve\<rparr>,
      \<lparr>ad_supports = git_supports, ad_execute = git_execute rt ve\<rparr>,
      \<lparr>ad_supports = artifact_supports, ad_execute = artifact_execute rt\<rparr>]"

definition register_adapter :: "check_adapter \<Rightarrow> check_adapter list \<Rightarrow> check_adapter list" where
  "register_adapter a as = a # as"

definition find_adapter :: "check_adapter list \<Rightarrow> check_type \<Rightarrow> check_adapter option" where
  "find_adapter as t = find (\<lambda>a. ad_supports a t) as"

text \<open>The plan: explicit, from the success criteria, from the artifacts of the task, or a check that the workspace exists.\<close>

definition declared_criteria :: "task \<Rightarrow> error + success_criterion list" where
  \<comment> \<open>items that are no dictionaries are passed over\<close>
  "declared_criteria t =
     (let raw = p_or (p_or (PList (t_success_criteria t)) (py_get (t_metadata t) ''success_criteria'')) (PList []) in
      sbind (list_of raw) (\<lambda>items.
        traverse criterion_from_dict (filter (\<lambda>v. case v of PDict _ \<Rightarrow> True | _ \<Rightarrow> False) items)))"

definition artifact_criterion :: "artifact \<Rightarrow> success_criterion" where
  "artifact_criterion a =
     \<lparr>sn_id = PStr (''crit-art-'' @ a_id a), sn_description = PStr (''Verify generated artifact '' @ quoted (a_path a) @ '' exists.''),
      sn_check_type = ARTIFACT_EXISTS, sn_parameters = [(''artifact_id'', PStr (a_id a)), (''path'', PStr (a_path a))],
      sn_required = PBool True, sn_metadata = []\<rparr>"

definition sanity_criterion :: "task \<Rightarrow> success_criterion" where
  "sanity_criterion t =
     \<lparr>sn_id = PStr (''crit-sanity-'' @ t_id t), sn_description = PStr (''Sanity verification for task '' @ quoted (t_title t) @ ''.''),
      sn_check_type = FILE_EXISTS, sn_parameters = [(''path'', PStr ''.'')], sn_required = PBool True, sn_metadata = []\<rparr>"

definition plan_of :: "task \<Rightarrow> success_criterion list \<Rightarrow> verification_plan" where
  "plan_of t cs = \<lparr>vp_id = PStr (''plan-'' @ t_id t), vp_task_id = PStr (t_id t), vp_criteria = cs, vp_metadata = []\<rparr>"

definition resolve_plan :: "task \<Rightarrow> store \<Rightarrow> error + verification_plan" where
  "resolve_plan t s =
     (case dict_get (t_metadata t) ''verification_plan'' of
        Some (PDict d) \<Rightarrow> plan_from_dict d
      | _ \<Rightarrow>
          sbind (declared_criteria t) (\<lambda>cs.
            if cs \<noteq> [] then Inr (plan_of t cs)
            else sbind (traverse (\<lambda>i. registry_get_artifact i s) (t_artifacts t)) (\<lambda>arts.
              Inr (plan_of t (if arts = [] then [sanity_criterion t] else map artifact_criterion arts)))))"

text \<open>Registering an artifact of the task; no file is written, as no base directory is given.\<close>

definition add_artifact ::
  "tool_runtime \<Rightarrow> check_context \<Rightarrow> artifact_type \<Rightarrow> string \<Rightarrow> string \<Rightarrow> string \<Rightarrow> (tool_state, unit) action" where
  "add_artifact rt cx ty rel descr content st =
     (let n = ts_tick st;
          s = snd (register_artifact (tm_sha rt) (\<lambda>_ r. r) (cx_project_id cx) (cx_task_id cx) (or_else (cx_worker_id cx) ''verifier'')
                ty rel descr (Some content) None None None (or_uuid (tm_readings rt) n) (or_now (tm_readings rt) n) (ts_store st))
      in (Inr (), (put_ts_store s st)\<lparr>ts_tick := n + 1\<rparr>))"

text \<open>Events of one verification.\<close>

definition verify_event :: "tool_runtime \<Rightarrow> check_context \<Rightarrow> string option \<Rightarrow> event_type \<Rightarrow> pydict \<Rightarrow> (tool_state, event option) action" where
  "verify_event rt cx caus ty payload =
     emit_event rt \<lparr>ea_type = ty, ea_payload = payload, ea_source = ''RUNTIME'', ea_correlation = Some (cx_task_id cx),
       ea_causation = caus, ea_project = Some (cx_project_id cx), ea_task = Some (cx_task_id cx), ea_worker = cx_worker_id cx,
       ea_artifact = None, ea_metadata = []\<rparr>"

definition unsupported_check :: "tool_runtime \<Rightarrow> string \<Rightarrow> success_criterion \<Rightarrow> (tool_state, verification_check) action" where
  "unsupported_check rt vid c =
     bind (fresh rt ''chk-'' 8) (\<lambda>cid.
       ret \<lparr>vk_id = cid, vk_verification_id = vid, vk_check_type = sn_check_type c, vk_description = sn_description c,
         vk_criterion_id = sn_id c, vk_expected_result = PNone, vk_actual_result = PNone, vk_status = K_ERROR,
         vk_required = sn_required c, vk_evidence_ids = [],
         vk_error_message = Some (''No verification adapter registered for check type '' @ quoted (check_type_value (sn_check_type c)) @ ''.''),
         vk_duration_ms = ''0.0'', vk_metadata = []\<rparr>)"

definition check_event :: "check_status \<Rightarrow> event_type" where
  "check_event s = (case s of K_FAILED \<Rightarrow> ''CHECK_FAILED'' | K_UNCERTAIN \<Rightarrow> ''CHECK_UNCERTAIN'' | K_ERROR \<Rightarrow> ''CHECK_ERROR''
     | _ \<Rightarrow> ''CHECK_PASSED'')"

definition run_check :: "tool_runtime \<Rightarrow> check_adapter list \<Rightarrow> check_context \<Rightarrow> string \<Rightarrow> string option \<Rightarrow> success_criterion \<Rightarrow>
    (tool_state, verification_check) action" where
  "run_check rt as cx vid caus c =
     bind (verify_event rt cx caus ''CHECK_STARTED''
         [(''verification_id'', PStr vid), (''check_type'', PStr (check_type_value (sn_check_type c))),
          (''description'', sn_description c), (''required'', sn_required c)]) (\<lambda>started.
     bind (case find_adapter as (sn_check_type c) of None \<Rightarrow> unsupported_check rt vid c | Some a \<Rightarrow> ad_execute a cx c vid) (\<lambda>k.
     bind (verify_event rt cx (event_ref started caus) (check_event (vk_status k))
         [(''verification_id'', PStr vid), (''check_id'', PStr (vk_id k)), (''check_type'', PStr (check_type_value (vk_check_type k))),
          (''status'', PStr (check_status_value (vk_status k))), (''duration_ms'', PFloat (vk_duration_ms k)),
          (''error'', opt_str (vk_error_message k))])
       (\<lambda>_. ret k)))"

fun run_checks :: "tool_runtime \<Rightarrow> check_adapter list \<Rightarrow> check_context \<Rightarrow> string \<Rightarrow> string option \<Rightarrow> success_criterion list \<Rightarrow>
    (tool_state, verification_check list) action" where
  "run_checks rt as cx vid caus [] = ret []"
| "run_checks rt as cx vid caus (c # cs) =
     bind (run_check rt as cx vid caus c) (\<lambda>k. bind (run_checks rt as cx vid caus cs) (\<lambda>ks. ret (k # ks)))"

text \<open>Aggregation: the verdict, its summary and the type of the closing event.\<close>

definition inconclusive :: "verification_check \<Rightarrow> bool" where
  "inconclusive k \<longleftrightarrow> vk_status k \<in> {K_UNCERTAIN, K_ERROR}"

definition count_checks :: "(verification_check \<Rightarrow> bool) \<Rightarrow> verification_check list \<Rightarrow> string" where
  "count_checks P ks = nat_str (length (filter P ks))"

definition aggregate :: "verification_check list \<Rightarrow> verification_status \<times> string \<times> event_type" where
  "aggregate ks =
     (let failed = filter (\<lambda>k. truthy (vk_required k) \<and> vk_status k = K_FAILED) ks;
          uncertain = filter (\<lambda>k. truthy (vk_required k) \<and> inconclusive k) ks in
      if failed \<noteq> [] then
        (V_FAILED, ''Verification FAILED: '' @ nat_str (length failed) @ '' required check(s) failed.'', ''VERIFICATION_FAILED'')
      else if uncertain \<noteq> [] then
        (V_UNCERTAIN, ''Verification UNCERTAIN: '' @ nat_str (length uncertain) @ '' required check(s) inconclusive.'',
         ''VERIFICATION_UNCERTAIN'')
      else
        (V_PASSED, ''Verification PASSED: '' @ count_checks (\<lambda>k. vk_status k = K_PASSED) ks @ ''/'' @ nat_str (length ks)
           @ '' check(s) satisfied criteria.'', ''VERIFICATION_PASSED''))"


text \<open>The report. The check mark and the cross are given by their UTF-8 bytes.\<close>

definition check_mark :: string where
  "check_mark = [CHR 0xE2, CHR 0x9C, CHR 0x93]"

definition cross_mark :: string where
  "cross_mark = [CHR 0xE2, CHR 0x9C, CHR 0x97]"

definition check_row :: "verify_env \<Rightarrow> verification_check \<Rightarrow> string" where
  "check_row ve k =
     ''| '' @ (if vk_status k = K_PASSED then check_mark @ '' PASSED'' else cross_mark @ '' '' @ check_status_value (vk_status k))
       @ '' | `'' @ check_type_value (vk_check_type k) @ ''` | '' @ str_val (vk_description k) @ '' | ''
       @ (if truthy (vk_required k) then ''Yes'' else ''Optional'') @ '' | '' @ ve_fixed ve 1 (vk_duration_ms k) @ ''ms |''"

definition check_details :: "verification_check \<Rightarrow> string list" where
  "check_details k =
     [''### `'' @ check_type_value (vk_check_type k) @ ''`: '' @ str_val (vk_description k),
      ''- **Status**: `'' @ check_status_value (vk_status k) @ ''`'',
      ''- **Expected**: `'' @ str_val (vk_expected_result k) @ ''`'',
      ''- **Actual**: `'' @ str_val (vk_actual_result k) @ ''`'']
     @ (if given (vk_error_message k) then [''- **Error**: '' @ the (vk_error_message k)] else []) @ [[]]"

definition generate_report :: "verify_env \<Rightarrow> task \<Rightarrow> verification_status \<Rightarrow> string \<Rightarrow> verification_check list \<Rightarrow> string list \<Rightarrow>
    string \<Rightarrow> string" where
  "generate_report ve t status summary ks evidence ms =
     (let bad = filter (\<lambda>k. vk_status k = K_FAILED \<or> inconclusive k) ks in
      join_with [CHR 10]
        ([''# Verification Report: '' @ t_title t, [], ''- **Task ID**: `'' @ t_id t @ ''`'',
          ''- **Status**: **`'' @ verification_status_value status @ ''`**'', ''- **Summary**: '' @ summary,
          ''- **Duration**: '' @ ve_fixed ve 2 ms @ ''ms'',
          ''- **Evidence Records**: '' @ nat_str (length evidence) @ '' collected'', [], ''## Verification Checks'', [],
          ''| Status | Type | Description | Required | Duration |'', ''| :--- | :--- | :--- | :--- | :--- |'']
         @ map (check_row ve) ks
         @ (if bad = [] then [] else [[], ''## Failure & Diagnostic Details'', []] @ concat (map check_details bad))))"

definition context_of :: "project \<Rightarrow> task \<Rightarrow> string option \<Rightarrow> check_context" where
  "context_of p t wid = \<lparr>cx_project_id = p_id p, cx_root = project_root p, cx_task_id = t_id t, cx_worker_id = wid\<rparr>"

definition verdict_payload :: "string \<Rightarrow> verification_status \<Rightarrow> string \<Rightarrow> verification_check list \<Rightarrow> string \<Rightarrow> pydict" where
  "verdict_payload vid status summary ks ms =
     [(''verification_id'', PStr vid), (''status'', PStr (verification_status_value status)), (''summary'', PStr summary),
      (''passed_count'', PInt (int (length (filter (\<lambda>k. vk_status k = K_PASSED) ks)))),
      (''failed_count'', PInt (int (length (filter (\<lambda>k. vk_status k = K_FAILED) ks)))),
      (''uncertain_count'', PInt (int (length (filter inconclusive ks)))), (''duration_ms'', PFloat ms)]"

definition conclude :: "tool_runtime \<Rightarrow> verify_env \<Rightarrow> check_context \<Rightarrow> project \<Rightarrow> task \<Rightarrow> string option \<Rightarrow> string option \<Rightarrow>
    verification_plan \<Rightarrow> string \<Rightarrow> verification_check list \<Rightarrow> (tool_state, verification) action" where
  "conclude rt ve cx p t checkpoint caus plan vid ks =
     (case aggregate ks of (status, summary, ty) \<Rightarrow>
       let evidence = concat (map vk_evidence_ids ks) in
       bind (elapsed rt) (\<lambda>ms.
       bind (clock rt) (\<lambda>now.
         (let report = generate_report ve t status summary ks evidence ms in
          bind (add_artifact rt cx A_REPORT (''.autonomos/reports/'' @ t_id t @ ''/verification.md'')
              (''Authoritative Verification Report for task '' @ quoted (t_title t)) report) (\<lambda>_.
          bind (verify_event rt cx caus ty (verdict_payload vid status summary ks ms)) (\<lambda>_.
            ret \<lparr>vn_id = vid, vn_project_id = p_id p, vn_task_id = t_id t, vn_checkpoint_id = checkpoint, vn_status = status,
              vn_checks = ks, vn_evidence_ids = evidence, vn_summary = summary, vn_started_at = now, vn_completed_at = Some now,
              vn_duration_ms = ms, vn_report_markdown = report,
              vn_metadata = [(''plan_id'', vp_id plan), (''checks_count'', PInt (int (length ks)))]\<rparr>))))))"

definition verify_task :: "tool_runtime \<Rightarrow> verify_env \<Rightarrow> check_adapter list \<Rightarrow> project \<Rightarrow> task \<Rightarrow> string option \<Rightarrow> string option \<Rightarrow>
    verification_plan option \<Rightarrow> string option \<Rightarrow> (tool_state, verification) action" where
  "verify_task rt ve as p t wid checkpoint plan caus =
     (let cx = context_of p t wid in
      bind (fresh rt ''verif-'' 10) (\<lambda>vid.
      bind read_store (\<lambda>s.
      bind (lift_sum (case plan of Some pl \<Rightarrow> Inr pl | None \<Rightarrow> resolve_plan t s)) (\<lambda>pl.
      bind (verify_event rt cx caus ''VERIFICATION_STARTED''
          [(''verification_id'', PStr vid), (''task_id'', PStr (t_id t)),
           (''criteria_count'', PInt (int (length (vp_criteria pl)))), (''checkpoint_id'', opt_str checkpoint)]) (\<lambda>_.
      bind (run_checks rt as cx vid caus (vp_criteria pl)) (\<lambda>ks.
        conclude rt ve cx p t checkpoint caus pl vid ks))))))"


section \<open>What the checks are\<close>

lemma surroundings [simp]:
  "fresh rt pre k st = (Inr (pre @ take k (or_uuid (tm_readings rt) (ts_tick st))), st\<lparr>ts_tick := ts_tick st + 1\<rparr>)"
  "clock rt st = (Inr (or_now (tm_readings rt) (ts_tick st)), st)"
  "elapsed rt st = (Inr (or_duration (tm_readings rt) (ts_tick st)), st)"
  "read_fs st = (Inr (ws_fs (cs_ws (ts_ck st))), st)" "read_store st = (Inr (ts_store st), st)"
  by (simp_all add: fresh_def clock_def elapsed_def read_fs_def read_store_def)

lemma bind_apply: "m st = (Inr x, st') \<Longrightarrow> bind m f st = f x st'"
  by (simp add: bind_def)

lemma bind_surroundings [simp]:
  "bind (fresh rt pre k) f1 st = f1 (pre @ take k (or_uuid (tm_readings rt) (ts_tick st))) (st\<lparr>ts_tick := ts_tick st + 1\<rparr>)"
  "bind (clock rt) f2 st = f2 (or_now (tm_readings rt) (ts_tick st)) st"
  "bind (elapsed rt) f3 st = f3 (or_duration (tm_readings rt) (ts_tick st)) st"
  "bind read_fs f4 st = f4 (ws_fs (cs_ws (ts_ck st))) st" "bind read_store f5 st = f5 (ts_store st) st"
  by (simp_all add: bind_def)

lemma record_of_sel [simp]:
  "vk_criterion_id (record_of cid vid c descr f ev ms meta) = sn_id c"
  "vk_check_type (record_of cid vid c descr f ev ms meta) = sn_check_type c"
  "vk_required (record_of cid vid c descr f ev ms meta) = sn_required c"
  "vk_status (record_of cid vid c descr f ev ms meta) = fst f"
  "vk_evidence_ids (record_of cid vid c descr f ev ms meta) = ev"
  by (simp_all add: record_of_def split: prod.split)

lemma found_status [simp]: "fst (found ok expected actual msg) = (if ok then K_PASSED else K_FAILED)"
  by (simp add: found_def)

text \<open>A check that is required is run: it passes, fails or is inconclusive.\<close>

definition answers :: "success_criterion \<Rightarrow> verification_check \<Rightarrow> bool" where
  "answers c k \<longleftrightarrow> vk_criterion_id k = sn_id c \<and> vk_check_type k = sn_check_type c \<and> vk_required k = sn_required c
     \<and> (truthy (sn_required c) \<longrightarrow> vk_status k \<in> {K_PASSED, K_FAILED, K_UNCERTAIN, K_ERROR})"

abbreviation decided :: "finding \<Rightarrow> bool" where
  "decided f \<equiv> fst f \<in> {K_PASSED, K_FAILED, K_UNCERTAIN, K_ERROR}"

lemma file_finding_decided: "decided (file_finding ve sha fs root c)"
  by (simp add: file_finding_def Let_def split: option.split sum.split)

lemma artifact_finding_decided: "decided (artifact_finding sha fs s cx c)"
  by (simp add: artifact_finding_def Let_def split: option.split sum.split)

lemma git_finding_decided: "decided (git_finding ve fs root c)"
  by (simp add: git_finding_def git_error_def git_status_finding_def expected_files_finding_def
      unexpected_files_finding_def Let_def split: sum.split)

lemma command_finding_decided: "command_finding ve params cmd code pattern r = Inr f \<Longrightarrow> decided f"
  by (auto simp: command_finding_def command_output_finding_def Let_def split: if_splits sum.splits pyval.splits list.splits)

lemma evidence_for_total: "\<exists>ev n. evidence_for rt pre f st = (Inr ev, st\<lparr>ts_tick := n\<rparr>) \<and> ts_tick st \<le> n"
proof (cases "fst f = K_ERROR")
  case True
  then have "evidence_for rt pre f st = (Inr [], st\<lparr>ts_tick := ts_tick st\<rparr>)" by (simp add: evidence_for_def)
  then show ?thesis by blast
next
  case False
  then have "\<exists>ev. evidence_for rt pre f st = (Inr ev, st\<lparr>ts_tick := ts_tick st + 1\<rparr>)" by (simp add: evidence_for_def)
  then show ?thesis by fastforce
qed

lemma lift_sum_Inr: "lift_sum m st = (Inr x, st') \<longleftrightarrow> m = Inr x \<and> st' = st"
  by (auto simp: lift_sum_def split: sum.split)

text \<open>Checks of files, artifacts and git answer their criterion and draw readings, nothing else.\<close>

definition observing :: "check_runner \<Rightarrow> bool" where
  "observing x \<longleftrightarrow> (\<forall>cx c vid st. \<exists>k n. x cx c vid st = (Inr k, st\<lparr>ts_tick := n\<rparr>) \<and> ts_tick st \<le> n \<and> answers c k)"

lemma observingD: "observing x \<Longrightarrow> \<exists>k n. x cx c vid st = (Inr k, st\<lparr>ts_tick := n\<rparr>) \<and> ts_tick st \<le> n \<and> answers c k"
  by (simp add: observing_def)

lemma recorded_observing:
  assumes "decided f"
  shows "\<exists>k n. bind (evidence_for rt pre f) (\<lambda>ev. bind (elapsed rt) (\<lambda>ms. ret (record_of cid vid c descr f ev ms meta))) st =
    (Inr k, st\<lparr>ts_tick := n\<rparr>) \<and> ts_tick st \<le> n \<and> answers c k"
proof -
  obtain ev n where ev: "evidence_for rt pre f st = (Inr ev, st\<lparr>ts_tick := n\<rparr>)" "ts_tick st \<le> n"
    using evidence_for_total by blast
  then show ?thesis using assms by (auto simp: bind_def answers_def)
qed

lemma tick_update_again: "(\<exists>k n. m = (Inr k, (st\<lparr>ts_tick := Suc (ts_tick st)\<rparr>)\<lparr>ts_tick := n\<rparr>) \<and> Suc (ts_tick st) \<le> n \<and> answers c k) \<Longrightarrow>
  \<exists>k n. m = (Inr k, st\<lparr>ts_tick := n\<rparr>) \<and> ts_tick st \<le> n \<and> answers c k"
  by (auto intro: Suc_leD)

lemma file_execute_observing: "observing (file_execute rt ve)"
proof (unfold observing_def, intro allI)
  fix cx c vid and st :: tool_state
  show "\<exists>k n. file_execute rt ve cx c vid st = (Inr k, st\<lparr>ts_tick := n\<rparr>) \<and> ts_tick st \<le> n \<and> answers c k"
    using recorded_observing[OF file_finding_decided, of rt _ ve "tm_sha rt" _ _ c _ _ c _ _ "st\<lparr>ts_tick := Suc (ts_tick st)\<rparr>"]
    by (intro tick_update_again) (simp add: file_execute_def Let_def)
qed

lemma artifact_execute_observing: "observing (artifact_execute rt)"
proof (unfold observing_def, intro allI)
  fix cx c vid and st :: tool_state
  show "\<exists>k n. artifact_execute rt cx c vid st = (Inr k, st\<lparr>ts_tick := n\<rparr>) \<and> ts_tick st \<le> n \<and> answers c k"
    using recorded_observing[OF artifact_finding_decided, of rt _ "tm_sha rt" _ _ cx c _ _ c _ _ "st\<lparr>ts_tick := Suc (ts_tick st)\<rparr>"]
    by (intro tick_update_again) (simp add: artifact_execute_def Let_def)
qed

lemma git_execute_observing: "observing (git_execute rt ve)"
proof (unfold observing_def, intro allI)
  fix cx c vid and st :: tool_state
  show "\<exists>k n. git_execute rt ve cx c vid st = (Inr k, st\<lparr>ts_tick := n\<rparr>) \<and> ts_tick st \<le> n \<and> answers c k"
    using recorded_observing[OF git_finding_decided, of rt _ ve _ _ c _ _ c _ _ "st\<lparr>ts_tick := Suc (ts_tick st)\<rparr>"]
    by (intro tick_update_again) (auto simp: git_execute_def Let_def answers_def not_a_repository_def)
qed

lemma command_execute_answers: "command_execute rt ve cx c vid st = (Inr k, st') \<Longrightarrow> answers c k"
  by (auto simp: command_execute_def bind_Inr answers_def lift_sum_Inr split: if_splits prod.splits
      dest: command_finding_decided)


section \<open>No false claim of success\<close>

lemma default_adapter_exists: "\<exists>a. find_adapter (default_adapters rt ve) ty = Some a"
  by (cases ty) (simp_all add: find_adapter_def default_adapters_def file_supports_def command_supports_def
      git_supports_def artifact_supports_def)

lemma observing_answers: "observing x \<Longrightarrow> x cx c vid st = (Inr k, st') \<Longrightarrow> answers c k"
  using observingD[of x cx c vid st] by auto

lemma default_adapter_answers:
  assumes "a \<in> set (default_adapters rt ve)" and "ad_execute a cx c vid st = (Inr k, st')"
  shows "answers c k"
  using assms observing_answers[OF file_execute_observing] observing_answers[OF artifact_execute_observing]
    observing_answers[OF git_execute_observing] command_execute_answers
  unfolding default_adapters_def by auto

lemma run_check_answers:
  assumes "run_check rt (default_adapters rt ve) cx vid caus c st = (Inr k, st')"
  shows "answers c k"
proof -
  obtain a where a: "find_adapter (default_adapters rt ve) (sn_check_type c) = Some a" using default_adapter_exists by blast
  then have "a \<in> set (default_adapters rt ve)" by (auto simp: find_adapter_def find_Some_iff)
  then show ?thesis using assms default_adapter_answers by (auto simp: run_check_def a bind_Inr)
qed

lemma run_checks_answers:
  "run_checks rt (default_adapters rt ve) cx vid caus cs st = (Inr ks, st') \<Longrightarrow> list_all2 answers cs ks"
  by (induction cs arbitrary: ks st) (auto simp: bind_Inr dest: run_check_answers)

lemma conclude_result:
  "conclude rt ve cx p t ck caus pl vid ks st = (Inr v, st') \<Longrightarrow> vn_checks v = ks \<and> vn_status v = fst (aggregate ks)"
  by (auto simp: conclude_def Let_def bind_Inr split: prod.splits)

text \<open>The verdict as a specification: what it says of the required criteria.\<close>

definition verdict :: "success_criterion list \<Rightarrow> verification_check list \<Rightarrow> verification_status" where
  "verdict cs ks =
     (if \<exists>(c, k) \<in> set (zip cs ks). truthy (sn_required c) \<and> vk_status k = K_FAILED then V_FAILED
      else if \<forall>(c, k) \<in> set (zip cs ks). truthy (sn_required c) \<longrightarrow> vk_status k = K_PASSED then V_PASSED
      else V_UNCERTAIN)"

lemma aggregate_verdict:
  assumes "list_all2 answers cs ks"
  shows "fst (aggregate ks) = verdict cs ks"
proof -
  from assms have
    "(\<exists>k \<in> set ks. truthy (vk_required k) \<and> vk_status k = K_FAILED) \<longleftrightarrow>
      (\<exists>(c, k) \<in> set (zip cs ks). truthy (sn_required c) \<and> vk_status k = K_FAILED)"
    "(\<exists>k \<in> set ks. truthy (vk_required k) \<and> vk_status k \<in> {K_FAILED, K_UNCERTAIN, K_ERROR}) \<longleftrightarrow>
      \<not> (\<forall>(c, k) \<in> set (zip cs ks). truthy (sn_required c) \<longrightarrow> vk_status k = K_PASSED)"
    by (induction rule: list_all2_induct) (auto simp: answers_def)
  then show ?thesis by (auto simp: aggregate_def verdict_def inconclusive_def Let_def filter_empty_conv)
qed

lemma verify_task_run:
  assumes "verify_task rt ve as p t wid ck plan caus st = (Inr v, st')"
  obtains pl e s0 s1 ks s2 vid where "(case plan of Some q \<Rightarrow> Inr q | None \<Rightarrow> resolve_plan t (ts_store st)) = Inr pl"
    "emit_event rt e (st\<lparr>ts_tick := Suc (ts_tick st)\<rparr>) = (Inr s0, s1)"
    "run_checks rt as (context_of p t wid) vid caus (vp_criteria pl) s1 = (Inr ks, s2)"
    "vn_checks v = ks" "vn_status v = fst (aggregate ks)"
  using assms
  by (auto simp: verify_task_def Let_def bind_Inr lift_sum_Inr verify_event_def cong: option.case_cong dest!: conclude_result)

text \<open>
  C26: no false claim of success: with the built-in adapters, a verification that returns has one check per
  criterion of the plan, in order, each naming its criterion, and its status is \<open>PASSED\<close> exactly if the check of
  every required criterion passed, \<open>FAILED\<close> if one failed, and \<open>UNCERTAIN\<close> otherwise.
\<close>

theorem verification_sound:
  assumes "verify_task rt ve (default_adapters rt ve) p t wid ck plan caus st = (Inr v, st')"
  shows "\<exists>pl. (case plan of Some q \<Rightarrow> pl = q | None \<Rightarrow> resolve_plan t (ts_store st) = Inr pl)
    \<and> list_all2 answers (vp_criteria pl) (vn_checks v) \<and> vn_status v = verdict (vp_criteria pl) (vn_checks v)"
  using assms
proof (rule verify_task_run)
  fix pl e s0 s1 ks s2 vid
  assume pl: "(case plan of Some q \<Rightarrow> Inr q | None \<Rightarrow> resolve_plan t (ts_store st)) = Inr pl"
    and ks: "run_checks rt (default_adapters rt ve) (context_of p t wid) vid caus (vp_criteria pl) s1 = (Inr ks, s2)"
    and v: "vn_checks v = ks" "vn_status v = fst (aggregate ks)"
  show ?thesis
    using pl v aggregate_verdict[OF run_checks_answers[OF ks]] run_checks_answers[OF ks]
    by (intro exI[of _ pl]) (auto split: option.splits)
qed


section \<open>What a verification leaves alone\<close>

definition forget_artifacts :: "task \<Rightarrow> task" where
  "forget_artifacts t = t\<lparr>t_artifacts := []\<rparr>"

text \<open>Nothing differs but the event log, the artifacts with their lists in the tasks, and the readings drawn.\<close>

definition untouched :: "tool_state \<Rightarrow> tool_state \<Rightarrow> bool" where
  "untouched st st' \<longleftrightarrow> ws_fs (cs_ws (ts_ck st')) = ws_fs (cs_ws (ts_ck st)) \<and> cs_table (ts_ck st') = cs_table (ts_ck st)
     \<and> get_project (ts_store st') = get_project (ts_store st) \<and> get_worker (ts_store st') = get_worker (ts_store st)
     \<and> s_memory_docs (ts_store st') = s_memory_docs (ts_store st)
     \<and> (\<forall>x. map_option forget_artifacts (get_task (ts_store st') x) = map_option forget_artifacts (get_task (ts_store st) x))"

lemma untouched_refl: "untouched st st"
  by (simp add: untouched_def)

lemma untouched_trans: "untouched a b \<Longrightarrow> untouched b c \<Longrightarrow> untouched a c"
  by (simp add: untouched_def)

lemma untouched_log: "same_but_log st st' \<Longrightarrow> untouched st st'"
proof -
  assume same: "same_but_log st st'"
  then have "s_memory_docs (ts_store st') = s_memory_docs (ts_store st)"
    by (auto simp: same_but_log_def without_log_def put_ts_store_def blank_log_def
        dest: arg_cong[where f = "\<lambda>x. s_memory_docs (ts_store x)"])
  then show ?thesis by (simp add: untouched_def same_but_log_parts[OF same])
qed

lemma untouched_tick [simp]: "untouched st (st\<lparr>ts_tick := n\<rparr>)"
  by (simp add: untouched_def)

lemma ready_log_later: "ready_log rt st \<Longrightarrow> ts_tick st \<le> n \<Longrightarrow> ready_log rt (st\<lparr>ts_tick := n\<rparr>)"
  using drawn_more[of rt st "n - ts_tick st"] by simp

text \<open>A computation that always returns, on a log that is in order, and leaves everything else alone.\<close>

definition calm :: "tool_runtime \<Rightarrow> (tool_state, 'a) action \<Rightarrow> bool" where
  "calm rt m \<longleftrightarrow> (\<forall>st. ready_log rt st \<longrightarrow> (\<exists>x st'. m st = (Inr x, st') \<and> ready_log rt st' \<and> untouched st st'))"

lemma calmD:
  assumes "calm rt m" "ready_log rt st"
  obtains x st' where "m st = (Inr x, st')" "ready_log rt st'" "untouched st st'"
  using assms unfolding calm_def by blast

lemma calm_ret: "calm rt (ret x)"
  by (simp add: calm_def untouched_refl)

lemma calm_bind:
  assumes "calm rt m" and "\<And>x. calm rt (f x)"
  shows "calm rt (bind m f)"
proof (unfold calm_def, intro allI impI)
  fix st assume "ready_log rt st"
  with assms(1) obtain x st1 where m: "m st = (Inr x, st1)" "ready_log rt st1" "untouched st st1" by (rule calmD)
  from assms(2) m(2) obtain y st2 where f: "f x st1 = (Inr y, st2)" "ready_log rt st2" "untouched st1 st2" by (rule calmD)
  show "\<exists>y st'. bind m f st = (Inr y, st') \<and> ready_log rt st' \<and> untouched st st'"
    using f untouched_trans[OF m(3) f(3)] by (simp add: bind_def m(1))
qed

lemma calm_surroundings:
  "calm rt (fresh rt pre k)" "calm rt (clock rt)" "calm rt (elapsed rt)" "calm rt read_fs" "calm rt read_store"
  by (simp_all add: calm_def untouched_refl ready_log_later)

lemma calm_emit: "calm rt (emit_event rt a)"
proof (unfold calm_def, intro allI impI)
  fix st assume "ready_log rt st"
  then obtain e st' where "emit_event rt a st = (Inr (Some e), st')" "ready_log rt st'" "same_but_log st st'"
    by (rule emit_event_grows[where a = a]) blast
  then show "\<exists>x st'. emit_event rt a st = (Inr x, st') \<and> ready_log rt st' \<and> untouched st st'"
    using untouched_log by blast
qed

lemma calm_observing: "observing x \<Longrightarrow> calm rt (x cx c vid)"
  by (unfold calm_def) (use observingD ready_log_later untouched_tick in blast)

lemma register_artifact_log:
  "event_part (snd (register_artifact sha jp pid tid wid ty rel descr content base meta aid nid now s)) = event_part s"
  by (simp add: register_artifact_def Let_def split: option.split)

lemma calm_add_artifact: "calm rt (add_artifact rt cx ty rel descr content)"
proof (unfold calm_def, intro allI impI)
  fix st assume ready: "ready_log rt st"
  define s where "s = snd (register_artifact (tm_sha rt) (\<lambda>_ r. r) (cx_project_id cx) (cx_task_id cx)
    (or_else (cx_worker_id cx) ''verifier'') ty rel descr (Some content) None None None
    (or_uuid (tm_readings rt) (ts_tick st)) (or_now (tm_readings rt) (ts_tick st)) (ts_store st))"
  have events: "event_part s = event_part (ts_store st)" by (simp add: s_def register_artifact_log)
  have "store_wf (ts_store st)" using ready by (simp add: ready_log_def log_ok_def)
  then have "store_wf s" using register_artifact_quiet unfolding s_def by blast
  then have "ready_log rt (put_ts_store s st)"
    using ready events by (simp add: ready_log_def log_ok_def event_part_def tool_log_state_def put_ts_store_def)
  then have ready': "ready_log rt ((put_ts_store s st)\<lparr>ts_tick := ts_tick st + 1\<rparr>)"
    by (intro ready_log_later) (simp_all add: put_ts_store_def)
  have "t_id t = x" if "dict_get (s_tasks (ts_store st)) x = Some t" for x t
    using tasks_tbl.key_get[OF \<open>store_wf (ts_store st)\<close>, of x t] that by (simp add: get_task_def)
  then have "untouched st ((put_ts_store s st)\<lparr>ts_tick := ts_tick st + 1\<rparr>)"
    by (auto simp: untouched_def put_ts_store_def s_def register_artifact_def Let_def forget_artifacts_def
        get_project_def get_worker_def get_task_def save_defs dict_simps split: option.split)
  with ready' show "\<exists>x st'. add_artifact rt cx ty rel descr content st = (Inr x, st') \<and> ready_log rt st' \<and> untouched st st'"
    by (simp add: add_artifact_def Let_def s_def)
qed


lemma calm_run_check:
  assumes "\<not> command_supports (sn_check_type c)"
  shows "calm rt (run_check rt (default_adapters rt ve) cx vid caus c)"
proof -
  obtain a where a: "find_adapter (default_adapters rt ve) (sn_check_type c) = Some a" using default_adapter_exists by blast
  then have "a \<in> set (default_adapters rt ve)" "ad_supports a (sn_check_type c)"
    by (auto simp: find_adapter_def find_Some_iff)
  then have "observing (ad_execute a)"
    using assms file_execute_observing artifact_execute_observing git_execute_observing
    by (auto simp: default_adapters_def)
  then show ?thesis
    unfolding run_check_def a option.case verify_event_def by (intro calm_bind calm_ret calm_emit calm_observing)
qed

lemma calm_run_checks:
  "\<forall>c \<in> set cs. \<not> command_supports (sn_check_type c) \<Longrightarrow> calm rt (run_checks rt (default_adapters rt ve) cx vid caus cs)"
  by (induction cs) (simp_all add: calm_ret calm_bind calm_run_check)

lemma calm_conclude: "calm rt (conclude rt ve cx p t ck caus pl vid ks)"
  unfolding conclude_def Let_def verify_event_def
  by (auto split: prod.split intro!: calm_bind calm_ret calm_emit calm_add_artifact calm_surroundings)

lemma verify_task_planned:
  assumes "(case plan of Some q \<Rightarrow> Inr q | None \<Rightarrow> resolve_plan t (ts_store st)) = Inr pl"
  shows "verify_task rt ve as p t wid ck plan caus st = verify_task rt ve as p t wid ck (Some pl) caus st"
  using assms by (auto simp: verify_task_def Let_def lift_sum_def split: option.splits)

lemma calm_verify_plan:
  assumes "\<forall>c \<in> set (vp_criteria pl). \<not> command_supports (sn_check_type c)"
  shows "calm rt (verify_task rt ve (default_adapters rt ve) p t wid ck (Some pl) caus)"
  unfolding verify_task_def Let_def verify_event_def option.case lift_sum_def sum.case bind_ret
  by (intro calm_bind calm_ret calm_emit calm_surroundings calm_conclude calm_run_checks assms)

text \<open>
  A verification whose plan has no command checks returns, never raises, and observes: the file tree, the
  checkpoints, the projects, the workers, the memory documents and everything in the tasks but their artifact
  lists are what they were.
\<close>

theorem verification_observes:
  assumes "ready_log rt st" and "(case plan of Some q \<Rightarrow> Inr q | None \<Rightarrow> resolve_plan t (ts_store st)) = Inr pl"
    and "\<forall>c \<in> set (vp_criteria pl). \<not> command_supports (sn_check_type c)"
  shows "\<exists>v st'. verify_task rt ve (default_adapters rt ve) p t wid ck plan caus st = (Inr v, st')
    \<and> untouched st st' \<and> ready_log rt st'"
  using calmD[OF calm_verify_plan[OF assms(3)] assms(1)] unfolding verify_task_planned[OF assms(2)] by metis

text \<open>What a file check decides: the path exists, is absent, has the digest or contains the pattern asked for.\<close>

definition file_holds :: "verify_env \<Rightarrow> digest \<Rightarrow> filesystem \<Rightarrow> path \<Rightarrow> success_criterion \<Rightarrow> bool" where
  "file_holds ve sha fs root c =
     (let target = join_path root (check_path c); params = sn_parameters c; expected = py_get params ''expected'' in
      case sn_check_type c of
        FILE_EXISTS \<Rightarrow> os_exists fs target
      | FILE_NOT_EXISTS \<Rightarrow> \<not> os_exists fs target
      | FILE_HASH \<Rightarrow> (\<exists>content. file_at fs target = Some content
          \<and> lower (sha content) = lower (str_val (p_or (p_or (py_get params ''expected_hash'') expected) (PStr []))))
      | _ \<Rightarrow> (\<exists>content. file_at fs target = Some content
          \<and> search_in ve params (str_val (p_or (p_or (py_get params ''pattern'') expected) (PStr []))) content = Inr True))"

lemma file_check_exact:
  assumes "file_supports (sn_check_type c)"
  shows "fst (file_finding ve sha fs root c) = K_PASSED \<longleftrightarrow> file_holds ve sha fs root c"
  using assms
  by (cases "sn_check_type c") (auto simp: file_supports_def file_finding_def file_holds_def Let_def split: option.split sum.split)


lemma sanity_passes:
  assumes "is_dir fs root" and "plain_path root"
  shows "fst (file_finding ve sha fs root (sanity_criterion t)) = K_PASSED"
proof -
  have "check_path (sanity_criterion t) = ''.''"
    by (simp add: check_path_def sanity_criterion_def strip_def is_space_def lstrip_chars_def)
  moreover have "join_path root ''.'' = root" by (simp add: join_path_def path_parts_def)
  ultimately show ?thesis
    using assms by (simp add: file_finding_def Let_def sanity_criterion_def os_exists_def os_path_plain path_exists_def)
qed


lemma run_check_file:
  assumes "file_supports (sn_check_type c)" and "run_check rt (default_adapters rt ve) cx vid caus c st = (Inr k, st')"
  shows "vk_status k = fst (file_finding ve (tm_sha rt) (ws_fs (cs_ws (ts_ck st))) (cx_root cx) c)"
proof -
  have adapter: "find_adapter (default_adapters rt ve) (sn_check_type c) = Some \<lparr>ad_supports = file_supports, ad_execute = file_execute rt ve\<rparr>"
    using assms(1) by (simp add: find_adapter_def default_adapters_def)
  obtain a e s1 s2 where start: "emit_event rt a st = (Inr e, s1)" and k: "file_execute rt ve cx c vid s1 = (Inr k, s2)"
    using assms(2) by (auto simp: run_check_def adapter bind_Inr verify_event_def)
  have "same_but_log st s1" using start emit_event_frame[of st rt a] by simp
  then have "ws_fs (cs_ws (ts_ck s1)) = ws_fs (cs_ws (ts_ck st))" by (rule same_but_log_parts)
  then show ?thesis using k by (auto simp: file_execute_def Let_def bind_Inr)
qed

lemma resolve_plan_default:
  assumes "t_success_criteria t = []" and "t_artifacts t = []" and "dict_get (t_metadata t) ''verification_plan'' = None"
    and "dict_get (t_metadata t) ''success_criteria'' = None"
  shows "resolve_plan t s = Inr (plan_of t [sanity_criterion t])"
  using assms by (simp add: resolve_plan_def declared_criteria_def py_get_def get_or_def p_or_def)

lemma unspecified_verdict:
  assumes "ready_log rt st" and "is_dir (ws_fs (cs_ws (ts_ck st))) (project_root p)"
    and "t_success_criteria t = []" and "t_artifacts t = []"
    and "dict_get (t_metadata t) ''verification_plan'' = None" and "dict_get (t_metadata t) ''success_criteria'' = None"
  shows "\<exists>v st'. verify_task rt ve (default_adapters rt ve) p t wid ck None caus st = (Inr v, st') \<and> vn_status v = V_PASSED
    \<and> ready_log rt st' \<and> untouched st st'"
proof -
  let ?c = "sanity_criterion t"
  have plan: "resolve_plan t (ts_store st) = Inr (plan_of t [?c])" by (rule resolve_plan_default) (use assms in auto)
  have same: "verify_task rt ve (default_adapters rt ve) p t wid ck None caus st =
      verify_task rt ve (default_adapters rt ve) p t wid ck (Some (plan_of t [?c])) caus st"
    by (rule verify_task_planned) (simp add: plan)
  have "calm rt (verify_task rt ve (default_adapters rt ve) p t wid ck (Some (plan_of t [?c])) caus)"
    by (rule calm_verify_plan) (simp add: plan_of_def sanity_criterion_def command_supports_def)
  then obtain v st' where run: "verify_task rt ve (default_adapters rt ve) p t wid ck None caus st = (Inr v, st')"
    "ready_log rt st'" "untouched st st'"
    using assms(1) unfolding same by (auto elim: calmD)
  from run(1) have "vn_status v = V_PASSED"
  proof (rule verify_task_run)
    fix pl e s0 s1 ks s2 vid
    assume pl: "(case None of Some q \<Rightarrow> Inr q | None \<Rightarrow> resolve_plan t (ts_store st)) = Inr pl"
      and start: "emit_event rt e (st\<lparr>ts_tick := Suc (ts_tick st)\<rparr>) = (Inr s0, s1)"
      and ks: "run_checks rt (default_adapters rt ve) (context_of p t wid) vid caus (vp_criteria pl) s1 = (Inr ks, s2)"
      and v: "vn_checks v = ks" "vn_status v = fst (aggregate ks)"
    have "same_but_log (st\<lparr>ts_tick := Suc (ts_tick st)\<rparr>) s1"
      using start emit_event_frame[of "st\<lparr>ts_tick := Suc (ts_tick st)\<rparr>" rt e] by simp
    then have fs: "ws_fs (cs_ws (ts_ck s1)) = ws_fs (cs_ws (ts_ck st))" by (simp add: same_but_log_parts)
    obtain k where k: "ks = [k]" "run_check rt (default_adapters rt ve) (context_of p t wid) vid caus ?c s1 = (Inr k, s2)"
      using ks pl plan by (auto simp: plan_of_def bind_Inr)
    have "vk_status k = K_PASSED"
      using run_check_file[OF _ k(2)] sanity_passes[OF assms(2), of ve "tm_sha rt" t]
      by (simp add: fs context_of_def file_supports_def sanity_criterion_def project_root_def plain_collapse)
    then show ?thesis by (simp add: v(2) k(1) aggregate_def inconclusive_def Let_def)
  qed
  with run show ?thesis by blast
qed

text \<open>
  What the verification of an unspecified task is worth: a task without success criteria, without a plan in its
  metadata and without artifacts passes as soon as the project directory exists, whatever the worker has done.
\<close>

theorem unspecified_task_passes:
  assumes "ready_log rt st" and "is_dir (ws_fs (cs_ws (ts_ck st))) (project_root p)"
    and "t_success_criteria t = []" and "t_artifacts t = []"
    and "dict_get (t_metadata t) ''verification_plan'' = None" and "dict_get (t_metadata t) ''success_criteria'' = None"
  shows "\<exists>v st'. verify_task rt ve (default_adapters rt ve) p t wid ck None caus st = (Inr v, st') \<and> vn_status v = V_PASSED"
  using unspecified_verdict[OF assms] by blast


section \<open>Sample runs\<close>

definition sample_verify_env :: verify_env where
  "sample_verify_env = \<lparr>ve_search = (\<lambda>p t. Inr (contains t p)), ve_int = (\<lambda>_. None), ve_fixed = (\<lambda>_ x. x),
     ve_git_status = (\<lambda>_ _. Inr []), ve_git_diff = (\<lambda>_ _. Inr [])\<rparr>"

definition root_state :: tool_state where
  "root_state = \<lparr>ts_ck = \<lparr>cs_ws = sample_workspace\<lparr>ws_fs := \<lparr>fs_files = [], fs_dirs = [[''home''], [''home'', ''p'']]\<rparr>\<rparr>,
     cs_table = []\<rparr>, ts_tick = 0\<rparr>"

lemma root_state_ready: "ready_log sample_runtime root_state"
proof -
  have "inj (\<lambda>n. replicate n CHR ''u'')" by (rule injI) (metis length_replicate)
  moreover have "s_events (ts_store root_state) = []" by code_simp
  moreover have "store_wf (ts_store root_state)" by (simp add: root_state_def sample_workspace_def)
  ultimately show ?thesis
    by (simp add: ready_log_def sample_runtime_def sample_readings_def fresh_uuids_def log_ok_def)
qed

abbreviation sample_verify :: "project \<Rightarrow> task \<Rightarrow> (tool_state, verification) action" where
  "sample_verify p t \<equiv>
     verify_task sample_runtime sample_verify_env (default_adapters sample_runtime sample_verify_env) p t None None None None"

definition located_project :: project where
  "located_project = (sample_project ''p'')\<lparr>p_root_path := ''/home/p''\<rparr>"

theorem unspecified_task_passes_witness:
  "\<exists>v st'. sample_verify located_project (sample_task ''t'' T_RUNNING) root_state = (Inr v, st') \<and> vn_status v = V_PASSED"
proof (rule unspecified_task_passes[OF root_state_ready])
  show "is_dir (ws_fs (cs_ws (ts_ck root_state))) (project_root located_project)" by code_simp
qed (simp_all add: sample_task_def)

theorem verification_observes_witness:
  "\<exists>v st'. sample_verify located_project (sample_task ''t'' T_RUNNING) root_state = (Inr v, st')
    \<and> untouched root_state st' \<and> ready_log sample_runtime st'"
proof (rule verification_observes[OF root_state_ready])
  show "(case None of Some q \<Rightarrow> Inr q | None \<Rightarrow> resolve_plan (sample_task ''t'' T_RUNNING) (ts_store root_state)) =
      Inr (plan_of (sample_task ''t'' T_RUNNING) [sanity_criterion (sample_task ''t'' T_RUNNING)])"
    by (simp add: resolve_plan_default sample_task_def)
qed (simp add: plan_of_def sanity_criterion_def command_supports_def)

theorem verification_sound_witness:
  "\<exists>v st'. sample_verify located_project (sample_task ''t'' T_RUNNING) root_state = (Inr v, st')
    \<and> (\<exists>pl. resolve_plan (sample_task ''t'' T_RUNNING) (ts_store root_state) = Inr pl
      \<and> list_all2 answers (vp_criteria pl) (vn_checks v) \<and> vn_status v = verdict (vp_criteria pl) (vn_checks v))"
proof -
  let ?t = "sample_task ''t'' T_RUNNING"
  have "calm sample_runtime (verify_task sample_runtime sample_verify_env (default_adapters sample_runtime sample_verify_env)
      located_project ?t None None (Some (plan_of ?t [sanity_criterion ?t])) None)"
    by (rule calm_verify_plan) (simp add: plan_of_def sanity_criterion_def command_supports_def)
  moreover have "sample_verify located_project ?t root_state =
      verify_task sample_runtime sample_verify_env (default_adapters sample_runtime sample_verify_env)
        located_project ?t None None (Some (plan_of ?t [sanity_criterion ?t])) None root_state"
    by (rule verify_task_planned) (simp add: resolve_plan_default sample_task_def)
  ultimately obtain v st' where run: "sample_verify located_project ?t root_state = (Inr v, st')"
    using root_state_ready by (auto elim: calmD)
  show ?thesis using verification_sound[OF run] run by auto
qed

end
