(* ===== verification/Workforce_Runtime.thy ===== *)
theory Workforce_Runtime
  imports Verification
begin

text \<open>
  The workforce runtime (\<open>core/runtime/workforce_runtime.py\<close>), which puts the components together: recovery
  after a restart, activation of workers, the logged operations on projects, workers, tasks and memory, and
  \<open>run_task\<close>, which takes one task through execution, verification and commit or rollback. What a worker does
  while it executes is a parameter that may change the state in any way.
\<close>

section \<open>State\<close>

record wf_state =
  wf_ts :: tool_state
  wf_instances :: "(string, worker_instance) dict"
  wf_factories :: "(string, factory) dict"

abbreviation wf_store :: "wf_state \<Rightarrow> store" where
  "wf_store st \<equiv> ts_store (wf_ts st)"

text \<open>
  \<open>wk_code\<close> is \<open>before_task\<close> followed by \<open>execute_task\<close> of the worker with the given identifier, \<open>wk_after\<close> its
  \<open>after_task\<close>.
\<close>

record workforce =
  wk_rt :: tool_runtime
  wk_verify :: verify_env
  wk_adapters :: "check_adapter list"
  wk_code :: "string \<Rightarrow> task \<Rightarrow> (wf_state, worker_output) action"
  wk_after :: "string \<Rightarrow> task \<Rightarrow> worker_output \<Rightarrow> (wf_state, unit) action"

definition wf_registry :: "wf_state \<Rightarrow> registry" where
  "wf_registry st = \<lparr>r_store = wf_store st, r_instances = wf_instances st, r_factories = wf_factories st\<rparr>"

definition put_wf_store :: "store \<Rightarrow> wf_state \<Rightarrow> wf_state" where
  "put_wf_store s st = st\<lparr>wf_ts := put_ts_store s (wf_ts st)\<rparr>"

definition put_registry :: "registry \<Rightarrow> wf_state \<Rightarrow> wf_state" where
  "put_registry r st = (put_wf_store (r_store r) st)\<lparr>wf_instances := r_instances r, wf_factories := r_factories r\<rparr>"

text \<open>Operations of the components, run on their part of the state; readings of the clock and identifiers are drawn.\<close>

definition wf_now :: "workforce \<Rightarrow> wf_state \<Rightarrow> string" where
  "wf_now wk st = or_now (tm_readings (wk_rt wk)) (ts_tick (wf_ts st))"

definition on_tools :: "(tool_state, 'a) action \<Rightarrow> (wf_state, 'a) action" where
  "on_tools m st = (case m (wf_ts st) of (r, ts) \<Rightarrow> (r, st\<lparr>wf_ts := ts\<rparr>))"

definition on_registry :: "workforce \<Rightarrow> (string \<Rightarrow> registry \<Rightarrow> (error + 'a) \<times> registry) \<Rightarrow> (wf_state, 'a) action" where
  "on_registry wk f st = (case f (wf_now wk st) (wf_registry st) of (r, reg) \<Rightarrow> (r, put_registry reg st))"

definition on_store :: "workforce \<Rightarrow> (string \<Rightarrow> string \<Rightarrow> store \<Rightarrow> (error + 'a) \<times> store) \<Rightarrow> (wf_state, 'a) action" where
  \<comment> \<open>the operation takes a fresh identifier and the time\<close>
  "on_store wk f st =
     (case f (or_uuid (tm_readings (wk_rt wk)) (ts_tick (wf_ts st))) (wf_now wk st) (wf_store st) of
        (r, s) \<Rightarrow> (r, st\<lparr>wf_ts := (put_ts_store s (wf_ts st))\<lparr>ts_tick := ts_tick (wf_ts st) + 1\<rparr>\<rparr>))"

definition on_memory :: "workforce \<Rightarrow> nat \<Rightarrow> ((nat \<Rightarrow> string) \<Rightarrow> string \<Rightarrow> workspace \<Rightarrow> (error + 'a) \<times> workspace) \<Rightarrow> (wf_state, 'a) action" where
  \<comment> \<open>the operation takes a number of fresh identifiers and the time\<close>
  "on_memory wk k f st =
     (let ts = wf_ts st; n = ts_tick ts in
      case f (\<lambda>i. or_uuid (tm_readings (wk_rt wk)) (n + i)) (wf_now wk st) (cs_ws (ts_ck ts)) of
        (r, w) \<Rightarrow> (r, st\<lparr>wf_ts := ts\<lparr>ts_ck := (ts_ck ts)\<lparr>cs_ws := w\<rparr>, ts_tick := n + k\<rparr>\<rparr>))"

definition save :: "(store \<Rightarrow> store) \<Rightarrow> (wf_state, unit) action" where
  "save f st = (Inr (), put_wf_store (f (wf_store st)) st)"

definition look :: "(wf_state \<Rightarrow> error + 'a) \<Rightarrow> (wf_state, 'a) action" where
  "look f st = (f st, st)"

text \<open>\<open>log_event\<close>\<close>

definition wf_log :: "workforce \<Rightarrow> event_args \<Rightarrow> (wf_state, event) action" where
  "wf_log wk a = on_tools (\<lambda>ts. case log_event (tm_readings (wk_rt wk)) a (tool_log_state ts) of
     (r, l) \<Rightarrow> (r, (put_ts_store (lg_store l) ts)\<lparr>ts_tick := lg_tick l\<rparr>))"

definition args_of :: "event_type \<Rightarrow> pydict \<Rightarrow> string option \<Rightarrow> string option \<Rightarrow> string option \<Rightarrow> string option \<Rightarrow>
    string option \<Rightarrow> event_args" where
  \<comment> \<open>type, payload, project, task, worker, correlation, causation\<close>
  "args_of ty payload pid tid wid corr caus =
     \<lparr>ea_type = ty, ea_payload = payload, ea_source = ''RUNTIME'', ea_correlation = corr, ea_causation = caus,
      ea_project = pid, ea_task = tid, ea_worker = wid, ea_artifact = None, ea_metadata = []\<rparr>"


section \<open>Recovery after a restart\<close>

text \<open>
  \<open>_recover_orphaned_tasks\<close>: the tasks and workers are those of the listing at the start of each project. A worker
  that cannot be freed is left alone.
\<close>

definition orphaned :: "task \<Rightarrow> bool" where
  "orphaned t \<longleftrightarrow> t_status t \<in> {T_RUNNING, T_ASSIGNED}"

definition recovered :: "task \<Rightarrow> task" where
  "recovered t = t\<lparr>t_status := (if t_attempts t < t_max_attempts t then T_RETRYING else T_FAILED), t_assigned_worker := None\<rparr>"

definition recover_task :: "workforce \<Rightarrow> task \<Rightarrow> (wf_state, unit) action" where
  "recover_task wk t =
     (if \<not> orphaned t then ret ()
      else bind (if given (t_assigned_worker t)
                 then try_catch (bind (on_registry wk (registry_update_worker_status (the (t_assigned_worker t)) W_IDLE None))
                        (\<lambda>_. ret ())) (\<lambda>_. ret ())
                 else ret ())
             (\<lambda>_. save (save_task (recovered t))))"

definition recover_project :: "workforce \<Rightarrow> project \<Rightarrow> (wf_state, unit) action" where
  "recover_project wk p =
     bind (look (\<lambda>st. Inr (list_tasks (wf_store st) (Some (p_id p)) None))) (\<lambda>ts. each (recover_task wk) ts)"

definition recover_orphaned_tasks :: "workforce \<Rightarrow> (wf_state, unit) action" where
  "recover_orphaned_tasks wk =
     bind (look (\<lambda>st. Inr (list_projects (wf_store st)))) (\<lambda>ps. each (recover_project wk) ps)"


section \<open>Projects, workers and tasks\<close>

definition runtime_create_project ::
  "workforce \<Rightarrow> string \<Rightarrow> string \<Rightarrow> string \<Rightarrow> string option \<Rightarrow> pydict option \<Rightarrow> (string \<Rightarrow> string) \<Rightarrow> bool \<Rightarrow>
    (wf_state, project) action" where
  "runtime_create_project wk name root descr opid config resolve initialize =
     bind (on_store wk (\<lambda>nid now. registry_create_project resolve name root descr opid config nid now)) (\<lambda>p.
     bind (wf_log wk (args_of ''PROJECT_CREATED''
         [(''name'', PStr (p_name p)), (''description'', PStr (p_description p)), (''root_path'', PStr (p_root_path p))]
         (Some (p_id p)) None None (Some (p_id p)) None)) (\<lambda>e.
       if \<not> initialize then ret p
       else bind (on_memory wk 3 (initialize_project_memory (tm_sha (wk_rt wk)) (p_id p) (p_name p) (p_description p)))
         (\<lambda>(d1, d2, d3).
            bind (each (\<lambda>d. bind (wf_log wk (args_of ''MEMORY_CREATED''
                [(''memory_id'', PStr (m_id d)), (''title'', PStr (m_title d)), (''relative_path'', PStr (m_relative_path d))]
                (Some (p_id p)) None None (Some (p_id p)) (Some (e_event_id e)))) (\<lambda>_. ret ())) [d1, d2, d3])
              (\<lambda>_. ret p))))"

definition manifest_payload :: "worker \<Rightarrow> pydict" where
  "manifest_payload m =
     [(''name'', PStr (w_name m)), (''role'', PStr (w_role m)), (''capabilities'', str_list (w_capabilities m)),
      (''permissions'', str_list (w_permissions m))]"

definition runtime_register_worker :: "workforce \<Rightarrow> worker_instance \<Rightarrow> worker_status \<Rightarrow> (wf_state, worker) action" where
  "runtime_register_worker wk wi initial =
     bind (on_registry wk (register_worker wi initial)) (\<lambda>m.
     bind (wf_log wk (args_of ''WORKER_REGISTERED'' (manifest_payload m) None None (Some (w_id m)) (Some (w_id m)) None))
       (\<lambda>_. ret m))"

text \<open>\<open>register_default_specialist_workers\<close>: the specialists with their default identifiers.\<close>

definition register_default_specialist_workers :: "workforce \<Rightarrow> (wf_state, unit) action" where
  "register_default_specialist_workers wk =
     each (\<lambda>f. bind (look (\<lambda>st. f [] (wf_now wk st))) (\<lambda>wi.
             bind (runtime_register_worker wk wi W_IDLE) (\<lambda>_. ret ()))) [make_researcher, make_programmer, make_tester]"

text \<open>\<open>activate_worker\<close>\<close>

definition activation_error :: "string \<Rightarrow> string option \<Rightarrow> error \<Rightarrow> error" where
  "activation_error ident tid err =
     (if contains (lower ident) ''research'' then ResearcherActivationFailed ident (error_message err) tid False ''FAILED''
      else if is_activation_failed err then err
      else WorkerActivationFailedError ident (error_message err) tid False ''FAILED'')"

definition or_option :: "string option \<Rightarrow> string option \<Rightarrow> string option" where
  "or_option a b = (if given a then a else b)"

definition provisioned :: "workforce \<Rightarrow> string \<Rightarrow> string option \<Rightarrow> event \<Rightarrow> (wf_state, worker) action" where
  "provisioned wk ident pid start =
     bind (on_registry wk (provision_worker ident W_IDLE)) (\<lambda>(m, is_new).
     bind (if \<not> is_new then ret ()
           else bind (wf_log wk (args_of ''WORKER_REGISTERED'' (manifest_payload m) pid None (Some (w_id m)) (Some (w_id m))
                    (Some (e_event_id start)))) (\<lambda>_.
                bind (wf_log wk (args_of ''WORKER_BECAME_IDLE''
                    [(''worker_id'', PStr (w_id m)), (''role'', PStr (w_role m))] pid None (Some (w_id m)) (Some (w_id m))
                    (Some (e_event_id start)))) (\<lambda>_. ret ()))) (\<lambda>_.
     bind (wf_log wk (args_of ''WORKER_ACTIVATION_COMPLETED''
         [(''worker_id'', PStr (w_id m)), (''role'', PStr (w_role m)), (''status'', PStr (worker_status_value (w_status m)))]
         pid None (Some (w_id m)) (Some (w_id m)) (Some (e_event_id start)))) (\<lambda>_. ret m)))"

definition activate_worker :: "workforce \<Rightarrow> string \<Rightarrow> string option \<Rightarrow> string option \<Rightarrow> string option \<Rightarrow> (wf_state, worker) action" where
  "activate_worker wk ident pid tid caus =
     bind (wf_log wk (args_of ''WORKER_ACTIVATION_REQUESTED''
         [(''worker_id_or_role'', PStr ident), (''task_id'', opt_str tid), (''project_id'', opt_str pid)]
         pid tid None (or_option tid pid) caus)) (\<lambda>req.
     bind (wf_log wk (args_of ''WORKER_ACTIVATION_STARTED'' [(''worker_id_or_role'', PStr ident), (''task_id'', opt_str tid)]
         pid tid None (or_option tid pid) (Some (e_event_id req)))) (\<lambda>start.
       try_catch (provisioned wk ident pid start)
         (\<lambda>err. bind (wf_log wk (args_of ''WORKER_ACTIVATION_FAILED''
             [(''worker_id_or_role'', PStr ident), (''reason'', PStr (error_message err)), (''task_id'', opt_str tid)]
             pid tid None (or_option tid pid) (Some (e_event_id start))))
           (\<lambda>_. raise (activation_error ident tid err)))))"


text \<open>Tasks\<close>

record new_task =
  nt_project_id :: string
  nt_title :: string
  nt_objective :: string
  nt_parent :: "string option"
  nt_priority :: int
  nt_risk :: risk_level
  nt_dependencies :: "string list"
  nt_success_criteria :: "pyval list"
  nt_context_references :: "pyval list"
  nt_max_attempts :: int
  nt_task_id :: "string option"
  nt_metadata :: pydict

definition runtime_create_task :: "workforce \<Rightarrow> new_task \<Rightarrow> (wf_state, task) action" where
  "runtime_create_task wk a =
     bind (on_store wk (create_task (nt_project_id a) (nt_title a) (nt_objective a) (nt_parent a) (nt_priority a) (nt_risk a)
         (nt_dependencies a) (nt_success_criteria a) (nt_context_references a) (nt_max_attempts a) (nt_task_id a)
         (nt_metadata a))) (\<lambda>t.
     bind (wf_log wk (args_of ''TASK_CREATED''
         [(''title'', PStr (t_title t)), (''objective'', PStr (t_objective t)),
          (''status'', PStr (task_status_value (t_status t))), (''risk'', PStr (risk_level_value (t_risk t)))]
         (Some (nt_project_id a)) (Some (t_id t)) None (Some (t_id t)) None)) (\<lambda>_. ret t))"

definition add_task_dependency :: "workforce \<Rightarrow> string \<Rightarrow> string \<Rightarrow> dependency_type \<Rightarrow> (wf_state, unit) action" where
  "add_task_dependency wk dependent prereq ty =
     bind (on_store wk (\<lambda>_ now. engine_add_dependency dependent prereq ty now)) (\<lambda>_.
     bind (wf_log wk (args_of ''DEPENDENCY_ADDED''
         [(''dependent_task_id'', PStr dependent), (''prerequisite_task_id'', PStr prereq),
          (''type'', PStr (dependency_type_value ty))]
         None (Some dependent) None (Some dependent) None)) (\<lambda>_. ret ()))"

text \<open>\<open>assign_task\<close>: an unknown worker is activated first; whether that works shows in the assignment itself.\<close>

definition runtime_assign_task :: "workforce \<Rightarrow> string \<Rightarrow> string \<Rightarrow> (wf_state, task \<times> worker) action" where
  "runtime_assign_task wk tid wid =
     bind (look (\<lambda>st. Inr (has_worker wid (wf_registry st)))) (\<lambda>known.
     bind (if known then ret ()
           else try_catch (bind (activate_worker wk wid None (Some tid) None) (\<lambda>_. ret ())) (\<lambda>_. ret ())) (\<lambda>_.
     bind (on_registry wk (assign_task tid wid)) (\<lambda>(t, m).
     bind (wf_log wk (args_of ''TASK_ASSIGNED'' [(''worker_id'', PStr wid), (''title'', PStr (t_title t))]
         (Some (t_project_id t)) (Some tid) (Some wid) (Some tid) None)) (\<lambda>e.
     bind (wf_log wk (args_of ''WORKER_ASSIGNED'' [(''task_id'', PStr tid), (''task_title'', PStr (t_title t))]
         (Some (t_project_id t)) (Some tid) (Some wid) (Some tid) (Some (e_event_id e)))) (\<lambda>_.
       ret (t, m))))))"

text \<open>\<open>execute_tool\<close>: the request of a worker, through the tool runtime.\<close>

definition execute_tool :: "workforce \<Rightarrow> string \<Rightarrow> string \<Rightarrow> string \<Rightarrow> string \<Rightarrow> pydict \<Rightarrow> int option \<Rightarrow> string option \<Rightarrow>
    (wf_state, tool_result) action" where
  "execute_tool wk pid tid wid tool args timeout caus =
     on_tools (bind (fresh (wk_rt wk) ''tool-req-'' 10) (\<lambda>rid. bind (clock (wk_rt wk)) (\<lambda>now.
       execute_request (wk_rt wk)
         \<lparr>tq_project_id = pid, tq_task_id = tid, tq_worker_id = wid, tq_tool_id = tool, tq_arguments = args,
          tq_request_id = rid, tq_correlation_id = Some tid, tq_causation_id = caus, tq_timeout_seconds = timeout,
          tq_metadata = [], tq_created_at = now\<rparr>)))"


section \<open>Running a task\<close>

text \<open>The events of a run name the project, the task and the worker, and correlate by the task.\<close>

definition run_event :: "workforce \<Rightarrow> project \<Rightarrow> string \<Rightarrow> string \<Rightarrow> string option \<Rightarrow> event_type \<Rightarrow> pydict \<Rightarrow> (wf_state, event) action" where
  "run_event wk p tid wid caus ty payload =
     wf_log wk (args_of ty payload (Some (p_id p)) (Some tid) (Some wid) (Some tid) caus)"

definition lift_now :: "workforce \<Rightarrow> (string \<Rightarrow> error + 'a) \<Rightarrow> (wf_state, 'a) action" where
  "lift_now wk f st = (f (wf_now wk st), st)"

text \<open>What the start of a run hands on: the task and the worker as started, the project and the start event.\<close>

record run_info =
  rn_task :: task
  rn_worker :: worker
  rn_project :: project
  rn_start :: string

text \<open>An assigned worker that is idle is engaged first.\<close>

definition engage_idle :: "workforce \<Rightarrow> string \<Rightarrow> worker \<Rightarrow> (wf_state, worker) action" where
  "engage_idle wk tid m =
     (if w_status m = W_IDLE
      then bind (lift_now wk (worker_transition m W_ASSIGNED (Some tid))) (\<lambda>m1. bind (save (save_worker m1)) (\<lambda>_. ret m1))
      else ret m)"

definition start_task :: "workforce \<Rightarrow> string \<Rightarrow> (wf_state, run_info) action" where
  "start_task wk tid =
     bind (look (\<lambda>st. engine_get_task tid (wf_store st))) (\<lambda>t.
       if t_status t = T_COMPLETED then raise (TaskAlreadyCompletedError tid)
       else if \<not> given (t_assigned_worker t) then raise (WorkerNotFoundError ''No worker assigned to task'')
       else
     bind (look (\<lambda>st. registry_get_worker (the (t_assigned_worker t)) (wf_registry st))) (\<lambda>m.
     bind (on_registry wk (get_worker_instance (the (t_assigned_worker t)))) (\<lambda>_.
     bind (look (\<lambda>st. registry_get_project (t_project_id t) (wf_store st))) (\<lambda>p.
     bind (lift_now wk (task_transition (t\<lparr>t_attempts := t_attempts t + 1\<rparr>) T_RUNNING None)) (\<lambda>t1.
     bind (save (save_task t1)) (\<lambda>_.
     bind (engage_idle wk (t_id t) m) (\<lambda>m1.
     bind (lift_now wk (worker_transition m1 W_RUNNING (Some (t_id t)))) (\<lambda>m2.
     bind (save (save_worker m2)) (\<lambda>_.
     bind (look (\<lambda>st. Inr (list_events (wf_store st) None (Some (t_id t)) None None (Some [''TASK_ASSIGNED'']) None (Some 1)))) (\<lambda>es.
     bind (run_event wk p (t_id t) (w_id m) (if es = [] then None else Some (e_event_id (last es))) ''TASK_STARTED''
         [(''attempt'', PInt (t_attempts t1)), (''worker_id'', PStr (w_id m)), (''title'', PStr (t_title t))]) (\<lambda>e.
     bind (run_event wk p (t_id t) (w_id m) (Some (e_event_id e)) ''WORKER_STARTED''
         [(''task_id'', PStr (t_id t)), (''attempt'', PInt (t_attempts t1))]) (\<lambda>_.
       ret \<lparr>rn_task = t1, rn_worker = m2, rn_project = p, rn_start = e_event_id e\<rparr>))))))))))))"

definition rn_event :: "workforce \<Rightarrow> run_info \<Rightarrow> event_type \<Rightarrow> pydict \<Rightarrow> (wf_state, event) action" where
  "rn_event wk rn ty payload = run_event wk (rn_project rn) (t_id (rn_task rn)) (w_id (rn_worker rn)) (Some (rn_start rn)) ty payload"

text \<open>The checkpoint before the run.\<close>

definition open_checkpoint :: "workforce \<Rightarrow> run_info \<Rightarrow> (wf_state, checkpoint) action" where
  "open_checkpoint wk rn st =
     (let rt = wk_rt wk; ts = wf_ts st; n = ts_tick ts in
      case create_checkpoint (tm_git rt) (tm_sha rt) (p_id (rn_project rn)) (t_id (rn_task rn)) (w_id (rn_worker rn)) None
          (or_uuid (tm_readings rt) n) (or_now (tm_readings rt) n) (ts_ck ts) of
        (r, ck) \<Rightarrow> (r, st\<lparr>wf_ts := ts\<lparr>ts_ck := ck, ts_tick := n + 1\<rparr>\<rparr>))"

definition pre_checkpoint :: "workforce \<Rightarrow> run_info \<Rightarrow> (wf_state, checkpoint option) action" where
  "pre_checkpoint wk rn =
     (if \<not> sc_auto_checkpoint (tm_safety (wk_rt wk)) then ret None
      else bind (open_checkpoint wk rn) (\<lambda>c.
           bind (rn_event wk rn ''CHECKPOINT_CREATED''
               [(''checkpoint_id'', PStr (ck_id c)), (''checkpoint_type'', PStr (checkpoint_type_value (ck_type c)))])
             (\<lambda>_. ret (Some c))))"

text \<open>
  The execution: an exception of the worker becomes a failed output. \<open>after_task\<close> runs in any case, and what it
  raises is swallowed.
\<close>

definition failed_output :: "string \<Rightarrow> string \<Rightarrow> worker_output" where
  "failed_output summary msg = \<lparr>o_success = False, o_summary = summary, o_report_markdown = [], o_created_artifacts = [],
     o_evidence_list = [], o_error_message = Some msg, o_metadata = []\<rparr>"

definition after_hook :: "workforce \<Rightarrow> run_info \<Rightarrow> worker_output \<Rightarrow> (wf_state, unit) action" where
  "after_hook wk rn out = try_catch (wk_after wk (w_id (rn_worker rn)) (rn_task rn) out) (\<lambda>_. ret ())"

definition run_worker :: "workforce \<Rightarrow> run_info \<Rightarrow> (wf_state, worker_output) action" where
  "run_worker wk rn st =
     (case wk_code wk (w_id (rn_worker rn)) (rn_task rn) st of
        (Inr out, st1) \<Rightarrow> bind (after_hook wk rn out) (\<lambda>_. ret out) st1
      | (Inl e, st1) \<Rightarrow>
          (let out = failed_output (''Worker threw unhandled exception: '' @ error_message e) (error_message e) in
           case rn_event wk rn ''EXECUTION_FAILED'' [(''error'', PStr (error_message e)), (''task_id'', PStr (t_id (rn_task rn)))] st1 of
             (r, st2) \<Rightarrow> bind (after_hook wk rn out) (\<lambda>_. case r of Inl e' \<Rightarrow> raise e' | Inr _ \<Rightarrow> ret out) st2))"


text \<open>The deviations from the declared scope are only logged.\<close>

primrec scope_deviation_type_value :: "scope_deviation_type \<Rightarrow> string" where
  "scope_deviation_type_value SD_UNEXPECTED_FILE_MODIFIED = ''UNEXPECTED_FILE_MODIFIED''"
| "scope_deviation_type_value SD_UNEXPECTED_FILE_DELETED = ''UNEXPECTED_FILE_DELETED''"
| "scope_deviation_type_value SD_PROTECTED_PATH_MODIFIED = ''PROTECTED_PATH_MODIFIED''"
| "scope_deviation_type_value SD_MAX_FILES_EXCEEDED = ''MAX_FILES_EXCEEDED''"
| "scope_deviation_type_value SD_MAX_DIFF_EXCEEDED = ''MAX_DIFF_EXCEEDED''"

definition deviation_to_dict :: "scope_deviation \<Rightarrow> pyval" where
  "deviation_to_dict d = PDict
     [(''deviation_type'', PStr (scope_deviation_type_value (sv_type d))), (''target_path'', PStr (sv_target_path d)),
      (''message'', PStr (sv_message d)), (''details'', PDict (sv_details d))]"

definition log_deviations :: "workforce \<Rightarrow> run_info \<Rightarrow> checkpoint option \<Rightarrow> (wf_state, unit) action" where
  "log_deviations wk rn ck =
     (case ck of None \<Rightarrow> ret () | Some c \<Rightarrow>
        bind (look (\<lambda>st. Inr (check_deviations (tm_git (wk_rt wk)) (tm_sha (wk_rt wk)) (tm_safety (wk_rt wk)) c
            (project_root (rn_project rn)) (rn_task rn) (ws_fs (cs_ws (ts_ck (wf_ts st))))))) (\<lambda>ds.
          if ds = [] then ret ()
          else bind (rn_event wk rn ''SCOPE_DEVIATION_DETECTED''
              [(''deviations_count'', PInt (int (length ds))), (''deviations'', PList (map deviation_to_dict ds))]) (\<lambda>_. ret ())))"

text \<open>
  After the execution the task and its worker are read again; a claim of success is verified, and overruled unless
  the verification passes. \<open>rn\<close> holds the task and the worker as read.
\<close>

definition reload :: "workforce \<Rightarrow> string \<Rightarrow> run_info \<Rightarrow> (wf_state, run_info) action" where
  "reload wk tid rn =
     bind (look (\<lambda>st. engine_get_task tid (wf_store st))) (\<lambda>t.
     bind (look (\<lambda>st. case t_assigned_worker t of
         None \<Rightarrow> Inl (WorkerNotFoundError ''None'') | Some wid \<Rightarrow> registry_get_worker wid (wf_registry st))) (\<lambda>m.
       ret (rn\<lparr>rn_task := t, rn_worker := m\<rparr>)))"

definition judge_output :: "workforce \<Rightarrow> run_info \<Rightarrow> checkpoint option \<Rightarrow> worker_output \<Rightarrow> (wf_state, worker_output) action" where
  "judge_output wk rn ck out =
     (if \<not> o_success out then ret out
      else bind (log_deviations wk rn ck) (\<lambda>_.
           bind (on_tools (verify_task (wk_rt wk) (wk_verify wk) (wk_adapters wk) (rn_project rn) (rn_task rn)
               (Some (w_id (rn_worker rn))) (map_option ck_id ck) None (Some (rn_start rn)))) (\<lambda>v.
             ret (if vn_status v = V_PASSED then out
                  else failed_output (''Worker claim rejected by Verification System: '' @ vn_summary v) (vn_summary v)))))"

text \<open>The worker goes through a status on its way to idle.\<close>

definition release_worker :: "workforce \<Rightarrow> worker_status \<Rightarrow> run_info \<Rightarrow> (wf_state, unit) action" where
  "release_worker wk via rn =
     bind (lift_now wk (worker_transition (rn_worker rn) via (Some (t_id (rn_task rn))))) (\<lambda>m1.
     bind (save (save_worker m1)) (\<lambda>_.
     bind (lift_now wk (worker_transition m1 W_IDLE None)) (\<lambda>m2.
       save (save_worker m2))))"

text \<open>Success: the checkpoint is committed, the worker freed, the report and the task memory written, the task completed.\<close>

definition commit_run :: "workforce \<Rightarrow> run_info \<Rightarrow> checkpoint option \<Rightarrow> (wf_state, unit) action" where
  "commit_run wk rn ck =
     (case ck of None \<Rightarrow> ret () | Some c \<Rightarrow>
        bind (\<lambda>st. (Inr (), st\<lparr>wf_ts := (wf_ts st)\<lparr>ts_ck := commit_checkpoint (ck_id c) (wf_now wk st) (ts_ck (wf_ts st))\<rparr>\<rparr>))
          (\<lambda>_. bind (rn_event wk rn ''CHECKPOINT_COMMITTED'' [(''checkpoint_id'', PStr (ck_id c))]) (\<lambda>_. ret ())))"

definition write_report :: "workforce \<Rightarrow> run_info \<Rightarrow> worker_output \<Rightarrow> (wf_state, unit) action" where
  "write_report wk rn out =
     (if o_report_markdown out = [] then ret ()
      else bind (on_memory wk 1 (\<lambda>nid. record_report (tm_sha (wk_rt wk)) (p_id (rn_project rn)) (t_id (rn_task rn)) (w_id (rn_worker rn))
               (''Execution Report: '' @ t_title (rn_task rn)) (o_summary out) (o_report_markdown out) ''execution'' (nid 0))) (\<lambda>d.
           bind (rn_event wk rn ''REPORT_CREATED''
               [(''report_id'', PStr (m_id d)), (''title'', PStr (m_title d)), (''path'', PStr (m_relative_path d))]) (\<lambda>_. ret ())))"

definition write_task_memory :: "workforce \<Rightarrow> run_info \<Rightarrow> worker_output \<Rightarrow> (wf_state, unit) action" where
  "write_task_memory wk rn out =
     bind (on_memory wk 1 (\<lambda>nid. record_task_memory (tm_sha (wk_rt wk)) (p_id (rn_project rn)) (t_id (rn_task rn))
         (t_title (rn_task rn)) (t_objective (rn_task rn)) [] [] [] (o_summary out) ''COMPLETED'' (nid 0))) (\<lambda>d.
     bind (rn_event wk rn ''MEMORY_CREATED''
         [(''memory_id'', PStr (m_id d)), (''title'', PStr (m_title d)), (''path'', PStr (m_relative_path d))]) (\<lambda>_. ret ()))"

definition announce_ready :: "workforce \<Rightarrow> run_info \<Rightarrow> event \<Rightarrow> (wf_state, unit) action" where
  "announce_ready wk rn e =
     bind (on_store wk (\<lambda>_ _ s. map_prod Inr id (resolve_downstream_tasks (t_id (rn_task rn)) s))) (\<lambda>ready.
       each (\<lambda>t. bind (wf_log wk (args_of ''TASK_READY'' [(''reason'', PStr (''Prerequisite '' @ t_id (rn_task rn) @ '' completed''))]
           (Some (p_id (rn_project rn))) (Some (t_id t)) None (Some (t_id t)) (Some (e_event_id e)))) (\<lambda>_. ret ())) ready)"

definition complete_task :: "workforce \<Rightarrow> run_info \<Rightarrow> worker_output \<Rightarrow> (wf_state, unit) action" where
  "complete_task wk rn out =
     bind (lift_now wk (task_transition (rn_task rn) T_COMPLETED None)) (\<lambda>t.
     bind (save (save_task t)) (\<lambda>_.
     bind (rn_event wk rn ''TASK_COMPLETED''
         [(''summary'', PStr (o_summary out)), (''artifacts_count'', PInt (int (length (t_artifacts t)))),
          (''attempts'', PInt (t_attempts t))]) (\<lambda>e. announce_ready wk rn e)))"

definition succeed :: "workforce \<Rightarrow> run_info \<Rightarrow> checkpoint option \<Rightarrow> worker_output \<Rightarrow> (wf_state, unit) action" where
  "succeed wk rn ck out =
     bind (commit_run wk rn ck) (\<lambda>_.
     bind (release_worker wk W_REPORTING rn) (\<lambda>_.
     bind (rn_event wk rn ''WORKER_FINISHED'' [(''task_id'', PStr (t_id (rn_task rn))), (''status'', PStr ''SUCCESS'')]) (\<lambda>_.
     bind (wf_log wk (args_of ''WORKER_BECAME_IDLE'' [(''worker_id'', PStr (w_id (rn_worker rn)))]
         (Some (p_id (rn_project rn))) None (Some (w_id (rn_worker rn))) (Some (t_id (rn_task rn))) None)) (\<lambda>_.
     bind (write_report wk rn out) (\<lambda>_.
     bind (write_task_memory wk rn out) (\<lambda>_. complete_task wk rn out))))))"

text \<open>
  Failure: the checkpoint is rolled back, the worker freed, the task retried unless its attempts are used up or the
  rollback failed. The checkpoint object is the one in the table of the manager.
\<close>

definition current_checkpoint :: "checkpoint \<Rightarrow> checkpoint_state \<Rightarrow> checkpoint" where
  "current_checkpoint c ck = (case get_checkpoint (ck_id c) ck of None \<Rightarrow> c | Some c' \<Rightarrow> c')"

definition roll_back :: "workforce \<Rightarrow> project \<Rightarrow> checkpoint \<Rightarrow> (wf_state, rollback_result) action" where
  "roll_back wk p c st =
     (let rt = wk_rt wk; ts = wf_ts st; n = ts_tick ts in
      case rollback (tm_git rt) (tm_sha rt) (current_checkpoint c (ts_ck ts)) (project_root p)
          (''rb-'' @ take 8 (or_uuid (tm_readings rt) n)) (or_now (tm_readings rt) n) (cs_ws (ts_ck ts)) of
        (res, c', w) \<Rightarrow>
          (Inr res, st\<lparr>wf_ts := ts\<lparr>ts_ck := put_checkpoint c' ((ts_ck ts)\<lparr>cs_ws := w\<rparr>), ts_tick := n + 1\<rparr>\<rparr>))"

definition rollback_run :: "workforce \<Rightarrow> run_info \<Rightarrow> checkpoint option \<Rightarrow> (wf_state, bool) action" where
  \<comment> \<open>whether the rollback failed\<close>
  "rollback_run wk rn ck =
     (case ck of None \<Rightarrow> ret False | Some c \<Rightarrow>
        bind (rn_event wk rn ''CHECKPOINT_ROLLBACK_STARTED'' [(''checkpoint_id'', PStr (ck_id c))]) (\<lambda>_.
        bind (roll_back wk (rn_project rn) c) (\<lambda>res.
          if rb_status res = RS_SUCCESS then
            bind (rn_event wk rn ''CHECKPOINT_ROLLBACK_COMPLETED''
                [(''checkpoint_id'', PStr (ck_id c)), (''restored_count'', PInt (int (length (rb_restored_files res)))),
                 (''deleted_count'', PInt (int (length (rb_deleted_files res)))),
                 (''preserved_user_count'', PInt (int (length (rb_preserved_user_files res))))]) (\<lambda>_. ret False)
          else
            bind (rn_event wk rn ''CHECKPOINT_ROLLBACK_FAILED''
                [(''checkpoint_id'', PStr (ck_id c)), (''error'', opt_str (rb_error_message res))]) (\<lambda>_. ret True))))"

definition close_failed :: "workforce \<Rightarrow> run_info \<Rightarrow> bool \<Rightarrow> worker_output \<Rightarrow> (wf_state, unit) action" where
  "close_failed wk rn rollback_failed out =
     (let t = rn_task rn; reason = (''reason'', opt_str (o_error_message out)) in
      if t_attempts t < t_max_attempts t \<and> \<not> rollback_failed then
        bind (lift_now wk (task_transition t T_RETRYING (o_error_message out))) (\<lambda>t1.
        bind (save (save_task t1)) (\<lambda>_.
        bind (rn_event wk rn ''TASK_RETRYING''
            [(''attempt'', PInt (t_attempts t)), (''max_attempts'', PInt (t_max_attempts t)), reason]) (\<lambda>_. ret ())))
      else
        bind (lift_now wk (task_transition t T_FAILED (o_error_message out))) (\<lambda>t1.
        bind (save (save_task t1)) (\<lambda>_.
        bind (rn_event wk rn ''TASK_FAILED'' [(''attempt'', PInt (t_attempts t)), reason]) (\<lambda>_. ret ()))))"

definition fail_task :: "workforce \<Rightarrow> run_info \<Rightarrow> checkpoint option \<Rightarrow> worker_output \<Rightarrow> (wf_state, unit) action" where
  "fail_task wk rn ck out =
     bind (rollback_run wk rn ck) (\<lambda>rollback_failed.
     bind (release_worker wk W_FAILED rn) (\<lambda>_.
     bind (rn_event wk rn ''WORKER_FAILED''
         [(''reason'', opt_str (o_error_message out)), (''task_id'', PStr (t_id (rn_task rn)))]) (\<lambda>_.
       close_failed wk rn rollback_failed out)))"

definition settle :: "workforce \<Rightarrow> run_info \<Rightarrow> checkpoint option \<Rightarrow> worker_output \<Rightarrow> (wf_state, unit) action" where
  "settle wk rn ck out = (if o_success out then succeed wk rn ck out else fail_task wk rn ck out)"

definition run_task :: "workforce \<Rightarrow> string \<Rightarrow> (wf_state, worker_output) action" where
  "run_task wk tid =
     bind (start_task wk tid) (\<lambda>rn.
     bind (pre_checkpoint wk rn) (\<lambda>ck.
     bind (run_worker wk rn) (\<lambda>claim.
     bind (reload wk tid rn) (\<lambda>rn2.
     bind (judge_output wk rn2 ck claim) (\<lambda>out.
     bind (settle wk rn2 ck out) (\<lambda>_. ret out))))))"


section \<open>Frames\<close>

lemma put_store_sel [simp]:
  "wf_store (put_wf_store s st) = s" "wf_store (put_registry r st) = r_store r"
  "wf_instances (put_wf_store s st) = wf_instances st" "wf_instances (put_registry r st) = r_instances r"
  "wf_factories (put_wf_store s st) = wf_factories st" "wf_factories (put_registry r st) = r_factories r"
  "r_store (wf_registry st) = wf_store st"
  by (simp_all add: put_wf_store_def put_registry_def put_ts_store_def wf_registry_def)

lemma save_apply [simp]: "save f st = (Inr (), put_wf_store (f (wf_store st)) st)"
  by (simp add: save_def)

lemma look_apply [simp]: "look f st = (f st, st)"
  by (simp add: look_def)


section \<open>Recovery leaves no orphan\<close>

lemma recovered_not_orphaned [simp]: "\<not> orphaned (recovered t)"
  by (simp add: orphaned_def recovered_def)

definition worker_free :: "worker \<Rightarrow> bool" where
  "worker_free w \<longleftrightarrow> w_status w = W_IDLE \<and> w_active_task_id w = None"

definition freed :: "store \<Rightarrow> string \<Rightarrow> bool" where
  \<comment> \<open>a worker that is stored is free, unless it is terminated\<close>
  "freed s wid \<longleftrightarrow> (\<forall>w. get_worker s wid = Some w \<longrightarrow> worker_free w \<or> w_status w = W_TERMINATED)"

text \<open>What recovery may do to the store: free workers, and recover orphaned tasks, whose workers are then free.\<close>

definition recovers :: "store \<Rightarrow> store \<Rightarrow> bool" where
  "recovers s s' \<longleftrightarrow> s_projects s' = s_projects s
     \<and> (\<forall>x. get_task s' x = get_task s x
         \<or> (\<exists>t. get_task s x = Some t \<and> orphaned t \<and> get_task s' x = Some (recovered t)
              \<and> (given (t_assigned_worker t) \<longrightarrow> freed s' (the (t_assigned_worker t)))))
     \<and> (\<forall>x. get_worker s' x = get_worker s x
         \<or> (\<exists>w w'. get_worker s x = Some w \<and> get_worker s' x = Some w' \<and> worker_free w'))"

lemma recovers_refl: "recovers s s"
  by (simp add: recovers_def)

lemma recovers_settled: "recovers s s' \<Longrightarrow> get_task s x = Some t \<Longrightarrow> \<not> orphaned t \<Longrightarrow> get_task s' x = Some t"
  unfolding recovers_def by (metis option.inject)

lemma freed_recovers: "freed s wid \<Longrightarrow> recovers s s' \<Longrightarrow> freed s' wid"
  unfolding freed_def recovers_def by (metis option.inject)

lemma recovers_task:
  assumes "recovers s s'"
  obtains "get_task s' x = get_task s x"
  | t where "get_task s x = Some t" "orphaned t" "get_task s' x = Some (recovered t)"
      "given (t_assigned_worker t) \<Longrightarrow> freed s' (the (t_assigned_worker t))"
  using assms unfolding recovers_def by blast

lemma recovers_trans:
  assumes ab: "recovers a b" and bc: "recovers b c"
  shows "recovers a c"
proof -
  have "get_task c x = get_task a x \<or> (\<exists>t. get_task a x = Some t \<and> orphaned t \<and> get_task c x = Some (recovered t)
      \<and> (given (t_assigned_worker t) \<longrightarrow> freed c (the (t_assigned_worker t))))" for x
  proof (cases rule: recovers_task[OF ab, of x])
    case 1
    then show ?thesis by (cases rule: recovers_task[OF bc, of x]) auto
  next
    case (2 t)
    then have "get_task c x = Some (recovered t)" using recovers_settled[OF bc] by simp
    then show ?thesis using 2 freed_recovers[OF _ bc] by blast
  qed
  moreover have "get_worker c x = get_worker a x
      \<or> (\<exists>w w'. get_worker a x = Some w \<and> get_worker c x = Some w' \<and> worker_free w')" for x
    using ab bc unfolding recovers_def by metis
  ultimately show ?thesis using ab bc by (auto simp: recovers_def)
qed

text \<open>Freeing a worker fails only if it is unknown or terminated.\<close>

lemma free_worker_effect:
  assumes "registry_update_worker_status wid W_IDLE None now r = (res, r')" and "store_wf (r_store r)"
  shows "store_wf (r_store r') \<and> s_projects (r_store r') = s_projects (r_store r) \<and> get_task (r_store r') = get_task (r_store r)
    \<and> (\<forall>x. x \<noteq> wid \<longrightarrow> get_worker (r_store r') x = get_worker (r_store r) x)
    \<and> (\<forall>w. get_worker (r_store r) wid = Some w \<longrightarrow> (\<exists>w'. get_worker (r_store r') wid = Some w'
        \<and> (worker_free w' \<or> w' = w \<and> w_status w = W_TERMINATED)))
    \<and> (get_worker (r_store r) wid = None \<longrightarrow> get_worker (r_store r') wid = None)"
proof (cases "get_worker (r_store r) wid")
  case None
  then show ?thesis using assms by (simp add: registry_update_worker_status_def registry_get_worker_def)
next
  case (Some w)
  have id: "w_id w = wid" using workers_tbl.key_get[OF assms(2) Some] by simp
  show ?thesis
  proof (cases "worker_transition w W_IDLE None now")
    case (Inl e)
    then have "w_status w = W_TERMINATED"
      by (cases "w_status w") (simp_all add: worker_transition_def worker_can_transition_def Let_def)
    then show ?thesis using assms Some Inl by (auto simp: registry_update_worker_status_def registry_get_worker_def)
  next
    case (Inr w')
    then have w': "worker_free w'" "w_id w' = wid"
      using id by (auto simp: worker_transition_def worker_free_def Let_def split: if_splits)
    moreover have "store_wf (save_worker w' (r_store r))" using assms(2) by simp
    moreover have "r' = put_store (save_worker w' (r_store r)) r"
      using assms(1) Some Inr by (simp add: registry_update_worker_status_def registry_get_worker_def)
    ultimately show ?thesis
      using Some by (auto simp: put_store_def get_worker_def get_task_def save_worker_def dict_simps fun_eq_iff)
  qed
qed


lemma on_registry_store: "on_registry wk f st = (res, st') \<Longrightarrow> \<exists>r'. f (wf_now wk st) (wf_registry st) = (res, r') \<and> wf_store st' = r_store r'"
  by (auto simp: on_registry_def split: prod.splits)

definition let_go :: "workforce \<Rightarrow> task \<Rightarrow> (wf_state, unit) action" where
  "let_go wk t =
     (if given (t_assigned_worker t)
      then try_catch (bind (on_registry wk (registry_update_worker_status (the (t_assigned_worker t)) W_IDLE None)) (\<lambda>_. ret ()))
        (\<lambda>_. ret ())
      else ret ())"

lemma let_go_effect:
  assumes "store_wf (wf_store st)"
  shows "\<exists>st'. let_go wk t st = (Inr (), st') \<and> store_wf (wf_store st') \<and> recovers (wf_store st) (wf_store st')
    \<and> get_task (wf_store st') = get_task (wf_store st) \<and> (given (t_assigned_worker t) \<longrightarrow> freed (wf_store st') (the (t_assigned_worker t)))"
proof (cases "given (t_assigned_worker t)")
  case True
  let ?wid = "the (t_assigned_worker t)"
  obtain res st' where run: "on_registry wk (registry_update_worker_status ?wid W_IDLE None) st = (res, st')" by force
  then obtain r' where r': "registry_update_worker_status ?wid W_IDLE None (wf_now wk st) (wf_registry st) = (res, r')"
    "wf_store st' = r_store r'" by (auto dest: on_registry_store)
  have eff: "store_wf (wf_store st')" "s_projects (wf_store st') = s_projects (wf_store st)"
    "get_task (wf_store st') = get_task (wf_store st)"
    "\<And>x. x \<noteq> ?wid \<Longrightarrow> get_worker (wf_store st') x = get_worker (wf_store st) x"
    "\<And>w. get_worker (wf_store st) ?wid = Some w \<Longrightarrow> \<exists>w'. get_worker (wf_store st') ?wid = Some w' \<and> (worker_free w' \<or> w' = w \<and> w_status w = W_TERMINATED)"
    "get_worker (wf_store st) ?wid = None \<Longrightarrow> get_worker (wf_store st') ?wid = None"
    using free_worker_effect[OF r'(1)] assms r'(2) by simp_all
  have "get_worker (wf_store st') x = get_worker (wf_store st) x
      \<or> (\<exists>w w'. get_worker (wf_store st) x = Some w \<and> get_worker (wf_store st') x = Some w' \<and> worker_free w')" for x
    using eff(4)[of x] eff(5,6) by (cases "x = ?wid"; cases "get_worker (wf_store st) ?wid") auto
  then have "recovers (wf_store st) (wf_store st')" using eff(2,3) by (simp add: recovers_def)
  moreover have "freed (wf_store st') ?wid"
    using eff(5,6) by (cases "get_worker (wf_store st) ?wid") (auto simp: freed_def)
  moreover have "let_go wk t st = (Inr (), st')" using True run by (cases res) (simp_all add: let_go_def try_catch_def bind_def)
  ultimately show ?thesis using eff(1,3) by blast
qed (simp add: let_go_def recovers_refl assms)

lemma recover_task_effect:
  assumes "store_wf (wf_store st)" and "get_task (wf_store st) (t_id t) = Some t"
  shows "\<exists>st'. recover_task wk t st = (Inr (), st') \<and> store_wf (wf_store st') \<and> recovers (wf_store st) (wf_store st')
    \<and> get_task (wf_store st') = (get_task (wf_store st))(t_id t \<mapsto> if orphaned t then recovered t else t)"
proof (cases "orphaned t")
  case True
  obtain st1 where st1: "let_go wk t st = (Inr (), st1)" "store_wf (wf_store st1)" "recovers (wf_store st) (wf_store st1)"
    "get_task (wf_store st1) = get_task (wf_store st)" "given (t_assigned_worker t) \<longrightarrow> freed (wf_store st1) (the (t_assigned_worker t))"
    using let_go_effect[OF assms(1)] by blast
  have id: "t_id (recovered t) = t_id t" by (simp add: recovered_def)
  let ?st2 = "put_wf_store (save_task (recovered t) (wf_store st1)) st1"
  have run: "recover_task wk t st = (Inr (), ?st2)"
    using True st1(1) by (simp add: recover_task_def let_go_def[symmetric] bind_def)
  have tasks: "get_task (wf_store ?st2) = (get_task (wf_store st))(t_id t \<mapsto> recovered t)"
    by (rule ext) (simp add: id tasks_tbl.get_save st1(4))
  have workers: "get_worker (wf_store ?st2) = get_worker (wf_store st1)"
    by (simp add: save_task_def get_worker_def fun_eq_iff)
  then have "freed (wf_store ?st2) = freed (wf_store st1)" by (simp add: freed_def fun_eq_iff)
  moreover have "s_projects (wf_store ?st2) = s_projects (wf_store st1)" by (simp add: save_task_def)
  ultimately have rec: "recovers (wf_store st1) (wf_store ?st2)"
    unfolding recovers_def workers using assms(2) True st1(4,5) by (auto simp: tasks_tbl.get_save id)
  then show ?thesis
    using run st1 True tasks recovers_trans[OF st1(3) rec] freed_recovers[OF _ rec] by auto
qed (use assms in \<open>auto simp: recover_task_def recovers_refl\<close>)


lemma keyed_values: "keyed_by f d \<Longrightarrow> map f (dict_values d) = map fst d"
  unfolding map_map by (rule map_cong) (auto simp: keyed_by_def)

lemma tasks_keys_distinct:
  assumes "store_wf s"
  shows "distinct (map t_id (list_tasks s pid None))"
proof -
  have "dict_wf (s_tasks s)" "keyed_by t_id (s_tasks s)" using assms by (simp_all add: store_wf_def table_ok_def)
  then have "distinct (map t_id (dict_values (s_tasks s)))" by (simp only: keyed_values)
  then show ?thesis by (simp add: list_tasks_def Let_def distinct_map_filter)
qed

lemma listed_task: "store_wf s \<Longrightarrow> t \<in> set (list_tasks s pid None) \<Longrightarrow> get_task s (t_id t) = Some t"
  using tasks_tbl.rows_iff[of s t] by (auto simp: list_tasks_def Let_def split: if_splits)

lemma task_listed:
  assumes "store_wf s" and "get_task s x = Some t"
  shows "t \<in> set (list_tasks s (Some (t_project_id t)) None)"
proof -
  have "t \<in> set (list_tasks s None None)" using assms tasks_tbl.get_in_rows by blast
  then show ?thesis by (simp add: list_tasks_def Let_def given_def)
qed

text \<open>The tasks of a listing, one after the other.\<close>

lemma recover_tasks_effect:
  assumes "store_wf (wf_store st)" and "distinct (map t_id ts)" and "\<forall>t \<in> set ts. get_task (wf_store st) (t_id t) = Some t"
  shows "\<exists>st'. each (recover_task wk) ts st = (Inr (), st') \<and> store_wf (wf_store st') \<and> recovers (wf_store st) (wf_store st')
    \<and> (\<forall>t \<in> set ts. get_task (wf_store st') (t_id t) = Some (if orphaned t then recovered t else t))"
  using assms
proof (induction ts arbitrary: st)
  case (Cons t ts)
  have "get_task (wf_store st) (t_id t) = Some t" using Cons.prems(3) by simp
  then obtain st1 where st1: "recover_task wk t st = (Inr (), st1)" "store_wf (wf_store st1)" "recovers (wf_store st) (wf_store st1)"
    "get_task (wf_store st1) = (get_task (wf_store st))(t_id t \<mapsto> if orphaned t then recovered t else t)"
    using recover_task_effect[OF Cons.prems(1), of t wk] by blast
  have others: "distinct (map t_id ts)" "\<forall>u \<in> set ts. get_task (wf_store st1) (t_id u) = Some u"
    using Cons.prems(2,3) st1(4) by (auto simp: image_iff)
  obtain st2 where st2: "each (recover_task wk) ts st1 = (Inr (), st2)" "store_wf (wf_store st2)"
    "recovers (wf_store st1) (wf_store st2)"
    "\<forall>u \<in> set ts. get_task (wf_store st2) (t_id u) = Some (if orphaned u then recovered u else u)"
    using Cons.IH[OF st1(2) others] by blast
  have "\<not> orphaned (if orphaned t then recovered t else t)" by simp
  then have "get_task (wf_store st2) (t_id t) = Some (if orphaned t then recovered t else t)"
    using recovers_settled[OF st2(3)] st1(4) by (auto split: if_splits)
  moreover have "each (recover_task wk) (t # ts) st = (Inr (), st2)" using st1(1) st2(1) by (simp add: bind_def)
  ultimately show ?case using st2(2,4) recovers_trans[OF st1(3) st2(3)] by (intro exI[of _ st2]) simp
qed (simp add: recovers_refl)


lemma recover_project_effect:
  assumes "store_wf (wf_store st)"
  shows "\<exists>st'. recover_project wk p st = (Inr (), st') \<and> store_wf (wf_store st') \<and> recovers (wf_store st) (wf_store st')
    \<and> (\<forall>x t. get_task (wf_store st') x = Some t \<longrightarrow> t_project_id t = p_id p \<longrightarrow> \<not> orphaned t)"
proof -
  let ?ts = "list_tasks (wf_store st) (Some (p_id p)) None"
  obtain st' where st': "each (recover_task wk) ?ts st = (Inr (), st')" "store_wf (wf_store st')" "recovers (wf_store st) (wf_store st')"
    "\<forall>t \<in> set ?ts. get_task (wf_store st') (t_id t) = Some (if orphaned t then recovered t else t)"
    using recover_tasks_effect[OF assms tasks_keys_distinct[OF assms, of "Some (p_id p)"], of wk] listed_task[OF assms] by blast
  have "\<not> orphaned t'" if "get_task (wf_store st') x = Some t'" "t_project_id t' = p_id p" for x t'
  proof (cases rule: recovers_task[OF st'(3), of x])
    case 1
    then have get: "get_task (wf_store st) x = Some t'" using that(1) by simp
    then have "t_id t' = x" "t' \<in> set ?ts"
      using tasks_tbl.key_get[OF assms get] task_listed[OF assms get] that(2) by simp_all
    then have "t' = (if orphaned t' then recovered t' else t')" using st'(4) that(1) by fastforce
    then show ?thesis by (metis recovered_not_orphaned)
  next
    case (2 t)
    then show ?thesis using that(1) by simp
  qed
  then show ?thesis using st'(1-3) by (intro exI[of _ st']) (simp add: recover_project_def bind_def)
qed

lemma recover_projects_effect:
  assumes "store_wf (wf_store st)"
  shows "\<exists>st'. each (recover_project wk) ps st = (Inr (), st') \<and> store_wf (wf_store st') \<and> recovers (wf_store st) (wf_store st')
    \<and> (\<forall>p \<in> set ps. \<forall>x t. get_task (wf_store st') x = Some t \<longrightarrow> t_project_id t = p_id p \<longrightarrow> \<not> orphaned t)"
  using assms
proof (induction ps arbitrary: st)
  case (Cons p ps)
  obtain st1 where st1: "recover_project wk p st = (Inr (), st1)" "store_wf (wf_store st1)" "recovers (wf_store st) (wf_store st1)"
    "\<forall>x t. get_task (wf_store st1) x = Some t \<longrightarrow> t_project_id t = p_id p \<longrightarrow> \<not> orphaned t"
    using recover_project_effect[OF Cons.prems] by blast
  obtain st2 where st2: "each (recover_project wk) ps st1 = (Inr (), st2)" "store_wf (wf_store st2)" "recovers (wf_store st1) (wf_store st2)"
    "\<forall>p \<in> set ps. \<forall>x t. get_task (wf_store st2) x = Some t \<longrightarrow> t_project_id t = p_id p \<longrightarrow> \<not> orphaned t"
    using Cons.IH[OF st1(2)] by blast
  have "\<not> orphaned t" if "get_task (wf_store st2) x = Some t" "t_project_id t = p_id p" for x t
    by (cases rule: recovers_task[OF st2(3), of x]) (use that st1(4) in \<open>auto simp: that\<close>)
  then show ?case
    using st1(1) st2 recovers_trans[OF st1(3) st2(3)] by (intro exI[of _ st2]) (simp add: bind_def)
qed (simp add: recovers_refl)



text \<open>A task that was running when the runtime stopped.\<close>

definition crashed_state :: wf_state where
  "crashed_state = \<lparr>wf_ts = put_ts_store (save_worker (sample_worker ''w'' W_RUNNING)
       (save_task ((sample_task ''t'' T_RUNNING)\<lparr>t_assigned_worker := Some ''w''\<rparr>) (ts_store root_state))) root_state,
     wf_instances = [], wf_factories = []\<rparr>"

definition restarted :: workforce where
  "restarted = \<lparr>wk_rt = sample_runtime, wk_verify = sample_verify_env, wk_adapters = [],
     wk_code = (\<lambda>_ _. raise (OtherException [])), wk_after = (\<lambda>_ _ _. ret ())\<rparr>"


end
