(* ===== verification/Task_Runs.thy ===== *)
theory Task_Runs
  imports Workforce_Runtime
begin

text \<open>
  What a run of a task does to the store: it stays well-formed, and when the run returns, the task is settled and its
  worker idle, whatever the worker did in between. A worker is only asked to keep the store well-formed.
\<close>

section \<open>The store stays well-formed\<close>

definition ts_sound :: "tool_state \<Rightarrow> tool_state \<Rightarrow> bool" where
  "ts_sound st st' \<longleftrightarrow> (store_wf (ts_store st) \<longrightarrow> store_wf (ts_store st'))"

definition wf_sound :: "wf_state \<Rightarrow> wf_state \<Rightarrow> bool" where
  "wf_sound st st' \<longleftrightarrow> (store_wf (wf_store st) \<longrightarrow> store_wf (wf_store st'))"

lemma sound_rel: "reflp ts_sound" "transp ts_sound" "reflp wf_sound" "transp wf_sound"
  by (auto simp: ts_sound_def wf_sound_def intro!: reflpI transpI)

named_theorems soundness \<open>computations that keep the store well-formed\<close>

lemma sound_basics [soundness]:
  "keeps ts_sound (ret x1)" "keeps ts_sound (raise e)" "keeps wf_sound (ret x2)" "keeps wf_sound (raise e)"
  "keeps ts_sound (fresh rt pre k)" "keeps ts_sound (clock rt)" "keeps ts_sound (elapsed rt)"
  "keeps ts_sound read_fs" "keeps ts_sound read_store" "keeps ts_sound (lift_sum m)" "keeps wf_sound (look f)"
  "keeps wf_sound (lift_now wk g)"
  by (simp_all add: keeps_def ts_sound_def wf_sound_def lift_sum_def lift_now_def split: sum.split)

lemmas sound_bind = keeps_bind[OF sound_rel(2)] keeps_bind[OF sound_rel(4)]
  and sound_try = keeps_try[OF sound_rel(2)] keeps_try[OF sound_rel(4)]
  and sound_each = keeps_each[OF sound_rel(1,2)] keeps_each[OF sound_rel(3,4)]

lemma log_event_wf: "log_event orc a l = (r, l') \<Longrightarrow> store_wf (lg_store l) \<Longrightarrow> store_wf (lg_store l')"
  by (auto simp: log_event_def split: sum.splits intro: store_wf_append_event)

lemma sound_emit [soundness]: "keeps ts_sound (emit_event rt a)" "keeps ts_sound (verify_event rt cx caus ty payload)"
proof -
  show "keeps ts_sound (emit_event rt a)" for a
    by (auto simp: keeps_def ts_sound_def emit_event_def put_ts_store_def split: prod.split dest: log_event_wf)
  then show "keeps ts_sound (verify_event rt cx caus ty payload)" by (simp add: verify_event_def)
qed

lemma sound_checkpoint: "keeps ts_sound (ensure_checkpoint rt req p w caus needed)"
proof (unfold keeps_def, intro allI)
  fix st :: tool_state
  let ?n = "ts_tick st"
  obtain r ck where create: "create_checkpoint (tm_git rt) (tm_sha rt) (p_id p) (tq_task_id req) (w_id w) None
      (or_uuid (tm_readings rt) ?n) (or_now (tm_readings rt) ?n) (ts_ck st) = (r, ck)" by force
  then have store: "ws_store (cs_ws ck) = ts_store st"
    by (auto simp: create_checkpoint_def put_checkpoint_def Let_def split: option.splits sum.splits)
  have stage: "keeps ts_sound (stage_event rt req p w caus ty payload)" for ty payload
    unfolding stage_event_def by (rule soundness)
  have "ts_sound st1 (snd (bind (stage_event rt req p w caus ty payload) (\<lambda>_. ret ()) st1))" for st1 ty payload
    using sound_bind(1)[OF stage, of "\<lambda>_. ret ()"] sound_basics(1)[of "()"] by (simp add: keeps_def)
  from this[of "st\<lparr>ts_ck := ck, ts_tick := ?n + 1\<rparr>"] show "ts_sound st (snd (ensure_checkpoint rt req p w caus needed st))"
    using store by (auto simp: ensure_checkpoint_def create ts_sound_def split: sum.split)
qed

definition sound_tools :: "tool_runtime \<Rightarrow> bool" where
  "sound_tools rt \<longleftrightarrow> (\<forall>(k, d, v, x) \<in> set (tm_tools rt). \<forall>cx args. keeps ts_sound (x cx args))"

lemma sound_plain [soundness]:
  "keeps ts_sound (plain_result rt rid tid status msg)" "keeps ts_sound (stage_event rt req p w caus ty payload)"
  "keeps ts_sound (refuse rt req p w d caus ty payload msg)" "keeps ts_sound (fail_result rt req status msg caus)"
proof -
  show plain: "keeps ts_sound (plain_result rt rid tid status msg)" for rid tid status msg
    by (simp add: keeps_def plain_result_def ts_sound_def)
  show stage: "keeps ts_sound (stage_event rt req p w caus ty payload)" for ty payload
    unfolding stage_event_def by (rule soundness)
  show "keeps ts_sound (refuse rt req p w d caus ty payload msg)" unfolding refuse_def by (intro sound_bind stage plain)
  show "keeps ts_sound (fail_result rt req status msg caus)" unfolding fail_result_def by (intro sound_bind plain soundness)
qed

lemma sound_run_tool: "(\<And>cx args. keeps ts_sound (x cx args)) \<Longrightarrow> keeps ts_sound (run_tool rt req p w d x caus)"
  unfolding run_tool_def by (intro sound_bind sound_try soundness)

lemma sound_safety_stage: "(\<And>cx args. keeps ts_sound (x cx args)) \<Longrightarrow> keeps ts_sound (safety_stage rt req p w t d x caus)"
  unfolding safety_stage_def
  by (auto split: sum.split intro!: sound_bind soundness sound_run_tool sound_checkpoint)

lemma sound_permission_stage: "(\<And>cx args. keeps ts_sound (x cx args)) \<Longrightarrow> keeps ts_sound (permission_stage rt req p w t d x caus)"
  unfolding permission_stage_def by (auto split: sum.split intro!: sound_bind soundness sound_safety_stage)

lemma sound_resolve_stage:
  assumes "sound_tools rt"
  shows "keeps ts_sound (resolve_stage rt req caus)"
proof (unfold keeps_def, intro allI)
  fix st :: tool_state
  have tool: "keeps ts_sound (x cx args)" if "get_tool (tq_tool_id req) (tm_tools rt) = Inr (d, v, x)" for d v x cx args
    using assms that by (fastforce simp: sound_tools_def get_tool_def split: option.splits dest: map_of_SomeD)
  have fail: "ts_sound st (snd (fail_result rt req TS_VALIDATION_ERROR msg caus st))" for msg
    using sound_plain(4) by (simp add: keeps_def)
  have stage: "ts_sound st (snd (permission_stage rt req p w t d x caus st))"
    if "get_tool (tq_tool_id req) (tm_tools rt) = Inr (d, v, x)" for p w t d v x
    using sound_permission_stage[OF tool[OF that]] by (simp add: keeps_def)
  show "ts_sound st (snd (resolve_stage rt req caus st))"
    unfolding resolve_stage_def Let_def using fail stage sound_rel(1)
    by (auto split: option.split sum.split prod.split error.split simp: reflp_def)
qed

lemma sound_execute_request [soundness]: "sound_tools rt \<Longrightarrow> keeps ts_sound (execute_request rt req)"
  unfolding execute_request_def by (intro sound_bind soundness sound_resolve_stage)


text \<open>Adapters and the verification engine.\<close>

definition sound_adapters :: "check_adapter list \<Rightarrow> bool" where
  "sound_adapters as \<longleftrightarrow> (\<forall>a \<in> set as. \<forall>cx c vid. keeps ts_sound (ad_execute a cx c vid))"

lemma sound_observing: "observing x \<Longrightarrow> keeps ts_sound (x cx c vid)"
proof (unfold keeps_def, intro allI)
  fix st assume "observing x"
  then obtain k n where "x cx c vid st = (Inr k, st\<lparr>ts_tick := n\<rparr>)" using observingD by blast
  then show "ts_sound st (snd (x cx c vid st))" by (simp add: ts_sound_def)
qed

lemma sound_command_request [soundness]: "keeps ts_sound (command_request rt cx cmd timeout)"
  unfolding command_request_def by (intro sound_bind soundness)

lemma sound_command_execute: "sound_tools rt \<Longrightarrow> keeps ts_sound (command_execute rt ve cx c vid)"
  unfolding command_execute_def by (auto split: prod.split intro!: sound_bind soundness)

lemma default_adapters_sound: "sound_tools rt \<Longrightarrow> sound_adapters (default_adapters rt ve)"
  by (auto simp: sound_adapters_def default_adapters_def intro: sound_observing file_execute_observing
      git_execute_observing artifact_execute_observing sound_command_execute)

lemma sound_add_artifact [soundness]: "keeps ts_sound (add_artifact rt cx ty rel descr content)"
proof (unfold keeps_def ts_sound_def, intro allI impI)
  fix st assume "store_wf (ts_store st)"
  then show "store_wf (ts_store (snd (add_artifact rt cx ty rel descr content st)))"
    using register_artifact_quiet by (simp add: add_artifact_def Let_def put_ts_store_def)
qed

lemma sound_run_check:
  assumes "sound_adapters as"
  shows "keeps ts_sound (run_check rt as cx vid caus c)"
proof -
  have "keeps ts_sound (ad_execute a cx c vid)" if "find_adapter as (sn_check_type c) = Some a" for a
    using that assms by (auto simp: find_adapter_def find_Some_iff sound_adapters_def)
  moreover have "keeps ts_sound (unsupported_check rt vid c)" unfolding unsupported_check_def by (intro sound_bind soundness)
  ultimately show ?thesis unfolding run_check_def by (intro sound_bind soundness) (simp split: option.split)
qed

lemma sound_run_checks: "sound_adapters as \<Longrightarrow> keeps ts_sound (run_checks rt as cx vid caus cs)"
  by (induction cs) (simp_all add: sound_basics sound_bind sound_run_check)

lemma sound_verify_task [soundness]: "sound_adapters as \<Longrightarrow> keeps ts_sound (verify_task rt ve as p t wid ck plan caus)"
proof -
  have "keeps ts_sound (conclude rt ve cx p t ck caus pl vid ks)" for cx pl vid ks
    unfolding conclude_def Let_def by (auto split: prod.split intro!: sound_bind soundness)
  then show "sound_adapters as \<Longrightarrow> keeps ts_sound (verify_task rt ve as p t wid ck plan caus)"
    unfolding verify_task_def Let_def by (intro sound_bind soundness sound_run_checks)
qed



section \<open>Steps that leave tasks and workers alone\<close>

definition steady :: "wf_state \<Rightarrow> wf_state \<Rightarrow> bool" where
  "steady st st' \<longleftrightarrow> wf_sound st st' \<and> get_task (wf_store st') = get_task (wf_store st)
     \<and> get_worker (wf_store st') = get_worker (wf_store st)"

lemma steady_rel: "reflp steady" "transp steady"
  by (auto simp: steady_def wf_sound_def intro!: reflpI transpI)

named_theorems calmness \<open>computations that leave tasks and workers alone\<close>

lemma steady_basics [calmness]:
  "keeps steady (ret x)" "keeps steady (raise e)" "keeps steady (look f)" "keeps steady (lift_now wk g)"
  by (simp_all add: keeps_def steady_def wf_sound_def lift_now_def)

lemmas steady_bind = keeps_bind[OF steady_rel(2)]

lemma steady_sound: "keeps steady m \<Longrightarrow> keeps wf_sound m"
  by (erule keeps_weaken) (simp add: steady_def)

lemma log_event_lookups:
  assumes "log_event orc a l = (r, l')"
  shows "get_task (lg_store l') = get_task (lg_store l)" "get_worker (lg_store l') = get_worker (lg_store l)"
  using assms
  by (auto simp: log_event_def append_event_def Let_def get_task_def get_worker_def fun_eq_iff split: if_splits)

lemma steady_log [calmness]: "keeps steady (wf_log wk a)"
  by (auto simp: keeps_def steady_def wf_sound_def wf_log_def on_tools_def put_ts_store_def tool_log_state_def
      split: prod.split dest: log_event_lookups log_event_wf)

lemma steady_run_event [calmness]: "keeps steady (rn_event wk rn ty payload)" "keeps steady (run_event wk p tid wid caus ty payload)"
  by (simp_all add: rn_event_def run_event_def calmness)

text \<open>Memory and checkpoints.\<close>

definition ws_steady :: "workspace \<Rightarrow> workspace \<Rightarrow> bool" where
  "ws_steady w w' \<longleftrightarrow> (store_wf (ws_store w) \<longrightarrow> store_wf (ws_store w'))
     \<and> get_task (ws_store w') = get_task (ws_store w) \<and> get_worker (ws_store w') = get_worker (ws_store w)"

lemma ws_steady_refl [simp]: "ws_steady w w" "ws_store w' = ws_store w \<Longrightarrow> ws_steady w w'"
  by (simp_all add: ws_steady_def)

lemma lookups_memory:
  "get_task (save_memory_document d s) = get_task s" "get_worker (save_memory_document d s) = get_worker s"
  "get_task (snd (delete_memory_document mid s)) = get_task s" "get_worker (snd (delete_memory_document mid s)) = get_worker s"
  by (simp_all add: save_memory_document_def delete_memory_document_def get_task_def get_worker_def fun_eq_iff)

lemma create_memory_steady: "ws_steady w (snd (create_memory sha pid a nid now w))"
  by (auto simp: ws_steady_def create_memory_def Let_def lookups_memory split: option.split sum.split prod.split)

lemma delete_memory_steady: "ws_steady w (snd (delete_memory pid mid w))"
proof -
  have del: "(case delete_memory_document mid s of (b, s') \<Rightarrow> (Inr b, \<lparr>ws_store = s', ws_fs = fs\<rparr>)) =
      (Inr (fst (delete_memory_document mid s)), \<lparr>ws_store = snd (delete_memory_document mid s), ws_fs = fs\<rparr>)" for s fs
    by (simp add: case_prod_unfold)
  show ?thesis by (auto simp: ws_steady_def delete_memory_def Let_def del lookups_memory split: option.split sum.split)
qed

lemma rollback_steady: "rollback g sha c root rid now w = (res, c', w') \<Longrightarrow> ws_steady w w'"
proof -
  have "ws_steady w (fold (\<lambda>d w. if P d then snd (delete_memory pid (m_id d) w) else w) ds w)" for P pid ds w
  proof (induction ds arbitrary: w)
    case (Cons d ds)
    have "ws_steady w (if P d then snd (delete_memory pid (m_id d) w) else w)" by (simp add: delete_memory_steady)
    then show ?case using Cons[of "if P d then snd (delete_memory pid (m_id d) w) else w"] by (auto simp: ws_steady_def)
  qed simp
  then have docs: "ws_steady w (rollback_memory_documents c w)" for w by (simp add: rollback_memory_documents_def)
  show "rollback g sha c root rid now w = (res, c', w') \<Longrightarrow> ws_steady w w'"
    using docs[of "w\<lparr>ws_fs := _\<rparr>"] by (auto simp: rollback_def Let_def ws_steady_def split: if_splits prod.splits sum.splits)
qed

lemma steady_memory:
  assumes "\<And>nid now w. ws_steady w (snd (f nid now w))"
  shows "keeps steady (on_memory wk k f)"
  using assms by (auto simp: keeps_def steady_def wf_sound_def on_memory_def Let_def ws_steady_def split: prod.split)
    (metis snd_conv)+

lemma steady_write [calmness]: "keeps steady (write_report wk rn out)" "keeps steady (write_task_memory wk rn out)"
  unfolding write_report_def write_task_memory_def
  by (auto intro!: steady_bind calmness steady_memory simp: record_report_def record_task_memory_def create_memory_steady)


lemma create_checkpoint_store:
  "create_checkpoint g sha pid tid wid cid nid now cs = (r, cs') \<Longrightarrow> ws_store (cs_ws cs') = ws_store (cs_ws cs)"
  by (auto simp: create_checkpoint_def put_checkpoint_def Let_def split: option.splits sum.splits)

lemma commit_checkpoint_workspace [simp]: "cs_ws (commit_checkpoint cid now cs) = cs_ws cs"
  by (simp add: commit_checkpoint_def split: option.split)

lemma steady_pre_checkpoint [calmness]: "keeps steady (pre_checkpoint wk rn)"
proof -
  have "keeps steady (open_checkpoint wk rn)"
    by (auto simp: keeps_def steady_def wf_sound_def open_checkpoint_def Let_def split: prod.split dest: create_checkpoint_store)
  then show ?thesis unfolding pre_checkpoint_def by (auto intro!: steady_bind calmness)
qed

lemma steady_commit [calmness]: "keeps steady (commit_run wk rn ck)"
  unfolding commit_run_def
  by (auto split: option.split intro!: steady_bind calmness) (simp add: keeps_def steady_def wf_sound_def)

lemma steady_rollback [calmness]: "keeps steady (rollback_run wk rn ck)"
proof -
  have "keeps steady (roll_back wk p c)" for p c
  proof (unfold keeps_def, intro allI)
    fix st :: wf_state
    obtain res c' w where run: "rollback (tm_git (wk_rt wk)) (tm_sha (wk_rt wk)) (current_checkpoint c (ts_ck (wf_ts st)))
      (project_root p) (''rb-'' @ take 8 (or_uuid (tm_readings (wk_rt wk)) (ts_tick (wf_ts st))))
      (or_now (tm_readings (wk_rt wk)) (ts_tick (wf_ts st))) (cs_ws (ts_ck (wf_ts st))) = (res, c', w)"
      by (cases rule: prod_cases3) blast
    then show "steady st (snd (roll_back wk p c st))"
      using rollback_steady[OF run] by (simp add: roll_back_def Let_def steady_def wf_sound_def ws_steady_def put_checkpoint_def)
  qed
  then show ?thesis unfolding rollback_run_def by (auto split: option.split intro!: steady_bind calmness)
qed

lemma steady_log_deviations [calmness]: "keeps steady (log_deviations wk rn ck)"
  unfolding log_deviations_def by (auto split: option.split intro!: steady_bind calmness)

lemma steady_reload [calmness]: "keeps steady (reload wk tid rn)"
  unfolding reload_def by (auto intro!: steady_bind calmness)


section \<open>The store stays well-formed through a run\<close>

text \<open>What is asked of the parameters: tools behind the adapters, and the code of the workers, keep the store well-formed.\<close>

definition sound_workforce :: "workforce \<Rightarrow> bool" where
  "sound_workforce wk \<longleftrightarrow> sound_adapters (wk_adapters wk) \<and> (\<forall>wid t. keeps wf_sound (wk_code wk wid t))
     \<and> (\<forall>wid t out. keeps wf_sound (wk_after wk wid t out))"

lemma sound_steady [soundness]:
  "keeps wf_sound (wf_log wk a)" "keeps wf_sound (rn_event wk rn ty payload)" "keeps wf_sound (run_event wk p tid wid caus ty payload)"
  "keeps wf_sound (pre_checkpoint wk rn)" "keeps wf_sound (commit_run wk rn ck)" "keeps wf_sound (rollback_run wk rn ck)"
  "keeps wf_sound (log_deviations wk rn ck)" "keeps wf_sound (reload wk tid rn)" "keeps wf_sound (write_report wk rn out)"
  "keeps wf_sound (write_task_memory wk rn out)"
  by (rule steady_sound, rule calmness)+

lemma sound_save [soundness]: "keeps wf_sound (save (save_task t))" "keeps wf_sound (save (save_worker m))"
  by (simp_all add: keeps_def wf_sound_def)

lemma sound_on_tools: "keeps ts_sound m \<Longrightarrow> keeps wf_sound (on_tools m)"
  by (auto simp: keeps_def wf_sound_def ts_sound_def on_tools_def split: prod.split)

lemma sound_worker_instance [soundness]: "keeps wf_sound (on_registry wk (get_worker_instance wid))"
  by (auto simp: keeps_def wf_sound_def on_registry_def get_worker_instance_def put_instance_def wf_registry_def
      put_registry_def split: prod.splits option.splits sum.splits)

lemma sound_start_task [soundness]: "keeps wf_sound (start_task wk tid)"
  unfolding start_task_def engage_idle_def by (auto intro!: sound_bind soundness)

lemma sound_release_worker [soundness]: "keeps wf_sound (release_worker wk via rn)"
  unfolding release_worker_def by (intro sound_bind soundness)

lemma map_prod_Inr: "map_prod Inr id p = (Inr (fst p), snd p)"
  by (cases p) simp

lemma resolve_downstream_effect:
  assumes "store_wf s"
  shows "store_wf (snd (resolve_downstream_tasks c s))"
    "get_worker (snd (resolve_downstream_tasks c s)) = get_worker s"
    "get_task s x = Some t \<Longrightarrow> t_status t \<noteq> T_PENDING \<Longrightarrow> get_task (snd (resolve_downstream_tasks c s)) x = Some t"
proof -
  let ?ds = "get_dependents_for_task s c" and ?s = "snd (resolve_downstream_tasks c s)"
  have eff: "store_wf ?s" "?s\<lparr>s_tasks := s_tasks s\<rparr> = s"
    "get_task ?s x = map_option (promoted s (d_dependent_task_id ` set ?ds)) (get_task s x)" for x
    using resolve_downstream_loop_effect[OF assms, of ?ds "fst (resolve_downstream_tasks c s)" ?s]
    by (simp_all add: resolve_downstream_tasks_def)
  show "store_wf ?s" by (rule eff(1))
  show "get_worker ?s = get_worker s"
    using arg_cong[OF eff(2), of s_workers] by (simp add: get_worker_def fun_eq_iff)
  show "get_task s x = Some t \<Longrightarrow> t_status t \<noteq> T_PENDING \<Longrightarrow> get_task ?s x = Some t"
    by (simp add: eff(3) promoted_def)
qed

lemma sound_announce_ready [soundness]: "keeps wf_sound (announce_ready wk rn e)"
proof -
  have "keeps wf_sound (on_store wk (\<lambda>_ _ s. map_prod Inr id (resolve_downstream_tasks tid s)))" for tid
    by (simp add: keeps_def wf_sound_def on_store_def put_ts_store_def map_prod_Inr resolve_downstream_effect)
  then show ?thesis unfolding announce_ready_def by (intro sound_bind sound_each soundness)
qed

lemma wf_sound_trans: "wf_sound a b \<Longrightarrow> wf_sound b c \<Longrightarrow> wf_sound a c"
  by (simp add: wf_sound_def)

lemma sound_run_worker:
  assumes "sound_workforce wk"
  shows "keeps wf_sound (run_worker wk rn)"
proof (unfold keeps_def, intro allI)
  fix st
  have "keeps wf_sound (wk_after wk wid t out)" for wid t out using assms by (simp add: sound_workforce_def)
  then have "keeps wf_sound (after_hook wk rn out)" for out unfolding after_hook_def by (rule sound_try) (rule soundness)
  then have hook: "keeps wf_sound (bind (after_hook wk rn out) (\<lambda>_. m))" if "keeps wf_sound m" for out and m :: "(wf_state, worker_output) action"
    using that by (rule sound_bind)
  obtain r st1 where code: "wk_code wk (w_id (rn_worker rn)) (rn_task rn) st = (r, st1)" by force
  then have st1: "wf_sound st st1" using assms keepsD unfolding sound_workforce_def by metis
  show "wf_sound st (snd (run_worker wk rn st))"
  proof (cases r)
    case (Inr out)
    have "wf_sound st1 (snd (bind (after_hook wk rn out) (\<lambda>_. ret out) st1))"
      using hook[OF sound_basics(3)] by (simp add: keeps_def)
    then show ?thesis using wf_sound_trans[OF st1] by (simp add: run_worker_def code Inr)
  next
    case (Inl e)
    let ?out = "failed_output (''Worker threw unhandled exception: '' @ error_message e) (error_message e)"
    obtain r2 st2 where ev: "rn_event wk rn ''EXECUTION_FAILED''
        [(''error'', PStr (error_message e)), (''task_id'', PStr (t_id (rn_task rn)))] st1 = (r2, st2)" by force
    have st2: "wf_sound st1 st2" by (rule keepsD[OF sound_steady(2) ev])
    have "keeps wf_sound (case r2 of Inl e' \<Rightarrow> raise e' | Inr _ \<Rightarrow> ret ?out)"
      by (cases r2) (simp_all add: sound_basics)
    then have "wf_sound st2 (snd (bind (after_hook wk rn ?out) (\<lambda>_. case r2 of Inl e' \<Rightarrow> raise e' | Inr _ \<Rightarrow> ret ?out) st2))"
      using hook unfolding keeps_def by blast
    from wf_sound_trans[OF wf_sound_trans[OF st1 st2] this] show ?thesis
      unfolding run_worker_def code Inl prod.case sum.case Let_def ev .
  qed
qed

lemma sound_judge_output:
  assumes "sound_workforce wk"
  shows "keeps wf_sound (judge_output wk rn ck out)"
proof -
  have "sound_adapters (wk_adapters wk)" using assms by (simp add: sound_workforce_def)
  then have "keeps wf_sound (on_tools (verify_task (wk_rt wk) (wk_verify wk) (wk_adapters wk) p t wid c plan caus))" for p t wid c plan caus
    by (intro sound_on_tools soundness)
  then show ?thesis unfolding judge_output_def by (auto intro!: sound_bind soundness)
qed

lemma sound_settle [soundness]: "keeps wf_sound (settle wk rn ck out)"
  unfolding settle_def succeed_def fail_task_def complete_task_def close_failed_def Let_def
  by (auto intro!: sound_bind soundness)

lemma run_task_sound: "sound_workforce wk \<Longrightarrow> keeps wf_sound (run_task wk tid)"
  unfolding run_task_def by (intro sound_bind soundness sound_run_worker sound_judge_output)



section \<open>How a run ends\<close>

definition rests :: "string \<Rightarrow> store \<Rightarrow> bool" where
  "rests wid s \<longleftrightarrow> (\<exists>m. get_worker s wid = Some m \<and> worker_free m)"

text \<open>The outcome of a run, as the status of the task tells it.\<close>

definition settled :: "workforce \<Rightarrow> worker_output \<Rightarrow> task \<Rightarrow> bool" where
  "settled wk out t \<longleftrightarrow>
     (if o_success out then t_status t = T_COMPLETED
      else if t_attempts t < t_max_attempts t
        then t_status t = T_RETRYING \<or> t_status t = T_FAILED \<and> sc_auto_checkpoint (tm_safety (wk_rt wk))
      else t_status t = T_FAILED)"

lemma release_worker_effect:
  assumes "release_worker wk via rn st = (Inr (), st')" and "via \<noteq> W_IDLE"
  shows "get_task (wf_store st') = get_task (wf_store st)" and "rests (w_id (rn_worker rn)) (wf_store st')"
proof -
  obtain m1 m2 where m: "worker_transition (rn_worker rn) via (Some (t_id (rn_task rn))) (wf_now wk st) = Inr m1"
    "worker_transition m1 W_IDLE None (wf_now wk (put_wf_store (save_worker m1 (wf_store st)) st)) = Inr m2"
    "wf_store st' = save_worker m2 (save_worker m1 (wf_store st))"
    using assms(1) by (auto simp: release_worker_def bind_Inr lift_now_def)
  show "get_task (wf_store st') = get_task (wf_store st)"
    by (simp add: m(3) save_worker_def get_task_def fun_eq_iff)
  have "w_id m2 = w_id (rn_worker rn)" "worker_free m2"
    using m(1,2) assms(2) by (auto simp: worker_transition_def worker_free_def Let_def split: if_splits)
  then show "rests (w_id (rn_worker rn)) (wf_store st')"
    by (simp add: rests_def m(3) save_worker_def get_worker_def dict_simps)
qed

lemma steadyD:
  assumes "keeps steady m" and "m st = (r, st')"
  shows "get_task (wf_store st') = get_task (wf_store st)" "get_worker (wf_store st') = get_worker (wf_store st)"
    "store_wf (wf_store st) \<Longrightarrow> store_wf (wf_store st')" "rests wid (wf_store st') = rests wid (wf_store st)"
  using keepsD[OF assms] by (simp_all add: steady_def wf_sound_def rests_def)

lemma each_log_steady: "keeps steady (each (\<lambda>t. bind (wf_log wk (f t)) (\<lambda>_. ret ())) ts)"
  by (rule keeps_each[OF steady_rel]) (intro steady_bind calmness)

lemma announce_ready_effect:
  assumes "announce_ready wk rn e st = (Inr (), st')" and "store_wf (wf_store st)"
  shows "get_task (wf_store st) x = Some t \<Longrightarrow> t_status t \<noteq> T_PENDING \<Longrightarrow> get_task (wf_store st') x = Some t"
    and "get_worker (wf_store st') = get_worker (wf_store st)"
proof -
  obtain ts st1 where run: "on_store wk (\<lambda>_ _ s. map_prod Inr id (resolve_downstream_tasks (t_id (rn_task rn)) s)) st = (Inr ts, st1)"
    and log: "each (\<lambda>t. bind (wf_log wk (args_of ''TASK_READY'' [(''reason'', PStr (''Prerequisite '' @ t_id (rn_task rn) @ '' completed''))]
           (Some (p_id (rn_project rn))) (Some (t_id t)) None (Some (t_id t)) (Some (e_event_id e)))) (\<lambda>_. ret ())) ts st1 = (Inr (), st')"
    using assms(1) by (auto simp only: announce_ready_def bind_Inr)
  have st1: "wf_store st1 = snd (resolve_downstream_tasks (t_id (rn_task rn)) (wf_store st))"
    using run by (auto simp: on_store_def map_prod_Inr put_ts_store_def)
  note same = steadyD[OF each_log_steady log]
  show "get_task (wf_store st) x = Some t \<Longrightarrow> t_status t \<noteq> T_PENDING \<Longrightarrow> get_task (wf_store st') x = Some t"
    by (simp add: same st1 resolve_downstream_effect[OF assms(2)])
  show "get_worker (wf_store st') = get_worker (wf_store st)"
    by (simp add: same st1 resolve_downstream_effect[OF assms(2)])
qed


lemma save_task_effect:
  "get_task (save_task t s) (t_id t) = Some t" "get_worker (save_task t s) = get_worker s" "rests wid (save_task t s) = rests wid s"
  by (simp_all add: rests_def save_task_def get_task_def get_worker_def fun_eq_iff dict_simps)

lemma complete_task_effect:
  assumes "complete_task wk rn out st = (Inr (), st')" and "store_wf (wf_store st)"
  shows "\<exists>t. get_task (wf_store st') (t_id (rn_task rn)) = Some t \<and> t_status t = T_COMPLETED
    \<and> t_assigned_worker t = t_assigned_worker (rn_task rn)" and "get_worker (wf_store st') = get_worker (wf_store st)"
proof -
  obtain t payload e st1 where t: "task_transition (rn_task rn) T_COMPLETED None (wf_now wk st) = Inr t"
    and log: "rn_event wk rn ''TASK_COMPLETED'' payload (put_wf_store (save_task t (wf_store st)) st) = (Inr e, st1)"
    and ready: "announce_ready wk rn e st1 = (Inr (), st')"
    using assms(1) by (auto simp only: complete_task_def bind_Inr lift_now_def save_apply prod.inject)
  note same = steadyD[OF steady_run_event(1) log]
  have wf: "store_wf (wf_store st1)" using assms(2) by (intro same(3)) simp
  note t = task_transition_Inr[OF t]
  have "get_task (wf_store st1) (t_id (rn_task rn)) = Some t" using save_task_effect(1)[of t] by (simp add: same t(2)[symmetric])
  then have "get_task (wf_store st') (t_id (rn_task rn)) = Some t"
    using announce_ready_effect(1)[OF ready wf] t(1) by simp
  with t show "\<exists>t. get_task (wf_store st') (t_id (rn_task rn)) = Some t \<and> t_status t = T_COMPLETED
    \<and> t_assigned_worker t = t_assigned_worker (rn_task rn)" by blast
  show "get_worker (wf_store st') = get_worker (wf_store st)"
    by (simp add: announce_ready_effect(2)[OF ready wf] same save_task_effect)
qed

lemma succeed_effect:
  assumes "succeed wk rn ck out st = (Inr (), st')" and "store_wf (wf_store st)"
  shows "\<exists>t. get_task (wf_store st') (t_id (rn_task rn)) = Some t \<and> t_status t = T_COMPLETED
    \<and> t_assigned_worker t = t_assigned_worker (rn_task rn)" and "rests (w_id (rn_worker rn)) (wf_store st')"
proof -
  obtain u1 u2 u3 u4 s1 s2 e1 s3 e2 s4 s5 s6 p1 a2 where steps: "commit_run wk rn ck st = (Inr u1, s1)"
    "release_worker wk W_REPORTING rn s1 = (Inr u2, s2)" "rn_event wk rn ''WORKER_FINISHED'' p1 s2 = (Inr e1, s3)"
    "wf_log wk a2 s3 = (Inr e2, s4)" "write_report wk rn out s4 = (Inr u3, s5)" "write_task_memory wk rn out s5 = (Inr u4, s6)"
    "complete_task wk rn out s6 = (Inr (), st')"
    using assms(1) by (auto simp only: succeed_def bind_Inr)
  note calm = steadyD[OF steady_commit steps(1)] steadyD[OF steady_run_event(1) steps(3)] steadyD[OF steady_log steps(4)]
    steadyD[OF steady_write(1) steps(5)] steadyD[OF steady_write(2) steps(6)]
  have wf: "store_wf (wf_store s6)"
    using calm keepsD[OF sound_release_worker steps(2)] assms(2) by (simp add: wf_sound_def)
  have "rests (w_id (rn_worker rn)) (wf_store s2)" using release_worker_effect(2) steps(2) by simp
  then have "rests (w_id (rn_worker rn)) (wf_store s6)" by (simp add: calm)
  then show "rests (w_id (rn_worker rn)) (wf_store st')"
    by (simp add: rests_def complete_task_effect(2)[OF steps(7) wf])
  show "\<exists>t. get_task (wf_store st') (t_id (rn_task rn)) = Some t \<and> t_status t = T_COMPLETED
    \<and> t_assigned_worker t = t_assigned_worker (rn_task rn)"
    by (rule complete_task_effect(1)[OF steps(7) wf])
qed

lemma no_checkpoint_no_rollback: "pre_checkpoint wk rn st = (Inr ck, st') \<Longrightarrow> \<not> sc_auto_checkpoint (tm_safety (wk_rt wk)) \<Longrightarrow> ck = None"
  "rollback_run wk rn None st = (Inr b, st') \<Longrightarrow> \<not> b"
  by (auto simp: pre_checkpoint_def rollback_run_def)

lemma close_failed_effect:
  assumes "close_failed wk rn b out st = (Inr (), st')"
  shows "get_worker (wf_store st') = get_worker (wf_store st)"
    and "\<exists>t. get_task (wf_store st') (t_id (rn_task rn)) = Some t \<and> t_assigned_worker t = t_assigned_worker (rn_task rn)
      \<and> t_status t = (if t_attempts t < t_max_attempts t \<and> \<not> b then T_RETRYING else T_FAILED)"
proof -
  let ?again = "t_attempts (rn_task rn) < t_max_attempts (rn_task rn) \<and> \<not> b"
  obtain t ty payload e where t: "task_transition (rn_task rn) (if ?again then T_RETRYING else T_FAILED) (o_error_message out) (wf_now wk st) = Inr t"
    and log: "rn_event wk rn ty payload (put_wf_store (save_task t (wf_store st)) st) = (Inr e, st')"
    using assms by (cases ?again) (auto simp only: close_failed_def Let_def if_True if_False simp_thms bind_Inr lift_now_def save_apply prod.inject ret_apply)
  note same = steadyD[OF steady_run_event(1) log] and t = task_transition_Inr[OF t]
  show "get_worker (wf_store st') = get_worker (wf_store st)" by (simp add: same save_task_effect)
  have "get_task (wf_store st') (t_id (rn_task rn)) = Some t" using save_task_effect(1)[of t] by (simp add: same t(2)[symmetric])
  then show "\<exists>t. get_task (wf_store st') (t_id (rn_task rn)) = Some t \<and> t_assigned_worker t = t_assigned_worker (rn_task rn)
      \<and> t_status t = (if t_attempts t < t_max_attempts t \<and> \<not> b then T_RETRYING else T_FAILED)"
    using t by auto
qed


lemma fail_task_effect:
  assumes "fail_task wk rn ck out st = (Inr (), st')" and "store_wf (wf_store st)"
  shows "\<exists>t. get_task (wf_store st') (t_id (rn_task rn)) = Some t \<and> t_assigned_worker t = t_assigned_worker (rn_task rn)
      \<and> (if t_attempts t < t_max_attempts t then t_status t = T_RETRYING \<or> t_status t = T_FAILED \<and> ck \<noteq> None else t_status t = T_FAILED)"
    and "rests (w_id (rn_worker rn)) (wf_store st')"
proof -
  obtain b u2 s1 s2 p1 e1 s3 where steps: "rollback_run wk rn ck st = (Inr b, s1)"
    "release_worker wk W_FAILED rn s1 = (Inr u2, s2)" "rn_event wk rn ''WORKER_FAILED'' p1 s2 = (Inr e1, s3)"
    "close_failed wk rn b out s3 = (Inr (), st')"
    using assms(1) by (auto simp only: fail_task_def bind_Inr)
  have "rests (w_id (rn_worker rn)) (wf_store s2)" using release_worker_effect(2) steps(2) by simp
  then show "rests (w_id (rn_worker rn)) (wf_store st')"
    using close_failed_effect(1)[OF steps(4)] steadyD(4)[OF steady_run_event(1) steps(3)] by (simp add: rests_def)
  have "ck \<noteq> None" if b using no_checkpoint_no_rollback(2)[of wk rn st b s1] steps(1) that by (cases ck) auto
  then show "\<exists>t. get_task (wf_store st') (t_id (rn_task rn)) = Some t \<and> t_assigned_worker t = t_assigned_worker (rn_task rn)
      \<and> (if t_attempts t < t_max_attempts t then t_status t = T_RETRYING \<or> t_status t = T_FAILED \<and> ck \<noteq> None else t_status t = T_FAILED)"
    using close_failed_effect(2)[OF steps(4)] by (auto split: if_splits)
qed

text \<open>The steps of a run that returns.\<close>

lemma run_task_steps:
  assumes "run_task wk tid st = (Inr out, st')"
  obtains rn ck claim rn2 s1 s2 s3 s4 s5 u where "start_task wk tid st = (Inr rn, s1)" "pre_checkpoint wk rn s1 = (Inr ck, s2)"
    "run_worker wk rn s2 = (Inr claim, s3)" "reload wk tid rn s3 = (Inr rn2, s4)" "judge_output wk rn2 ck claim s4 = (Inr out, s5)"
    "settle wk rn2 ck out s5 = (Inr u, st')"
  using assms by (auto simp only: run_task_def bind_Inr ret_apply prod.inject sum.inject)

lemma reload_effect:
  assumes "reload wk tid rn st = (Inr rn2, st')" and "store_wf (wf_store st)"
  shows "st' = st" "t_id (rn_task rn2) = tid" "t_assigned_worker (rn_task rn2) = Some (w_id (rn_worker rn2))"
    "get_task (wf_store st) tid = Some (rn_task rn2)" "rn_project rn2 = rn_project rn"
proof -
  have *: "st' = st \<and> get_task (wf_store st) tid = Some (rn_task rn2)
      \<and> (\<exists>wid. t_assigned_worker (rn_task rn2) = Some wid \<and> get_worker (wf_store st) wid = Some (rn_worker rn2))
      \<and> rn_project rn2 = rn_project rn"
    using assms(1) by (auto simp: reload_def bind_Inr engine_get_task_def registry_get_worker_def split: option.splits)
  then show "st' = st" "get_task (wf_store st) tid = Some (rn_task rn2)" "rn_project rn2 = rn_project rn" by auto
  show "t_id (rn_task rn2) = tid" using * tasks_tbl.key_get[OF assms(2)] by blast
  show "t_assigned_worker (rn_task rn2) = Some (w_id (rn_worker rn2))" using * workers_tbl.key_get[OF assms(2)] by blast
qed

lemma run_settled:
  assumes "store_wf (wf_store st)" and "sound_workforce wk" and "run_task wk tid st = (Inr out, st')"
  shows "\<exists>t wid. get_task (wf_store st') tid = Some t \<and> settled wk out t \<and> t_assigned_worker t = Some wid
    \<and> rests wid (wf_store st')"
  using assms(3)
proof (rule run_task_steps)
  fix rn ck claim rn2 s1 s2 s3 s4 s5 u
  assume steps: "start_task wk tid st = (Inr rn, s1)" "pre_checkpoint wk rn s1 = (Inr ck, s2)"
    "run_worker wk rn s2 = (Inr claim, s3)" "reload wk tid rn s3 = (Inr rn2, s4)" "judge_output wk rn2 ck claim s4 = (Inr out, s5)"
    "settle wk rn2 ck out s5 = (Inr u, st')"
  have "wf_sound st s1" "wf_sound s1 s2" "wf_sound s2 s3" "wf_sound s4 s5"
    using keepsD[OF sound_start_task steps(1)] keepsD[OF sound_steady(4) steps(2)] keepsD[OF sound_run_worker[OF assms(2)] steps(3)]
      keepsD[OF sound_judge_output[OF assms(2)] steps(5)] by simp_all
  then have wf: "store_wf (wf_store s3)" and step4: "store_wf (wf_store s4) \<Longrightarrow> store_wf (wf_store s5)"
    using assms(1) by (simp_all add: wf_sound_def)
  note reload = reload_effect[OF steps(4) wf]
  have wf5: "store_wf (wf_store s5)" using step4 wf reload(1) by simp
  have ck: "sc_auto_checkpoint (tm_safety (wk_rt wk))" if "ck \<noteq> None"
    using no_checkpoint_no_rollback(1)[OF steps(2)] that by blast
  show ?thesis
  proof (cases "o_success out")
    case True
    then have "succeed wk rn2 ck out s5 = (Inr (), st')" using steps(6) by (simp add: settle_def)
    from succeed_effect[OF this wf5] True reload show ?thesis by (auto simp: settled_def)
  next
    case False
    then have "fail_task wk rn2 ck out s5 = (Inr (), st')" using steps(6) by (simp add: settle_def)
    from fail_task_effect[OF this wf5] False reload ck show ?thesis by (auto simp: settled_def split: if_splits)
  qed
qed



section \<open>A run ends\<close>

abbreviation logging_ready :: "workforce \<Rightarrow> wf_state \<Rightarrow> bool" where
  "logging_ready wk st \<equiv> ready_log (wk_rt wk) (wf_ts st)"

lemma logging_ready_wf: "logging_ready wk st \<Longrightarrow> store_wf (wf_store st)"
  by (simp add: ready_log_def log_ok_def tool_log_state_def)

text \<open>A computation that returns when logging works, and leaves the tasks and workers alone.\<close>

definition tame :: "workforce \<Rightarrow> (wf_state, 'a) action \<Rightarrow> bool" where
  "tame wk m \<longleftrightarrow> (\<forall>st. logging_ready wk st \<longrightarrow> (\<exists>x st'. m st = (Inr x, st') \<and> logging_ready wk st' \<and> steady st st'))"

lemma tameE:
  assumes "tame wk m" and "logging_ready wk st"
  obtains x st' where "m st = (Inr x, st')" "logging_ready wk st'" "get_task (wf_store st') = get_task (wf_store st)"
    "get_worker (wf_store st') = get_worker (wf_store st)"
  using assms unfolding tame_def steady_def by blast

lemma tame_ret: "tame wk (ret x)"
  using steady_rel(1) by (simp add: tame_def reflp_def)

lemma tame_bind:
  assumes "tame wk m" and "\<And>x. tame wk (f x)"
  shows "tame wk (bind m f)"
proof (unfold tame_def, intro allI impI)
  fix st assume "logging_ready wk st"
  then obtain x s1 where m: "m st = (Inr x, s1)" "logging_ready wk s1" "steady st s1" using assms(1) unfolding tame_def by blast
  then obtain y s2 where f: "f x s1 = (Inr y, s2)" "logging_ready wk s2" "steady s1 s2" using assms(2) unfolding tame_def by blast
  have "steady st s2" using transpD[OF steady_rel(2) m(3) f(3)] .
  then show "\<exists>y st'. bind m f st = (Inr y, st') \<and> logging_ready wk st' \<and> steady st st'" using m f by (auto simp: bind_def)
qed

lemma tame_log: "tame wk (wf_log wk a)"
proof (unfold tame_def, intro allI impI)
  fix st assume ready: "logging_ready wk st"
  then have "fresh_uuids (tm_readings (wk_rt wk))" "log_ok (tm_readings (wk_rt wk)) (tool_log_state (wf_ts st))"
    by (simp_all add: ready_log_def)
  then obtain e l where log: "log_event (tm_readings (wk_rt wk)) a (tool_log_state (wf_ts st)) = (Inr e, l)"
    "log_ok (tm_readings (wk_rt wk)) l" by (rule log_event_ok) blast
  let ?st' = "st\<lparr>wf_ts := (put_ts_store (lg_store l) (wf_ts st))\<lparr>ts_tick := lg_tick l\<rparr>\<rparr>"
  have run: "wf_log wk a st = (Inr e, ?st')" by (simp add: wf_log_def on_tools_def log(1))
  moreover have "logging_ready wk ?st'" using ready log(2) by (cases l) (simp add: ready_log_def tool_log_state_def put_ts_store_def)
  moreover have "steady st ?st'" using keepsD[OF steady_log run] .
  ultimately show "\<exists>x st'. wf_log wk a st = (Inr x, st') \<and> logging_ready wk st' \<and> steady st st'" by blast
qed

lemma tame_run_event: "tame wk (rn_event wk rn ty payload)" "tame wk (run_event wk p tid wid caus ty payload)"
  by (simp_all add: rn_event_def run_event_def tame_log)

text \<open>Saving keeps the log in order.\<close>

lemma ready_save [simp]:
  "logging_ready wk st \<Longrightarrow> logging_ready wk (put_wf_store (save_task t (wf_store st)) st)"
  "logging_ready wk st \<Longrightarrow> logging_ready wk (put_wf_store (save_worker m (wf_store st)) st)"
  by (simp_all add: ready_log_def log_ok_def tool_log_state_def put_wf_store_def put_ts_store_def save_task_def save_worker_def
      store_wf_def events_ok_def)

text \<open>
  What a run needs to start: the task is stored, may go to \<open>RUNNING\<close> and is assigned to a stored worker whose
  instance is loaded and which may go to \<open>RUNNING\<close>, and its project exists.
\<close>

definition startable :: "wf_state \<Rightarrow> string \<Rightarrow> bool" where
  "startable st tid \<longleftrightarrow> (\<exists>t wid m. get_task (wf_store st) tid = Some t \<and> t_status t \<noteq> T_COMPLETED
     \<and> (t_status t = T_RUNNING \<or> task_can_transition (t_status t) T_RUNNING)
     \<and> t_assigned_worker t = Some wid \<and> wid \<noteq> [] \<and> get_worker (wf_store st) wid = Some m
     \<and> w_status m \<in> {W_IDLE, W_ASSIGNED, W_RUNNING, W_FAILED} \<and> dict_get (wf_instances st) wid \<noteq> None
     \<and> get_project (wf_store st) (t_project_id t) \<noteq> None)"


lemma worker_moves:
  "w_status m = target \<or> worker_can_transition (w_status m) target \<Longrightarrow> \<exists>m'. worker_transition m target active now = Inr m'"
  using worker_transition_accepts[of m target active now] by auto

lemma engage_returns:
  assumes "w_status m \<in> {W_IDLE, W_ASSIGNED, W_RUNNING, W_FAILED}" and "logging_ready wk st"
  shows "\<exists>m1 st'. engage_idle wk tid m st = (Inr m1, st') \<and> logging_ready wk st' \<and> w_id m1 = w_id m
    \<and> get_task (wf_store st') = get_task (wf_store st)
    \<and> (w_status m1 = W_RUNNING \<or> worker_can_transition (w_status m1) W_RUNNING)"
proof (cases "w_status m = W_IDLE")
  case True
  let ?m1 = "m\<lparr>w_status := W_ASSIGNED, w_active_task_id := Some tid, w_updated_at := wf_now wk st\<rparr>"
  have step: "worker_transition m W_ASSIGNED (Some tid) (wf_now wk st) = Inr ?m1"
    using True by (simp add: worker_transition_def worker_can_transition_def Let_def)
  show ?thesis
  proof (intro exI conjI)
    show "engage_idle wk tid m st = (Inr ?m1, put_wf_store (save_worker ?m1 (wf_store st)) st)"
      using True step by (simp add: engage_idle_def bind_def lift_now_def)
    show "logging_ready wk (put_wf_store (save_worker ?m1 (wf_store st)) st)" using assms(2) by simp
    show "get_task (wf_store (put_wf_store (save_worker ?m1 (wf_store st)) st)) = get_task (wf_store st)"
      by (simp add: save_worker_def get_task_def fun_eq_iff)
    show "w_status ?m1 = W_RUNNING \<or> worker_can_transition (w_status ?m1) W_RUNNING"
      by (simp add: worker_can_transition_def)
  qed simp
next
  case False
  then show ?thesis
    using assms by (intro exI[of _ m] exI[of _ st]) (auto simp: engage_idle_def worker_can_transition_def)
qed


definition running :: "run_info \<Rightarrow> string \<Rightarrow> store \<Rightarrow> bool" where
  "running rn tid s \<longleftrightarrow> get_task s tid = Some (rn_task rn) \<and> t_id (rn_task rn) = tid \<and> t_status (rn_task rn) = T_RUNNING
     \<and> t_assigned_worker (rn_task rn) = Some (w_id (rn_worker rn)) \<and> get_worker s (w_id (rn_worker rn)) = Some (rn_worker rn)
     \<and> w_status (rn_worker rn) = W_RUNNING"

lemma start_returns:
  assumes "logging_ready wk st" and "startable st tid"
  shows "\<exists>rn st'. start_task wk tid st = (Inr rn, st') \<and> logging_ready wk st' \<and> running rn tid (wf_store st')"
proof -
  obtain t wid m where t: "get_task (wf_store st) tid = Some t" "t_status t \<noteq> T_COMPLETED"
    "t_status t = T_RUNNING \<or> task_can_transition (t_status t) T_RUNNING" "t_assigned_worker t = Some wid" "wid \<noteq> []"
    "get_worker (wf_store st) wid = Some m" "w_status m \<in> {W_IDLE, W_ASSIGNED, W_RUNNING, W_FAILED}"
    "dict_get (wf_instances st) wid \<noteq> None" "get_project (wf_store st) (t_project_id t) \<noteq> None"
    using assms(2) by (auto simp: startable_def)
  have wf: "store_wf (wf_store st)" using assms(1) by (rule logging_ready_wf)
  have ids: "t_id t = tid" "w_id m = wid" using tasks_tbl.key_get[OF wf t(1)] workers_tbl.key_get[OF wf t(6)] by auto
  obtain p where p: "get_project (wf_store st) (t_project_id t) = Some p" using t(9) by blast
  obtain t1 where t1: "task_transition (t\<lparr>t_attempts := t_attempts t + 1\<rparr>) T_RUNNING None (wf_now wk st) = Inr t1"
    using task_transition_accepts[of "t\<lparr>t_attempts := t_attempts t + 1\<rparr>" T_RUNNING None "wf_now wk st"] t(3) by auto
  note t1' = task_transition_Inr[OF t1]
  let ?st1 = "put_wf_store (save_task t1 (wf_store st)) st"
  have ready1: "logging_ready wk ?st1" using assms(1) by simp
  obtain m1 s2 where engage: "engage_idle wk tid m ?st1 = (Inr m1, s2)" "logging_ready wk s2" "w_id m1 = w_id m"
    "get_task (wf_store s2) = get_task (wf_store ?st1)" "w_status m1 = W_RUNNING \<or> worker_can_transition (w_status m1) W_RUNNING"
    using engage_returns[OF t(7) ready1] by blast
  obtain m2 where m2: "worker_transition m1 W_RUNNING (Some tid) (wf_now wk s2) = Inr m2"
    using worker_moves[OF engage(5)] by blast
  note m2' = worker_transition_Inr[OF m2]
  let ?s3 = "put_wf_store (save_worker m2 (wf_store s2)) s2"
  have ready3: "logging_ready wk ?s3" using engage(2) by simp
  define es where "es = list_events (save_worker m2 (wf_store s2)) None (Some tid) None None (Some [''TASK_ASSIGNED'']) None (Some 1)"
  define caus where "caus = (if es = [] then None else Some (e_event_id (last es)))"
  obtain e1 s4 where log1: "run_event wk p tid wid caus ''TASK_STARTED''
      [(''attempt'', PInt (t_attempts t1)), (''worker_id'', PStr wid), (''title'', PStr (t_title t))] ?s3 = (Inr e1, s4)"
    "logging_ready wk s4" "get_task (wf_store s4) = get_task (wf_store ?s3)" "get_worker (wf_store s4) = get_worker (wf_store ?s3)"
    using tameE[OF tame_run_event(2) ready3] by metis
  obtain e2 s5 where log2: "run_event wk p tid wid (Some (e_event_id e1)) ''WORKER_STARTED''
      [(''task_id'', PStr tid), (''attempt'', PInt (t_attempts t1))] s4 = (Inr e2, s5)"
    "logging_ready wk s5" "get_task (wf_store s5) = get_task (wf_store s4)" "get_worker (wf_store s5) = get_worker (wf_store s4)"
    using tameE[OF tame_run_event(2) log1(2)] by metis
  let ?rn = "\<lparr>rn_task = t1, rn_worker = m2, rn_project = p, rn_start = e_event_id e1\<rparr>"
  have inst: "on_registry wk (get_worker_instance wid) st = (Inr (the (dict_get (wf_instances st) wid)), st)"
    using t(8) by (auto simp: on_registry_def get_worker_instance_def wf_registry_def put_registry_def put_wf_store_def put_ts_store_def)
  have "start_task wk tid st = (Inr ?rn, s5)"
    unfolding start_task_def
    by (simp add: bind_def engine_get_task_def registry_get_worker_def registry_get_project_def t ids given_def inst p
        lift_now_def t1 engage(1) m2 es_def[symmetric] caus_def[symmetric] log1(1) log2(1)
        split del: if_split cong del: if_weak_cong)
  moreover have "get_task (save_worker m2 (wf_store s2)) = get_task (wf_store s2)"
    by (simp add: save_worker_def get_task_def fun_eq_iff)
  then have "running ?rn tid (wf_store s5)"
    using save_task_effect(1)[of t1 "wf_store st"] t1' m2' engage(3) ids t(4) log1 log2
    by (simp add: running_def engage(4) save_worker_def get_worker_def dict_simps)
  ultimately show ?thesis using log2(2) by blast
qed


lemma release_returns:
  assumes "logging_ready wk st" and "w_status (rn_worker rn) = W_RUNNING" and "via \<in> {W_REPORTING, W_FAILED}"
  shows "\<exists>st'. release_worker wk via rn st = (Inr (), st') \<and> logging_ready wk st' \<and> get_task (wf_store st') = get_task (wf_store st)"
proof -
  obtain m1 where m1: "worker_transition (rn_worker rn) via (Some (t_id (rn_task rn))) (wf_now wk st) = Inr m1"
    using worker_moves[of "rn_worker rn" via] assms(2,3) by (auto simp: worker_can_transition_def)
  let ?s1 = "put_wf_store (save_worker m1 (wf_store st)) st"
  have "worker_can_transition (w_status m1) W_IDLE"
    using worker_transition_Inr(1)[OF m1] assms(3) by (auto simp: worker_can_transition_def)
  then obtain m2 where m2: "worker_transition m1 W_IDLE None (wf_now wk ?s1) = Inr m2" using worker_moves by blast
  have ready: "logging_ready wk ?s1" using assms(1) by simp
  have run: "release_worker wk via rn st = (Inr (), put_wf_store (save_worker m2 (wf_store ?s1)) ?s1)"
    using m1 m2 by (simp add: release_worker_def bind_def lift_now_def)
  moreover have "via \<noteq> W_IDLE" using assms(3) by auto
  ultimately show ?thesis using release_worker_effect(1)[OF run] ready_save(2)[OF ready] by blast
qed

lemma close_failed_returns:
  assumes "logging_ready wk st" and "t_status (rn_task rn) = T_RUNNING"
  shows "\<exists>st'. close_failed wk rn b out st = (Inr (), st')"
proof -
  let ?again = "t_attempts (rn_task rn) < t_max_attempts (rn_task rn) \<and> \<not> b"
  obtain t where t: "task_transition (rn_task rn) (if ?again then T_RETRYING else T_FAILED) (o_error_message out) (wf_now wk st) = Inr t"
    using task_transition_accepts[of "rn_task rn" "if ?again then T_RETRYING else T_FAILED" "o_error_message out" "wf_now wk st"]
      assms(2) by (cases ?again) (auto simp: task_can_transition_def)
  have ready: "logging_ready wk (put_wf_store (save_task t (wf_store st)) st)" using assms(1) by simp
  have "\<exists>st'. bind (rn_event wk rn ty payload) (\<lambda>_. ret ()) (put_wf_store (save_task t (wf_store st)) st) = (Inr (), st')" for ty payload
    by (rule tameE[OF tame_bind[OF tame_run_event(1) tame_ret] ready, of rn ty payload "\<lambda>_. ()"]) auto
  then show ?thesis
    using t unfolding close_failed_def Let_def by (cases ?again) (auto simp: bind_apply lift_now_def)
qed

text \<open>A worker that fails: its code raises or reports failure; its code and its hook leave tasks, workers and the log in order.\<close>

definition failing_worker :: "workforce \<Rightarrow> bool" where
  "failing_worker wk \<longleftrightarrow>
     (\<forall>wid t st r st'. logging_ready wk st \<longrightarrow> wk_code wk wid t st = (r, st') \<longrightarrow>
        logging_ready wk st' \<and> steady st st' \<and> (\<forall>out. r = Inr out \<longrightarrow> \<not> o_success out))
     \<and> (\<forall>wid t out st r st'. logging_ready wk st \<longrightarrow> wk_after wk wid t out st = (r, st') \<longrightarrow> logging_ready wk st' \<and> steady st st')"

lemma tame_after_hook: "failing_worker wk \<Longrightarrow> tame wk (after_hook wk rn out)"
proof (unfold tame_def, intro allI impI)
  fix st assume ready: "logging_ready wk st" and "failing_worker wk"
  obtain r st' where after: "wk_after wk (w_id (rn_worker rn)) (rn_task rn) out st = (r, st')" by force
  then have "logging_ready wk st'" "steady st st'" using \<open>failing_worker wk\<close> ready unfolding failing_worker_def by blast+
  moreover have "after_hook wk rn out st = (Inr (), st')"
    by (cases r) (simp_all add: after_hook_def try_catch_def after)
  ultimately show "\<exists>x st'. after_hook wk rn out st = (Inr x, st') \<and> logging_ready wk st' \<and> steady st st'" by blast
qed

lemma run_failing_worker:
  assumes "failing_worker wk" and "logging_ready wk st"
  shows "\<exists>out st'. run_worker wk rn st = (Inr out, st') \<and> \<not> o_success out \<and> logging_ready wk st'
    \<and> get_task (wf_store st') = get_task (wf_store st) \<and> get_worker (wf_store st') = get_worker (wf_store st)"
proof -
  obtain r s1 where code: "wk_code wk (w_id (rn_worker rn)) (rn_task rn) st = (r, s1)" by force
  then have s1: "logging_ready wk s1" "steady st s1" "\<And>out. r = Inr out \<Longrightarrow> \<not> o_success out"
    using assms unfolding failing_worker_def by blast+
  show ?thesis
  proof (cases r)
    case (Inr out)
    obtain s2 where s2: "after_hook wk rn out s1 = (Inr (), s2)" "logging_ready wk s2"
      "get_task (wf_store s2) = get_task (wf_store s1)" "get_worker (wf_store s2) = get_worker (wf_store s1)"
      by (rule tameE[OF tame_after_hook[OF assms(1)] s1(1), of rn out]) auto
    then show ?thesis using s1 code Inr by (auto simp: run_worker_def bind_def steady_def)
  next
    case (Inl e)
    let ?out = "failed_output (''Worker threw unhandled exception: '' @ error_message e) (error_message e)"
    obtain ev s2 where s2: "rn_event wk rn ''EXECUTION_FAILED''
        [(''error'', PStr (error_message e)), (''task_id'', PStr (t_id (rn_task rn)))] s1 = (Inr ev, s2)" "logging_ready wk s2"
      "get_task (wf_store s2) = get_task (wf_store s1)" "get_worker (wf_store s2) = get_worker (wf_store s1)"
      by (rule tameE[OF tame_run_event(1) s1(1)])
    obtain s3 where s3: "after_hook wk rn ?out s2 = (Inr (), s3)" "logging_ready wk s3"
      "get_task (wf_store s3) = get_task (wf_store s2)" "get_worker (wf_store s3) = get_worker (wf_store s2)"
      by (rule tameE[OF tame_after_hook[OF assms(1)] s2(2), of rn ?out]) auto
    have "run_worker wk rn st = (Inr ?out, s3)"
      unfolding run_worker_def code Inl prod.case sum.case Let_def s2(1) by (simp add: bind_def s3(1) del: append_Cons)
    moreover have "\<not> o_success ?out" by (simp add: failed_output_def)
    ultimately show ?thesis using s1(2) s2 s3 by (auto simp: steady_def)
  qed
qed


lemma tame_rollback_none: "rollback_run wk rn None st = (Inr False, st)"
  by (simp add: rollback_run_def)

lemma fail_task_returns:
  assumes "logging_ready wk st" and "t_status (rn_task rn) = T_RUNNING" and "w_status (rn_worker rn) = W_RUNNING"
  shows "\<exists>st'. fail_task wk rn None out st = (Inr (), st')"
proof -
  obtain s1 where release: "release_worker wk W_FAILED rn st = (Inr (), s1)" "logging_ready wk s1"
    using release_returns[OF assms(1,3), of W_FAILED] by auto
  obtain e s2 where log: "rn_event wk rn ''WORKER_FAILED''
      [(''reason'', opt_str (o_error_message out)), (''task_id'', PStr (t_id (rn_task rn)))] s1 = (Inr e, s2)" "logging_ready wk s2"
    by (rule tameE[OF tame_run_event(1) release(2)])
  show ?thesis
    using close_failed_returns[OF log(2) assms(2), of False out]
    by (simp add: fail_task_def bind_def tame_rollback_none release(1) log(1))
qed

lemma failing_run_returns:
  assumes "logging_ready wk st" and "startable st tid" and "failing_worker wk" and "\<not> sc_auto_checkpoint (tm_safety (wk_rt wk))"
  shows "\<exists>out st'. run_task wk tid st = (Inr out, st') \<and> \<not> o_success out"
proof -
  obtain rn s1 where start: "start_task wk tid st = (Inr rn, s1)" "logging_ready wk s1" "running rn tid (wf_store s1)"
    using start_returns[OF assms(1,2)] by blast
  obtain out s2 where work: "run_worker wk rn s1 = (Inr out, s2)" "\<not> o_success out" "logging_ready wk s2"
    "get_task (wf_store s2) = get_task (wf_store s1)" "get_worker (wf_store s2) = get_worker (wf_store s1)"
    using run_failing_worker[OF assms(3) start(2)] by blast
  have ck: "pre_checkpoint wk rn s1 = (Inr None, s1)" using assms(4) by (simp add: pre_checkpoint_def)
  have reload: "reload wk tid rn s2 = (Inr rn, s2)"
    using start(3) work(4,5) by (simp add: running_def reload_def bind_def engine_get_task_def registry_get_worker_def)
  have judge: "judge_output wk rn None out s2 = (Inr out, s2)" using work(2) by (simp add: judge_output_def)
  obtain s3 where "fail_task wk rn None out s2 = (Inr (), s3)"
    using fail_task_returns[OF work(3)] start(3) unfolding running_def by blast
  then have settle: "settle wk rn None out s2 = (Inr (), s3)" using work(2) by (simp add: settle_def)
  have "run_task wk tid st = (Inr out, s3)"
    by (simp add: run_task_def bind_def start(1) ck work(1) reload judge settle)
  with work(2) show ?thesis by blast
qed



section \<open>A task that cannot be verified\<close>

lemma task_transition_rest:
  assumes "task_transition t target reason now = Inr t'"
  shows "t_success_criteria t' = t_success_criteria t" "t_metadata t' = t_metadata t" "t_artifacts t' = t_artifacts t"
  using assms by (auto simp: task_transition_def Let_def split: if_splits)

lemma start_task_keeps:
  assumes "start_task wk tid st = (Inr rn, st')" and "get_task (wf_store st) tid = Some t"
  shows "t_success_criteria (rn_task rn) = t_success_criteria t" "t_metadata (rn_task rn) = t_metadata t"
    "t_artifacts (rn_task rn) = t_artifacts t" "get_project (wf_store st) (t_project_id t) = Some (rn_project rn)"
proof -
  obtain now st1 where t: "task_transition (t\<lparr>t_attempts := t_attempts t + 1\<rparr>) T_RUNNING None now = Inr (rn_task rn)"
    and p: "registry_get_project (t_project_id t) (wf_store st1) = Inr (rn_project rn)"
    and st1: "\<exists>r. on_registry wk (get_worker_instance (the (t_assigned_worker t))) st = (r, st1)"
    using assms by (auto simp: start_task_def bind_Inr engine_get_task_def lift_now_def split: if_splits)
  from task_transition_rest[OF t] show "t_success_criteria (rn_task rn) = t_success_criteria t"
    "t_metadata (rn_task rn) = t_metadata t" "t_artifacts (rn_task rn) = t_artifacts t" by simp_all
  have "wf_store st1 = wf_store st"
    using st1 by (auto simp: on_registry_def get_worker_instance_def put_instance_def split: prod.splits option.splits sum.splits)
  then show "get_project (wf_store st) (t_project_id t) = Some (rn_project rn)"
    using p by (simp add: registry_get_project_def split: option.splits)
qed




section \<open>Sample runs\<close>

definition run_state :: wf_state where
  "run_state = \<lparr>wf_ts = put_ts_store (save_worker (sample_worker ''w'' W_IDLE)
       (save_task ((sample_task ''t'' T_ASSIGNED)\<lparr>t_assigned_worker := Some ''w'', t_success_criteria := [PDict [(''check_type'', PStr ''x'')]]\<rparr>)
         (ts_store root_state))) root_state,
     wf_instances = [(''w'', sample_instance ''w'')], wf_factories = []\<rparr>"

definition claiming :: worker_output where
  "claiming = \<lparr>o_success = True, o_summary = ''done'', o_report_markdown = [], o_created_artifacts = [],
     o_evidence_list = [], o_error_message = None, o_metadata = []\<rparr>"

definition sample_workforce :: "worker_output \<Rightarrow> workforce" where
  "sample_workforce out = \<lparr>wk_rt = sample_runtime\<lparr>tm_safety := default_safety_config\<lparr>sc_auto_checkpoint := False\<rparr>\<rparr>,
     wk_verify = sample_verify_env, wk_adapters = [], wk_code = (\<lambda>_ _. ret out), wk_after = (\<lambda>_ _ _. ret ())\<rparr>"

lemma sample_run_ready: "logging_ready (sample_workforce out) run_state"
proof -
  have "store_wf (wf_store run_state)"
    using root_state_ready by (simp add: run_state_def put_ts_store_def ready_log_def log_ok_def tool_log_state_def)
  moreover have "s_events (wf_store run_state) = []"
    by (simp add: run_state_def put_ts_store_def save_worker_def save_task_def root_state_def sample_workspace_def
        save_project_def empty_store_def)
  ultimately show ?thesis
    using root_state_ready by (simp add: sample_workforce_def ready_log_def log_ok_def tool_log_state_def)
qed

lemma sample_run_task: "get_task (wf_store run_state) ''t'' = Some ((sample_task ''t'' T_ASSIGNED)
    \<lparr>t_assigned_worker := Some ''w'', t_success_criteria := [PDict [(''check_type'', PStr ''x'')]]\<rparr>)"
  by (simp add: run_state_def put_ts_store_def save_worker_def save_task_def get_task_def dict_simps)

lemma sample_run_startable: "startable run_state ''t''"
proof -
  have "get_worker (wf_store run_state) ''w'' = Some (sample_worker ''w'' W_IDLE)"
    by (simp add: run_state_def put_ts_store_def save_worker_def get_worker_def dict_simps)
  moreover have "get_project (wf_store run_state) ''p'' \<noteq> None" by code_simp
  ultimately show ?thesis
    using sample_run_task unfolding startable_def
    by (intro exI[of _ "(sample_task ''t'' T_ASSIGNED)\<lparr>t_assigned_worker := Some ''w'', t_success_criteria := [PDict [(''check_type'', PStr ''x'')]]\<rparr>"]
        exI[of _ "''w''"] exI[of _ "sample_worker ''w'' W_IDLE"])
      (simp add: sample_task_def task_can_transition_def run_state_def)
qed

lemma sample_failing: "failing_worker (sample_workforce (failed_output ''no'' ''no''))"
  using steady_rel(1) by (auto simp: failing_worker_def sample_workforce_def failed_output_def reflp_def)

lemma sample_no_checkpoint: "\<not> sc_auto_checkpoint (tm_safety (wk_rt (sample_workforce out)))"
  by (simp add: sample_workforce_def)




end
