(* ===== verification/Run_Outcomes.thy ===== *)
theory Run_Outcomes
  imports Task_Runs
begin

text \<open>
  Runs that end well: what a reported success rests on, and what it is worth for a task that states no criteria.
\<close>

section \<open>Claims of success are verified\<close>

lemma worker_claims:
  assumes "run_worker wk rn st = (Inr out, st')" and "o_success out"
  shows "\<exists>s1 s2. wk_code wk (w_id (rn_worker rn)) (rn_task rn) s1 = (Inr out, s2)"
proof -
  obtain r s1 where code: "wk_code wk (w_id (rn_worker rn)) (rn_task rn) st = (r, s1)" by force
  show ?thesis
  proof (cases r)
    case (Inr o')
    then show ?thesis using assms(1) code by (auto simp: run_worker_def bind_Inr)
  next
    case (Inl e)
    have "\<not> o_success out"
      using assms(1) unfolding run_worker_def code Inl prod.case sum.case Let_def
      by (auto simp: bind_Inr failed_output_def simp del: append_Cons split: prod.splits sum.splits)
    then show ?thesis using assms(2) by simp
  qed
qed



section \<open>What a run leaves alone in the project\<close>

text \<open>The projects, the memory documents and the file tree.\<close>

definition project_part :: "wf_state \<Rightarrow> (string, project) dict \<times> (string, memory_document) dict \<times> filesystem" where
  "project_part st = (s_projects (wf_store st), s_memory_docs (wf_store st), ws_fs (cs_ws (ts_ck (wf_ts st))))"

definition same_project :: "wf_state \<Rightarrow> wf_state \<Rightarrow> bool" where
  "same_project st st' \<longleftrightarrow> project_part st' = project_part st"

lemma same_project_rel: "reflp same_project" "transp same_project"
  by (auto simp: same_project_def intro!: reflpI transpI)

lemmas same_project_bind = keeps_bind[OF same_project_rel(2)]

named_theorems aloofness \<open>computations that leave the project alone\<close>

lemma aloof_basics [aloofness]:
  "keeps same_project (ret x)" "keeps same_project (raise e)" "keeps same_project (look f)" "keeps same_project (lift_now wk g)"
  "keeps same_project (save (save_task t))" "keeps same_project (save (save_worker m))"
  by (simp_all add: keeps_def same_project_def lift_now_def project_part_def put_wf_store_def put_ts_store_def
      save_task_def save_worker_def)

lemma aloof_log [aloofness]: "keeps same_project (wf_log wk a)" "keeps same_project (rn_event wk rn ty payload)"
  "keeps same_project (run_event wk p tid wid caus ty payload)"
proof -
  show "keeps same_project (wf_log wk a)" for a
    by (auto simp: keeps_def same_project_def project_part_def wf_log_def on_tools_def log_event_def append_event_def Let_def
        tool_log_state_def put_ts_store_def split: prod.split sum.split if_splits)
  then show "keeps same_project (rn_event wk rn ty payload)" "keeps same_project (run_event wk p tid wid caus ty payload)"
    by (simp_all add: rn_event_def run_event_def)
qed

lemma aloof_instance [aloofness]: "keeps same_project (on_registry wk (get_worker_instance wid))"
  by (auto simp: keeps_def same_project_def project_part_def on_registry_def get_worker_instance_def put_instance_def
      wf_registry_def put_registry_def put_wf_store_def put_ts_store_def split: prod.splits option.splits sum.splits)

lemma aloof_start [aloofness]: "keeps same_project (start_task wk tid)"
  unfolding start_task_def engage_idle_def by (auto intro!: same_project_bind aloofness)

lemma aloof_release [aloofness]: "keeps same_project (release_worker wk via rn)"
  unfolding release_worker_def by (intro same_project_bind aloofness)

lemma aloofD: "keeps same_project m \<Longrightarrow> m st = (r, st') \<Longrightarrow> project_part st' = project_part st"
  using keepsD[of same_project m st r st'] by (simp add: same_project_def)



section \<open>A first success\<close>

definition task_memory_path :: "task \<Rightarrow> string" where
  "task_memory_path t = clean_rel (''.autonomos/tasks/'' @ t_id t @ ''.md'')"

text \<open>There is no memory document yet, and the file of the task memory can be written.\<close>

definition memory_room :: "wf_state \<Rightarrow> project \<Rightarrow> task \<Rightarrow> bool" where
  "memory_room st p t \<longleftrightarrow> get_project (wf_store st) (p_id p) = Some p \<and> s_memory_docs (wf_store st) = []
     \<and> (let full = resolve_path (project_root p) (task_memory_path t); fs = ws_fs (cs_ws (ts_ck (wf_ts st))) in
        list_all (\<lambda>q. \<not> is_file fs q) (prefixes (butlast full)) \<and> \<not> is_dir fs full \<and> \<not> prefix full (butlast full))"

lemma memory_room_cong: "project_part st = project_part st' \<Longrightarrow> memory_room st p t = memory_room st' p t"
  by (simp add: project_part_def memory_room_def get_project_def)

lemma atomic_write_returns:
  assumes "list_all (\<lambda>q. \<not> is_file fs q) (prefixes (butlast p))" and "\<not> is_dir fs p" and "\<not> prefix p (butlast p)"
  shows "\<exists>fs'. atomic_write p c fs = (Inr (), fs')"
proof -
  have "\<not> list_ex (is_file fs) (prefixes (butlast p))" using assms(1) by (induction "prefixes (butlast p)") (auto simp: list_ex_iff list_all_iff)
  then obtain fs1 where fs1: "mkdir_parents (butlast p) fs = Inr fs1" by (simp add: mkdir_parents_def)
  then have "\<not> is_dir fs1 p" using mkdir_parents_is_dir[OF fs1] assms(2,3) by blast
  then show ?thesis by (simp add: atomic_write_def fs1)
qed

lemma no_documents: "s_memory_docs s = [] \<Longrightarrow> get_memory_document s mid = None" "s_memory_docs s = [] \<Longrightarrow> get_memory_document_by_path s pid rel = None"
  by (simp_all add: get_memory_document_def get_memory_document_by_path_def)

lemma create_memory_returns:
  assumes p: "get_project (ws_store w) pid = Some p" and docs: "s_memory_docs (ws_store w) = []"
    and full: "full = resolve_path (project_root p) (clean_rel (nm_relative_path a))"
    and fs: "list_all (\<lambda>q. \<not> is_file (ws_fs w) q) (prefixes (butlast full))" "\<not> is_dir (ws_fs w) full" "\<not> prefix full (butlast full)"
  shows "\<exists>d fs'. create_memory sha pid a nid now w = (Inr d, \<lparr>ws_store = save_memory_document d (ws_store w), ws_fs = fs'\<rparr>)"
proof -
  have "resolve_full_path pid (clean_rel (nm_relative_path a)) (ws_store w) = Inr full"
    by (simp add: resolve_full_path_def get_project_root_def p full)
  then show ?thesis
    using atomic_write_returns[OF fs, of "nm_content a"] p
    by (auto simp: create_memory_def Let_def no_documents[OF docs] get_project_root_def)
qed

lemma ready_memory:
  assumes "logging_ready wk st"
  shows "logging_ready wk (st\<lparr>wf_ts := (wf_ts st)\<lparr>ts_ck := (ts_ck (wf_ts st))\<lparr>cs_ws := \<lparr>ws_store = save_memory_document d (wf_store st),
    ws_fs = fs\<rparr>\<rparr>, ts_tick := ts_tick (wf_ts st) + 1\<rparr>\<rparr>)"
proof -
  have "store_wf (wf_store st)" using assms by (rule logging_ready_wf)
  then have "ready_log (wk_rt wk) ((wf_ts st)\<lparr>ts_ck := (ts_ck (wf_ts st))\<lparr>cs_ws := \<lparr>ws_store = save_memory_document d (wf_store st),
      ws_fs = fs\<rparr>\<rparr>\<rparr>)"
    using assms by (simp add: ready_log_def log_ok_def tool_log_state_def) (simp add: save_memory_document_def)
  from drawn_more[OF this, of 1] show ?thesis by simp
qed

lemma write_task_memory_returns:
  assumes ready: "logging_ready wk st" and room: "memory_room st (rn_project rn) (rn_task rn)"
  shows "\<exists>st'. write_task_memory wk rn out st = (Inr (), st') \<and> logging_ready wk st'"
proof -
  let ?rt = "wk_rt wk" and ?p = "rn_project rn" and ?t = "rn_task rn" and ?w = "cs_ws (ts_ck (wf_ts st))"
  define full where "full = resolve_path (project_root ?p) (task_memory_path ?t)"
  have p: "get_project (ws_store ?w) (p_id ?p) = Some ?p" and docs: "s_memory_docs (ws_store ?w) = []"
    and fs: "list_all (\<lambda>q. \<not> is_file (ws_fs ?w) q) (prefixes (butlast full))" "\<not> is_dir (ws_fs ?w) full" "\<not> prefix full (butlast full)"
    using room by (simp_all add: memory_room_def Let_def full_def)
  have "\<exists>d fs. record_task_memory (tm_sha ?rt) (p_id ?p) (t_id ?t) (t_title ?t) (t_objective ?t) [] [] [] (o_summary out)
      ''COMPLETED'' (or_uuid (tm_readings ?rt) (ts_tick (wf_ts st))) (wf_now wk st) ?w =
      (Inr d, \<lparr>ws_store = save_memory_document d (ws_store ?w), ws_fs = fs\<rparr>)"
    unfolding record_task_memory_def
    by (rule create_memory_returns[OF p docs _ fs]) (simp add: full_def task_memory_path_def new_memory_of_def)
  then obtain d fs where d: "record_task_memory (tm_sha ?rt) (p_id ?p) (t_id ?t) (t_title ?t) (t_objective ?t) [] [] [] (o_summary out)
      ''COMPLETED'' (or_uuid (tm_readings ?rt) (ts_tick (wf_ts st))) (wf_now wk st) ?w =
      (Inr d, \<lparr>ws_store = save_memory_document d (ws_store ?w), ws_fs = fs\<rparr>)" by blast
  let ?st1 = "st\<lparr>wf_ts := (wf_ts st)\<lparr>ts_ck := (ts_ck (wf_ts st))\<lparr>cs_ws := \<lparr>ws_store = save_memory_document d (wf_store st),
    ws_fs = fs\<rparr>\<rparr>, ts_tick := ts_tick (wf_ts st) + 1\<rparr>\<rparr>"
  have ready1: "logging_ready wk ?st1" by (rule ready_memory[OF ready])
  obtain e st2 where log: "rn_event wk rn ''MEMORY_CREATED''
       [(''memory_id'', PStr (m_id d)), (''title'', PStr (m_title d)), (''path'', PStr (m_relative_path d))] ?st1 = (Inr e, st2)"
    "logging_ready wk st2" by (rule tameE[OF tame_run_event(1) ready1])
  have "write_task_memory wk rn out st = (Inr (), st2)"
    using log(1) by (simp add: write_task_memory_def bind_def on_memory_def Let_def d)
  then show ?thesis using log(2) by blast
qed


lemma resolve_downstream_events:
  assumes "store_wf s"
  shows "s_events (snd (resolve_downstream_tasks c s)) = s_events s"
proof -
  let ?s = "snd (resolve_downstream_tasks c s)"
  have "?s\<lparr>s_tasks := s_tasks s\<rparr> = s"
    using resolve_downstream_loop_effect[OF assms, of "get_dependents_for_task s c" "fst (resolve_downstream_tasks c s)" ?s]
    by (simp add: resolve_downstream_tasks_def)
  from arg_cong[OF this, of s_events] show ?thesis by simp
qed

lemma announce_ready_returns:
  assumes "logging_ready wk st"
  shows "\<exists>st'. announce_ready wk rn e st = (Inr (), st')"
proof -
  let ?r = "resolve_downstream_tasks (t_id (rn_task rn)) (wf_store st)"
  let ?st1 = "st\<lparr>wf_ts := (put_ts_store (snd ?r) (wf_ts st))\<lparr>ts_tick := ts_tick (wf_ts st) + 1\<rparr>\<rparr>"
  have wf: "store_wf (wf_store st)" using assms by (rule logging_ready_wf)
  have "s_events (snd ?r) = s_events (wf_store st)"
    using resolve_downstream_events[OF wf] by simp
  then have "ready_log (wk_rt wk) (put_ts_store (snd ?r) (wf_ts st))"
    using assms resolve_downstream_effect(1)[OF wf] by (simp add: ready_log_def log_ok_def tool_log_state_def put_ts_store_def)
  from drawn_more[OF this, of 1] have ready: "logging_ready wk ?st1" by (simp add: put_ts_store_def)
  have "tame wk (each (\<lambda>t. bind (wf_log wk (f t)) (\<lambda>_. ret ())) ts)" for f and ts :: "task list"
  proof (induction ts)
    case (Cons t ts)
    then show ?case unfolding each.simps by (intro tame_bind tame_log tame_ret)
  qed (simp only: each.simps tame_ret)
  then have log: "\<exists>st'. each (\<lambda>t. bind (wf_log wk (f t)) (\<lambda>_. ret ())) ts ?st1 = (Inr (), st')"
    for f and ts :: "task list" by (rule tameE[OF _ ready]) auto
  have "on_store wk (\<lambda>_ _ s. map_prod Inr id (resolve_downstream_tasks (t_id (rn_task rn)) s)) st = (Inr (fst ?r), ?st1)"
    by (simp add: on_store_def map_prod_Inr)
  then have "bind (on_store wk (\<lambda>_ _ s. map_prod Inr id (resolve_downstream_tasks (t_id (rn_task rn)) s))) g st = g (fst ?r) ?st1"
    for g :: "task list \<Rightarrow> (wf_state, unit) action" by (simp only: bind_def prod.case sum.case)
  then show ?thesis unfolding announce_ready_def by (simp only: log)
qed

lemma complete_task_returns:
  assumes "logging_ready wk st" and "t_status (rn_task rn) = T_RUNNING"
  shows "\<exists>st'. complete_task wk rn out st = (Inr (), st')"
proof -
  obtain t where t: "task_transition (rn_task rn) T_COMPLETED None (wf_now wk st) = Inr t"
    using task_transition_accepts[of "rn_task rn" T_COMPLETED None "wf_now wk st"] assms(2) by (auto simp: task_can_transition_def)
  have ready: "logging_ready wk (put_wf_store (save_task t (wf_store st)) st)" using assms(1) by simp
  obtain e s1 where log: "rn_event wk rn ''TASK_COMPLETED''
         [(''summary'', PStr (o_summary out)), (''artifacts_count'', PInt (int (length (t_artifacts t)))),
          (''attempts'', PInt (t_attempts t))] (put_wf_store (save_task t (wf_store st)) st) = (Inr e, s1)" "logging_ready wk s1"
    by (rule tameE[OF tame_run_event(1) ready])
  show ?thesis
    using announce_ready_returns[OF log(2)] by (simp add: complete_task_def bind_def lift_now_def t log(1))
qed


lemma succeed_returns:
  assumes "logging_ready wk st" and "t_status (rn_task rn) = T_RUNNING" and "w_status (rn_worker rn) = W_RUNNING"
    and "o_report_markdown out = []" and "memory_room st (rn_project rn) (rn_task rn)"
  shows "\<exists>st'. succeed wk rn None out st = (Inr (), st')"
proof -
  have commit: "commit_run wk rn None st = (Inr (), st)" by (simp add: commit_run_def)
  obtain s1 where s1: "release_worker wk W_REPORTING rn st = (Inr (), s1)" "logging_ready wk s1"
    using release_returns[OF assms(1,3), of W_REPORTING] by auto
  obtain e2 s2 where s2: "rn_event wk rn ''WORKER_FINISHED'' [(''task_id'', PStr (t_id (rn_task rn))), (''status'', PStr ''SUCCESS'')] s1 = (Inr e2, s2)"
    "logging_ready wk s2" by (rule tameE[OF tame_run_event(1) s1(2)])
  obtain e3 s3 where s3: "wf_log wk (args_of ''WORKER_BECAME_IDLE'' [(''worker_id'', PStr (w_id (rn_worker rn)))]
         (Some (p_id (rn_project rn))) None (Some (w_id (rn_worker rn))) (Some (t_id (rn_task rn))) None) s2 = (Inr e3, s3)"
    "logging_ready wk s3" by (rule tameE[OF tame_log s2(2)])
  have report: "write_report wk rn out s3 = (Inr (), s3)" using assms(4) by (simp add: write_report_def)
  have "project_part s3 = project_part st"
    using aloofD[OF aloof_release s1(1)] aloofD[OF aloof_log(2) s2(1)] aloofD[OF aloof_log(1) s3(1)] by simp
  then have "memory_room s3 (rn_project rn) (rn_task rn)" using memory_room_cong assms(5) by metis
  then obtain s4 where s4: "write_task_memory wk rn out s3 = (Inr (), s4)" "logging_ready wk s4"
    using write_task_memory_returns[OF s3(2)] by blast
  obtain s5 where s5: "complete_task wk rn out s4 = (Inr (), s5)"
    using complete_task_returns[OF s4(2) assms(2)] by blast
  show ?thesis
    by (simp add: succeed_def bind_def commit s1(1) s2(1) s3(1) report s4(1) s5)
qed


lemma room_untouched: "untouched (wf_ts st) ts \<Longrightarrow> memory_room (st\<lparr>wf_ts := ts\<rparr>) p t = memory_room st p t"
  by (simp add: untouched_def memory_room_def)

text \<open>A worker that does nothing and claims success.\<close>

definition idle_claimer :: "workforce \<Rightarrow> worker_output \<Rightarrow> bool" where
  "idle_claimer wk out \<longleftrightarrow> wk_code wk = (\<lambda>_ _. ret out) \<and> wk_after wk = (\<lambda>_ _ _. ret ())
     \<and> o_success out \<and> o_report_markdown out = []"

definition unspecified :: "task \<Rightarrow> bool" where
  "unspecified t \<longleftrightarrow> t_success_criteria t = [] \<and> t_artifacts t = [] \<and> dict_get (t_metadata t) ''verification_plan'' = None
     \<and> dict_get (t_metadata t) ''success_criteria'' = None"

lemma idle_claim_returns:
  assumes ready: "logging_ready wk st" and start: "startable st tid" and no_ck: "\<not> sc_auto_checkpoint (tm_safety (wk_rt wk))"
    and idle: "idle_claimer wk out" and adapters: "wk_adapters wk = default_adapters (wk_rt wk) (wk_verify wk)"
    and t: "get_task (wf_store st) tid = Some t" "unspecified t"
    and p: "get_project (wf_store st) (t_project_id t) = Some p" "is_dir (ws_fs (cs_ws (ts_ck (wf_ts st)))) (project_root p)"
    and room: "\<And>t'. t_id t' = tid \<Longrightarrow> memory_room st p t'"
  shows "\<exists>st'. run_task wk tid st = (Inr out, st')"
proof -
  obtain rn s1 where start: "start_task wk tid st = (Inr rn, s1)" "logging_ready wk s1" "running rn tid (wf_store s1)"
    using start_returns[OF ready start] by blast
  note kept = start_task_keeps[OF start(1) t(1)]
  have proj: "rn_project rn = p" using kept(4) p(1) by simp
  have part: "project_part s1 = project_part st" by (rule aloofD[OF aloof_start start(1)])
  then have dir: "is_dir (ws_fs (cs_ws (ts_ck (wf_ts s1)))) (project_root p)" using p(2) by (simp add: project_part_def)
  have room1: "memory_room s1 p (rn_task rn)"
    using memory_room_cong[OF part] room start(3) by (simp add: running_def)
  have ck: "pre_checkpoint wk rn s1 = (Inr None, s1)" using no_ck by (simp add: pre_checkpoint_def)
  have work: "run_worker wk rn s1 = (Inr out, s1)"
    using idle by (simp add: idle_claimer_def run_worker_def after_hook_def try_catch_def bind_def)
  have reload: "reload wk tid rn s1 = (Inr rn, s1)"
    using start(3) by (simp add: running_def reload_def bind_def engine_get_task_def registry_get_worker_def)
  obtain v ts where v: "verify_task (wk_rt wk) (wk_verify wk) (wk_adapters wk) p (rn_task rn) (Some (w_id (rn_worker rn))) None None
      (Some (rn_start rn)) (wf_ts s1) = (Inr v, ts)" "vn_status v = V_PASSED" "ready_log (wk_rt wk) ts" "untouched (wf_ts s1) ts"
    using unspecified_verdict[OF start(2) dir, of "rn_task rn"] t(2) kept(1-3) unfolding adapters unspecified_def by metis
  have judge: "judge_output wk rn None out s1 = (Inr out, s1\<lparr>wf_ts := ts\<rparr>)"
    using idle v(1,2) by (simp add: judge_output_def log_deviations_def on_tools_def idle_claimer_def bind_def proj)
  have "memory_room (s1\<lparr>wf_ts := ts\<rparr>) p (rn_task rn)" using room1 by (simp add: room_untouched[OF v(4)])
  then obtain s2 where "succeed wk rn None out (s1\<lparr>wf_ts := ts\<rparr>) = (Inr (), s2)"
    using succeed_returns[of wk "s1\<lparr>wf_ts := ts\<rparr>" rn out] v(3) start(3) idle by (auto simp: running_def idle_claimer_def proj)
  then have settle: "settle wk rn None out (s1\<lparr>wf_ts := ts\<rparr>) = (Inr (), s2)" using idle by (simp add: settle_def idle_claimer_def)
  have "run_task wk tid st = (Inr out, s2)"
    by (simp add: run_task_def bind_def start(1) ck work reload judge settle)
  then show ?thesis by blast
qed

text \<open>
  A task that states no criteria and lists no artifacts is completed by a worker that does nothing but claim
  success: the run ends, the task is \<open>COMPLETED\<close> and its worker idle.
\<close>

theorem idle_claim_completes:
  assumes "logging_ready wk st" and "startable st tid" and "\<not> sc_auto_checkpoint (tm_safety (wk_rt wk))"
    and "idle_claimer wk out" and "wk_adapters wk = default_adapters (wk_rt wk) (wk_verify wk)" and "sound_workforce wk"
    and "get_task (wf_store st) tid = Some t" "unspecified t"
    and "get_project (wf_store st) (t_project_id t) = Some p" "is_dir (ws_fs (cs_ws (ts_ck (wf_ts st)))) (project_root p)"
    and "\<And>t'. t_id t' = tid \<Longrightarrow> memory_room st p t'"
  shows "\<exists>st' t' wid. run_task wk tid st = (Inr out, st') \<and> get_task (wf_store st') tid = Some t'
    \<and> t_status t' = T_COMPLETED \<and> t_assigned_worker t' = Some wid \<and> rests wid (wf_store st')"
proof -
  obtain st' where run: "run_task wk tid st = (Inr out, st')"
    using idle_claim_returns[OF assms(1-5,7-11)] by blast
  have "o_success out" using assms(4) by (simp add: idle_claimer_def)
  with run_settled[OF logging_ready_wf[OF assms(1)] assms(6) run] run show ?thesis by (auto simp: settled_def)
qed



section \<open>Sample runs\<close>

definition bare_task :: task where
  "bare_task = (sample_task ''t'' T_ASSIGNED)\<lparr>t_assigned_worker := Some ''w''\<rparr>"

definition claim_state :: wf_state where
  "claim_state = \<lparr>wf_ts = put_ts_store (save_worker (sample_worker ''w'' W_IDLE) (save_task bare_task (ts_store root_state))) root_state,
     wf_instances = [(''w'', sample_instance ''w'')], wf_factories = []\<rparr>"

definition claim_workforce :: workforce where
  "claim_workforce = (sample_workforce claiming)\<lparr>wk_adapters := default_adapters (wk_rt (sample_workforce claiming)) sample_verify_env\<rparr>"

lemma claim_state_ready: "logging_ready claim_workforce claim_state"
proof -
  have "store_wf (wf_store claim_state)"
    using root_state_ready by (simp add: claim_state_def put_ts_store_def ready_log_def log_ok_def tool_log_state_def)
  moreover have "s_events (wf_store claim_state) = []"
    by (simp add: claim_state_def put_ts_store_def save_worker_def save_task_def root_state_def sample_workspace_def
        save_project_def empty_store_def)
  ultimately show ?thesis
    using root_state_ready by (simp add: claim_workforce_def sample_workforce_def ready_log_def log_ok_def tool_log_state_def)
qed

lemma claim_state_task: "get_task (wf_store claim_state) ''t'' = Some bare_task"
  by (simp add: claim_state_def put_ts_store_def save_worker_def save_task_def get_task_def dict_simps bare_task_def)

lemma claim_state_project: "get_project (wf_store claim_state) (t_project_id bare_task) = Some located_project"
  by code_simp

lemma claim_state_startable: "startable claim_state ''t''"
proof -
  have "get_worker (wf_store claim_state) ''w'' = Some (sample_worker ''w'' W_IDLE)"
    by (simp add: claim_state_def put_ts_store_def save_worker_def get_worker_def dict_simps)
  then show ?thesis
    using claim_state_task claim_state_project unfolding startable_def
    by (intro exI[of _ bare_task] exI[of _ "''w''"] exI[of _ "sample_worker ''w'' W_IDLE"])
      (simp add: bare_task_def task_can_transition_def claim_state_def)
qed

lemma claim_workforce_sound: "sound_workforce claim_workforce"
proof -
  have "keeps ts_sound (idle_executor cx args)" for cx args
    unfolding idle_executor_def by (rule soundness)
  then have "sound_tools (wk_rt (sample_workforce claiming))"
    by (auto simp: sound_tools_def sample_workforce_def sample_runtime_def)
  from default_adapters_sound[OF this] show ?thesis
    by (simp add: sound_workforce_def claim_workforce_def) (simp add: sample_workforce_def sound_basics)
qed

lemma claim_state_room:
  assumes "t_id t' = ''t''"
  shows "memory_room claim_state located_project t'"
proof -
  have "memory_room claim_state located_project t' = memory_room claim_state located_project bare_task"
    using assms by (simp add: memory_room_def task_memory_path_def bare_task_def)
  also have "memory_room claim_state located_project bare_task" by code_simp
  finally show ?thesis .
qed

lemma claim_hypotheses:
  "\<not> sc_auto_checkpoint (tm_safety (wk_rt claim_workforce))" "idle_claimer claim_workforce claiming"
  "wk_adapters claim_workforce = default_adapters (wk_rt claim_workforce) (wk_verify claim_workforce)"
  "unspecified bare_task" "is_dir (ws_fs (cs_ws (ts_ck (wf_ts claim_state)))) (project_root located_project)"
proof -
  show "is_dir (ws_fs (cs_ws (ts_ck (wf_ts claim_state)))) (project_root located_project)" by code_simp
qed (simp_all add: claim_workforce_def sample_workforce_def idle_claimer_def claiming_def unspecified_def bare_task_def sample_task_def)

theorem idle_claim_completes_witness:
  "\<exists>st' t' wid. run_task claim_workforce ''t'' claim_state = (Inr claiming, st') \<and> get_task (wf_store st') ''t'' = Some t'
    \<and> t_status t' = T_COMPLETED \<and> t_assigned_worker t' = Some wid \<and> rests wid (wf_store st')"
  by (rule idle_claim_completes[OF claim_state_ready claim_state_startable claim_hypotheses(1-3) claim_workforce_sound
        claim_state_task claim_hypotheses(4) claim_state_project claim_hypotheses(5) claim_state_room])


end
