(* ===== verification/Work_Models.thy ===== *)
theory Work_Models
  imports Models
begin

text \<open>
  The data classes of multi-worker workflows (\<open>core/workflow/types.py\<close>, \<open>core/workflow/model.py\<close>) and
  of the human control layer (\<open>core/autonomy/types.py\<close>, \<open>core/autonomy/model.py\<close>), with the rows of the
  conversation tables of \<open>core/storage/sqlite_store.py\<close>. Prefixes: \<open>wk_\<close> workflows, \<open>wb_\<close> their
  budgets, \<open>hf_\<close> handoffs, \<open>xa_\<close> execution attempts, \<open>dl_\<close> defect links, \<open>wn_\<close> snapshots, \<open>ap_\<close>
  autonomy policies, \<open>px_\<close> explanations, \<open>pd_\<close> policy decisions, \<open>ar_\<close> approval requests, \<open>ui_\<close>
  user input requests, \<open>dr_\<close> decision requests, \<open>cv_\<close> conversations, \<open>cm_\<close> messages. Floats are given by
  their \<open>repr\<close>.
\<close>

section \<open>Enumerations\<close>

datatype workflow_status =
  WS_CREATED
| WS_PLANNING
| WS_RUNNING
| WS_BLOCKED
| WS_PAUSED
| WS_NEEDS_USER_INPUT
| WS_EMERGENCY_STOPPED
| WS_FAILED
| WS_COMPLETED
| WS_CANCELLED

primrec workflow_status_value :: "workflow_status \<Rightarrow> string" where
  "workflow_status_value WS_CREATED = ''CREATED''"
| "workflow_status_value WS_PLANNING = ''PLANNING''"
| "workflow_status_value WS_RUNNING = ''RUNNING''"
| "workflow_status_value WS_BLOCKED = ''BLOCKED''"
| "workflow_status_value WS_PAUSED = ''PAUSED''"
| "workflow_status_value WS_NEEDS_USER_INPUT = ''NEEDS_USER_INPUT''"
| "workflow_status_value WS_EMERGENCY_STOPPED = ''EMERGENCY_STOPPED''"
| "workflow_status_value WS_FAILED = ''FAILED''"
| "workflow_status_value WS_COMPLETED = ''COMPLETED''"
| "workflow_status_value WS_CANCELLED = ''CANCELLED''"

datatype handoff_type =
  HT_RESEARCH_TO_PROGRAMMING
| HT_PROGRAMMING_TO_TESTING
| HT_TESTING_TO_MANAGER
| HT_DEFECT_TO_PROGRAMMING
| HT_GENERAL

primrec handoff_type_value :: "handoff_type \<Rightarrow> string" where
  "handoff_type_value HT_RESEARCH_TO_PROGRAMMING = ''RESEARCH_TO_PROGRAMMING''"
| "handoff_type_value HT_PROGRAMMING_TO_TESTING = ''PROGRAMMING_TO_TESTING''"
| "handoff_type_value HT_TESTING_TO_MANAGER = ''TESTING_TO_MANAGER''"
| "handoff_type_value HT_DEFECT_TO_PROGRAMMING = ''DEFECT_TO_PROGRAMMING''"
| "handoff_type_value HT_GENERAL = ''GENERAL''"

datatype workflow_priority =
  WP_CRITICAL
| WP_HIGH
| WP_NORMAL
| WP_LOW

primrec workflow_priority_value :: "workflow_priority \<Rightarrow> string" where
  "workflow_priority_value WP_CRITICAL = ''CRITICAL''"
| "workflow_priority_value WP_HIGH = ''HIGH''"
| "workflow_priority_value WP_NORMAL = ''NORMAL''"
| "workflow_priority_value WP_LOW = ''LOW''"

datatype autonomy_level =
  AL_FULL_MANUAL
| AL_SUPERVISED
| AL_BALANCED
| AL_HIGH_AUTONOMY
| AL_FULL_AUTONOMY

primrec autonomy_level_value :: "autonomy_level \<Rightarrow> string" where
  "autonomy_level_value AL_FULL_MANUAL = ''FULL_MANUAL''"
| "autonomy_level_value AL_SUPERVISED = ''SUPERVISED''"
| "autonomy_level_value AL_BALANCED = ''BALANCED''"
| "autonomy_level_value AL_HIGH_AUTONOMY = ''HIGH_AUTONOMY''"
| "autonomy_level_value AL_FULL_AUTONOMY = ''FULL_AUTONOMY''"

datatype action_category =
  AC_READ
| AC_WRITE
| AC_MODIFY
| AC_DELETE
| AC_EXECUTE
| AC_NETWORK
| AC_EXTERNAL_SIDE_EFFECT
| AC_PUBLISH
| AC_DEPLOY
| AC_CREDENTIAL_ACCESS
| AC_PERMISSION_CHANGE

primrec action_category_value :: "action_category \<Rightarrow> string" where
  "action_category_value AC_READ = ''READ''"
| "action_category_value AC_WRITE = ''WRITE''"
| "action_category_value AC_MODIFY = ''MODIFY''"
| "action_category_value AC_DELETE = ''DELETE''"
| "action_category_value AC_EXECUTE = ''EXECUTE''"
| "action_category_value AC_NETWORK = ''NETWORK''"
| "action_category_value AC_EXTERNAL_SIDE_EFFECT = ''EXTERNAL_SIDE_EFFECT''"
| "action_category_value AC_PUBLISH = ''PUBLISH''"
| "action_category_value AC_DEPLOY = ''DEPLOY''"
| "action_category_value AC_CREDENTIAL_ACCESS = ''CREDENTIAL_ACCESS''"
| "action_category_value AC_PERMISSION_CHANGE = ''PERMISSION_CHANGE''"

datatype policy_result =
  PR_ALLOW
| PR_APPROVAL_REQUIRED
| PR_DENY

primrec policy_result_value :: "policy_result \<Rightarrow> string" where
  "policy_result_value PR_ALLOW = ''ALLOW''"
| "policy_result_value PR_APPROVAL_REQUIRED = ''APPROVAL_REQUIRED''"
| "policy_result_value PR_DENY = ''DENY''"

datatype approval_status =
  AS_PENDING
| AS_APPROVED
| AS_REJECTED
| AS_EXPIRED
| AS_CANCELLED

primrec approval_status_value :: "approval_status \<Rightarrow> string" where
  "approval_status_value AS_PENDING = ''PENDING''"
| "approval_status_value AS_APPROVED = ''APPROVED''"
| "approval_status_value AS_REJECTED = ''REJECTED''"
| "approval_status_value AS_EXPIRED = ''EXPIRED''"
| "approval_status_value AS_CANCELLED = ''CANCELLED''"

datatype user_input_status =
  US_PENDING
| US_ANSWERED
| US_CANCELLED

primrec user_input_status_value :: "user_input_status \<Rightarrow> string" where
  "user_input_status_value US_PENDING = ''PENDING''"
| "user_input_status_value US_ANSWERED = ''ANSWERED''"
| "user_input_status_value US_CANCELLED = ''CANCELLED''"

datatype decision_request_status =
  DS_PENDING
| DS_DECIDED
| DS_CANCELLED

primrec decision_request_status_value :: "decision_request_status \<Rightarrow> string" where
  "decision_request_status_value DS_PENDING = ''PENDING''"
| "decision_request_status_value DS_DECIDED = ''DECIDED''"
| "decision_request_status_value DS_CANCELLED = ''CANCELLED''"

section \<open>Workflows\<close>

record workflow_budget =
  wb_max_iterations :: int
  wb_max_test_commands :: int
  wb_max_cost :: string
  wb_max_wall_time_s :: int
  wb_max_consecutive_failures :: int

definition default_workflow_budget :: workflow_budget where
  "default_workflow_budget = \<lparr>wb_max_iterations = 10, wb_max_test_commands = 50, wb_max_cost = ''5.0'',
     wb_max_wall_time_s = 600, wb_max_consecutive_failures = 3\<rparr>"

record worker_handoff =
  hf_id :: string
  hf_project_id :: string
  hf_source_worker :: string
  hf_source_task_id :: string
  hf_destination_worker :: "string option"
  hf_destination_task_id :: "string option"
  hf_handoff_type :: handoff_type
  hf_artifacts :: "pyval list"
  hf_evidence :: "pyval list"
  hf_summary :: string
  hf_requirements :: "pyval list"
  hf_warnings :: "string list"
  hf_workflow_id :: "string option"
  hf_created_at :: string
  hf_metadata :: pydict

record execution_attempt =
  xa_id :: string
  xa_task_id :: string
  xa_attempt_number :: int
  xa_worker_id :: string
  xa_worker_version :: string
  xa_status :: string
  xa_workflow_id :: "string option"
  xa_error_message :: "string option"
  xa_duration_ms :: string
  xa_started_at :: string
  xa_completed_at :: "string option"
  xa_metadata :: pydict

record defect_linkage =
  dl_defect_id :: string
  dl_originating_task_id :: string
  dl_originating_worker_id :: string
  dl_fix_task_id :: "string option"
  dl_fix_worker_id :: "string option"
  dl_retest_task_id :: "string option"
  dl_retest_worker_id :: "string option"
  dl_status :: string

record workflow =
  wk_id :: string
  wk_project_id :: string
  wk_title :: string
  wk_objective :: string
  wk_root_task_id :: "string option"
  wk_status :: workflow_status
  wk_priority :: workflow_priority
  wk_tasks :: "string list"
  wk_current_step :: int
  wk_budget :: workflow_budget
  wk_metadata :: pydict
  wk_created_at :: string
  wk_updated_at :: string
  wk_completed_at :: "string option"

record workflow_snapshot =
  wn_workflow_id :: string
  wn_project_id :: string
  wn_title :: string
  wn_status :: workflow_status
  wn_active_tasks :: "string list"
  wn_completed_tasks :: "string list"
  wn_blocked_tasks :: "string list"
  wn_failed_tasks :: "string list"
  wn_worker_assignments :: "(string, string) dict"
  wn_recent_handoffs :: "worker_handoff list"
  wn_open_defects :: "defect_linkage list"
  wn_iteration_count :: int
  wn_budget_used :: pydict

section \<open>Autonomy\<close>

record autonomy_policy =
  ap_id :: string
  ap_project_id :: string
  ap_autonomy_level :: autonomy_level
  ap_allowed_tools :: "string list"
  ap_denied_tools :: "string list"
  ap_approval_required_actions :: "action_category list"
  ap_max_cost_limit :: string
  ap_max_iterations :: int
  ap_max_external_actions_per_hour :: int
  ap_version :: int
  ap_created_at :: string
  ap_updated_at :: string
  ap_metadata :: pydict

record policy_explanation =
  px_decision :: policy_result
  px_risk_level :: risk_level
  px_matched_rules :: "string list"
  px_rejected_rules :: "string list"
  px_required_approval_scope :: string
  px_summary :: string

record policy_decision =
  pd_id :: string
  pd_action :: string
  pd_category :: action_category
  pd_result :: policy_result
  pd_risk_level :: risk_level
  pd_policy_id :: string
  pd_reason :: string
  pd_explanation :: policy_explanation
  pd_timestamp :: string
  pd_metadata :: pydict

record approval_request =
  ar_id :: string
  ar_project_id :: string
  ar_workflow_id :: "string option"
  ar_task_id :: string
  ar_worker_id :: string
  ar_action :: string
  ar_category :: action_category
  ar_risk_level :: risk_level
  ar_reason :: string
  ar_requested_scope :: string
  ar_affected_resources :: "string list"
  ar_evidence :: "string list"
  ar_status :: approval_status
  ar_created_at :: string
  ar_expires_at :: "string option"
  ar_decided_at :: "string option"
  ar_decided_by :: "string option"
  ar_rejection_reason :: "string option"
  ar_metadata :: pydict

record user_input_request =
  ui_id :: string
  ui_project_id :: string
  ui_workflow_id :: "string option"
  ui_task_id :: string
  ui_question :: string
  ui_context :: string
  ui_answer :: "string option"
  ui_status :: user_input_status
  ui_created_at :: string
  ui_answered_at :: "string option"
  ui_metadata :: pydict

record decision_request =
  dr_id :: string
  dr_project_id :: string
  dr_workflow_id :: "string option"
  dr_task_id :: string
  dr_title :: string
  dr_options :: "string list"
  dr_chosen_option :: "string option"
  dr_rationale :: string
  dr_status :: decision_request_status
  dr_created_at :: string
  dr_decided_at :: "string option"
  dr_metadata :: pydict

section \<open>Conversations\<close>

record conversation =
  cv_id :: string
  cv_project_id :: string
  cv_title :: string
  cv_created_at :: string
  cv_updated_at :: string
  cv_is_active :: bool

record conversation_message =
  cm_id :: string
  cm_conversation_id :: string
  cm_message_type :: string
  cm_content :: string
  cm_sender :: string
  cm_timestamp :: string
  cm_metadata :: pydict
  cm_related_event_id :: "string option"

end
