(* ===== verification/Sqlite_Store.thy ===== *)
theory Sqlite_Store
  imports Work_Models Memory_Store "HOL-Library.Product_Lexorder"
begin

text \<open>
  The embedded database of \<open>core/storage/sqlite_store.py\<close>: one table per entity, the schema's primary
  keys, uniqueness constraints and foreign keys with their cascades, and each \<open>INSERT ... ON
  CONFLICT DO UPDATE\<close> as the row it leaves. A statement either takes effect or raises
  \<open>PersistenceError\<close> and changes nothing. Rows are the records they are read back into (JSON columns
  hold the values they encode), in \<open>rowid\<close> order: a new row is the last one, an updated row stays
  where it is, and \<open>ORDER BY\<close> is stable on that order.
\<close>

section \<open>Tables\<close>

record database =
  db_projects :: "(string, project) dict"
  db_workers :: "(string, worker) dict"
  db_tasks :: "(string, task) dict"
  db_dependencies :: "(string, dependency) dict"
  db_artifacts :: "(string, artifact) dict"
  db_events :: "event list"
  db_sequence :: int
  db_memory_docs :: "(string, memory_document) dict"
  db_plans :: "(string, plan) dict"
  db_manager_decisions :: "(string, manager_decision) dict"
  db_workflows :: "(string, workflow) dict"
  db_handoffs :: "(string, worker_handoff) dict"
  db_attempts :: "(string, execution_attempt) dict"
  db_policies :: "(string, autonomy_policy) dict"
  db_approvals :: "(string, approval_request) dict"
  db_user_inputs :: "(string, user_input_request) dict"
  db_decision_requests :: "(string, decision_request) dict"
  db_conversations :: "(string, conversation) dict"
  db_messages :: "(string, conversation_message) dict"

definition empty_database :: database where
  "empty_database = \<lparr>db_projects = [], db_workers = [], db_tasks = [], db_dependencies = [],
     db_artifacts = [], db_events = [], db_sequence = 0, db_memory_docs = [], db_plans = [],
     db_manager_decisions = [], db_workflows = [], db_handoffs = [], db_attempts = [],
     db_policies = [], db_approvals = [], db_user_inputs = [], db_decision_requests = [],
     db_conversations = [], db_messages = []\<rparr>"

text \<open>Membership in a table, and the check of a nullable foreign key.\<close>

definition row_in :: "('k, 'v) dict \<Rightarrow> 'k \<Rightarrow> bool" where
  "row_in d k \<longleftrightarrow> dict_get d k \<noteq> None"

definition null_or_in :: "('k, 'v) dict \<Rightarrow> 'k option \<Rightarrow> bool" where
  "null_or_in d x = (case x of None \<Rightarrow> True | Some k \<Rightarrow> row_in d k)"

text \<open>
  \<open>INSERT ... ON CONFLICT(key) DO UPDATE\<close>: the row the statement leaves under the key, where
  \<open>keep old new\<close> takes from the inserted row the columns of the \<open>SET\<close> list and the rest from the
  stored one.
\<close>

definition merged :: "('v \<Rightarrow> 'v \<Rightarrow> 'v) \<Rightarrow> 'k \<Rightarrow> 'v \<Rightarrow> ('k, 'v) dict \<Rightarrow> 'v" where
  "merged keep k v d = (case dict_get d k of None \<Rightarrow> v | Some old \<Rightarrow> keep old v)"

definition upsert :: "('v \<Rightarrow> 'v \<Rightarrow> 'v) \<Rightarrow> 'k \<Rightarrow> 'v \<Rightarrow> ('k, 'v) dict \<Rightarrow> ('k, 'v) dict" where
  "upsert keep k v d = dict_set k (merged keep k v d) d"

definition drop_rows :: "('v \<Rightarrow> bool) \<Rightarrow> ('k, 'v) dict \<Rightarrow> ('k, 'v) dict" where
  "drop_rows P d = filter (\<lambda>(k, v). \<not> P v) d"

definition map_rows :: "('v \<Rightarrow> 'v) \<Rightarrow> ('k, 'v) dict \<Rightarrow> ('k, 'v) dict" where
  "map_rows f d = map (\<lambda>(k, v). (k, f v)) d"

definition fk_failed :: "string \<Rightarrow> error + 'a" where
  "fk_failed operation = Inl (PersistenceError operation ''FOREIGN KEY constraint failed'')"

definition unique_failed :: "string \<Rightarrow> string \<Rightarrow> error + 'a" where
  "unique_failed operation column = Inl (PersistenceError operation (''UNIQUE constraint failed: '' @ column))"

definition descending :: "('v \<Rightarrow> 'o :: linorder) \<Rightarrow> 'v list \<Rightarrow> 'v list" where
  \<comment> \<open>\<open>ORDER BY f DESC\<close>, ties in the order of the rows\<close>
  "descending f vs = rev (sort_key f (rev vs))"

definition sql_limit :: "int option \<Rightarrow> 'v list \<Rightarrow> 'v list" where
  \<comment> \<open>\<open>if limit: ... LIMIT ?\<close>; a negative bound is no bound\<close>
  "sql_limit limit vs = (case limit of None \<Rightarrow> vs | Some n \<Rightarrow> if 0 < n then take (nat n) vs else vs)"


section \<open>Projects\<close>

definition stamped :: "string \<Rightarrow> string \<Rightarrow> string" where
  \<comment> \<open>\<open>updated_at or utc_now()\<close>\<close>
  "stamped now t = (if t = [] then now else t)"

definition keep_project :: "project \<Rightarrow> project \<Rightarrow> project" where
  "keep_project old new = new\<lparr>p_created_at := p_created_at old\<rparr>"

definition sql_save_project :: "string \<Rightarrow> project \<Rightarrow> database \<Rightarrow> error + database" where
  "sql_save_project now p db =
     (let p' = p\<lparr>p_updated_at := stamped now (p_updated_at p)\<rparr>
      in Inr (db\<lparr>db_projects := upsert keep_project (p_id p) p' (db_projects db)\<rparr>))"

definition sql_get_project :: "database \<Rightarrow> string \<Rightarrow> project option" where
  "sql_get_project db pid = dict_get (db_projects db) pid"

definition sql_list_projects :: "database \<Rightarrow> project list" where
  "sql_list_projects db = sort_key p_created_at (dict_values (db_projects db))"

text \<open>
  Deleting tasks: their dependencies, artifacts and attempts go with them, and what had one of them
  as its parent has none.
\<close>

definition orphan :: "string list \<Rightarrow> task \<Rightarrow> task" where
  "orphan gone t =
     (case t_parent_task_id t of
        Some p \<Rightarrow> if p \<in> set gone then t\<lparr>t_parent_task_id := None\<rparr> else t
      | None \<Rightarrow> t)"

definition cascade_tasks :: "string list \<Rightarrow> database \<Rightarrow> database" where
  "cascade_tasks gone db = db\<lparr>
     db_tasks := map_rows (orphan gone) (drop_rows (\<lambda>t. t_id t \<in> set gone) (db_tasks db)),
     db_dependencies := drop_rows (\<lambda>d. d_dependent_task_id d \<in> set gone \<or> d_prerequisite_task_id d \<in> set gone)
       (db_dependencies db),
     db_artifacts := drop_rows (\<lambda>a. a_task_id a \<in> set gone) (db_artifacts db),
     db_attempts := drop_rows (\<lambda>x. xa_task_id x \<in> set gone) (db_attempts db)\<rparr>"

definition cascade_conversations :: "string list \<Rightarrow> database \<Rightarrow> database" where
  "cascade_conversations gone db = db\<lparr>
     db_conversations := drop_rows (\<lambda>c. cv_id c \<in> set gone) (db_conversations db),
     db_messages := drop_rows (\<lambda>m. cm_conversation_id m \<in> set gone) (db_messages db)\<rparr>"

definition project_tasks :: "string \<Rightarrow> database \<Rightarrow> string list" where
  "project_tasks pid db = map t_id (filter (\<lambda>t. t_project_id t = pid) (dict_values (db_tasks db)))"

definition project_conversations :: "string \<Rightarrow> database \<Rightarrow> string list" where
  "project_conversations pid db = map cv_id (filter (\<lambda>c. cv_project_id c = pid) (dict_values (db_conversations db)))"

definition cascade_project :: "string \<Rightarrow> database \<Rightarrow> database" where
  "cascade_project pid db = db\<lparr>
     db_projects := dict_del pid (db_projects db),
     db_artifacts := drop_rows (\<lambda>a. a_project_id a = pid) (db_artifacts db),
     db_memory_docs := drop_rows (\<lambda>m. m_project_id m = pid) (db_memory_docs db),
     db_plans := drop_rows (\<lambda>p. pl_project_id p = pid) (db_plans db),
     db_manager_decisions := drop_rows (\<lambda>d. md_project_id d = pid) (db_manager_decisions db),
     db_workflows := drop_rows (\<lambda>w. wk_project_id w = pid) (db_workflows db),
     db_handoffs := drop_rows (\<lambda>h. hf_project_id h = pid) (db_handoffs db),
     db_policies := drop_rows (\<lambda>p. ap_project_id p = pid) (db_policies db),
     db_approvals := drop_rows (\<lambda>r. ar_project_id r = pid) (db_approvals db),
     db_user_inputs := drop_rows (\<lambda>r. ui_project_id r = pid) (db_user_inputs db),
     db_decision_requests := drop_rows (\<lambda>r. dr_project_id r = pid) (db_decision_requests db)\<rparr>"

definition sql_delete_project :: "string \<Rightarrow> database \<Rightarrow> bool \<times> database" where
  "sql_delete_project pid db =
     (if row_in (db_projects db) pid
      then (True, cascade_project pid (cascade_conversations (project_conversations pid db)
             (cascade_tasks (project_tasks pid db) db)))
      else (False, db))"


section \<open>Workers\<close>

definition keep_worker :: "worker \<Rightarrow> worker \<Rightarrow> worker" where
  "keep_worker old new = new\<lparr>w_created_at := w_created_at old\<rparr>"

definition sql_save_worker :: "string \<Rightarrow> worker \<Rightarrow> database \<Rightarrow> error + database" where
  "sql_save_worker now w db =
     (let w' = w\<lparr>w_updated_at := stamped now (w_updated_at w)\<rparr>
      in Inr (db\<lparr>db_workers := upsert keep_worker (w_id w) w' (db_workers db)\<rparr>))"

definition sql_get_worker :: "database \<Rightarrow> string \<Rightarrow> worker option" where
  "sql_get_worker db wid = dict_get (db_workers db) wid"

definition sql_list_workers :: "database \<Rightarrow> worker list" where
  "sql_list_workers db = sort_key w_name (dict_values (db_workers db))"

definition unassign :: "string \<Rightarrow> task \<Rightarrow> task" where
  "unassign wid t = (if t_assigned_worker t = Some wid then t\<lparr>t_assigned_worker := None\<rparr> else t)"

definition sql_delete_worker :: "string \<Rightarrow> database \<Rightarrow> bool \<times> database" where
  "sql_delete_worker wid db =
     (if row_in (db_workers db) wid
      then (True, db\<lparr>db_workers := dict_del wid (db_workers db),
             db_tasks := map_rows (unassign wid) (db_tasks db),
             db_artifacts := drop_rows (\<lambda>a. a_worker_id a = wid) (db_artifacts db)\<rparr>)
      else (False, db))"

definition sql_update_worker_status ::
  "string \<Rightarrow> string \<Rightarrow> worker_status \<Rightarrow> string option \<Rightarrow> database \<Rightarrow> error + database" where
  "sql_update_worker_status now wid st active db =
     Inr (case dict_get (db_workers db) wid of
        None \<Rightarrow> db
      | Some w \<Rightarrow> db\<lparr>db_workers := dict_set wid
          (w\<lparr>w_status := st, w_active_task_id := active, w_updated_at := now\<rparr>) (db_workers db)\<rparr>)"


section \<open>Tasks\<close>

definition keep_task :: "task \<Rightarrow> task \<Rightarrow> task" where
  "keep_task old new = new\<lparr>t_project_id := t_project_id old, t_created_at := t_created_at old\<rparr>"

definition sql_save_task :: "task \<Rightarrow> database \<Rightarrow> error + database" where
  "sql_save_task t db =
     (let t' = merged keep_task (t_id t) t (db_tasks db);
          tasks = dict_set (t_id t) t' (db_tasks db)
      in if row_in (db_projects db) (t_project_id t') \<and> null_or_in tasks (t_parent_task_id t')
            \<and> null_or_in (db_workers db) (t_assigned_worker t')
         then Inr (db\<lparr>db_tasks := tasks\<rparr>)
         else fk_failed ''save_task'')"

definition sql_get_task :: "database \<Rightarrow> string \<Rightarrow> task option" where
  "sql_get_task db tid = dict_get (db_tasks db) tid"

definition sql_list_tasks :: "database \<Rightarrow> string option \<Rightarrow> task_status option \<Rightarrow> task list" where
  "sql_list_tasks db pid st =
     (let rows = dict_values (db_tasks db);
          r1 = (if given pid then filter (\<lambda>t. Some (t_project_id t) = pid) rows else rows);
          r2 = (case st of None \<Rightarrow> r1 | Some st' \<Rightarrow> filter (\<lambda>t. t_status t = st') r1)
      in sort_key (\<lambda>t. (- t_priority t, t_created_at t)) r2)"

definition sql_get_tasks_by_parent :: "database \<Rightarrow> string \<Rightarrow> task list" where
  "sql_get_tasks_by_parent db parent =
     sort_key t_created_at (filter (\<lambda>t. t_parent_task_id t = Some parent) (dict_values (db_tasks db)))"

definition sql_delete_task :: "string \<Rightarrow> database \<Rightarrow> bool \<times> database" where
  "sql_delete_task tid db = (if row_in (db_tasks db) tid then (True, cascade_tasks [tid] db) else (False, db))"


section \<open>Dependencies and artifacts\<close>

text \<open>
  The conflict target is the pair of tasks: a row with that pair gets the new type and keeps its
  identifier.
\<close>

definition same_edge :: "dependency \<Rightarrow> dependency \<Rightarrow> bool" where
  "same_edge d r \<longleftrightarrow> d_dependent_task_id r = d_dependent_task_id d \<and> d_prerequisite_task_id r = d_prerequisite_task_id d"

definition sql_add_dependency :: "dependency \<Rightarrow> database \<Rightarrow> error + database" where
  "sql_add_dependency d db =
     (case find (same_edge d) (dict_values (db_dependencies db)) of
        Some r \<Rightarrow> Inr (db\<lparr>db_dependencies :=
          dict_set (d_id r) (r\<lparr>d_dependency_type := d_dependency_type d\<rparr>) (db_dependencies db)\<rparr>)
      | None \<Rightarrow>
          if row_in (db_dependencies db) (d_id d) then unique_failed ''add_dependency'' ''dependencies.id''
          else if row_in (db_tasks db) (d_dependent_task_id d) \<and> row_in (db_tasks db) (d_prerequisite_task_id d)
          then Inr (db\<lparr>db_dependencies := dict_set (d_id d) d (db_dependencies db)\<rparr>)
          else fk_failed ''add_dependency'')"

definition sql_get_dependencies_for_task :: "database \<Rightarrow> string \<Rightarrow> dependency list" where
  "sql_get_dependencies_for_task db tid =
     filter (\<lambda>d. d_dependent_task_id d = tid) (dict_values (db_dependencies db))"

definition sql_get_dependents_for_task :: "database \<Rightarrow> string \<Rightarrow> dependency list" where
  "sql_get_dependents_for_task db tid =
     filter (\<lambda>d. d_prerequisite_task_id d = tid) (dict_values (db_dependencies db))"

definition sql_remove_dependency :: "string \<Rightarrow> database \<Rightarrow> bool \<times> database" where
  "sql_remove_dependency did db =
     (row_in (db_dependencies db) did, db\<lparr>db_dependencies := dict_del did (db_dependencies db)\<rparr>)"

definition keep_artifact :: "artifact \<Rightarrow> artifact \<Rightarrow> artifact" where
  "keep_artifact old new =
     old\<lparr>a_path := a_path new, a_description := a_description new, a_checksum := a_checksum new,
         a_metadata := a_metadata new\<rparr>"

definition sql_save_artifact :: "artifact \<Rightarrow> database \<Rightarrow> error + database" where
  "sql_save_artifact a db =
     (let a' = merged keep_artifact (a_id a) a (db_artifacts db)
      in if row_in (db_projects db) (a_project_id a') \<and> row_in (db_tasks db) (a_task_id a')
            \<and> row_in (db_workers db) (a_worker_id a')
         then Inr (db\<lparr>db_artifacts := dict_set (a_id a) a' (db_artifacts db)\<rparr>)
         else fk_failed ''save_artifact'')"

definition sql_get_artifact :: "database \<Rightarrow> string \<Rightarrow> artifact option" where
  "sql_get_artifact db aid = dict_get (db_artifacts db) aid"

definition sql_list_artifacts_for_task :: "database \<Rightarrow> string \<Rightarrow> artifact list" where
  "sql_list_artifacts_for_task db tid =
     sort_key a_created_at (filter (\<lambda>a. a_task_id a = tid) (dict_values (db_artifacts db)))"

definition sql_list_artifacts_for_project :: "database \<Rightarrow> string \<Rightarrow> artifact list" where
  "sql_list_artifacts_for_project db pid =
     sort_key a_created_at (filter (\<lambda>a. a_project_id a = pid) (dict_values (db_artifacts db)))"


section \<open>Events\<close>

text \<open>
  \<open>AUTOINCREMENT\<close> never reuses a number: \<open>db_sequence\<close> is the largest one given so far.
\<close>

definition sql_append_event :: "event \<Rightarrow> database \<Rightarrow> error + event \<times> database" where
  "sql_append_event e db =
     (if e_event_id e \<in> e_event_id ` set (db_events db) then
        Inl (PersistenceError ''append_event''
          (''Event with ID '' @ quoted (e_event_id e) @ '' already exists (immutability violation): ''
            @ ''UNIQUE constraint failed: events.event_id''))
      else
        let n = db_sequence db + 1;
            e' = e\<lparr>e_sequence_number := Some n\<rparr>
        in Inr (e', db\<lparr>db_events := db_events db @ [e'], db_sequence := n\<rparr>))"

definition sql_get_event :: "database \<Rightarrow> string \<Rightarrow> event option" where
  "sql_get_event db eid = find (\<lambda>e. e_event_id e = eid) (db_events db)"

definition sql_list_events ::
  "database \<Rightarrow> string option \<Rightarrow> string option \<Rightarrow> string option \<Rightarrow> string option \<Rightarrow>
    event_type list option \<Rightarrow> int option \<Rightarrow> int option \<Rightarrow> event list" where
  "sql_list_events db pid tid wid corr types since limit =
     (let r0 = db_events db;
          r1 = (if given pid then filter (\<lambda>e. e_project_id e = pid) r0 else r0);
          r2 = (if given tid then filter (\<lambda>e. e_task_id e = tid) r1 else r1);
          r3 = (if given wid then filter (\<lambda>e. e_worker_id e = wid) r2 else r2);
          r4 = (if given corr then filter (\<lambda>e. Some (e_correlation_id e) = corr) r3 else r3);
          r5 = (case types of None \<Rightarrow> r4
                | Some ts \<Rightarrow> if ts = [] then r4 else filter (\<lambda>e. e_event_type e \<in> set ts) r4);
          r6 = (case since of None \<Rightarrow> r5 | Some n \<Rightarrow> filter (\<lambda>e. seq_or_zero e > n) r5)
      in sql_limit limit (sort_key seq_or_zero r6))"

definition sql_get_events_by_correlation_id :: "database \<Rightarrow> string \<Rightarrow> event list" where
  "sql_get_events_by_correlation_id db corr = sql_list_events db None None None (Some corr) None None None"

definition sql_get_events_by_task :: "database \<Rightarrow> string \<Rightarrow> event list" where
  "sql_get_events_by_task db tid = sql_list_events db None (Some tid) None None None None None"

definition sql_get_events_by_project :: "database \<Rightarrow> string \<Rightarrow> event list" where
  "sql_get_events_by_project db pid = sql_list_events db (Some pid) None None None None None None"

lemma find_in_set: "find P xs = Some x \<Longrightarrow> x \<in> set xs \<and> P x"
  by (auto simp: find_Some_iff)

function sql_causal_loop :: "database \<Rightarrow> string option \<Rightarrow> string list \<Rightarrow> event list" where
  "sql_causal_loop db cur visited =
     (if \<not> given cur \<or> the cur \<in> set visited then []
      else case sql_get_event db (the cur) of
        None \<Rightarrow> []
      | Some e \<Rightarrow> e # sql_causal_loop db (e_causation_id e) (the cur # visited))"
  by pat_completeness auto
termination
proof (relation "measure (\<lambda>(db, cur, visited). card (e_event_id ` set (db_events db) - set visited))", goal_cases)
  case (2 db cur visited e)
  then have *: "the cur \<in> e_event_id ` set (db_events db)" "the cur \<notin> set visited"
    by (force simp: sql_get_event_def dest!: find_in_set)+
  then have "0 < card (e_event_id ` set (db_events db) - set visited)"
    by (auto simp: card_gt_0_iff)
  with * show ?case by simp
qed simp

declare sql_causal_loop.simps [simp del]

definition sql_get_causal_chain :: "database \<Rightarrow> string \<Rightarrow> event list" where
  "sql_get_causal_chain db eid = rev (sql_causal_loop db (Some eid) [])"


section \<open>Memory documents, plans, decisions\<close>

definition keep_memory_document :: "memory_document \<Rightarrow> memory_document \<Rightarrow> memory_document" where
  "keep_memory_document old new =
     new\<lparr>m_project_id := m_project_id old, m_memory_type := m_memory_type old, m_created_at := m_created_at old\<rparr>"

definition same_path :: "memory_document \<Rightarrow> memory_document \<Rightarrow> bool" where
  "same_path m r \<longleftrightarrow> m_id r \<noteq> m_id m \<and> m_project_id r = m_project_id m \<and> m_relative_path r = m_relative_path m"

definition sql_save_memory_document :: "string \<Rightarrow> memory_document \<Rightarrow> database \<Rightarrow> error + database" where
  "sql_save_memory_document now m db =
     (let m' = merged keep_memory_document (m_id m) (m\<lparr>m_updated_at := stamped now (m_updated_at m)\<rparr>)
            (db_memory_docs db)
      in if m_checksum m = None then
           Inl (PersistenceError ''save_memory_document'' ''NOT NULL constraint failed: memory_documents.checksum'')
         else if list_ex (same_path m') (dict_values (db_memory_docs db)) then
           unique_failed ''save_memory_document'' ''memory_documents.project_id, memory_documents.relative_path''
         else if row_in (db_projects db) (m_project_id m')
         then Inr (db\<lparr>db_memory_docs := dict_set (m_id m) m' (db_memory_docs db)\<rparr>)
         else fk_failed ''save_memory_document'')"

definition sql_get_memory_document :: "database \<Rightarrow> string \<Rightarrow> memory_document option" where
  "sql_get_memory_document db mid = dict_get (db_memory_docs db) mid"

definition sql_get_memory_document_by_path :: "database \<Rightarrow> string \<Rightarrow> string \<Rightarrow> memory_document option" where
  "sql_get_memory_document_by_path db pid path =
     find (\<lambda>m. m_project_id m = pid \<and> m_relative_path m = path) (dict_values (db_memory_docs db))"

definition sql_list_memory_documents ::
  "database \<Rightarrow> string option \<Rightarrow> memory_type option \<Rightarrow> string option \<Rightarrow> string option \<Rightarrow> memory_document list" where
  "sql_list_memory_documents db pid mtype tag related =
     (let r0 = dict_values (db_memory_docs db);
          r1 = (if given pid then filter (\<lambda>m. Some (m_project_id m) = pid) r0 else r0);
          r2 = (case mtype of None \<Rightarrow> r1 | Some mt \<Rightarrow> filter (\<lambda>m. m_memory_type m = mt) r1);
          r3 = (if given related then filter (\<lambda>m. m_related_task_id m = related) r2 else r2);
          docs = descending m_updated_at r3
      in if given tag then filter (\<lambda>m. the tag \<in> set (m_tags m)) docs else docs)"

definition sql_delete_memory_document :: "string \<Rightarrow> database \<Rightarrow> bool \<times> database" where
  "sql_delete_memory_document mid db =
     (row_in (db_memory_docs db) mid, db\<lparr>db_memory_docs := dict_del mid (db_memory_docs db)\<rparr>)"

definition keep_plan :: "plan \<Rightarrow> plan \<Rightarrow> plan" where
  "keep_plan old new = new\<lparr>pl_project_id := pl_project_id old, pl_created_at := pl_created_at old\<rparr>"

definition sql_save_plan :: "plan \<Rightarrow> database \<Rightarrow> error + database" where
  "sql_save_plan p db =
     (let p' = merged keep_plan (pl_id p) p (db_plans db)
      in if row_in (db_projects db) (pl_project_id p')
         then Inr (db\<lparr>db_plans := dict_set (pl_id p) p' (db_plans db)\<rparr>)
         else fk_failed ''save_plan'')"

definition sql_get_plan :: "database \<Rightarrow> string \<Rightarrow> plan option" where
  "sql_get_plan db pid = dict_get (db_plans db) pid"

definition sql_list_plans_for_project :: "database \<Rightarrow> string \<Rightarrow> plan list" where
  "sql_list_plans_for_project db pid =
     sort_key pl_version (filter (\<lambda>p. pl_project_id p = pid) (dict_values (db_plans db)))"

text \<open>An empty plan update is stored as \<open>NULL\<close> and read back as \<open>None\<close>.\<close>

definition decision_row :: "manager_decision \<Rightarrow> manager_decision" where
  "decision_row d = (if md_plan_update d = Some [] then d\<lparr>md_plan_update := None\<rparr> else d)"

definition keep_manager_decision :: "manager_decision \<Rightarrow> manager_decision \<Rightarrow> manager_decision" where
  "keep_manager_decision old new =
     new\<lparr>md_cycle_id := md_cycle_id old, md_project_id := md_project_id old, md_created_at := md_created_at old\<rparr>"

definition sql_save_manager_decision :: "manager_decision \<Rightarrow> database \<Rightarrow> error + database" where
  "sql_save_manager_decision d db =
     (let d' = merged keep_manager_decision (md_decision_id d) (decision_row d) (db_manager_decisions db)
      in if row_in (db_projects db) (md_project_id d')
         then Inr (db\<lparr>db_manager_decisions := dict_set (md_decision_id d) d' (db_manager_decisions db)\<rparr>)
         else fk_failed ''save_manager_decision'')"

definition sql_get_manager_decision :: "database \<Rightarrow> string \<Rightarrow> manager_decision option" where
  "sql_get_manager_decision db did = dict_get (db_manager_decisions db) did"

definition sql_list_manager_decisions_for_project :: "database \<Rightarrow> string \<Rightarrow> int option \<Rightarrow> manager_decision list" where
  "sql_list_manager_decisions_for_project db pid limit =
     sql_limit limit (sort_key md_created_at
       (filter (\<lambda>d. md_project_id d = pid) (dict_values (db_manager_decisions db))))"


section \<open>Workflows, handoffs, attempts\<close>

definition keep_workflow :: "workflow \<Rightarrow> workflow \<Rightarrow> workflow" where
  "keep_workflow old new = new\<lparr>wk_project_id := wk_project_id old, wk_created_at := wk_created_at old\<rparr>"

definition sql_save_workflow :: "workflow \<Rightarrow> database \<Rightarrow> error + database" where
  "sql_save_workflow w db =
     (let w' = merged keep_workflow (wk_id w) w (db_workflows db)
      in if row_in (db_projects db) (wk_project_id w')
         then Inr (db\<lparr>db_workflows := dict_set (wk_id w) w' (db_workflows db)\<rparr>)
         else fk_failed ''save_workflow'')"

definition sql_get_workflow :: "database \<Rightarrow> string \<Rightarrow> workflow option" where
  "sql_get_workflow db wid = dict_get (db_workflows db) wid"

definition sql_list_workflows :: "database \<Rightarrow> string option \<Rightarrow> workflow list" where
  "sql_list_workflows db pid =
     (let rows = dict_values (db_workflows db)
      in sort_key wk_created_at (if given pid then filter (\<lambda>w. Some (wk_project_id w) = pid) rows else rows))"

definition keep_handoff :: "worker_handoff \<Rightarrow> worker_handoff \<Rightarrow> worker_handoff" where
  "keep_handoff old new =
     old\<lparr>hf_destination_worker := hf_destination_worker new, hf_destination_task_id := hf_destination_task_id new,
         hf_summary := hf_summary new, hf_metadata := hf_metadata new\<rparr>"

definition sql_save_worker_handoff :: "worker_handoff \<Rightarrow> database \<Rightarrow> error + database" where
  "sql_save_worker_handoff h db =
     (let h' = merged keep_handoff (hf_id h) h (db_handoffs db)
      in if row_in (db_projects db) (hf_project_id h')
         then Inr (db\<lparr>db_handoffs := dict_set (hf_id h) h' (db_handoffs db)\<rparr>)
         else fk_failed ''save_worker_handoff'')"

definition sql_list_worker_handoffs :: "database \<Rightarrow> string option \<Rightarrow> worker_handoff list" where
  "sql_list_worker_handoffs db wid =
     (let rows = dict_values (db_handoffs db)
      in sort_key hf_created_at (if given wid then filter (\<lambda>h. hf_workflow_id h = wid) rows else rows))"

definition keep_attempt :: "execution_attempt \<Rightarrow> execution_attempt \<Rightarrow> execution_attempt" where
  "keep_attempt old new =
     old\<lparr>xa_status := xa_status new, xa_error_message := xa_error_message new, xa_duration_ms := xa_duration_ms new,
         xa_completed_at := xa_completed_at new, xa_metadata := xa_metadata new\<rparr>"

definition sql_save_execution_attempt :: "execution_attempt \<Rightarrow> database \<Rightarrow> error + database" where
  "sql_save_execution_attempt x db =
     (let x' = merged keep_attempt (xa_id x) x (db_attempts db)
      in if row_in (db_tasks db) (xa_task_id x')
         then Inr (db\<lparr>db_attempts := dict_set (xa_id x) x' (db_attempts db)\<rparr>)
         else fk_failed ''save_execution_attempt'')"

definition sql_list_execution_attempts :: "database \<Rightarrow> string \<Rightarrow> execution_attempt list" where
  "sql_list_execution_attempts db tid =
     sort_key xa_attempt_number (filter (\<lambda>x. xa_task_id x = tid) (dict_values (db_attempts db)))"


section \<open>Autonomy policies, approvals, questions\<close>

text \<open>
  There is one policy per project: saving replaces the project's policy, keeps its identifier and
  stores the given version plus one. A first policy is stored with the version as given.
\<close>

definition keep_policy :: "autonomy_policy \<Rightarrow> autonomy_policy \<Rightarrow> autonomy_policy" where
  "keep_policy old new =
     new\<lparr>ap_id := ap_id old, ap_project_id := ap_project_id old, ap_version := ap_version new + 1,
         ap_created_at := ap_created_at old\<rparr>"

definition sql_save_autonomy_policy :: "autonomy_policy \<Rightarrow> database \<Rightarrow> error + database" where
  "sql_save_autonomy_policy p db =
     (case find (\<lambda>r. ap_project_id r = ap_project_id p) (dict_values (db_policies db)) of
        Some r \<Rightarrow> Inr (db\<lparr>db_policies := dict_set (ap_id r) (keep_policy r p) (db_policies db)\<rparr>)
      | None \<Rightarrow>
          if row_in (db_policies db) (ap_id p) then unique_failed ''save_autonomy_policy'' ''autonomy_policies.id''
          else if row_in (db_projects db) (ap_project_id p)
          then Inr (db\<lparr>db_policies := dict_set (ap_id p) p (db_policies db)\<rparr>)
          else fk_failed ''save_autonomy_policy'')"

definition sql_get_autonomy_policy_by_project :: "database \<Rightarrow> string \<Rightarrow> autonomy_policy option" where
  "sql_get_autonomy_policy_by_project db pid =
     find (\<lambda>r. ap_project_id r = pid) (dict_values (db_policies db))"

definition keep_approval :: "approval_request \<Rightarrow> approval_request \<Rightarrow> approval_request" where
  "keep_approval old new =
     old\<lparr>ar_status := ar_status new, ar_decided_at := ar_decided_at new, ar_decided_by := ar_decided_by new,
         ar_rejection_reason := ar_rejection_reason new, ar_metadata := ar_metadata new\<rparr>"

definition sql_save_approval_request :: "approval_request \<Rightarrow> database \<Rightarrow> error + database" where
  "sql_save_approval_request r db =
     (let r' = merged keep_approval (ar_id r) r (db_approvals db)
      in if row_in (db_projects db) (ar_project_id r')
         then Inr (db\<lparr>db_approvals := dict_set (ar_id r) r' (db_approvals db)\<rparr>)
         else fk_failed ''save_approval_request'')"

definition sql_get_approval_request :: "database \<Rightarrow> string \<Rightarrow> approval_request option" where
  "sql_get_approval_request db rid = dict_get (db_approvals db) rid"

definition sql_list_approval_requests :: "database \<Rightarrow> string option \<Rightarrow> string option \<Rightarrow> approval_request list" where
  "sql_list_approval_requests db pid st =
     (let r0 = dict_values (db_approvals db);
          r1 = (if given pid then filter (\<lambda>r. Some (ar_project_id r) = pid) r0 else r0);
          r2 = (if given st then filter (\<lambda>r. Some (approval_status_value (ar_status r)) = st) r1 else r1)
      in sort_key ar_created_at r2)"

definition keep_user_input :: "user_input_request \<Rightarrow> user_input_request \<Rightarrow> user_input_request" where
  "keep_user_input old new =
     old\<lparr>ui_answer := ui_answer new, ui_status := ui_status new, ui_answered_at := ui_answered_at new,
         ui_metadata := ui_metadata new\<rparr>"

definition sql_save_user_input_request :: "user_input_request \<Rightarrow> database \<Rightarrow> error + database" where
  "sql_save_user_input_request r db =
     (let r' = merged keep_user_input (ui_id r) r (db_user_inputs db)
      in if row_in (db_projects db) (ui_project_id r')
         then Inr (db\<lparr>db_user_inputs := dict_set (ui_id r) r' (db_user_inputs db)\<rparr>)
         else fk_failed ''save_user_input_request'')"

definition sql_get_user_input_request :: "database \<Rightarrow> string \<Rightarrow> user_input_request option" where
  "sql_get_user_input_request db rid = dict_get (db_user_inputs db) rid"

definition sql_list_user_input_requests :: "database \<Rightarrow> string option \<Rightarrow> string option \<Rightarrow> user_input_request list" where
  "sql_list_user_input_requests db pid st =
     (let r0 = dict_values (db_user_inputs db);
          r1 = (if given pid then filter (\<lambda>r. Some (ui_project_id r) = pid) r0 else r0);
          r2 = (if given st then filter (\<lambda>r. Some (user_input_status_value (ui_status r)) = st) r1 else r1)
      in sort_key ui_created_at r2)"

definition keep_decision_request :: "decision_request \<Rightarrow> decision_request \<Rightarrow> decision_request" where
  "keep_decision_request old new =
     old\<lparr>dr_chosen_option := dr_chosen_option new, dr_rationale := dr_rationale new, dr_status := dr_status new,
         dr_decided_at := dr_decided_at new, dr_metadata := dr_metadata new\<rparr>"

definition sql_save_decision_request :: "decision_request \<Rightarrow> database \<Rightarrow> error + database" where
  "sql_save_decision_request r db =
     (let r' = merged keep_decision_request (dr_id r) r (db_decision_requests db)
      in if row_in (db_projects db) (dr_project_id r')
         then Inr (db\<lparr>db_decision_requests := dict_set (dr_id r) r' (db_decision_requests db)\<rparr>)
         else fk_failed ''save_decision_request'')"

definition sql_get_decision_request :: "database \<Rightarrow> string \<Rightarrow> decision_request option" where
  "sql_get_decision_request db rid = dict_get (db_decision_requests db) rid"

definition sql_list_decision_requests :: "database \<Rightarrow> string option \<Rightarrow> string option \<Rightarrow> decision_request list" where
  "sql_list_decision_requests db pid st =
     (let r0 = dict_values (db_decision_requests db);
          r1 = (if given pid then filter (\<lambda>r. Some (dr_project_id r) = pid) r0 else r0);
          r2 = (if given st then filter (\<lambda>r. Some (decision_request_status_value (dr_status r)) = st) r1 else r1)
      in sort_key dr_created_at r2)"


section \<open>Conversations\<close>

definition keep_conversation :: "conversation \<Rightarrow> conversation \<Rightarrow> conversation" where
  "keep_conversation old new =
     old\<lparr>cv_title := cv_title new, cv_updated_at := cv_updated_at new, cv_is_active := cv_is_active new\<rparr>"

definition sql_save_conversation :: "conversation \<Rightarrow> database \<Rightarrow> error + database" where
  "sql_save_conversation c db =
     (let c' = merged keep_conversation (cv_id c) c (db_conversations db)
      in if row_in (db_projects db) (cv_project_id c')
         then Inr (db\<lparr>db_conversations := dict_set (cv_id c) c' (db_conversations db)\<rparr>)
         else fk_failed ''save_conversation'')"

definition sql_get_conversation :: "database \<Rightarrow> string \<Rightarrow> conversation option" where
  "sql_get_conversation db cid = dict_get (db_conversations db) cid"

definition sql_list_conversations_for_project :: "database \<Rightarrow> string \<Rightarrow> conversation list" where
  "sql_list_conversations_for_project db pid =
     descending cv_updated_at (filter (\<lambda>c. cv_project_id c = pid) (dict_values (db_conversations db)))"

text \<open>
  Two statements: the message, then the time of the last message on the conversation named by the
  call. When the first one fails the second is not run.
\<close>

definition keep_message :: "conversation_message \<Rightarrow> conversation_message \<Rightarrow> conversation_message" where
  "keep_message old new = old\<lparr>cm_content := cm_content new, cm_metadata := cm_metadata new\<rparr>"

definition touch_conversation :: "string \<Rightarrow> string \<Rightarrow> conversation \<Rightarrow> conversation" where
  "touch_conversation cid t c = (if cv_id c = cid then c\<lparr>cv_updated_at := t\<rparr> else c)"

definition sql_add_conversation_message :: "conversation_message \<Rightarrow> database \<Rightarrow> error + database" where
  "sql_add_conversation_message m db =
     (let m' = merged keep_message (cm_id m) m (db_messages db)
      in if row_in (db_conversations db) (cm_conversation_id m')
         then Inr (db\<lparr>db_messages := dict_set (cm_id m) m' (db_messages db),
                db_conversations := map_rows (touch_conversation (cm_conversation_id m) (cm_timestamp m))
                  (db_conversations db)\<rparr>)
         else fk_failed ''add_conversation_message'')"

definition sql_get_conversation_messages :: "database \<Rightarrow> string \<Rightarrow> conversation_message list" where
  "sql_get_conversation_messages db cid =
     sort_key cm_timestamp (filter (\<lambda>m. cm_conversation_id m = cid) (dict_values (db_messages db)))"

definition sql_delete_conversation :: "string \<Rightarrow> database \<Rightarrow> bool \<times> database" where
  "sql_delete_conversation cid db =
     (if row_in (db_conversations db) cid then (True, cascade_conversations [cid] db) else (False, db))"

end
