(* ===== verification/Sqlite_Invariant.thy ===== *)
theory Sqlite_Invariant
  imports Sqlite_Store "HOL-Library.Multiset"
begin

text \<open>
  What the schema of \<open>core/storage/sqlite_store.py\<close> guarantees of every reachable database: primary
  keys, referential integrity across all tables, uniqueness of dependency edges, memory paths and
  policies, and a dense, ordered event log. One rule per operation that changes the database.
\<close>

section \<open>Rows of a table\<close>

named_theorems row_simps \<open>membership and quantification over rows after an update\<close>

definition all_rows :: "('v \<Rightarrow> bool) \<Rightarrow> ('k, 'v) dict \<Rightarrow> bool" where
  "all_rows P d \<longleftrightarrow> (\<forall>v \<in> set (dict_values d). P v)"

lemma all_rows_Nil [simp]: "all_rows P []"
  by (simp add: all_rows_def)

lemma all_rows_mono: "all_rows P d \<Longrightarrow> (\<And>v. P v \<Longrightarrow> Q v) \<Longrightarrow> all_rows Q d"
  by (auto simp: all_rows_def)

lemma all_rowsD: "all_rows P d \<Longrightarrow> dict_get d k = Some v \<Longrightarrow> P v"
  by (force simp: all_rows_def dest: map_of_SomeD)

lemma set_dict_set_subset: "set (dict_set k v d) \<subseteq> insert (k, v) (set d)"
  by (induction d) auto

lemma all_rows_set: "P v \<Longrightarrow> all_rows P d \<Longrightarrow> all_rows P (dict_set k v d)"
  using set_dict_set_subset [of k v d] by (fastforce simp: all_rows_def)

lemma all_rows_drop [row_simps]: "all_rows P (drop_rows Q d) \<longleftrightarrow> all_rows (\<lambda>v. \<not> Q v \<longrightarrow> P v) d"
  by (force simp: all_rows_def drop_rows_def)

lemma all_rows_map [row_simps]: "all_rows P (map_rows f d) \<longleftrightarrow> all_rows (\<lambda>v. P (f v)) d"
  by (force simp: all_rows_def map_rows_def)

lemma all_rows_del: "all_rows P d \<Longrightarrow> all_rows P (dict_del k d)"
  by (force simp: all_rows_def AList.delete_eq)

lemma all_rows_del_iff [row_simps]:
  "table_ok f d \<Longrightarrow> all_rows P (dict_del k d) \<longleftrightarrow> all_rows (\<lambda>v. f v \<noteq> k \<longrightarrow> P v) d"
  unfolding all_rows_def table_ok_def using values_dict_del [of f d k] by auto

lemma row_in_Nil [simp]: "\<not> row_in [] k"
  by (simp add: row_in_def)

lemma row_in_set [row_simps]: "row_in (dict_set k v d) k' \<longleftrightarrow> k' = k \<or> row_in d k'"
  by (simp add: row_in_def dict_simps)

lemma row_in_del [row_simps]: "row_in (dict_del k d) k' \<longleftrightarrow> k' \<noteq> k \<and> row_in d k'"
  by (simp add: row_in_def dict_simps)

lemma row_in_map [row_simps]: "row_in (map_rows f d) k \<longleftrightarrow> row_in d k"
  by (simp add: row_in_def map_rows_def map_of_map)

lemma row_in_keys: "row_in d k \<longleftrightarrow> k \<in> fst ` set d"
  by (simp add: row_in_def map_of_eq_None_iff)

lemma row_in_values: "table_ok f d \<Longrightarrow> row_in d k \<longleftrightarrow> (\<exists>v \<in> set (dict_values d). f v = k)"
  by (force simp: row_in_keys table_ok_def keyed_by_def)

lemma row_in_drop_key: "table_ok f d \<Longrightarrow> row_in (drop_rows (\<lambda>v. Q (f v)) d) k \<longleftrightarrow> \<not> Q k \<and> row_in d k"
  by (force simp: row_in_keys drop_rows_def table_ok_def keyed_by_def)

lemma null_or_in_None [simp]: "null_or_in d None"
  by (simp add: null_or_in_def)

lemma null_or_in_Some [simp]: "null_or_in d (Some k) = row_in d k"
  by (simp add: null_or_in_def)

lemma null_or_in_mono: "null_or_in d x \<Longrightarrow> (\<And>k. row_in d k \<Longrightarrow> row_in d' k) \<Longrightarrow> null_or_in d' x"
  by (cases x) simp_all

lemma null_or_in_set: "null_or_in d x \<Longrightarrow> null_or_in (dict_set k v d) x"
  by (cases x) (simp_all add: row_simps)

lemma table_ok_drop [simp]: "table_ok f d \<Longrightarrow> table_ok f (drop_rows P d)"
  by (auto simp: table_ok_def drop_rows_def keyed_by_def distinct_map_filter)

lemma table_ok_map [simp]: "table_ok f d \<Longrightarrow> (\<And>v. f (g v) = f v) \<Longrightarrow> table_ok f (map_rows g d)"
  by (auto simp: table_ok_def map_rows_def keyed_by_def comp_def case_prod_beta')

lemma merged_key:
  assumes "table_ok f d" and "\<And>old. f old = f v \<Longrightarrow> f (keep old v) = f v"
  shows "f (merged keep (f v) v d) = f v"
  using assms by (auto simp: merged_def dest: table_ok_get split: option.split)

lemma merged_cases:
  obtains "dict_get d k = None" "merged keep k v d = v"
  | old where "dict_get d k = Some old" "merged keep k v d = keep old v"
  by (cases "dict_get d k") (auto simp: merged_def)


section \<open>Saving as an interface\<close>

text \<open>
  What the thirteen tables saved with \<open>INSERT ... ON CONFLICT(key) DO UPDATE\<close> share. \<open>norm\<close> is what
  the statement stores of a new row, \<open>keep\<close> what it stores over an old one.
\<close>

locale upsert_table =
  fixes key :: "'r \<Rightarrow> string"
    and keep :: "'r \<Rightarrow> 'r \<Rightarrow> 'r"
    and norm :: "'r \<Rightarrow> 'r"
    and rows :: "database \<Rightarrow> (string, 'r) dict"
    and save :: "'r \<Rightarrow> database \<Rightarrow> error + database"
  assumes key_norm: "key (norm r) = key r"
    and key_keep: "key old = key r \<Longrightarrow> key (keep old r) = key r"
    and keep_norm: "keep (keep old r) r' = keep old r'"
    and rows_save: "save r db = Inr db' \<Longrightarrow> rows db' = upsert keep (key r) (norm r) (rows db)"
begin

lemma save_new:
  assumes "save r db = Inr db'" and "dict_get (rows db) (key r) = None"
  shows "dict_get (rows db') (key r) = Some (norm r)"
  using assms by (simp add: rows_save upsert_def merged_def dict_simps)

lemma save_old:
  assumes "save r db = Inr db'" and "dict_get (rows db) (key r) = Some old"
  shows "dict_get (rows db') (key r) = Some (keep old (norm r))"
  using assms by (simp add: rows_save upsert_def merged_def dict_simps)

lemma save_other: "save r db = Inr db' \<Longrightarrow> k \<noteq> key r \<Longrightarrow> dict_get (rows db') k = dict_get (rows db) k"
  by (simp add: rows_save upsert_def dict_simps)

lemma save_table: "table_ok key (rows db) \<Longrightarrow> save r db = Inr db' \<Longrightarrow> table_ok key (rows db')"
  using merged_key [of key "rows db" "norm r" keep] by (simp add: rows_save upsert_def key_norm key_keep)

text \<open>Of several saves under one key only the last one counts, beside the columns of the first.\<close>

lemma save_twice:
  assumes "save r db = Inr db1" and "save r' db1 = Inr db2" and "key r' = key r"
    and "dict_get (rows db) (key r) = Some old"
  shows "dict_get (rows db2) (key r) = Some (keep old (norm r'))"
  using save_old [OF assms(1, 4)] save_old [OF assms(2)] assms(3) by (simp add: keep_norm)

end

interpretation sql_projects: upsert_table p_id keep_project "\<lambda>p. p\<lparr>p_updated_at := stamped now (p_updated_at p)\<rparr>"
  db_projects "sql_save_project now" for now
  by unfold_locales (auto simp: keep_project_def sql_save_project_def Let_def)

interpretation sql_workers: upsert_table w_id keep_worker "\<lambda>w. w\<lparr>w_updated_at := stamped now (w_updated_at w)\<rparr>"
  db_workers "sql_save_worker now" for now
  by unfold_locales (auto simp: keep_worker_def sql_save_worker_def Let_def)

lemmas save_upsert_defs = upsert_def Let_def fk_failed_def unique_failed_def

interpretation sql_tasks: upsert_table t_id keep_task "\<lambda>t. t" db_tasks sql_save_task
  by unfold_locales (auto simp: keep_task_def sql_save_task_def save_upsert_defs split: if_splits)

interpretation sql_artifacts: upsert_table a_id keep_artifact "\<lambda>a. a" db_artifacts sql_save_artifact
  by unfold_locales (auto simp: keep_artifact_def sql_save_artifact_def save_upsert_defs split: if_splits)

interpretation sql_memory: upsert_table m_id keep_memory_document
  "\<lambda>m. m\<lparr>m_updated_at := stamped now (m_updated_at m)\<rparr>" db_memory_docs "sql_save_memory_document now" for now
  by unfold_locales (auto simp: keep_memory_document_def sql_save_memory_document_def save_upsert_defs split: if_splits)

interpretation sql_plans: upsert_table pl_id keep_plan "\<lambda>p. p" db_plans sql_save_plan
  by unfold_locales (auto simp: keep_plan_def sql_save_plan_def save_upsert_defs split: if_splits)

interpretation sql_decisions: upsert_table md_decision_id keep_manager_decision decision_row
  db_manager_decisions sql_save_manager_decision
  by unfold_locales
    (auto simp: keep_manager_decision_def decision_row_def sql_save_manager_decision_def save_upsert_defs split: if_splits)

interpretation sql_workflows: upsert_table wk_id keep_workflow "\<lambda>w. w" db_workflows sql_save_workflow
  by unfold_locales (auto simp: keep_workflow_def sql_save_workflow_def save_upsert_defs split: if_splits)

interpretation sql_handoffs: upsert_table hf_id keep_handoff "\<lambda>h. h" db_handoffs sql_save_worker_handoff
  by unfold_locales (auto simp: keep_handoff_def sql_save_worker_handoff_def save_upsert_defs split: if_splits)

interpretation sql_attempts: upsert_table xa_id keep_attempt "\<lambda>x. x" db_attempts sql_save_execution_attempt
  by unfold_locales (auto simp: keep_attempt_def sql_save_execution_attempt_def save_upsert_defs split: if_splits)

interpretation sql_approvals: upsert_table ar_id keep_approval "\<lambda>r. r" db_approvals sql_save_approval_request
  by unfold_locales (auto simp: keep_approval_def sql_save_approval_request_def save_upsert_defs split: if_splits)

interpretation sql_user_inputs: upsert_table ui_id keep_user_input "\<lambda>r. r" db_user_inputs sql_save_user_input_request
  by unfold_locales (auto simp: keep_user_input_def sql_save_user_input_request_def save_upsert_defs split: if_splits)

interpretation sql_decision_requests: upsert_table dr_id keep_decision_request "\<lambda>r. r" db_decision_requests
  sql_save_decision_request
  by unfold_locales (auto simp: keep_decision_request_def sql_save_decision_request_def save_upsert_defs split: if_splits)

interpretation sql_conversations: upsert_table cv_id keep_conversation "\<lambda>c. c" db_conversations sql_save_conversation
  by unfold_locales (auto simp: keep_conversation_def sql_save_conversation_def save_upsert_defs split: if_splits)

interpretation sql_messages: upsert_table cm_id keep_message "\<lambda>m. m" db_messages sql_add_conversation_message
  by unfold_locales (auto simp: keep_message_def sql_add_conversation_message_def save_upsert_defs split: if_splits)


section \<open>The schema as an invariant\<close>

definition keys_ok :: "database \<Rightarrow> bool" where
  "keys_ok db \<longleftrightarrow>
     table_ok p_id (db_projects db) \<and> table_ok w_id (db_workers db) \<and> table_ok t_id (db_tasks db)
     \<and> table_ok d_id (db_dependencies db) \<and> table_ok a_id (db_artifacts db) \<and> table_ok m_id (db_memory_docs db)
     \<and> table_ok pl_id (db_plans db) \<and> table_ok md_decision_id (db_manager_decisions db)
     \<and> table_ok wk_id (db_workflows db) \<and> table_ok hf_id (db_handoffs db) \<and> table_ok xa_id (db_attempts db)
     \<and> table_ok ap_id (db_policies db) \<and> table_ok ar_id (db_approvals db) \<and> table_ok ui_id (db_user_inputs db)
     \<and> table_ok dr_id (db_decision_requests db) \<and> table_ok cv_id (db_conversations db)
     \<and> table_ok cm_id (db_messages db)"

definition task_refs :: "database \<Rightarrow> task \<Rightarrow> bool" where
  "task_refs db t \<longleftrightarrow> row_in (db_projects db) (t_project_id t) \<and> null_or_in (db_tasks db) (t_parent_task_id t)
     \<and> null_or_in (db_workers db) (t_assigned_worker t)"

definition edge_refs :: "database \<Rightarrow> dependency \<Rightarrow> bool" where
  "edge_refs db d \<longleftrightarrow> row_in (db_tasks db) (d_dependent_task_id d) \<and> row_in (db_tasks db) (d_prerequisite_task_id d)"

definition artifact_refs :: "database \<Rightarrow> artifact \<Rightarrow> bool" where
  "artifact_refs db a \<longleftrightarrow> row_in (db_projects db) (a_project_id a) \<and> row_in (db_tasks db) (a_task_id a)
     \<and> row_in (db_workers db) (a_worker_id a)"

text \<open>The tables whose only reference is their project.\<close>

definition owned :: "(string \<Rightarrow> bool) \<Rightarrow> database \<Rightarrow> bool" where
  "owned project db \<longleftrightarrow>
     all_rows (\<lambda>m. project (m_project_id m)) (db_memory_docs db)
     \<and> all_rows (\<lambda>p. project (pl_project_id p)) (db_plans db)
     \<and> all_rows (\<lambda>d. project (md_project_id d)) (db_manager_decisions db)
     \<and> all_rows (\<lambda>w. project (wk_project_id w)) (db_workflows db)
     \<and> all_rows (\<lambda>h. project (hf_project_id h)) (db_handoffs db)
     \<and> all_rows (\<lambda>p. project (ap_project_id p)) (db_policies db)
     \<and> all_rows (\<lambda>r. project (ar_project_id r)) (db_approvals db)
     \<and> all_rows (\<lambda>r. project (ui_project_id r)) (db_user_inputs db)
     \<and> all_rows (\<lambda>r. project (dr_project_id r)) (db_decision_requests db)
     \<and> all_rows (\<lambda>c. project (cv_project_id c)) (db_conversations db)"

definition refs_ok :: "database \<Rightarrow> bool" where
  "refs_ok db \<longleftrightarrow>
     all_rows (task_refs db) (db_tasks db) \<and> all_rows (edge_refs db) (db_dependencies db)
     \<and> all_rows (artifact_refs db) (db_artifacts db) \<and> owned (row_in (db_projects db)) db
     \<and> all_rows (\<lambda>x. row_in (db_tasks db) (xa_task_id x)) (db_attempts db)
     \<and> all_rows (\<lambda>m. row_in (db_conversations db) (cm_conversation_id m)) (db_messages db)"

text \<open>A uniqueness constraint: rows with the same value of \<open>col\<close> are the same row.\<close>

definition unique_on :: "('v \<Rightarrow> 'c) \<Rightarrow> ('k, 'v) dict \<Rightarrow> bool" where
  "unique_on col d \<longleftrightarrow> distinct (map (\<lambda>(k, v). col v) d)"

definition uniques_ok :: "database \<Rightarrow> bool" where
  "uniques_ok db \<longleftrightarrow>
     unique_on (\<lambda>d. (d_dependent_task_id d, d_prerequisite_task_id d)) (db_dependencies db)
     \<and> unique_on (\<lambda>m. (m_project_id m, m_relative_path m)) (db_memory_docs db)
     \<and> all_rows (\<lambda>m. m_checksum m \<noteq> None) (db_memory_docs db)
     \<and> unique_on ap_project_id (db_policies db)"

definition event_table_ok :: "database \<Rightarrow> bool" where
  "event_table_ok db \<longleftrightarrow>
     map e_sequence_number (db_events db) = map (\<lambda>n. Some (int n + 1)) [0..<length (db_events db)]
     \<and> db_sequence db = int (length (db_events db)) \<and> distinct (map e_event_id (db_events db))"

definition db_ok :: "database \<Rightarrow> bool" where
  "db_ok db \<longleftrightarrow> keys_ok db \<and> refs_ok db \<and> uniques_ok db \<and> event_table_ok db"


lemmas ref_defs = refs_ok_def owned_def task_refs_def edge_refs_def artifact_refs_def

lemma db_ok_empty [simp]: "db_ok empty_database"
  by (simp add: db_ok_def keys_ok_def ref_defs uniques_ok_def unique_on_def event_table_ok_def empty_database_def)


section \<open>Saving keeps the invariant\<close>

lemma unique_on_set:
  assumes "dict_wf d" and "unique_on col d" and "\<And>k' v'. (k', v') \<in> set d \<Longrightarrow> k' \<noteq> k \<Longrightarrow> col v' \<noteq> col v"
  shows "unique_on col (dict_set k v d)"
  using assms by (induction d) (force simp: unique_on_def set_dict_set)+

lemma unique_on_filter: "unique_on col d \<Longrightarrow> unique_on col (filter P d)"
  by (simp add: unique_on_def distinct_map_filter)

lemma unique_on_drop [simp]: "unique_on col d \<Longrightarrow> unique_on col (drop_rows P d)"
  by (simp add: drop_rows_def unique_on_filter)

lemma unique_on_del [simp]: "unique_on col d \<Longrightarrow> unique_on col (dict_del k d)"
  by (simp add: AList.delete_eq unique_on_filter)

lemma unique_on_values:
  assumes "unique_on col d" and "(k, v) \<in> set d" and "(k', v') \<in> set d" and "col v = col v'"
  shows "(k, v) = (k', v')"
  using assms unfolding unique_on_def distinct_map inj_on_def by fastforce

text \<open>
  Saves only add rows: every foreign key that held still holds, and one table gets one row whose own
  references were checked.
\<close>

definition grows :: "database \<Rightarrow> database \<Rightarrow> bool" where
  "grows db db' \<longleftrightarrow>
     (\<forall>k. (row_in (db_projects db) k \<longrightarrow> row_in (db_projects db') k)
        \<and> (row_in (db_workers db) k \<longrightarrow> row_in (db_workers db') k)
        \<and> (row_in (db_tasks db) k \<longrightarrow> row_in (db_tasks db') k)
        \<and> (row_in (db_conversations db) k \<longrightarrow> row_in (db_conversations db') k))"

lemma grows_refs:
  assumes "grows db db'"
  shows "task_refs db t \<Longrightarrow> task_refs db' t" "edge_refs db d \<Longrightarrow> edge_refs db' d"
    "artifact_refs db a \<Longrightarrow> artifact_refs db' a"
  using assms by (auto simp: grows_def task_refs_def edge_refs_def artifact_refs_def elim!: null_or_in_mono)

definition set_row :: "('v \<Rightarrow> bool) \<Rightarrow> ('k, 'v) dict \<Rightarrow> ('k, 'v) dict \<Rightarrow> bool" where
  \<comment> \<open>the table is the old one, or the old one with one row set, which has the property\<close>
  "set_row Q d d' \<longleftrightarrow> d' = d \<or> (\<exists>k v. d' = dict_set k v d \<and> Q v)"

lemma set_row_same [simp]: "set_row Q d d"
  by (simp add: set_row_def)

lemma set_row_set [simp]: "Q v \<Longrightarrow> set_row Q d (dict_set k v d)"
  by (auto simp: set_row_def)

lemma all_rows_step: "all_rows P d \<Longrightarrow> (\<And>v. P v \<Longrightarrow> Q v) \<Longrightarrow> set_row Q d d' \<Longrightarrow> all_rows Q d'"
  by (auto simp: set_row_def intro: all_rows_set all_rows_mono)

lemma owned_mono: "owned P db \<Longrightarrow> (\<And>k. P k \<Longrightarrow> Q k) \<Longrightarrow> owned Q db"
  unfolding owned_def all_rows_def by simp

lemma refs_ok_step:
  assumes refs: "refs_ok db" and g: "grows db db'"
    and tasks: "set_row (task_refs db') (db_tasks db) (db_tasks db')"
    and edges: "set_row (edge_refs db') (db_dependencies db) (db_dependencies db')"
    and artifacts: "set_row (artifact_refs db') (db_artifacts db) (db_artifacts db')"
    and own: "owned (row_in (db_projects db')) db \<Longrightarrow> owned (row_in (db_projects db')) db'"
    and attempts: "set_row (\<lambda>x. row_in (db_tasks db') (xa_task_id x)) (db_attempts db) (db_attempts db')"
    and messages: "set_row (\<lambda>m. row_in (db_conversations db') (cm_conversation_id m)) (db_messages db) (db_messages db')"
  shows "refs_ok db'"
proof -
  from refs have r: "all_rows (task_refs db) (db_tasks db)" "all_rows (edge_refs db) (db_dependencies db)"
    "all_rows (artifact_refs db) (db_artifacts db)" "owned (row_in (db_projects db)) db"
    "all_rows (\<lambda>x. row_in (db_tasks db) (xa_task_id x)) (db_attempts db)"
    "all_rows (\<lambda>m. row_in (db_conversations db) (cm_conversation_id m)) (db_messages db)"
    by (simp_all add: refs_ok_def)
  have gr: "\<And>k. row_in (db_projects db) k \<Longrightarrow> row_in (db_projects db') k"
    "\<And>k. row_in (db_tasks db) k \<Longrightarrow> row_in (db_tasks db') k"
    "\<And>k. row_in (db_conversations db) k \<Longrightarrow> row_in (db_conversations db') k"
    using g by (simp_all add: grows_def)
  note g' = grows_refs [OF g]
  have "all_rows (task_refs db') (db_tasks db')" by (rule all_rows_step [OF r(1) _ tasks]) (rule g')
  moreover have "all_rows (edge_refs db') (db_dependencies db')"
    by (rule all_rows_step [OF r(2) _ edges]) (rule g')
  moreover have "all_rows (artifact_refs db') (db_artifacts db')"
    by (rule all_rows_step [OF r(3) _ artifacts]) (rule g')
  moreover have "owned (row_in (db_projects db')) db'"
    by (rule own, rule owned_mono [OF r(4)]) (rule gr)
  moreover have "all_rows (\<lambda>x. row_in (db_tasks db') (xa_task_id x)) (db_attempts db')"
    by (rule all_rows_step [OF r(5) _ attempts]) (rule gr)
  moreover have "all_rows (\<lambda>m. row_in (db_conversations db') (cm_conversation_id m)) (db_messages db')"
    by (rule all_rows_step [OF r(6) _ messages]) (rule gr)
  ultimately show ?thesis by (simp add: refs_ok_def)
qed

text \<open>One step that only adds: what is left to show of the single tables.\<close>

lemma db_ok_step:
  assumes "db_ok db" and "grows db db'"
    and "set_row (task_refs db') (db_tasks db) (db_tasks db')"
    and "set_row (edge_refs db') (db_dependencies db) (db_dependencies db')"
    and "set_row (artifact_refs db') (db_artifacts db) (db_artifacts db')"
    and "owned (row_in (db_projects db')) db \<Longrightarrow> owned (row_in (db_projects db')) db'"
    and "set_row (\<lambda>x. row_in (db_tasks db') (xa_task_id x)) (db_attempts db) (db_attempts db')"
    and "set_row (\<lambda>m. row_in (db_conversations db') (cm_conversation_id m)) (db_messages db) (db_messages db')"
    and "keys_ok db \<Longrightarrow> keys_ok db'" and "uniques_ok db \<Longrightarrow> uniques_ok db'" and "event_table_ok db \<Longrightarrow> event_table_ok db'"
  shows "db_ok db'"
proof -
  from assms(1) have "refs_ok db" by (simp add: db_ok_def)
  from refs_ok_step [OF this assms(2-8)] show ?thesis using assms(1, 9-11) by (simp add: db_ok_def)
qed

lemmas db_part_defs = keys_ok_def uniques_ok_def event_table_ok_def owned_def

lemma save_project_ok:
  assumes "db_ok db" and "sql_save_project now p db = Inr db'"
  shows "db_ok db'"
proof -
  have db': "db' = db\<lparr>db_projects := dict_set (p_id p) (merged keep_project (p_id p) (p\<lparr>p_updated_at := stamped now (p_updated_at p)\<rparr>) (db_projects db)) (db_projects db)\<rparr>"
    using assms(2) by (auto simp: sql_save_project_def save_upsert_defs task_refs_def artifact_refs_def split: if_splits)
  have g: "grows db db'" by (auto simp: grows_def db' row_simps)
  note t = sql_projects.save_table [OF _ assms(2)]
  show ?thesis
    by (rule db_ok_step [OF assms(1) g]; insert t; simp add: db_part_defs all_rows_set db')
qed

lemma save_worker_ok:
  assumes "db_ok db" and "sql_save_worker now w db = Inr db'"
  shows "db_ok db'"
proof -
  have db': "db' = db\<lparr>db_workers := dict_set (w_id w) (merged keep_worker (w_id w) (w\<lparr>w_updated_at := stamped now (w_updated_at w)\<rparr>) (db_workers db)) (db_workers db)\<rparr>"
    using assms(2) by (auto simp: sql_save_worker_def save_upsert_defs task_refs_def artifact_refs_def split: if_splits)
  have g: "grows db db'" by (auto simp: grows_def db' row_simps)
  note t = sql_workers.save_table [OF _ assms(2)]
  show ?thesis
    by (rule db_ok_step [OF assms(1) g]; insert t; simp add: db_part_defs all_rows_set db')
qed

lemma save_task_ok:
  assumes "db_ok db" and "sql_save_task t db = Inr db'"
  shows "db_ok db'"
proof -
  have db': "db' = db\<lparr>db_tasks := dict_set (t_id t) (merged keep_task (t_id t) t (db_tasks db)) (db_tasks db)\<rparr>"
    and refs: "task_refs db' (merged keep_task (t_id t) t (db_tasks db))"
    using assms(2) by (auto simp: sql_save_task_def save_upsert_defs task_refs_def artifact_refs_def split: if_splits)
  have g: "grows db db'" by (auto simp: grows_def db' row_simps)
  note t = sql_tasks.save_table [OF _ assms(2)]
  show ?thesis
    by (rule db_ok_step [OF assms(1) g]; insert t refs; simp add: db_part_defs all_rows_set db')
qed

lemma save_artifact_ok:
  assumes "db_ok db" and "sql_save_artifact a db = Inr db'"
  shows "db_ok db'"
proof -
  have db': "db' = db\<lparr>db_artifacts := dict_set (a_id a) (merged keep_artifact (a_id a) a (db_artifacts db)) (db_artifacts db)\<rparr>"
    and refs: "artifact_refs db' (merged keep_artifact (a_id a) a (db_artifacts db))"
    using assms(2) by (auto simp: sql_save_artifact_def save_upsert_defs task_refs_def artifact_refs_def split: if_splits)
  have g: "grows db db'" by (auto simp: grows_def db' row_simps)
  note t = sql_artifacts.save_table [OF _ assms(2)]
  show ?thesis
    by (rule db_ok_step [OF assms(1) g]; insert t refs; simp add: db_part_defs all_rows_set db')
qed

lemma save_plan_ok:
  assumes "db_ok db" and "sql_save_plan p db = Inr db'"
  shows "db_ok db'"
proof -
  have db': "db' = db\<lparr>db_plans := dict_set (pl_id p) (merged keep_plan (pl_id p) p (db_plans db)) (db_plans db)\<rparr>"
    and refs: "row_in (db_projects db) (pl_project_id (merged keep_plan (pl_id p) p (db_plans db)))"
    using assms(2) by (auto simp: sql_save_plan_def save_upsert_defs task_refs_def artifact_refs_def split: if_splits)
  have g: "grows db db'" by (auto simp: grows_def db' row_simps)
  note t = sql_plans.save_table [OF _ assms(2)]
  show ?thesis
    by (rule db_ok_step [OF assms(1) g]; insert t refs; simp add: db_part_defs all_rows_set db')
qed

lemma save_decision_ok:
  assumes "db_ok db" and "sql_save_manager_decision d db = Inr db'"
  shows "db_ok db'"
proof -
  have db': "db' = db\<lparr>db_manager_decisions := dict_set (md_decision_id d) (merged keep_manager_decision (md_decision_id d) (decision_row d) (db_manager_decisions db)) (db_manager_decisions db)\<rparr>"
    and refs: "row_in (db_projects db) (md_project_id (merged keep_manager_decision (md_decision_id d) (decision_row d) (db_manager_decisions db)))"
    using assms(2) by (auto simp: sql_save_manager_decision_def save_upsert_defs task_refs_def artifact_refs_def split: if_splits)
  have g: "grows db db'" by (auto simp: grows_def db' row_simps)
  note t = sql_decisions.save_table [OF _ assms(2)]
  show ?thesis
    by (rule db_ok_step [OF assms(1) g]; insert t refs; simp add: db_part_defs all_rows_set db')
qed

lemma save_workflow_ok:
  assumes "db_ok db" and "sql_save_workflow w db = Inr db'"
  shows "db_ok db'"
proof -
  have db': "db' = db\<lparr>db_workflows := dict_set (wk_id w) (merged keep_workflow (wk_id w) w (db_workflows db)) (db_workflows db)\<rparr>"
    and refs: "row_in (db_projects db) (wk_project_id (merged keep_workflow (wk_id w) w (db_workflows db)))"
    using assms(2) by (auto simp: sql_save_workflow_def save_upsert_defs task_refs_def artifact_refs_def split: if_splits)
  have g: "grows db db'" by (auto simp: grows_def db' row_simps)
  note t = sql_workflows.save_table [OF _ assms(2)]
  show ?thesis
    by (rule db_ok_step [OF assms(1) g]; insert t refs; simp add: db_part_defs all_rows_set db')
qed

lemma save_handoff_ok:
  assumes "db_ok db" and "sql_save_worker_handoff h db = Inr db'"
  shows "db_ok db'"
proof -
  have db': "db' = db\<lparr>db_handoffs := dict_set (hf_id h) (merged keep_handoff (hf_id h) h (db_handoffs db)) (db_handoffs db)\<rparr>"
    and refs: "row_in (db_projects db) (hf_project_id (merged keep_handoff (hf_id h) h (db_handoffs db)))"
    using assms(2) by (auto simp: sql_save_worker_handoff_def save_upsert_defs task_refs_def artifact_refs_def split: if_splits)
  have g: "grows db db'" by (auto simp: grows_def db' row_simps)
  note t = sql_handoffs.save_table [OF _ assms(2)]
  show ?thesis
    by (rule db_ok_step [OF assms(1) g]; insert t refs; simp add: db_part_defs all_rows_set db')
qed

lemma save_attempt_ok:
  assumes "db_ok db" and "sql_save_execution_attempt x db = Inr db'"
  shows "db_ok db'"
proof -
  have db': "db' = db\<lparr>db_attempts := dict_set (xa_id x) (merged keep_attempt (xa_id x) x (db_attempts db)) (db_attempts db)\<rparr>"
    and refs: "row_in (db_tasks db) (xa_task_id (merged keep_attempt (xa_id x) x (db_attempts db)))"
    using assms(2) by (auto simp: sql_save_execution_attempt_def save_upsert_defs task_refs_def artifact_refs_def split: if_splits)
  have g: "grows db db'" by (auto simp: grows_def db' row_simps)
  note t = sql_attempts.save_table [OF _ assms(2)]
  show ?thesis
    by (rule db_ok_step [OF assms(1) g]; insert t refs; simp add: db_part_defs all_rows_set db')
qed

lemma save_approval_ok:
  assumes "db_ok db" and "sql_save_approval_request r db = Inr db'"
  shows "db_ok db'"
proof -
  have db': "db' = db\<lparr>db_approvals := dict_set (ar_id r) (merged keep_approval (ar_id r) r (db_approvals db)) (db_approvals db)\<rparr>"
    and refs: "row_in (db_projects db) (ar_project_id (merged keep_approval (ar_id r) r (db_approvals db)))"
    using assms(2) by (auto simp: sql_save_approval_request_def save_upsert_defs task_refs_def artifact_refs_def split: if_splits)
  have g: "grows db db'" by (auto simp: grows_def db' row_simps)
  note t = sql_approvals.save_table [OF _ assms(2)]
  show ?thesis
    by (rule db_ok_step [OF assms(1) g]; insert t refs; simp add: db_part_defs all_rows_set db')
qed

lemma save_user_input_ok:
  assumes "db_ok db" and "sql_save_user_input_request r db = Inr db'"
  shows "db_ok db'"
proof -
  have db': "db' = db\<lparr>db_user_inputs := dict_set (ui_id r) (merged keep_user_input (ui_id r) r (db_user_inputs db)) (db_user_inputs db)\<rparr>"
    and refs: "row_in (db_projects db) (ui_project_id (merged keep_user_input (ui_id r) r (db_user_inputs db)))"
    using assms(2) by (auto simp: sql_save_user_input_request_def save_upsert_defs task_refs_def artifact_refs_def split: if_splits)
  have g: "grows db db'" by (auto simp: grows_def db' row_simps)
  note t = sql_user_inputs.save_table [OF _ assms(2)]
  show ?thesis
    by (rule db_ok_step [OF assms(1) g]; insert t refs; simp add: db_part_defs all_rows_set db')
qed

lemma save_decision_request_ok:
  assumes "db_ok db" and "sql_save_decision_request r db = Inr db'"
  shows "db_ok db'"
proof -
  have db': "db' = db\<lparr>db_decision_requests := dict_set (dr_id r) (merged keep_decision_request (dr_id r) r (db_decision_requests db)) (db_decision_requests db)\<rparr>"
    and refs: "row_in (db_projects db) (dr_project_id (merged keep_decision_request (dr_id r) r (db_decision_requests db)))"
    using assms(2) by (auto simp: sql_save_decision_request_def save_upsert_defs task_refs_def artifact_refs_def split: if_splits)
  have g: "grows db db'" by (auto simp: grows_def db' row_simps)
  note t = sql_decision_requests.save_table [OF _ assms(2)]
  show ?thesis
    by (rule db_ok_step [OF assms(1) g]; insert t refs; simp add: db_part_defs all_rows_set db')
qed

lemma save_conversation_ok:
  assumes "db_ok db" and "sql_save_conversation c db = Inr db'"
  shows "db_ok db'"
proof -
  have db': "db' = db\<lparr>db_conversations := dict_set (cv_id c) (merged keep_conversation (cv_id c) c (db_conversations db)) (db_conversations db)\<rparr>"
    and refs: "row_in (db_projects db) (cv_project_id (merged keep_conversation (cv_id c) c (db_conversations db)))"
    using assms(2) by (auto simp: sql_save_conversation_def save_upsert_defs task_refs_def artifact_refs_def split: if_splits)
  have g: "grows db db'" by (auto simp: grows_def db' row_simps)
  note t = sql_conversations.save_table [OF _ assms(2)]
  show ?thesis
    by (rule db_ok_step [OF assms(1) g]; insert t refs; simp add: db_part_defs all_rows_set db')
qed

lemma save_memory_ok:
  assumes "db_ok db" and "sql_save_memory_document now m db = Inr db'"
  shows "db_ok db'"
proof -
  let ?m = "merged keep_memory_document (m_id m) (m\<lparr>m_updated_at := stamped now (m_updated_at m)\<rparr>) (db_memory_docs db)"
  have db': "db' = db\<lparr>db_memory_docs := dict_set (m_id m) ?m (db_memory_docs db)\<rparr>"
    and refs: "row_in (db_projects db) (m_project_id ?m)" and ck: "m_checksum ?m \<noteq> None"
    and path: "\<And>r. r \<in> set (dict_values (db_memory_docs db)) \<Longrightarrow> \<not> same_path ?m r"
    using assms(2)
    by (auto simp: sql_save_memory_document_def save_upsert_defs list_ex_iff merged_def keep_memory_document_def
      split: if_splits option.splits)
  note t = sql_memory.save_table [OF _ assms(2)]
  have g: "grows db db'" by (auto simp: grows_def db' row_simps)
  have tab: "table_ok m_id (db_memory_docs db)" using assms(1) by (simp add: db_ok_def keys_ok_def)
  have id: "m_id ?m = m_id m"
    using merged_key [OF tab, of "m\<lparr>m_updated_at := stamped now (m_updated_at m)\<rparr>" keep_memory_document]
    by (simp add: keep_memory_document_def)
  have u: "unique_on (\<lambda>m. (m_project_id m, m_relative_path m)) (dict_set (m_id m) ?m (db_memory_docs db))"
  proof (rule unique_on_set)
    show "dict_wf (db_memory_docs db)" using tab by (simp add: table_ok_def)
    show "unique_on (\<lambda>m. (m_project_id m, m_relative_path m)) (db_memory_docs db)"
      using assms(1) by (simp add: db_ok_def uniques_ok_def)
    fix k r
    assume r: "(k, r) \<in> set (db_memory_docs db)" "k \<noteq> m_id m"
    then have "m_id r = k" using tab by (auto simp: table_ok_def dest: keyed_byD)
    with r path [of r] id show "(m_project_id r, m_relative_path r) \<noteq> (m_project_id ?m, m_relative_path ?m)"
      by (force simp: same_path_def)
  qed
  show ?thesis
    by (rule db_ok_step [OF assms(1) g]; insert t refs ck u; simp add: db_part_defs all_rows_set db')
qed

lemma edge_step_ok:
  \<comment> \<open>setting one edge\<close>
  assumes "db_ok db" and "edge_refs db d"
    and "\<And>k r. (k, r) \<in> set (db_dependencies db) \<Longrightarrow> k \<noteq> d_id d \<Longrightarrow> \<not> same_edge d r"
  shows "db_ok (db\<lparr>db_dependencies := dict_set (d_id d) d (db_dependencies db)\<rparr>)" (is "db_ok ?db")
proof -
  have g: "grows db ?db" by (simp add: grows_def)
  have "unique_on (\<lambda>d. (d_dependent_task_id d, d_prerequisite_task_id d)) (db_dependencies ?db)"
    using assms(1) assms(3) [unfolded same_edge_def]
    by (simp add: db_ok_def uniques_ok_def keys_ok_def table_ok_def unique_on_set)
  note u = this
  show ?thesis
    by (rule db_ok_step [OF assms(1) g]; insert assms(2) u; simp add: db_part_defs edge_refs_def)
qed

lemma add_dependency_ok:
  assumes "db_ok db" and "sql_add_dependency d db = Inr db'"
  shows "db_ok db'"
proof (cases "find (same_edge d) (dict_values (db_dependencies db))")
  case None
  then have "\<And>k r. (k, r) \<in> set (db_dependencies db) \<Longrightarrow> \<not> same_edge d r"
    by (force simp: find_None_iff)
  with None show ?thesis
    using assms edge_step_ok [OF assms(1), of d]
    by (auto simp: sql_add_dependency_def save_upsert_defs edge_refs_def split: if_splits)
next
  case (Some r)
  then have r: "r \<in> set (dict_values (db_dependencies db))" "same_edge d r" by (auto dest: find_in_set)
  let ?r = "r\<lparr>d_dependency_type := d_dependency_type d\<rparr>"
  have tab: "table_ok d_id (db_dependencies db)" and refs: "edge_refs db r"
    using assms(1) r(1) by (auto simp: db_ok_def keys_ok_def refs_ok_def all_rows_def)
  then have in_table: "(d_id r, r) \<in> set (db_dependencies db)"
    using r(1) table_ok_values [OF tab, of r] by (auto dest: map_of_SomeD)
  have "db_ok (db\<lparr>db_dependencies := dict_set (d_id ?r) ?r (db_dependencies db)\<rparr>)"
  proof (rule edge_step_ok [OF assms(1)])
    show "edge_refs db ?r" using refs by (simp add: edge_refs_def)
    show "\<not> same_edge ?r v" if "(k, v) \<in> set (db_dependencies db)" "k \<noteq> d_id ?r" for k v
      using unique_on_values [OF _ in_table that(1), of "\<lambda>d. (d_dependent_task_id d, d_prerequisite_task_id d)"]
        assms(1) that(2) by (auto simp: db_ok_def uniques_ok_def same_edge_def)
  qed
  then show ?thesis using assms(2) Some by (simp add: sql_add_dependency_def)
qed

lemma save_policy_ok:
  assumes "db_ok db" and "sql_save_autonomy_policy p db = Inr db'"
  shows "db_ok db'"
proof -
  obtain q where db': "db' = db\<lparr>db_policies := dict_set (ap_id q) q (db_policies db)\<rparr>"
    and refs: "row_in (db_projects db) (ap_project_id q)"
    and uniq: "\<And>k r. (k, r) \<in> set (db_policies db) \<Longrightarrow> k \<noteq> ap_id q \<Longrightarrow> ap_project_id r \<noteq> ap_project_id q"
  proof (cases "find (\<lambda>r. ap_project_id r = ap_project_id p) (dict_values (db_policies db))")
    case None
    then have "\<And>k r. (k, r) \<in> set (db_policies db) \<Longrightarrow> ap_project_id r \<noteq> ap_project_id p"
      by (force simp: find_None_iff)
    with None assms(2) that [of p] show ?thesis
      by (auto simp: sql_save_autonomy_policy_def save_upsert_defs split: if_splits)
  next
    case (Some r)
    then have r: "r \<in> set (dict_values (db_policies db))" "ap_project_id r = ap_project_id p"
      by (auto dest: find_in_set)
    have tab: "table_ok ap_id (db_policies db)" and refs: "row_in (db_projects db) (ap_project_id r)"
      using assms(1) r(1) by (auto simp: db_ok_def keys_ok_def refs_ok_def owned_def all_rows_def)
    then have in_table: "(ap_id r, r) \<in> set (db_policies db)"
      using r(1) table_ok_values [OF tab, of r] by (auto dest: map_of_SomeD)
    have "ap_project_id v \<noteq> ap_project_id r" if "(k, v) \<in> set (db_policies db)" "k \<noteq> ap_id r" for k v
      using unique_on_values [OF _ in_table that(1), of ap_project_id] assms(1) that(2)
      by (auto simp: db_ok_def uniques_ok_def)
    with Some refs assms(2) show ?thesis
      by (intro that [of "keep_policy r p"]) (auto simp: sql_save_autonomy_policy_def keep_policy_def)
  qed
  have g: "grows db db'" by (simp add: grows_def db')
  have u: "unique_on ap_project_id (dict_set (ap_id q) q (db_policies db))"
    using assms(1) uniq by (simp add: db_ok_def uniques_ok_def keys_ok_def table_ok_def unique_on_set)
  show ?thesis
    by (rule db_ok_step [OF assms(1) g]; insert refs u; simp add: db_part_defs all_rows_set db')
qed

lemma add_message_ok:
  assumes "db_ok db" and "sql_add_conversation_message m db = Inr db'"
  shows "db_ok db'"
proof -
  let ?m = "merged keep_message (cm_id m) m (db_messages db)"
  let ?touch = "touch_conversation (cm_conversation_id m) (cm_timestamp m)"
  have db': "db' = db\<lparr>db_messages := dict_set (cm_id m) ?m (db_messages db),
      db_conversations := map_rows ?touch (db_conversations db)\<rparr>"
    and refs: "row_in (db_conversations db) (cm_conversation_id ?m)"
    using assms(2) by (auto simp: sql_add_conversation_message_def save_upsert_defs split: if_splits)
  have touch: "cv_id (?touch c) = cv_id c" "cv_project_id (?touch c) = cv_project_id c" for c
    by (simp_all add: touch_conversation_def)
  have g: "grows db db'" by (simp add: grows_def db' row_simps)
  note t = sql_messages.save_table [OF _ assms(2)]
  show ?thesis
    by (rule db_ok_step [OF assms(1) g]; insert t refs; simp add: db_part_defs row_simps touch db')
qed

lemma update_worker_ok:
  assumes "db_ok db" and "sql_update_worker_status now wid st active db = Inr db'"
  shows "db_ok db'"
proof (cases "dict_get (db_workers db) wid")
  case (Some w)
  have db': "db' = db\<lparr>db_workers := dict_set wid
      (w\<lparr>w_status := st, w_active_task_id := active, w_updated_at := now\<rparr>) (db_workers db)\<rparr>"
    using assms(2) Some by (simp add: sql_update_worker_status_def)
  have id: "keys_ok db \<Longrightarrow> w_id w = wid" using Some by (auto simp: keys_ok_def dest: table_ok_get)
  have g: "grows db db'" by (simp add: grows_def db' row_simps)
  show ?thesis
    by (rule db_ok_step [OF assms(1) g]; insert id; simp add: db_part_defs db')
qed (use assms in \<open>simp add: sql_update_worker_status_def\<close>)

lemma append_event_ok:
  assumes "db_ok db" and "sql_append_event e db = Inr (e', db')"
  shows "db_ok db'"
proof -
  have db': "db' = db\<lparr>db_events := db_events db @ [e'], db_sequence := db_sequence db + 1\<rparr>"
    and e': "e' = e\<lparr>e_sequence_number := Some (db_sequence db + 1)\<rparr>"
    and fresh: "e_event_id e \<notin> e_event_id ` set (db_events db)"
    using assms(2) by (auto simp: sql_append_event_def Let_def split: if_splits)
  have g: "grows db db'" by (simp add: grows_def db')
  have "event_table_ok db \<Longrightarrow> event_table_ok db'" using fresh by (simp add: event_table_ok_def db' e')
  note l = this
  show ?thesis
    by (rule db_ok_step [OF assms(1) g]; insert l; simp add: keys_ok_def uniques_ok_def owned_def db')
qed


section \<open>Deleting keeps the invariant\<close>

lemma orphan_simps [simp]:
  "t_id (orphan gone t) = t_id t" "t_project_id (orphan gone t) = t_project_id t"
  "t_assigned_worker (orphan gone t) = t_assigned_worker t" "t_status (orphan gone t) = t_status t"
  by (simp_all add: orphan_def split: option.split)

lemma orphan_parent: "t_parent_task_id (orphan gone t) = Some p \<longleftrightarrow> t_parent_task_id t = Some p \<and> p \<notin> set gone"
  by (auto simp: orphan_def split: option.split)

lemma row_in_cascaded:
  "table_ok t_id (db_tasks db) \<Longrightarrow>
    row_in (db_tasks (cascade_tasks gone db)) k \<longleftrightarrow> k \<notin> set gone \<and> row_in (db_tasks db) k"
  using row_in_drop_key [of t_id "db_tasks db" "\<lambda>i. i \<in> set gone"] by (simp add: cascade_tasks_def row_simps)

lemma cascade_tasks_ok:
  assumes "db_ok db"
  shows "db_ok (cascade_tasks gone db)" (is "db_ok ?db")
proof -
  from assms have keys: "keys_ok db" and refs: "refs_ok db" by (simp_all add: db_ok_def)
  have in_tasks: "row_in (db_tasks ?db) k \<longleftrightarrow> k \<notin> set gone \<and> row_in (db_tasks db) k" for k
    using keys by (intro row_in_cascaded) (simp add: keys_ok_def)
  have same: "db_projects ?db = db_projects db" "db_workers ?db = db_workers db"
    by (simp_all add: cascade_tasks_def)
  have task: "task_refs ?db (orphan gone t)" if "task_refs db t" for t
    using that unfolding task_refs_def same
    by (auto simp: in_tasks null_or_in_def orphan_parent split: option.split)
  have edge: "edge_refs ?db d"
    if "edge_refs db d" "\<not> (d_dependent_task_id d \<in> set gone \<or> d_prerequisite_task_id d \<in> set gone)" for d
    using that by (simp add: edge_refs_def in_tasks)
  have art: "artifact_refs ?db a" if "artifact_refs db a" "a_task_id a \<notin> set gone" for a
    using that by (simp add: artifact_refs_def in_tasks same)
  have "refs_ok ?db"
    unfolding refs_ok_def
  proof (intro conjI)
    show "all_rows (task_refs ?db) (db_tasks ?db)"
      using refs task by (auto simp: cascade_tasks_def row_simps refs_ok_def elim!: all_rows_mono)
    show "all_rows (edge_refs ?db) (db_dependencies ?db)"
      using refs edge by (auto simp: cascade_tasks_def row_simps refs_ok_def elim!: all_rows_mono)
    show "all_rows (artifact_refs ?db) (db_artifacts ?db)"
      using refs art by (auto simp: cascade_tasks_def row_simps refs_ok_def elim!: all_rows_mono)
    show "owned (row_in (db_projects ?db)) ?db"
      using refs by (simp add: refs_ok_def owned_def cascade_tasks_def)
    show "all_rows (\<lambda>x. row_in (db_tasks ?db) (xa_task_id x)) (db_attempts ?db)"
      unfolding in_tasks using refs
      by (auto simp: cascade_tasks_def row_simps refs_ok_def elim!: all_rows_mono)
    show "all_rows (\<lambda>m. row_in (db_conversations ?db) (cm_conversation_id m)) (db_messages ?db)"
      using refs by (simp add: refs_ok_def cascade_tasks_def)
  qed
  moreover have "keys_ok ?db" using keys by (simp add: keys_ok_def cascade_tasks_def)
  ultimately show ?thesis
    using assms by (simp add: db_ok_def uniques_ok_def event_table_ok_def cascade_tasks_def)
qed

lemma cascade_conversations_ok:
  assumes "db_ok db"
  shows "db_ok (cascade_conversations gone db)" (is "db_ok ?db")
proof -
  from assms have keys: "keys_ok db" and refs: "refs_ok db" by (simp_all add: db_ok_def)
  have in_c: "row_in (db_conversations ?db) k \<longleftrightarrow> k \<notin> set gone \<and> row_in (db_conversations db) k" for k
    using row_in_drop_key [of cv_id "db_conversations db" "\<lambda>i. i \<in> set gone"] keys
    by (simp add: cascade_conversations_def keys_ok_def)
  have "all_rows (\<lambda>m. row_in (db_conversations ?db) (cm_conversation_id m)) (db_messages ?db)"
    unfolding in_c using refs
    by (auto simp: cascade_conversations_def row_simps refs_ok_def elim!: all_rows_mono)
  moreover have "owned (row_in (db_projects ?db)) ?db"
    using refs by (auto simp: refs_ok_def owned_def cascade_conversations_def row_simps elim!: all_rows_mono)
  moreover have "task_refs ?db = task_refs db" "edge_refs ?db = edge_refs db" "artifact_refs ?db = artifact_refs db"
    by (simp_all add: fun_eq_iff task_refs_def edge_refs_def artifact_refs_def cascade_conversations_def)
  ultimately have "refs_ok ?db" using refs by (simp add: refs_ok_def cascade_conversations_def)
  then show ?thesis
    using assms by (simp add: db_ok_def keys_ok_def uniques_ok_def event_table_ok_def cascade_conversations_def)
qed

text \<open>
  Deleting a project row is sound once no task and no conversation refers to it.
\<close>

lemma cascade_project_ok:
  assumes "db_ok db" and no_tasks: "all_rows (\<lambda>t. t_project_id t \<noteq> pid) (db_tasks db)"
    and no_conversations: "all_rows (\<lambda>c. cv_project_id c \<noteq> pid) (db_conversations db)"
  shows "db_ok (cascade_project pid db)" (is "db_ok ?db")
proof -
  from assms have keys: "keys_ok db" and refs: "refs_ok db" by (simp_all add: db_ok_def)
  have in_p: "row_in (db_projects ?db) k \<longleftrightarrow> k \<noteq> pid \<and> row_in (db_projects db) k" for k
    by (simp add: cascade_project_def row_simps)
  have "all_rows (task_refs ?db) (db_tasks ?db)"
    using refs no_tasks
    by (simp add: refs_ok_def cascade_project_def all_rows_def task_refs_def row_simps)
  moreover have "all_rows (edge_refs ?db) (db_dependencies ?db)"
    using refs by (simp add: refs_ok_def cascade_project_def all_rows_def edge_refs_def)
  moreover have "all_rows (artifact_refs ?db) (db_artifacts ?db)"
    using refs unfolding refs_ok_def
    by (simp add: cascade_project_def row_simps) (simp add: all_rows_def artifact_refs_def row_simps)
  moreover have "owned (row_in (db_projects ?db)) ?db"
    using refs no_conversations unfolding refs_ok_def owned_def in_p
    by (simp add: cascade_project_def row_simps) (simp add: all_rows_def)
  ultimately have "refs_ok ?db" using refs by (simp add: refs_ok_def cascade_project_def)
  then show ?thesis
    using assms by (simp add: db_ok_def keys_ok_def uniques_ok_def event_table_ok_def cascade_project_def row_simps)
      (auto simp: all_rows_def)
qed

lemma delete_task_ok: "db_ok db \<Longrightarrow> db_ok (snd (sql_delete_task tid db))"
  by (simp add: sql_delete_task_def cascade_tasks_ok)

lemma delete_conversation_ok: "db_ok db \<Longrightarrow> db_ok (snd (sql_delete_conversation cid db))"
  by (simp add: sql_delete_conversation_def cascade_conversations_ok)

lemma delete_project_ok:
  assumes "db_ok db"
  shows "db_ok (snd (sql_delete_project pid db))"
proof -
  let ?d1 = "cascade_tasks (project_tasks pid db) db"
  let ?d2 = "cascade_conversations (project_conversations pid db) ?d1"
  have keys: "keys_ok db" using assms by (simp add: db_ok_def)
  have "all_rows (\<lambda>t. t_project_id t \<noteq> pid) (db_tasks ?d2)"
    by (simp add: cascade_tasks_def cascade_conversations_def row_simps) (auto simp: all_rows_def project_tasks_def)
  moreover have "all_rows (\<lambda>c. cv_project_id c \<noteq> pid) (db_conversations ?d2)"
    by (simp add: cascade_tasks_def cascade_conversations_def row_simps) (auto simp: all_rows_def project_conversations_def)
  ultimately have "db_ok (cascade_project pid ?d2)"
    using assms by (intro cascade_project_ok cascade_conversations_ok cascade_tasks_ok)
  then show ?thesis using assms by (simp add: sql_delete_project_def)
qed

lemma refs_frame [simp]:
  "task_refs (db\<lparr>db_dependencies := d\<rparr>) = task_refs db" "edge_refs (db\<lparr>db_dependencies := d\<rparr>) = edge_refs db"
  "artifact_refs (db\<lparr>db_dependencies := d\<rparr>) = artifact_refs db"
  "task_refs (db\<lparr>db_memory_docs := m\<rparr>) = task_refs db" "edge_refs (db\<lparr>db_memory_docs := m\<rparr>) = edge_refs db"
  "artifact_refs (db\<lparr>db_memory_docs := m\<rparr>) = artifact_refs db"
  by (simp_all add: fun_eq_iff task_refs_def edge_refs_def artifact_refs_def)

lemma remove_dependency_ok: "db_ok db \<Longrightarrow> db_ok (snd (sql_remove_dependency did db))"
  by (simp add: sql_remove_dependency_def db_ok_def db_part_defs refs_ok_def all_rows_del)

lemma delete_memory_ok: "db_ok db \<Longrightarrow> db_ok (snd (sql_delete_memory_document mid db))"
  by (simp add: sql_delete_memory_document_def db_ok_def db_part_defs refs_ok_def all_rows_del)

lemma delete_worker_ok:
  assumes "db_ok db"
  shows "db_ok (snd (sql_delete_worker wid db))"
proof (cases "row_in (db_workers db) wid")
  case True
  let ?db = "snd (sql_delete_worker wid db)"
  have db': "?db = db\<lparr>db_workers := dict_del wid (db_workers db), db_tasks := map_rows (unassign wid) (db_tasks db),
      db_artifacts := drop_rows (\<lambda>a. a_worker_id a = wid) (db_artifacts db)\<rparr>"
    using True by (simp add: sql_delete_worker_def)
  have un: "t_id (unassign wid t) = t_id t" "t_project_id (unassign wid t) = t_project_id t"
    "t_parent_task_id (unassign wid t) = t_parent_task_id t" for t
    by (simp_all add: unassign_def)
  from assms have refs: "refs_ok db" by (simp add: db_ok_def)
  have null: "null_or_in (map_rows f d) x = null_or_in d x" for f and d :: "(string, task) dict" and x
    by (cases x) (simp_all add: row_simps)
  have "task_refs ?db (unassign wid t)" if "task_refs db t" for t
    using that unfolding db'
    by (cases "t_assigned_worker t") (auto simp: task_refs_def un null unassign_def row_simps)
  then have "all_rows (task_refs ?db) (db_tasks ?db)"
    using refs by (auto simp: db' refs_ok_def row_simps elim!: all_rows_mono)
  moreover have "all_rows (artifact_refs ?db) (db_artifacts ?db)"
    using refs by (auto simp: db' refs_ok_def row_simps artifact_refs_def elim!: all_rows_mono)
  moreover have "edge_refs ?db = edge_refs db"
    by (simp add: fun_eq_iff edge_refs_def db' row_simps)
  ultimately have "refs_ok ?db" using refs by (simp add: refs_ok_def db' owned_def row_simps)
  then show ?thesis using assms by (simp add: db_ok_def keys_ok_def uniques_ok_def event_table_ok_def db' un)
qed (use assms in \<open>simp add: sql_delete_worker_def\<close>)


section \<open>Steps and reachable databases\<close>

inductive db_step :: "database \<Rightarrow> database \<Rightarrow> bool" where
  step_project: "sql_save_project now p db = Inr db' \<Longrightarrow> db_step db db'"
| step_worker: "sql_save_worker now w db = Inr db' \<Longrightarrow> db_step db db'"
| step_task: "sql_save_task t db = Inr db' \<Longrightarrow> db_step db db'"
| step_edge: "sql_add_dependency d db = Inr db' \<Longrightarrow> db_step db db'"
| step_artifact: "sql_save_artifact a db = Inr db' \<Longrightarrow> db_step db db'"
| step_event: "sql_append_event e db = Inr (e', db') \<Longrightarrow> db_step db db'"
| step_memory: "sql_save_memory_document now m db = Inr db' \<Longrightarrow> db_step db db'"
| step_plan: "sql_save_plan pl db = Inr db' \<Longrightarrow> db_step db db'"
| step_decision: "sql_save_manager_decision md db = Inr db' \<Longrightarrow> db_step db db'"
| step_workflow: "sql_save_workflow wk db = Inr db' \<Longrightarrow> db_step db db'"
| step_handoff: "sql_save_worker_handoff h db = Inr db' \<Longrightarrow> db_step db db'"
| step_attempt: "sql_save_execution_attempt x db = Inr db' \<Longrightarrow> db_step db db'"
| step_policy: "sql_save_autonomy_policy ap db = Inr db' \<Longrightarrow> db_step db db'"
| step_approval: "sql_save_approval_request r db = Inr db' \<Longrightarrow> db_step db db'"
| step_user_input: "sql_save_user_input_request u db = Inr db' \<Longrightarrow> db_step db db'"
| step_decision_request: "sql_save_decision_request q db = Inr db' \<Longrightarrow> db_step db db'"
| step_conversation: "sql_save_conversation c db = Inr db' \<Longrightarrow> db_step db db'"
| step_message: "sql_add_conversation_message m' db = Inr db' \<Longrightarrow> db_step db db'"
| step_worker_status: "sql_update_worker_status now wid st active db = Inr db' \<Longrightarrow> db_step db db'"
| step_delete_project: "db_step db (snd (sql_delete_project pid db))"
| step_delete_worker: "db_step db (snd (sql_delete_worker wid db))"
| step_delete_task: "db_step db (snd (sql_delete_task tid db))"
| step_remove_edge: "db_step db (snd (sql_remove_dependency did db))"
| step_delete_memory: "db_step db (snd (sql_delete_memory_document mid db))"
| step_delete_conversation: "db_step db (snd (sql_delete_conversation cid db))"

lemmas save_oks = save_project_ok save_worker_ok save_task_ok add_dependency_ok save_artifact_ok append_event_ok
  save_memory_ok save_plan_ok save_decision_ok save_workflow_ok save_handoff_ok save_attempt_ok save_policy_ok
  save_approval_ok save_user_input_ok save_decision_request_ok save_conversation_ok add_message_ok update_worker_ok

lemmas delete_oks = delete_project_ok delete_worker_ok delete_task_ok remove_dependency_ok delete_memory_ok
  delete_conversation_ok

lemma db_step_ok: "db_step db db' \<Longrightarrow> db_ok db \<Longrightarrow> db_ok db'"
  by (induction rule: db_step.induct) (blast intro: save_oks delete_oks)+

lemma db_steps_ok: "db_step\<^sup>*\<^sup>* db db' \<Longrightarrow> db_ok db \<Longrightarrow> db_ok db'"
  by (induction rule: rtranclp_induct) (auto intro: db_step_ok)


definition row_project :: project where
  "row_project = \<lparr>p_id = ''p'', p_name = ''P'', p_description = [], p_root_path = ''/p'',
     p_status = P_ACTIVE, p_configuration = [], p_created_at = ''1'', p_updated_at = ''1''\<rparr>"

definition row_task :: "string \<Rightarrow> task" where
  "row_task i = \<lparr>t_id = i, t_project_id = ''p'', t_title = ''T'', t_objective = [], t_parent_task_id = None,
     t_status = T_PENDING, t_priority = 1, t_risk = R_LOW, t_assigned_worker = None, t_dependencies = [],
     t_success_criteria = [], t_context_references = [], t_artifacts = [], t_attempts = 0, t_max_attempts = 3,
     t_metadata = [], t_created_at = ''1'', t_started_at = None, t_completed_at = None\<rparr>"

definition sample_database :: database where
  "sample_database = empty_database\<lparr>db_projects := [(''p'', row_project)], db_tasks := [(''t'', row_task ''t'')]\<rparr>"

lemma sample_reachable: "db_step\<^sup>*\<^sup>* empty_database sample_database"
proof -
  have "db_step empty_database (empty_database\<lparr>db_projects := [(''p'', row_project)]\<rparr>)"
    by (rule step_project [of "''1''" row_project])
      (simp add: sql_save_project_def upsert_def merged_def empty_database_def stamped_def row_project_def)
  moreover have "db_step (empty_database\<lparr>db_projects := [(''p'', row_project)]\<rparr>) sample_database"
    by (rule step_task [of "row_task ''t''"])
      (simp add: sql_save_task_def merged_def empty_database_def row_task_def sample_database_def row_in_def null_or_in_def)
  ultimately show ?thesis by (meson converse_rtranclp_into_rtranclp r_into_rtranclp)
qed


text \<open>
  Saving a task is refused exactly when the row it would leave has a dangling reference: a new task
  of an unknown project, a parent that is neither a stored task nor the task itself, or an unknown
  worker. The project of a stored task is not checked: it does not change.
\<close>

theorem save_task_refused_iff:
  assumes "db_ok db"
  shows "sql_save_task t db = fk_failed ''save_task'' \<longleftrightarrow>
     (sql_get_task db (t_id t) = None \<and> sql_get_project db (t_project_id t) = None)
     \<or> (\<exists>p. t_parent_task_id t = Some p \<and> p \<noteq> t_id t \<and> sql_get_task db p = None)
     \<or> (\<exists>w. t_assigned_worker t = Some w \<and> sql_get_worker db w = None)"
proof -
  let ?t = "merged keep_task (t_id t) t (db_tasks db)"
  have cols: "t_parent_task_id ?t = t_parent_task_id t" "t_assigned_worker ?t = t_assigned_worker t"
    by (auto simp: merged_def keep_task_def split: option.split)
  have "row_in (db_projects db) (t_project_id old)" if "dict_get (db_tasks db) (t_id t) = Some old" for old
    using that assms all_rowsD [of "task_refs db" "db_tasks db" "t_id t" old]
    by (simp add: db_ok_def refs_ok_def task_refs_def)
  then have project: "row_in (db_projects db) (t_project_id ?t) \<longleftrightarrow>
      \<not> (sql_get_task db (t_id t) = None \<and> sql_get_project db (t_project_id t) = None)"
    by (auto simp: merged_def keep_task_def sql_get_task_def sql_get_project_def row_in_def split: option.split)
  show ?thesis
    unfolding sql_save_task_def Let_def project cols
    by (auto simp: fk_failed_def null_or_in_def row_in_def dict_simps sql_get_task_def sql_get_worker_def
      split: option.splits)
qed

theorem save_task_refused_iff_witness:
  "sql_save_task ((row_task ''u'')\<lparr>t_parent_task_id := Some ''x''\<rparr>) sample_database = fk_failed ''save_task''"
  by (rule save_task_refused_iff [THEN iffD2, OF db_steps_ok [OF sample_reachable db_ok_empty]])
    (simp add: sample_database_def empty_database_def row_task_def sql_get_task_def)

text \<open>
  Deleting a worker removes exactly the artifacts it produced and takes it off its tasks, which keep
  their status: a task that was \<open>RUNNING\<close> on the worker is \<open>RUNNING\<close> on nobody.
\<close>

theorem delete_worker_effect:
  assumes "db_ok db" and "sql_delete_worker wid db = (True, db')"
  shows "sql_get_worker db' wid = None
    \<and> set (dict_values (db_artifacts db')) = {a \<in> set (dict_values (db_artifacts db)). a_worker_id a \<noteq> wid}
    \<and> sql_get_task db' tid = map_option (\<lambda>t. if t_assigned_worker t = Some wid
           then t\<lparr>t_assigned_worker := None\<rparr> else t) (sql_get_task db tid)"
  using assms
  by (auto simp: sql_delete_worker_def sql_get_worker_def sql_get_task_def dict_simps drop_rows_def map_rows_def
      map_of_map unassign_def[abs_def] split: if_splits)

definition row_worker :: worker where
  "row_worker = \<lparr>w_id = ''w'', w_name = ''W'', w_role = [], w_description = [], w_version = ''1.0.0'',
     w_capabilities = [], w_permissions = [], w_tools = [], w_model_policy = [], w_status = W_RUNNING,
     w_active_task_id = Some ''t'', w_created_at = ''1'', w_updated_at = ''1''\<rparr>"

definition running_database :: database where
  "running_database = sample_database\<lparr>db_workers := [(''w'', row_worker)],
     db_tasks := [(''t'', (row_task ''t'')\<lparr>t_status := T_RUNNING, t_assigned_worker := Some ''w''\<rparr>)]\<rparr>"

lemma running_database_ok: "db_ok running_database"
  by (simp add: running_database_def sample_database_def empty_database_def db_ok_def keys_ok_def ref_defs
      uniques_ok_def event_table_ok_def unique_on_def all_rows_def table_ok_def keyed_by_def row_in_def null_or_in_def
      row_project_def row_worker_def row_task_def)

theorem delete_worker_effect_witness:
  "\<exists>db'. sql_delete_worker ''w'' running_database = (True, db')
     \<and> sql_get_task db' ''t'' = Some ((row_task ''t'')\<lparr>t_status := T_RUNNING\<rparr>)"
proof -
  obtain db' where db': "sql_delete_worker ''w'' running_database = (True, db')"
    by (simp add: sql_delete_worker_def running_database_def row_in_def)
  from delete_worker_effect [OF running_database_ok this, of "''t''"] db' show ?thesis
    by (simp add: running_database_def sql_get_task_def row_task_def)
qed

text \<open>
  Listing tasks returns exactly the stored tasks that pass the filters, each once, the most urgent
  first and, within a priority, the oldest first.
\<close>

theorem list_tasks_sorted:
  "mset (sql_list_tasks db pid st) =
     filter_mset (\<lambda>t. (given pid \<longrightarrow> Some (t_project_id t) = pid) \<and> (\<forall>x. st = Some x \<longrightarrow> t_status t = x))
       (mset (dict_values (db_tasks db)))
   \<and> sorted_wrt (\<lambda>a b. t_priority a > t_priority b
        \<or> t_priority a = t_priority b \<and> t_created_at a \<le> t_created_at b) (sql_list_tasks db pid st)"
proof
  show "mset (sql_list_tasks db pid st) =
     filter_mset (\<lambda>t. (given pid \<longrightarrow> Some (t_project_id t) = pid) \<and> (\<forall>x. st = Some x \<longrightarrow> t_status t = x))
       (mset (dict_values (db_tasks db)))"
    by (cases st; cases "given pid") (simp_all add: sql_list_tasks_def Let_def del: mset_map flip: mset_filter)
  have "sorted_wrt (\<lambda>a b. t_priority a > t_priority b \<or> t_priority a = t_priority b \<and> t_created_at a \<le> t_created_at b)
      (sort_key (\<lambda>t. (- t_priority t, t_created_at t)) ts)" for ts :: "task list"
    using sorted_sort_key [of "\<lambda>t. (- t_priority t, t_created_at t)" ts]
    by (auto simp: sorted_map elim!: sorted_wrt_mono_rel [rotated])
  then show "sorted_wrt (\<lambda>a b. t_priority a > t_priority b
        \<or> t_priority a = t_priority b \<and> t_created_at a \<le> t_created_at b) (sql_list_tasks db pid st)"
    by (simp add: sql_list_tasks_def Let_def)
qed

theorem list_tasks_sorted_witness:
  "sql_list_tasks sample_database (Some ''p'') None = [row_task ''t'']"
proof -
  have "mset (sql_list_tasks sample_database (Some ''p'') None) = {#row_task ''t''#}"
    using list_tasks_sorted [of sample_database "Some ''p''" None]
    by (simp add: sample_database_def empty_database_def row_task_def)
  then show ?thesis by simp
qed


section \<open>What never changes\<close>

lemma map_rows_get: "dict_get (map_rows f d) k = map_option f (dict_get d k)"
  by (simp add: map_rows_def map_of_map)

lemma drop_rows_get: "dict_wf d \<Longrightarrow> dict_get (drop_rows P d) k = Some v \<Longrightarrow> dict_get d k = Some v"
  by (auto simp: drop_rows_def dest!: map_of_SomeD)

lemma db_step_tasks:
  assumes "db_step db db'" and "db_ok db"
  shows "db_tasks db' = db_tasks db
    \<or> (\<exists>t. db_tasks db' = upsert keep_task (t_id t) t (db_tasks db))
    \<or> (\<exists>f P. db_tasks db' = map_rows f (drop_rows P (db_tasks db))
          \<and> (\<forall>t. t_project_id (f t) = t_project_id t \<and> t_created_at (f t) = t_created_at t))"
  using assms(1)
proof cases
  case (step_task t)
  then show ?thesis by (auto simp: sql_save_task_def save_upsert_defs split: if_splits)
next
  case (step_delete_project pid)
  then show ?thesis
    by (cases "row_in (db_projects db) pid")
      (auto simp: sql_delete_project_def cascade_project_def cascade_conversations_def cascade_tasks_def orphan_def
        split: option.splits intro!: exI [of _ "orphan (project_tasks pid db)"])
next
  case (step_delete_task tid)
  then show ?thesis
    by (cases "row_in (db_tasks db) tid")
      (auto simp: sql_delete_task_def cascade_tasks_def orphan_def split: option.splits intro!: exI [of _ "orphan [tid]"])
next
  case (step_delete_worker wid)
  have "drop_rows (\<lambda>_. False) d = d" for d :: "(string, task) dict" by (simp add: drop_rows_def)
  with step_delete_worker show ?thesis
    by (cases "row_in (db_workers db) wid")
      (auto simp: sql_delete_worker_def unassign_def intro!: exI [of _ "unassign wid"] exI [of _ "\<lambda>_. False"])
qed (auto simp: sql_save_project_def sql_save_worker_def sql_add_dependency_def sql_save_artifact_def sql_append_event_def
    sql_save_memory_document_def sql_save_plan_def sql_save_manager_decision_def sql_save_workflow_def
    sql_save_worker_handoff_def sql_save_execution_attempt_def sql_save_autonomy_policy_def sql_save_approval_request_def
    sql_save_user_input_request_def sql_save_decision_request_def sql_save_conversation_def sql_add_conversation_message_def
    sql_update_worker_status_def sql_remove_dependency_def sql_delete_memory_document_def sql_delete_conversation_def
    cascade_conversations_def save_upsert_defs split: if_splits option.splits)

text \<open>
  No operation moves a stored task to another project or changes when it was created, whatever task
  object is saved under its identifier.
\<close>

theorem task_identity_fixed:
  assumes "db_step\<^sup>*\<^sup>* empty_database db" and "db_step db db'"
    and "sql_get_task db tid = Some t" and "sql_get_task db' tid = Some t'"
  shows "t_project_id t' = t_project_id t \<and> t_created_at t' = t_created_at t"
proof -
  have ok: "db_ok db" using db_steps_ok [OF assms(1)] by simp
  then have wf: "dict_wf (db_tasks db)" by (simp add: db_ok_def keys_ok_def table_ok_def)
  from db_step_tasks [OF assms(2) ok] show ?thesis
  proof (elim disjE exE conjE)
    fix u assume "db_tasks db' = upsert keep_task (t_id u) u (db_tasks db)"
    then show ?thesis
      using assms(3, 4) by (auto simp: sql_get_task_def upsert_def merged_def dict_simps keep_task_def split: if_splits)
  next
    fix f P
    assume "db_tasks db' = map_rows f (drop_rows P (db_tasks db))"
      and f: "\<forall>t. t_project_id (f t) = t_project_id t \<and> t_created_at (f t) = t_created_at t"
    then obtain v where "dict_get (drop_rows P (db_tasks db)) tid = Some v" "t' = f v"
      using assms(4) by (auto simp: sql_get_task_def map_rows_get)
    with drop_rows_get [OF wf] assms(3) f show ?thesis by (fastforce simp: sql_get_task_def)
  qed (use assms in \<open>simp add: sql_get_task_def\<close>)
qed

theorem task_identity_fixed_witness:
  "\<exists>db' t'. sql_save_task ((row_task ''t'')\<lparr>t_project_id := ''q'', t_title := ''N''\<rparr>) sample_database = Inr db'
     \<and> sql_get_task db' ''t'' = Some t' \<and> t_project_id t' = ''p'' \<and> t_title t' = ''N''"
proof -
  let ?t = "(row_task ''t'')\<lparr>t_project_id := ''q'', t_title := ''N''\<rparr>"
  have old: "sql_get_task sample_database ''t'' = Some (row_task ''t'')"
    by (simp add: sql_get_task_def sample_database_def)
  obtain db' where db': "sql_save_task ?t sample_database = Inr db'"
    by (simp add: sql_save_task_def merged_def keep_task_def sample_database_def row_in_def null_or_in_def row_task_def
        empty_database_def)
  have new: "sql_get_task db' ''t'' = Some (keep_task (row_task ''t'') ?t)"
    using sql_tasks.save_old [OF db'] old by (simp add: sql_get_task_def row_task_def)
  from task_identity_fixed [OF sample_reachable step_task [OF db'] old new]
  have "t_project_id (keep_task (row_task ''t'') ?t) = ''p''" by (simp add: row_task_def)
  with db' new show ?thesis by (auto simp: keep_task_def)
qed

end
