(* ===== verification/Sqlite_Refinement.thy ===== *)
theory Sqlite_Refinement
  imports Sqlite_Invariant Store_Invariant
begin

text \<open>
  The two implementations of \<open>core/storage/base.py\<close> against each other: on the operations they share
  the database simulates the in-memory store. Where they differ is spelled out in \<open>lawful\<close>: columns
  an update does not set, an edge stored twice, and rows that a deletion takes along.
\<close>

section \<open>The shared operations as commands\<close>

datatype command =
  Save_Project project
| Save_Worker worker
| Save_Task task
| Add_Dependency dependency
| Save_Artifact artifact
| Append_Event event
| Save_Memory memory_document
| Save_Plan plan
| Save_Decision manager_decision
| Set_Worker_Status string worker_status "string option"
| Delete_Worker string
| Delete_Task string
| Delete_Project string
| Remove_Dependency string
| Delete_Memory string

fun mem_exec :: "command \<Rightarrow> store \<Rightarrow> error + store" where
  "mem_exec (Save_Project p) s = Inr (save_project p s)"
| "mem_exec (Save_Worker w) s = Inr (save_worker w s)"
| "mem_exec (Save_Task t) s = Inr (save_task t s)"
| "mem_exec (Add_Dependency d) s = Inr (store_dependency d s)"
| "mem_exec (Save_Artifact a) s = Inr (save_artifact a s)"
| "mem_exec (Append_Event e) s = map_sum (\<lambda>x. x) snd (append_event e s)"
| "mem_exec (Save_Memory m) s = Inr (save_memory_document m s)"
| "mem_exec (Save_Plan p) s = Inr (save_plan p s)"
| "mem_exec (Save_Decision d) s = Inr (save_manager_decision d s)"
| "mem_exec (Set_Worker_Status wid st active) s = Inr (update_worker_status wid st active s)"
| "mem_exec (Delete_Worker wid) s = Inr (snd (delete_worker wid s))"
| "mem_exec (Delete_Task tid) s = Inr (snd (delete_task tid s))"
| "mem_exec (Delete_Project pid) s = Inr (snd (delete_project pid s))"
| "mem_exec (Remove_Dependency did) s = Inr (snd (remove_dependency did s))"
| "mem_exec (Delete_Memory mid) s = Inr (snd (delete_memory_document mid s))"

fun sql_exec :: "string \<Rightarrow> command \<Rightarrow> database \<Rightarrow> error + database" where
  "sql_exec now (Save_Project p) db = sql_save_project now p db"
| "sql_exec now (Save_Worker w) db = sql_save_worker now w db"
| "sql_exec now (Save_Task t) db = sql_save_task t db"
| "sql_exec now (Add_Dependency d) db = sql_add_dependency d db"
| "sql_exec now (Save_Artifact a) db = sql_save_artifact a db"
| "sql_exec now (Append_Event e) db = map_sum (\<lambda>x. x) snd (sql_append_event e db)"
| "sql_exec now (Save_Memory m) db = sql_save_memory_document now m db"
| "sql_exec now (Save_Plan p) db = sql_save_plan p db"
| "sql_exec now (Save_Decision d) db = sql_save_manager_decision d db"
| "sql_exec now (Set_Worker_Status wid st active) db = sql_update_worker_status now wid st active db"
| "sql_exec now (Delete_Worker wid) db = Inr (snd (sql_delete_worker wid db))"
| "sql_exec now (Delete_Task tid) db = Inr (snd (sql_delete_task tid db))"
| "sql_exec now (Delete_Project pid) db = Inr (snd (sql_delete_project pid db))"
| "sql_exec now (Remove_Dependency did) db = Inr (snd (sql_remove_dependency did db))"
| "sql_exec now (Delete_Memory mid) db = Inr (snd (sql_delete_memory_document mid db))"

text \<open>
  The columns of the stored row that the save keeps are those of the saved record.
\<close>

definition agrees :: "('v \<Rightarrow> 'v \<Rightarrow> 'v) \<Rightarrow> 'k \<Rightarrow> 'v \<Rightarrow> ('k, 'v) dict \<Rightarrow> bool" where
  "agrees keep k v d \<longleftrightarrow> merged keep k v d = v"

fun lawful :: "database \<Rightarrow> command \<Rightarrow> bool" where
  "lawful db (Save_Project p) \<longleftrightarrow> p_updated_at p \<noteq> [] \<and> agrees keep_project (p_id p) p (db_projects db)"
| "lawful db (Save_Worker w) \<longleftrightarrow> agrees keep_worker (w_id w) w (db_workers db)"
| "lawful db (Save_Task t) \<longleftrightarrow> agrees keep_task (t_id t) t (db_tasks db)"
| "lawful db (Add_Dependency d) \<longleftrightarrow> all_rows (\<lambda>r. \<not> same_edge d r) (db_dependencies db)"
| "lawful db (Save_Artifact a) \<longleftrightarrow> agrees keep_artifact (a_id a) a (db_artifacts db)"
| "lawful db (Append_Event e) \<longleftrightarrow> True"
| "lawful db (Save_Memory m) \<longleftrightarrow> m_updated_at m \<noteq> [] \<and> agrees keep_memory_document (m_id m) m (db_memory_docs db)"
| "lawful db (Save_Plan p) \<longleftrightarrow> agrees keep_plan (pl_id p) p (db_plans db)"
| "lawful db (Save_Decision d) \<longleftrightarrow>
     md_plan_update d \<noteq> Some [] \<and> agrees keep_manager_decision (md_decision_id d) d (db_manager_decisions db)"
| "lawful db (Set_Worker_Status wid st active) \<longleftrightarrow> True"
| "lawful db (Delete_Worker wid) \<longleftrightarrow>
     all_rows (\<lambda>t. t_assigned_worker t \<noteq> Some wid) (db_tasks db)
     \<and> all_rows (\<lambda>a. a_worker_id a \<noteq> wid) (db_artifacts db)"
| "lawful db (Delete_Task tid) \<longleftrightarrow> all_rows (\<lambda>t. t_parent_task_id t \<noteq> Some tid) (db_tasks db)"
| "lawful db (Delete_Project pid) \<longleftrightarrow>
     all_rows (\<lambda>t. t_project_id t \<noteq> pid \<longrightarrow> orphan (project_tasks pid db) t = t) (db_tasks db)
     \<and> all_rows (\<lambda>m. m_project_id m \<noteq> pid) (db_memory_docs db)
     \<and> all_rows (\<lambda>p. pl_project_id p \<noteq> pid) (db_plans db)
     \<and> all_rows (\<lambda>d. md_project_id d \<noteq> pid) (db_manager_decisions db)"
| "lawful db (Remove_Dependency did) \<longleftrightarrow> True"
| "lawful db (Delete_Memory mid) \<longleftrightarrow> True"


section \<open>The simulation relation\<close>

text \<open>
  The in-memory store does not stamp a worker whose status it updates, so the time of the last update
  of a worker is left out.
\<close>

definition unstamped :: "worker \<Rightarrow> worker" where
  "unstamped w = w\<lparr>w_updated_at := []\<rparr>"

definition simulates :: "database \<Rightarrow> store \<Rightarrow> bool" where
  "simulates db s \<longleftrightarrow>
     s_projects s = db_projects db \<and> map_rows unstamped (s_workers s) = map_rows unstamped (db_workers db)
     \<and> s_tasks s = db_tasks db \<and> s_dependencies s = db_dependencies db \<and> s_artifacts s = db_artifacts db
     \<and> s_events s = db_events db \<and> s_events_by_id s = map (\<lambda>e. (e_event_id e, e)) (db_events db)
     \<and> s_seq_counter s = db_sequence db \<and> s_memory_docs s = db_memory_docs db \<and> s_plans s = db_plans db
     \<and> s_manager_decisions s = db_manager_decisions db"

lemma simulates_empty [simp]: "simulates empty_database empty_store"
  by (simp add: simulates_def empty_database_def empty_store_def)

lemma map_rows_set: "map_rows f (dict_set k v d) = dict_set k (f v) (map_rows f d)"
  by (induction d) (auto simp: map_rows_def)

lemma map_rows_del: "map_rows f (dict_del k d) = dict_del k (map_rows f d)"
  by (auto simp: map_rows_def AList.delete_eq filter_map comp_def case_prod_beta')

lemma same_workers_get:
  assumes "map_rows unstamped d = map_rows unstamped d'"
  shows "map_option unstamped (dict_get d k) = map_option unstamped (dict_get d' k)"
  using assms map_rows_get [of unstamped d k] map_rows_get [of unstamped d' k] by simp

lemma del_selected_eq:
  assumes "table_ok f d"
  shows "dict_del_all (map f (filter P (dict_values d))) d = drop_rows P d"
  unfolding dict_del_all_eq drop_rows_def
proof (rule filter_cong [OF refl], clarify)
  fix k v
  assume kv: "(k, v) \<in> set d"
  then have k: "k = f v" and get: "dict_get d (f v) = Some v"
    using assms by (auto simp: table_ok_def dest: keyed_byD)
  have "w = v" if "w \<in> set (dict_values d)" "f w = f v" for w
    using table_ok_values [OF assms, of w] that get by simp
  then show "(k \<notin> set (map f (filter P (dict_values d)))) = (\<not> P v)"
    unfolding k set_map [of f] set_filter using kv by force
qed

lemma drop_rows_none: "all_rows (\<lambda>v. \<not> P v) d \<Longrightarrow> drop_rows P d = d"
  by (force simp: drop_rows_def all_rows_def filter_id_conv)

lemma drop_rows_False [simp]: "drop_rows (\<lambda>_. False) d = d"
  by (simp add: drop_rows_def)

lemma drop_rows_drop: "drop_rows P (drop_rows Q d) = drop_rows (\<lambda>v. Q v \<or> P v) d"
  by (auto simp: drop_rows_def intro!: filter_cong)

lemma drop_rows_cong: "(\<And>k v. (k, v) \<in> set d \<Longrightarrow> P v = Q v) \<Longrightarrow> drop_rows P d = drop_rows Q d"
  by (auto simp: drop_rows_def intro!: filter_cong)

lemma map_rows_id: "all_rows (\<lambda>v. f v = v) d \<Longrightarrow> map_rows f d = d"
  by (force simp: map_rows_def all_rows_def intro!: map_idI)

lemma dict_del_drop: "table_ok f d \<Longrightarrow> dict_del k d = drop_rows (\<lambda>v. f v = k) d"
  by (auto simp: AList.delete_eq drop_rows_def table_ok_def keyed_by_def intro!: filter_cong)


section \<open>Cascading deletion in memory\<close>

definition delete_tables_ok :: "store \<Rightarrow> bool" where
  "delete_tables_ok s \<longleftrightarrow> table_ok t_id (s_tasks s) \<and> table_ok d_id (s_dependencies s) \<and> table_ok a_id (s_artifacts s)"

definition without_tasks :: "string list \<Rightarrow> store \<Rightarrow> store" where
  "without_tasks tids s = s\<lparr>s_tasks := drop_rows (\<lambda>t. t_id t \<in> set tids) (s_tasks s),
     s_dependencies := drop_rows (\<lambda>d. d_dependent_task_id d \<in> set tids \<or> d_prerequisite_task_id d \<in> set tids) (s_dependencies s),
     s_artifacts := drop_rows (\<lambda>a. a_task_id a \<in> set tids) (s_artifacts s)\<rparr>"

lemma delete_task_eq:
  assumes "delete_tables_ok s" and "dict_get (s_tasks s) tid \<noteq> None"
  shows "snd (delete_task tid s) = without_tasks [tid] s"
  using assms
  by (simp add: delete_task_def Let_def delete_tables_ok_def del_selected_eq dict_del_drop [of t_id] without_tasks_def)

lemma without_tasks_Nil [simp]: "without_tasks [] s = s"
  by (simp add: without_tasks_def)

lemma without_tasks_Cons: "without_tasks tids (without_tasks [tid] s) = without_tasks (tid # tids) s"
  by (simp add: without_tasks_def drop_rows_drop disj_ac)

lemma delete_tasks_eq:
  assumes "delete_tables_ok s" and "distinct tids" and "\<And>tid. tid \<in> set tids \<Longrightarrow> row_in (s_tasks s) tid"
  shows "fold (\<lambda>tid s. snd (delete_task tid s)) tids s = without_tasks tids s"
  using assms
proof (induction tids arbitrary: s)
  case (Cons tid tids)
  let ?s = "without_tasks [tid] s"
  have eq: "snd (delete_task tid s) = ?s"
    using Cons.prems(1, 3) by (intro delete_task_eq) (auto simp: row_in_def)
  have "row_in (s_tasks ?s) t" if "t \<in> set tids" for t
    using that Cons.prems row_in_drop_key [of t_id "s_tasks s" "\<lambda>i. i = tid" t]
    by (auto simp: without_tasks_def delete_tables_ok_def)
  moreover have "delete_tables_ok ?s"
    using Cons.prems(1) by (simp add: delete_tables_ok_def without_tasks_def)
  ultimately show ?case
    using Cons.IH [of ?s] Cons.prems(2) by (simp add: eq without_tasks_Cons)
qed simp

section \<open>One command\<close>

lemma simulates_events:
  assumes "simulates db s" and "sql_append_event e db = Inr (e', db')"
  shows "\<exists>s'. append_event e s = Inr (e', s') \<and> simulates db' s'"
proof -
  have fresh: "e_event_id e \<notin> e_event_id ` set (db_events db)"
    and e': "e' = e\<lparr>e_sequence_number := Some (db_sequence db + 1)\<rparr>"
    and db': "db' = db\<lparr>db_events := db_events db @ [e'], db_sequence := db_sequence db + 1\<rparr>"
    using assms(2) by (auto simp: sql_append_event_def Let_def split: if_splits)
  have "dict_get (s_events_by_id s) (e_event_id e) = None"
    using assms(1) fresh by (auto simp: simulates_def map_of_eq_None_iff image_image)
  then show ?thesis
    using assms(1) dict_set_fresh [of "s_events_by_id s" "e_event_id e"]
    by (auto simp: append_event_def Let_def e' db' simulates_def)
qed

lemma simulates_worker_status:
  assumes "simulates db s" and "sql_update_worker_status now wid st active db = Inr db'"
  shows "simulates db' (update_worker_status wid st active s)"
proof (cases "dict_get (db_workers db) wid")
  case None
  then have "dict_get (s_workers s) wid = None"
    using assms(1) same_workers_get [of "s_workers s" "db_workers db" wid] by (simp add: simulates_def)
  with None assms show ?thesis by (simp add: sql_update_worker_status_def update_worker_status_def)
next
  case (Some w)
  then obtain v where v: "dict_get (s_workers s) wid = Some v" "unstamped v = unstamped w"
    using assms(1) same_workers_get [of "s_workers s" "db_workers db" wid] by (auto simp: simulates_def)
  have "unstamped (v\<lparr>w_status := st, w_active_task_id := active\<rparr>)
      = unstamped (w\<lparr>w_status := st, w_active_task_id := active, w_updated_at := now\<rparr>)"
    using v(2) by (cases v; cases w) (simp add: unstamped_def)
  with Some v(1) assms show ?thesis
    by (auto simp: sql_update_worker_status_def update_worker_status_def simulates_def map_rows_set)
qed

lemma simulates_delete_task:
  assumes "simulates db s" and "db_ok db" and "all_rows (\<lambda>t. t_parent_task_id t \<noteq> Some tid) (db_tasks db)"
  shows "simulates (snd (sql_delete_task tid db)) (snd (delete_task tid s))"
proof (cases "row_in (db_tasks db) tid")
  case True
  have ok: "delete_tables_ok s" using assms(1, 2)
    by (simp add: delete_tables_ok_def simulates_def db_ok_def keys_ok_def)
  have "map_rows (orphan [tid]) (drop_rows (\<lambda>t. t_id t = tid) (db_tasks db)) = drop_rows (\<lambda>t. t_id t = tid) (db_tasks db)"
    using assms(3)
    by (intro map_rows_id) (auto simp add: row_simps orphan_def split: option.split elim!: all_rows_mono)
  then show ?thesis
    using assms(1) True delete_task_eq [OF ok, of tid]
    by (simp add: sql_delete_task_def cascade_tasks_def simulates_def row_in_def without_tasks_def)
qed (use assms in \<open>simp add: sql_delete_task_def delete_task_def row_in_def simulates_def\<close>)

lemma simulates_delete_project:
  assumes sim: "simulates db s" and "db_ok db" and law: "lawful db (Delete_Project pid)"
  shows "simulates (snd (sql_delete_project pid db)) (snd (delete_project pid s))"
proof (cases "row_in (db_projects db) pid")
  case True
  let ?tids = "project_tasks pid db" and ?s1 = "s\<lparr>s_projects := dict_del pid (s_projects s)\<rparr>"
  have tabs: "table_ok t_id (db_tasks db)" "table_ok a_id (db_artifacts db)"
    using assms(2) by (simp_all add: db_ok_def keys_ok_def)
  have ok: "delete_tables_ok ?s1" using sim assms(2)
    by (simp add: delete_tables_ok_def simulates_def db_ok_def keys_ok_def)
  have tids: "map t_id (filter (\<lambda>t. t_project_id t = pid) (dict_values (s_tasks ?s1))) = ?tids"
    using sim by (simp add: project_tasks_def simulates_def)
  have "distinct (map t_id (dict_values (db_tasks db)))"
    using tabs(1) by (auto simp: table_ok_def keyed_by_def comp_def cong: map_cong) (metis (mono_tags, lifting) case_prodD map_eq_conv prod.collapse)
  then have "distinct ?tids" by (simp add: project_tasks_def distinct_map_filter)
  moreover have "row_in (s_tasks ?s1) t" if "t \<in> set ?tids" for t
    using that sim row_in_values [OF tabs(1), of t] by (auto simp: project_tasks_def simulates_def)
  ultimately have del: "fold (\<lambda>tid s. snd (delete_task tid s)) ?tids ?s1 = without_tasks ?tids ?s1"
    by (rule delete_tasks_eq [OF ok])
  have "map_rows (orphan ?tids) (drop_rows (\<lambda>t. t_id t \<in> set ?tids) (db_tasks db))
      = drop_rows (\<lambda>t. t_id t \<in> set ?tids) (db_tasks db)"
    using law by (intro map_rows_id, simp add: row_simps) (auto simp: all_rows_def project_tasks_def)
  moreover have "snd (delete_project pid s) = (without_tasks ?tids ?s1)\<lparr>s_artifacts :=
      drop_rows (\<lambda>a. a_project_id a = pid) (s_artifacts (without_tasks ?tids ?s1))\<rparr>"
    unfolding delete_project_def Let_def tids del
    using True sim tabs by (simp add: row_in_def simulates_def without_tasks_def del_selected_eq)
  ultimately show ?thesis
    using sim True law
    by (simp add: sql_delete_project_def simulates_def cascade_project_def cascade_conversations_def cascade_tasks_def
        without_tasks_def drop_rows_none)
qed (use sim in \<open>simp add: sql_delete_project_def delete_project_def row_in_def simulates_def\<close>)

lemmas sql_save_defs = sql_save_project_def sql_save_worker_def sql_save_task_def sql_save_artifact_def
  sql_save_memory_document_def sql_save_plan_def sql_save_manager_decision_def

lemma agrees_unstamped:
  "agrees keep_worker (w_id w) w d \<Longrightarrow>
    unstamped (merged keep_worker (w_id w) (w\<lparr>w_updated_at := t\<rparr>) d) = unstamped w"
  by (cases w) (auto simp: agrees_def merged_def keep_worker_def unstamped_def split: option.splits)

lemma simulates_dependency:
  assumes "simulates db s" and "db_ok db" and "lawful db (Add_Dependency d)" and "sql_add_dependency d db = Inr db'"
  shows "simulates db' (store_dependency d s)"
proof -
  have "find (same_edge d) (dict_values (db_dependencies db)) = None"
    using assms(3) by (auto simp: find_None_iff all_rows_def)
  then have db': "db' = db\<lparr>db_dependencies := dict_set (d_id d) d (db_dependencies db)\<rparr>"
    using assms(4) by (auto simp: sql_add_dependency_def save_upsert_defs split: if_splits)
  have "drop_rows (same_edge d) (db_dependencies db) = db_dependencies db"
    using assms(3) by (intro drop_rows_none) simp
  then show ?thesis
    using assms(1, 2) del_selected_eq [of d_id "db_dependencies db" "same_edge d"]
    by (simp add: db' simulates_def store_dependency_def same_edge_def [abs_def] db_ok_def keys_ok_def)
qed

lemma simulates_delete_worker:
  assumes "simulates db s" and "lawful db (Delete_Worker wid)"
  shows "simulates (snd (sql_delete_worker wid db)) (snd (delete_worker wid s))"
proof -
  have "row_in (db_workers db) wid \<longleftrightarrow> dict_get (s_workers s) wid \<noteq> None"
    using assms(1) same_workers_get [of "s_workers s" "db_workers db" wid]
    by (cases "dict_get (s_workers s) wid"; cases "dict_get (db_workers db) wid") (simp_all add: simulates_def row_in_def)
  moreover have "map_rows (unassign wid) (db_tasks db) = db_tasks db"
    using assms(2) by (intro map_rows_id) (auto simp: unassign_def elim!: all_rows_mono)
  ultimately show ?thesis
    using assms by (simp add: sql_delete_worker_def delete_worker_def simulates_def map_rows_del drop_rows_none)
qed

lemma simulates_command:
  assumes "simulates db s" and "db_ok db" and "lawful db c" and "sql_exec now c db = Inr db'"
  shows "\<exists>s'. mem_exec c s = Inr s' \<and> simulates db' s'"
proof (cases c)
  case (Save_Worker w)
  with assms show ?thesis
    by (auto simp: sql_save_worker_def save_worker_def upsert_def simulates_def map_rows_set agrees_unstamped)
next
  case (Append_Event e)
  then obtain e' where "sql_append_event e db = Inr (e', db')"
    using assms(4) by (cases "sql_append_event e db") auto
  from simulates_events [OF assms(1) this] show ?thesis using Append_Event by auto
next
  case (Set_Worker_Status wid st active)
  with assms simulates_worker_status [of db s now wid st active db'] show ?thesis by auto
next
  case (Add_Dependency d)
  with assms simulates_dependency [of db s d db'] show ?thesis by auto
next
  case (Delete_Worker wid)
  with assms simulates_delete_worker [of db s wid] show ?thesis by auto
next
  case (Delete_Task tid)
  with assms simulates_delete_task [of db s tid] show ?thesis by auto
next
  case (Delete_Project pid)
  with assms simulates_delete_project [of db s pid] show ?thesis by auto
next
  case (Remove_Dependency did)
  have "dict_get (db_dependencies db) did = None \<Longrightarrow> dict_del did (db_dependencies db) = db_dependencies db"
    by (simp add: delete_id map_of_eq_None_iff)
  with Remove_Dependency assms show ?thesis
    by (auto simp: remove_dependency_def sql_remove_dependency_def simulates_def)
next
  case (Delete_Memory mid)
  have "dict_get (db_memory_docs db) mid = None \<Longrightarrow> dict_del mid (db_memory_docs db) = db_memory_docs db"
    by (simp add: delete_id map_of_eq_None_iff)
  with Delete_Memory assms show ?thesis
    by (auto simp: delete_memory_document_def sql_delete_memory_document_def simulates_def)
qed (use assms in \<open>auto simp: sql_save_defs save_defs save_upsert_defs agrees_def stamped_def decision_row_def
    simulates_def split: if_splits\<close>)


section \<open>Runs\<close>

fun sql_run :: "string \<Rightarrow> command list \<Rightarrow> database \<Rightarrow> error + database" where
  "sql_run now [] db = Inr db"
| "sql_run now (c # cs) db = (case sql_exec now c db of Inl e \<Rightarrow> Inl e | Inr db' \<Rightarrow> sql_run now cs db')"

fun mem_run :: "command list \<Rightarrow> store \<Rightarrow> error + store" where
  "mem_run [] s = Inr s"
| "mem_run (c # cs) s = (case mem_exec c s of Inl e \<Rightarrow> Inl e | Inr s' \<Rightarrow> mem_run cs s')"

fun lawful_run :: "string \<Rightarrow> command list \<Rightarrow> database \<Rightarrow> bool" where
  "lawful_run now [] db \<longleftrightarrow> True"
| "lawful_run now (c # cs) db \<longleftrightarrow>
     lawful db c \<and> (case sql_exec now c db of Inl e \<Rightarrow> True | Inr db' \<Rightarrow> lawful_run now cs db')"

lemma sql_exec_ok:
  assumes "db_ok db" and "sql_exec now c db = Inr db'"
  shows "db_ok db'"
proof (cases c)
  case (Append_Event e)
  then obtain e' where "sql_append_event e db = Inr (e', db')"
    using assms(2) by (cases "sql_append_event e db") auto
  with assms(1) show ?thesis by (rule append_event_ok)
qed (use assms in \<open>auto intro: save_oks delete_oks\<close>)

lemma simulates_run:
  assumes "simulates db s" and "db_ok db" and "lawful_run now cs db" and "sql_run now cs db = Inr db'"
  shows "\<exists>s'. mem_run cs s = Inr s' \<and> simulates db' s' \<and> db_ok db'"
  using assms
proof (induction cs arbitrary: db s)
  case (Cons c cs)
  then obtain db1 where db1: "sql_exec now c db = Inr db1" "sql_run now cs db1 = Inr db'" "lawful_run now cs db1" "lawful db c"
    by (auto split: sum.splits)
  obtain s1 where "mem_exec c s = Inr s1" "simulates db1 s1"
    using simulates_command [OF Cons.prems(1, 2) db1(4, 1)] by blast
  with Cons.IH [OF _ sql_exec_ok [OF Cons.prems(2) db1(1)] db1(3, 2)] show ?case by simp
qed simp

text \<open>What a client reads from the two stores.\<close>

lemma simulates_reads:
  assumes "simulates db s" and "db_ok db"
  shows "get_task s tid = sql_get_task db tid"
    and "get_project s pid = sql_get_project db pid"
    and "map_option w_status (get_worker s wid) = map_option w_status (sql_get_worker db wid)"
    and "get_dependencies_for_task s tid = sql_get_dependencies_for_task db tid"
    and "mset (list_tasks s flt st) = mset (sql_list_tasks db flt st)"
    and "list_events s None None None None None since None = sql_list_events db None None None None None since None"
proof -
  have "map_option w_status (map_option unstamped x) = map_option w_status x" for x
    by (cases x) (simp_all add: unstamped_def)
  then show "map_option w_status (get_worker s wid) = map_option w_status (sql_get_worker db wid)"
    using assms(1) same_workers_get [of "s_workers s" "db_workers db" wid]
    unfolding get_worker_def sql_get_worker_def simulates_def by metis
  have pos: "0 < seq_or_zero e" if "e \<in> set (db_events db)" for e
  proof -
    have "e_sequence_number e \<in> set (map (\<lambda>n. Some (int n + 1)) [0..<length (db_events db)])"
      using assms(2) that unfolding db_ok_def event_table_ok_def by (metis image_eqI set_map)
    then show ?thesis by (auto simp: seq_or_zero_def)
  qed
  then have "filter (\<lambda>e. seq_or_zero e \<noteq> 0 \<and> seq_or_zero e > n) (db_events db) = filter (\<lambda>e. seq_or_zero e > n) (db_events db)" for n
    by (intro filter_cong) force+
  then show "list_events s None None None None None since None = sql_list_events db None None None None None since None"
    using assms(1) by (simp add: list_events_def sql_list_events_def matches_def sql_limit_def simulates_def Let_def split: option.split)
qed (use assms(1) in \<open>simp_all add: simulates_def get_task_def sql_get_task_def get_project_def sql_get_project_def
    get_dependencies_for_task_def sql_get_dependencies_for_task_def list_tasks_def sql_list_tasks_def Let_def
    split: option.split\<close>)

text \<open>
  C2: the database refines the in-memory store. Every sequence of lawful operations that the database
  accepts from empty is accepted by the in-memory store from empty, and then both give the same answers
  about tasks, projects, worker statuses, dependencies, task lists (up to their order) and the event log.
\<close>

theorem sqlite_refines_memory:
  assumes "lawful_run now cs empty_database" and "sql_run now cs empty_database = Inr db"
  shows "\<exists>s. mem_run cs empty_store = Inr s
     \<and> (\<forall>tid. get_task s tid = sql_get_task db tid)
     \<and> (\<forall>pid. get_project s pid = sql_get_project db pid)
     \<and> (\<forall>wid. map_option w_status (get_worker s wid) = map_option w_status (sql_get_worker db wid))
     \<and> (\<forall>tid. get_dependencies_for_task s tid = sql_get_dependencies_for_task db tid)
     \<and> (\<forall>flt st. mset (list_tasks s flt st) = mset (sql_list_tasks db flt st))
     \<and> (\<forall>since. list_events s None None None None None since None
          = sql_list_events db None None None None None since None)"
proof -
  obtain s where "mem_run cs empty_store = Inr s" "simulates db s" "db_ok db"
    using simulates_run [OF simulates_empty db_ok_empty assms] by blast
  with simulates_reads [OF this(2, 3)] show ?thesis by blast
qed

definition sample_run :: "command list" where
  "sample_run = [Save_Project row_project, Save_Worker row_worker, Save_Task (row_task ''t''),
     Save_Task (row_task ''u''), Add_Dependency \<lparr>d_id = ''d'', d_dependent_task_id = ''u'',
       d_prerequisite_task_id = ''t'', d_dependency_type = D_STRICT_SUCCESS, d_created_at = ''2''\<rparr>,
     Set_Worker_Status ''w'' W_IDLE None, Delete_Task ''t'']"

theorem sqlite_refines_memory_witness:
  "\<exists>db s. sql_run ''9'' sample_run empty_database = Inr db \<and> mem_run sample_run empty_store = Inr s
     \<and> get_task s ''u'' = sql_get_task db ''u'' \<and> sql_get_task db ''u'' = Some (row_task ''u'')"
proof -
  have law: "lawful_run ''9'' sample_run empty_database" by code_simp
  have "case sql_run ''9'' sample_run empty_database of Inl e \<Rightarrow> False
      | Inr db \<Rightarrow> sql_get_task db ''u'' = Some (row_task ''u'')"
    by code_simp
  then obtain db where db: "sql_run ''9'' sample_run empty_database = Inr db"
    "sql_get_task db ''u'' = Some (row_task ''u'')"
    by (auto split: sum.splits)
  from sqlite_refines_memory [OF law db(1)] db show ?thesis by blast
qed

section \<open>Where the two stores differ\<close>



text \<open>The in-memory store deletes no memory document, plan or decision with its project.\<close>

lemma memory_project_rows_stay:
  "s_memory_docs (snd (delete_project pid s)) = s_memory_docs s
   \<and> s_plans (snd (delete_project pid s)) = s_plans s
   \<and> s_manager_decisions (snd (delete_project pid s)) = s_manager_decisions s"
proof -
  have "s_memory_docs (snd (delete_task tid s)) = s_memory_docs s \<and> s_plans (snd (delete_task tid s)) = s_plans s
      \<and> s_manager_decisions (snd (delete_task tid s)) = s_manager_decisions s" for tid s
    by (simp add: delete_task_def Let_def)
  then have "s_memory_docs (fold (\<lambda>tid s. snd (delete_task tid s)) tids s) = s_memory_docs s
      \<and> s_plans (fold (\<lambda>tid s. snd (delete_task tid s)) tids s) = s_plans s
      \<and> s_manager_decisions (fold (\<lambda>tid s. snd (delete_task tid s)) tids s) = s_manager_decisions s" for tids s
    by (induction tids arbitrary: s) simp_all
  then show ?thesis by (simp add: delete_project_def Let_def)
qed

text \<open>An empty list of event types is no filter in the database, and one that nothing passes in memory.\<close>

lemma empty_event_types_differ:
  assumes "simulates db s"
  shows "list_events s None None None None (Some []) None None = []
     \<and> mset (sql_list_events db None None None None (Some []) None None) = mset (s_events s)"
  using assms by (simp add: list_events_def sql_list_events_def sql_limit_def simulates_def matches_def)

text \<open>
  A dependency whose identifier is taken is refused by the database; in memory it replaces the other edge.
\<close>

lemma taken_dependency_id_refused:
  assumes "all_rows (\<lambda>r. \<not> same_edge d r) (db_dependencies db)" and "row_in (db_dependencies db) (d_id d)"
  shows "sql_add_dependency d db = unique_failed ''add_dependency'' ''dependencies.id''"
proof -
  have "find (same_edge d) (dict_values (db_dependencies db)) = None"
    using assms(1) by (auto simp: find_None_iff all_rows_def)
  then show ?thesis using assms(2) by (simp add: sql_add_dependency_def)
qed

end
