(* ===== verification/Autonomy_Policy.thy ===== *)
theory Autonomy_Policy
  imports Work_Models
begin

text \<open>
  The policy evaluator of \<open>core/autonomy/evaluator.py\<close>: the classification of a tool call, the ordered
  rules that deny it, ask for approval or allow it, and the explanation that goes with the decision.
  The decision table of the whole cascade is \<open>decision_table\<close>; that more autonomy never blocks more is
  \<open>autonomy_monotone\<close>.
\<close>

section \<open>Classification\<close>

definition contains_any :: "string list \<Rightarrow> string \<Rightarrow> bool" where
  "contains_any ps s \<longleftrightarrow> list_ex (contains s) ps"

definition argument_text :: "string \<Rightarrow> pydict \<Rightarrow> string" where
  \<comment> \<open>\<open>str(arguments.get(key, "")).lower()\<close>\<close>
  "argument_text key args = lower (case dict_get args key of None \<Rightarrow> [] | Some v \<Rightarrow> str_val v)"

definition guarded_paths :: "string list" where
  "guarded_paths = [''.git'', ''package.json'', ''setup.py'', ''pyproject.toml'', ''core/'']"

definition destructive_commands :: "string list" where
  "destructive_commands = [''rm -rf'', ''drop table'', ''format'', ''mkfs'', ''dd if='']"

definition changing_commands :: "string list" where
  "changing_commands = [''pip install'', ''npm install'', ''cargo add'', ''git commit'', ''git push'']"

definition classify_action :: "string \<Rightarrow> pydict \<Rightarrow> action_category \<times> risk_level" where
  "classify_action tool_id args =
     (let t = lower tool_id in
      if contains t ''filesystem.read'' \<or> contains t ''filesystem.list'' then (AC_READ, R_LOW)
      else if contains t ''filesystem.write'' then (AC_WRITE, R_MEDIUM)
      else if contains t ''filesystem.delete'' then
        (if contains_any guarded_paths (argument_text ''path'' args) then (AC_DELETE, R_HIGH) else (AC_DELETE, R_MEDIUM))
      else if contains t ''shell.execute'' then
        (let cmd = argument_text ''command'' args in
         if contains_any destructive_commands cmd then (AC_EXECUTE, R_CRITICAL)
         else if contains_any changing_commands cmd then (AC_EXECUTE, R_HIGH)
         else (AC_EXECUTE, R_LOW))
      else if contains t ''web.search'' \<or> contains t ''web.fetch'' \<or> contains t ''web'' then (AC_NETWORK, R_LOW)
      else if contains t ''ocr'' \<or> contains t ''screenshot'' then (AC_READ, R_LOW)
      else if contains t ''secret'' \<or> contains t ''credential'' then (AC_CREDENTIAL_ACCESS, R_CRITICAL)
      else if contains_any [''publish'', ''deploy'', ''release''] t then (AC_PUBLISH, R_CRITICAL)
      else (AC_EXECUTE, R_MEDIUM))"


section \<open>Evaluation\<close>

text \<open>The prohibited path fragments, looked for in \<open>str(arguments)\<close>.\<close>

definition prohibited_fragments :: "string list" where
  "prohibited_fragments = [''/etc/'', ''/usr/'', ''C:'' @ [CHR 0x5C] @ ''Windows'', ''../'']"

definition confinement_violated :: "pydict \<Rightarrow> bool" where
  "confinement_violated args \<longleftrightarrow> contains_any prohibited_fragments (repr_val (PDict args))"

text \<open>The fields of a decision that differ between the rules; the rest is common.\<close>

definition decide :: "string \<Rightarrow> string \<Rightarrow> autonomy_policy \<Rightarrow> action_category \<Rightarrow> string \<Rightarrow> policy_result \<Rightarrow> risk_level \<Rightarrow>
    string \<Rightarrow> string \<Rightarrow> string \<Rightarrow> string \<Rightarrow> policy_decision" where
  "decide did now policy category act result risk rule scope summary reason =
     \<lparr>pd_id = did, pd_action = act, pd_category = category, pd_result = result, pd_risk_level = risk,
      pd_policy_id = ap_id policy, pd_reason = reason,
      pd_explanation = \<lparr>px_decision = result, px_risk_level = risk, px_matched_rules = [rule], px_rejected_rules = [],
        px_required_approval_scope = scope, px_summary = summary\<rparr>,
      pd_timestamp = now, pd_metadata = []\<rparr>"

definition evaluate_action :: "string \<Rightarrow> string \<Rightarrow> autonomy_policy \<Rightarrow> string \<Rightarrow> pydict \<Rightarrow> bool \<Rightarrow> policy_decision" where
  "evaluate_action did now policy tool args stopped =
     (let (category, risk) = classify_action tool args;
          cat = action_category_value category;
          level = ap_autonomy_level policy;
          decision = decide did now policy category
      in
      if stopped then
        decision (tool @ ''('' @ repr_val (PDict args) @ '')'') PR_DENY R_CRITICAL ''EMERGENCY_STOP_ACTIVE'' []
          ''Action denied because emergency stop is currently active.'' ''Emergency stop is active.''
      else if tool \<in> set (ap_denied_tools policy) then
        decision tool PR_DENY R_CRITICAL (''DENIED_TOOL_'' @ tool) []
          (''Tool '' @ quoted tool @ '' is explicitly denied by project autonomy policy.'')
          (''Tool '' @ quoted tool @ '' is explicitly denied.'')
      else if confinement_violated args then
        decision tool PR_DENY R_CRITICAL ''PATH_CONFINEMENT_VIOLATION'' []
          ''Access to system paths or directory traversal outside workspace is forbidden.''
          ''Workspace path confinement violation.''
      else if category \<in> set (ap_approval_required_actions policy) then
        decision tool PR_APPROVAL_REQUIRED risk (''APPROVAL_REQUIRED_FOR_'' @ cat)
          (''Authorize action '' @ quoted tool @ '' in category '' @ quoted cat)
          (''Category '' @ quoted cat @ '' requires explicit human approval under policy.'')
          (''Action category '' @ quoted cat @ '' requires approval.'')
      else if level = AL_FULL_MANUAL then
        decision tool PR_APPROVAL_REQUIRED risk ''FULL_MANUAL_LEVEL'' (''Authorize '' @ quoted tool)
          ''Full manual autonomy level requires human approval for all actions.''
          ''Full manual level requires human approval.''
      else if level = AL_SUPERVISED \<and> category \<noteq> AC_READ then
        decision tool PR_APPROVAL_REQUIRED risk ''SUPERVISED_NON_READ_ACTION'' (''Authorize non-read action '' @ quoted tool)
          ''Supervised autonomy level requires approval for non-read actions.''
          ''Supervised level requires approval for writes and executions.''
      else if level = AL_BALANCED \<and> risk \<in> {R_HIGH, R_CRITICAL} then
        decision tool PR_APPROVAL_REQUIRED risk ''BALANCED_HIGH_OR_CRITICAL_RISK'' (''Authorize high-risk action '' @ quoted tool)
          ''Balanced autonomy level requires approval for HIGH and CRITICAL risk actions.''
          (''Risk level '' @ risk_level_value risk @ '' requires approval under Balanced autonomy.'')
      else if level = AL_HIGH_AUTONOMY \<and> risk = R_CRITICAL then
        decision tool PR_APPROVAL_REQUIRED risk ''HIGH_AUTONOMY_CRITICAL_RISK'' (''Authorize critical action '' @ quoted tool)
          ''High autonomy level requires approval only for CRITICAL risk actions.''
          ''Critical risk requires approval under High Autonomy.''
      else
        decision tool PR_ALLOW risk ''POLICY_ALLOW_DEFAULT'' []
          (''Action '' @ quoted tool @ '' is permitted under autonomy level '' @ quoted (autonomy_level_value level) @ ''.'')
          (''Action permitted under '' @ autonomy_level_value level @ '' level.''))"


section \<open>The decision table\<close>

definition denied :: "autonomy_policy \<Rightarrow> string \<Rightarrow> pydict \<Rightarrow> bool \<Rightarrow> bool" where
  "denied policy tool args stopped \<longleftrightarrow> stopped \<or> tool \<in> set (ap_denied_tools policy) \<or> confinement_violated args"

definition level_asks :: "autonomy_level \<Rightarrow> action_category \<Rightarrow> risk_level \<Rightarrow> bool" where
  "level_asks level category risk =
     (case level of
        AL_FULL_MANUAL \<Rightarrow> True
      | AL_SUPERVISED \<Rightarrow> category \<noteq> AC_READ
      | AL_BALANCED \<Rightarrow> risk \<in> {R_HIGH, R_CRITICAL}
      | AL_HIGH_AUTONOMY \<Rightarrow> risk = R_CRITICAL
      | AL_FULL_AUTONOMY \<Rightarrow> False)"

definition needs_approval :: "autonomy_policy \<Rightarrow> string \<Rightarrow> pydict \<Rightarrow> bool" where
  "needs_approval policy tool args \<longleftrightarrow>
     fst (classify_action tool args) \<in> set (ap_approval_required_actions policy)
     \<or> level_asks (ap_autonomy_level policy) (fst (classify_action tool args)) (snd (classify_action tool args))"

lemma decide_result [simp]:
  "pd_result (decide did now p c a r k m s u w) = r" "px_decision (pd_explanation (decide did now p c a r k m s u w)) = r"
  by (simp_all add: decide_def)

lemma evaluate_result:
  "pd_result (evaluate_action did now policy tool args stopped) =
     (if denied policy tool args stopped then PR_DENY
      else if needs_approval policy tool args then PR_APPROVAL_REQUIRED else PR_ALLOW)"
  by (cases "classify_action tool args"; cases "ap_autonomy_level policy")
    (auto simp: evaluate_action_def Let_def denied_def needs_approval_def level_asks_def)

text \<open>
  The cascade of rules is this table. A call is denied exactly when the emergency stop is on, the
  tool is on the deny list or the arguments name a prohibited path; of the other calls exactly those of
  a listed category, or those the autonomy level asks about, need approval; everything else is allowed.
  The explanation states the same result as the decision.
\<close>

theorem decision_table:
  "(let d = evaluate_action did now policy tool args stopped in
    (pd_result d = PR_DENY \<longleftrightarrow> denied policy tool args stopped)
    \<and> (pd_result d = PR_APPROVAL_REQUIRED \<longleftrightarrow> \<not> denied policy tool args stopped \<and> needs_approval policy tool args)
    \<and> (pd_result d = PR_ALLOW \<longleftrightarrow> \<not> denied policy tool args stopped \<and> \<not> needs_approval policy tool args)
    \<and> px_decision (pd_explanation d) = pd_result d)"
proof -
  have "px_decision (pd_explanation (evaluate_action did now policy tool args stopped))
      = pd_result (evaluate_action did now policy tool args stopped)"
    by (cases "classify_action tool args") (simp add: evaluate_action_def Let_def)
  then show ?thesis by (auto simp: Let_def evaluate_result)
qed

primrec autonomy_rank :: "autonomy_level \<Rightarrow> nat" where
  "autonomy_rank AL_FULL_MANUAL = 0"
| "autonomy_rank AL_SUPERVISED = 1"
| "autonomy_rank AL_BALANCED = 2"
| "autonomy_rank AL_HIGH_AUTONOMY = 3"
| "autonomy_rank AL_FULL_AUTONOMY = 4"

lemma reads_are_low_risk: "classify_action tool args = (AC_READ, risk) \<Longrightarrow> risk = R_LOW"
  by (auto simp: classify_action_def Let_def split: if_splits)

lemma level_asks_mono:
  assumes "autonomy_rank l \<le> autonomy_rank l'" and "level_asks l' c r" and "c = AC_READ \<Longrightarrow> r = R_LOW"
  shows "level_asks l c r"
  using assms by (cases l; cases l') (auto simp: level_asks_def)

text \<open>
  C22: raising the autonomy level of a policy never blocks more. Whatever is allowed at one level is
  allowed at every higher one, and what is denied stays denied at all of them. This rests on the
  classifier: a read is always of low risk, so that the supervised level allows nothing that the
  balanced level asks about.
\<close>

theorem autonomy_monotone:
  assumes "autonomy_rank (ap_autonomy_level policy) \<le> autonomy_rank level'"
  shows "(pd_result (evaluate_action did now policy tool args stopped) = PR_ALLOW \<longrightarrow>
       pd_result (evaluate_action did now (policy\<lparr>ap_autonomy_level := level'\<rparr>) tool args stopped) = PR_ALLOW)
    \<and> (pd_result (evaluate_action did now policy tool args stopped) = PR_DENY \<longleftrightarrow>
       pd_result (evaluate_action did now (policy\<lparr>ap_autonomy_level := level'\<rparr>) tool args stopped) = PR_DENY)"
proof -
  obtain c r where cr: "classify_action tool args = (c, r)" by (cases "classify_action tool args")
  note mono = level_asks_mono [OF assms, of c r]
  have "c = AC_READ \<Longrightarrow> r = R_LOW" using reads_are_low_risk cr by blast
  with mono have "level_asks level' c r \<Longrightarrow> level_asks (ap_autonomy_level policy) c r" by blast
  then show ?thesis
    by (auto simp: evaluate_result denied_def needs_approval_def cr)
qed

definition default_policy :: "string \<Rightarrow> string \<Rightarrow> autonomy_policy" where
  \<comment> \<open>the policy of a project that has none\<close>
  "default_policy now pid =
     \<lparr>ap_id = ''pol-def-'' @ take 6 pid, ap_project_id = pid, ap_autonomy_level = AL_BALANCED, ap_allowed_tools = [],
      ap_denied_tools = [], ap_approval_required_actions = [], ap_max_cost_limit = ''10.0'', ap_max_iterations = 15,
      ap_max_external_actions_per_hour = 10, ap_version = 1, ap_created_at = now, ap_updated_at = now, ap_metadata = []\<rparr>"

theorem autonomy_monotone_witness:
  "pd_result (evaluate_action ''d'' ''1'' ((default_policy ''1'' ''p'')\<lparr>ap_autonomy_level := AL_HIGH_AUTONOMY\<rparr>)
     ''filesystem.write'' [(''path'', PStr ''a'')] False) = PR_ALLOW"
proof -
  have "pd_result (evaluate_action ''d'' ''1'' (default_policy ''1'' ''p'') ''filesystem.write'' [(''path'', PStr ''a'')] False) = PR_ALLOW"
    by code_simp
  then show ?thesis
    using autonomy_monotone [of "default_policy ''1'' ''p''" AL_HIGH_AUTONOMY] by (simp add: default_policy_def)
qed

text \<open>
  The fragment for the Windows system directory is searched in \<open>str(arguments)\<close>, where a backslash of a
  string value is doubled: a path below it is not recognised.
\<close>

lemma windows_directory_not_recognised:
  "\<not> confinement_violated [(''path'', PStr (''C:'' @ [CHR 0x5C] @ ''Windows'' @ [CHR 0x5C] @ ''x''))]
   \<and> pd_result (evaluate_action ''d'' ''1'' (default_policy ''1'' ''p'') ''filesystem.write''
        [(''path'', PStr (''C:'' @ [CHR 0x5C] @ ''Windows'' @ [CHR 0x5C] @ ''x''))] False) = PR_ALLOW"
  by code_simp

end
