(* ===== verification/Autonomy_Service.thy ===== *)
theory Autonomy_Service
  imports Autonomy_Policy Sqlite_Invariant Event_Logging
begin

text \<open>
  The human control layer of \<open>core/autonomy/service.py\<close>: emergency stop, policies, approvals, questions
  and decisions. The service calls the store through \<open>hasattr\<close> guards: with the database every call
  takes effect, with the in-memory store, which has none of these methods, nothing is stored and
  nothing is found. Each reading of the supply gives an identifier and a time.
\<close>

section \<open>State\<close>

datatype backend =
  Sqlite database
| In_Memory store

record au_state =
  au_backend :: backend
  au_tick :: nat
  au_stopped :: bool
  au_stop_reason :: "string option"
  au_tokens :: "string list"
  \<comment> \<open>\<open>_approved_action_tokens\<close>, a set\<close>

definition draw :: "(au_state, nat) action" where
  "draw st = (Inr (au_tick st), st\<lparr>au_tick := au_tick st + 1\<rparr>)"

definition short_id :: "readings \<Rightarrow> string \<Rightarrow> nat \<Rightarrow> string" where
  \<comment> \<open>\<open>f"{kind}{uuid.uuid4().hex[:8]}"\<close>\<close>
  "short_id orc kind n = kind @ take 8 (or_uuid orc n)"

definition persist :: "(database \<Rightarrow> error + database) \<Rightarrow> (au_state, unit) action" where
  \<comment> \<open>\<open>if hasattr(store, ...): store.save_...(x)\<close>\<close>
  "persist f st =
     (case au_backend st of
        In_Memory s \<Rightarrow> (Inr (), st)
      | Sqlite db \<Rightarrow> (case f db of Inl e \<Rightarrow> (Inl e, st) | Inr db' \<Rightarrow> (Inr (), st\<lparr>au_backend := Sqlite db'\<rparr>)))"

definition consult :: "(database \<Rightarrow> 'a) \<Rightarrow> 'a \<Rightarrow> (au_state, 'a) action" where
  \<comment> \<open>the same for a read, with the value for a store that has no such method\<close>
  "consult f none st = (case au_backend st of In_Memory s \<Rightarrow> (Inr none, st) | Sqlite db \<Rightarrow> (Inr (f db), st))"

definition au_log :: "readings \<Rightarrow> event_args \<Rightarrow> (au_state, event) action" where
  "au_log orc a st =
     (let e = event_create orc (au_tick st) a;
          st' = st\<lparr>au_tick := au_tick st + 2\<rparr>
      in case au_backend st of
           In_Memory s \<Rightarrow> (case append_event e s of Inl x \<Rightarrow> (Inl x, st')
             | Inr (e', s') \<Rightarrow> (Inr e', st'\<lparr>au_backend := In_Memory s'\<rparr>))
         | Sqlite db \<Rightarrow> (case sql_append_event e db of Inl x \<Rightarrow> (Inl x, st')
             | Inr (e', db') \<Rightarrow> (Inr e', st'\<lparr>au_backend := Sqlite db'\<rparr>)))"

definition au_event :: "event_type \<Rightarrow> string \<Rightarrow> string option \<Rightarrow> string option \<Rightarrow> pydict \<Rightarrow> event_args" where
  "au_event ty source pid tid payload =
     \<lparr>ea_type = ty, ea_payload = payload, ea_source = source, ea_correlation = None, ea_causation = None,
      ea_project = pid, ea_task = tid, ea_worker = None, ea_artifact = None, ea_metadata = []\<rparr>"


section \<open>Emergency stop\<close>

definition set_emergency_stop :: "readings \<Rightarrow> string \<Rightarrow> string \<Rightarrow> (au_state, unit) action" where
  "set_emergency_stop orc reason actor =
     bind (\<lambda>st. (Inr (), st\<lparr>au_stopped := True, au_stop_reason := Some reason\<rparr>)) (\<lambda>_.
     bind (au_log orc (au_event ''EMERGENCY_STOP_ACTIVATED'' ''USER'' None None
       [(''reason'', PStr reason), (''actor'', PStr actor)])) (\<lambda>_. ret ()))"

definition clear_emergency_stop :: "readings \<Rightarrow> string \<Rightarrow> (au_state, unit) action" where
  "clear_emergency_stop orc actor =
     bind (\<lambda>st. (Inr (), st\<lparr>au_stopped := False, au_stop_reason := None\<rparr>)) (\<lambda>_.
     bind (au_log orc (au_event ''EMERGENCY_STOP_CLEARED'' ''USER'' None None [(''actor'', PStr actor)])) (\<lambda>_. ret ()))"


section \<open>Policies\<close>

definition create_policy ::
  "readings \<Rightarrow> string \<Rightarrow> autonomy_level \<Rightarrow> string list \<Rightarrow> string list \<Rightarrow> action_category list \<Rightarrow> pydict \<Rightarrow>
    (au_state, autonomy_policy) action" where
  "create_policy orc pid level allowed denied_list required metadata =
     bind draw (\<lambda>n.
     let p = \<lparr>ap_id = short_id orc ''pol-'' n, ap_project_id = pid, ap_autonomy_level = level, ap_allowed_tools = allowed,
           ap_denied_tools = denied_list, ap_approval_required_actions = required, ap_max_cost_limit = ''10.0'',
           ap_max_iterations = 15, ap_max_external_actions_per_hour = 10, ap_version = 1,
           ap_created_at = or_now orc n, ap_updated_at = or_now orc n, ap_metadata = metadata\<rparr> in
     bind (persist (sql_save_autonomy_policy p)) (\<lambda>_.
     bind (au_log orc (au_event ''AUTONOMY_POLICY_CREATED'' ''RUNTIME'' (Some pid) None
       [(''policy_id'', PStr (ap_id p)), (''project_id'', PStr pid),
        (''autonomy_level'', PStr (autonomy_level_value level))])) (\<lambda>_.
     ret p)))"

definition get_policy_for_project :: "readings \<Rightarrow> string \<Rightarrow> (au_state, autonomy_policy) action" where
  "get_policy_for_project orc pid =
     bind (consult (\<lambda>db. sql_get_autonomy_policy_by_project db pid) None) (\<lambda>p.
     case p of
       Some p' \<Rightarrow> ret p'
     | None \<Rightarrow> bind draw (\<lambda>n. ret (default_policy (or_now orc n) pid)))"

definition evaluate_tool_action :: "readings \<Rightarrow> string \<Rightarrow> string \<Rightarrow> pydict \<Rightarrow> (au_state, policy_decision) action" where
  "evaluate_tool_action orc pid tool args =
     bind (get_policy_for_project orc pid) (\<lambda>policy.
     bind draw (\<lambda>n.
     bind (\<lambda>st. (Inr (au_stopped st), st)) (\<lambda>stopped.
     let d = evaluate_action (short_id orc ''dec-'' n) (or_now orc n) policy tool args stopped;
         payload = [(''action'', PStr tool), (''risk_level'', PStr (risk_level_value (pd_risk_level d)))];
         rules = px_matched_rules (pd_explanation d)
     in case pd_result d of
          PR_ALLOW \<Rightarrow> bind (au_log orc (au_event ''ACTION_ALLOWED_BY_POLICY'' ''RUNTIME'' (Some pid) None payload)) (\<lambda>_. ret d)
        | PR_DENY \<Rightarrow> bind (au_log orc (au_event ''ACTION_BLOCKED_BY_POLICY'' ''RUNTIME'' (Some pid) None
             (payload @ [(''matched_rule'', PStr (if rules = [] then ''DENY'' else hd rules))]))) (\<lambda>_. ret d)
        | PR_APPROVAL_REQUIRED \<Rightarrow> ret d)))"


section \<open>Approvals\<close>

definition request_approval ::
  "readings \<Rightarrow> string \<Rightarrow> string \<Rightarrow> string \<Rightarrow> string \<Rightarrow> action_category \<Rightarrow> risk_level \<Rightarrow> string \<Rightarrow> string \<Rightarrow>
    string option \<Rightarrow> string list \<Rightarrow> string list \<Rightarrow> (au_state, approval_request) action" where
  "request_approval orc pid tid wid act category risk reason scope workflow resources evidence =
     bind draw (\<lambda>n.
     let r = \<lparr>ar_id = short_id orc ''app-'' n, ar_project_id = pid, ar_workflow_id = workflow, ar_task_id = tid,
           ar_worker_id = wid, ar_action = act, ar_category = category, ar_risk_level = risk, ar_reason = reason,
           ar_requested_scope = scope, ar_affected_resources = resources, ar_evidence = evidence,
           ar_status = AS_PENDING, ar_created_at = or_now orc n, ar_expires_at = None, ar_decided_at = None,
           ar_decided_by = None, ar_rejection_reason = None, ar_metadata = []\<rparr> in
     bind (persist (sql_save_approval_request r)) (\<lambda>_.
     bind (au_log orc (au_event ''APPROVAL_REQUESTED'' ''RUNTIME'' (Some pid) (Some tid)
       [(''approval_id'', PStr (ar_id r)), (''workflow_id'', opt_str workflow), (''task_id'', PStr tid),
        (''worker_id'', PStr wid), (''action'', PStr act), (''risk_level'', PStr (risk_level_value risk)),
        (''scope'', PStr scope), (''reason'', PStr reason)])) (\<lambda>_.
     ret r)))"

definition pending_approval :: "string \<Rightarrow> string \<Rightarrow> (au_state, approval_request) action" where
  \<comment> \<open>the two checks that open \<open>approve_request\<close> and \<open>reject_request\<close>\<close>
  "pending_approval verb rid =
     bind (consult (\<lambda>db. sql_get_approval_request db rid) None) (\<lambda>x.
     case x of
       None \<Rightarrow> raise (ValidationError (''Approval request '' @ quoted rid @ '' not found.'') [])
     | Some r \<Rightarrow>
         if ar_status r \<noteq> AS_PENDING then
           raise (ValidationError (''Cannot '' @ verb @ '' request with status '' @ quoted (approval_status_value (ar_status r)) @ ''.'') [])
         else ret r)"

definition action_token :: "approval_request \<Rightarrow> string" where
  "action_token r = ar_project_id r @ '':'' @ ar_task_id r @ '':'' @ ar_action r"

definition add_token :: "string \<Rightarrow> (au_state, unit) action" where
  "add_token t st = (Inr (), st\<lparr>au_tokens := List.insert t (au_tokens st)\<rparr>)"

definition approve_request :: "readings \<Rightarrow> string \<Rightarrow> string \<Rightarrow> (au_state, approval_request) action" where
  "approve_request orc rid approver =
     bind (pending_approval ''approve'' rid) (\<lambda>r.
     bind draw (\<lambda>n.
     let r' = r\<lparr>ar_status := AS_APPROVED, ar_decided_at := Some (or_now orc n), ar_decided_by := Some approver\<rparr> in
     bind (persist (sql_save_approval_request r')) (\<lambda>_.
     bind (add_token (action_token r')) (\<lambda>_.
     bind (au_log orc (au_event ''APPROVAL_GRANTED'' ''USER'' (Some (ar_project_id r')) (Some (ar_task_id r'))
       [(''approval_id'', PStr (ar_id r')), (''action'', PStr (ar_action r')), (''approved_by'', PStr approver)])) (\<lambda>_.
     ret r')))))"

definition reject_request :: "readings \<Rightarrow> string \<Rightarrow> string \<Rightarrow> string \<Rightarrow> (au_state, approval_request) action" where
  "reject_request orc rid reason decider =
     bind (pending_approval ''reject'' rid) (\<lambda>r.
     bind draw (\<lambda>n.
     let r' = r\<lparr>ar_status := AS_REJECTED, ar_decided_at := Some (or_now orc n), ar_decided_by := Some decider,
           ar_rejection_reason := Some reason\<rparr> in
     bind (persist (sql_save_approval_request r')) (\<lambda>_.
     bind (au_log orc (au_event ''APPROVAL_REJECTED'' ''USER'' (Some (ar_project_id r')) (Some (ar_task_id r'))
       [(''approval_id'', PStr (ar_id r')), (''action'', PStr (ar_action r')), (''reason'', PStr reason)])) (\<lambda>_.
     ret r'))))"

definition grant_approval :: "readings \<Rightarrow> string \<Rightarrow> string \<Rightarrow> (au_state, approval_request) action" where
  "grant_approval orc rid decided_by = approve_request orc rid decided_by"

definition reject_approval :: "readings \<Rightarrow> string \<Rightarrow> string \<Rightarrow> string \<Rightarrow> (au_state, approval_request) action" where
  "reject_approval orc rid reason decided_by = reject_request orc rid reason decided_by"

definition list_pending_approvals :: "string \<Rightarrow> (au_state, approval_request list) action" where
  "list_pending_approvals pid =
     consult (\<lambda>db. sql_list_approval_requests db (Some pid) (Some (approval_status_value AS_PENDING))) []"


section \<open>Questions and decisions\<close>

definition request_user_input ::
  "readings \<Rightarrow> string \<Rightarrow> string \<Rightarrow> string \<Rightarrow> string \<Rightarrow> string option \<Rightarrow> (au_state, user_input_request) action" where
  "request_user_input orc pid tid question ctx workflow =
     bind draw (\<lambda>n.
     let r = \<lparr>ui_id = short_id orc ''input-'' n, ui_project_id = pid, ui_workflow_id = workflow, ui_task_id = tid,
           ui_question = question, ui_context = ctx, ui_answer = None, ui_status = US_PENDING,
           ui_created_at = or_now orc n, ui_answered_at = None, ui_metadata = []\<rparr> in
     bind (persist (sql_save_user_input_request r)) (\<lambda>_.
     bind (au_log orc (au_event ''USER_INPUT_REQUESTED'' ''RUNTIME'' (Some pid) (Some tid)
       [(''request_id'', PStr (ui_id r)), (''question'', PStr question), (''context'', PStr ctx)])) (\<lambda>_.
     ret r)))"

definition answer_user_input :: "readings \<Rightarrow> string \<Rightarrow> string \<Rightarrow> (au_state, user_input_request) action" where
  "answer_user_input orc rid answer =
     bind (consult (\<lambda>db. sql_get_user_input_request db rid) None) (\<lambda>x.
     case x of
       None \<Rightarrow> raise (ValidationError (''User input request '' @ quoted rid @ '' not found.'') [])
     | Some r \<Rightarrow>
         bind draw (\<lambda>n.
         let r' = r\<lparr>ui_answer := Some answer, ui_status := US_ANSWERED, ui_answered_at := Some (or_now orc n)\<rparr> in
         bind (persist (sql_save_user_input_request r')) (\<lambda>_.
         bind (au_log orc (au_event ''USER_INPUT_RECEIVED'' ''USER'' (Some (ui_project_id r')) (Some (ui_task_id r'))
           [(''request_id'', PStr (ui_id r')), (''answer'', PStr answer)])) (\<lambda>_.
         ret r'))))"

definition request_decision ::
  "readings \<Rightarrow> string \<Rightarrow> string \<Rightarrow> string \<Rightarrow> string list \<Rightarrow> string \<Rightarrow> string option \<Rightarrow> (au_state, decision_request) action" where
  "request_decision orc pid tid title options rationale workflow =
     bind draw (\<lambda>n.
     let r = \<lparr>dr_id = short_id orc ''dec-'' n, dr_project_id = pid, dr_workflow_id = workflow, dr_task_id = tid,
           dr_title = title, dr_options = options, dr_chosen_option = None, dr_rationale = rationale,
           dr_status = DS_PENDING, dr_created_at = or_now orc n, dr_decided_at = None, dr_metadata = []\<rparr> in
     bind (persist (sql_save_decision_request r)) (\<lambda>_.
     bind (au_log orc (au_event ''DECISION_REQUESTED'' ''RUNTIME'' (Some pid) (Some tid)
       [(''decision_id'', PStr (dr_id r)), (''title'', PStr title), (''options'', str_list options)])) (\<lambda>_.
     ret r)))"

definition choose_decision :: "readings \<Rightarrow> string \<Rightarrow> string \<Rightarrow> (au_state, decision_request) action" where
  "choose_decision orc rid chosen =
     bind (consult (\<lambda>db. sql_get_decision_request db rid) None) (\<lambda>x.
     case x of
       None \<Rightarrow> raise (ValidationError (''Decision request '' @ quoted rid @ '' not found.'') [])
     | Some r \<Rightarrow>
         if chosen \<notin> set (dr_options r) then
           raise (ValidationError (''Option '' @ quoted chosen @ '' is not one of valid options: '' @
             repr_val (str_list (dr_options r))) [])
         else
           bind draw (\<lambda>n.
           let r' = r\<lparr>dr_chosen_option := Some chosen, dr_status := DS_DECIDED, dr_decided_at := Some (or_now orc n)\<rparr> in
           bind (persist (sql_save_decision_request r')) (\<lambda>_.
           bind (au_log orc (au_event ''DECISION_RECEIVED'' ''USER'' (Some (dr_project_id r')) (Some (dr_task_id r'))
             [(''decision_id'', PStr (dr_id r')), (''chosen_option'', PStr chosen)])) (\<lambda>_.
           ret r'))))"

definition list_pending_user_inputs :: "string \<Rightarrow> (au_state, user_input_request list) action" where
  "list_pending_user_inputs pid =
     consult (\<lambda>db. sql_list_user_input_requests db (Some pid) (Some (user_input_status_value US_PENDING))) []"

definition respond_to_user_input :: "readings \<Rightarrow> string \<Rightarrow> string \<Rightarrow> (au_state, user_input_request) action" where
  "respond_to_user_input orc rid answer = answer_user_input orc rid answer"

definition list_pending_decisions :: "string \<Rightarrow> (au_state, decision_request list) action" where
  "list_pending_decisions pid =
     consult (\<lambda>db. sql_list_decision_requests db (Some pid) (Some (decision_request_status_value DS_PENDING))) []"

definition respond_to_decision :: "readings \<Rightarrow> string \<Rightarrow> string \<Rightarrow> string \<Rightarrow> (au_state, decision_request) action" where
  \<comment> \<open>the rationale is not passed on\<close>
  "respond_to_decision orc rid chosen rationale = choose_decision orc rid chosen"


section \<open>What the service does to requests\<close>

definition approvals :: "au_state \<Rightarrow> (string, approval_request) dict" where
  "approvals st = (case au_backend st of Sqlite db \<Rightarrow> db_approvals db | In_Memory s \<Rightarrow> [])"

definition decisions :: "au_state \<Rightarrow> (string, decision_request) dict" where
  "decisions st = (case au_backend st of Sqlite db \<Rightarrow> db_decision_requests db | In_Memory s \<Rightarrow> [])"

definition chosen_valid :: "decision_request \<Rightarrow> bool" where
  "chosen_valid q \<longleftrightarrow> (dr_status q = DS_DECIDED \<longrightarrow> (\<exists>x. dr_chosen_option q = Some x \<and> x \<in> set (dr_options q)))"

text \<open>The invariant: identifiers were drawn before, tokens come from approved requests, decisions are valid.\<close>

definition au_ok :: "readings \<Rightarrow> au_state \<Rightarrow> bool" where
  "au_ok orc st \<longleftrightarrow>
     table_ok ar_id (approvals st) \<and> table_ok dr_id (decisions st)
     \<and> all_rows (\<lambda>r. \<exists>k < au_tick st. ar_id r = short_id orc ''app-'' k) (approvals st)
     \<and> (\<forall>t \<in> set (au_tokens st). \<exists>rid r. dict_get (approvals st) rid = Some r \<and> ar_status r = AS_APPROVED \<and> t = action_token r)
     \<and> all_rows chosen_valid (decisions st)"

definition decided_stay :: "au_state \<Rightarrow> au_state \<Rightarrow> bool" where
  "decided_stay st st' \<longleftrightarrow>
     (\<forall>rid r. dict_get (approvals st) rid = Some r \<longrightarrow> ar_status r \<noteq> AS_PENDING \<longrightarrow> dict_get (approvals st') rid = Some r)"

definition au_sound :: "readings \<Rightarrow> au_state \<Rightarrow> au_state \<Rightarrow> bool" where
  "au_sound orc st st' \<longleftrightarrow> (au_ok orc st \<longrightarrow> au_ok orc st' \<and> decided_stay st st')"

lemma au_sound_rel: "reflp (au_sound orc)" "transp (au_sound orc)"
  by (auto simp: au_sound_def decided_stay_def reflp_def transp_def)

lemmas au_bind = keeps_bind [OF au_sound_rel(2)]

text \<open>Most of what the service does leaves the requests alone.\<close>

definition same_requests :: "au_state \<Rightarrow> au_state \<Rightarrow> bool" where
  "same_requests st st' \<longleftrightarrow> approvals st' = approvals st \<and> decisions st' = decisions st
     \<and> au_tokens st' = au_tokens st \<and> au_tick st \<le> au_tick st'"

lemma same_requests_sound: "same_requests st st' \<Longrightarrow> au_sound orc st st'"
  by (auto simp: same_requests_def au_sound_def au_ok_def decided_stay_def elim!: all_rows_mono)
    (blast intro: order_less_le_trans)

named_theorems au_quiet \<open>computations that leave the requests alone\<close>

lemma same_requests_rel: "reflp same_requests" "transp same_requests"
  by (auto simp: same_requests_def reflp_def transp_def)

lemmas quiet_bind = keeps_bind [OF same_requests_rel(2)]
lemmas quiet_ret [au_quiet] = keeps_ret [OF same_requests_rel(1)] keeps_raise [OF same_requests_rel(1)]

lemma quiet_draw [au_quiet]: "keeps same_requests draw"
  by (simp add: keeps_def same_requests_def draw_def approvals_def decisions_def)

lemma quiet_consult [au_quiet]: "keeps same_requests (consult f x)"
  by (auto simp: keeps_def same_requests_def consult_def split: backend.splits)

lemma quiet_log [au_quiet]: "keeps same_requests (au_log orc a)"
  by (auto simp: keeps_def same_requests_def au_log_def approvals_def decisions_def Let_def sql_append_event_def
      split: backend.splits sum.splits if_splits)

lemma quiet_stop [au_quiet]: "keeps same_requests (\<lambda>st. (x, st\<lparr>au_stopped := b, au_stop_reason := r\<rparr>))"
  "keeps same_requests (\<lambda>st. (f st, st))"
  by (simp_all add: keeps_def same_requests_def approvals_def decisions_def)

lemma quiet_persist [au_quiet]:
  assumes "\<And>db db'. f db = Inr db' \<Longrightarrow> db_approvals db' = db_approvals db \<and> db_decision_requests db' = db_decision_requests db"
  shows "keeps same_requests (persist f)"
  using assms by (auto simp: keeps_def same_requests_def persist_def approvals_def decisions_def split: backend.splits sum.splits)

lemma quiet_save_policy [au_quiet]: "keeps same_requests (persist (sql_save_autonomy_policy p))"
  by (rule quiet_persist) (auto simp: sql_save_autonomy_policy_def save_upsert_defs split: option.splits if_splits)

lemma quiet_save_input [au_quiet]: "keeps same_requests (persist (sql_save_user_input_request r))"
  by (rule quiet_persist) (auto simp: sql_save_user_input_request_def save_upsert_defs split: if_splits)

lemma quiet_ops [au_quiet]:
  "keeps same_requests (set_emergency_stop orc reason actor)" "keeps same_requests (clear_emergency_stop orc actor)"
  "keeps same_requests (create_policy orc pid level allowed denied_list required metadata)"
  "keeps same_requests (get_policy_for_project orc pid)"
  "keeps same_requests (request_user_input orc pid tid question ctx workflow)"
  "keeps same_requests (answer_user_input orc rid answer)"
  "keeps same_requests (pending_approval verb rid)"
  unfolding set_emergency_stop_def clear_emergency_stop_def create_policy_def get_policy_for_project_def
    request_user_input_def answer_user_input_def pending_approval_def Let_def
  by (intro quiet_bind au_quiet allI; auto split: option.split intro!: quiet_bind au_quiet)+

lemma quiet_evaluate [au_quiet]: "keeps same_requests (evaluate_tool_action orc pid tool args)"
  unfolding evaluate_tool_action_def Let_def
  by (intro quiet_bind au_quiet; auto split: policy_result.split intro!: quiet_bind au_quiet)

lemma bind_draw: "bind draw f st = f (au_tick st) (st\<lparr>au_tick := au_tick st + 1\<rparr>)"
  by (simp add: bind_def draw_def)

lemma bind_Inl [simp]: "m st = (Inl e, st') \<Longrightarrow> bind m f st = (Inl e, st')"
  and bind_Inr_apply [simp]: "m st = (Inr x, st') \<Longrightarrow> bind m f st = f x st'"
  by (simp_all add: bind_def)

lemma approvals_simps [simp]:
  "approvals (st\<lparr>au_tick := n\<rparr>) = approvals st" "decisions (st\<lparr>au_tick := n\<rparr>) = decisions st"
  "approvals (st\<lparr>au_tokens := ts\<rparr>) = approvals st" "decisions (st\<lparr>au_tokens := ts\<rparr>) = decisions st"
  "approvals (st\<lparr>au_backend := Sqlite db\<rparr>) = db_approvals db" "decisions (st\<lparr>au_backend := Sqlite db\<rparr>) = db_decision_requests db"
  by (simp_all add: approvals_def decisions_def)

text \<open>Saving an approval: nothing happens, or its row is the new one.\<close>

lemma save_approval_cases:
  obtains (no) e where "persist (sql_save_approval_request r) st = (Inl e, st)"
  | (memory) s where "au_backend st = In_Memory s" "persist (sql_save_approval_request r) st = (Inr (), st)"
  | (yes) db db' where "au_backend st = Sqlite db" "persist (sql_save_approval_request r) st = (Inr (), st\<lparr>au_backend := Sqlite db'\<rparr>)"
      "db_approvals db' = upsert keep_approval (ar_id r) r (approvals st)" "db_decision_requests db' = decisions st"
proof (cases "au_backend st")
  case (Sqlite db)
  show thesis
  proof (cases "sql_save_approval_request r db")
    case (Inr db')
    then have "db_approvals db' = upsert keep_approval (ar_id r) r (approvals st)" "db_decision_requests db' = decisions st"
      using Sqlite
      by (auto simp: sql_save_approval_request_def save_upsert_defs approvals_def decisions_def split: if_splits)
    with Inr Sqlite yes show thesis by (simp add: persist_def)
  qed (use Sqlite no in \<open>simp add: persist_def\<close>)
qed (use memory in \<open>simp add: persist_def\<close>)

lemma save_decision_cases:
  obtains (no) e where "persist (sql_save_decision_request r) st = (Inl e, st)"
  | (memory) s where "au_backend st = In_Memory s" "persist (sql_save_decision_request r) st = (Inr (), st)"
  | (yes) db db' where "au_backend st = Sqlite db" "persist (sql_save_decision_request r) st = (Inr (), st\<lparr>au_backend := Sqlite db'\<rparr>)"
      "db_decision_requests db' = upsert keep_decision_request (dr_id r) r (decisions st)" "db_approvals db' = approvals st"
proof (cases "au_backend st")
  case (Sqlite db)
  show thesis
  proof (cases "sql_save_decision_request r db")
    case (Inr db')
    then have "db_decision_requests db' = upsert keep_decision_request (dr_id r) r (decisions st)" "db_approvals db' = approvals st"
      using Sqlite
      by (auto simp: sql_save_decision_request_def save_upsert_defs approvals_def decisions_def split: if_splits)
    with Inr Sqlite yes show thesis by (simp add: persist_def)
  qed (use Sqlite no in \<open>simp add: persist_def\<close>)
qed (use memory in \<open>simp add: persist_def\<close>)

text \<open>No two of the first \<open>N\<close> readings give the same short identifier.\<close>

definition short_ids_differ :: "readings \<Rightarrow> nat \<Rightarrow> bool" where
  "short_ids_differ orc N \<longleftrightarrow> inj_on (\<lambda>n. take 8 (or_uuid orc n)) {..<N}"

lemma all_rows_upsert: "P (merged keep k v d) \<Longrightarrow> all_rows P d \<Longrightarrow> all_rows P (upsert keep k v d)"
  by (simp add: upsert_def all_rows_set)

lemma fresh_approval_id:
  assumes "short_ids_differ orc N" and "au_tick st < N" and "au_ok orc st"
  shows "dict_get (approvals st) (short_id orc ''app-'' (au_tick st)) = None"
proof (rule ccontr)
  assume "\<not> ?thesis"
  then obtain r where r: "dict_get (approvals st) (short_id orc ''app-'' (au_tick st)) = Some r" by blast
  have "table_ok ar_id (approvals st)" using assms(3) by (simp add: au_ok_def)
  from table_ok_get [OF this r] have id: "ar_id r = short_id orc ''app-'' (au_tick st)" .
  moreover obtain k where "k < au_tick st" "ar_id r = short_id orc ''app-'' k"
    using assms(3) all_rowsD [OF _ r] by (auto simp: au_ok_def)
  ultimately show False
    using assms(1, 2) inj_onD [of "\<lambda>n. take 8 (or_uuid orc n)" "{..<N}" "au_tick st" k]
    by (simp add: short_id_def short_ids_differ_def)
qed

lemma sound_trans: "au_sound orc a b \<Longrightarrow> au_sound orc b c \<Longrightarrow> au_sound orc a c"
  using au_sound_rel(2) by (meson transpD)

lemma sound_tick [simp]: "au_sound orc st (st\<lparr>au_tick := Suc (au_tick st)\<rparr>)"
  by (rule same_requests_sound) (simp add: same_requests_def)

lemma sound_refl [simp]: "au_sound orc st st"
  using au_sound_rel(1) by (simp add: reflp_def)

text \<open>
  A step that draws a reading, saves an approval and then does nothing to the requests: it is enough to
  look at the save.
\<close>

lemma sound_save_approval:
  assumes op: "res = bind (persist (sql_save_approval_request r)) (\<lambda>_. rest) (st\<lparr>au_tick := au_tick st + 1\<rparr>)"
    and memory: "\<And>s. au_backend st = In_Memory s \<Longrightarrow> keeps same_requests rest"
    and saved: "\<And>db db' st2. au_backend st = Sqlite db \<Longrightarrow> st2 = st\<lparr>au_tick := au_tick st + 1, au_backend := Sqlite db'\<rparr> \<Longrightarrow>
        approvals st2 = upsert keep_approval (ar_id r) r (approvals st) \<Longrightarrow> decisions st2 = decisions st \<Longrightarrow>
        au_sound orc (st\<lparr>au_tick := au_tick st + 1\<rparr>) (snd (rest st2))"
  shows "au_sound orc st (snd res)"
proof (cases rule: save_approval_cases [of r "st\<lparr>au_tick := au_tick st + 1\<rparr>"])
  case (no e)
  then show ?thesis by (simp add: op)
next
  case (memory s)
  then have "keeps same_requests rest" using assms(2) by simp
  then have "au_sound orc (st\<lparr>au_tick := au_tick st + 1\<rparr>) (snd res)"
    using memory(2) by (simp add: op bind_def keeps_def same_requests_sound)
  then show ?thesis using sound_trans [OF sound_tick] by simp
next
  case (yes db db')
  have "snd res = snd (rest (st\<lparr>au_tick := au_tick st + 1, au_backend := Sqlite db'\<rparr>))"
    using yes(2) by (simp add: op bind_def)
  moreover have "au_sound orc (st\<lparr>au_tick := au_tick st + 1\<rparr>)
      (snd (rest (st\<lparr>au_tick := au_tick st + 1, au_backend := Sqlite db'\<rparr>)))"
    using yes by (intro saved [of db _ db']) simp_all
  ultimately show ?thesis using sound_trans [OF sound_tick] by simp
qed

lemma new_row_effect:
  assumes ok: "au_ok orc st" and fresh: "dict_get (approvals st) (ar_id r) = None" and pending: "ar_status r = AS_PENDING"
    and drawn: "\<exists>k < au_tick st. ar_id r = short_id orc ''app-'' k"
    and app: "approvals st' = upsert keep_approval (ar_id r) r (approvals st)" "decisions st' = decisions st"
    and rest: "au_tick st' = au_tick st" "au_tokens st' = au_tokens st"
  shows "au_sound orc st st'"
proof -
  have app': "approvals st' = dict_set (ar_id r) r (approvals st)"
    using app(1) fresh by (simp add: upsert_def merged_def)
  have get: "dict_get (approvals st') k = (if k = ar_id r then Some r else dict_get (approvals st) k)" for k
    by (simp add: app' dict_simps)
  have "\<exists>rid v. dict_get (approvals st') rid = Some v \<and> ar_status v = AS_APPROVED \<and> t = action_token v"
    if t: "t \<in> set (au_tokens st')" for t
  proof -
    obtain rid v where v: "dict_get (approvals st) rid = Some v" "ar_status v = AS_APPROVED" "t = action_token v"
      using ok t rest(2) by (auto simp: au_ok_def)
    with fresh have "dict_get (approvals st') rid = Some v" by (auto simp: get)
    with v show ?thesis by blast
  qed
  moreover have "all_rows (\<lambda>r. \<exists>k<au_tick st'. ar_id r = short_id orc ''app-'' k) (approvals st')"
    unfolding app' rest(1) using ok drawn by (intro all_rows_set) (simp_all add: au_ok_def)
  ultimately have "au_ok orc st'" using ok by (simp add: au_ok_def app' app(2))
  moreover have "decided_stay st st'" using fresh by (auto simp: decided_stay_def get)
  ultimately show ?thesis by (simp add: au_sound_def)
qed

lemma sound_request_approval:
  assumes "short_ids_differ orc N" and "au_tick st < N"
  shows "au_sound orc st (snd (request_approval orc pid tid wid act category risk reason scope workflow resources evidence st))"
    (is "au_sound orc st (snd (?op st))")
proof (cases "au_ok orc st")
  case True
  let ?st1 = "st\<lparr>au_tick := au_tick st + 1\<rparr>"
  define r where "r = \<lparr>ar_id = short_id orc ''app-'' (au_tick st), ar_project_id = pid, ar_workflow_id = workflow, ar_task_id = tid,
     ar_worker_id = wid, ar_action = act, ar_category = category, ar_risk_level = risk, ar_reason = reason,
     ar_requested_scope = scope, ar_affected_resources = resources, ar_evidence = evidence,
     ar_status = AS_PENDING, ar_created_at = or_now orc (au_tick st), ar_expires_at = None, ar_decided_at = None,
     ar_decided_by = None, ar_rejection_reason = None, ar_metadata = []\<rparr>"
  have fresh: "dict_get (approvals ?st1) (ar_id r) = None"
    using fresh_approval_id [OF assms True] by (simp add: r_def)
  have ok1: "au_ok orc ?st1" using True sound_tick [of orc st] unfolding au_sound_def by simp
  obtain a where op: "?op st = bind (persist (sql_save_approval_request r)) (\<lambda>_. bind (au_log orc a) (\<lambda>_. ret r)) ?st1"
    unfolding request_approval_def bind_draw r_def Let_def by blast
  have tail: "keeps same_requests (bind (au_log orc a) (\<lambda>_. ret r))"
    by (intro quiet_bind au_quiet)
  show ?thesis
  proof (rule sound_save_approval [OF op tail])
    fix db db' st2
    assume st2: "st2 = st\<lparr>au_tick := au_tick st + 1, au_backend := Sqlite db'\<rparr>"
      "approvals st2 = upsert keep_approval (ar_id r) r (approvals st)" "decisions st2 = decisions st"
    have "au_sound orc ?st1 st2"
      using st2 fresh by (intro new_row_effect [OF ok1 fresh]) (auto simp: r_def)
    then show "au_sound orc ?st1 (snd (bind (au_log orc a) (\<lambda>_. ret r) st2))"
      using same_requests_sound [OF keeps_snd [OF tail, of st2]] sound_trans by blast
  qed
qed (simp add: au_sound_def)

text \<open>Deciding a pending request.\<close>

lemma decided_row_effect:
  assumes ok: "au_ok orc st" and r: "dict_get (approvals st) rid = Some r" "ar_status r = AS_PENDING"
    and r': "r' = r\<lparr>ar_status := s, ar_decided_at := t, ar_decided_by := b, ar_rejection_reason := x\<rparr>"
    and app: "approvals st' = upsert keep_approval (ar_id r') r' (approvals st)" "decisions st' = decisions st"
    and rest: "au_tick st' = au_tick st"
      "\<forall>u \<in> set (au_tokens st'). u \<in> set (au_tokens st) \<or> s = AS_APPROVED \<and> u = action_token r'"
  shows "au_sound orc st st'"
proof -
  have tab: "table_ok ar_id (approvals st)" using ok by (simp add: au_ok_def)
  from table_ok_get [OF this r(1)] have id: "ar_id r = rid" .
  have merged: "merged keep_approval rid r' (approvals st) = r'"
    using r(1) by (cases r) (simp add: merged_def keep_approval_def r')
  have app': "approvals st' = dict_set rid r' (approvals st)"
    using app(1) merged id by (simp add: upsert_def r')
  have get: "dict_get (approvals st') k = (if k = rid then Some r' else dict_get (approvals st) k)" for k
    by (simp add: app' dict_simps)
  have tab': "table_ok ar_id (approvals st')" using tab id by (simp add: app' r')
  have "\<exists>i v. dict_get (approvals st') i = Some v \<and> ar_status v = AS_APPROVED \<and> u = action_token v"
    if "u \<in> set (au_tokens st')" for u
  proof (cases "u \<in> set (au_tokens st)")
    case True
    then obtain i v where v: "dict_get (approvals st) i = Some v" "ar_status v = AS_APPROVED" "u = action_token v"
      using ok by (auto simp: au_ok_def)
    with r have "dict_get (approvals st') i = Some v" by (auto simp: get)
    with v show ?thesis by blast
  next
    case False
    with rest(2) that have "s = AS_APPROVED" "u = action_token r'" by auto
    with get [of rid] show ?thesis by (intro exI [of _ rid] exI [of _ r']) (simp add: r')
  qed
  moreover have "all_rows (\<lambda>r. \<exists>k<au_tick st'. ar_id r = short_id orc ''app-'' k) (approvals st')"
    unfolding app' rest(1)
  proof (rule all_rows_set)
    show "all_rows (\<lambda>r. \<exists>k<au_tick st. ar_id r = short_id orc ''app-'' k) (approvals st)"
      using ok by (simp add: au_ok_def)
    from all_rowsD [OF this r(1)] show "\<exists>k<au_tick st. ar_id r' = short_id orc ''app-'' k"
      by (simp add: r')
  qed
  ultimately have "au_ok orc st'" using ok tab' by (simp add: au_ok_def app(2))
  moreover have "decided_stay st st'" using r by (auto simp: decided_stay_def get)
  ultimately show ?thesis by (simp add: au_sound_def)
qed

lemma pending_approval_cases:
  obtains (no) x where "pending_approval verb rid st = (Inl x, st)"
  | (yes) r where "pending_approval verb rid st = (Inr r, st)" "dict_get (approvals st) rid = Some r" "ar_status r = AS_PENDING"
proof (cases "au_backend st")
  case (In_Memory s)
  then show thesis using no by (simp add: pending_approval_def bind_def consult_def)
next
  case (Sqlite db)
  note yes' = yes
  show thesis
  proof (cases "dict_get (db_approvals db) rid")
    case None
    with Sqlite show thesis using no by (simp add: pending_approval_def bind_def consult_def sql_get_approval_request_def)
  next
    case (Some r)
    with Sqlite show thesis
      using no yes' [of r]
      by (cases "ar_status r = AS_PENDING")
        (simp_all add: pending_approval_def bind_def consult_def sql_get_approval_request_def approvals_def)
  qed
qed

text \<open>What follows the save in \<open>approve_request\<close>: the token, then the event.\<close>

lemma sound_decide:
  assumes ok: "au_ok orc st" and r: "dict_get (approvals st) rid = Some r" "ar_status r = AS_PENDING"
    and r': "r' = r\<lparr>ar_status := s, ar_decided_at := t, ar_decided_by := b, ar_rejection_reason := x\<rparr>"
    and op: "res = bind (persist (sql_save_approval_request r')) (\<lambda>_. rest) (st\<lparr>au_tick := au_tick st + 1\<rparr>)"
    and rest: "\<And>st2. rest st2 = tail (st2\<lparr>au_tokens := ts (au_tokens st2)\<rparr>)" "keeps same_requests tail"
    and ts: "\<And>us. \<forall>u \<in> set (ts us). u \<in> set us \<or> s = AS_APPROVED \<and> u = action_token r'"
  shows "au_sound orc st (snd res)"
proof (cases "au_backend st")
  case (Sqlite db)
  show ?thesis
  proof (rule sound_save_approval [OF op])
    fix db db' st2
    assume st2: "st2 = st\<lparr>au_tick := au_tick st + 1, au_backend := Sqlite db'\<rparr>"
      "approvals st2 = upsert keep_approval (ar_id r') r' (approvals st)" "decisions st2 = decisions st"
    let ?st1 = "st\<lparr>au_tick := au_tick st + 1\<rparr>" and ?st3 = "st2\<lparr>au_tokens := ts (au_tokens st2)\<rparr>"
    have ok1: "au_ok orc ?st1" using ok sound_tick [of orc st] unfolding au_sound_def by simp
    have "au_sound orc ?st1 ?st3"
      using st2 ts [of "au_tokens st"] r by (intro decided_row_effect [OF ok1 _ _ r']) simp_all
    then show "au_sound orc ?st1 (snd (rest st2))"
      using same_requests_sound [OF keeps_snd [OF rest(2), of ?st3]] sound_trans unfolding rest(1) by blast
  qed (use Sqlite in simp)
next
  case (In_Memory s)
  then show ?thesis using r(1) by (simp add: approvals_def)
qed

lemma sound_approve: "au_sound orc st (snd (approve_request orc rid approver st))"
proof (cases "au_ok orc st")
  case ok: True
  show ?thesis
  proof (cases rule: pending_approval_cases [of "''approve''" rid st])
    case (yes r)
    let ?r = "r\<lparr>ar_status := AS_APPROVED, ar_decided_at := Some (or_now orc (au_tick st)), ar_decided_by := Some approver\<rparr>"
    let ?tail = "bind (au_log orc (au_event ''APPROVAL_GRANTED'' ''USER'' (Some (ar_project_id ?r)) (Some (ar_task_id ?r))
       [(''approval_id'', PStr (ar_id ?r)), (''action'', PStr (ar_action ?r)), (''approved_by'', PStr approver)])) (\<lambda>_. ret ?r)"
    show ?thesis
    proof (rule sound_decide [OF ok yes(2, 3)])
      show "?r = r\<lparr>ar_status := AS_APPROVED, ar_decided_at := Some (or_now orc (au_tick st)),
          ar_decided_by := Some approver, ar_rejection_reason := ar_rejection_reason r\<rparr>" by simp
      show "approve_request orc rid approver st = bind (persist (sql_save_approval_request ?r))
          (\<lambda>_. bind (add_token (action_token ?r)) (\<lambda>_. ?tail)) (st\<lparr>au_tick := au_tick st + 1\<rparr>)"
        by (simp add: approve_request_def yes(1) bind_draw Let_def)
      show "bind (add_token (action_token ?r)) (\<lambda>_. ?tail) st2
          = ?tail (st2\<lparr>au_tokens := List.insert (action_token ?r) (au_tokens st2)\<rparr>)" for st2
        by (simp add: bind_def [of "add_token t" for t] add_token_def)
      show "keeps same_requests ?tail" by (intro quiet_bind au_quiet)
    qed (simp add: action_token_def)
  qed (simp add: approve_request_def)
qed (simp add: au_sound_def)

lemma sound_reject: "au_sound orc st (snd (reject_request orc rid reason decider st))"
proof (cases "au_ok orc st")
  case ok: True
  show ?thesis
  proof (cases rule: pending_approval_cases [of "''reject''" rid st])
    case (yes r)
    let ?r = "r\<lparr>ar_status := AS_REJECTED, ar_decided_at := Some (or_now orc (au_tick st)), ar_decided_by := Some decider,
      ar_rejection_reason := Some reason\<rparr>"
    let ?tail = "bind (au_log orc (au_event ''APPROVAL_REJECTED'' ''USER'' (Some (ar_project_id ?r)) (Some (ar_task_id ?r))
       [(''approval_id'', PStr (ar_id ?r)), (''action'', PStr (ar_action ?r)), (''reason'', PStr reason)])) (\<lambda>_. ret ?r)"
    show ?thesis
    proof (rule sound_decide [OF ok yes(2, 3) refl, where ts = "\<lambda>us. us"])
      show "reject_request orc rid reason decider st = bind (persist (sql_save_approval_request ?r))
          (\<lambda>_. ?tail) (st\<lparr>au_tick := au_tick st + 1\<rparr>)"
        by (simp add: reject_request_def yes(1) bind_draw Let_def)
      show "keeps same_requests ?tail" by (intro quiet_bind au_quiet)
    qed simp_all
  qed (simp add: reject_request_def)
qed (simp add: au_sound_def)

text \<open>Decision requests: the approvals are not touched, and the rows stay valid.\<close>

lemma sound_save_decision:
  assumes op: "res = bind (persist (sql_save_decision_request q)) (\<lambda>_. tail) (st\<lparr>au_tick := au_tick st + 1\<rparr>)"
    and tail: "keeps same_requests tail"
    and valid: "au_ok orc st \<Longrightarrow> chosen_valid (merged keep_decision_request (dr_id q) q (decisions st))"
  shows "au_sound orc st (snd res)"
proof (cases rule: save_decision_cases [of q "st\<lparr>au_tick := au_tick st + 1\<rparr>"])
  case (no e)
  then show ?thesis by (simp add: op)
next
  case (memory s)
  then have "au_sound orc (st\<lparr>au_tick := au_tick st + 1\<rparr>) (snd res)"
    using tail by (simp add: op bind_def keeps_def same_requests_sound)
  then show ?thesis using sound_trans [OF sound_tick] by simp
next
  case (yes db db')
  let ?st2 = "st\<lparr>au_tick := au_tick st + 1, au_backend := Sqlite db'\<rparr>"
  have dec: "decisions ?st2 = upsert keep_decision_request (dr_id q) q (decisions st)" and app: "approvals ?st2 = approvals st"
    using yes(3, 4) by simp_all
  have "au_sound orc st ?st2"
    unfolding au_sound_def
  proof (intro impI conjI)
    assume ok: "au_ok orc st"
    then have tab: "table_ok dr_id (decisions st)" by (simp add: au_ok_def)
    have "table_ok dr_id (decisions ?st2)"
      unfolding dec upsert_def using tab merged_key [OF tab, of q keep_decision_request]
      by (simp add: keep_decision_request_def)
    moreover have "all_rows chosen_valid (decisions ?st2)"
      unfolding dec using ok valid [OF ok] by (intro all_rows_upsert) (simp_all add: au_ok_def)
    ultimately show "au_ok orc ?st2"
      using ok unfolding au_ok_def app by (auto elim!: all_rows_mono simp: less_Suc_eq)
    show "decided_stay st ?st2" using app by (simp add: decided_stay_def)
  qed
  moreover have "au_sound orc ?st2 (snd res)"
    using yes(2) same_requests_sound [OF keeps_snd [OF tail, of ?st2]] by (simp add: op bind_def)
  ultimately show ?thesis by (rule sound_trans)
qed

lemma sound_request_decision: "au_sound orc st (snd (request_decision orc pid tid title options rationale workflow st))"
proof -
  define q where "q = \<lparr>dr_id = short_id orc ''dec-'' (au_tick st), dr_project_id = pid, dr_workflow_id = workflow, dr_task_id = tid,
     dr_title = title, dr_options = options, dr_chosen_option = None, dr_rationale = rationale,
     dr_status = DS_PENDING, dr_created_at = or_now orc (au_tick st), dr_decided_at = None, dr_metadata = []\<rparr>"
  obtain a where op: "request_decision orc pid tid title options rationale workflow st
      = bind (persist (sql_save_decision_request q)) (\<lambda>_. bind (au_log orc a) (\<lambda>_. ret q)) (st\<lparr>au_tick := au_tick st + 1\<rparr>)"
    unfolding request_decision_def bind_draw q_def Let_def by blast
  have "chosen_valid (merged keep_decision_request (dr_id q) q (decisions st))"
    by (auto simp: merged_def keep_decision_request_def chosen_valid_def q_def split: option.split)
  then show ?thesis
    by (intro sound_save_decision [OF op]) (auto intro!: quiet_bind au_quiet)
qed

lemma sound_choose: "au_sound orc st (snd (choose_decision orc rid chosen st))"
proof (cases "\<exists>db. au_backend st = Sqlite db \<and> (\<exists>r. sql_get_decision_request db rid = Some r \<and> chosen \<in> set (dr_options r))")
  case True
  then obtain db r where db: "au_backend st = Sqlite db" "sql_get_decision_request db rid = Some r" "chosen \<in> set (dr_options r)"
    by blast
  let ?q = "r\<lparr>dr_chosen_option := Some chosen, dr_status := DS_DECIDED, dr_decided_at := Some (or_now orc (au_tick st))\<rparr>"
  have "consult (\<lambda>db. sql_get_decision_request db rid) None st = (Inr (Some r), st)"
    using db by (simp add: consult_def)
  then have "\<exists>a. choose_decision orc rid chosen st = bind (persist (sql_save_decision_request ?q))
      (\<lambda>_. bind (au_log orc a) (\<lambda>_. ret ?q)) (st\<lparr>au_tick := au_tick st + 1\<rparr>)"
    using db(3) by (auto simp: choose_decision_def bind_draw Let_def)
  then obtain a where op: "choose_decision orc rid chosen st = bind (persist (sql_save_decision_request ?q))
      (\<lambda>_. bind (au_log orc a) (\<lambda>_. ret ?q)) (st\<lparr>au_tick := au_tick st + 1\<rparr>)" by blast
  have "chosen_valid (merged keep_decision_request (dr_id ?q) ?q (decisions st))" if ok: "au_ok orc st"
  proof -
    have get: "dict_get (decisions st) rid = Some r" using db by (simp add: decisions_def sql_get_decision_request_def)
    have "dr_id r = rid" using ok get by (auto simp: au_ok_def dest: table_ok_get)
    with get db(3) show ?thesis by (simp add: merged_def keep_decision_request_def chosen_valid_def)
  qed
  then show ?thesis by (intro sound_save_decision [OF op]) (auto intro!: quiet_bind au_quiet)
next
  case False
  then have "snd (choose_decision orc rid chosen st) = st"
    by (cases "au_backend st") (auto simp: choose_decision_def bind_def consult_def split: option.splits)
  then show ?thesis by simp
qed


section \<open>The service as a state machine\<close>

inductive au_step :: "readings \<Rightarrow> au_state \<Rightarrow> au_state \<Rightarrow> bool" for orc where
  stopping: "au_step orc st (snd (set_emergency_stop orc reason actor st))"
| resuming: "au_step orc st (snd (clear_emergency_stop orc actor st))"
| new_policy: "au_step orc st (snd (create_policy orc pid level allowed denied_list required metadata st))"
| evaluated: "au_step orc st (snd (evaluate_tool_action orc pid tool args st))"
| approval_asked: "au_step orc st (snd (request_approval orc pid tid wid act category risk reason scope workflow resources evidence st))"
| approved: "au_step orc st (snd (approve_request orc rid approver st))"
| rejected: "au_step orc st (snd (reject_request orc rid reason decider st))"
| question_asked: "au_step orc st (snd (request_user_input orc pid tid question ctx workflow st))"
| answered: "au_step orc st (snd (answer_user_input orc rid answer st))"
| decision_asked: "au_step orc st (snd (request_decision orc pid tid title options rationale workflow st))"
| decided: "au_step orc st (snd (choose_decision orc rid chosen st))"

text \<open>Readings are never given back.\<close>

definition later :: "au_state \<Rightarrow> au_state \<Rightarrow> bool" where
  "later st st' \<longleftrightarrow> au_tick st \<le> au_tick st'"

lemma later_rel: "reflp later" "transp later"
  by (auto simp: later_def reflp_def transp_def)

lemma quiet_later: "keeps same_requests m \<Longrightarrow> keeps later m"
  by (simp add: keeps_def same_requests_def later_def)

lemma later_persist: "keeps later (persist f)" "keeps later (add_token t)"
  by (auto simp: keeps_def later_def persist_def add_token_def split: backend.split sum.split)

lemmas laters = keeps_bind [OF later_rel(2)] later_persist quiet_later [OF quiet_draw] quiet_later [OF quiet_consult]
  quiet_later [OF quiet_log] keeps_ret [OF later_rel(1)] keeps_raise [OF later_rel(1)]
  quiet_later [OF quiet_ops(7)]

lemma later_ops:
  "keeps later (approve_request orc rid approver)" "keeps later (reject_request orc rid reason decider)"
  "keeps later (request_decision orc pid tid title options rationale workflow)" "keeps later (choose_decision orc rid chosen)"
  unfolding approve_request_def reject_request_def request_decision_def choose_decision_def Let_def
  by (intro laters; auto split: option.split intro!: laters)+

lemma later_request_approval:
  "au_tick st < au_tick (snd (request_approval orc pid tid wid act category risk reason scope workflow resources evidence st))"
proof -
  have "keeps later (bind (persist f) (\<lambda>_. bind (au_log orc a) (\<lambda>_. ret r)))" for f a and r :: approval_request
    by (intro laters)
  then have "au_tick (st\<lparr>au_tick := au_tick st + 1\<rparr>)
      \<le> au_tick (snd (request_approval orc pid tid wid act category risk reason scope workflow resources evidence st))"
    unfolding request_approval_def bind_draw Let_def keeps_def later_def by blast
  then show ?thesis by simp
qed

lemma quiet_sound: "keeps same_requests m \<Longrightarrow> au_sound orc st (snd (m st))"
  by (simp add: keeps_def same_requests_sound)

lemma au_step_later:
  assumes "au_step orc st st'"
  shows "au_tick st \<le> au_tick st'"
  using assms
proof cases
  case (approval_asked pid tid wid act category risk reason scope workflow resources evidence)
  then show ?thesis using later_request_approval less_imp_le by metis
qed (use keeps_snd [OF quiet_later [OF quiet_ops(1)]] keeps_snd [OF quiet_later [OF quiet_ops(2)]] keeps_snd [OF quiet_later [OF quiet_ops(3)]]
    keeps_snd [OF quiet_later [OF quiet_ops(5)]] keeps_snd [OF quiet_later [OF quiet_ops(6)]] keeps_snd [OF quiet_later [OF quiet_evaluate]]
    keeps_snd [OF later_ops(1)] keeps_snd [OF later_ops(2)] keeps_snd [OF later_ops(3)] keeps_snd [OF later_ops(4)]
    in \<open>simp_all add: later_def\<close>)

lemma au_step_sound:
  assumes "short_ids_differ orc N" and "au_step orc st st'" and "au_tick st' \<le> N"
  shows "au_sound orc st st'"
  using assms(2)
proof cases
  case (approval_asked pid tid wid act category risk reason scope workflow resources evidence)
  then have "au_tick st < N" using later_request_approval assms(3) order_less_le_trans by metis
  with approval_asked show ?thesis using sound_request_approval [OF assms(1)] by simp
qed (simp_all add: quiet_sound au_quiet sound_approve sound_reject sound_request_decision sound_choose)

lemma au_steps_later: "(au_step orc)\<^sup>*\<^sup>* st st' \<Longrightarrow> au_tick st \<le> au_tick st'"
  by (induction rule: rtranclp_induct) (auto dest: au_step_later)

lemma au_steps_sound:
  assumes "short_ids_differ orc N"
  shows "(au_step orc)\<^sup>*\<^sup>* st st' \<Longrightarrow> au_tick st' \<le> N \<Longrightarrow> au_sound orc st st'"
proof (induction rule: rtranclp_induct)
  case (step st1 st2)
  then have "au_tick st1 \<le> N" using au_step_later by fastforce
  with step show ?case using au_step_sound [OF assms] sound_trans by blast
qed simp

text \<open>A service that has just started on a database without requests.\<close>

definition fresh_service :: "database \<Rightarrow> au_state" where
  "fresh_service db = \<lparr>au_backend = Sqlite (db\<lparr>db_approvals := [], db_decision_requests := []\<rparr>), au_tick = 0,
     au_stopped = False, au_stop_reason = None, au_tokens = []\<rparr>"

lemma fresh_service_ok: "au_ok orc (fresh_service db)"
  by (simp add: au_ok_def fresh_service_def approvals_def decisions_def)


text \<open>
  A decided decision request always carries one of its own options: no history of the service
  stores another choice.
\<close>

theorem decisions_choose_options:
  assumes "short_ids_differ orc (au_tick st)" and "(au_step orc)\<^sup>*\<^sup>* (fresh_service db) st"
    and "dict_get (decisions st) rid = Some q" and "dr_status q = DS_DECIDED"
  shows "\<exists>x \<in> set (dr_options q). dr_chosen_option q = Some x"
proof -
  have "au_ok orc st" using au_steps_sound [OF assms(1, 2)] fresh_service_ok by (simp add: au_sound_def)
  then have "all_rows chosen_valid (decisions st)" by (simp add: au_ok_def)
  from all_rowsD [OF this assms(3)] assms(4) show ?thesis by (auto simp: chosen_valid_def)
qed

section \<open>A concrete history\<close>

definition counting :: readings where
  "counting = \<lparr>or_uuid = nat_str, or_now = nat_str, or_duration = nat_str\<rparr>"

definition au_start :: au_state where
  "au_start = fresh_service sample_database"

definition au_asked :: au_state where
  "au_asked = snd (request_approval counting ''p'' ''t'' ''w'' ''shell.execute'' AC_EXECUTE R_HIGH [] [] None [] [] au_start)"

definition au_approved :: au_state where
  "au_approved = snd (approve_request counting ''app-0'' ''User'' au_asked)"

definition au_contested :: au_state where
  "au_contested = snd (reject_request counting ''app-0'' ''late'' ''User'' au_approved)"

definition au_decided :: au_state where
  "au_decided = snd (choose_decision counting ''dec-0'' ''a''
     (snd (request_decision counting ''p'' ''t'' ''T'' [''a'', ''b''] [] None au_start)))"

lemma counting_differ: "short_ids_differ counting 20"
proof -
  have "distinct (map (\<lambda>n. take 8 (or_uuid counting n)) [0..<20])" by code_simp
  then show ?thesis by (simp add: short_ids_differ_def distinct_map lessThan_atLeast0)
qed

lemma short_ids_differ_mono: "short_ids_differ orc N \<Longrightarrow> M \<le> N \<Longrightarrow> short_ids_differ orc M"
  by (auto simp: short_ids_differ_def elim: inj_on_subset)


theorem decisions_choose_options_witness:
  "\<exists>q. dict_get (decisions au_decided) ''dec-0'' = Some q \<and> (\<exists>x \<in> set (dr_options q). dr_chosen_option q = Some x)"
proof -
  have tick: "au_tick au_decided \<le> 20" by code_simp
  have st: "map_option dr_status (dict_get (decisions au_decided) ''dec-0'') = Some DS_DECIDED" by code_simp
  have steps: "(au_step counting)\<^sup>*\<^sup>* (fresh_service sample_database) au_decided"
    unfolding au_start_def [symmetric] au_decided_def
    by (auto intro: au_step.intros rtranclp.rtrancl_into_rtrancl)
  obtain q where "dict_get (decisions au_decided) ''dec-0'' = Some q" "dr_status q = DS_DECIDED" using st by auto
  with decisions_choose_options [OF short_ids_differ_mono [OF counting_differ tick] steps] show ?thesis by blast
qed


section \<open>Emergency stop, policies in force, stores without the methods\<close>

lemma evaluate_stopped:
  "pd_result (evaluate_action did now p tool args True) = PR_DENY
   \<and> pd_risk_level (evaluate_action did now p tool args True) = R_CRITICAL
   \<and> px_matched_rules (pd_explanation (evaluate_action did now p tool args True)) = [''EMERGENCY_STOP_ACTIVE'']"
  by (cases "classify_action tool args") (simp add: evaluate_action_def decide_def)

lemma log_last:
  assumes "au_log orc a st = (Inr e, st')" and "au_backend st' = Sqlite db"
  shows "db_events db \<noteq> [] \<and> e_event_type (last (db_events db)) = ea_type a \<and> e_payload (last (db_events db)) = ea_payload a"
  using assms
  by (auto simp: au_log_def Let_def sql_append_event_def event_create_def split: backend.splits sum.splits if_splits)

lemma policy_keeps_stop:
  assumes "get_policy_for_project orc pid st = (r, st1)"
  shows "au_stopped st1 = au_stopped st"
  using assms
  by (auto simp: get_policy_for_project_def bind_def consult_def draw_def split: backend.splits option.splits prod.splits sum.splits)



text \<open>Saving a policy leaves the project with the saved level, lists and categories.\<close>

lemma saved_policy_row:
  assumes "db_ok db" and "sql_save_autonomy_policy p db = Inr db'"
  shows "\<exists>k q. (k, q) \<in> set (db_policies db') \<and> ap_project_id q = ap_project_id p
    \<and> ap_autonomy_level q = ap_autonomy_level p \<and> ap_denied_tools q = ap_denied_tools p
    \<and> ap_approval_required_actions q = ap_approval_required_actions p"
proof -
  have wf: "dict_wf (db_policies db)" using assms(1) by (simp add: db_ok_def keys_ok_def table_ok_def)
  show ?thesis
  proof (cases "find (\<lambda>r. ap_project_id r = ap_project_id p) (dict_values (db_policies db))")
    case None
    with assms(2) have "db' = db\<lparr>db_policies := dict_set (ap_id p) p (db_policies db)\<rparr>"
      by (auto simp: sql_save_autonomy_policy_def save_upsert_defs split: if_splits)
    then show ?thesis using set_dict_set [OF wf, of "ap_id p" p] by force
  next
    case (Some r)
    then have "ap_project_id r = ap_project_id p" by (auto dest: find_in_set)
    moreover have "db' = db\<lparr>db_policies := dict_set (ap_id r) (keep_policy r p) (db_policies db)\<rparr>"
      using assms(2) Some by (simp add: sql_save_autonomy_policy_def)
    ultimately show ?thesis using set_dict_set [OF wf, of "ap_id r" "keep_policy r p"]
      by (intro exI [of _ "ap_id r"] exI [of _ "keep_policy r p"]) (simp add: keep_policy_def)
  qed
qed

lemma persist_Inr:
  assumes "persist f st = (Inr u, st')" and "au_backend st = Sqlite db"
  obtains db' where "f db = Inr db'" "st' = st\<lparr>au_backend := Sqlite db'\<rparr>"
  using assms by (auto simp: persist_def split: sum.splits)

lemma au_log_Inr:
  assumes "au_log orc a st = (Inr e, st')" and "au_backend st = Sqlite db"
  obtains e0 db' where "sql_append_event e0 db = Inr (e, db')" "au_backend st' = Sqlite db'"
  using assms by (auto simp: au_log_def Let_def split: sum.splits prod.splits)

text \<open>
  The policy of a project is the last one created for it: after \<open>create_policy\<close> the database holds
  exactly one policy of the project, with the level, the deny list and the categories just given.
\<close>

theorem created_policy_in_force:
  assumes "au_backend st = Sqlite db" and "db_ok db"
    and "create_policy orc pid level allowed denied_list required metadata st = (Inr p, st')"
  shows "\<exists>db' q. au_backend st' = Sqlite db' \<and> db_ok db' \<and> sql_get_autonomy_policy_by_project db' pid = Some q
    \<and> ap_autonomy_level q = level \<and> ap_denied_tools q = denied_list \<and> ap_approval_required_actions q = required"
proof -
  define p0 where "p0 = \<lparr>ap_id = short_id orc ''pol-'' (au_tick st), ap_project_id = pid, ap_autonomy_level = level,
     ap_allowed_tools = allowed, ap_denied_tools = denied_list, ap_approval_required_actions = required,
     ap_max_cost_limit = ''10.0'', ap_max_iterations = 15, ap_max_external_actions_per_hour = 10, ap_version = 1,
     ap_created_at = or_now orc (au_tick st), ap_updated_at = or_now orc (au_tick st), ap_metadata = metadata\<rparr>"
  have "\<exists>u st1 e a. persist (sql_save_autonomy_policy p0) (st\<lparr>au_tick := au_tick st + 1\<rparr>) = (Inr u, st1)
      \<and> au_log orc a st1 = (Inr e, st')"
    using assms(3) unfolding create_policy_def bind_draw Let_def bind_Inr p0_def [symmetric] ret_apply by blast
  then obtain u st1 e a where save: "persist (sql_save_autonomy_policy p0) (st\<lparr>au_tick := au_tick st + 1\<rparr>) = (Inr u, st1)"
    and log: "au_log orc a st1 = (Inr e, st')" by blast
  have p0: "ap_project_id p0 = pid" "ap_autonomy_level p0 = level" "ap_denied_tools p0 = denied_list"
    "ap_approval_required_actions p0 = required" by (simp_all add: p0_def)
  obtain db1 where db1: "sql_save_autonomy_policy p0 db = Inr db1" "au_backend st1 = Sqlite db1"
    by (rule persist_Inr [OF save, of db]) (use assms(1) in simp_all)
  obtain e0 db' where db': "sql_append_event e0 db1 = Inr (e, db')" "au_backend st' = Sqlite db'"
    using au_log_Inr [OF log db1(2)] by blast
  have ok1: "db_ok db1" by (rule save_policy_ok [OF assms(2) db1(1)])
  have ok: "db_ok db'" by (rule append_event_ok [OF ok1 db'(1)])
  have same: "db_policies db' = db_policies db1"
    using db'(1) by (auto simp: sql_append_event_def Let_def split: if_splits)
  obtain k q where q: "(k, q) \<in> set (db_policies db')" "ap_project_id q = pid" "ap_autonomy_level q = level"
      "ap_denied_tools q = denied_list" "ap_approval_required_actions q = required"
    using saved_policy_row [OF assms(2) db1(1)] p0 unfolding same by auto
  have "sql_get_autonomy_policy_by_project db' pid = Some q"
  proof (cases "sql_get_autonomy_policy_by_project db' pid")
    case None
    with q show ?thesis by (force simp: sql_get_autonomy_policy_by_project_def find_None_iff)
  next
    case (Some r)
    then obtain k' where "(k', r) \<in> set (db_policies db')" "ap_project_id r = pid"
      by (auto simp: sql_get_autonomy_policy_by_project_def dest!: find_in_set)
    then have "r = q"
      using unique_on_values [of ap_project_id "db_policies db'" k' r k q] q ok by (simp add: db_ok_def uniques_ok_def)
    with Some show ?thesis by simp
  qed
  with db'(2) ok q show ?thesis by blast
qed

definition au_governed :: au_state where
  "au_governed = snd (create_policy counting ''p'' AL_FULL_AUTONOMY [] [''shell.execute''] [] [] au_start)"

theorem created_policy_in_force_witness:
  "\<exists>db' q. au_backend (snd (create_policy counting ''p'' AL_SUPERVISED [] [] [] [] au_governed)) = Sqlite db'
     \<and> sql_get_autonomy_policy_by_project db' ''p'' = Some q \<and> ap_autonomy_level q = AL_SUPERVISED"
proof -
  let ?db = "sample_database\<lparr>db_approvals := [], db_decision_requests := []\<rparr>"
  have ok: "db_ok ?db"
    using db_steps_ok [OF sample_reachable db_ok_empty] by (simp add: sample_database_def empty_database_def)
  let ?x = "create_policy counting ''p'' AL_FULL_AUTONOMY [] [''shell.execute''] [] [] au_start"
  have "case fst ?x of Inr p \<Rightarrow> True | Inl e \<Rightarrow> False" by code_simp
  then obtain p where "fst ?x = Inr p" by (auto split: sum.splits)
  then have p: "?x = (Inr p, au_governed)" unfolding au_governed_def by (metis prod.collapse)
  have start: "au_backend au_start = Sqlite ?db" by (simp add: au_start_def fresh_service_def)
  let ?y = "create_policy counting ''p'' AL_SUPERVISED [] [] [] [] au_governed"
  have "case fst ?y of Inr p \<Rightarrow> True | Inl e \<Rightarrow> False" by code_simp
  then obtain p' where "fst ?y = Inr p'" by (auto split: sum.splits)
  then have p': "?y = (Inr p', snd ?y)" by (metis prod.collapse)
  obtain db1 where "au_backend au_governed = Sqlite db1" "db_ok db1"
    using created_policy_in_force [OF start ok p] by blast
  from created_policy_in_force [OF this p'] show ?thesis by blast
qed

text \<open>
  On the in-memory store, which has none of the methods, no approval can ever be granted: approving
  any request, even one that has just been made, raises a validation error.
\<close>

theorem memory_store_never_approves:
  assumes "au_backend st = In_Memory s"
  shows "approve_request orc rid approver st
    = (Inl (ValidationError (''Approval request '' @ quoted rid @ '' not found.'') []), st)
    \<and> (\<forall>r st'. request_approval orc pid tid wid act category risk reason scope workflow resources evidence st = (Inr r, st')
         \<longrightarrow> fst (approve_request orc (ar_id r) approver st') = Inl (ValidationError (''Approval request '' @ quoted (ar_id r) @ '' not found.'') []))"
proof -
  have no: "approve_request orc rid approver st
    = (Inl (ValidationError (''Approval request '' @ quoted rid @ '' not found.'') []), st)"
    if "au_backend st = In_Memory s" for rid st s
    using that by (simp add: approve_request_def pending_approval_def bind_def consult_def)
  have "\<exists>s'. au_backend st' = In_Memory s'"
    if "request_approval orc pid tid wid act category risk reason scope workflow resources evidence st = (Inr r, st')" for r st'
    using that assms unfolding request_approval_def bind_draw Let_def
    by (auto simp: bind_def persist_def au_log_def Let_def split: prod.splits sum.splits)
  with no assms show ?thesis by fastforce
qed

theorem memory_store_never_approves_witness:
  "approve_request counting ''app-0'' ''User'' (au_start\<lparr>au_backend := In_Memory empty_store\<rparr>)
    = (Inl (ValidationError (''Approval request '' @ quoted ''app-0'' @ '' not found.'') []),
       au_start\<lparr>au_backend := In_Memory empty_store\<rparr>)"
  using memory_store_never_approves [of "au_start\<lparr>au_backend := In_Memory empty_store\<rparr>" empty_store] by simp

text \<open>
  A policy's version does not count its updates: every replacement made through the service is stored as
  version 2, and the policy the caller gets back has version 1 and an identifier that is not stored.
\<close>

lemma replaced_policy_version:
  "map_option (\<lambda>q. (ap_id q, ap_version q)) (case au_backend (snd (create_policy counting ''p'' AL_BALANCED [] [] [] []
      (snd (create_policy counting ''p'' AL_SUPERVISED [] [] [] [] au_governed)))) of
      Sqlite db \<Rightarrow> sql_get_autonomy_policy_by_project db ''p'' | In_Memory s \<Rightarrow> None) = Some (''pol-0'', 2)"
  by code_simp

text \<open>A decided request can be decided again.\<close>

lemma decision_is_not_final:
  "map_option dr_chosen_option (dict_get (decisions (snd (choose_decision counting ''dec-0'' ''b'' au_decided))) ''dec-0'')
    = Some (Some ''b'') \<and> map_option dr_chosen_option (dict_get (decisions au_decided) ''dec-0'') = Some (Some ''a'')"
  by code_simp

text \<open>
  The token of a granted approval is not consulted by the evaluation: the approved call needs approval
  again.
\<close>

lemma approval_not_honoured:
  "(let asked = snd (request_approval counting ''p'' ''t'' ''w'' ''shell.execute'' AC_EXECUTE R_LOW [] [] None [] []
        (snd (create_policy counting ''p'' AL_SUPERVISED [] [] [] [] au_start)));
       granted = snd (approve_request counting ''app-3'' ''User'' asked)
    in au_tokens granted = [''p:t:shell.execute'']
       \<and> map_sum (\<lambda>_. ()) pd_result (fst (evaluate_tool_action counting ''p'' ''shell.execute'' [] granted)) = Inr PR_APPROVAL_REQUIRED)"
  by code_simp

end
