(* ===== verification/Workflow.thy ===== *)
theory Workflow
  imports Autonomy_Service Dynamic_Values
begin

text \<open>
  Multi-worker workflows: \<open>core/workflow/handoff.py\<close>, \<open>core/workflow/coordinator.py\<close> and the summary of
  \<open>core/workflow/summary.py\<close>. The coordinator keeps handoffs, attempts and defect links in memory beside
  what the store persists; the store is reached through the same guards as in the autonomy service.
\<close>

section \<open>Handoffs\<close>

text \<open>
  \<open>output.artifacts\<close> is an attribute access. The class of \<open>core/models.py\<close> has no such attribute; the
  lookup is an argument, so that an output of another class can be given.
\<close>

definition worker_output_artifacts :: "worker_output \<Rightarrow> error + pyval list" where
  "worker_output_artifacts out = Inl (AttributeError ''WorkerOutput object has no attribute artifacts'')"

definition create_handoff ::
  "(worker_output \<Rightarrow> error + pyval list) \<Rightarrow> readings \<Rightarrow> nat \<Rightarrow> string \<Rightarrow> string \<Rightarrow> task \<Rightarrow> worker_output \<Rightarrow>
    string option \<Rightarrow> string option \<Rightarrow> handoff_type \<Rightarrow> string option \<Rightarrow> error + worker_handoff" where
  "create_handoff artifacts_of orc n pid source t out dest_worker dest_task ty workflow =
     (let summary = (if o_summary out = [] then
            ''Work completed by '' @ source @ '' for task '' @ quoted (t_title t) @ ''.'' else o_summary out)
      in
      sbind (artifacts_of out) (\<lambda>arts.
      sbind (case dict_get (o_metadata out) ''evidence_ids'' of None \<Rightarrow> Inr [] | Some v \<Rightarrow> list_of v) (\<lambda>evidence.
      Inr \<lparr>hf_id = short_id orc ''hoff-'' n, hf_project_id = pid, hf_source_worker = source, hf_source_task_id = t_id t,
           hf_destination_worker = dest_worker, hf_destination_task_id = dest_task, hf_handoff_type = ty,
           hf_artifacts = arts, hf_evidence = evidence, hf_summary = summary,
           hf_requirements = t_success_criteria t,
           hf_warnings = (if o_success out then [] else [''Task reported non-success: '' @ summary]),
           hf_workflow_id = workflow, hf_created_at = or_now orc n, hf_metadata = o_metadata out\<rparr>)))"

definition validate_handoff :: "worker_handoff \<Rightarrow> string \<Rightarrow> error + unit" where
  "validate_handoff h target =
     (if hf_project_id h \<noteq> target then
        Inl (ValidationError (''Cross-project handoff violation: handoff project '' @ quoted (hf_project_id h)
          @ '' does not match destination project '' @ quoted target @ ''.'') [])
      else if hf_source_task_id h = [] then Inl (ValidationError ''Invalid handoff: source_task_id is missing.'' [])
      else if hf_source_worker h = [] then Inl (ValidationError ''Invalid handoff: source_worker is missing.'' [])
      else Inr ())"


section \<open>The coordinator\<close>

record wc_state =
  wc_rt :: au_state
  wc_handoffs :: "(string, worker_handoff list) dict"
  wc_attempts :: "(string, execution_attempt list) dict"
  wc_defect_links :: "(string, defect_linkage list) dict"

definition on_rt :: "(au_state, 'a) action \<Rightarrow> (wc_state, 'a) action" where
  "on_rt m st = (case m (wc_rt st) of (r, rt) \<Rightarrow> (r, st\<lparr>wc_rt := rt\<rparr>))"

definition rt_read :: "(database \<Rightarrow> 'a) \<Rightarrow> (store \<Rightarrow> 'a) \<Rightarrow> wc_state \<Rightarrow> 'a" where
  \<comment> \<open>a read both stores have\<close>
  "rt_read f g st = (case au_backend (wc_rt st) of Sqlite db \<Rightarrow> f db | In_Memory s \<Rightarrow> g s)"

definition rt_project :: "string \<Rightarrow> (wc_state, project) action" where
  "rt_project pid st =
     (case rt_read (\<lambda>db. sql_get_project db pid) (\<lambda>s. get_project s pid) st of
        None \<Rightarrow> (Inl (ProjectNotFoundError pid), st) | Some p \<Rightarrow> (Inr p, st))"

definition rt_task :: "string \<Rightarrow> (wc_state, task) action" where
  "rt_task tid st =
     (case rt_read (\<lambda>db. sql_get_task db tid) (\<lambda>s. get_task s tid) st of
        None \<Rightarrow> (Inl (TaskNotFoundError tid), st) | Some t \<Rightarrow> (Inr t, st))"

definition rt_workers :: "wc_state \<Rightarrow> worker list" where
  "rt_workers st = rt_read sql_list_workers list_workers st"

definition listed :: "string \<Rightarrow> (string, 'a list) dict \<Rightarrow> 'a list" where
  \<comment> \<open>\<open>d.get(k, [])\<close>\<close>
  "listed k d = (case dict_get d k of None \<Rightarrow> [] | Some xs \<Rightarrow> xs)"

definition not_found :: "string \<Rightarrow> error" where
  "not_found wid = ValidationError (''Workflow '' @ quoted wid @ '' not found.'') []"

definition create_workflow ::
  "readings \<Rightarrow> string \<Rightarrow> string \<Rightarrow> string \<Rightarrow> string option \<Rightarrow> workflow_priority \<Rightarrow> workflow_budget option \<Rightarrow> pydict \<Rightarrow>
    (wc_state, workflow) action" where
  "create_workflow orc pid title objective root priority budget metadata =
     bind (rt_project pid) (\<lambda>_.
     bind (on_rt draw) (\<lambda>n.
     let w = \<lparr>wk_id = short_id orc ''wf-'' n, wk_project_id = pid, wk_title = title, wk_objective = objective,
           wk_root_task_id = root, wk_status = WS_CREATED, wk_priority = priority, wk_tasks = [], wk_current_step = 0,
           wk_budget = (case budget of None \<Rightarrow> default_workflow_budget | Some b \<Rightarrow> b), wk_metadata = metadata,
           wk_created_at = or_now orc n, wk_updated_at = or_now orc n, wk_completed_at = None\<rparr> in
     bind (on_rt (persist (sql_save_workflow w))) (\<lambda>_.
     bind (on_rt (au_log orc (au_event ''WORKFLOW_CREATED'' ''RUNTIME'' (Some pid) None
       [(''workflow_id'', PStr (wk_id w)), (''title'', PStr title), (''objective'', PStr objective),
        (''priority'', PStr (workflow_priority_value priority))]))) (\<lambda>_.
     ret w))))"

definition get_workflow :: "string \<Rightarrow> (wc_state, workflow option) action" where
  "get_workflow wid = on_rt (consult (\<lambda>db. sql_get_workflow db wid) None)"

definition list_workflows :: "string option \<Rightarrow> (wc_state, workflow list) action" where
  "list_workflows pid = on_rt (consult (\<lambda>db. sql_list_workflows db pid) [])"

definition require_workflow :: "string \<Rightarrow> (wc_state, workflow) action" where
  "require_workflow wid =
     bind (get_workflow wid) (\<lambda>x. case x of None \<Rightarrow> raise (not_found wid) | Some w \<Rightarrow> ret w)"

definition update_workflow_status :: "readings \<Rightarrow> string \<Rightarrow> workflow_status \<Rightarrow> string \<Rightarrow> (wc_state, workflow) action" where
  "update_workflow_status orc wid new reason =
     bind (require_workflow wid) (\<lambda>w.
     bind (on_rt draw) (\<lambda>n.
     let w' = w\<lparr>wk_status := new, wk_updated_at := or_now orc n,
           wk_completed_at := (if new \<in> {WS_COMPLETED, WS_FAILED, WS_CANCELLED} then Some (or_now orc n) else wk_completed_at w)\<rparr> in
     bind (on_rt (persist (sql_save_workflow w'))) (\<lambda>_.
     bind (on_rt (au_log orc (au_event ''WORKFLOW_STATUS_CHANGED'' ''RUNTIME'' (Some (wk_project_id w')) None
       [(''workflow_id'', PStr (wk_id w')), (''old_status'', PStr (workflow_status_value (wk_status w))),
        (''new_status'', PStr (workflow_status_value new)), (''reason'', PStr reason)]))) (\<lambda>_.
     ret w'))))"

definition pause_workflow :: "readings \<Rightarrow> string \<Rightarrow> string \<Rightarrow> (wc_state, workflow) action" where
  "pause_workflow orc wid reason = update_workflow_status orc wid WS_PAUSED reason"

definition resume_workflow :: "readings \<Rightarrow> string \<Rightarrow> string \<Rightarrow> (wc_state, workflow) action" where
  "resume_workflow orc wid reason = update_workflow_status orc wid WS_RUNNING reason"

definition cancel_workflow :: "readings \<Rightarrow> string \<Rightarrow> string \<Rightarrow> (wc_state, workflow) action" where
  "cancel_workflow orc wid reason = update_workflow_status orc wid WS_CANCELLED reason"

definition add_task_to_workflow :: "readings \<Rightarrow> string \<Rightarrow> string \<Rightarrow> (wc_state, unit) action" where
  "add_task_to_workflow orc wid tid =
     bind (require_workflow wid) (\<lambda>w.
     if tid \<in> set (wk_tasks w) then ret ()
     else bind (on_rt draw) (\<lambda>n.
       on_rt (persist (sql_save_workflow (w\<lparr>wk_tasks := wk_tasks w @ [tid], wk_updated_at := or_now orc n\<rparr>)))))"

text \<open>
  The attempt is numbered and put on the list of the task before it is persisted.
\<close>

definition record_execution_attempt ::
  "readings \<Rightarrow> string \<Rightarrow> string \<Rightarrow> string \<Rightarrow> string \<Rightarrow> string option \<Rightarrow> string \<Rightarrow> string option \<Rightarrow> pydict \<Rightarrow>
    (wc_state, execution_attempt) action" where
  "record_execution_attempt orc tid wid status version err duration workflow metadata =
     bind (on_rt draw) (\<lambda>n.
     bind (\<lambda>st. let old = listed tid (wc_attempts st);
              x = \<lparr>xa_id = short_id orc ''att-'' n, xa_task_id = tid, xa_attempt_number = int (length old) + 1,
                xa_worker_id = wid, xa_worker_version = version, xa_status = status, xa_workflow_id = workflow,
                xa_error_message = err, xa_duration_ms = duration, xa_started_at = or_now orc n,
                xa_completed_at = Some (or_now orc n), xa_metadata = metadata\<rparr>
            in (Inr x, st\<lparr>wc_attempts := dict_set tid (old @ [x]) (wc_attempts st)\<rparr>)) (\<lambda>x.
     bind (on_rt (persist (sql_save_execution_attempt x))) (\<lambda>_. ret x)))"

definition list_attempts :: "string \<Rightarrow> (wc_state, execution_attempt list) action" where
  "list_attempts tid =
     bind (on_rt (consult (\<lambda>db. sql_list_execution_attempts db tid) [])) (\<lambda>persisted st.
     (Inr (if persisted \<noteq> [] then persisted else listed tid (wc_attempts st)), st))"

definition record_handoff ::
  "(worker_output \<Rightarrow> error + pyval list) \<Rightarrow> readings \<Rightarrow> string \<Rightarrow> string \<Rightarrow> task \<Rightarrow> worker_output \<Rightarrow> string option \<Rightarrow>
    string option \<Rightarrow> handoff_type \<Rightarrow> string option \<Rightarrow> (wc_state, worker_handoff) action" where
  "record_handoff artifacts_of orc pid source t out dest_worker dest_task ty workflow =
     bind (on_rt draw) (\<lambda>n.
     bind (\<lambda>st. (sbind (create_handoff artifacts_of orc n pid source t out dest_worker dest_task ty workflow) (\<lambda>h.
              sbind (validate_handoff h pid) (\<lambda>_. Inr h)), st)) (\<lambda>h.
     bind (\<lambda>st. (Inr (), if given workflow
              then st\<lparr>wc_handoffs := dict_set (the workflow) (listed (the workflow) (wc_handoffs st) @ [h]) (wc_handoffs st)\<rparr>
              else st)) (\<lambda>_.
     bind (on_rt (persist (sql_save_worker_handoff h))) (\<lambda>_.
     bind (on_rt (au_log orc (au_event ''WORKFLOW_HANDOFF_EXECUTED'' ''RUNTIME'' (Some pid) (Some (t_id t))
       [(''handoff_id'', PStr (hf_id h)), (''workflow_id'', opt_str workflow), (''source_worker'', PStr source),
        (''destination_worker'', opt_str dest_worker), (''source_task_id'', PStr (t_id t)),
        (''destination_task_id'', opt_str dest_task), (''handoff_type'', PStr (handoff_type_value ty)),
        (''artifacts'', PList (hf_artifacts h)), (''evidence'', PList (hf_evidence h)), (''summary'', PStr (hf_summary h))]))) (\<lambda>_.
     ret h)))))"

definition list_handoffs :: "string \<Rightarrow> (wc_state, worker_handoff list) action" where
  "list_handoffs wid =
     bind (on_rt (consult (\<lambda>db. sql_list_worker_handoffs db (Some wid)) [])) (\<lambda>persisted st.
     (Inr (if persisted \<noteq> [] then persisted else listed wid (wc_handoffs st)), st))"

definition record_defect_link ::
  "string \<Rightarrow> string \<Rightarrow> string \<Rightarrow> string \<Rightarrow> string option \<Rightarrow> string option \<Rightarrow> string option \<Rightarrow> string option \<Rightarrow>
    (wc_state, defect_linkage) action" where
  "record_defect_link wid did otask oworker ftask fworker rtask rworker st =
     (let d = \<lparr>dl_defect_id = did, dl_originating_task_id = otask, dl_originating_worker_id = oworker,
           dl_fix_task_id = ftask, dl_fix_worker_id = fworker, dl_retest_task_id = rtask,
           dl_retest_worker_id = rworker, dl_status = ''OPEN''\<rparr>
      in (Inr d, st\<lparr>wc_defect_links := dict_set wid (listed wid (wc_defect_links st) @ [d]) (wc_defect_links st)\<rparr>))"


section \<open>Matching workers by capability\<close>

definition worker_capabilities :: "string list" where
  "worker_capabilities = [''RESEARCH'', ''CODE_GENERATION'', ''CODE_ANALYSIS'', ''TESTING'', ''UI_ANALYSIS'', ''DOCUMENTATION'',
     ''WEB_ACCESS'', ''FILE_MANIPULATION'', ''CODE_EXECUTION'', ''VISION'', ''AUDIO'', ''STRUCTURED_OUTPUT'', ''SIMULATION'']"

definition capability_set :: "worker \<Rightarrow> error + string list" where
  "capability_set w =
     (case find (\<lambda>c. c \<notin> set worker_capabilities) (w_capabilities w) of
        Some c \<Rightarrow> Inl (ValueError (quoted c @ '' is not a valid WorkerCapability''))
      | None \<Rightarrow> Inr (remdups (w_capabilities w)))"

fun match_loop :: "string list \<Rightarrow> worker list \<Rightarrow> string option \<Rightarrow> int \<Rightarrow> error + string option" where
  "match_loop required [] best most = Inr best"
| "match_loop required (w # ws) best most =
     sbind (capability_set w) (\<lambda>caps.
     let matching = int (length (filter (\<lambda>c. c \<in> set required) caps)) in
     if matching > most \<and> set required \<subseteq> set caps then match_loop required ws (Some (w_id w)) matching
     else match_loop required ws best most)"

definition match_worker_by_capability :: "string list \<Rightarrow> wc_state \<Rightarrow> error + string option" where
  \<comment> \<open>\<open>required\<close> lists a set\<close>
  "match_worker_by_capability required st = match_loop required (rt_workers st) None (-1)"


section \<open>Snapshots and summaries\<close>

fun fetch_tasks :: "string list \<Rightarrow> (wc_state, task list) action" where
  "fetch_tasks [] = ret []"
| "fetch_tasks (tid # tids) = bind (rt_task tid) (\<lambda>t. bind (fetch_tasks tids) (\<lambda>ts. ret (t # ts)))"

definition ids_with :: "(task_status \<Rightarrow> bool) \<Rightarrow> task list \<Rightarrow> string list" where
  "ids_with P ts = map t_id (filter (\<lambda>t. P (t_status t)) ts)"

definition assignments :: "task list \<Rightarrow> (string, string) dict" where
  "assignments ts = fold (\<lambda>t d. if given (t_assigned_worker t) then dict_set (t_id t) (the (t_assigned_worker t)) d else d) ts []"

definition snapshot_of :: "workflow \<Rightarrow> task list \<Rightarrow> worker_handoff list \<Rightarrow> defect_linkage list \<Rightarrow> workflow_snapshot" where
  "snapshot_of w ts hs ds =
     \<lparr>wn_workflow_id = wk_id w, wn_project_id = wk_project_id w, wn_title = wk_title w, wn_status = wk_status w,
      wn_active_tasks = ids_with (\<lambda>s. s = T_PENDING \<or> s = T_RUNNING) ts, wn_completed_tasks = ids_with (\<lambda>s. s = T_COMPLETED) ts,
      wn_blocked_tasks = ids_with (\<lambda>s. s = T_BLOCKED) ts, wn_failed_tasks = ids_with (\<lambda>s. s = T_FAILED) ts,
      wn_worker_assignments = assignments ts, wn_recent_handoffs = hs,
      wn_open_defects = filter (\<lambda>d. dl_status d \<noteq> ''VERIFIED'') ds, wn_iteration_count = wk_current_step w, wn_budget_used = []\<rparr>"

definition get_workflow_snapshot :: "string \<Rightarrow> (wc_state, workflow_snapshot option) action" where
  "get_workflow_snapshot wid =
     bind (get_workflow wid) (\<lambda>x. case x of
       None \<Rightarrow> ret None
     | Some w \<Rightarrow>
         bind (fetch_tasks (wk_tasks w)) (\<lambda>ts.
         bind (list_handoffs wid) (\<lambda>hs st.
         (Inr (Some (snapshot_of w ts hs (listed wid (wc_defect_links st)))), st))))"

definition ticked :: "string \<Rightarrow> string" where
  "ticked s = ''`'' @ s @ ''`''"

definition task_line :: "string \<Rightarrow> string list \<Rightarrow> string" where
  "task_line label tids = ''- **'' @ label @ '' Tasks** ('' @ nat_str (length tids) @ ''): ''
     @ (if tids = [] then ''None'' else join_with '', '' (map ticked tids))"

definition defect_line :: "defect_linkage \<Rightarrow> string" where
  "defect_line d = ''- **Defect '' @ ticked (dl_defect_id d) @ ''** (Status: '' @ ticked (dl_status d) @ ''): Originating Task ''
     @ ticked (dl_originating_task_id d) @ '' by '' @ ticked (dl_originating_worker_id d) @ '' -> Fix: ''
     @ ticked (or_else (dl_fix_task_id d) ''Pending'')"

definition handoff_line :: "worker_handoff \<Rightarrow> string" where
  "handoff_line h = ''- **['' @ hf_source_worker h @ ''] -> ['' @ or_else (hf_destination_worker h) ''Manager'' @ '']** (Task ''
     @ ticked (hf_source_task_id h) @ ''): '' @ hf_summary h"

definition last_three :: "'a list \<Rightarrow> 'a list" where
  "last_three xs = drop (length xs - 3) xs"

definition generate_markdown_summary :: "workflow \<Rightarrow> workflow_snapshot \<Rightarrow> string" where
  "generate_markdown_summary w sn =
     join_with [CHR 0x0A]
      ([''# Workforce Workflow Execution Summary'', [], ''**Workflow ID**: '' @ ticked (wk_id w) @ ''  '',
        ''**Project ID**: '' @ ticked (wk_project_id w) @ ''  '',
        ''**Current Status**: '' @ ticked (workflow_status_value (wk_status w)) @ ''  '',
        ''**Iteration**: '' @ ticked (int_str (wn_iteration_count sn) @ ''/'' @ int_str (wb_max_iterations (wk_budget w))) @ ''  '',
        [], ''---'', [], ''## 1. Workflow Objective'', wk_objective w, [], ''---'', [], ''## 2. Task Graph Progress'', [],
        task_line ''Active'' (wn_active_tasks sn), task_line ''Completed'' (wn_completed_tasks sn),
        task_line ''Blocked'' (wn_blocked_tasks sn), task_line ''Failed'' (wn_failed_tasks sn),
        [], ''---'', [], ''## 3. Worker Assignments'', []]
       @ (if wn_worker_assignments sn = [] then [''No active worker assignments.'']
          else map (\<lambda>(tid, wid). ''- Task '' @ ticked tid @ '' assigned to worker '' @ ticked wid) (wn_worker_assignments sn))
       @ [[], ''---'', [], ''## 4. Open Defects & Feedback Loop'', []]
       @ (if wn_open_defects sn = [] then [''No active or unresolved defects.''] else map defect_line (wn_open_defects sn))
       @ [[], ''---'', [], ''## 5. Recent Handoffs'', []]
       @ (if wn_recent_handoffs sn = [] then [''No recent handoffs recorded.'']
          else map handoff_line (last_three (wn_recent_handoffs sn)))
       @ [[]])"

text \<open>
  The summary is generated, the project is looked up for its root path, and then \<open>register_artifact\<close> is
  called without its arguments \<open>task_id\<close> and \<open>worker_id\<close>, which have no defaults.
\<close>

definition generate_and_save_workflow_summary :: "string \<Rightarrow> (wc_state, string option) action" where
  "generate_and_save_workflow_summary wid =
     bind (get_workflow wid) (\<lambda>x. case x of
       None \<Rightarrow> ret None
     | Some w \<Rightarrow>
         bind (get_workflow_snapshot wid) (\<lambda>y. case y of
           None \<Rightarrow> ret None
         | Some sn \<Rightarrow>
             let summary = generate_markdown_summary w sn in
             bind (rt_project (wk_project_id w)) (\<lambda>p.
             raise (TypeError (''ArtifactRegistry.register_artifact() missing 2 required positional arguments: ''
               @ quoted ''task_id'' @ '' and '' @ quoted ''worker_id'')))))"


section \<open>Matching is the first capable worker\<close>

lemma capability_set_Inr: "set (w_capabilities w) \<subseteq> set worker_capabilities \<Longrightarrow> capability_set w = Inr (remdups (w_capabilities w))"
  by (auto simp: capability_set_def find_None_iff split: option.split dest: find_in_set)

lemma match_count:
  assumes "distinct required" and "set required \<subseteq> set caps" and "distinct caps"
  shows "length (filter (\<lambda>c. c \<in> set required) caps) = length required"
proof -
  have "set (filter (\<lambda>c. c \<in> set required) caps) = set required" using assms(2) by auto
  then show ?thesis using assms(1, 3) by (metis distinct_card distinct_filter)
qed

lemma match_loop_done:
  assumes "distinct required" and "\<forall>w \<in> set ws. set (w_capabilities w) \<subseteq> set worker_capabilities"
  shows "match_loop required ws (Some b) (int (length required)) = Inr (Some b)"
  using assms(2)
  by (induction ws) (auto simp: capability_set_Inr Let_def match_count [OF assms(1)])

text \<open>
  Matching returns the first worker of the listing that has every required capability, and nothing
  exactly when there is none: the comparison of the number of matches never prefers a later one.
\<close>

theorem match_is_first_capable:
  assumes "distinct required" and "\<forall>w \<in> set (rt_workers st). set (w_capabilities w) \<subseteq> set worker_capabilities"
  shows "match_worker_by_capability required st
    = Inr (map_option w_id (find (\<lambda>w. set required \<subseteq> set (w_capabilities w)) (rt_workers st)))"
proof -
  have "match_loop required ws None (-1) = Inr (map_option w_id (find (\<lambda>w. set required \<subseteq> set (w_capabilities w)) ws))"
    if "\<forall>w \<in> set ws. set (w_capabilities w) \<subseteq> set worker_capabilities" for ws
    using that
    by (induction ws) (auto simp: capability_set_Inr Let_def match_count [OF assms(1)] match_loop_done [OF assms(1)])
  with assms(2) show ?thesis by (simp add: match_worker_by_capability_def)
qed

definition wc_start :: "au_state \<Rightarrow> wc_state" where
  "wc_start rt = \<lparr>wc_rt = rt, wc_handoffs = [], wc_attempts = [], wc_defect_links = []\<rparr>"

definition two_workers :: wc_state where
  "two_workers = wc_start (au_start\<lparr>au_backend := Sqlite (sample_database\<lparr>db_workers :=
     [(''w'', row_worker\<lparr>w_capabilities := [''TESTING'']\<rparr>),
      (''x'', row_worker\<lparr>w_id := ''x'', w_capabilities := [''TESTING'', ''VISION'']\<rparr>)]\<rparr>)\<rparr>)"

theorem match_is_first_capable_witness:
  "match_worker_by_capability [''VISION'', ''TESTING''] two_workers = Inr (Some ''x'')"
proof -
  have caps: "\<forall>w \<in> set (rt_workers two_workers). set (w_capabilities w) \<subseteq> set worker_capabilities" by code_simp
  have "map_option w_id (find (\<lambda>w. set [''VISION'', ''TESTING''] \<subseteq> set (w_capabilities w)) (rt_workers two_workers)) = Some ''x''"
    by code_simp
  then show ?thesis using match_is_first_capable [OF _ caps, of "[''VISION'', ''TESTING'']"] by simp
qed


section \<open>Attempts are numbered in order\<close>

inductive wc_step :: "readings \<Rightarrow> wc_state \<Rightarrow> wc_state \<Rightarrow> bool" for orc where
  created: "wc_step orc st (snd (create_workflow orc pid title objective root priority budget metadata st))"
| moved: "wc_step orc st (snd (update_workflow_status orc wid new reason st))"
| task_added: "wc_step orc st (snd (add_task_to_workflow orc wid tid st))"
| attempted: "wc_step orc st (snd (record_execution_attempt orc tid wid status version err duration workflow metadata st))"
| handed_over: "wc_step orc st (snd (record_handoff artifacts_of orc pid source t out dw dt ty workflow st))"
| linked: "wc_step orc st (snd (record_defect_link wid did otask oworker ftask fworker rtask rworker st))"
| runtime_step: "wc_step orc st (st\<lparr>wc_rt := rt\<rparr>)"
  \<comment> \<open>anything else that happens to the store\<close>

definition attempts_ok :: "wc_state \<Rightarrow> bool" where
  "attempts_ok st \<longleftrightarrow> (\<forall>tid. map xa_attempt_number (listed tid (wc_attempts st)) = map (\<lambda>n. int n + 1) [0..<length (listed tid (wc_attempts st))]
     \<and> (\<forall>x \<in> set (listed tid (wc_attempts st)). xa_task_id x = tid))"

definition same_attempts :: "wc_state \<Rightarrow> wc_state \<Rightarrow> bool" where
  "same_attempts st st' \<longleftrightarrow> wc_attempts st' = wc_attempts st"

lemma same_attempts_rel: "reflp same_attempts" "transp same_attempts"
  by (auto simp: same_attempts_def reflp_def transp_def)

lemma same_attempts_pieces:
  "keeps same_attempts (on_rt m)" "keeps same_attempts (rt_project pid)" "keeps same_attempts (get_workflow wid)"
  "keeps same_attempts (\<lambda>st. (r st, st))"
  by (auto simp: keeps_def same_attempts_def on_rt_def rt_project_def get_workflow_def split: prod.split option.split)

lemmas same_attempts_intros = keeps_bind [OF same_attempts_rel(2)] same_attempts_pieces
  keeps_ret [OF same_attempts_rel(1)] keeps_raise [OF same_attempts_rel(1)]

lemma same_attempts_ops:
  "keeps same_attempts (create_workflow orc pid title objective root priority budget metadata)"
  "keeps same_attempts (update_workflow_status orc wid new reason)"
  "keeps same_attempts (add_task_to_workflow orc wid tid)"
  unfolding create_workflow_def update_workflow_status_def add_task_to_workflow_def require_workflow_def Let_def
  by (intro same_attempts_intros; auto split: option.split intro!: same_attempts_intros)+

lemma same_attempts_handoff: "keeps same_attempts (record_handoff artifacts_of orc pid source t out dw dt ty workflow)"
  unfolding record_handoff_def Let_def
  by (intro same_attempts_intros) (simp add: keeps_def same_attempts_def)

lemma attempt_listed:
  assumes "attempts_ok st"
  shows "attempts_ok (snd (record_execution_attempt orc tid wid status version err duration workflow metadata st))"
    (is "attempts_ok (snd (?op st))")
proof -
  have "\<exists>x. xa_task_id x = tid \<and> xa_attempt_number x = int (length (listed tid (wc_attempts st))) + 1
      \<and> wc_attempts (snd (?op st)) = dict_set tid (listed tid (wc_attempts st) @ [x]) (wc_attempts st)"
    by (auto simp: record_execution_attempt_def bind_def on_rt_def draw_def Let_def split: prod.split sum.split
        intro!: exI [of _ "\<lparr>xa_id = short_id orc ''att-'' (au_tick (wc_rt st)), xa_task_id = tid,
          xa_attempt_number = int (length (listed tid (wc_attempts st))) + 1, xa_worker_id = wid, xa_worker_version = version,
          xa_status = status, xa_workflow_id = workflow, xa_error_message = err, xa_duration_ms = duration,
          xa_started_at = or_now orc (au_tick (wc_rt st)), xa_completed_at = Some (or_now orc (au_tick (wc_rt st))),
          xa_metadata = metadata\<rparr>"])
  then obtain x where x: "xa_task_id x = tid" "xa_attempt_number x = int (length (listed tid (wc_attempts st))) + 1"
    "wc_attempts (snd (?op st)) = dict_set tid (listed tid (wc_attempts st) @ [x]) (wc_attempts st)" by blast
  have "listed k (wc_attempts (snd (?op st))) = (if k = tid then listed tid (wc_attempts st) @ [x] else listed k (wc_attempts st))" for k
    unfolding x(3) by (simp add: listed_def dict_simps)
  then show ?thesis using assms x(1, 2) by (simp add: attempts_ok_def)
qed

lemma attempts_ok_same: "same_attempts st st' \<Longrightarrow> attempts_ok st \<Longrightarrow> attempts_ok st'"
  by (simp add: same_attempts_def attempts_ok_def)

lemma wc_step_attempts: "wc_step orc st st' \<Longrightarrow> attempts_ok st \<Longrightarrow> attempts_ok st'"
proof (induction rule: wc_step.induct)
  case (linked st wid did otask oworker ftask fworker rtask rworker)
  then show ?case by (simp add: attempts_ok_def record_defect_link_def Let_def)
next
  case (runtime_step st rt)
  then show ?case by (simp add: attempts_ok_def)
qed (auto intro: attempt_listed attempts_ok_same [OF keeps_snd [OF same_attempts_ops(1)]] attempts_ok_same [OF keeps_snd [OF same_attempts_ops(2)]]
    attempts_ok_same [OF keeps_snd [OF same_attempts_ops(3)]] attempts_ok_same [OF keeps_snd [OF same_attempts_handoff]])

text \<open>
  C31: in every history of a coordinator the attempts it has recorded for a task are numbered 1, 2, 3, ...
  in the order in which they were recorded, without gaps or repetitions, whatever the store did with them.
\<close>

theorem attempts_numbered:
  assumes "(wc_step orc)\<^sup>*\<^sup>* (wc_start rt) st"
  shows "map xa_attempt_number (listed tid (wc_attempts st)) = map (\<lambda>n. int n + 1) [0..<length (listed tid (wc_attempts st))]"
proof -
  have "attempts_ok st" using assms
  proof (induction rule: rtranclp_induct)
    case base
    then show ?case by (simp add: attempts_ok_def listed_def wc_start_def)
  next
    case (step y z)
    then show ?case by (blast intro: wc_step_attempts)
  qed
  then show ?thesis by (simp add: attempts_ok_def)
qed

definition attempt_again :: "wc_state \<Rightarrow> wc_state" where
  "attempt_again st = snd (record_execution_attempt counting ''t'' ''w'' ''FAILED'' ''1'' None ''1.5'' None [] st)"

theorem attempts_numbered_witness:
  "map xa_attempt_number (listed ''t'' (wc_attempts (attempt_again (attempt_again (wc_start au_start))))) = [1, 2]"
proof -
  have step: "wc_step counting st (attempt_again st)" for st
    unfolding attempt_again_def by (rule wc_step.attempted)
  have steps: "(wc_step counting)\<^sup>*\<^sup>* (wc_start au_start) (attempt_again (attempt_again (wc_start au_start)))"
    using step by (meson rtranclp.intros)
  have two: "length (listed ''t'' (wc_attempts (attempt_again (attempt_again (wc_start au_start))))) = 2" by code_simp
  have "map (\<lambda>n. int n + 1) [0..<2] = [1, 2]" by code_simp
  then show ?thesis unfolding attempts_numbered [OF steps] two .
qed


section \<open>What the bookkeeping does not promise\<close>

text \<open>
  The counter of a task lives in the coordinator: after a restart on the same database the numbers begin again.
\<close>

lemma attempt_numbers_restart:
  "map_sum id (map xa_attempt_number) (fst (list_attempts ''t'' (attempt_again (wc_start (wc_rt (attempt_again (wc_start au_start)))))))
    = Inr [1, 1]"
  by code_simp

text \<open>
  The statuses of a workflow are no state machine: a cancelled one runs again, and still has its completion time.
\<close>

definition resumed_workflow :: "error + workflow" where
  "resumed_workflow =
     (case create_workflow counting ''p'' ''title'' ''objective'' None WP_NORMAL None [] (wc_start au_start) of
        (Inl e, st) \<Rightarrow> Inl e
      | (Inr w, st) \<Rightarrow> fst (resume_workflow counting (wk_id w) ''again'' (snd (cancel_workflow counting (wk_id w) ''stop'' st))))"

lemma cancelled_workflow_resumes:
  "case resumed_workflow of Inl e \<Rightarrow> False | Inr w \<Rightarrow> wk_status w = WS_RUNNING \<and> wk_completed_at w \<noteq> None"
  by code_simp

text \<open>
  A task that has a worker but has not started is on none of the four lists of a snapshot.
\<close>

lemma assigned_task_unlisted:
  assumes "t_status t = T_ASSIGNED"
  shows "let sn = snapshot_of w [t] hs ds in wn_active_tasks sn = [] \<and> wn_completed_tasks sn = []
    \<and> wn_blocked_tasks sn = [] \<and> wn_failed_tasks sn = []"
  using assms by (simp add: snapshot_of_def ids_with_def)

text \<open>
  A handoff cannot be made from the output of a worker, and a summary is never saved.
\<close>

lemma handoff_never_created:
  "\<exists>e. fst (record_handoff worker_output_artifacts orc pid source t out dw dt ty workflow st) = Inl e"
  by (simp add: record_handoff_def bind_def on_rt_def draw_def create_handoff_def worker_output_artifacts_def)

lemma summary_never_saved: "fst (generate_and_save_workflow_summary wid st) \<noteq> Inr (Some aid)"
  by (simp add: generate_and_save_workflow_summary_def bind_def ret_def raise_def Let_def
      split: prod.splits sum.splits option.splits)

end
