(* ===== verification/Secrets.thy ===== *)
theory Secrets
  imports Prelude
begin

text \<open>
  Credentials and their redaction: \<open>core/inference/secrets.py\<close>. The process environment is an argument;
  the set of known values is listed in insertion order.
\<close>

section \<open>The secret store\<close>

record secret_store =
  ss_overrides :: "(string, string) dict"
  ss_environ :: "(string, string) dict"

fun split_equals :: "string \<Rightarrow> (string \<times> string) option" where
  \<comment> \<open>\<open>line.split("=", 1)\<close> of a line with an equals sign\<close>
  "split_equals [] = None"
| "split_equals (c # cs) =
     (if c = CHR ''='' then Some ([], cs)
      else case split_equals cs of None \<Rightarrow> None | Some (k, v) \<Rightarrow> Some (c # k, v))"

definition strip_chars :: "string \<Rightarrow> string \<Rightarrow> string" where
  \<comment> \<open>\<open>s.strip(cs)\<close>\<close>
  "strip_chars cs s = rev (lstrip_chars cs (rev (lstrip_chars cs s)))"

definition dotenv_line :: "string \<Rightarrow> (string, string) dict \<Rightarrow> (string, string) dict" where
  "dotenv_line raw env =
     (let line = strip raw in
      if line = [] \<or> startswith line ''#'' then env
      else case split_equals line of
             None \<Rightarrow> env
           | Some (k0, v0) \<Rightarrow>
               let k = strip k0; v = strip_chars [CHR 0x22, CHR 0x27] (strip v0) in
               if k \<noteq> [] \<and> dict_get env k = None then dict_set k v env else env)"

definition load_dotenv :: "string list list \<Rightarrow> (string, string) dict \<Rightarrow> (string, string) dict" where
  \<comment> \<open>the lines of the candidate files that exist\<close>
  "load_dotenv files env = fold (\<lambda>lines. fold dotenv_line lines) files env"

definition new_secret_store :: "(string, string) dict \<Rightarrow> string list list \<Rightarrow> (string, string) dict \<Rightarrow> secret_store" where
  "new_secret_store overrides files env = \<lparr>ss_overrides = overrides, ss_environ = load_dotenv files env\<rparr>"

definition clean_ref :: "string \<Rightarrow> string" where
  "clean_ref key_ref = (let r = strip key_ref in if startswith r ''env:'' then drop 4 r else r)"

definition get_secret :: "secret_store \<Rightarrow> string \<Rightarrow> string option" where
  "get_secret ss key_ref =
     (if key_ref = [] then None
      else case dict_get (ss_overrides ss) (clean_ref key_ref) of
             Some v \<Rightarrow> Some v
           | None \<Rightarrow> dict_get (ss_environ ss) (clean_ref key_ref))"

definition set_secret :: "string \<Rightarrow> string \<Rightarrow> secret_store \<Rightarrow> secret_store" where
  "set_secret key_ref v ss = ss\<lparr>ss_overrides := dict_set (clean_ref key_ref) v (ss_overrides ss)\<rparr>"

definition provider_keys :: "string list" where
  "provider_keys = [''OPENAI_API_KEY'', ''OPENROUTER_API_KEY'', ''ANTHROPIC_API_KEY'', ''GEMINI_API_KEY'', ''GROQ_API_KEY'']"

definition list_known_secret_values :: "secret_store \<Rightarrow> string list" where
  "list_known_secret_values ss =
     remdups (filter (\<lambda>v. length v \<ge> 6)
       (dict_values (ss_overrides ss) @ List.map_filter (dict_get (ss_environ ss)) provider_keys))"


section \<open>Redaction\<close>

definition redaction_mark :: string where
  "redaction_mark = ''[REDACTED_API_KEY]''"

function replace_all :: "string \<Rightarrow> string \<Rightarrow> string \<Rightarrow> string" where
  \<comment> \<open>\<open>s.replace(old, new)\<close> for a non-empty \<open>old\<close>\<close>
  "replace_all old new [] = []"
| "replace_all old new (c # cs) =
     (if old \<noteq> [] \<and> prefix old (c # cs) then new @ replace_all old new (drop (length old) (c # cs))
      else c # replace_all old new cs)"
  by pat_completeness auto
termination by (relation "measure (\<lambda>(old, new, s). length s)") auto

text \<open>
  The pattern \<open>(?i)(bearer\s+|api[_-]?key["']?\s*[:=]\s*["']?)[a-zA-Z0-9_\-.]{8,}\<close>. The classes that follow one
  another are disjoint, so the greedy match is the only one. \<open>after_intro s\<close> is what follows the group.
\<close>

definition token_char :: "char \<Rightarrow> bool" where
  "token_char c \<longleftrightarrow> (let n = of_char c :: nat in
     (48 \<le> n \<and> n \<le> 57) \<or> (65 \<le> n \<and> n \<le> 90) \<or> (97 \<le> n \<and> n \<le> 122) \<or> n = 95 \<or> n = 45 \<or> n = 46)"

definition skip_one :: "string \<Rightarrow> string \<Rightarrow> string" where
  \<comment> \<open>an optional character of a class\<close>
  "skip_one cs s = (case s of [] \<Rightarrow> [] | c # r \<Rightarrow> if c \<in> set cs then r else s)"

definition quote_chars :: string where
  "quote_chars = [CHR 0x22, CHR 0x27]"

definition after_bearer :: "string \<Rightarrow> string option" where
  "after_bearer s =
     (if lower (take 6 s) = ''bearer'' then
        (case drop 6 s of [] \<Rightarrow> None | c # r \<Rightarrow> if is_space c then Some (dropWhile is_space r) else None)
      else None)"

definition after_api_key :: "string \<Rightarrow> string option" where
  "after_api_key s =
     (if lower (take 3 s) = ''api'' then
        (let s1 = skip_one ''_-'' (drop 3 s) in
         if lower (take 3 s1) = ''key'' then
           (case dropWhile is_space (skip_one quote_chars (drop 3 s1)) of
              [] \<Rightarrow> None
            | c # r \<Rightarrow> if c \<in> set '':='' then Some (skip_one quote_chars (dropWhile is_space r)) else None)
         else None)
      else None)"

definition after_intro :: "string \<Rightarrow> string option" where
  "after_intro s = (case after_bearer s of Some r \<Rightarrow> Some r | None \<Rightarrow> after_api_key s)"

definition credential_at :: "string \<Rightarrow> (string \<times> string) option" where
  \<comment> \<open>the group and what follows the match, if the pattern matches here\<close>
  "credential_at s =
     (case after_intro s of
        None \<Rightarrow> None
      | Some r \<Rightarrow> if length (takeWhile token_char r) \<ge> 8
                  then Some (take (length s - length r) s, dropWhile token_char r) else None)"

lemma suffix_skip_one: "suffix (skip_one cs s) s"
  by (cases s) (auto simp: skip_one_def suffix_ConsI)

lemma after_intro_suffix: "after_intro s = Some r \<Longrightarrow> suffix r s"
proof -
  have chain: "suffix (skip_one qs (dropWhile is_space r)) s"
    if "dropWhile is_space (skip_one qs (drop 3 (skip_one us (drop 3 s)))) = c # r" for qs us c r
  proof -
    have "suffix (c # r) s"
      unfolding that [symmetric]
      by (meson suffix_dropWhile suffix_drop suffix_skip_one suffix_order.order_trans)
    then show ?thesis
      by (meson suffix_ConsD suffix_dropWhile suffix_skip_one suffix_order.order_trans)
  qed
  have bearer: "suffix (dropWhile is_space r) s" if "drop 6 s = c # r" for c r
    using that by (metis suffix_ConsD suffix_drop suffix_dropWhile suffix_order.order_trans)
  assume "after_intro s = Some r"
  then show ?thesis
    by (auto simp: after_intro_def after_bearer_def after_api_key_def Let_def bearer chain
      split: option.splits if_splits list.splits)
qed

lemma credential_at_split:
  assumes "credential_at s = Some (g, rest)"
  shows "\<exists>tok. s = g @ tok @ rest \<and> length tok \<ge> 8"
proof -
  obtain r where r: "after_intro s = Some r" "length (takeWhile token_char r) \<ge> 8"
    "g = take (length s - length r) s" "rest = dropWhile token_char r"
    using assms by (auto simp: credential_at_def split: option.splits if_splits)
  obtain g' where "s = g' @ r" using after_intro_suffix [OF r(1)] by (auto simp: suffix_def)
  with r show ?thesis by (intro exI [of _ "takeWhile token_char r"]) simp
qed

lemma credential_at_shorter: "credential_at s = Some (g, rest) \<Longrightarrow> length rest < length s"
  using credential_at_split [of s g rest] by fastforce

function redact_patterns :: "string \<Rightarrow> string" where
  "redact_patterns [] = []"
| "redact_patterns (c # cs) =
     (case credential_at (c # cs) of
        Some (g, rest) \<Rightarrow> g @ redaction_mark @ redact_patterns rest
      | None \<Rightarrow> c # redact_patterns cs)"
  by pat_completeness auto
termination
  by (relation "measure length") (auto dest!: credential_at_shorter)

definition redact_known :: "string list \<Rightarrow> string \<Rightarrow> string" where
  "redact_known secrets text = fold (\<lambda>sec t. if length sec \<ge> 6 then replace_all sec redaction_mark t else t) secrets text"

definition redact_secret_text :: "string list \<Rightarrow> string \<Rightarrow> string" where
  "redact_secret_text secrets text = (if text = [] then [] else redact_patterns (redact_known secrets text))"


section \<open>What redaction promises\<close>

text \<open>
  The secrets it can promise something about: those that cannot be mistaken for a part of the mark itself.
\<close>

definition distinctive :: "string \<Rightarrow> bool" where
  "distinctive sec \<longleftrightarrow> length sec \<ge> 6 \<and> CHR ''['' \<notin> set sec \<and> CHR '']'' \<notin> set sec \<and> \<not> contains ''REDACTED_API_KEY'' sec"

lemma sublist_within: "sublist sec u \<Longrightarrow> sublist sec (x @ u @ y)"
  by (metis append.assoc sublist_def)

lemmas sublist_left = sublist_within [of _ _ "[]", simplified]
lemmas sublist_right = sublist_within [of _ _ _ "[]", simplified]

lemma sublist_split:
  assumes "c \<notin> set sec"
  shows "sublist sec (xs @ c # ys) \<longleftrightarrow> sublist sec xs \<or> sublist sec ys"
proof
  assume "sublist sec (xs @ c # ys)"
  then obtain u v where uv: "xs @ c # ys = u @ sec @ v" by (auto simp: sublist_def)
  show "sublist sec xs \<or> sublist sec ys"
  proof (cases "length u + length sec \<le> length xs")
    case True
    have "xs = u @ sec @ take (length xs - length u - length sec) v"
      using True arg_cong [OF uv, of "take (length xs)"] by simp
    then show ?thesis using sublist_within by (metis sublist_order.order_refl)
  next
    case False
    have "\<not> length u \<le> length xs"
    proof
      assume le: "length u \<le> length xs"
      have "(u @ sec @ v) ! length xs = c" unfolding uv [symmetric] by simp
      then have "sec ! (length xs - length u) = c" using le False by (auto simp: nth_append split: if_splits)
      moreover have "length xs - length u < length sec" using le False by simp
      ultimately show False using assms nth_mem by metis
    qed
    then have "ys = drop (Suc (length xs)) (u @ sec @ v)" unfolding uv [symmetric] by simp
    then have "ys = drop (Suc (length xs)) u @ sec @ v" using \<open>\<not> length u \<le> length xs\<close> by simp
    then show ?thesis using sublist_within by (metis sublist_order.order_refl)
  qed
next
  assume "sublist sec xs \<or> sublist sec ys"
  then show "sublist sec (xs @ c # ys)"
    using sublist_left [of sec xs] sublist_right [of sec ys "xs @ [c]"] by auto
qed

lemma mark_separates:
  assumes "distinctive sec"
  shows "sublist sec (u @ redaction_mark @ v) \<longleftrightarrow> sublist sec u \<or> sublist sec v"
proof -
  have brackets: "CHR ''['' \<notin> set sec" "CHR '']'' \<notin> set sec" and body: "\<not> sublist sec ''REDACTED_API_KEY''"
    using assms unfolding distinctive_def contains_iff_sublist by blast+
  have "sublist sec (u @ CHR ''['' # w @ CHR '']'' # v) \<longleftrightarrow> sublist sec u \<or> sublist sec w \<or> sublist sec v" for w
    unfolding sublist_split [OF brackets(1)] sublist_split [OF brackets(2)] ..
  from this [of "''REDACTED_API_KEY''"] body show ?thesis unfolding redaction_mark_def by simp
qed

lemma early_sublist:
  assumes "\<forall>k < length pre. \<not> prefix sec (drop k (pre @ s))" and "sec \<noteq> []"
  shows "\<not> sublist sec pre"
proof
  assume "sublist sec pre"
  then obtain u v where "pre = u @ sec @ v" by (auto simp: sublist_def)
  then have "length u < length pre" "prefix sec (drop (length u) (pre @ s))" using assms(2) by simp_all
  with assms(1) show False by blast
qed

lemma replace_all_keeps:
  assumes "distinctive sec" and "\<not> sublist sec (pre @ s)"
  shows "\<not> sublist sec (pre @ replace_all old redaction_mark s)"
  using assms(2)
proof (induction s arbitrary: pre rule: measure_induct_rule [of length])
  case (less s)
  show ?case
  proof (cases s)
    case Nil
    then show ?thesis using less(2) by simp
  next
    case (Cons c cs)
    show ?thesis
    proof (cases "old \<noteq> [] \<and> prefix old s")
      case True
      let ?r = "drop (length old) s"
      have "\<not> sublist sec ?r" "\<not> sublist sec pre"
        using less(2) sublist_right [of sec ?r "pre @ take (length old) s"] sublist_left [of sec pre s] by auto
      moreover have "\<not> sublist sec (replace_all old redaction_mark ?r)"
        using less(1) [of ?r "[]"] True Cons calculation(1) by simp
      ultimately show ?thesis using True Cons by (simp add: mark_separates [OF assms(1)])
    next
      case False
      then show ?thesis using less(1) [of cs "pre @ [c]"] less(2) Cons by auto
    qed
  qed
qed

lemma replace_all_removes:
  assumes "distinctive sec" and "\<forall>k < length pre. \<not> prefix sec (drop k (pre @ s))"
  shows "\<not> sublist sec (pre @ replace_all sec redaction_mark s)"
  using assms(2)
proof (induction s arbitrary: pre rule: measure_induct_rule [of length])
  case (less s)
  have ne: "sec \<noteq> []" using assms(1) by (auto simp: distinctive_def)
  have pre: "\<not> sublist sec pre" by (rule early_sublist [OF less(2) ne])
  show ?case
  proof (cases s)
    case Nil
    then show ?thesis using pre by simp
  next
    case (Cons c cs)
    show ?thesis
    proof (cases "prefix sec s")
      case True
      have "\<not> sublist sec (replace_all sec redaction_mark (drop (length sec) s))"
        using less(1) [of "drop (length sec) s" "[]"] ne Cons by simp
      then show ?thesis using True ne pre Cons by (simp add: mark_separates [OF assms(1)])
    next
      case False
      have "\<forall>k < length (pre @ [c]). \<not> prefix sec (drop k ((pre @ [c]) @ cs))"
      proof (intro allI impI)
        fix k assume "k < length (pre @ [c])"
        then show "\<not> prefix sec (drop k ((pre @ [c]) @ cs))"
          using less(2) False Cons by (cases "k = length pre") auto
      qed
      from less(1) [OF _ this] False Cons show ?thesis by simp
    qed
  qed
qed

lemma redact_patterns_keeps:
  assumes "distinctive sec" and "\<not> sublist sec (pre @ s)"
  shows "\<not> sublist sec (pre @ redact_patterns s)"
  using assms(2)
proof (induction s arbitrary: pre rule: redact_patterns.induct)
  case (2 c cs)
  show ?case
  proof (cases "credential_at (c # cs)")
    case None
    then show ?thesis using 2(1) [OF None, of "pre @ [c]"] 2(3) by simp
  next
    case (Some x)
    then obtain g rest where x: "credential_at (c # cs) = Some (g, rest)" by (cases x) simp
    from credential_at_split [OF x] obtain tok where tok: "c # cs = g @ tok @ rest" by blast
    have whole: "pre @ c # cs = (pre @ g) @ tok @ rest" using tok by simp
    have "\<not> sublist sec rest" "\<not> sublist sec (pre @ g)"
      using 2(3) unfolding whole using sublist_left [of sec "pre @ g"] sublist_right [of sec rest "(pre @ g) @ tok"] by auto
    moreover from this(1) have "\<not> sublist sec (redact_patterns rest)" using 2(2) [of "(g, rest)" g rest "[]"] x by simp
    ultimately show ?thesis
      using x mark_separates [OF assms(1), of "pre @ g" "redact_patterns rest"] by simp
  qed
qed simp

lemma redact_known_keeps: "distinctive sec \<Longrightarrow> \<not> sublist sec t \<Longrightarrow> \<not> sublist sec (redact_known secrets t)"
  using replace_all_keeps [of sec "[]"] by (induction secrets arbitrary: t) (auto simp: redact_known_def)

lemma redact_known_removes: "distinctive sec \<Longrightarrow> sec \<in> set secrets \<Longrightarrow> \<not> sublist sec (redact_known secrets t)"
proof (induction secrets arbitrary: t)
  case (Cons x secrets)
  show ?case
  proof (cases "x = sec")
    case True
    then have "redact_known (x # secrets) t = redact_known secrets (replace_all sec redaction_mark t)"
      using Cons(2) by (simp add: redact_known_def distinctive_def)
    then show ?thesis
      using redact_known_keeps [OF Cons(2)] replace_all_removes [OF Cons(2), of "[]" t] by simp
  next
    case False
    then have "redact_known (x # secrets) t = redact_known secrets (if length x \<ge> 6 then replace_all x redaction_mark t else t)"
      by (simp add: redact_known_def)
    then show ?thesis using Cons False by simp
  qed
qed simp

lemma redacted_free:
  assumes "distinctive sec" and "sec \<in> set secrets"
  shows "\<not> contains (redact_secret_text secrets text) sec"
proof (cases "text = []")
  case True
  then show ?thesis using assms(1) by (auto simp: redact_secret_text_def distinctive_def)
next
  case False
  then show ?thesis
    using redact_patterns_keeps [OF assms(1), of "[]"] redact_known_removes [OF assms]
    by (simp add: redact_secret_text_def contains_iff_sublist)
qed

text \<open>A text with neither a known secret nor a credential pattern passes unchanged.\<close>

lemma replace_all_absent: "\<not> sublist old s \<Longrightarrow> replace_all old new s = s"
  by (induction old new s rule: replace_all.induct) (auto simp: sublist_Cons_right)

lemma redact_patterns_absent: "(\<And>t. suffix t s \<Longrightarrow> credential_at t = None) \<Longrightarrow> redact_patterns s = s"
  by (induction s rule: redact_patterns.induct) (auto split: option.splits simp: suffix_ConsI)

lemma redact_clean:
  assumes "\<forall>sec \<in> set secrets. length sec \<ge> 6 \<longrightarrow> \<not> contains text sec"
    and "\<And>t. suffix t text \<Longrightarrow> credential_at t = None"
  shows "redact_secret_text secrets text = text"
proof -
  have "redact_known secrets text = text"
    using assms(1)
    by (induction secrets) (auto simp: redact_known_def contains_iff_sublist replace_all_absent)
  then show ?thesis using redact_patterns_absent [OF assms(2)] by (simp add: redact_secret_text_def)
qed

end
