(* ===== verification/Inference_Routing.thy ===== *)
theory Inference_Routing
  imports Complex_Main Errors Dynamic_Values "HOL-Library.Product_Lexorder"
begin

text \<open>
  Model selection of the inference gateway: \<open>core/inference/model.py\<close>, \<open>types.py\<close>, \<open>registry.py\<close>,
  \<open>omniroute.py\<close> and the circuit breaker of \<open>gateway.py\<close>. A provider is outside code: its answers are
  functions of the number of outside readings made so far. A float is the rational it denotes; the
  rounding to the nearest double after every operation is the argument \<open>fl\<close>, of which nothing is assumed.
\<close>

section \<open>Floats\<close>

record float_ops =
  fl :: "rat \<Rightarrow> rat"
  \<comment> \<open>the nearest double\<close>
  fl_repr :: "rat \<Rightarrow> string"
  \<comment> \<open>its shortest decimal text\<close>

definition fadd :: "float_ops \<Rightarrow> rat \<Rightarrow> rat \<Rightarrow> rat" where "fadd F a b = fl F (a + b)"
definition fsub :: "float_ops \<Rightarrow> rat \<Rightarrow> rat \<Rightarrow> rat" where "fsub F a b = fl F (a - b)"
definition fmul :: "float_ops \<Rightarrow> rat \<Rightarrow> rat \<Rightarrow> rat" where "fmul F a b = fl F (a * b)"

definition fdiv :: "float_ops \<Rightarrow> rat \<Rightarrow> rat \<Rightarrow> error + rat" where
  "fdiv F a b = (if b = 0 then Inl (OtherException ''float division by zero'') else Inr (fl F (a / b)))"

definition fquot :: "float_ops \<Rightarrow> rat \<Rightarrow> rat \<Rightarrow> rat" where
  \<comment> \<open>division by a constant that is not zero\<close>
  "fquot F a b = fl F (a / b)"

definition half_even :: "rat \<Rightarrow> int" where
  "half_even x =
     (let f = \<lfloor>x\<rfloor>; d = x - of_int f in
      if d < 1 / 2 then f else if d > 1 / 2 then f + 1 else if even f then f else f + 1)"

definition round_two :: "float_ops \<Rightarrow> rat \<Rightarrow> rat" where
  \<comment> \<open>\<open>round(x, 2)\<close>\<close>
  "round_two F x = fl F (of_int (half_even (x * 100)) / 100)"

definition zero_pad :: "nat \<Rightarrow> string \<Rightarrow> string" where
  "zero_pad n s = replicate (n - length s) (CHR ''0'') @ s"

definition fixed :: "nat \<Rightarrow> rat \<Rightarrow> string" where
  \<comment> \<open>\<open>f"{x:.nf}"\<close>\<close>
  "fixed n x =
     (let k = nat (half_even (\<bar>x\<bar> * 10 ^ n)) in
      (if x < 0 then ''-'' else []) @ nat_str (k div 10 ^ n)
        @ (if n = 0 then [] else ''.'' @ zero_pad n (nat_str (k mod 10 ^ n))))"


section \<open>Data\<close>

datatype model_capability =
  MC_TEXT_GENERATION
| MC_CODE_GENERATION
| MC_VISION
| MC_AUDIO_INPUT
| MC_AUDIO_OUTPUT
| MC_TOOL_CALLING
| MC_STRUCTURED_OUTPUT
| MC_LONG_CONTEXT
| MC_REASONING
| MC_STREAMING

primrec model_capability_value :: "model_capability \<Rightarrow> string" where
  "model_capability_value MC_TEXT_GENERATION = ''TEXT_GENERATION''"
| "model_capability_value MC_CODE_GENERATION = ''CODE_GENERATION''"
| "model_capability_value MC_VISION = ''VISION''"
| "model_capability_value MC_AUDIO_INPUT = ''AUDIO_INPUT''"
| "model_capability_value MC_AUDIO_OUTPUT = ''AUDIO_OUTPUT''"
| "model_capability_value MC_TOOL_CALLING = ''TOOL_CALLING''"
| "model_capability_value MC_STRUCTURED_OUTPUT = ''STRUCTURED_OUTPUT''"
| "model_capability_value MC_LONG_CONTEXT = ''LONG_CONTEXT''"
| "model_capability_value MC_REASONING = ''REASONING''"
| "model_capability_value MC_STREAMING = ''STREAMING''"

datatype provider_health =
  PH_HEALTHY
| PH_DEGRADED
| PH_UNAVAILABLE
| PH_UNKNOWN

datatype routing_profile =
  RP_CHEAPEST
| RP_FASTEST
| RP_BEST_AVAILABLE
| RP_FREE_FIRST
| RP_QUALITY_FIRST
| RP_CODE
| RP_VISION
| RP_LONG_CONTEXT

primrec routing_profile_value :: "routing_profile \<Rightarrow> string" where
  "routing_profile_value RP_CHEAPEST = ''CHEAPEST''"
| "routing_profile_value RP_FASTEST = ''FASTEST''"
| "routing_profile_value RP_BEST_AVAILABLE = ''BEST_AVAILABLE''"
| "routing_profile_value RP_FREE_FIRST = ''FREE_FIRST''"
| "routing_profile_value RP_QUALITY_FIRST = ''QUALITY_FIRST''"
| "routing_profile_value RP_CODE = ''CODE''"
| "routing_profile_value RP_VISION = ''VISION''"
| "routing_profile_value RP_LONG_CONTEXT = ''LONG_CONTEXT''"

datatype cost_type =
  CT_ACTUAL
| CT_ESTIMATED
| CT_UNKNOWN

record token_usage =
  us_input_tokens :: int
  us_output_tokens :: int
  us_total_tokens :: int
  us_cached_tokens :: int
  us_metadata :: pydict

record inference_cost =
  ic_input_cost :: rat
  ic_output_cost :: rat
  ic_total_cost :: rat
  ic_currency :: string
  ic_cost_type :: cost_type

record model_metadata =
  mm_id :: string
  mm_provider_id :: string
  mm_display_name :: string
  mm_capabilities :: "model_capability list"
  mm_context_window :: int
  mm_max_output_tokens :: int
  mm_input_cost :: rat
  mm_output_cost :: rat
  mm_is_free_tier :: bool
  mm_latency :: rat
  mm_quality :: rat
  mm_active :: bool
  mm_metadata :: pydict

text \<open>The two sets of capabilities are listed in the order in which they are iterated.\<close>

record model_requirement =
  rq_required :: "model_capability list"
  rq_preferred :: "model_capability list"
  rq_minimum_context :: int
  rq_maximum_latency :: "rat option"
  rq_maximum_cost :: "rat option"
  rq_preferred_providers :: "string list"
  rq_excluded_providers :: "string list"
  rq_preferred_models :: "string list"
  rq_excluded_models :: "string list"
  rq_profile :: routing_profile
  rq_metadata :: pydict

record inference_message =
  im_role :: string
  im_content :: string
  im_name :: "string option"
  im_tool_calls :: "pyval list option"
  im_tool_call_id :: "string option"

record inference_request =
  iq_id :: string
  iq_project_id :: string
  iq_task_id :: string
  iq_worker_id :: string
  iq_messages :: "inference_message list"
  iq_requirements :: model_requirement
  iq_temperature :: rat
  iq_max_output_tokens :: "int option"
  iq_timeout :: rat
  iq_tools :: "pyval list option"
  iq_stream :: bool
  iq_metadata :: pydict

definition estimated_input_tokens :: "inference_request \<Rightarrow> int" where
  "estimated_input_tokens q = max 1 (int (sum_list (map (\<lambda>m. length (im_content m)) (iq_messages q))) div 4)"

record inference_response =
  ir_request_id :: string
  ir_response_id :: string
  ir_content :: string
  ir_model_used :: string
  ir_provider_used :: string
  ir_finish_reason :: string
  ir_tool_calls :: "pyval list option"
  ir_usage :: token_usage
  ir_cost :: inference_cost
  ir_latency :: rat
  ir_metadata :: pydict

record routing_candidate =
  rc_model :: model_metadata
  rc_score :: rat
  rc_estimated_cost :: rat
  rc_reasons :: "string list"

record routing_decision =
  rd_request_id :: string
  rd_selected_model :: "model_metadata option"
  rd_candidates :: "routing_candidate list"
  rd_rejected :: "(string, string list) dict"
  rd_rationale :: string

datatype inference_error =
  ProviderNotFoundError string
| ModelNotFoundError string
| NoProviderAvailableError string "(string, string list) dict" string
| Raised error

primrec inference_error_message :: "inference_error \<Rightarrow> string" where
  "inference_error_message (ProviderNotFoundError p) = ''Inference Provider '' @ quoted p @ '' is not registered.''"
| "inference_error_message (ModelNotFoundError m) = ''Model '' @ quoted m @ '' is not registered.''"
| "inference_error_message (NoProviderAvailableError rid rejected rationale) =
     ''No compatible inference provider available for request '' @ quoted rid @ ''.'' @ [CHR 0x0A] @ ''Rationale: '' @ rationale
       @ [CHR 0x0A] @ ''Rejected candidates:'' @ [CHR 0x0A]
       @ join_with [CHR 0x0A] (map (\<lambda>(m, reasons). ''- '' @ m @ '': '' @ join_with '', '' reasons) rejected)"
| "inference_error_message (Raised e) = error_message e"


section \<open>Registries\<close>

record provider =
  pv_id :: string
  pv_models :: "nat \<Rightarrow> error + model_metadata list"
  pv_health :: "nat \<Rightarrow> error + provider_health"
  pv_generate :: "nat \<Rightarrow> inference_request \<Rightarrow> model_metadata \<Rightarrow> string option \<Rightarrow> error + inference_response"

record provider_registry =
  pr_providers :: "(string, provider) dict"
  pr_key_refs :: "(string, string option) dict"

definition register_provider :: "provider \<Rightarrow> string option \<Rightarrow> provider_registry \<Rightarrow> provider_registry" where
  "register_provider p key_ref reg =
     reg\<lparr>pr_providers := dict_set (pv_id p) p (pr_providers reg), pr_key_refs := dict_set (pv_id p) key_ref (pr_key_refs reg)\<rparr>"

definition unregister_provider :: "string \<Rightarrow> provider_registry \<Rightarrow> bool \<times> provider_registry" where
  "unregister_provider pid reg =
     (case dict_get (pr_providers reg) pid of
        None \<Rightarrow> (False, reg)
      | Some _ \<Rightarrow> (True, reg\<lparr>pr_providers := dict_del pid (pr_providers reg), pr_key_refs := dict_del pid (pr_key_refs reg)\<rparr>))"

definition get_provider :: "provider_registry \<Rightarrow> string \<Rightarrow> inference_error + provider" where
  "get_provider reg pid =
     (case dict_get (pr_providers reg) pid of None \<Rightarrow> Inl (ProviderNotFoundError pid) | Some p \<Rightarrow> Inr p)"

definition get_provider_key_ref :: "provider_registry \<Rightarrow> string \<Rightarrow> string option" where
  "get_provider_key_ref reg pid = (case dict_get (pr_key_refs reg) pid of None \<Rightarrow> None | Some r \<Rightarrow> r)"

definition list_providers :: "provider_registry \<Rightarrow> provider list" where
  "list_providers reg = dict_values (pr_providers reg)"

type_synonym model_registry = "(string, model_metadata) dict"

definition register_model :: "model_metadata \<Rightarrow> model_registry \<Rightarrow> model_registry" where
  "register_model m reg = dict_set (mm_id m) m reg"

definition unregister_model :: "string \<Rightarrow> model_registry \<Rightarrow> bool \<times> model_registry" where
  "unregister_model mid reg =
     (case dict_get reg mid of None \<Rightarrow> (False, reg) | Some _ \<Rightarrow> (True, dict_del mid reg))"

definition get_model :: "model_registry \<Rightarrow> string \<Rightarrow> inference_error + model_metadata" where
  "get_model reg mid = (case dict_get reg mid of None \<Rightarrow> Inl (ModelNotFoundError mid) | Some m \<Rightarrow> Inr m)"

definition list_models ::
  "model_registry \<Rightarrow> string option \<Rightarrow> model_capability option \<Rightarrow> int option \<Rightarrow> model_metadata list" where
  "list_models reg pid cap min_context =
     filter (\<lambda>m. mm_active m
       \<and> \<not> (given pid \<and> mm_provider_id m \<noteq> the pid)
       \<and> (case cap of None \<Rightarrow> True | Some c \<Rightarrow> c \<in> set (mm_capabilities m))
       \<and> (case min_context of None \<Rightarrow> True | Some n \<Rightarrow> \<not> (n \<noteq> 0 \<and> mm_context_window m < n)))
       (dict_values reg)"

fun sync_from_providers :: "nat \<Rightarrow> provider list \<Rightarrow> model_registry \<Rightarrow> model_registry" where
  \<comment> \<open>a provider whose listing raises is skipped\<close>
  "sync_from_providers n [] reg = reg"
| "sync_from_providers n (p # ps) reg =
     sync_from_providers (n + 1) ps
       (case pv_models p n of Inl e \<Rightarrow> reg | Inr ms \<Rightarrow> fold register_model ms reg)"


section \<open>The circuit breaker\<close>

record breaker =
  br_threshold :: int
  br_cooldown :: rat
  br_failures :: "(string, int) dict"
  br_open_until :: "(string, rat) dict"

definition new_breaker :: breaker where
  "new_breaker = \<lparr>br_threshold = 3, br_cooldown = 30, br_failures = [], br_open_until = []\<rparr>"

definition open_until :: "breaker \<Rightarrow> string \<Rightarrow> rat" where
  "open_until b pid = (case dict_get (br_open_until b) pid of None \<Rightarrow> 0 | Some t \<Rightarrow> t)"

definition failures :: "breaker \<Rightarrow> string \<Rightarrow> int" where
  "failures b pid = (case dict_get (br_failures b) pid of None \<Rightarrow> 0 | Some n \<Rightarrow> n)"

definition is_open :: "rat \<Rightarrow> string \<Rightarrow> breaker \<Rightarrow> bool \<times> breaker" where
  \<comment> \<open>at the time \<open>now\<close>; an expired entry is removed, which lets one request through\<close>
  "is_open now pid b =
     (if now < open_until b pid then (True, b)
      else if open_until b pid > 0 then (False, b\<lparr>br_open_until := dict_del pid (br_open_until b)\<rparr>)
      else (False, b))"

definition record_success :: "string \<Rightarrow> breaker \<Rightarrow> breaker" where
  "record_success pid b =
     b\<lparr>br_failures := dict_set pid 0 (br_failures b), br_open_until := dict_del pid (br_open_until b)\<rparr>"

definition record_failure :: "float_ops \<Rightarrow> rat \<Rightarrow> string \<Rightarrow> breaker \<Rightarrow> breaker" where
  "record_failure F now pid b =
     (let count = failures b pid + 1;
          b' = b\<lparr>br_failures := dict_set pid count (br_failures b)\<rparr>
      in if count \<ge> br_threshold b
         then b'\<lparr>br_open_until := dict_set pid (fadd F now (br_cooldown b)) (br_open_until b')\<rparr> else b')"


section \<open>Scoring\<close>

definition estimated_cost :: "float_ops \<Rightarrow> inference_request \<Rightarrow> model_metadata \<Rightarrow> rat" where
  "estimated_cost F q m =
     (let out = (case iq_max_output_tokens q of None \<Rightarrow> 500 | Some n \<Rightarrow> if n = 0 then 500 else n) in
      fadd F (fmul F (fquot F (fl F (of_int (estimated_input_tokens q))) 1000000) (mm_input_cost m))
             (fmul F (fquot F (fl F (of_int out)) 1000000) (mm_output_cost m)))"

definition profile_score :: "float_ops \<Rightarrow> model_metadata \<Rightarrow> routing_profile \<Rightarrow> error + rat \<times> string list" where
  "profile_score F m profile =
     (case profile of
        RP_FREE_FIRST \<Rightarrow>
          sbind (if mm_is_free_tier m then Inr (fadd F 0 10000, [''Free tier prioritized (+10000)''])
                 else sbind (fdiv F 100 (fadd F (mm_input_cost m) (fl F (1 / 100)))) (\<lambda>x. Inr (fadd F 0 x, [])))
            (\<lambda>(s, rs). Inr (fsub F (fadd F s (fmul F (mm_quality m) 5)) (fquot F (mm_latency m) 50), rs))
      | RP_CHEAPEST \<Rightarrow>
          (let unit = fadd F (mm_input_cost m) (mm_output_cost m) in
           sbind (fdiv F 1000 (fadd F unit (fl F (1 / 1000)))) (\<lambda>x.
           Inr (fadd F (fadd F 0 x) (fmul F (mm_quality m) 2), [''Lowest cost scored ($'' @ fixed 2 unit @ ''/M tokens)''])))
      | RP_FASTEST \<Rightarrow>
          sbind (fdiv F 10000 (fadd F (mm_latency m) 1)) (\<lambda>x.
          Inr (fadd F (fadd F 0 x) (fmul F (mm_quality m) 2), [''Lowest latency scored ('' @ fixed 0 (mm_latency m) @ ''ms)'']))
      | RP_CODE \<Rightarrow>
          (let s = fadd F 0 (fmul F (mm_quality m) 20); code = MC_CODE_GENERATION \<in> set (mm_capabilities m) in
           Inr (fsub F (if code then fadd F s 500 else s) (mm_input_cost m),
                if code then [''Specialized code generation capability (+500)''] else []))
      | RP_VISION \<Rightarrow>
          (let s = fadd F 0 (fmul F (mm_quality m) 20); vision = MC_VISION \<in> set (mm_capabilities m) in
           Inr (if vision then fadd F s 1000 else s, if vision then [''Specialized vision capability (+1000)''] else []))
      | RP_LONG_CONTEXT \<Rightarrow>
          Inr (fadd F (fadd F 0 (fmul F (fquot F (fl F (of_int (mm_context_window m))) 1000) 10)) (fmul F (mm_quality m) 5),
               [''Large context window prioritized ('' @ int_str (mm_context_window m) @ '' tokens)''])
      | _ \<Rightarrow>
          Inr (fsub F (fsub F (fadd F 0 (fmul F (mm_quality m) 20)) (fmul F (mm_input_cost m) 2)) (fquot F (mm_latency m) 100),
               [''High quality score prioritized ('' @ fixed 1 (mm_quality m) @ ''/100)'']))"

definition with_bonus :: "float_ops \<Rightarrow> bool \<Rightarrow> rat \<Rightarrow> string \<Rightarrow> rat \<times> string list \<Rightarrow> rat \<times> string list" where
  "with_bonus F applies points reason sr =
     (if applies then (fadd F (fst sr) points, snd sr @ [reason]) else sr)"

definition candidate_score :: "float_ops \<Rightarrow> model_metadata \<Rightarrow> inference_request \<Rightarrow> error + rat \<times> string list" where
  "candidate_score F m q =
     (let reqs = iq_requirements q in
      sbind (profile_score F m (rq_profile reqs)) (\<lambda>sr0.
      let sr1 = with_bonus F (mm_provider_id m \<in> set (rq_preferred_providers reqs)) 500
                  (''Preferred provider '' @ quoted (mm_provider_id m) @ '' bonus (+500)'') sr0;
          sr2 = with_bonus F (mm_id m \<in> set (rq_preferred_models reqs)) 300
                  (''Preferred model '' @ quoted (mm_id m) @ '' bonus (+300)'') sr1;
          sr3 = fold (\<lambda>c. with_bonus F (c \<in> set (mm_capabilities m)) 150
                  (''Preferred capability '' @ quoted (model_capability_value c) @ '' bonus (+150)'')) (rq_preferred reqs) sr2
      in Inr (round_two F (fst sr3), snd sr3)))"


section \<open>Filtering and ranking\<close>

text \<open>The checks that depend on the request and the model only, in their order; the first that fails gives the reason.\<close>

definition needed_context :: "inference_request \<Rightarrow> int" where
  "needed_context q = rq_minimum_context (iq_requirements q) + estimated_input_tokens q"

definition static_rejection :: "float_ops \<Rightarrow> inference_request \<Rightarrow> model_metadata \<Rightarrow> string option" where
  "static_rejection F q m =
     (let reqs = iq_requirements q; pid = mm_provider_id m;
          missing = filter (\<lambda>c. c \<notin> set (mm_capabilities m)) (rq_required reqs);
          cost = estimated_cost F q m
      in
      if pid \<in> set (rq_excluded_providers reqs) then Some (''Provider '' @ quoted pid @ '' explicitly excluded by request.'')
      else if mm_id m \<in> set (rq_excluded_models reqs) then Some (''Model '' @ quoted (mm_id m) @ '' explicitly excluded by request.'')
      else if missing \<noteq> [] then
        Some (''Missing required capabilities: '' @ repr_val (str_list (map model_capability_value missing)))
      else if mm_context_window m < needed_context q then
        Some (''Insufficient context window ('' @ int_str (mm_context_window m) @ '' < required '' @ int_str (needed_context q) @ '').'')
      else case rq_maximum_cost reqs of
        Some limit \<Rightarrow>
          if cost > limit then Some (''Estimated cost $'' @ fixed 4 cost @ '' exceeds maximum allowed $'' @ fixed 4 limit @ ''.'')
          else (case rq_maximum_latency reqs of
              Some ms \<Rightarrow> if mm_latency m > ms then
                  Some (''Expected latency '' @ fl_repr F (mm_latency m) @ ''ms exceeds maximum '' @ fl_repr F ms @ ''ms.'') else None
            | None \<Rightarrow> None)
      | None \<Rightarrow>
          (case rq_maximum_latency reqs of
              Some ms \<Rightarrow> if mm_latency m > ms then
                  Some (''Expected latency '' @ fl_repr F (mm_latency m) @ ''ms exceeds maximum '' @ fl_repr F ms @ ''ms.'') else None
            | None \<Rightarrow> None))"

text \<open>What may change between two requests: the breaker and the number of outside readings.\<close>

type_synonym outside = "breaker \<times> nat"

definition screen_model ::
  "float_ops \<Rightarrow> (nat \<Rightarrow> rat) \<Rightarrow> provider_registry \<Rightarrow> inference_request \<Rightarrow> model_metadata \<Rightarrow> outside \<Rightarrow>
    (error + string + routing_candidate) \<times> outside" where
  "screen_model F clock reg q m out =
     (let pid = mm_provider_id m; (b, n) = out in
      case get_provider reg pid of
        Inl _ \<Rightarrow> (Inr (Inl (''Provider '' @ quoted pid @ '' is not registered.'')), out)
      | Inr p \<Rightarrow>
          (case is_open (clock n) pid b of
             (True, b') \<Rightarrow> (Inr (Inl (''Provider '' @ quoted pid @ '' circuit breaker is OPEN.'')), (b', n + 1))
           | (False, b') \<Rightarrow>
               (case pv_health p (n + 1) of
                  Inl e \<Rightarrow> (Inl e, (b', n + 2))
                | Inr h \<Rightarrow>
                    (if h = PH_UNAVAILABLE then
                       Inr (Inl (''Provider '' @ quoted pid @ '' reports UNAVAILABLE.''))
                     else case static_rejection F q m of
                       Some r \<Rightarrow> Inr (Inl r)
                     | None \<Rightarrow> sbind (candidate_score F m q) (\<lambda>(score, reasons).
                         Inr (Inr \<lparr>rc_model = m, rc_score = score, rc_estimated_cost = estimated_cost F q m, rc_reasons = reasons\<rparr>)),
                     (b', n + 2)))))"

fun route_loop ::
  "float_ops \<Rightarrow> (nat \<Rightarrow> rat) \<Rightarrow> provider_registry \<Rightarrow> inference_request \<Rightarrow> model_metadata list \<Rightarrow>
    routing_candidate list \<Rightarrow> (string, string list) dict \<Rightarrow> outside \<Rightarrow>
    (error + routing_candidate list \<times> (string, string list) dict) \<times> outside" where
  "route_loop F clock reg q [] eligible rejected out = (Inr (eligible, rejected), out)"
| "route_loop F clock reg q (m # ms) eligible rejected out =
     (case screen_model F clock reg q m out of
        (Inl e, out') \<Rightarrow> (Inl e, out')
      | (Inr (Inl r), out') \<Rightarrow> route_loop F clock reg q ms eligible (dict_set (mm_id m) [r] rejected) out'
      | (Inr (Inr c), out') \<Rightarrow> route_loop F clock reg q ms (eligible @ [c]) rejected out')"

definition candidate_key :: "routing_candidate \<Rightarrow> rat \<times> rat \<times> int \<times> string" where
  "candidate_key c = (rc_score c, mm_quality (rc_model c), - int (length (mm_id (rc_model c))), mm_id (rc_model c))"

definition ranked :: "routing_candidate list \<Rightarrow> routing_candidate list" where
  \<comment> \<open>a stable sort with \<open>reverse=True\<close>\<close>
  "ranked cs = rev (sort_key candidate_key (rev cs))"

definition route_rationale :: "inference_request \<Rightarrow> routing_candidate list \<Rightarrow> (string, string list) dict \<Rightarrow> string" where
  "route_rationale q cs rejected =
     (case cs of
        c # _ \<Rightarrow> ''Selected model '' @ quoted (mm_id (rc_model c)) @ '' (Score: '' @ fixed 1 (rc_score c) @ '', Profile: ''
          @ routing_profile_value (rq_profile (iq_requirements q)) @ '', Reasons: '' @ join_with ''; '' (rc_reasons c) @ '')''
      | [] \<Rightarrow> ''No eligible model satisfied all requirements ('' @ nat_str (length rejected) @ '' candidates rejected).'')"

definition evaluate_route ::
  "float_ops \<Rightarrow> (nat \<Rightarrow> rat) \<Rightarrow> inference_request \<Rightarrow> model_registry \<Rightarrow> provider_registry \<Rightarrow> outside \<Rightarrow>
    (error + routing_decision) \<times> outside" where
  "evaluate_route F clock q models reg out =
     (case route_loop F clock reg q (list_models models None None None) [] [] out of
        (Inl e, out') \<Rightarrow> (Inl e, out')
      | (Inr (eligible, rejected), out') \<Rightarrow>
          (let cs = ranked eligible in
           (Inr \<lparr>rd_request_id = iq_id q,
              rd_selected_model = (case cs of [] \<Rightarrow> None | c # _ \<Rightarrow> Some (rc_model c)),
              rd_candidates = cs, rd_rejected = rejected, rd_rationale = route_rationale q cs rejected\<rparr>, out')))"

definition escalate_requirements_for_complexity ::
  "model_requirement \<Rightarrow> bool \<Rightarrow> string option \<Rightarrow> string option \<Rightarrow> model_requirement" where
  "escalate_requirements_for_complexity base replan uncertainty risk =
     (let hard = replan \<or> uncertainty \<in> {Some ''HIGH_RISK_UNCERTAINTY'', Some ''NEEDS_INFORMATION''}
            \<or> risk \<in> {Some ''HIGH'', Some ''CRITICAL''}
      in \<lparr>rq_required = (if hard then List.union (rq_required base) [MC_REASONING, MC_STRUCTURED_OUTPUT] else rq_required base),
          rq_preferred = rq_preferred base, rq_minimum_context = rq_minimum_context base,
          rq_maximum_latency = (if replan then None else rq_maximum_latency base),
          rq_maximum_cost = rq_maximum_cost base, rq_preferred_providers = rq_preferred_providers base,
          rq_excluded_providers = rq_excluded_providers base, rq_preferred_models = rq_preferred_models base,
          rq_excluded_models = rq_excluded_models base,
          rq_profile = (if hard then RP_QUALITY_FIRST else rq_profile base), rq_metadata = []\<rparr>)"


section \<open>What a route promises\<close>

definition satisfies :: "float_ops \<Rightarrow> inference_request \<Rightarrow> model_metadata \<Rightarrow> bool" where
  "satisfies F q m \<longleftrightarrow>
     (let reqs = iq_requirements q in
      mm_provider_id m \<notin> set (rq_excluded_providers reqs) \<and> mm_id m \<notin> set (rq_excluded_models reqs)
      \<and> set (rq_required reqs) \<subseteq> set (mm_capabilities m) \<and> needed_context q \<le> mm_context_window m
      \<and> (\<forall>limit. rq_maximum_cost reqs = Some limit \<longrightarrow> estimated_cost F q m \<le> limit)
      \<and> (\<forall>limit. rq_maximum_latency reqs = Some limit \<longrightarrow> mm_latency m \<le> limit))"

lemma static_rejection_None: "static_rejection F q m = None \<longleftrightarrow> satisfies F q m"
proof -
  have "filter (\<lambda>c. c \<notin> set (mm_capabilities m)) xs = [] \<longleftrightarrow> set xs \<subseteq> set (mm_capabilities m)" for xs
    by (auto simp: filter_empty_conv)
  then show ?thesis
    by (auto simp: static_rejection_def satisfies_def Let_def not_le not_less split: option.split if_splits)
qed

lemma screen_accepts:
  assumes "screen_model F clock reg q m out = (Inr (Inr c), out')"
  shows "rc_model c = m \<and> satisfies F q m \<and> dict_get (pr_providers reg) (mm_provider_id m) \<noteq> None
    \<and> \<not> fst (is_open (clock (snd out)) (mm_provider_id m) (fst out))"
  using assms
  by (auto simp: screen_model_def Let_def get_provider_def sbind_def static_rejection_None [symmetric]
    split: prod.splits sum.splits option.splits bool.splits if_splits)

lemma route_loop_result:
  assumes "route_loop F clock reg q ms eligible rejected out = (Inr (el, rej), out')" and "distinct (map mm_id ms)"
  shows "\<exists>new R. el = eligible @ new \<and> fst ` set rej = fst ` set rejected \<union> R
    \<and> R \<union> mm_id ` rc_model ` set new = mm_id ` set ms \<and> R \<inter> mm_id ` rc_model ` set new = {}
    \<and> (\<forall>c \<in> set new. rc_model c \<in> set ms \<and> satisfies F q (rc_model c)
         \<and> dict_get (pr_providers reg) (mm_provider_id (rc_model c)) \<noteq> None)"
  using assms
proof (induction ms arbitrary: eligible rejected out)
  case (Cons m ms)
  obtain r out1 where screen: "screen_model F clock reg q m out = (r, out1)" by (cases "screen_model F clock reg q m out") simp
  have dist: "distinct (map mm_id ms)" and new: "mm_id m \<notin> mm_id ` set ms" using Cons(3) by auto
  show ?case
  proof (cases r)
    case (Inl e)
    then show ?thesis using Cons(2) screen by simp
  next
    case (Inr x)
    show ?thesis
    proof (cases x)
      case (Inl t)
      then have "route_loop F clock reg q ms eligible (dict_set (mm_id m) [t] rejected) out1 = (Inr (el, rej), out')"
        using Cons(2) screen Inr by simp
      from Cons(1) [OF this dist] obtain new R where IH: "el = eligible @ new"
        "fst ` set rej = fst ` set (dict_set (mm_id m) [t] rejected) \<union> R" "R \<union> mm_id ` rc_model ` set new = mm_id ` set ms"
        "R \<inter> mm_id ` rc_model ` set new = {}"
        "\<forall>c \<in> set new. rc_model c \<in> set ms \<and> satisfies F q (rc_model c) \<and> dict_get (pr_providers reg) (mm_provider_id (rc_model c)) \<noteq> None"
        by (elim exE conjE) (rule that)
      have keys: "fst ` set (dict_set (mm_id m) [t] rejected) = insert (mm_id m) (fst ` set rejected)"
        using AList.dom_update [of "mm_id m" "[t]" rejected] by (simp add: dom_map_of_conv_image_fst)
      show ?thesis
        using IH new by (intro exI [of _ new] exI [of _ "insert (mm_id m) R"]) (auto simp: keys)
    next
      case (Inr c)
      with screen \<open>r = Inr x\<close> have acc: "screen_model F clock reg q m out = (Inr (Inr c), out1)" by simp
      have "route_loop F clock reg q ms (eligible @ [c]) rejected out1 = (Inr (el, rej), out')"
        using Cons(2) acc by simp
      from Cons(1) [OF this dist] obtain new R where IH: "el = eligible @ c # new" "fst ` set rej = fst ` set rejected \<union> R"
        "R \<union> mm_id ` rc_model ` set new = mm_id ` set ms" "R \<inter> mm_id ` rc_model ` set new = {}"
        "\<forall>c \<in> set new. rc_model c \<in> set ms \<and> satisfies F q (rc_model c) \<and> dict_get (pr_providers reg) (mm_provider_id (rc_model c)) \<noteq> None"
        by auto
      show ?thesis
        using IH new screen_accepts [OF acc] by (intro exI [of _ "c # new"] exI [of _ R]) auto
    qed
  qed
qed simp

lemma set_ranked [simp]: "set (ranked cs) = set cs"
  by (simp add: ranked_def)

lemma ranked_sorted: "sorted_wrt (\<lambda>a b. candidate_key b \<le> candidate_key a) (ranked cs)"
proof -
  have "sorted (map candidate_key (sort_key candidate_key (rev cs)))" by (rule sorted_sort_key)
  then show ?thesis unfolding ranked_def sorted_wrt_rev sorted_map .
qed

lemma ranked_first: "ranked cs = c # rest \<Longrightarrow> d \<in> set cs \<Longrightarrow> candidate_key d \<le> candidate_key c"
  using ranked_sorted [of cs] set_ranked [of cs] by auto



section \<open>When a circuit is open\<close>

text \<open>What happens to one provider: a success, a failure at a time, or the question whether it is open.\<close>

datatype breaker_op =
  Succeeded rat
| Failed rat
| Asked rat

primrec op_time :: "breaker_op \<Rightarrow> rat" where
  "op_time (Succeeded t) = t"
| "op_time (Failed t) = t"
| "op_time (Asked t) = t"

fun breaker_do :: "float_ops \<Rightarrow> string \<Rightarrow> breaker_op \<Rightarrow> breaker \<Rightarrow> breaker" where
  "breaker_do F pid (Succeeded t) b = record_success pid b"
| "breaker_do F pid (Failed t) b = record_failure F t pid b"
| "breaker_do F pid (Asked t) b = snd (is_open t pid b)"

definition breaker_run :: "float_ops \<Rightarrow> string \<Rightarrow> breaker_op list \<Rightarrow> breaker \<Rightarrow> breaker" where
  "breaker_run F pid ops b = fold (breaker_do F pid) ops b"

text \<open>The times of the failures since the last success, the latest first.\<close>

fun recent_failures :: "breaker_op list \<Rightarrow> rat list" where
  \<comment> \<open>of the operations in reverse order\<close>
  "recent_failures [] = []"
| "recent_failures (Succeeded t # ops) = []"
| "recent_failures (Failed t # ops) = t # recent_failures ops"
| "recent_failures (Asked t # ops) = recent_failures ops"

definition blocked :: "float_ops \<Rightarrow> breaker \<Rightarrow> rat list \<Rightarrow> rat \<Rightarrow> bool" where
  "blocked F b fails now \<longleftrightarrow> (case fails of [] \<Rightarrow> False
     | t # _ \<Rightarrow> br_threshold b \<le> int (length fails) \<and> now < fadd F t (br_cooldown b))"

lemma breaker_do_fixed [simp]:
  "br_threshold (breaker_do F pid x b) = br_threshold b" "br_cooldown (breaker_do F pid x b) = br_cooldown b"
  by (cases x; simp add: record_success_def record_failure_def is_open_def Let_def)+

lemma breaker_run_fixed [simp]:
  "br_threshold (breaker_run F pid ops b) = br_threshold b" "br_cooldown (breaker_run F pid ops b) = br_cooldown b"
  by (induction ops arbitrary: b) (simp_all add: breaker_run_def)

lemma breaker_run_snoc: "breaker_run F pid (ops @ [x]) b = breaker_do F pid x (breaker_run F pid ops b)"
  by (simp add: breaker_run_def)

lemma breaker_run_state:
  assumes "0 < br_threshold b" and "failures b pid = 0" and "open_until b pid = 0"
    and "sorted (map op_time ops)" and "\<forall>x \<in> set ops. 0 \<le> op_time x"
  shows "failures (breaker_run F pid ops b) pid = int (length (recent_failures (rev ops)))
    \<and> (\<forall>now \<ge> 0. (\<forall>x \<in> set ops. op_time x \<le> now) \<longrightarrow>
        (now < open_until (breaker_run F pid ops b) pid \<longleftrightarrow> blocked F b (recent_failures (rev ops)) now))"
  using assms(4, 5)
proof (induction ops rule: rev_induct)
  case Nil
  then show ?case using assms(1-3) by (auto simp: breaker_run_def blocked_def)
next
  case (snoc x ops)
  let ?b = "breaker_run F pid ops b"
  have ops: "sorted (map op_time ops)" "\<forall>y \<in> set ops. op_time y \<le> op_time x" "0 \<le> op_time x"
    using snoc(2, 3) by (auto simp: sorted_append)
  have IH: "failures ?b pid = int (length (recent_failures (rev ops)))"
    "\<And>now. 0 \<le> now \<Longrightarrow> \<forall>y \<in> set ops. op_time y \<le> now \<Longrightarrow> now < open_until ?b pid \<longleftrightarrow> blocked F b (recent_failures (rev ops)) now"
    using snoc(1) [OF ops(1)] snoc(3) by simp_all
  show ?case
  proof (cases x)
    case (Succeeded t)
    then show ?thesis
      by (auto simp: breaker_run_snoc record_success_def failures_def open_until_def blocked_def dict_simps)
  next
    case (Failed t)
    have low: "\<not> t' < open_until ?b pid" if "br_threshold b > int (length (recent_failures (rev ops))) + 1" "t \<le> t'" for t'
      using IH(2) [of t'] ops that Failed by (fastforce simp: blocked_def split: list.splits)
    show ?thesis
      using Failed IH(1) low
      by (auto simp: breaker_run_snoc record_failure_def failures_def open_until_def blocked_def dict_simps Let_def
        split: option.splits)
  next
    case (Asked t)
    have gone: "\<not> blocked F b (recent_failures (rev ops)) now"
      if "t \<le> now" "\<not> t < open_until ?b pid" "\<forall>y \<in> set ops. op_time y \<le> now" for now
      using IH(2) [of now] that ops(3) Asked by auto
    show ?thesis
    proof (cases "\<not> t < open_until ?b pid \<and> 0 < open_until ?b pid")
      case True
      then have "breaker_do F pid x ?b = ?b\<lparr>br_open_until := dict_del pid (br_open_until ?b)\<rparr>"
        using Asked by (simp add: is_open_def)
      then show ?thesis
        using Asked IH(1) gone True by (auto simp: breaker_run_snoc failures_def open_until_def dict_simps)
    next
      case False
      then have "breaker_do F pid x ?b = ?b" using Asked by (auto simp: is_open_def)
      then show ?thesis using Asked IH by (simp add: breaker_run_snoc)
    qed
  qed
qed

text \<open>
  C16: a circuit is open exactly while it should be. After any history of successes, failures and questions
  in the order of time, the provider is held back at a later time exactly when the failures since its last
  success have reached the threshold and the cooldown after the last of them has not passed. A success
  closes the circuit, and after the cooldown a single further failure opens it again.
\<close>

theorem circuit_open_iff:
  assumes "0 < br_threshold b" and "br_failures b = []" and "br_open_until b = []"
    and "sorted (map op_time ops)" and "\<forall>x \<in> set ops. 0 \<le> op_time x \<and> op_time x \<le> now" and "0 \<le> now"
  shows "fst (is_open now pid (breaker_run F pid ops b)) \<longleftrightarrow>
    (\<exists>t rest. recent_failures (rev ops) = t # rest \<and> br_threshold b \<le> int (length (t # rest)) \<and> now < fadd F t (br_cooldown b))"
proof -
  have "now < open_until (breaker_run F pid ops b) pid \<longleftrightarrow> blocked F b (recent_failures (rev ops)) now"
    using breaker_run_state [of b pid ops F] assms by (auto simp: failures_def open_until_def)
  then show ?thesis by (auto simp: is_open_def blocked_def split: list.splits)
qed

definition exact_floats :: float_ops where
  "exact_floats = \<lparr>fl = (\<lambda>x. x), fl_repr = fixed 1\<rparr>"

theorem circuit_open_iff_witness:
  "fst (is_open 50 ''p'' (breaker_run exact_floats ''p'' [Failed 1, Failed 2, Failed 3, Asked 40, Failed 41] new_breaker))
   \<and> \<not> fst (is_open 80 ''p'' (breaker_run exact_floats ''p'' [Failed 1, Failed 2, Failed 3, Asked 40, Failed 41] new_breaker))"
proof -
  let ?ops = "[Failed 1, Failed 2, Failed 3, Asked 40, Failed 41]"
  have ready: "0 < br_threshold new_breaker" "br_failures new_breaker = []" "br_open_until new_breaker = []"
    by (simp_all add: new_breaker_def)
  have "sorted (map op_time ?ops)" "\<forall>x \<in> set ?ops. 0 \<le> op_time x \<and> op_time x \<le> 50" "\<forall>x \<in> set ?ops. 0 \<le> op_time x \<and> op_time x \<le> 80"
    by simp_all
  with circuit_open_iff [OF ready, of ?ops 50 "''p''" exact_floats] circuit_open_iff [OF ready, of ?ops 80 "''p''" exact_floats]
  show ?thesis by (simp add: new_breaker_def fadd_def exact_floats_def)
qed

end
