(* ===== verification/Inference_Gateway.thy ===== *)
theory Inference_Gateway
  imports Secrets Inference_Routing Event_Logging
begin

text \<open>
  The inference gateway of \<open>core/inference/gateway.py\<close>: routing, fallback over the ranked candidates, the
  circuit breaker, the events and the redaction of secrets. The event logger is \<open>log_event\<close> of the
  runtime. The state remembers, for the theorems, which providers were called.
\<close>

section \<open>State\<close>

record inference_env =
  ie_readings :: readings
  ie_floats :: float_ops
  ie_clock :: "nat \<Rightarrow> rat"
  \<comment> \<open>\<open>time.time()\<close> at an outside reading\<close>

record gateway =
  gy_providers :: provider_registry
  gy_models :: model_registry
  gy_secrets :: secret_store
  gy_logs :: bool
  \<comment> \<open>whether there is an event logger\<close>
  gy_max_attempts :: int

record gateway_state =
  gs_log :: log_state
  gs_outside :: outside
  gs_calls :: "(string \<times> string) list"

definition gs_breaker :: "gateway_state \<Rightarrow> breaker" where
  "gs_breaker st = fst (gs_outside st)"

definition on_breaker :: "(rat \<Rightarrow> breaker \<Rightarrow> breaker) \<Rightarrow> inference_env \<Rightarrow> gateway_state \<Rightarrow> gateway_state" where
  "on_breaker f env st =
     (case gs_outside st of (b, n) \<Rightarrow> st\<lparr>gs_outside := (f (ie_clock env n) b, n + 1)\<rparr>)"


section \<open>Events\<close>

definition clean_payload :: "secret_store \<Rightarrow> pydict \<Rightarrow> pydict" where
  "clean_payload ss payload =
     map (\<lambda>(k, v). (k, case v of PStr s \<Rightarrow> PStr (redact_secret_text (list_known_secret_values ss) s) | _ \<Rightarrow> v)) payload"

definition is_type_error :: "error \<Rightarrow> bool" where
  "is_type_error e = (case e of TypeError _ \<Rightarrow> True | _ \<Rightarrow> False)"

text \<open>
  When the logger raises \<open>TypeError\<close>, an event object is built and passed as the only argument, which
  \<open>log_event\<close> does not accept either.
\<close>

definition gw_emit ::
  "inference_env \<Rightarrow> gateway \<Rightarrow> inference_request \<Rightarrow> string option \<Rightarrow> event_type \<Rightarrow> pydict \<Rightarrow> (gateway_state, event option) action" where
  "gw_emit env gw q causation ty payload st =
     (if gy_logs gw then
        (case log_event (ie_readings env)
            \<lparr>ea_type = ty, ea_payload = clean_payload (gy_secrets gw) payload, ea_source = ''RUNTIME'',
             ea_correlation = Some (iq_task_id q), ea_causation = causation, ea_project = Some (iq_project_id q),
             ea_task = Some (iq_task_id q), ea_worker = Some (iq_worker_id q), ea_artifact = None, ea_metadata = []\<rparr> (gs_log st) of
           (Inr e, lg) \<Rightarrow> (Inr (Some e), st\<lparr>gs_log := lg\<rparr>)
         | (Inl x, lg) \<Rightarrow>
             (if is_type_error x then
                (Inl (TypeError ''WorkforceRuntime.log_event() missing 1 required positional argument: payload''),
                 st\<lparr>gs_log := lg\<lparr>lg_tick := lg_tick lg + 1\<rparr>\<rparr>)
              else (Inl x, st\<lparr>gs_log := lg\<rparr>)))
      else (Inr None, st))"

definition float_val :: "inference_env \<Rightarrow> rat \<Rightarrow> pyval" where
  "float_val env x = PFloat (fl_repr (ie_floats env) x)"

definition requested_payload :: "inference_request \<Rightarrow> pydict" where
  "requested_payload q =
     [(''request_id'', PStr (iq_id q)), (''project_id'', PStr (iq_project_id q)), (''task_id'', PStr (iq_task_id q)),
      (''worker_id'', PStr (iq_worker_id q)),
      (''routing_profile'', PStr (routing_profile_value (rq_profile (iq_requirements q)))),
      (''required_capabilities'', str_list (map model_capability_value (rq_required (iq_requirements q)))),
      (''messages_count'', PInt (int (length (iq_messages q)))), (''estimated_input_tokens'', PInt (estimated_input_tokens q))]"

definition attempt_payload :: "inference_request \<Rightarrow> routing_candidate \<Rightarrow> int \<Rightarrow> pydict" where
  "attempt_payload q c attempts =
     [(''request_id'', PStr (iq_id q)), (''provider_id'', PStr (mm_provider_id (rc_model c))),
      (''model_id'', PStr (mm_id (rc_model c))), (''attempt'', PInt attempts)]"

definition completed_payload :: "inference_env \<Rightarrow> inference_request \<Rightarrow> routing_candidate \<Rightarrow> inference_response \<Rightarrow> pydict" where
  "completed_payload env q c r =
     [(''request_id'', PStr (iq_id q)), (''response_id'', PStr (ir_response_id r)),
      (''provider_id'', PStr (mm_provider_id (rc_model c))), (''model_id'', PStr (mm_id (rc_model c))),
      (''total_tokens'', PInt (us_total_tokens (ir_usage r))), (''total_cost'', float_val env (ic_total_cost (ir_cost r))),
      (''latency_ms'', float_val env (ir_latency r)), (''finish_reason'', PStr (ir_finish_reason r))]"

definition fallback_payload :: "inference_request \<Rightarrow> routing_candidate \<Rightarrow> routing_candidate \<Rightarrow> int \<Rightarrow> pydict" where
  "fallback_payload q c next_c attempts =
     [(''request_id'', PStr (iq_id q)), (''failed_provider'', PStr (mm_provider_id (rc_model c))),
      (''failed_model'', PStr (mm_id (rc_model c))), (''fallback_provider'', PStr (mm_provider_id (rc_model next_c))),
      (''fallback_model'', PStr (mm_id (rc_model next_c))), (''attempt'', PInt (attempts + 1))]"


section \<open>One attempt\<close>

definition secret_for :: "gateway \<Rightarrow> string \<Rightarrow> string option" where
  "secret_for gw pid =
     (let ref = get_provider_key_ref (gy_providers gw) pid in
      if given ref then get_secret (gy_secrets gw) (the ref) else None)"

definition announce ::
  "inference_env \<Rightarrow> gateway \<Rightarrow> inference_request \<Rightarrow> string option \<Rightarrow> string \<Rightarrow> routing_candidate \<Rightarrow> int \<Rightarrow> (gateway_state, unit) action" where
  \<comment> \<open>\<open>INFERENCE_ROUTED\<close> and \<open>INFERENCE_STARTED\<close>\<close>
  "announce env gw q causation rationale c attempts =
     bind (gw_emit env gw q causation ''INFERENCE_ROUTED''
       (attempt_payload q c attempts @ [(''score'', float_val env (rc_score c)), (''rationale'', PStr rationale)])) (\<lambda>_.
     bind (gw_emit env gw q causation ''INFERENCE_STARTED'' (attempt_payload q c attempts)) (\<lambda>_. ret ()))"

definition call_provider :: "inference_request \<Rightarrow> gateway \<Rightarrow> provider \<Rightarrow> routing_candidate \<Rightarrow> (gateway_state, inference_response) action" where
  "call_provider q gw p c st =
     (case gs_outside st of (b, n) \<Rightarrow>
        (pv_generate p n q (rc_model c) (secret_for gw (mm_provider_id (rc_model c))),
         st\<lparr>gs_outside := (b, n + 1), gs_calls := gs_calls st @ [(mm_provider_id (rc_model c), mm_id (rc_model c))]\<rparr>))"

definition complete_call ::
  "inference_env \<Rightarrow> gateway \<Rightarrow> inference_request \<Rightarrow> string option \<Rightarrow> routing_candidate \<Rightarrow> inference_response \<Rightarrow>
    (gateway_state, inference_response) action" where
  "complete_call env gw q causation c r =
     (let pid = mm_provider_id (rc_model c); secret = secret_for gw pid;
          known = list_known_secret_values (gy_secrets gw) @ (if given secret then [the secret] else []);
          r' = r\<lparr>ir_content := redact_secret_text known (ir_content r)\<rparr>
      in
      bind (\<lambda>st. (Inr (), st\<lparr>gs_outside := (record_success pid (gs_breaker st), snd (gs_outside st))\<rparr>)) (\<lambda>_.
      bind (gw_emit env gw q causation ''INFERENCE_COMPLETED'' (completed_payload env q c r')) (\<lambda>_. ret r')))"

definition fail_call ::
  "inference_env \<Rightarrow> gateway \<Rightarrow> inference_request \<Rightarrow> string option \<Rightarrow> routing_candidate list \<Rightarrow> routing_candidate \<Rightarrow> int \<Rightarrow>
    error \<Rightarrow> (gateway_state, unit) action" where
  "fail_call env gw q causation cands c attempts err =
     (let pid = mm_provider_id (rc_model c);
          msg = redact_secret_text (list_known_secret_values (gy_secrets gw)) (error_message err)
      in
      bind (\<lambda>st. (Inr (), on_breaker (\<lambda>now. record_failure (ie_floats env) now pid) env st)) (\<lambda>_.
      bind (gw_emit env gw q causation ''INFERENCE_FAILED'' (attempt_payload q c attempts @ [(''error'', PStr msg)])) (\<lambda>_.
      if attempts < int (length cands) \<and> attempts < gy_max_attempts gw then
        bind (gw_emit env gw q causation ''INFERENCE_FALLBACK'' (fallback_payload q c (cands ! nat attempts) attempts)) (\<lambda>_. ret ())
      else ret ())))"


section \<open>Fallback\<close>

definition exhausted :: "inference_request \<Rightarrow> routing_candidate list \<Rightarrow> int \<Rightarrow> error option \<Rightarrow> inference_error" where
  "exhausted q cands attempts lasterr =
     (let text = (case lasterr of None \<Rightarrow> ''None'' | Some e \<Rightarrow> error_message e) in
      NoProviderAvailableError (iq_id q)
        (fold (\<lambda>c. dict_set (mm_id (rc_model c)) [''Execution failed after attempt: '' @ text]) (py_take attempts cands) [])
        (''All '' @ int_str attempts @ '' candidate provider(s) failed during execution: '' @ text))"

fun attempt_loop ::
  "inference_env \<Rightarrow> gateway \<Rightarrow> inference_request \<Rightarrow> string option \<Rightarrow> string \<Rightarrow> routing_candidate list \<Rightarrow> routing_candidate list \<Rightarrow>
    int \<Rightarrow> error option \<Rightarrow> string list \<Rightarrow> gateway_state \<Rightarrow> (inference_error + inference_response) \<times> gateway_state" where
  "attempt_loop env gw q causation rationale cands [] attempts lasterr failed st = (Inl (exhausted q cands attempts lasterr), st)"
| "attempt_loop env gw q causation rationale cands (c # cs) attempts lasterr failed st =
     (let pid = mm_provider_id (rc_model c) in
      if attempts \<ge> gy_max_attempts gw then (Inl (exhausted q cands attempts lasterr), st)
      else if pid \<in> set failed then attempt_loop env gw q causation rationale cands cs attempts lasterr failed st
      else case get_provider (gy_providers gw) pid of
        Inl _ \<Rightarrow> attempt_loop env gw q causation rationale cands cs (attempts + 1) lasterr failed st
      | Inr p \<Rightarrow>
          (case announce env gw q causation rationale c (attempts + 1) st of
             (Inl e, st1) \<Rightarrow> (Inl (Raised e), st1)
           | (Inr _, st1) \<Rightarrow>
               (case bind (call_provider q gw p c) (complete_call env gw q causation c) st1 of
                  (Inr r, st2) \<Rightarrow> (Inr r, st2)
                | (Inl err, st2) \<Rightarrow>
                    (case fail_call env gw q causation cands c (attempts + 1) err st2 of
                       (Inl e, st3) \<Rightarrow> (Inl (Raised e), st3)
                     | (Inr _, st3) \<Rightarrow>
                         attempt_loop env gw q causation rationale cands cs (attempts + 1) (Some err) (pid # failed) st3))))"

definition routed :: "inference_env \<Rightarrow> gateway \<Rightarrow> inference_request \<Rightarrow> gateway_state \<Rightarrow> (error + routing_decision) \<times> gateway_state" where
  "routed env gw q st =
     (case evaluate_route (ie_floats env) (ie_clock env) q (gy_models gw) (gy_providers gw) (gs_outside st) of
        (d, out) \<Rightarrow> (d, st\<lparr>gs_outside := out\<rparr>))"

definition execute_inference ::
  "inference_env \<Rightarrow> gateway \<Rightarrow> inference_request \<Rightarrow> string option \<Rightarrow> gateway_state \<Rightarrow>
    (inference_error + inference_response) \<times> gateway_state" where
  "execute_inference env gw q causation_id st =
     (case gw_emit env gw q causation_id ''INFERENCE_REQUESTED'' (requested_payload q) st of
        (Inl e, st1) \<Rightarrow> (Inl (Raised e), st1)
      | (Inr evt, st1) \<Rightarrow>
          (let causation = (case evt of None \<Rightarrow> causation_id | Some e \<Rightarrow> Some (e_event_id e)) in
           case routed env gw q st1 of
             (Inl e, st2) \<Rightarrow> (Inl (Raised e), st2)
           | (Inr d, st2) \<Rightarrow>
               (if rd_candidates d = [] \<or> rd_selected_model d = None then
                  (Inl (NoProviderAvailableError (iq_id q) (rd_rejected d) (rd_rationale d)), st2)
                else attempt_loop env gw q causation (rd_rationale d) (rd_candidates d) (rd_candidates d) 0 None [] st2)))"


section \<open>What the pieces do\<close>

abbreviation logged_events :: "gateway_state \<Rightarrow> event list" where
  "logged_events st \<equiv> s_events (lg_store (gs_log st))"

text \<open>Every event that is added has a cleaned payload, the breaker and the calls stay.\<close>

definition only_logs :: "secret_store \<Rightarrow> gateway_state \<Rightarrow> gateway_state \<Rightarrow> bool" where
  "only_logs ss st st' \<longleftrightarrow>
     (\<exists>new. logged_events st' = logged_events st @ new \<and> (\<forall>e \<in> set new. \<exists>p. e_payload e = clean_payload ss p))"

definition same_calls :: "gateway_state \<Rightarrow> gateway_state \<Rightarrow> bool" where
  "same_calls st st' \<longleftrightarrow> gs_calls st' = gs_calls st"

lemma only_logs_rel: "reflp (only_logs ss)" "transp (only_logs ss)"
proof -
  show "reflp (only_logs ss)" by (auto simp: reflp_def only_logs_def)
  show "transp (only_logs ss)"
  proof (rule transpI)
    fix a b c assume "only_logs ss a b" "only_logs ss b c"
    then obtain xs ys where "logged_events b = logged_events a @ xs" "logged_events c = logged_events b @ ys"
      "\<forall>e \<in> set xs. \<exists>p. e_payload e = clean_payload ss p" "\<forall>e \<in> set ys. \<exists>p. e_payload e = clean_payload ss p"
      by (auto simp: only_logs_def)
    then show "only_logs ss a c" unfolding only_logs_def by (intro exI [of _ "xs @ ys"]) auto
  qed
qed

lemma same_calls_rel: "reflp same_calls" "transp same_calls"
  by (auto simp: same_calls_def reflp_def transp_def)

lemma log_event_adds:
  "log_event orc a lg = (r, lg') \<Longrightarrow> \<exists>new. s_events (lg_store lg') = s_events (lg_store lg) @ new \<and> (\<forall>e \<in> set new. e_payload e = ea_payload a)"
proof -
  let ?e = "event_create orc (lg_tick lg) a"
  assume log: "log_event orc a lg = (r, lg')"
  show ?thesis
  proof (cases "append_event ?e (lg_store lg)")
    case (Inl x)
    with log show ?thesis by (auto simp: log_event_def)
  next
    case (Inr y)
    then obtain e' s' where "append_event ?e (lg_store lg) = Inr (e', s')" by (cases y) simp
    with append_event_Inr [OF this] log show ?thesis by (auto simp: log_event_def event_create_def)
  qed
qed

lemma emit_only_logs: "keeps (only_logs (gy_secrets gw)) (gw_emit env gw q cz ty payload)"
  unfolding keeps_def
proof
  fix st
  show "only_logs (gy_secrets gw) st (snd (gw_emit env gw q cz ty payload st))"
  proof (cases "gy_logs gw")
    case True
    let ?a = "\<lparr>ea_type = ty, ea_payload = clean_payload (gy_secrets gw) payload, ea_source = ''RUNTIME'',
             ea_correlation = Some (iq_task_id q), ea_causation = cz, ea_project = Some (iq_project_id q),
             ea_task = Some (iq_task_id q), ea_worker = Some (iq_worker_id q), ea_artifact = None, ea_metadata = []\<rparr>"
    obtain r lg where log: "log_event (ie_readings env) ?a (gs_log st) = (r, lg)" by (cases "log_event (ie_readings env) ?a (gs_log st)") simp
    obtain new where "s_events (lg_store lg) = logged_events st @ new" "\<forall>e \<in> set new. e_payload e = clean_payload (gy_secrets gw) payload"
      using log_event_adds [OF log] by auto
    with log True show ?thesis
      by (auto simp: gw_emit_def only_logs_def split: sum.split)
  qed (use reflpD [OF only_logs_rel(1)] in \<open>simp add: gw_emit_def\<close>)
qed

lemma emit_same_calls: "keeps same_calls (gw_emit env gw q cz ty payload)"
  by (auto simp: keeps_def same_calls_def gw_emit_def split: sum.split prod.split)

lemma pieces_only_logs:
  "keeps (only_logs (gy_secrets gw)) (announce env gw q cz ra c n)"
  "keeps (only_logs (gy_secrets gw)) (bind (call_provider q gw p c) (complete_call env gw q cz c))"
  "keeps (only_logs (gy_secrets gw)) (fail_call env gw q cz cands c n err)"
proof -
  note rules = keeps_bind [OF only_logs_rel(2)] emit_only_logs keeps_ret [OF only_logs_rel(1)]
  have outside: "keeps (only_logs (gy_secrets gw)) (\<lambda>st. (x st, f st))" if "\<And>st. gs_log (f st) = gs_log st"
    for x :: "gateway_state \<Rightarrow> error + 'x" and f
    using that by (simp add: keeps_def only_logs_def)
  have log: "gs_log (on_breaker g env st) = gs_log st" for g st by (simp add: on_breaker_def split: prod.split)
  have call: "keeps (only_logs (gy_secrets gw)) (call_provider q gw p c)"
    by (simp add: keeps_def only_logs_def call_provider_def split: prod.split)
  show "keeps (only_logs (gy_secrets gw)) (announce env gw q cz ra c n)" unfolding announce_def by (intro rules)
  show "keeps (only_logs (gy_secrets gw)) (bind (call_provider q gw p c) (complete_call env gw q cz c))"
    unfolding complete_call_def Let_def by (intro rules call outside) simp
  show "keeps (only_logs (gy_secrets gw)) (fail_call env gw q cz cands c n err)"
    unfolding fail_call_def Let_def by (auto intro!: rules outside simp: log)
qed

lemma pieces_same_calls:
  "keeps same_calls (announce env gw q cz ra c n)"
  "keeps same_calls (complete_call env gw q cz c r)"
  "keeps same_calls (fail_call env gw q cz cands c n err)"
proof -
  note rules = keeps_bind [OF same_calls_rel(2)] emit_same_calls keeps_ret [OF same_calls_rel(1)]
  have outside: "keeps same_calls (\<lambda>st. (x st, f st))" if "\<And>st. gs_calls (f st) = gs_calls st"
    for x :: "gateway_state \<Rightarrow> error + 'x" and f
    using that by (simp add: keeps_def same_calls_def)
  have calls: "gs_calls (on_breaker g env st) = gs_calls st" for g st by (simp add: on_breaker_def split: prod.split)
  show "keeps same_calls (announce env gw q cz ra c n)" unfolding announce_def by (intro rules)
  show "keeps same_calls (complete_call env gw q cz c r)" unfolding complete_call_def Let_def by (intro rules outside) simp
  show "keeps same_calls (fail_call env gw q cz cands c n err)"
    unfolding fail_call_def Let_def by (auto intro!: rules outside simp: calls)
qed


section \<open>Fallback follows a plan\<close>

abbreviation provider_of :: "routing_candidate \<Rightarrow> string" where
  "provider_of c \<equiv> mm_provider_id (rc_model c)"

definition call_of :: "routing_candidate \<Rightarrow> string \<times> string" where
  "call_of c = (provider_of c, mm_id (rc_model c))"

fun first_per_provider :: "string list \<Rightarrow> routing_candidate list \<Rightarrow> routing_candidate list" where
  "first_per_provider seen [] = []"
| "first_per_provider seen (c # cs) =
     (if provider_of c \<in> set seen then first_per_provider seen cs else c # first_per_provider (provider_of c # seen) cs)"

lemma first_per_provider_new: "c \<in> set (first_per_provider seen cs) \<Longrightarrow> c \<in> set cs \<and> provider_of c \<notin> set seen"
  by (induction seen cs rule: first_per_provider.induct) (auto split: if_splits)

lemma first_per_provider_distinct: "distinct (map provider_of (first_per_provider seen cs))"
  by (induction seen cs rule: first_per_provider.induct) (auto dest: first_per_provider_new)

definition attempt_plan :: "gateway \<Rightarrow> int \<Rightarrow> string list \<Rightarrow> routing_candidate list \<Rightarrow> routing_candidate list" where
  "attempt_plan gw attempts failed cs = take (nat (gy_max_attempts gw - attempts)) (first_per_provider failed cs)"

lemma attempt_plan_Cons:
  assumes "attempts < gy_max_attempts gw"
  shows "attempt_plan gw attempts failed (c # cs) =
    (if provider_of c \<in> set failed then attempt_plan gw attempts failed cs
     else c # attempt_plan gw (attempts + 1) (provider_of c # failed) cs)"
proof -
  have "nat (gy_max_attempts gw - attempts) = Suc (nat (gy_max_attempts gw - (attempts + 1)))" using assms by simp
  then show ?thesis by (simp add: attempt_plan_def)
qed

lemma call_provider_calls: "gs_calls (snd (call_provider q gw p c st)) = gs_calls st @ [call_of c]"
  by (simp add: call_provider_def call_of_def split: prod.split)

lemma call_complete_calls:
  "gs_calls (snd (bind (call_provider q gw p c) (complete_call env gw q cz c) st)) = gs_calls st @ [call_of c]"
proof (cases "call_provider q gw p c st")
  case (Pair r st1)
  then have "gs_calls st1 = gs_calls st @ [call_of c]" using call_provider_calls [of q gw p c st] by simp
  moreover have "gs_calls (snd (complete_call env gw q cz c x st1)) = gs_calls st1" for x
    using keeps_snd [OF pieces_same_calls(2)] unfolding same_calls_def by blast
  ultimately show ?thesis using Pair by (cases r) (simp_all add: bind_def)
qed

lemma attempt_loop_plan:
  assumes "attempt_loop env gw q cz ra cands cs attempts le failed st = (res, st')"
    and "\<forall>c \<in> set cs. dict_get (pr_providers (gy_providers gw)) (provider_of c) \<noteq> None"
  shows "\<exists>k. gs_calls st' = gs_calls st @ map call_of (take k (attempt_plan gw attempts failed cs))
    \<and> k \<le> length (attempt_plan gw attempts failed cs) \<and> (\<forall>r. res = Inr r \<longrightarrow> 0 < k)
    \<and> (\<forall>a b c. res = Inl (NoProviderAvailableError a b c) \<longrightarrow> k = length (attempt_plan gw attempts failed cs))"
  using assms
proof (induction cs arbitrary: attempts le failed st)
  case Nil
  then show ?case by (auto simp: attempt_plan_def)
next
  case (Cons c cs)
  let ?pid = "provider_of c"
  show ?case
  proof (cases "attempts \<ge> gy_max_attempts gw")
    case True
    then show ?thesis using Cons(2) by (auto simp: attempt_plan_def Let_def)
  next
    case less: False
    then have lt: "attempts < gy_max_attempts gw" by simp
    show ?thesis
    proof (cases "?pid \<in> set failed")
      case True
      then have "attempt_loop env gw q cz ra cands cs attempts le failed st = (res, st')" using Cons(2) less by simp
      with Cons(1) [OF this] Cons(3) True show ?thesis by (simp add: attempt_plan_Cons [OF lt])
    next
      case False
      obtain p where p: "get_provider (gy_providers gw) ?pid = Inr p" using Cons(3) by (auto simp: get_provider_def)
      obtain r1 st1 where a: "announce env gw q cz ra c (attempts + 1) st = (r1, st1)" by (cases "announce env gw q cz ra c (attempts + 1) st") simp
      have calls1: "gs_calls st1 = gs_calls st" using keeps_snd [OF pieces_same_calls(1)] a by (metis same_calls_def snd_conv)
      obtain r2 st2 where b: "bind (call_provider q gw p c) (complete_call env gw q cz c) st1 = (r2, st2)"
        by (cases "bind (call_provider q gw p c) (complete_call env gw q cz c) st1") simp
      have calls2: "gs_calls st2 = gs_calls st @ [call_of c]" using call_complete_calls [of q gw p c env cz st1] b calls1 by simp
      define r3 st3 where "r3 = (\<lambda>e. fst (fail_call env gw q cz cands c (attempts + 1) e st2))"
        and "st3 = (\<lambda>e. snd (fail_call env gw q cz cands c (attempts + 1) e st2))"
      then have f: "fail_call env gw q cz cands c (attempts + 1) e st2 = (r3 e, st3 e)" for e by simp
      have calls3: "gs_calls (st3 e) = gs_calls st @ [call_of c]" for e
        using keeps_snd [OF pieces_same_calls(3)] f calls2 by (metis same_calls_def snd_conv)
      let ?rest = "attempt_plan gw (attempts + 1) (?pid # failed) cs"
      have plan: "attempt_plan gw attempts failed (c # cs) = c # ?rest" using False by (simp add: attempt_plan_Cons [OF lt])
      have raised: ?thesis if "gs_calls st' = gs_calls st" "res = Inl (Raised e)" for e
        using that by (intro exI [of _ 0]) simp
      have called: ?thesis if "gs_calls st' = gs_calls st @ [call_of c]" "\<forall>a b c. res \<noteq> Inl (NoProviderAvailableError a b c)"
        using that unfolding plan by (intro exI [of _ 1]) simp
      show ?thesis
      proof (cases r1)
        case (Inl e)
        then show ?thesis using Cons(2) less False p a calls1 by (intro raised [of e]) simp_all
      next
        case r1: (Inr u)
        show ?thesis
        proof (cases r2)
          case (Inr r)
          then show ?thesis using Cons(2) less False p a r1 b calls2 by (intro called) auto
        next
          case r2: (Inl err)
          show ?thesis
          proof (cases "r3 err")
            case (Inl e)
            then show ?thesis using Cons(2) less False p a r1 b r2 f [of err] calls3 [of err] by (intro called) auto
          next
            case (Inr v)
            then have "attempt_loop env gw q cz ra cands cs (attempts + 1) (Some err) (?pid # failed) (st3 err) = (res, st')"
              using Cons(2) less False p a r1 b r2 f [of err] by simp
            from Cons(1) [OF this] Cons(3) obtain k where
              "gs_calls st' = gs_calls (st3 err) @ map call_of (take k ?rest)" "k \<le> length ?rest"
              "\<forall>r. res = Inr r \<longrightarrow> 0 < k" "\<forall>a b c. res = Inl (NoProviderAvailableError a b c) \<longrightarrow> k = length ?rest"
              by auto
            then show ?thesis unfolding plan calls3 by (intro exI [of _ "Suc k"]) simp
          qed
        qed
      qed
    qed
  qed
qed


lemma emit_calls: "gw_emit env gw q cz ty payload st = (r, st') \<Longrightarrow> gs_calls st' = gs_calls st \<and> gs_outside st' = gs_outside st"
  by (auto simp: gw_emit_def split: if_splits sum.splits prod.splits)

text \<open>The candidates of the route that \<open>execute\<close> takes, and the state in which the fallback starts.\<close>

lemma execute_cases:
  assumes "execute_inference env gw q causation_id st = (res, st')"
  obtains (unlogged) e where "res = Inl (Raised e)" "gs_calls st' = gs_calls st"
      "gw_emit env gw q causation_id ''INFERENCE_REQUESTED'' (requested_payload q) st = (Inl e, st')"
  | (unrouted) e st1 evt where "res = Inl (Raised e)" "gs_calls st' = gs_calls st"
      "gw_emit env gw q causation_id ''INFERENCE_REQUESTED'' (requested_payload q) st = (Inr evt, st1)"
      "routed env gw q st1 = (Inl e, st')"
  | (none) d st1 evt where "res = Inl (NoProviderAvailableError (iq_id q) (rd_rejected d) (rd_rationale d))" "gs_calls st' = gs_calls st"
      "gw_emit env gw q causation_id ''INFERENCE_REQUESTED'' (requested_payload q) st = (Inr evt, st1)"
      "routed env gw q st1 = (Inr d, st')" "rd_candidates d = []"
  | (tried) d st1 st2 evt cz where
      "gw_emit env gw q causation_id ''INFERENCE_REQUESTED'' (requested_payload q) st = (Inr evt, st1)"
      "routed env gw q st1 = (Inr d, st2)" "gs_calls st2 = gs_calls st" "gs_log st2 = gs_log st1" "rd_candidates d \<noteq> []"
      "attempt_loop env gw q cz (rd_rationale d) (rd_candidates d) (rd_candidates d) 0 None [] st2 = (res, st')"
proof -
  obtain r1 st1 where e: "gw_emit env gw q causation_id ''INFERENCE_REQUESTED'' (requested_payload q) st = (r1, st1)"
    by (cases "gw_emit env gw q causation_id ''INFERENCE_REQUESTED'' (requested_payload q) st") simp
  note calls1 = conjunct1 [OF emit_calls [OF e]]
  show thesis
  proof (cases r1)
    case (Inl x)
    show thesis using assms e Inl calls1 by (intro unlogged [of x]) (simp_all add: execute_inference_def)
  next
    case (Inr evt)
    obtain r2 st2 where r: "routed env gw q st1 = (r2, st2)" by (cases "routed env gw q st1") simp
    have st2: "gs_calls st2 = gs_calls st1" "gs_log st2 = gs_log st1"
      using r by (auto simp: routed_def split: prod.splits)
    show thesis
    proof (cases r2)
      case (Inl x)
      show thesis using assms e \<open>r1 = Inr evt\<close> r Inl calls1 st2
        by (intro unrouted [of x evt st1]) (simp_all add: execute_inference_def Let_def)
    next
      case d: (Inr d)
      have sel: "rd_selected_model d = None \<longleftrightarrow> rd_candidates d = []"
        using r d by (auto simp: routed_def evaluate_route_def Let_def split: prod.splits sum.splits list.splits)
      show thesis
      proof (cases "rd_candidates d = []")
        case True
        show thesis using assms e \<open>r1 = Inr evt\<close> r d calls1 st2 True sel
          by (intro none [of d evt st1]) (simp_all add: execute_inference_def Let_def)
      next
        case False
        show thesis using assms e \<open>r1 = Inr evt\<close> r d calls1 st2 False sel
          by (intro tried [of evt st1 d st2 "case evt of None \<Rightarrow> causation_id | Some e \<Rightarrow> Some (e_event_id e)"])
            (simp_all add: execute_inference_def Let_def)
      qed
    qed
  qed
qed

lemma routed_candidates:
  assumes "routed env gw q st = (Inr d, st')" and "distinct (map mm_id (list_models (gy_models gw) None None None))"
    and "c \<in> set (rd_candidates d)"
  shows "rc_model c \<in> set (list_models (gy_models gw) None None None) \<and> satisfies (ie_floats env) q (rc_model c)
    \<and> dict_get (pr_providers (gy_providers gw)) (provider_of c) \<noteq> None"
proof -
  obtain el rej out where loop: "route_loop (ie_floats env) (ie_clock env) (gy_providers gw) q (list_models (gy_models gw) None None None) [] [] (gs_outside st)
      = (Inr (el, rej), out)" "rd_candidates d = ranked el"
    using assms(1) by (auto simp: routed_def evaluate_route_def Let_def split: prod.splits sum.splits)
  from route_loop_result [OF loop(1) assms(2)] loop(2) assms(3) show ?thesis by auto
qed

text \<open>
  C7: the calls of one request are bounded and never wasted on a failing provider. A request makes at most
  the configured number of calls, each to a different provider, each for an active model that meets the
  request and whose provider is registered; a response comes only from a call.
\<close>

theorem provider_calls_bounded:
  assumes "distinct (map mm_id (list_models (gy_models gw) None None None))"
    and "execute_inference env gw q causation_id st = (res, st')"
  shows "\<exists>new. gs_calls st' = gs_calls st @ new \<and> int (length new) \<le> max 0 (gy_max_attempts gw) \<and> distinct (map fst new)
    \<and> (\<forall>(p, m) \<in> set new. dict_get (pr_providers (gy_providers gw)) p \<noteq> None
         \<and> (\<exists>x \<in> set (list_models (gy_models gw) None None None). mm_id x = m \<and> mm_provider_id x = p \<and> satisfies (ie_floats env) q x))
    \<and> (\<forall>r. res = Inr r \<longrightarrow> new \<noteq> [])"
  using assms(2)
proof (cases rule: execute_cases)
  case (tried d st1 st2 evt cz)
  note ok = routed_candidates [OF tried(2) assms(1)]
  let ?plan = "attempt_plan gw 0 [] (rd_candidates d)"
  obtain k where k: "gs_calls st' = gs_calls st @ map call_of (take k ?plan)" "k \<le> length ?plan" "\<forall>r. res = Inr r \<longrightarrow> 0 < k"
    using attempt_loop_plan [OF tried(6)] ok tried(3) by auto
  have in_plan: "c \<in> set (rd_candidates d)" if "c \<in> set (take k ?plan)" for c
    using that unfolding attempt_plan_def by (auto dest!: in_set_takeD first_per_provider_new)
  have "distinct (map provider_of ?plan)"
    unfolding attempt_plan_def take_map [symmetric] by (rule distinct_take [OF first_per_provider_distinct])
  then have "distinct (map fst (map call_of (take k ?plan)))"
    by (simp add: comp_def call_of_def take_map [symmetric] distinct_take)
  moreover have "int (length (map call_of (take k ?plan))) \<le> max 0 (gy_max_attempts gw)"
    by (simp add: attempt_plan_def)
  moreover have "\<forall>(p, m) \<in> set (map call_of (take k ?plan)). dict_get (pr_providers (gy_providers gw)) p \<noteq> None
         \<and> (\<exists>x \<in> set (list_models (gy_models gw) None None None). mm_id x = m \<and> mm_provider_id x = p \<and> satisfies (ie_floats env) q x)"
    using ok [OF in_plan] by (fastforce simp: call_of_def)
  ultimately show ?thesis using k by (intro exI [of _ "map call_of (take k ?plan)"]) auto
qed simp_all


section \<open>Secrets stay out of the log\<close>

lemma attempt_loop_only_logs:
  "attempt_loop env gw q cz ra cands cs attempts le failed st = (res, st') \<Longrightarrow> only_logs (gy_secrets gw) st st'"
proof (induction cs arbitrary: attempts le failed st)
  case Nil
  then show ?case using reflpD [OF only_logs_rel(1)] by simp
next
  case (Cons c cs)
  let ?pid = "provider_of c"
  have refl: "only_logs (gy_secrets gw) st st" using reflpD [OF only_logs_rel(1)] .
  have trans: "only_logs (gy_secrets gw) x z" if "only_logs (gy_secrets gw) x y" "only_logs (gy_secrets gw) y z" for x y z
    using that transpD [OF only_logs_rel(2)] by blast
  show ?case
  proof (cases "attempts \<ge> gy_max_attempts gw \<or> ?pid \<in> set failed")
    case True
    then show ?thesis using Cons(2) refl Cons(1) [of attempts le failed st] by (auto simp: Let_def split: if_splits)
  next
    case False
    show ?thesis
    proof (cases "get_provider (gy_providers gw) ?pid")
      case (Inl x)
      then show ?thesis using Cons(2) False Cons(1) by simp
    next
      case (Inr p)
      obtain r1 st1 where a: "announce env gw q cz ra c (attempts + 1) st = (r1, st1)" by (cases "announce env gw q cz ra c (attempts + 1) st") simp
      note s1 = keepsD [OF pieces_only_logs(1) a]
      obtain r2 st2 where b: "bind (call_provider q gw p c) (complete_call env gw q cz c) st1 = (r2, st2)"
        by (cases "bind (call_provider q gw p c) (complete_call env gw q cz c) st1") simp
      note s2 = trans [OF s1 keepsD [OF pieces_only_logs(2) b]]
      show ?thesis
      proof (cases "isl r1 \<or> \<not> isl r2")
        case True
        then show ?thesis using Cons(2) False Inr a b s1 s2 by (auto split: sum.splits)
      next
        case called: False
        then obtain u err where r: "r1 = Inr u" "r2 = Inl err" by (cases r1; cases r2) auto
        obtain r3 st3 where f: "fail_call env gw q cz cands c (attempts + 1) err st2 = (r3, st3)"
          by (cases "fail_call env gw q cz cands c (attempts + 1) err st2") simp
        note s3 = trans [OF s2 keepsD [OF pieces_only_logs(3) f]]
        show ?thesis
        proof (cases r3)
          case (Inl e)
          then show ?thesis using Cons(2) False \<open>get_provider (gy_providers gw) ?pid = Inr p\<close> a b r f s3 by simp
        next
          case (Inr v)
          then have "attempt_loop env gw q cz ra cands cs (attempts + 1) (Some err) (?pid # failed) st3 = (res, st')"
            using Cons(2) False \<open>get_provider (gy_providers gw) ?pid = Inr p\<close> a b r f by simp
          from trans [OF s3 Cons(1) [OF this]] show ?thesis .
        qed
      qed
    qed
  qed
qed

lemma clean_payload_free:
  assumes "sec \<in> set (list_known_secret_values ss)" and "distinctive sec" and "(k, PStr s) \<in> set (clean_payload ss p)"
  shows "\<not> contains s sec"
  using assms(3) redacted_free [OF assms(2, 1)] by (auto simp: clean_payload_def split: pyval.splits)

lemma attempt_loop_content:
  assumes "attempt_loop env gw q cz ra cands cs attempts le failed st = (Inr r, st')"
  shows "\<exists>known text. set (list_known_secret_values (gy_secrets gw)) \<subseteq> set known \<and> ir_content r = redact_secret_text known text"
  using assms
proof (induction cs arbitrary: attempts le failed st)
  case (Cons c cs)
  have "\<exists>known text. set (list_known_secret_values (gy_secrets gw)) \<subseteq> set known \<and> ir_content r = redact_secret_text known text"
    if "bind (call_provider q gw p c) (complete_call env gw q cz c) st1 = (Inr r, st2)" for p st1 st2
    using that by (auto simp: bind_Inr complete_call_def Let_def) (metis Un_upper1 set_append append_Nil2 subset_refl)+
  with Cons show ?case by (auto simp: Let_def split: if_splits sum.splits prod.splits)
qed simp




section \<open>Open circuits and answering providers\<close>

definition stays_open :: "(nat \<Rightarrow> rat) \<Rightarrow> string \<Rightarrow> breaker \<Rightarrow> bool" where
  "stays_open clock pid b \<longleftrightarrow> (\<forall>n. clock n < open_until b pid)"

lemma is_open_keeps: "stays_open clock pid b \<Longrightarrow> stays_open clock pid (snd (is_open (clock n) pid' b))"
  by (cases "pid = pid'") (auto simp: stays_open_def is_open_def open_until_def dict_simps)

lemma screen_open:
  assumes "screen_model F clock reg q m out = (r, out')" and "stays_open clock pid (fst out)"
  shows "stays_open clock pid (fst out') \<and> (\<forall>c. r = Inr (Inr c) \<longrightarrow> provider_of c \<noteq> pid)"
proof
  have "fst out' = fst out \<or> fst out' = snd (is_open (clock (snd out)) (mm_provider_id m) (fst out))"
    using assms(1)
    by (auto simp: screen_model_def Let_def split: prod.splits sum.splits bool.splits)
  then show "stays_open clock pid (fst out')" using assms(2) is_open_keeps by auto
  show "\<forall>c. r = Inr (Inr c) \<longrightarrow> provider_of c \<noteq> pid"
  proof (intro allI impI notI)
    fix c assume r: "r = Inr (Inr c)" and p: "provider_of c = pid"
    note acc = screen_accepts [OF assms(1) [unfolded r]]
    have "fst (is_open (clock (snd out)) pid (fst out))" using assms(2) by (simp add: stays_open_def is_open_def)
    with acc p show False by auto
  qed
qed

lemma route_open:
  assumes "route_loop F clock reg q ms eligible rejected out = (Inr (el, rej), out')" and "stays_open clock pid (fst out)"
    and "\<forall>c \<in> set eligible. provider_of c \<noteq> pid"
  shows "\<forall>c \<in> set el. provider_of c \<noteq> pid"
  using assms
proof (induction ms arbitrary: eligible rejected out)
  case (Cons m ms)
  obtain r out1 where screen: "screen_model F clock reg q m out = (r, out1)" by (cases "screen_model F clock reg q m out") simp
  note ok = screen_open [OF screen Cons(3)]
  show ?case
  proof (cases r)
    case (Inl e)
    with Cons(2) screen show ?thesis by simp
  next
    case x: (Inr x)
    show ?thesis
    proof (cases x)
      case (Inl t)
      with x Cons(2) screen have "route_loop F clock reg q ms eligible (dict_set (mm_id m) [t] rejected) out1 = (Inr (el, rej), out')" by simp
      from Cons(1) [OF this conjunct1 [OF ok] Cons(4)] show ?thesis .
    next
      case (Inr c)
      with x Cons(2) screen have "route_loop F clock reg q ms (eligible @ [c]) rejected out1 = (Inr (el, rej), out')" by simp
      moreover have "\<forall>c \<in> set (eligible @ [c]). provider_of c \<noteq> pid" using Cons(4) ok x Inr by auto
      ultimately show ?thesis using Cons(1) conjunct1 [OF ok] by blast
    qed
  qed
qed simp

text \<open>
  A provider whose circuit stays open during a request is not called by it, whatever the other
  providers do.
\<close>

theorem open_circuit_not_called:
  assumes "distinct (map mm_id (list_models (gy_models gw) None None None))"
    and "stays_open (ie_clock env) pid (gs_breaker st)"
    and "execute_inference env gw q causation_id st = (res, st')"
  shows "\<exists>new. gs_calls st' = gs_calls st @ new \<and> pid \<notin> fst ` set new"
  using assms(3)
proof (cases rule: execute_cases)
  case (tried d st1 st2 evt cz)
  have "gs_outside st1 = gs_outside st" using emit_calls [OF tried(1)] by simp
  then obtain el rej out where loop: "route_loop (ie_floats env) (ie_clock env) (gy_providers gw) q (list_models (gy_models gw) None None None) [] [] (gs_outside st)
      = (Inr (el, rej), out)" "rd_candidates d = ranked el"
    using tried(2) by (auto simp: routed_def evaluate_route_def Let_def split: prod.splits sum.splits)
  have others: "\<forall>c \<in> set (rd_candidates d). provider_of c \<noteq> pid"
    using route_open [OF loop(1)] assms(2) loop(2) by (simp add: gs_breaker_def)
  obtain k where k: "gs_calls st' = gs_calls st @ map call_of (take k (attempt_plan gw 0 [] (rd_candidates d)))"
    using attempt_loop_plan [OF tried(6)] routed_candidates [OF tried(2) assms(1)] tried(3) by auto
  have "pid \<notin> fst ` set (map call_of (take k (attempt_plan gw 0 [] (rd_candidates d))))"
  proof
    assume "pid \<in> fst ` set (map call_of (take k (attempt_plan gw 0 [] (rd_candidates d))))"
    then obtain c where "c \<in> set (take k (attempt_plan gw 0 [] (rd_candidates d)))" "provider_of c = pid"
      by (auto simp: call_of_def)
    then have "c \<in> set (rd_candidates d)"
      unfolding attempt_plan_def by (auto dest!: in_set_takeD first_per_provider_new)
    with others \<open>provider_of c = pid\<close> show False by blast
  qed
  with k show ?thesis by blast
qed simp_all

lemma emit_succeeds:
  assumes "fresh_uuids (ie_readings env)" and "log_ok (ie_readings env) (gs_log st)"
  obtains evt st' where "gw_emit env gw q cz ty payload st = (Inr evt, st')" "log_ok (ie_readings env) (gs_log st')"
proof (cases "gy_logs gw")
  case True
  let ?a = "\<lparr>ea_type = ty, ea_payload = clean_payload (gy_secrets gw) payload, ea_source = ''RUNTIME'',
             ea_correlation = Some (iq_task_id q), ea_causation = cz, ea_project = Some (iq_project_id q),
             ea_task = Some (iq_task_id q), ea_worker = Some (iq_worker_id q), ea_artifact = None, ea_metadata = []\<rparr>"
  obtain e lg where "log_event (ie_readings env) ?a (gs_log st) = (Inr e, lg)" "log_ok (ie_readings env) lg"
    by (rule log_event_ok [OF assms, of ?a])
  with True show thesis by (intro that [of "Some e" "st\<lparr>gs_log := lg\<rparr>"]) (simp_all add: gw_emit_def)
next
  case False
  with assms(2) show thesis by (intro that [of None st]) (simp_all add: gw_emit_def)
qed

definition goes_well :: "inference_env \<Rightarrow> (gateway_state, 'a) action \<Rightarrow> bool" where
  "goes_well env m \<longleftrightarrow> (\<forall>st. log_ok (ie_readings env) (gs_log st) \<longrightarrow> (\<exists>x st'. m st = (Inr x, st') \<and> log_ok (ie_readings env) (gs_log st')))"

lemma goes_well_bind: "goes_well env m \<Longrightarrow> (\<And>x. goes_well env (f x)) \<Longrightarrow> goes_well env (bind m f)"
  unfolding goes_well_def bind_def by (metis (no_types, lifting) case_prod_conv sum.simps(6))

lemma goes_well_pieces:
  assumes "fresh_uuids (ie_readings env)"
  shows "goes_well env (gw_emit env gw q cz ty payload)" "goes_well env (ret x)"
    "goes_well env (\<lambda>st. (Inr y, st\<lparr>gs_outside := f st\<rparr>))" "goes_well env (\<lambda>st. (Inr z, on_breaker g env st))"
proof -
  show "goes_well env (gw_emit env gw q cz ty payload)"
    unfolding goes_well_def by (meson emit_succeeds [OF assms])
qed (auto simp: goes_well_def on_breaker_def split: prod.split)

lemma goes_well_steps:
  assumes "fresh_uuids (ie_readings env)"
  shows "goes_well env (announce env gw q cz ra c n)" "goes_well env (fail_call env gw q cz cands c n err)"
    "goes_well env (complete_call env gw q cz c r)"
  unfolding announce_def fail_call_def complete_call_def Let_def
  by (auto intro!: goes_well_bind goes_well_pieces [OF assms])

definition provider_answers :: "gateway \<Rightarrow> inference_request \<Rightarrow> routing_candidate \<Rightarrow> bool" where
  "provider_answers gw q c \<longleftrightarrow> (\<forall>p. dict_get (pr_providers (gy_providers gw)) (provider_of c) = Some p \<longrightarrow>
     (\<forall>n. \<exists>r. pv_generate p n q (rc_model c) (secret_for gw (provider_of c)) = Inr r))"

lemma attempt_loop_answers:
  assumes "fresh_uuids (ie_readings env)" and "log_ok (ie_readings env) (gs_log st)"
    and "\<forall>c \<in> set cs. dict_get (pr_providers (gy_providers gw)) (provider_of c) \<noteq> None"
    and "\<exists>c \<in> set (attempt_plan gw attempts failed cs). provider_answers gw q c"
  shows "\<exists>r. fst (attempt_loop env gw q cz ra cands cs attempts le failed st) = Inr r"
  using assms(2-)
proof (induction cs arbitrary: attempts le failed st)
  case Nil
  then show ?case by (simp add: attempt_plan_def)
next
  case (Cons c cs)
  have lt: "attempts < gy_max_attempts gw" using Cons(4) by (cases "attempts < gy_max_attempts gw") (simp_all add: attempt_plan_def)
  show ?case
  proof (cases "provider_of c \<in> set failed")
    case True
    then show ?thesis using Cons(1) [OF Cons(2)] Cons(3, 4) lt by (simp add: attempt_plan_Cons [OF lt] Let_def)
  next
    case False
    obtain p where p: "dict_get (pr_providers (gy_providers gw)) (provider_of c) = Some p" using Cons(3) by auto
    then have gp: "get_provider (gy_providers gw) (provider_of c) = Inr p" by (simp add: get_provider_def)
    obtain u st1 where a: "announce env gw q cz ra c (attempts + 1) st = (Inr u, st1)" "log_ok (ie_readings env) (gs_log st1)"
      using goes_well_steps(1) [OF assms(1)] Cons(2) unfolding goes_well_def by blast
    obtain r2 st2 where g: "call_provider q gw p c st1 = (r2, st2)" by (cases "call_provider q gw p c st1") simp
    have lg: "log_ok (ie_readings env) (gs_log st2)" using g a(2) by (auto simp: call_provider_def split: prod.splits)
    show ?thesis
    proof (cases r2)
      case (Inr r)
      obtain r' st3 where "complete_call env gw q cz c r st2 = (Inr r', st3)"
        using goes_well_steps(3) [OF assms(1)] lg unfolding goes_well_def by blast
      with g Inr have "bind (call_provider q gw p c) (complete_call env gw q cz c) st1 = (Inr r', st3)" by (simp add: bind_def)
      with lt False gp a(1) show ?thesis by (simp add: Let_def)
    next
      case (Inl err)
      have b: "bind (call_provider q gw p c) (complete_call env gw q cz c) st1 = (Inl err, st2)" using g Inl by (simp add: bind_def)
      have "\<not> provider_answers gw q c"
      proof
        assume "provider_answers gw q c"
        then obtain r where "pv_generate p (snd (gs_outside st1)) q (rc_model c) (secret_for gw (provider_of c)) = Inr r"
          using p by (auto simp: provider_answers_def)
        with g Inl show False by (auto simp: call_provider_def split: prod.splits)
      qed
      then have later: "\<exists>c' \<in> set (attempt_plan gw (attempts + 1) (provider_of c # failed) cs). provider_answers gw q c'"
        using Cons(4) False by (simp add: attempt_plan_Cons [OF lt])
      obtain v st3 where f: "fail_call env gw q cz cands c (attempts + 1) err st2 = (Inr v, st3)" "log_ok (ie_readings env) (gs_log st3)"
        using goes_well_steps(2) [OF assms(1)] lg unfolding goes_well_def by blast
      from Cons(1) [OF f(2) _ later] Cons(3) have
        "\<exists>r. fst (attempt_loop env gw q cz ra cands cs (attempts + 1) (Some err) (provider_of c # failed) st3) = Inr r" by simp
      with lt False gp a(1) b f(1) show ?thesis by (simp add: Let_def)
    qed
  qed
qed

text \<open>
  C8: fallback works. If one of the candidates that the plan of a request reaches (the first per provider,
  as many as may be tried) has a provider that answers, the request returns a response, however the
  providers ranked before it fail.
\<close>

theorem fallback_reaches_answer:
  assumes "fresh_uuids (ie_readings env)" and "log_ok (ie_readings env) (gs_log st)"
    and "distinct (map mm_id (list_models (gy_models gw) None None None))"
    and "fst (routed env gw q st) = Inr d" and "\<exists>c \<in> set (attempt_plan gw 0 [] (rd_candidates d)). provider_answers gw q c"
  shows "\<exists>r. fst (execute_inference env gw q causation_id st) = Inr r"
proof -
  obtain evt st1 where e: "gw_emit env gw q causation_id ''INFERENCE_REQUESTED'' (requested_payload q) st = (Inr evt, st1)"
    "log_ok (ie_readings env) (gs_log st1)"
    by (rule emit_succeeds [OF assms(1, 2)])
  have "fst (routed env gw q st1) = Inr d"
    using assms(4) emit_calls [OF e(1)] by (auto simp: routed_def split: prod.splits)
  then obtain st2 where r: "routed env gw q st1 = (Inr d, st2)" by (cases "routed env gw q st1") auto
  have log: "gs_log st2 = gs_log st1" using r by (auto simp: routed_def split: prod.splits)
  have "rd_candidates d \<noteq> []" using assms(5) by (auto simp: attempt_plan_def)
  moreover from this have "rd_selected_model d \<noteq> None"
    using r by (auto simp: routed_def evaluate_route_def Let_def split: prod.splits sum.splits list.splits)
  moreover have "\<exists>x. fst (attempt_loop env gw q cz (rd_rationale d) (rd_candidates d) (rd_candidates d) 0 None [] st2) = Inr x" for cz
    using attempt_loop_answers [OF assms(1) _ _ assms(5), of st2] e(2) log routed_candidates [OF r assms(3)] by simp
  ultimately show ?thesis using e(1) r by (simp add: execute_inference_def Let_def)
qed



section \<open>A concrete gateway\<close>

definition sample_env :: inference_env where
  "sample_env = \<lparr>ie_readings = \<lparr>or_uuid = (\<lambda>n. replicate n (CHR ''u'')), or_now = (\<lambda>_. ''1''), or_duration = (\<lambda>_. ''1'')\<rparr>,
     ie_floats = exact_floats, ie_clock = of_nat\<rparr>"

definition sample_model :: "string \<Rightarrow> string \<Rightarrow> rat \<Rightarrow> model_metadata" where
  "sample_model mid pid quality = \<lparr>mm_id = mid, mm_provider_id = pid, mm_display_name = mid, mm_capabilities = [MC_TEXT_GENERATION],
     mm_context_window = 32000, mm_max_output_tokens = 4096, mm_input_cost = 1, mm_output_cost = 2, mm_is_free_tier = False,
     mm_latency = 50, mm_quality = quality, mm_active = True, mm_metadata = []\<rparr>"

definition sample_response :: "string \<Rightarrow> inference_response" where
  "sample_response content = \<lparr>ir_request_id = ''q'', ir_response_id = ''r'', ir_content = content, ir_model_used = ''m2'',
     ir_provider_used = ''b'', ir_finish_reason = ''stop'', ir_tool_calls = None,
     ir_usage = \<lparr>us_input_tokens = 1, us_output_tokens = 1, us_total_tokens = 2, us_cached_tokens = 0, us_metadata = []\<rparr>,
     ir_cost = \<lparr>ic_input_cost = 0, ic_output_cost = 0, ic_total_cost = 0, ic_currency = ''USD'', ic_cost_type = CT_ESTIMATED\<rparr>,
     ir_latency = 10, ir_metadata = []\<rparr>"

text \<open>Provider \<open>a\<close> quotes the key it was given in its error; provider \<open>b\<close> repeats a known key in its answer.\<close>

definition failing_provider :: provider where
  "failing_provider = \<lparr>pv_id = ''a'', pv_models = (\<lambda>_. Inr [sample_model ''m1'' ''a'' 2]), pv_health = (\<lambda>_. Inr PH_HEALTHY),
     pv_generate = (\<lambda>_ _ _ s. Inl (OtherException (''401 for '' @ or_else s [])))\<rparr>"

definition answering_provider :: provider where
  "answering_provider = \<lparr>pv_id = ''b'', pv_models = (\<lambda>_. Inr [sample_model ''m2'' ''b'' 1]), pv_health = (\<lambda>_. Inr PH_HEALTHY),
     pv_generate = (\<lambda>_ _ _ _. Inr (sample_response ''key sk-known-1''))\<rparr>"

definition sample_gateway :: "bool \<Rightarrow> provider list \<Rightarrow> gateway" where
  "sample_gateway logs ps = \<lparr>gy_providers = fold (\<lambda>p. register_provider p (Some ''env:MY_KEY'')) ps \<lparr>pr_providers = [], pr_key_refs = []\<rparr>,
     gy_models = sync_from_providers 0 ps [],
     gy_secrets = \<lparr>ss_overrides = [(''OPENAI_API_KEY'', ''sk-known-1'')], ss_environ = [(''MY_KEY'', ''my-secret'')]\<rparr>,
     gy_logs = logs, gy_max_attempts = 3\<rparr>"

definition sample_inference :: inference_request where
  "sample_inference = \<lparr>iq_id = ''q'', iq_project_id = ''p'', iq_task_id = ''t'', iq_worker_id = ''w'',
     iq_messages = [\<lparr>im_role = ''user'', im_content = ''hello'', im_name = None, im_tool_calls = None, im_tool_call_id = None\<rparr>],
     iq_requirements = \<lparr>rq_required = [MC_TEXT_GENERATION], rq_preferred = [], rq_minimum_context = 4000, rq_maximum_latency = None,
       rq_maximum_cost = None, rq_preferred_providers = [], rq_excluded_providers = [], rq_preferred_models = [],
       rq_excluded_models = [], rq_profile = RP_CODE, rq_metadata = []\<rparr>,
     iq_temperature = 1 / 2, iq_max_output_tokens = None, iq_timeout = 60, iq_tools = None, iq_stream = False, iq_metadata = []\<rparr>"

definition gateway_start :: gateway_state where
  "gateway_start = \<lparr>gs_log = \<lparr>lg_store = empty_store, lg_tick = 0\<rparr>, gs_outside = (new_breaker, 0), gs_calls = []\<rparr>"

abbreviation sample_execution :: "bool \<Rightarrow> provider list \<Rightarrow> (inference_error + inference_response) \<times> gateway_state" where
  "sample_execution logs ps \<equiv> execute_inference sample_env (sample_gateway logs ps) sample_inference None gateway_start"

definition candidate_of :: "model_metadata \<Rightarrow> routing_candidate" where
  "candidate_of m = \<lparr>rc_model = m, rc_score = 1, rc_estimated_cost = 0, rc_reasons = []\<rparr>"

lemma sample_models_logged:
  "distinct (map mm_id (list_models (gy_models (sample_gateway True [failing_provider, answering_provider])) None None None))"
  by code_simp

lemma sample_models: "distinct (map mm_id (list_models (gy_models (sample_gateway logs [failing_provider, answering_provider])) None None None))"
proof -
  have "gy_models (sample_gateway logs [failing_provider, answering_provider]) = gy_models (sample_gateway True [failing_provider, answering_provider])"
    by (simp add: sample_gateway_def)
  then show ?thesis by (simp only: sample_models_logged)
qed

lemma sample_gateway_run:
  "(case sample_execution False [failing_provider, answering_provider] of (r, st) \<Rightarrow> (map_sum (\<lambda>_. ()) ir_content r, gs_calls st))
    = (Inr ''key [REDACTED_API_KEY]'', [(''a'', ''m1''), (''b'', ''m2'')])"
  by code_simp

lemma sample_calls: "gs_calls (snd (sample_execution False [failing_provider, answering_provider])) = [(''a'', ''m1''), (''b'', ''m2'')]"
  using sample_gateway_run by (simp split: prod.splits)


theorem provider_calls_bounded_witness:
  "length (gs_calls (snd (sample_execution False [failing_provider, answering_provider]))) = 2 \<and> (2::int) \<le> 3"
proof -
  let ?gw = "sample_gateway False [failing_provider, answering_provider]"
  have "sample_execution False [failing_provider, answering_provider]
      = (fst (sample_execution False [failing_provider, answering_provider]), snd (sample_execution False [failing_provider, answering_provider]))" by simp
  from provider_calls_bounded [OF sample_models this] obtain new where
    "gs_calls (snd (sample_execution False [failing_provider, answering_provider])) = gs_calls gateway_start @ new"
    "int (length new) \<le> max 0 (gy_max_attempts ?gw)" by blast
  moreover have "gs_calls gateway_start = []" "gy_max_attempts ?gw = 3" by (simp_all add: gateway_start_def sample_gateway_def)
  ultimately show ?thesis using sample_calls by auto
qed


theorem open_circuit_not_called_witness:
  "\<exists>new. gs_calls (snd (execute_inference (sample_env\<lparr>ie_clock := (\<lambda>_. 5)\<rparr>) (sample_gateway False [failing_provider, answering_provider])
      sample_inference None (gateway_start\<lparr>gs_outside := (new_breaker\<lparr>br_open_until := [(''a'', 9)]\<rparr>, 0)\<rparr>))) = new
    \<and> ''a'' \<notin> fst ` set new"
proof -
  let ?env = "sample_env\<lparr>ie_clock := (\<lambda>_. 5)\<rparr>"
  let ?st = "gateway_start\<lparr>gs_outside := (new_breaker\<lparr>br_open_until := [(''a'', 9)]\<rparr>, 0)\<rparr>"
  let ?x = "execute_inference ?env (sample_gateway False [failing_provider, answering_provider]) sample_inference None ?st"
  have opened: "stays_open (ie_clock ?env) ''a'' (gs_breaker ?st)"
    by (simp add: stays_open_def gs_breaker_def open_until_def)
  have "?x = (fst ?x, snd ?x)" by simp
  from open_circuit_not_called [OF sample_models opened this] show ?thesis by (simp add: gateway_start_def)
qed

theorem fallback_reaches_answer_witness:
  "\<exists>r. fst (sample_execution True [failing_provider, answering_provider]) = Inr r"
proof -
  let ?gw = "sample_gateway True [failing_provider, answering_provider]"
  have fresh: "fresh_uuids (ie_readings sample_env)"
  proof -
    have "inj (\<lambda>n. replicate n CHR ''u'')" by (rule injI) (metis length_replicate)
    then show ?thesis by (simp add: fresh_uuids_def sample_env_def)
  qed
  have log: "log_ok (ie_readings sample_env) (gs_log gateway_start)"
    using store_wf_empty by (simp add: log_ok_def gateway_start_def empty_store_def)
  let ?r = "fst (routed sample_env ?gw sample_inference gateway_start)"
  have "case ?r of Inl e \<Rightarrow> False | Inr d \<Rightarrow> map provider_of (attempt_plan ?gw 0 [] (rd_candidates d)) = [''a'', ''b'']"
    by code_simp
  then obtain d where d: "?r = Inr d" "map provider_of (attempt_plan ?gw 0 [] (rd_candidates d)) = [''a'', ''b'']"
    by (cases ?r) (simp_all only: sum.case)
  have "''b'' \<in> provider_of ` set (attempt_plan ?gw 0 [] (rd_candidates d))"
    unfolding set_map [symmetric] d(2) by simp
  then obtain c where "c \<in> set (attempt_plan ?gw 0 [] (rd_candidates d))" "provider_of c = ''b''"
    by (elim imageE) (simp only:)
  moreover have "dict_get (pr_providers (gy_providers ?gw)) ''b'' = Some answering_provider"
    by (simp add: sample_gateway_def register_provider_def failing_provider_def answering_provider_def)
  moreover have "pv_generate answering_provider n sample_inference m s = Inr (sample_response ''key sk-known-1'')" for n m s
    by (simp add: answering_provider_def)
  ultimately have "c \<in> set (attempt_plan ?gw 0 [] (rd_candidates d)) \<and> provider_answers ?gw sample_inference c"
    unfolding provider_answers_def by simp
  then have "\<exists>c \<in> set (attempt_plan ?gw 0 [] (rd_candidates d)). provider_answers ?gw sample_inference c" by blast
  from fallback_reaches_answer [OF fresh log sample_models d(1) this] show ?thesis .
qed


section \<open>What it does not promise\<close>

text \<open>
  The error that ends a request quotes the last exception as it was raised: a key the provider was given
  reaches the caller, and a key that is not among the known values reaches the log.
\<close>

lemma secret_in_error:
  "case fst (sample_execution False [failing_provider]) of
     Inl e \<Rightarrow> contains (inference_error_message e) ''my-secret''
   | Inr r \<Rightarrow> False"
  by code_simp

lemma secret_in_log:
  "map (\<lambda>e. dict_get (e_payload e) ''error'') (logged_events (snd (fail_call sample_env (sample_gateway True [failing_provider])
      sample_inference None [] (candidate_of (sample_model ''m1'' ''a'' 2)) 1 (OtherException ''401 for my-secret'') gateway_start)))
    = [Some (PStr ''401 for my-secret'')]"
  by code_simp

text \<open>
  The event that announces a fallback names the candidate at the position of the attempt number, not the one
  that is tried next: when a candidate is skipped because its provider failed, it names a model that is not tried.
\<close>

definition twin_provider :: provider where
  "twin_provider = failing_provider\<lparr>pv_models := (\<lambda>_. Inr [sample_model ''m0'' ''a'' 3, sample_model ''m1'' ''a'' 2])\<rparr>"

lemma fallback_event_misleads:
  "map call_of (attempt_plan (sample_gateway True [twin_provider, answering_provider]) 0 []
      (map candidate_of [sample_model ''m0'' ''a'' 3, sample_model ''m1'' ''a'' 2, sample_model ''m2'' ''b'' 1])) = [(''a'', ''m0''), (''b'', ''m2'')]"
  "map (\<lambda>e. dict_get (e_payload e) ''fallback_model'') (logged_events (snd (fail_call sample_env (sample_gateway True [twin_provider, answering_provider])
      sample_inference None (map candidate_of [sample_model ''m0'' ''a'' 3, sample_model ''m1'' ''a'' 2, sample_model ''m2'' ''b'' 1])
      (candidate_of (sample_model ''m0'' ''a'' 3)) 1 (OtherException ''503'') gateway_start)))
    = [None, Some (PStr ''m1'')]"
  by (code_simp, code_simp)

text \<open>The comment at the sort says that the name ascends as the tie breaker; the reversed sort makes it descend.\<close>

lemma tie_goes_to_last_name:
  "map (\<lambda>c. mm_id (rc_model c)) (ranked [candidate_of (sample_model ''m1'' ''a'' 1), candidate_of (sample_model ''m2'' ''a'' 1)])
    = [''m2'', ''m1'']"
  by (simp add: ranked_def candidate_key_def candidate_of_def sample_model_def)

end
