(* ===== verification/Text_Patterns.thy ===== *)
theory Text_Patterns
  imports Prelude
begin

text \<open>
  The part of Python's \<open>re\<close> that the code's constant patterns use: a pattern is a tree, \<open>spans\<close> says declaratively
  which stretch of a text a pattern matches, \<open>ends\<close> computes it and \<open>search\<close> is \<open>re.search\<close> as a test. Whether a
  repetition is greedy decides which match is found, not whether there is one, so \<open>+\<close> and \<open>+?\<close> are the same here.
\<close>

section \<open>Patterns\<close>

datatype pattern =
  Nothing
| Empty
| Word_boundary
| At_start
| At_end
| Lit string
| One "char \<Rightarrow> bool"
| Followed pattern pattern
| Either pattern pattern
| Plus pattern

definition in_order :: "pattern list \<Rightarrow> pattern" where
  "in_order ps = foldr Followed ps Empty"

definition one_of :: "pattern list \<Rightarrow> pattern" where
  "one_of ps = foldr Either ps Nothing"

definition words :: "string list \<Rightarrow> pattern" where
  "words ws = one_of (map Lit ws)"

definition maybe :: "pattern \<Rightarrow> pattern" where
  "maybe p = Either p Empty"

definition gap :: pattern where
  \<comment> \<open>\<open>\s+\<close>\<close>
  "gap = Plus (One is_space)"

definition anything :: pattern where
  \<comment> \<open>\<open>.+\<close>\<close>
  "anything = Plus (One (\<lambda>c. c \<noteq> CHR 0x0A))"

definition is_word_char :: "char \<Rightarrow> bool" where
  \<comment> \<open>\<open>\w\<close>\<close>
  "is_word_char c \<longleftrightarrow> (let n = of_char c :: nat in 48 \<le> n \<and> n \<le> 57 \<or> 65 \<le> n \<and> n \<le> 90 \<or> n = 95 \<or> 97 \<le> n \<and> n \<le> 122)"


section \<open>Which stretches of a text match\<close>

definition at_boundary :: "string \<Rightarrow> nat \<Rightarrow> bool" where
  "at_boundary s i \<longleftrightarrow> (0 < i \<and> is_word_char (s ! (i - 1))) \<noteq> (i < length s \<and> is_word_char (s ! i))"

definition at_end :: "string \<Rightarrow> nat \<Rightarrow> bool" where
  \<comment> \<open>\<open>$\<close>: at the end, or before a last newline\<close>
  "at_end s i \<longleftrightarrow> drop i s = [] \<or> drop i s = [CHR 0x0A]"

inductive spans :: "string \<Rightarrow> pattern \<Rightarrow> nat \<Rightarrow> nat \<Rightarrow> bool" for s where
  spans_empty: "i \<le> length s \<Longrightarrow> spans s Empty i i"
| spans_boundary: "i \<le> length s \<Longrightarrow> at_boundary s i \<Longrightarrow> spans s Word_boundary i i"
| spans_start: "spans s At_start 0 0"
| spans_end: "i \<le> length s \<Longrightarrow> at_end s i \<Longrightarrow> spans s At_end i i"
| spans_lit: "i \<le> length s \<Longrightarrow> prefix t (drop i s) \<Longrightarrow> spans s (Lit t) i (i + length t)"
| spans_one: "i < length s \<Longrightarrow> f (s ! i) \<Longrightarrow> spans s (One f) i (Suc i)"
| spans_followed: "spans s p i j \<Longrightarrow> spans s q j k \<Longrightarrow> spans s (Followed p q) i k"
| spans_left: "spans s p i j \<Longrightarrow> spans s (Either p q) i j"
| spans_right: "spans s q i j \<Longrightarrow> spans s (Either p q) i j"
| spans_once: "spans s p i j \<Longrightarrow> spans s (Plus p) i j"
| spans_again: "spans s p i j \<Longrightarrow> spans s (Plus p) j k \<Longrightarrow> spans s (Plus p) i k"

inductive_simps spans_simps [simp]:
  "spans s Nothing i j" "spans s Empty i j" "spans s Word_boundary i j" "spans s At_start i j" "spans s At_end i j"
  "spans s (Lit t) i j" "spans s (One f) i j" "spans s (Followed p q) i j" "spans s (Either p q) i j"

lemma spans_bounds: "spans s p i j \<Longrightarrow> i \<le> j \<and> j \<le> length s"
  by (induction rule: spans.induct) (auto dest: prefix_length_le)


section \<open>The search\<close>

fun repeat_ends :: "(nat \<Rightarrow> nat list) \<Rightarrow> nat \<Rightarrow> nat \<Rightarrow> nat list" where
  \<comment> \<open>a repetition goes on only from a later position, so the length of the text bounds it\<close>
  "repeat_ends f 0 i = []"
| "repeat_ends f (Suc n) i = f i @ concat (map (repeat_ends f n) (filter (\<lambda>j. i < j) (f i)))"

primrec ends :: "pattern \<Rightarrow> string \<Rightarrow> nat \<Rightarrow> nat list" where
  "ends Nothing s i = []"
| "ends Empty s i = (if i \<le> length s then [i] else [])"
| "ends Word_boundary s i = (if i \<le> length s \<and> at_boundary s i then [i] else [])"
| "ends At_start s i = (if i = 0 then [0] else [])"
| "ends At_end s i = (if i \<le> length s \<and> at_end s i then [i] else [])"
| "ends (Lit t) s i = (if i \<le> length s \<and> prefix t (drop i s) then [i + length t] else [])"
| "ends (One f) s i = (if i < length s then (if f (s ! i) then [Suc i] else []) else [])"
| "ends (Followed p q) s i = concat (map (ends q s) (ends p s i))"
| "ends (Either p q) s i = ends p s i @ ends q s i"
| "ends (Plus p) s i = repeat_ends (ends p s) (Suc (length s)) i"

definition search :: "pattern \<Rightarrow> string \<Rightarrow> bool" where
  "search p s \<longleftrightarrow> list_ex (\<lambda>i. ends p s i \<noteq> []) [0..<Suc (length s)]"

lemma repeat_ends_sound:
  assumes "\<And>i j. j \<in> set (ends p s i) \<Longrightarrow> spans s p i j"
  shows "k \<in> set (repeat_ends (ends p s) n i) \<Longrightarrow> spans s (Plus p) i k"
  by (induction n arbitrary: i) (auto intro: spans_once spans_again assms)

lemma repeat_ends_complete:
  assumes "spans s r i k" and "r = Plus p" and "length s - i < n"
    and each: "\<And>i j. spans s p i j \<Longrightarrow> j \<in> set (ends p s i)"
  shows "k \<in> set (repeat_ends (ends p s) n i)"
  using assms(1-3)
proof (induction arbitrary: n rule: spans.induct)
  case (spans_once q i j)
  then show ?case by (cases n) (auto dest: each)
next
  case (spans_again q i j k)
  obtain m where n: "n = Suc m" using spans_again.prems by (cases n) auto
  show ?case
  proof (cases "i < j")
    case True
    moreover have "j \<le> length s" using spans_again.hyps(1) spans_bounds by blast
    ultimately have "length s - j < m" using spans_again.prems n by simp
    then have "k \<in> set (repeat_ends (ends p s) m j)" using spans_again.IH spans_again.prems by simp
    then show ?thesis using True n each spans_again.hyps(1) spans_again.prems by auto
  next
    case False
    then have "i = j" using spans_again.hyps(1) spans_bounds by fastforce
    then show ?thesis using spans_again.IH spans_again.prems by simp
  qed
qed simp_all

lemma ends_iff: "j \<in> set (ends p s i) \<longleftrightarrow> spans s p i j"
proof (induction p arbitrary: i j)
  case (Plus p)
  then show ?case
    using repeat_ends_sound[of p s j "Suc (length s)" i] repeat_ends_complete[of s "Plus p" i j p "Suc (length s)"]
    by (auto simp del: repeat_ends.simps)
qed auto

lemma ends_ne_iff: "ends p s i \<noteq> [] \<longleftrightarrow> (\<exists>j. spans s p i j)"
  by (simp add: ends_iff[symmetric] ex_in_conv)

lemma search_iff: "search p s \<longleftrightarrow> (\<exists>i j. spans s p i j)"
proof -
  have "i < Suc (length s)" if "spans s p i j" for i j
    using spans_bounds[OF that] by simp
  then show ?thesis
    unfolding search_def list_ex_iff ends_ne_iff set_upt atLeastLessThan_iff Bex_def by blast
qed

lemma spans_in_order_Cons: "spans s (in_order (p # ps)) i k \<longleftrightarrow> (\<exists>j. spans s p i j \<and> spans s (in_order ps) j k)"
  by (simp add: in_order_def)

lemma spans_in_order_Nil: "spans s (in_order []) i k \<longleftrightarrow> i \<le> length s \<and> i = k"
  by (auto simp: in_order_def)

lemma spans_words: "spans s (words ws) i k \<longleftrightarrow> i \<le> length s \<and> (\<exists>w \<in> set ws. prefix w (drop i s) \<and> k = i + length w)"
  by (induction ws) (auto simp: words_def one_of_def)

end
