(* ===== verification/Request_Routing.thy ===== *)
theory Request_Routing
  imports Text_Patterns Inference_Routing Dynamic_Values
begin

text \<open>
  The request router of \<open>core/routing\<close>: the deterministic signals, the classifier around a language
  model, the validator of its proposals, the router that falls back from one to the other, and the dispatcher
  that hands a decision to the researcher, a worker or a handler.
\<close>

section \<open>Data\<close>

datatype route_destination =
  Direct_action | Manager_reasoning | Research_route | Specialized_worker | Clarification | Multi_stage | Failed_route

definition route_table :: "(route_destination \<times> string) list" where
  "route_table =
     [(Direct_action, ''DIRECT_ACTION''), (Manager_reasoning, ''MANAGER_REASONING''), (Research_route, ''RESEARCH''),
      (Specialized_worker, ''SPECIALIZED_WORKER''), (Clarification, ''CLARIFICATION''), (Multi_stage, ''MULTI_STAGE''),
      (Failed_route, ''FAILED'')]"

primrec route_value :: "route_destination \<Rightarrow> string" where
  "route_value Direct_action = ''DIRECT_ACTION''"
| "route_value Manager_reasoning = ''MANAGER_REASONING''"
| "route_value Research_route = ''RESEARCH''"
| "route_value Specialized_worker = ''SPECIALIZED_WORKER''"
| "route_value Clarification = ''CLARIFICATION''"
| "route_value Multi_stage = ''MULTI_STAGE''"
| "route_value Failed_route = ''FAILED''"

definition route_of_value :: "string \<Rightarrow> route_destination option" where
  "route_of_value s = map_of (map (\<lambda>(r, v). (v, r)) route_table) s"

datatype confidence_tier = High_tier | Medium_tier | Low_tier | Uncertain_tier

text \<open>
  A score is a float: a finite one is the decimal number that its \<open>repr\<close> shows, which keeps the order
  of floats; \<open>json.loads\<close> also reads infinities and \<open>NaN\<close>, and every comparison with \<open>NaN\<close> is false.
\<close>

datatype score = Finite rat | Pos_inf | Neg_inf | NaN

fun below :: "score \<Rightarrow> rat \<Rightarrow> bool" where
  "below (Finite x) r = (x < r)"
| "below Neg_inf r = True"
| "below _ r = False"

fun exceeds :: "score \<Rightarrow> rat \<Rightarrow> bool" where
  "exceeds (Finite x) r = (r < x)"
| "exceeds Pos_inf r = True"
| "exceeds _ r = False"

fun at_least :: "score \<Rightarrow> rat \<Rightarrow> bool" where
  "at_least (Finite x) r = (r \<le> x)"
| "at_least Pos_inf r = True"
| "at_least _ r = False"

record route_context =
  kx_project_id :: "string option"
  kx_available_workers :: "string list"
  kx_task_metadata :: pydict
  kx_known_entities :: "string list"

record route_proposal =
  rp_id :: string
  rp_route :: string
  rp_confidence :: score
  rp_reason :: string
  rp_external :: bool
  rp_evidence :: bool
  rp_project_context :: bool
  rp_tools :: bool
  rp_target :: pyval
  \<comment> \<open>whatever the model wrote for \<open>target_worker\<close>\<close>
  rp_stages :: "pyval list"
  rp_ambiguities :: "pyval list"
  rp_clarify :: bool
  rp_questions :: "string list"
  rp_model_used :: "string option"
  rp_provider_used :: "string option"
  rp_raw :: "string option"

record route_decision =
  dn_id :: string
  dn_route :: route_destination
  dn_confidence :: score
  dn_tier :: confidence_tier
  dn_reason :: string
  dn_external :: bool
  dn_evidence :: bool
  dn_project_context :: bool
  dn_tools :: bool
  dn_target :: pyval
  dn_stages :: "pyval list"
  dn_ambiguities :: "pyval list"
  dn_clarify :: bool
  dn_questions :: "string list"
  dn_trace :: "string list"
  dn_request :: string
  dn_metadata :: pydict

record route_signals =
  sg_route :: "route_destination option"
  sg_confidence :: score
  sg_target :: "string option"
  sg_external :: bool
  sg_evidence :: bool
  sg_project_context :: bool
  sg_tools :: bool
  sg_ambiguities :: "string list"
  sg_questions :: "string list"
  sg_rules :: "string list"

definition is_research_required :: "route_decision \<Rightarrow> bool" where
  "is_research_required d \<longleftrightarrow> dn_route d = Research_route"

definition can_bypass_researcher :: "route_decision \<Rightarrow> bool" where
  "can_bypass_researcher d \<longleftrightarrow> dn_route d \<noteq> Research_route"

text \<open>
  What the outside supplies: how floats are written and read, \<open>json.loads\<close>, the text of the system
  prompt and the identifiers one call draws.
\<close>

record routing_env =
  rv_float :: "string \<Rightarrow> score option"
  rv_fixed :: "score \<Rightarrow> string"
  \<comment> \<open>the format \<open>.2f\<close>\<close>
  rv_repr :: "score \<Rightarrow> string"
  rv_json :: "string \<Rightarrow> string + pyval"
  rv_system_prompt :: string
  rv_request_hex :: string
  rv_proposal_hex :: string
  rv_decision_hex :: string

definition decision_base :: "routing_env \<Rightarrow> route_destination \<Rightarrow> score \<Rightarrow> confidence_tier \<Rightarrow> string \<Rightarrow> string list \<Rightarrow> string \<Rightarrow> route_decision" where
  \<comment> \<open>a decision with the default of every other field\<close>
  "decision_base env r c tier reason trace req =
     \<lparr>dn_id = ''route-dec-'' @ rv_decision_hex env, dn_route = r, dn_confidence = c, dn_tier = tier, dn_reason = reason,
      dn_external = False, dn_evidence = False, dn_project_context = False, dn_tools = False, dn_target = PNone,
      dn_stages = [], dn_ambiguities = [], dn_clarify = False, dn_questions = [], dn_trace = trace, dn_request = req,
      dn_metadata = []\<rparr>"

section \<open>Deterministic signals\<close>

fun phrase :: "string list \<Rightarrow> pattern" where
  \<comment> \<open>words with white space between them\<close>
  "phrase [] = Empty"
| "phrase [w] = Lit w"
| "phrase (w # ws) = Followed (Lit w) (Followed gap (phrase ws))"

definition the_opt :: pattern where
  \<comment> \<open>\<open>(?:the\s+)?\<close>\<close>
  "the_opt = maybe (phrase [''the'', []])"

definition plural :: "string \<Rightarrow> pattern" where
  "plural w = in_order [Lit w, maybe (Lit ''s'')]"

definition full_stop_end :: "pattern list" where
  "full_stop_end = [maybe (Lit ''.''), At_end]"

definition direct_action_patterns :: "pattern list" where
  "direct_action_patterns =
     [in_order [Word_boundary, Lit ''move'', gap, maybe (in_order [words [''that'', ''the''], gap]),
        words [''card'', ''button'', ''window'', ''panel'', ''modal'', ''element'', ''cursor''], gap, Lit ''to'', gap,
        words [''center'', ''left'', ''right'', ''top'', ''bottom''], Word_boundary],
      in_order [Word_boundary,
        words [''click'', ''press'', ''toggle'', ''drag'', ''drop'', ''scroll'', ''zoom'', ''minimize'', ''maximize'', ''close''],
        gap, maybe (in_order [words [''the'', ''that''], gap]),
        words [''modal'', ''button'', ''switch'', ''window'', ''tab'', ''dialog'', ''menu''], Word_boundary],
      in_order [Word_boundary, words [''view'', ''cat'', ''tail'', ''head''], gap, the_opt,
        words [''log'', ''file'', ''output''], Word_boundary],
      in_order [Word_boundary, words [''delete'', ''remove''], gap, the_opt,
        words [''scratch'', ''temporary'', ''temp'', ''cache''], gap, words [''file'', ''folder'', ''dir''], Word_boundary]]"

definition clarification_patterns :: "pattern list" where
  "clarification_patterns =
     [in_order ([At_start, words [''move'', ''put'', ''place'', ''drag''], gap, words [''that'', ''this'', ''it''], gap,
        words [''there'', ''here'']] @ full_stop_end),
      in_order ([At_start, words [''fix'', ''delete'', ''change'', ''update'', ''remove'', ''modify''], gap,
        words [''this'', ''that'', ''it'']] @ full_stop_end),
      in_order ([At_start, one_of [phrase [''do'', ''it''], phrase [''make'', ''it'', ''so''], Lit ''proceed'',
        phrase [''run'', ''it'']]] @ full_stop_end)]"

definition tester_patterns :: "pattern list" where
  "tester_patterns =
     [in_order [Word_boundary, Lit ''run'', gap, the_opt,
        one_of [phrase [''test'', ''suite''], plural ''test'', Lit ''pytest'', in_order [Lit ''unit'', gap, plural ''test''],
          in_order [Lit ''e2e'', gap, plural ''test''], in_order [Lit ''integration'', gap, plural ''test'']], Word_boundary],
      in_order [Word_boundary, Lit ''execute'', gap, the_opt, plural ''test'', Word_boundary],
      in_order [Word_boundary, Lit ''verify'', gap, the_opt, phrase [''test'', ''coverage''], Word_boundary]]"

definition programmer_patterns :: "pattern list" where
  \<comment> \<open>declared by the class; \<open>analyze\<close> does not look at them\<close>
  "programmer_patterns =
     [in_order [Word_boundary, one_of [Lit ''implement'', Lit ''refactor'', Lit ''write'', Lit ''code'',
        phrase [''create'', ''function''], phrase [''add'', ''method''], phrase [''edit'', ''file'']], Word_boundary],
      in_order [Word_boundary, one_of [phrase [''fix'', ''syntax'', ''error''], phrase [''patch'', ''bug'', ''in'']], Word_boundary]]"

definition multi_stage_patterns :: "pattern list" where
  "multi_stage_patterns =
     [in_order [Word_boundary, words [''research'', ''find'', ''investigate'', ''evaluate''], gap, anything, gap,
        one_of [phrase [''and'', ''then''], Lit ''then'', Lit ''afterwards''], gap,
        words [''update'', ''implement'', ''build'', ''create'', ''write'', ''deploy''], Word_boundary],
      in_order [Word_boundary, one_of [phrase [''first'', ''research''], phrase [''first'', ''find''],
        phrase [''first'', ''investigate'']], gap, anything, gap, one_of [phrase [''and'', ''then''], Lit ''then''], Word_boundary]]"

definition compared_name :: pattern where
  "compared_name = Plus (One (\<lambda>c. is_word_char c \<or> c = CHR ''.'' \<or> c = CHR ''-'' \<or> c = CHR ''+''))"

definition research_patterns :: "pattern list" where
  "research_patterns =
     [in_order [Word_boundary, one_of [Lit ''compare'', phrase [''comparison'', ''between'']], gap, compared_name, gap,
        one_of [Lit ''and'', Lit ''with'', in_order [Lit ''vs'', maybe (Lit ''.'')]], gap, compared_name],
      in_order [Word_boundary, one_of [phrase [''what'', ''is'', ''the'', ''current'', ''price'', ''of''],
        phrase [''latest'', ''pricing'', ''for'']], Word_boundary],
      in_order [Word_boundary, one_of [phrase [''state'', ''of'', ''the'', ''art''], phrase [''latest'', ''version'', ''of''],
        phrase [''official'', ''specifications'', ''for'']], Word_boundary],
      in_order [Word_boundary, one_of [phrase [''survey'', ''the'', ''ecosystem''],
        phrase [''evaluate'', ''competing'', ''libraries'']], Word_boundary],
      in_order [Word_boundary, one_of [phrase [''find'', ''the'', ''best'', ''database'', ''for''],
        phrase [''benchmarks'', ''for'']], Word_boundary]]"

definition reasoning_patterns :: "pattern list" where
  "reasoning_patterns =
     [in_order [Word_boundary, phrase [''which'', ''of'', ''these''], gap, maybe (phrase [''two'', []]),
        phrase [''approaches'', ''is''], gap, words [''cleaner'', ''better'', ''preferred''], Word_boundary],
      in_order [Word_boundary, phrase [''what'', ''are'', ''the'', ''tradeoffs'', ''between'', ''our'', ''current'', ''design'', ''and''],
        Word_boundary],
      in_order [Word_boundary, phrase [''review'', ''our'', ''architectural''], gap, plural ''decision'', gap, Lit ''regarding'',
        Word_boundary]]"

definition no_signals :: route_signals where
  "no_signals = \<lparr>sg_route = None, sg_confidence = Finite (1/2), sg_target = None, sg_external = False, sg_evidence = False,
     sg_project_context = False, sg_tools = False, sg_ambiguities = [], sg_questions = [], sg_rules = []\<rparr>"

definition any_match :: "pattern list \<Rightarrow> string \<Rightarrow> bool" where
  "any_match ps text \<longleftrightarrow> list_ex (\<lambda>p. search p text) ps"

definition analyze :: "string \<Rightarrow> route_context option \<Rightarrow> route_signals" where
  "analyze text ctx =
     (let clean = strip text; low = lower clean;
          has_antecedent = (case ctx of None \<Rightarrow> False | Some k \<Rightarrow> kx_known_entities k \<noteq> [])
      in
      if clean = [] then
        no_signals\<lparr>sg_route := Some Clarification, sg_confidence := Finite 1,
          sg_questions := [''The request is empty. What action or research would you like to perform?''],
          sg_rules := [''empty_request'']\<rparr>
      else if any_match clarification_patterns low \<and> \<not> has_antecedent then
        no_signals\<lparr>sg_route := Some Clarification, sg_confidence := Finite (95/100),
          sg_ambiguities := [''Deictic references ('' @ quoted ''that'' @ '', '' @ quoted ''there'' @ '', '' @ quoted ''this'' @
            '', '' @ quoted ''it'' @ '') lack context.''],
          sg_questions := [''Which specific item or target are you referring to?''],
          sg_rules := [''unresolved_deictic_reference'']\<rparr>
      else if any_match multi_stage_patterns low then
        no_signals\<lparr>sg_route := Some Multi_stage, sg_confidence := Finite (90/100), sg_evidence := True, sg_tools := True,
          sg_rules := [''compound_multi_stage_pattern'']\<rparr>
      else if any_match direct_action_patterns low then
        no_signals\<lparr>sg_route := Some Direct_action, sg_confidence := Finite (95/100), sg_tools := True,
          sg_rules := [''direct_action_pattern'']\<rparr>
      else if any_match tester_patterns low then
        no_signals\<lparr>sg_route := Some Specialized_worker, sg_target := Some ''worker.tester'', sg_confidence := Finite (95/100),
          sg_tools := True, sg_rules := [''tester_worker_pattern'']\<rparr>
      else if any_match research_patterns low then
        no_signals\<lparr>sg_route := Some Research_route, sg_confidence := Finite (90/100), sg_external := True, sg_evidence := True,
          sg_rules := [''research_pattern'']\<rparr>
      else if any_match reasoning_patterns low then
        no_signals\<lparr>sg_route := Some Manager_reasoning, sg_confidence := Finite (85/100), sg_project_context := True,
          sg_rules := [''manager_reasoning_pattern'']\<rparr>
      else no_signals)"

section \<open>The classifier\<close>

datatype classify_failure = Classification_failed string | Unexpected string

record direct_provider =
  dp_id :: string
  dp_models :: "error + model_metadata list"
  dp_generate :: "inference_request \<Rightarrow> model_metadata \<Rightarrow> error + inference_response"

record classifier =
  cl_gateway :: "(inference_request \<Rightarrow> error + inference_response) option"
  cl_provider :: "direct_provider option"
  cl_model_id :: string

definition python_strings :: "string list \<Rightarrow> string" where
  \<comment> \<open>a list of strings inside an f-string\<close>
  "python_strings xs = repr_val (str_list xs)"

definition in_quotes :: "string \<Rightarrow> string" where
  "in_quotes s = [CHR 0x22] @ s @ [CHR 0x22]"

definition build_prompt :: "routing_env \<Rightarrow> string \<Rightarrow> route_context option \<Rightarrow> route_signals \<Rightarrow> string" where
  "build_prompt env text ctx sg =
     join_with [CHR 0x0A]
       ([''Classify the following request:'' @ [CHR 0x0A] @ in_quotes text @ [CHR 0x0A]] @
        (case ctx of None \<Rightarrow> [] | Some k \<Rightarrow>
           (if kx_available_workers k \<noteq> [] then [''Available Workers: '' @ python_strings (kx_available_workers k)] else []) @
           (if kx_known_entities k \<noteq> [] then [''Known Entities/Context: '' @ python_strings (kx_known_entities k)] else []) @
           (if given (kx_project_id k) then [''Active Project ID: '' @ the (kx_project_id k)] else [])) @
        (if sg_rules sg \<noteq> [] then
           [''Deterministic Cues: '' @ python_strings (sg_rules sg)] @
           (case sg_route sg of None \<Rightarrow> [] | Some r \<Rightarrow>
              [''Deterministic Prior Route: '' @ route_value r @ '' (confidence: '' @ rv_repr env (sg_confidence sg) @ '')''])
         else []) @
        [[CHR 0x0A] @ ''Return JSON only.''])"

definition routing_request :: "routing_env \<Rightarrow> string \<Rightarrow> route_context option \<Rightarrow> route_signals \<Rightarrow> inference_request" where
  "routing_request env text ctx sg =
     \<lparr>iq_id = ''inf-route-'' @ rv_request_hex env,
      iq_project_id = (case ctx of None \<Rightarrow> ''global'' | Some k \<Rightarrow> or_else (kx_project_id k) ''global''),
      iq_task_id = ''routing-task'', iq_worker_id = ''request-router'',
      iq_messages =
        [\<lparr>im_role = ''system'', im_content = rv_system_prompt env, im_name = None, im_tool_calls = None, im_tool_call_id = None\<rparr>,
         \<lparr>im_role = ''user'', im_content = build_prompt env text ctx sg, im_name = None, im_tool_calls = None, im_tool_call_id = None\<rparr>],
      iq_requirements =
        \<lparr>rq_required = [MC_TEXT_GENERATION, MC_STRUCTURED_OUTPUT], rq_preferred = [], rq_minimum_context = 4000,
         rq_maximum_latency = None, rq_maximum_cost = None, rq_preferred_providers = [], rq_excluded_providers = [],
         rq_preferred_models = [], rq_excluded_models = [], rq_profile = RP_BEST_AVAILABLE, rq_metadata = []\<rparr>,
      iq_temperature = 1/10, iq_max_output_tokens = None, iq_timeout = 30, iq_tools = None, iq_stream = False,
      iq_metadata = []\<rparr>"

definition stand_in_model :: "classifier \<Rightarrow> string \<Rightarrow> model_metadata" where
  \<comment> \<open>used when a provider lists no model\<close>
  "stand_in_model cl pid =
     \<lparr>mm_id = cl_model_id cl, mm_provider_id = pid, mm_display_name = cl_model_id cl,
      mm_capabilities = [MC_TEXT_GENERATION, MC_STRUCTURED_OUTPUT], mm_context_window = 128000, mm_max_output_tokens = 4096,
      mm_input_cost = 0, mm_output_cost = 0, mm_is_free_tier = False, mm_latency = 500, mm_quality = 80, mm_active = True,
      mm_metadata = []\<rparr>"

definition call_inference :: "classifier \<Rightarrow> inference_request \<Rightarrow> classify_failure + inference_response" where
  "call_inference cl q =
     (case cl_gateway cl of
        Some gateway_execute \<Rightarrow>
          (case gateway_execute q of
             Inl e \<Rightarrow> Inl (Classification_failed (''Inference gateway error during routing: '' @ error_message e))
           | Inr r \<Rightarrow> Inr r)
      | None \<Rightarrow>
          (case cl_provider cl of
             Some p \<Rightarrow>
               (case sbind (dp_models p) (\<lambda>ms. dp_generate p q (if ms \<noteq> [] then hd ms else stand_in_model cl (dp_id p))) of
                  Inl e \<Rightarrow> Inl (Classification_failed (''Inference provider error during routing: '' @ error_message e))
                | Inr r \<Rightarrow> Inr r)
           | None \<Rightarrow> Inl (Classification_failed
               ''No InferenceGateway or BaseInferenceProvider configured for LLMRoutingClassifier.'')))"

definition fence :: string where
  "fence = [CHR 0x60, CHR 0x60, CHR 0x60]"

definition strip_fences :: "string \<Rightarrow> string" where
  \<comment> \<open>the opening fence with an optional \<open>json\<close> and white space, then white space and the closing fence\<close>
  "strip_fences s =
     (if prefix fence s then
        let a = drop 3 s;
            b = dropWhile is_space (if prefix ''json'' a then drop 4 a else a);
            c = (if suffix fence b then rev (dropWhile is_space (rev (take (length b - 3) b))) else b)
        in strip c
      else s)"

definition braced :: "string \<Rightarrow> string" where
  \<comment> \<open>from the first opening brace to the last closing one after it, the whole text when there is none\<close>
  "braced s =
     (let t = dropWhile (\<lambda>c. c \<noteq> CHR 0x7B) s; u = rev (dropWhile (\<lambda>c. c \<noteq> CHR 0x7D) (rev t))
      in if u = [] then s else u)"

definition float_of :: "routing_env \<Rightarrow> pyval \<Rightarrow> error + score" where
  \<comment> \<open>\<open>float(v)\<close>\<close>
  "float_of env v =
     (case v of
        PInt i \<Rightarrow> Inr (Finite (of_int i))
      | PBool b \<Rightarrow> Inr (Finite (of_bool b))
      | PFloat r \<Rightarrow> (case rv_float env r of Some x \<Rightarrow> Inr x | None \<Rightarrow> Inl (OtherException ''not a float''))
      | PStr s \<Rightarrow> (case rv_float env s of Some x \<Rightarrow> Inr x
          | None \<Rightarrow> Inl (OtherException (''could not convert string to float: '' @ repr_str s)))
      | _ \<Rightarrow> Inl (TypeError (''float() argument must be a string or a real number, not '' @ quoted (py_type v))))"

definition proposal_of :: "routing_env \<Rightarrow> inference_response \<Rightarrow> pyval \<Rightarrow> error + route_proposal" where
  "proposal_of env r v =
     (case v of
        PDict d \<Rightarrow>
          sbind (float_of env (get_or d ''confidence'' (PFloat ''0.5''))) (\<lambda>c.
          sbind (list_of (get_or d ''suggested_stages'' (PList []))) (\<lambda>stages.
          sbind (list_of (get_or d ''ambiguities'' (PList []))) (\<lambda>ambiguities.
          sbind (list_of (get_or d ''clarification_questions'' (PList []))) (\<lambda>questions.
            Inr \<lparr>rp_id = ''route-prop-'' @ rv_proposal_hex env, rp_route = str_val (get_or d ''route'' (PStr [])),
                 rp_confidence = c, rp_reason = str_val (get_or d ''reason'' (PStr [])),
                 rp_external = truthy (get_or d ''requires_external_information'' (PBool False)),
                 rp_evidence = truthy (get_or d ''requires_research_evidence'' (PBool False)),
                 rp_project_context = truthy (get_or d ''requires_project_context'' (PBool False)),
                 rp_tools = truthy (get_or d ''requires_tool_execution'' (PBool False)),
                 rp_target = py_get d ''target_worker'', rp_stages = stages, rp_ambiguities = ambiguities,
                 rp_clarify = truthy (get_or d ''clarification_required'' (PBool False)),
                 rp_questions = map str_val questions, rp_model_used = Some (ir_model_used r),
                 rp_provider_used = Some (ir_provider_used r), rp_raw = Some (ir_content r)\<rparr>))))
      | _ \<Rightarrow> Inl (OtherException (quoted (py_type v) @ '' object has no attribute '' @ quoted ''get'')))"

definition malformed :: "routing_env \<Rightarrow> inference_response \<Rightarrow> string \<Rightarrow> route_proposal" where
  "malformed env r e =
     \<lparr>rp_id = ''route-prop-'' @ rv_proposal_hex env, rp_route = [], rp_confidence = Finite 0,
      rp_reason = ''Malformed model response: '' @ e, rp_external = False, rp_evidence = False, rp_project_context = False,
      rp_tools = False, rp_target = PNone, rp_stages = [], rp_ambiguities = [], rp_clarify = False, rp_questions = [],
      rp_model_used = Some (ir_model_used r), rp_provider_used = Some (ir_provider_used r), rp_raw = Some (ir_content r)\<rparr>"

definition parse_response :: "routing_env \<Rightarrow> inference_response \<Rightarrow> error + route_proposal" where
  "parse_response env r =
     (case rv_json env (braced (strip_fences (strip (ir_content r)))) of
        Inl e \<Rightarrow> Inr (malformed env r e)
      | Inr v \<Rightarrow> proposal_of env r v)"

definition classify ::
  "routing_env \<Rightarrow> classifier \<Rightarrow> string \<Rightarrow> route_context option \<Rightarrow> route_signals \<Rightarrow> classify_failure + route_proposal" where
  "classify env cl text ctx sg =
     sbind (call_inference cl (routing_request env text ctx sg)) (\<lambda>r.
       case parse_response env r of Inl e \<Rightarrow> Inl (Unexpected (error_message e)) | Inr p \<Rightarrow> Inr p)"


section \<open>The validator\<close>

definition tier_of :: "score \<Rightarrow> confidence_tier" where
  "tier_of c =
     (if at_least c (85/100) then High_tier else if at_least c (60/100) then Medium_tier
      else if at_least c (40/100) then Low_tier else Uncertain_tier)"

definition invalid_route :: "route_proposal \<Rightarrow> string" where
  "invalid_route p =
     ''Invalid route destination '' @ quoted (rp_route p) @ ''. Must be one of '' @ python_strings (map snd route_table)"

definition worker_errors :: "route_proposal \<Rightarrow> route_context option \<Rightarrow> error + string list" where
  "worker_errors p ctx =
     (if \<not> truthy (rp_target p) then Inr [''SPECIALIZED_WORKER route requires a non-empty '' @ quoted ''target_worker'' @ ''.'']
      else case ctx of
        None \<Rightarrow> Inr []
      | Some k \<Rightarrow>
          (if kx_available_workers k = [] then Inr []
           else case rp_target p of
             PStr t \<Rightarrow>
               Inr (if list_ex (\<lambda>w. contains (lower w) (lower t)) (kx_available_workers k) then []
                    else [''Target worker '' @ quoted t @ '' is not available in registered workers: '' @
                          python_strings (kx_available_workers k)])
           | v \<Rightarrow> Inl (OtherException (quoted (py_type v) @ '' object has no attribute '' @ quoted ''lower''))))"

definition default_stages :: "pyval list" where
  "default_stages =
     [PDict [(''stage'', PInt 1), (''route'', PStr ''RESEARCH''), (''description'', PStr ''Information gathering'')],
      PDict [(''stage'', PInt 2), (''route'', PStr ''SPECIALIZED_WORKER''), (''description'', PStr ''Implementation'')]]"

text \<open>The decision that a proposal without errors gives.\<close>

definition reconciled :: "routing_env \<Rightarrow> route_proposal \<Rightarrow> route_destination \<Rightarrow> string \<Rightarrow> route_decision" where
  "reconciled env p dest0 req =
     (let c = rp_confidence p;
          demoted = (below c (40/100) \<and> dest0 \<noteq> Clarification);
          dest = (if demoted then Clarification else dest0);
          trace1 = (if demoted then
              [''Confidence '' @ rv_fixed env c @ '' is below uncertainty threshold (0.40); reconciling route '' @
               quoted (route_value dest0) @ '' to CLARIFICATION.''] else []);
          questions1 = (if demoted \<and> rp_questions p = [] then
              [''The intent of '' @ quoted (rp_reason p) @ '' is uncertain. Please clarify what action or research is needed.'']
            else rp_questions p);
          clarify = (demoted \<or> rp_clarify p \<or> dest = Clarification);
          unasked = (clarify \<and> questions1 = [] \<and> rp_ambiguities p = []);
          questions2 = (if unasked then [''Could you clarify the exact action or details for this request?''] else questions1);
          trace2 = (if unasked then [''Auto-populated default clarification question for CLARIFICATION route.''] else []);
          unstaged = (dest = Multi_stage \<and> rp_stages p = []);
          stages = (if unstaged then default_stages else rp_stages p);
          trace3 = (if unstaged then [''Auto-populated default multi-stage plan for MULTI_STAGE route.''] else [])
      in
      (decision_base env dest c (tier_of c) (strip (rp_reason p)) (trace1 @ trace2 @ trace3) req)\<lparr>
        dn_external := rp_external p, dn_evidence := rp_evidence p, dn_project_context := rp_project_context p,
        dn_tools := rp_tools p, dn_target := rp_target p, dn_stages := stages, dn_ambiguities := rp_ambiguities p,
        dn_clarify := clarify, dn_questions := questions2\<rparr>)"

definition validate_proposal ::
  "routing_env \<Rightarrow> route_proposal \<Rightarrow> route_context option \<Rightarrow> string \<Rightarrow> error + (bool \<times> string list \<times> route_decision option)" where
  "validate_proposal env p ctx req =
     (case route_of_value (upper (rp_route p)) of
        None \<Rightarrow> Inr (False, [invalid_route p], None)
      | Some dest0 \<Rightarrow>
          (let c = rp_confidence p in
           if below c 0 \<or> exceeds c 1 then
             Inr (False, [''Confidence score '' @ rv_repr env c @ '' is out of valid bounds [0.0, 1.0].''], None)
           else
             let dest = dn_route (reconciled env p dest0 req);
                 errors1 = (if strip (rp_reason p) = [] then
                   [''Routing proposal must include a non-empty '' @ quoted ''reason'' @ '' explaining the routing decision.''] else []);
                 errors2 = (if rp_evidence p \<and> dest = Direct_action then
                   [''Incompatible routing: DIRECT_ACTION cannot require research evidence.''] else [])
             in sbind (if dest = Specialized_worker then worker_errors p ctx else Inr []) (\<lambda>errors3.
                  let errors = errors1 @ errors2 @ errors3 in
                  if errors \<noteq> [] then Inr (False, errors, None)
                  else Inr (True, [], Some (reconciled env p dest0 req)))))"


section \<open>The router\<close>

record router =
  rr_classifier :: "classifier option"
  rr_prefer_fast_path :: bool

definition deterministic_decision :: "routing_env \<Rightarrow> route_signals \<Rightarrow> string \<Rightarrow> string list \<Rightarrow> route_decision" where
  "deterministic_decision env sg req trace =
     (let r = (case sg_route sg of Some r \<Rightarrow> r | None \<Rightarrow> Clarification);
          clarify = (r = Clarification);
          questions = (if clarify \<and> sg_questions sg = [] then
              [''Could you clarify the specific requirements for this request?''] else sg_questions sg)
      in
      (decision_base env r (sg_confidence sg) (if at_least (sg_confidence sg) (85/100) then High_tier else Medium_tier)
         (''Matched deterministic routing pattern(s): '' @ join_with '', '' (sg_rules sg)) trace req)\<lparr>
        dn_external := sg_external sg, dn_evidence := sg_evidence sg, dn_project_context := sg_project_context sg,
        dn_tools := sg_tools sg, dn_target := opt_str (sg_target sg), dn_clarify := clarify, dn_questions := questions\<rparr>)"

definition asking :: "routing_env \<Rightarrow> score \<Rightarrow> confidence_tier \<Rightarrow> string \<Rightarrow> string \<Rightarrow> string list \<Rightarrow> string \<Rightarrow> route_decision" where
  \<comment> \<open>a \<open>CLARIFICATION\<close> with one question\<close>
  "asking env c tier reason question trace req =
     (decision_base env Clarification c tier reason trace req)\<lparr>dn_clarify := True, dn_questions := [question]\<rparr>"

definition cancelled :: "route_context option \<Rightarrow> bool" where
  "cancelled ctx = (case ctx of None \<Rightarrow> False | Some k \<Rightarrow> truthy (get_or (kx_task_metadata k) ''cancelled'' (PBool False)))"

definition propose ::
  "routing_env \<Rightarrow> classifier option \<Rightarrow> string \<Rightarrow> route_context option \<Rightarrow> route_signals \<Rightarrow> route_proposal option \<times> string list" where
  \<comment> \<open>the proposal, and what is added to the trace\<close>
  "propose env cl text ctx sg =
     (case cl of
        None \<Rightarrow> (None, [])
      | Some cl \<Rightarrow>
          (let asked = ''Querying LLMRoutingClassifier for untrusted routing proposal.'' in
           case classify env cl text ctx sg of
             Inr p \<Rightarrow>
               (Some p, [asked, ''LLM proposed route '' @ quoted (rp_route p) @ '' (confidence: '' @ rv_fixed env (rp_confidence p) @
                  '', model: '' @ str_val (opt_str (rp_model_used p)) @ '')''])
           | Inl (Classification_failed m) \<Rightarrow> (None, [asked, ''Routing classifier failed: '' @ m])
           | Inl (Unexpected m) \<Rightarrow> (None, [asked, ''Unexpected routing classifier error: '' @ m])))"

definition judge_proposal ::
  "routing_env \<Rightarrow> route_proposal \<Rightarrow> route_context option \<Rightarrow> route_signals \<Rightarrow> string \<Rightarrow> string list \<Rightarrow> error + route_decision" where
  "judge_proposal env p ctx sg req trace =
     sbind (validate_proposal env p ctx req) (\<lambda>(valid, errors, decision).
       let trace = trace @ [''Validating LLM proposal with RoutingValidator.''] in
       case (if valid then decision else None) of
         Some d \<Rightarrow>
           Inr (d\<lparr>dn_trace := trace @
             [''Routing finalized: '' @ route_value (dn_route d) @ '' (Confidence: '' @ rv_fixed env (dn_confidence d) @ '')''] @ dn_trace d\<rparr>)
       | None \<Rightarrow>
           (let trace = trace @ [''Proposal validation rejected proposal: '' @ python_strings errors] in
            case sg_route sg of
              Some r \<Rightarrow> Inr (deterministic_decision env sg req
                (trace @ [''Recovering with deterministic signal route: '' @ route_value r]))
            | None \<Rightarrow>
                Inr (asking env (Finite (3/10)) Uncertain_tier
                  (''Routing proposal was invalid ('' @ join_with '', '' errors @ ''). Clarification required.'')
                  ''Could you clarify the specific instructions or goals for this request?''
                  (trace @ [''Defaulting to safe CLARIFICATION due to invalid proposal.'']) req)))"

definition route_request ::
  "routing_env \<Rightarrow> router \<Rightarrow> string \<Rightarrow> string option \<Rightarrow> route_context option \<Rightarrow> error + route_decision" where
  "route_request env rt text request_id ctx =
     (let req = or_else request_id (''req-'' @ rv_request_hex env);
          trace = [''Routing request '' @ quoted req @ '': '' @ in_quotes text];
          clean = strip text
      in
      if cancelled ctx then
        Inr (decision_base env Failed_route (Finite 1) High_tier ''Request was cancelled prior to routing.''
          (trace @ [''Request is marked cancelled; returning FAILED.'']) req)
      else if clean = [] then
        Inr (asking env (Finite 1) High_tier ''Empty request text received.''
          ''The request is empty. What task or research would you like to perform?''
          (trace @ [''Request text is empty; returning CLARIFICATION.'']) req)
      else
        let sg = analyze clean ctx; trace = trace @ [''Analyzing deterministic routing signals.''] in
        case (if rr_prefer_fast_path rt \<and> Option.is_none (rr_classifier rt) then sg_route sg else None) of
          Some r \<Rightarrow>
            Inr (deterministic_decision env sg req (trace @ [''Applying deterministic route without LLM: '' @ route_value r]))
        | None \<Rightarrow>
            (case propose env (rr_classifier rt) clean ctx sg of (proposal, said) \<Rightarrow>
               (case (case proposal of None \<Rightarrow> None | Some p \<Rightarrow> if rp_route p = [] then None else Some p) of
                  Some p \<Rightarrow> judge_proposal env p ctx sg req (trace @ said)
                | None \<Rightarrow>
                    (case sg_route sg of
                       Some r \<Rightarrow>
                         Inr (deterministic_decision env sg req
                           (trace @ said @ [''Falling back to deterministic signal route: '' @ route_value r]))
                     | None \<Rightarrow>
                         Inr (asking env (Finite (5/10)) Low_tier
                           ''Could not determine a definitive execution route; clarification required.''
                           ''Could you please provide more details on the requested task or question?''
                           (trace @ said @ [''No valid proposal or deterministic route; failing safely to CLARIFICATION.'']) req)))))"

end
