(* ===== verification/Request_Dispatch.thy ===== *)
theory Request_Dispatch
  imports Request_Routing
begin

text \<open>
  The dispatcher of \<open>core/routing/dispatcher.py\<close>, and what the router and the dispatcher guarantee together.
  The researcher, the worker dispatcher and the handler of direct actions are parameters; the state
  remembers, for the theorems, what was handed to them.
\<close>

section \<open>Dispatching a decision\<close>

record research_request =
  rs_id :: string
  rs_project_id :: string
  rs_task_id :: string
  rs_objective :: string
  rs_metadata :: pydict

text \<open>
  A researcher is called by \<open>execute_research\<close>, by \<open>understand\<close>, or as a function, whichever it has first; an
  object with none of them is not called.
\<close>

datatype researcher =
  Executes "research_request \<Rightarrow> error + pyval"
| Understands "research_request \<Rightarrow> error + pyval"
| Callable "research_request \<Rightarrow> error + pyval"
| Inert

record dispatch_targets =
  dh_researcher :: "researcher option"
  dh_direct_action :: "(string \<Rightarrow> pydict \<Rightarrow> error + pyval) option"
  dh_worker :: "(pyval \<Rightarrow> string \<Rightarrow> pydict \<Rightarrow> error + pyval) option"

datatype handed = To_researcher research_request | To_handler string | To_worker pyval string

record dispatcher =
  ds_researcher_activations :: nat
  ds_research_requests :: nat
  ds_crawler_allocations :: nat
  ds_direct_actions :: nat
  ds_specialized_workers :: nat
  ds_clarifications :: nat
  ds_manager_reasoning :: nat
  ds_multi_stage :: nat
  ds_handed :: "handed list"

definition new_dispatcher :: dispatcher where
  "new_dispatcher = \<lparr>ds_researcher_activations = 0, ds_research_requests = 0, ds_crawler_allocations = 0,
     ds_direct_actions = 0, ds_specialized_workers = 0, ds_clarifications = 0, ds_manager_reasoning = 0,
     ds_multi_stage = 0, ds_handed = []\<rparr>"

record dispatch_result =
  dt_decision_id :: string
  dt_route :: route_destination
  dt_bypassed_researcher :: bool
  dt_research_request_created :: bool
  dt_target_worker :: pyval
  dt_output :: pyval
  dt_details :: pydict

definition bypassing :: "route_decision \<Rightarrow> route_destination \<Rightarrow> pyval \<Rightarrow> pydict \<Rightarrow> dispatch_result" where
  "bypassing d r output details =
     \<lparr>dt_decision_id = dn_id d, dt_route = r, dt_bypassed_researcher = True, dt_research_request_created = False,
      dt_target_worker = PNone, dt_output = output, dt_details = details\<rparr>"

definition hand_over :: "handed \<Rightarrow> dispatcher \<Rightarrow> dispatcher" where
  "hand_over h st = st\<lparr>ds_handed := ds_handed st @ [h]\<rparr>"

definition dispatch_research ::
  "dispatch_targets \<Rightarrow> string \<Rightarrow> route_decision \<Rightarrow> string \<Rightarrow> string \<Rightarrow> string \<Rightarrow> dispatcher \<Rightarrow> (error + dispatch_result) \<times> dispatcher" where
  "dispatch_research dh hex d text project_id task_id st =
     (let st = st\<lparr>ds_research_requests := ds_research_requests st + 1\<rparr>;
          q = \<lparr>rs_id = ''req-res-'' @ hex, rs_project_id = project_id, rs_task_id = task_id, rs_objective = text,
               rs_metadata = [(''source_request_id'', PStr (dn_request d))]\<rparr>;
          activated = st\<lparr>ds_researcher_activations := ds_researcher_activations st + 1\<rparr>;
          result = (\<lambda>out. \<lparr>dt_decision_id = dn_id d, dt_route = Research_route, dt_bypassed_researcher = False,
               dt_research_request_created = True, dt_target_worker = PNone, dt_output = out,
               dt_details = [(''research_request_id'', PStr (rs_id q))]\<rparr>);
          call = (\<lambda>f. (sbind (f q) (\<lambda>out. Inr (result out)), hand_over (To_researcher q) activated))
      in case dh_researcher dh of
           None \<Rightarrow> (Inr (result PNone), st)
         | Some (Executes f) \<Rightarrow> call f
         | Some (Understands f) \<Rightarrow> call f
         | Some (Callable f) \<Rightarrow> call f
         | Some Inert \<Rightarrow> (Inr (result PNone), activated))"

definition dispatch ::
  "dispatch_targets \<Rightarrow> string \<Rightarrow> route_decision \<Rightarrow> string \<Rightarrow> string \<Rightarrow> string \<Rightarrow> dispatcher \<Rightarrow> (error + dispatch_result) \<times> dispatcher" where
  "dispatch dh hex d text project_id task_id st =
     (case dn_route d of
        Research_route \<Rightarrow> dispatch_research dh hex d text project_id task_id st
      | Direct_action \<Rightarrow>
          (let st = st\<lparr>ds_direct_actions := ds_direct_actions st + 1\<rparr>;
               result = (\<lambda>out. bypassing d Direct_action out [(''reason'', PStr (dn_reason d))]) in
           case dh_direct_action dh of
             Some f \<Rightarrow> (sbind (f text (dn_metadata d)) (\<lambda>out. Inr (result out)), hand_over (To_handler text) st)
           | None \<Rightarrow> (Inr (result (PDict [(''status'', PStr ''DIRECT_ACTION_QUEUED''), (''action'', PStr text)])), st))
      | Specialized_worker \<Rightarrow>
          (let st = st\<lparr>ds_specialized_workers := ds_specialized_workers st + 1\<rparr>;
               target = p_or (dn_target d) (PStr ''worker.programmer'');
               result = (\<lambda>out. (bypassing d Specialized_worker out [(''target_worker'', target)])\<lparr>dt_target_worker := target\<rparr>) in
           case dh_worker dh of
             Some f \<Rightarrow> (sbind (f target text (dn_metadata d)) (\<lambda>out. Inr (result out)), hand_over (To_worker target text) st)
           | None \<Rightarrow> (Inr (result (PDict [(''status'', PStr ''ASSIGNED_TO_WORKER''), (''worker'', target), (''task'', PStr text)])), st))
      | Clarification \<Rightarrow>
          (Inr (bypassing d Clarification
             (PDict [(''status'', PStr ''CLARIFICATION_REQUIRED''), (''questions'', str_list (dn_questions d)),
                     (''ambiguities'', PList (dn_ambiguities d))])
             [(''clarification_questions'', str_list (dn_questions d))]),
           st\<lparr>ds_clarifications := ds_clarifications st + 1\<rparr>)
      | Manager_reasoning \<Rightarrow>
          (Inr (bypassing d Manager_reasoning (PDict [(''status'', PStr ''MANAGER_REASONING_ENGAGED''), (''topic'', PStr text)])
             [(''reason'', PStr (dn_reason d))]),
           st\<lparr>ds_manager_reasoning := ds_manager_reasoning st + 1\<rparr>)
      | Multi_stage \<Rightarrow>
          (Inr (bypassing d Multi_stage (PDict [(''status'', PStr ''MULTI_STAGE_PLAN_REQUIRED''), (''stages'', PList (dn_stages d))])
             [(''stages'', PList (dn_stages d))]),
           st\<lparr>ds_multi_stage := ds_multi_stage st + 1\<rparr>)
      | Failed_route \<Rightarrow>
          (Inr (bypassing d Failed_route (PDict [(''status'', PStr ''FAILED''), (''reason'', PStr (dn_reason d))])
             [(''reason'', PStr (dn_reason d))]), st))"

text \<open>A dispatcher serves one decision after the other: identifiers, decisions and texts are given.\<close>

fun dispatch_all :: "dispatch_targets \<Rightarrow> (string \<times> route_decision \<times> string) list \<Rightarrow> dispatcher \<Rightarrow> dispatcher" where
  "dispatch_all dh [] st = st"
| "dispatch_all dh ((hex, d, text) # rest) st =
     dispatch_all dh rest (snd (dispatch dh hex d text ''default-project'' ''default-task'' st))"


section \<open>Decisions of the router\<close>

lemma route_values: "map_of route_table r = Some (route_value r)"
  by (cases r) (simp_all add: route_table_def)

lemma decision_base_simps [simp]:
  "dn_route (decision_base env r c t reason tr req) = r" "dn_confidence (decision_base env r c t reason tr req) = c"
  "dn_evidence (decision_base env r c t reason tr req) = False" "dn_target (decision_base env r c t reason tr req) = PNone"
  "dn_clarify (decision_base env r c t reason tr req) = False" "dn_questions (decision_base env r c t reason tr req) = []"
  "dn_ambiguities (decision_base env r c t reason tr req) = []" "dn_stages (decision_base env r c t reason tr req) = []"
  by (simp_all add: decision_base_def)

definition answerable :: "route_decision \<Rightarrow> bool" where
  \<comment> \<open>a decision that asks for clarification says what to clarify\<close>
  "answerable d \<longleftrightarrow>
     (dn_route d = Clarification \<longrightarrow> dn_clarify d) \<and> (dn_clarify d \<longrightarrow> dn_questions d \<noteq> [] \<or> dn_ambiguities d \<noteq> [])"

definition decision_sound :: "route_decision \<Rightarrow> bool" where
  "decision_sound d \<longleftrightarrow>
     answerable d \<and>
     (dn_route d = Direct_action \<longrightarrow> \<not> dn_evidence d) \<and>
     (dn_route d = Specialized_worker \<longrightarrow> truthy (dn_target d)) \<and>
     (below (dn_confidence d) (40/100) \<longrightarrow> dn_route d = Clarification) \<and>
     \<not> below (dn_confidence d) 0 \<and> \<not> exceeds (dn_confidence d) 1"

lemma sound_asking [simp]: "0 \<le> x \<Longrightarrow> x \<le> 1 \<Longrightarrow> decision_sound (asking env (Finite x) t reason q tr req)"
  by (simp add: decision_sound_def answerable_def asking_def)

lemma sound_trace [simp]: "decision_sound (d\<lparr>dn_trace := tr\<rparr>) \<longleftrightarrow> decision_sound d"
  by (simp add: decision_sound_def answerable_def)

definition signals_ok :: "string \<Rightarrow> route_signals \<Rightarrow> route_destination \<Rightarrow> bool" where
  \<comment> \<open>what the router relies on when a signal suggests a route\<close>
  "signals_ok text sg r \<longleftrightarrow>
     at_least (sg_confidence sg) (85/100) \<and> \<not> exceeds (sg_confidence sg) 1 \<and>
     (r = Direct_action \<longrightarrow> \<not> sg_evidence sg) \<and>
     (r = Specialized_worker \<longrightarrow> sg_target sg = Some ''worker.tester'') \<and>
     (r = Clarification \<longrightarrow> sg_questions sg \<noteq> []) \<and> r \<noteq> Failed_route \<and>
     (r = Research_route \<longrightarrow> any_match research_patterns (lower (strip text)))"

lemma analyze_ok: "sg_route (analyze text ctx) = Some r \<Longrightarrow> signals_ok text (analyze text ctx) r"
  by (auto simp: analyze_def Let_def no_signals_def signals_ok_def split: if_splits)

lemma at_least_below: "at_least c x \<Longrightarrow> y \<le> x \<Longrightarrow> \<not> below c y"
  by (cases c) auto

lemma sound_deterministic:
  assumes "sg_route sg = Some r" and ok: "signals_ok text sg r"
  shows "decision_sound (deterministic_decision env sg req tr)"
  using assms at_least_below[of "sg_confidence sg" "85/100" "40/100"] at_least_below[of "sg_confidence sg" "85/100" 0]
  by (auto simp: signals_ok_def deterministic_decision_def decision_sound_def answerable_def opt_str_def Let_def)

lemma reconciled_simps:
  "dn_confidence (reconciled env p r req) = rp_confidence p" "dn_evidence (reconciled env p r req) = rp_evidence p"
  "dn_target (reconciled env p r req) = rp_target p"
  "dn_route (reconciled env p r req) = (if below (rp_confidence p) (40/100) then Clarification else r)"
  by (auto simp: reconciled_def Let_def)

lemma reconciled_answerable: "answerable (reconciled env p r req)"
  by (auto simp: answerable_def reconciled_def Let_def)

lemma worker_errors_Nil: "worker_errors p ctx = Inr [] \<Longrightarrow> truthy (rp_target p)"
  by (auto simp: worker_errors_def split: if_splits)

lemma validate_Some:
  assumes "validate_proposal env p ctx req = Inr (True, errors, Some d)"
  shows "\<exists>r. route_of_value (upper (rp_route p)) = Some r \<and> d = reconciled env p r req \<and> decision_sound d"
  using assms
  by (auto simp: validate_proposal_def Let_def sbind_Inr decision_sound_def reconciled_answerable reconciled_simps
        dest: worker_errors_Nil split: option.splits if_splits)

lemma validate_None: "validate_proposal env p ctx req = Inr (True, errors, None) \<Longrightarrow> False"
  by (auto simp: validate_proposal_def Let_def sbind_Inr split: option.splits if_splits)

lemma validate_Inl:
  "validate_proposal env p ctx req = Inl e \<longleftrightarrow>
     route_of_value (upper (rp_route p)) = Some Specialized_worker \<and>
     \<not> below (rp_confidence p) 0 \<and> \<not> exceeds (rp_confidence p) 1 \<and> \<not> below (rp_confidence p) (40/100) \<and>
     worker_errors p ctx = Inl e"
  by (auto simp: validate_proposal_def Let_def reconciled_simps sbind_def split: option.splits if_splits sum.splits)

lemma judge_cases:
  assumes "judge_proposal env p ctx sg req tr = Inr d"
  obtains (accepted) d' tr' errors where "validate_proposal env p ctx req = Inr (True, errors, Some d')" "d = d'\<lparr>dn_trace := tr'\<rparr>"
  | (recovered) r tr' where "sg_route sg = Some r" "d = deterministic_decision env sg req tr'"
  | (asked) reason q tr' where "d = asking env (Finite (3/10)) Uncertain_tier reason q tr' req"
proof -
  obtain valid errors decision where v: "validate_proposal env p ctx req = Inr (valid, errors, decision)"
    using assms unfolding judge_proposal_def sbind_Inr by auto
  show thesis
  proof (cases "if valid then decision else None")
    case (Some d')
    then show thesis
      using assms v accepted[of errors d'] by (simp add: judge_proposal_def Let_def split: if_splits) blast
  next
    case None
    show thesis
    proof (cases "sg_route sg")
      case (Some r)
      then show thesis using assms v None recovered[of r] by (simp add: judge_proposal_def Let_def) blast
    next
      case no_route: None
      then show thesis using assms v None asked by (simp add: judge_proposal_def Let_def) blast
    qed
  qed
qed

lemma judge_sound:
  assumes "judge_proposal env p ctx sg req tr = Inr d" and ok: "\<And>r. sg_route sg = Some r \<Longrightarrow> signals_ok text sg r"
  shows "decision_sound d"
  using assms(1)
proof (cases rule: judge_cases)
  case (accepted d' tr' errors)
  then show ?thesis using validate_Some by fastforce
next
  case (recovered r tr')
  then show ?thesis using sound_deterministic ok by blast
qed simp

lemma judge_Inl: "judge_proposal env p ctx sg req tr = Inl e \<longleftrightarrow> validate_proposal env p ctx req = Inl e"
  by (auto simp: judge_proposal_def sbind_def Let_def split: sum.splits option.splits)

lemma propose_Some: "fst (propose env c text ctx sg) = Some p \<longleftrightarrow> (\<exists>cl. c = Some cl \<and> classify env cl text ctx sg = Inr p)"
  by (auto simp: propose_def Let_def split: option.splits sum.splits classify_failure.splits)

lemma route_request_cases:
  assumes "route_request env rt text rid ctx = res"
  obtains
    (ask) x t reason q tr req where "res = Inr (asking env (Finite x) t reason q tr req)" "0 \<le> x" "x \<le> 1"
  | (cancel) tr req where "res = Inr (decision_base env Failed_route (Finite 1) High_tier
        ''Request was cancelled prior to routing.'' tr req)" "cancelled ctx"
  | (suggested) r tr req where "res = Inr (deterministic_decision env (analyze (strip text) ctx) req tr)"
      "sg_route (analyze (strip text) ctx) = Some r" "\<not> cancelled ctx" "strip text \<noteq> []"
  | (judged) cl p tr req where "res = judge_proposal env p ctx (analyze (strip text) ctx) req tr"
      "rr_classifier rt = Some cl" "classify env cl (strip text) ctx (analyze (strip text) ctx) = Inr p" "rp_route p \<noteq> []"
      "\<not> cancelled ctx" "strip text \<noteq> []"
proof -
  obtain proposal said where asked: "propose env (rr_classifier rt) (strip text) ctx (analyze (strip text) ctx) = (proposal, said)"
    by fastforce
  note route = assms[unfolded route_request_def Let_def asked prod.case, symmetric]
  consider "cancelled ctx" | "\<not> cancelled ctx" "strip text = []" | "\<not> cancelled ctx" "strip text \<noteq> []" by blast
  then show thesis
  proof cases
    case 1
    then show thesis using route by (intro cancel) auto
  next
    case 2
    then show thesis using route by (intro ask[of 1]) auto
  next
    case 3
    show thesis
    proof (cases "case proposal of None \<Rightarrow> None | Some p \<Rightarrow> if rp_route p = [] then None else Some p")
      case None
      then show thesis
        using route 3 ask[of "5/10"] suggested
        by (cases "sg_route (analyze (strip text) ctx)") (auto split: if_splits)
    next
      case (Some p)
      then have p: "proposal = Some p" "rp_route p \<noteq> []" by (auto split: option.splits if_splits)
      then obtain cl where "rr_classifier rt = Some cl" "classify env cl (strip text) ctx (analyze (strip text) ctx) = Inr p"
        using propose_Some[of env "rr_classifier rt" "strip text" ctx "analyze (strip text) ctx" p] asked by auto
      then show thesis using route 3 p judged by simp
    qed
  qed
qed

lemma worker_errors_Inl:
  "(\<exists>e. worker_errors p ctx = Inl e) \<longleftrightarrow>
     truthy (rp_target p) \<and> (\<forall>t. rp_target p \<noteq> PStr t) \<and> (\<exists>k. ctx = Some k \<and> kx_available_workers k \<noteq> [])"
  by (cases "rp_target p") (auto simp: worker_errors_def split: option.splits)

lemma strip_idem: "strip (strip s) = strip s"
proof -
  have ends: "xs = [] \<or> \<not> P (hd xs)" if "xs = dropWhile P ys" for xs ys :: string and P
    using that hd_dropWhile by metis
  have keep: "dropWhile P xs = xs" if "xs = [] \<or> \<not> P (hd xs)" for xs :: string and P
    using that by (cases xs) auto
  have last_drop: "last xs = last (dropWhile P xs)" if "dropWhile P xs \<noteq> []" for xs :: string and P
    using that by (metis last_appendR takeWhile_dropWhile_id)
  define a where "a = dropWhile is_space s"
  define b where "b = dropWhile is_space (rev a)"
  have a: "a = [] \<or> \<not> is_space (hd a)" using ends a_def by blast
  have b: "b = [] \<or> \<not> is_space (hd b)" using ends b_def by blast
  have "rev b = [] \<or> \<not> is_space (hd (rev b))"
  proof (cases "b = []")
    case False
    then have "hd (rev b) = hd a"
      using last_drop[of is_space "rev a"] unfolding b_def by (metis hd_rev last_rev)
    then show ?thesis using a False unfolding b_def by fastforce
  qed simp
  then have "dropWhile is_space (rev b) = rev b" using keep by blast
  moreover have "dropWhile is_space b = b" using keep b by blast
  ultimately show ?thesis unfolding strip_def a_def[symmetric] b_def[symmetric] by (simp add: a_def[symmetric] b_def[symmetric])
qed


section \<open>What the router guarantees\<close>



lemma analyze_idem: "analyze (strip text) ctx = analyze text ctx"
  by (simp add: analyze_def strip_idem)

lemma dispatch_hands:
  assumes "dispatch dh hex d text project_id task_id st = (res, st')"
  shows "\<exists>new. ds_handed st' = ds_handed st @ new \<and> length new \<le> 1 \<and>
     (dn_route d \<notin> {Research_route, Direct_action, Specialized_worker} \<longrightarrow> new = []) \<and>
     (\<forall>q. To_researcher q \<in> set new \<longrightarrow> rs_objective q = text \<and> dn_route d = Research_route)"
  using assms
  by (cases "dn_route d")
     (auto simp: dispatch_def dispatch_research_def hand_over_def Let_def split: option.splits researcher.splits)

lemma research_decided:
  assumes "route_request env rt text rid ctx = Inr d" and "dn_route d = Research_route"
  shows "any_match research_patterns (lower (strip text)) \<or>
     (\<exists>cl p. rr_classifier rt = Some cl \<and> classify env cl (strip text) ctx (analyze (strip text) ctx) = Inr p \<and>
        upper (rp_route p) = ''RESEARCH'' \<and> \<not> below (rp_confidence p) (40/100) \<and> strip (rp_reason p) \<noteq> [])"
proof -
  have signal: "any_match research_patterns (lower (strip text))"
    if "sg_route (analyze (strip text) ctx) = Some r" "dn_route (deterministic_decision env (analyze (strip text) ctx) req tr) = Research_route"
    for r req tr
    using analyze_ok[OF that(1)] that by (simp add: deterministic_decision_def signals_ok_def strip_idem Let_def)
  have research: "route_of_value s = Some Research_route \<longleftrightarrow> s = ''RESEARCH''" for s
    by (auto simp: route_of_value_def route_table_def)
  show ?thesis
    using assms(1)
  proof (cases rule: route_request_cases)
    case (judged cl p tr req)
    show ?thesis
      using judged(1)[symmetric]
    proof (cases rule: judge_cases)
      case (accepted d' tr' errors)
      then have "route_of_value (upper (rp_route p)) = Some Research_route \<and> \<not> below (rp_confidence p) (40/100) \<and>
          strip (rp_reason p) \<noteq> []"
        using assms(2) by (auto simp: validate_proposal_def Let_def sbind_Inr reconciled_simps split: option.splits if_splits)
      then show ?thesis using judged research by blast
    qed (use assms(2) signal in \<open>auto simp: asking_def\<close>)
  qed (use assms(2) signal in \<open>auto simp: asking_def\<close>)
qed

lemma idle_decisions:
  assumes "route_request env rt text rid ctx = Inr d" and "cancelled ctx \<or> strip text = []"
  shows "dn_route d \<in> {Failed_route, Clarification}"
  using assms by (cases rule: route_request_cases) (auto simp: asking_def)

text \<open>
  C12: when the context lists workers, the target of a handoff is text, although the model may write any JSON value
  there: it is the tester of a signal, or a part of the name of a worker that is listed.
\<close>

theorem handoff_target_is_text:
  assumes "route_request env rt text rid (Some k) = Inr d" and "dn_route d = Specialized_worker"
    and "kx_available_workers k \<noteq> []"
  shows "\<exists>t. dn_target d = PStr t \<and> t \<noteq> [] \<and>
     (t = ''worker.tester'' \<or> (\<exists>w \<in> set (kx_available_workers k). contains (lower w) (lower t)))"
proof -
  have signal: "dn_target (deterministic_decision env (analyze s c) req tr) = PStr ''worker.tester''"
    if "sg_route (analyze s c) = Some r" "dn_route (deterministic_decision env (analyze s c) req tr) = Specialized_worker"
    for s c r req tr
    using analyze_ok[OF that(1)] that by (simp add: deterministic_decision_def signals_ok_def opt_str_def Let_def)
  show ?thesis
    using assms(1)
  proof (cases rule: route_request_cases)
    case (judged cl p tr req)
    show ?thesis
      using judged(1)[symmetric]
    proof (cases rule: judge_cases)
      case (accepted d' tr' errors)
      then have "worker_errors p (Some k) = Inr [] \<and> dn_target d = rp_target p"
        using assms(2) by (auto simp: validate_proposal_def Let_def sbind_Inr reconciled_simps split: option.splits if_splits)
      then show ?thesis
        using assms(3) by (auto simp: worker_errors_def list_ex_iff split: if_splits pyval.splits)
    next
      case (recovered r tr')
      then show ?thesis using signal[of "strip text" "Some k" r] assms(2) by auto
    qed (use assms(2) in \<open>auto simp: asking_def\<close>)
  next
    case (suggested r tr req)
    then show ?thesis using signal[of "strip text" "Some k" r] assms(2) by auto
  qed (use assms(2) in \<open>auto simp: asking_def\<close>)
qed



section \<open>The counters of the dispatcher\<close>

definition routes_of :: "(string \<times> route_decision \<times> string) list \<Rightarrow> route_destination list" where
  "routes_of ds = map (\<lambda>(hex, d, text). dn_route d) ds"

lemma dispatch_one_counts:
  fixes st :: dispatcher and dh d hex q pid tid
  defines "st' \<equiv> snd (dispatch dh hex d q pid tid st)"
  shows "ds_research_requests st' = ds_research_requests st + of_bool (dn_route d = Research_route)"
    "ds_direct_actions st' = ds_direct_actions st + of_bool (dn_route d = Direct_action)"
    "ds_specialized_workers st' = ds_specialized_workers st + of_bool (dn_route d = Specialized_worker)"
    "ds_clarifications st' = ds_clarifications st + of_bool (dn_route d = Clarification)"
    "ds_manager_reasoning st' = ds_manager_reasoning st + of_bool (dn_route d = Manager_reasoning)"
    "ds_multi_stage st' = ds_multi_stage st + of_bool (dn_route d = Multi_stage)"
    "ds_crawler_allocations st' = ds_crawler_allocations st"
    "ds_researcher_activations st' =
       ds_researcher_activations st + of_bool (dn_route d = Research_route \<and> dh_researcher dh \<noteq> None)"
  unfolding st'_def
  by (cases "dn_route d";
      auto simp: dispatch_def dispatch_research_def hand_over_def Let_def split: option.splits researcher.splits)+

lemma dispatch_all_counts:
  "ds_research_requests (dispatch_all dh ds st) = ds_research_requests st + count_list (routes_of ds) Research_route \<and>
    ds_direct_actions (dispatch_all dh ds st) = ds_direct_actions st + count_list (routes_of ds) Direct_action \<and>
    ds_specialized_workers (dispatch_all dh ds st) = ds_specialized_workers st + count_list (routes_of ds) Specialized_worker \<and>
    ds_clarifications (dispatch_all dh ds st) = ds_clarifications st + count_list (routes_of ds) Clarification \<and>
    ds_manager_reasoning (dispatch_all dh ds st) = ds_manager_reasoning st + count_list (routes_of ds) Manager_reasoning \<and>
    ds_multi_stage (dispatch_all dh ds st) = ds_multi_stage st + count_list (routes_of ds) Multi_stage \<and>
    ds_crawler_allocations (dispatch_all dh ds st) = ds_crawler_allocations st \<and>
    ds_researcher_activations (dispatch_all dh ds st) =
      ds_researcher_activations st + (if dh_researcher dh = None then 0 else count_list (routes_of ds) Research_route)"
proof (induction ds arbitrary: st)
  case (Cons x ds)
  obtain hex d s where x: "x = (hex, d, s)" by (cases x) auto
  show ?case using Cons.IH unfolding x routes_of_def by (simp add: dispatch_one_counts)
qed (simp add: routes_of_def)

lemma dispatch_one_researcher:
  assumes "dn_route d \<noteq> Research_route"
  shows "To_researcher q \<in> set (ds_handed (snd (dispatch dh hex d s pid tid st))) \<longleftrightarrow> To_researcher q \<in> set (ds_handed st)"
proof -
  obtain res st' where run: "dispatch dh hex d s pid tid st = (res, st')" by fastforce
  show ?thesis using dispatch_hands[OF run] assms unfolding run by auto
qed

lemma dispatch_all_researcher:
  "Research_route \<notin> set (routes_of ds) \<Longrightarrow>
    To_researcher q \<in> set (ds_handed (dispatch_all dh ds st)) \<longleftrightarrow> To_researcher q \<in> set (ds_handed st)"
proof (induction ds arbitrary: st)
  case (Cons x ds)
  obtain hex d s where x: "x = (hex, d, s)" by (cases x) auto
  show ?case using Cons unfolding x routes_of_def by (auto simp: dispatch_one_researcher)
qed simp

lemma new_dispatcher_simps:
  "ds_researcher_activations new_dispatcher = 0" "ds_research_requests new_dispatcher = 0"
  "ds_crawler_allocations new_dispatcher = 0" "ds_direct_actions new_dispatcher = 0"
  "ds_specialized_workers new_dispatcher = 0" "ds_clarifications new_dispatcher = 0"
  "ds_manager_reasoning new_dispatcher = 0" "ds_multi_stage new_dispatcher = 0" "ds_handed new_dispatcher = []"
  by (simp_all add: new_dispatcher_def)

text \<open>
  The audit counters of a dispatcher count the decisions of each route it has served, whether the handlers
  returned or raised, it never allocates a crawler, the researcher is activated once per research decision when there is
  one, and without a research decision it has been handed nothing.
\<close>

theorem counters_exact:
  "ds_research_requests (dispatch_all dh ds new_dispatcher) = count_list (routes_of ds) Research_route \<and>
   ds_direct_actions (dispatch_all dh ds new_dispatcher) = count_list (routes_of ds) Direct_action \<and>
   ds_specialized_workers (dispatch_all dh ds new_dispatcher) = count_list (routes_of ds) Specialized_worker \<and>
   ds_clarifications (dispatch_all dh ds new_dispatcher) = count_list (routes_of ds) Clarification \<and>
   ds_manager_reasoning (dispatch_all dh ds new_dispatcher) = count_list (routes_of ds) Manager_reasoning \<and>
   ds_multi_stage (dispatch_all dh ds new_dispatcher) = count_list (routes_of ds) Multi_stage \<and>
   ds_crawler_allocations (dispatch_all dh ds new_dispatcher) = 0 \<and>
   ds_researcher_activations (dispatch_all dh ds new_dispatcher) =
     (if dh_researcher dh = None then 0 else count_list (routes_of ds) Research_route) \<and>
   (Research_route \<in> set (routes_of ds) \<or>
     {q. To_researcher q \<in> set (ds_handed (dispatch_all dh ds new_dispatcher))} = {})"
  using dispatch_all_counts[of dh ds new_dispatcher] dispatch_all_researcher[of ds _ dh new_dispatcher]
  unfolding new_dispatcher_simps by auto


section \<open>Concrete requests\<close>

definition sample_routing :: "pydict \<Rightarrow> routing_env" where
  \<comment> \<open>the answer of the model is the given object\<close>
  "sample_routing answer =
     \<lparr>rv_float = (\<lambda>s. if s = ''nan'' then Some NaN else Some (Finite (1/2))), rv_fixed = (\<lambda>c. ''0.50''),
      rv_repr = (\<lambda>c. ''0.5''), rv_json = (\<lambda>s. Inr (PDict answer)), rv_system_prompt = ''sys'', rv_request_hex = ''1'',
      rv_proposal_hex = ''2'', rv_decision_hex = ''3''\<rparr>"

definition routing_answer :: inference_response where
  "routing_answer =
     \<lparr>ir_request_id = ''q'', ir_response_id = ''r'', ir_content = ''{}'', ir_model_used = ''m'', ir_provider_used = ''p'',
      ir_finish_reason = ''stop'', ir_tool_calls = None,
      ir_usage = \<lparr>us_input_tokens = 0, us_output_tokens = 0, us_total_tokens = 0, us_cached_tokens = 0, us_metadata = []\<rparr>,
      ir_cost = \<lparr>ic_input_cost = 0, ic_output_cost = 0, ic_total_cost = 0, ic_currency = ''USD'',
        ic_cost_type = CT_ACTUAL\<rparr>, ir_latency = 0, ir_metadata = []\<rparr>"

definition sample_router :: router where
  "sample_router =
     \<lparr>rr_classifier = Some \<lparr>cl_gateway = Some (\<lambda>q. Inr routing_answer), cl_provider = None, cl_model_id = ''m''\<rparr>,
      rr_prefer_fast_path = True\<rparr>"

definition plain_router :: router where
  "plain_router = \<lparr>rr_classifier = None, rr_prefer_fast_path = True\<rparr>"

definition programmers_only :: route_context where
  "programmers_only = \<lparr>kx_project_id = None, kx_available_workers = [''worker.programmer''], kx_task_metadata = [],
     kx_known_entities = []\<rparr>"

definition research_answer :: pydict where
  "research_answer = [(''route'', PStr ''research''), (''confidence'', PFloat ''0.5''), (''reason'', PStr ''new'')]"


definition routed_to :: "error + route_decision \<Rightarrow> route_destination option" where
  "routed_to x = (case x of Inl e \<Rightarrow> None | Inr d \<Rightarrow> Some (dn_route d))"

lemma routed_to_Some: "routed_to x = Some r \<Longrightarrow> \<exists>d. x = Inr d \<and> dn_route d = r"
  by (auto simp: routed_to_def split: sum.splits)

lemma sample_decision:
  "routed_to (route_request (sample_routing research_answer) sample_router ''x'' None None) = Some Research_route"
  by code_simp



definition tester_answer :: pydict where
  "tester_answer = [(''route'', PStr ''SPECIALIZED_WORKER''), (''confidence'', PFloat ''0.5''), (''reason'', PStr ''run''),
     (''target_worker'', PStr ''worker.tester'')]"

lemma handoff_target_is_text_witness:
  "\<exists>d t. route_request (sample_routing tester_answer) sample_router ''run test'' None (Some programmers_only) = Inr d \<and>
     dn_target d = PStr t \<and> t \<noteq> []"
proof -
  have "routed_to (route_request (sample_routing tester_answer) sample_router ''run test'' None (Some programmers_only)) =
      Some Specialized_worker"
    by code_simp
  then obtain d where "route_request (sample_routing tester_answer) sample_router ''run test'' None (Some programmers_only) = Inr d"
      "dn_route d = Specialized_worker"
    using routed_to_Some by blast
  then show ?thesis using handoff_target_is_text[of _ _ _ _ programmers_only d] by (fastforce simp: programmers_only_def)
qed

text \<open>
  When the validator refuses a worker that is not registered, the router can recover with the signal of the
  text and hand the request to that same worker: signals are not checked against the context.
\<close>

lemma refused_worker_recovered:
  "case route_request (sample_routing tester_answer) sample_router ''run test'' None (Some programmers_only) of
     Inl e \<Rightarrow> False
   | Inr d \<Rightarrow> dn_route d = Specialized_worker \<and> dn_target d = PStr ''worker.tester''"
  by code_simp

text \<open>\<open>NaN\<close>, which \<open>json.loads\<close> reads, passes the bounds check, is not demoted, and keeps its route.\<close>

lemma nan_passes_validation:
  "routed_to (route_request (sample_routing [(''route'', PStr ''DIRECT_ACTION''), (''confidence'', PFloat ''nan''), (''reason'', PStr ''x'')])
     sample_router ''x'' None None) = Some Direct_action"
  by code_simp

text \<open>A target that is not text raises out of the router.\<close>

lemma number_as_worker_raises:
  "routed_to (route_request (sample_routing [(''route'', PStr ''SPECIALIZED_WORKER''), (''confidence'', PFloat ''0.5''),
       (''reason'', PStr ''x''), (''target_worker'', PInt 7)]) sample_router ''x'' None (Some programmers_only)) = None"
  by code_simp

text \<open>A worker is found by any part of its name, so the letter \<open>w\<close> is a valid target and is what the dispatcher passes on.\<close>

lemma part_of_a_name_is_a_worker:
  "case route_request (sample_routing [(''route'', PStr ''SPECIALIZED_WORKER''), (''confidence'', PFloat ''0.5''),
       (''reason'', PStr ''x''), (''target_worker'', PStr ''w'')]) sample_router ''x'' None (Some programmers_only) of
     Inl e \<Rightarrow> False | Inr d \<Rightarrow> dn_route d = Specialized_worker \<and> dn_target d = PStr ''w''"
  by code_simp

text \<open>A request that matches a programmer pattern is not routed by it: nothing looks at these patterns.\<close>

lemma programmer_pattern_ignored:
  "any_match programmer_patterns ''code x''"
  "routed_to (route_request (sample_routing []) plain_router ''code x'' None None) = Some Clarification"
  by (code_simp, code_simp)

text \<open>The signal of a compound request gives a decision without stages; only the validator fills them in.\<close>

lemma signalled_stages_empty: "dn_stages (deterministic_decision env sg req tr) = []"
  by (simp add: deterministic_decision_def Let_def)

end
