(* ===== verification/Context_Items.thy ===== *)
theory Context_Items
  imports Secrets Inference_Routing "HOL-Library.Product_Lexorder"
begin

text \<open>
  The data of the context engine, \<open>core/context/model.py\<close>, and the relevance scores of
  \<open>core/context/scoring.py\<close>. Scores are doubles, given by rationals with the rounding of every operation a
  parameter; the age of a time stamp, in hours, is a parameter too.
\<close>

section \<open>Data\<close>

datatype source_type =
  CS_TASK_OBJECTIVE
| CS_EXPLICIT_REFERENCE
| CS_PROJECT_MAP
| CS_ARCHITECTURE
| CS_CURRENT_STATE
| CS_DECISION
| CS_TASK_MEMORY
| CS_REPORT
| CS_ISSUE
| CS_REPOSITORY_FILE
| CS_RECENT_EVENTS
| CS_ARTIFACT_METADATA

primrec source_type_value :: "source_type \<Rightarrow> string" where
  "source_type_value CS_TASK_OBJECTIVE = ''TASK_OBJECTIVE''"
| "source_type_value CS_EXPLICIT_REFERENCE = ''EXPLICIT_REFERENCE''"
| "source_type_value CS_PROJECT_MAP = ''PROJECT_MAP''"
| "source_type_value CS_ARCHITECTURE = ''ARCHITECTURE''"
| "source_type_value CS_CURRENT_STATE = ''CURRENT_STATE''"
| "source_type_value CS_DECISION = ''DECISION''"
| "source_type_value CS_TASK_MEMORY = ''TASK_MEMORY''"
| "source_type_value CS_REPORT = ''REPORT''"
| "source_type_value CS_ISSUE = ''ISSUE''"
| "source_type_value CS_REPOSITORY_FILE = ''REPOSITORY_FILE''"
| "source_type_value CS_RECENT_EVENTS = ''RECENT_EVENTS''"
| "source_type_value CS_ARTIFACT_METADATA = ''ARTIFACT_METADATA''"

datatype context_priority = CP_MANDATORY | CP_HIGH | CP_MEDIUM | CP_LOW | CP_OPTIONAL

datatype warning_type =
  CW_BUDGET_EXCEEDED | CW_REQUIRED_CONTEXT_MISSING | CW_STALE_REFERENCE | CW_MISSING_FILE | CW_CONTRADICTORY_MEMORY |
  CW_TRUNCATED_ITEM | CW_DUPLICATE_REMOVED

primrec warning_type_value :: "warning_type \<Rightarrow> string" where
  "warning_type_value CW_BUDGET_EXCEEDED = ''BUDGET_EXCEEDED''"
| "warning_type_value CW_REQUIRED_CONTEXT_MISSING = ''REQUIRED_CONTEXT_MISSING''"
| "warning_type_value CW_STALE_REFERENCE = ''STALE_REFERENCE''"
| "warning_type_value CW_MISSING_FILE = ''MISSING_FILE''"
| "warning_type_value CW_CONTRADICTORY_MEMORY = ''CONTRADICTORY_MEMORY''"
| "warning_type_value CW_TRUNCATED_ITEM = ''TRUNCATED_ITEM''"
| "warning_type_value CW_DUPLICATE_REMOVED = ''DUPLICATE_REMOVED''"

record context_budget =
  cb_max_tokens :: int
  cb_max_characters :: int
  cb_max_items :: int
  cb_reserved_tokens :: int

record context_request =
  cq_project_id :: string
  cq_task_id :: string
  cq_worker_id :: "string option"
  cq_request_id :: string
  cq_budget :: context_budget
  cq_required_sources :: "source_type list"
  cq_excluded_sources :: "source_type list"
  cq_focus_areas :: "string list"
  cq_metadata :: pydict

record context_item =
  ci_id :: string
  ci_source_type :: source_type
  ci_source_id :: string
  ci_title :: string
  ci_content :: string
  ci_reference_only :: bool
  ci_priority :: context_priority
  ci_required :: bool
  ci_score :: rat
  ci_reasons :: "string list"
  ci_tokens :: int
  ci_characters :: int
  ci_freshness :: rat
  ci_checksum :: string
  ci_metadata :: pydict

record context_warning =
  cw_type :: warning_type
  cw_message :: string
  cw_target_id :: "string option"
  cw_details :: pydict

record context_package =
  pk_request_id :: string
  pk_project_id :: string
  pk_task_id :: string
  pk_worker_id :: "string option"
  pk_items :: "context_item list"
  pk_tokens :: int
  pk_characters :: int
  pk_budget :: context_budget
  pk_warnings :: "context_warning list"
  pk_candidates :: int
  pk_selected :: int
  pk_metadata :: pydict

text \<open>Maximal runs of the characters that satisfy a test: \<open>split()\<close>, and \<open>findall\<close> of a repeated class.\<close>

fun runs_from :: "(char \<Rightarrow> bool) \<Rightarrow> string \<Rightarrow> string \<Rightarrow> string list" where
  "runs_from P cur [] = (if cur = [] then [] else [rev cur])"
| "runs_from P cur (c # cs) =
     (if P c then runs_from P (c # cur) cs else (if cur = [] then [] else [rev cur]) @ runs_from P [] cs)"

definition runs :: "(char \<Rightarrow> bool) \<Rightarrow> string \<Rightarrow> string list" where
  "runs P s = runs_from P [] s"

definition estimate_tokens :: "string \<Rightarrow> int" where
  \<comment> \<open>four characters or 1.3 words for a token, rounded up\<close>
  "estimate_tokens s =
     (if s = [] then 0
      else max 1 (max ((int (length s) + 3) div 4) ((int (length (runs (\<lambda>c. \<not> is_space c) s)) * 13 + 9) div 10)))"

text \<open>A new item, with the sizes and the checksum that \<open>__post_init__\<close> fills in.\<close>

definition new_item :: "(string \<Rightarrow> string) \<Rightarrow> string \<Rightarrow> source_type \<Rightarrow> string \<Rightarrow> string \<Rightarrow> string \<Rightarrow> pydict \<Rightarrow> context_item" where
  "new_item sha iid ty source title content meta =
     \<lparr>ci_id = iid, ci_source_type = ty, ci_source_id = source, ci_title = title, ci_content = content,
      ci_reference_only = False, ci_priority = CP_MEDIUM, ci_required = False, ci_score = 0, ci_reasons = [],
      ci_tokens = estimate_tokens content, ci_characters = int (length content), ci_freshness = 1,
      ci_checksum = sha content, ci_metadata = meta\<rparr>"

definition get_item_by_id :: "context_package \<Rightarrow> string \<Rightarrow> context_item option" where
  "get_item_by_id p i = find (\<lambda>it. ci_id it = i \<or> ci_source_id it = i) (pk_items p)"

definition get_items_by_source_type :: "context_package \<Rightarrow> source_type \<Rightarrow> context_item list" where
  "get_items_by_source_type p ty = filter (\<lambda>it. ci_source_type it = ty) (pk_items p)"

definition item_section :: "nat \<Rightarrow> context_item \<Rightarrow> string list" where
  "item_section idx it =
     [''## '' @ nat_str idx @ ''. ['' @ source_type_value (ci_source_type it) @ ''] '' @ ci_title it @
        (if ci_required it then '' `[REQUIRED]`'' else []) @ (if ci_reference_only it then '' *(Reference Pointer)*'' else []),
      ''*Source*: `'' @ ci_source_id it @ ''` | *Relevance*: '' @ fixed 2 (ci_score it) @ '' | *Tokens*: ~'' @ int_str (ci_tokens it)] @
     (if ci_reasons it \<noteq> [] then [''*Selection Rationale*: '' @ join_with ''; '' (ci_reasons it)] else []) @
     [[], strip (ci_content it), [], ''---'']"

definition format_as_prompt_section :: "context_package \<Rightarrow> string" where
  "format_as_prompt_section p =
     join_with [CHR 0x0A]
       ([''# Context Package for Task: `'' @ pk_task_id p @ ''`'',
         ''**Project**: `'' @ pk_project_id p @ ''` | **Worker**: `'' @ or_else (pk_worker_id p) ''General'' @ ''`'',
         ''**Estimated Tokens**: '' @ int_str (pk_tokens p) @ ''/'' @ int_str (cb_max_tokens (pk_budget p)) @ '' | **Items**: '' @
           nat_str (length (pk_items p)), []] @
        (if pk_warnings p \<noteq> [] then
           [''## Context Warnings & Discrepancies''] @
           map (\<lambda>w. ''- **['' @ warning_type_value (cw_type w) @ '']**: '' @ cw_message w) (pk_warnings p) @ [[]]
         else []) @
        [''---''] @ concat (map (\<lambda>(i, it). item_section i it) (enumerate 1 (pk_items p))))"


section \<open>Relevance\<close>

definition stop_words :: "string list" where
  "stop_words =
     [''a'', ''an'', ''and'', ''are'', ''as'', ''at'', ''be'', ''by'', ''for'', ''from'',
      ''has'', ''he'', ''in'', ''is'', ''it'', ''its'', ''of'', ''on'', ''that'', ''the'',
      ''to'', ''was'', ''were'', ''will'', ''with'', ''the'', ''this'', ''or'', ''task'']"

definition keyword_char :: "char \<Rightarrow> bool" where
  "keyword_char c \<longleftrightarrow>
     (let n = of_char c :: nat in 48 \<le> n \<and> n \<le> 57 \<or> 65 \<le> n \<and> n \<le> 90 \<or> 97 \<le> n \<and> n \<le> 122) \<or> c \<in> set ''_-./''"

definition extract_keywords :: "string \<Rightarrow> string list" where
  \<comment> \<open>a set, listed once each\<close>
  "extract_keywords s =
     remdups (filter (\<lambda>t. length t \<ge> 3 \<and> t \<notin> set stop_words) (map (strip_chars ''.-_'') (runs keyword_char (lower s))))"

text \<open>\<open>hours\<close> gives the age of a time stamp, not below zero, or nothing when it cannot be read.\<close>

definition calculate_freshness :: "(string \<Rightarrow> rat option) \<Rightarrow> string option \<Rightarrow> rat" where
  "calculate_freshness hours ts =
     (if \<not> given ts then 80/100
      else case hours (the ts) of
        None \<Rightarrow> 80/100
      | Some h \<Rightarrow> if h \<le> 1 then 1 else if h \<le> 24 then 95/100 else if h \<le> 168 then 85/100 else if h \<le> 720 then 70/100 else 50/100)"

definition baseline_score :: "source_type \<Rightarrow> rat \<times> string" where
  "baseline_score ty =
     (case ty of
        CS_ARCHITECTURE \<Rightarrow> (70/100, ''Core system architecture & invariants (+0.70)'')
      | CS_PROJECT_MAP \<Rightarrow> (65/100, ''Project navigation & component map (+0.65)'')
      | CS_CURRENT_STATE \<Rightarrow> (65/100, ''Current project state & active milestones (+0.65)'')
      | CS_DECISION \<Rightarrow> (50/100, ''Architectural Decision Record (+0.50)'')
      | CS_TASK_MEMORY \<Rightarrow> (45/100, ''Task memory documentation (+0.45)'')
      | CS_REPORT \<Rightarrow> (45/100, ''Execution or verification report (+0.45)'')
      | CS_ISSUE \<Rightarrow> (40/100, ''Known issue record (+0.40)'')
      | CS_REPOSITORY_FILE \<Rightarrow> (35/100, ''Repository source code file (+0.35)'')
      | CS_ARTIFACT_METADATA \<Rightarrow> (35/100, ''Produced artifact metadata (+0.35)'')
      | CS_RECENT_EVENTS \<Rightarrow> (30/100, ''Recent audit event trail (+0.30)'')
      | _ \<Rightarrow> (30/100, ''Source type baseline ('' @ source_type_value ty @ '')''))"

text \<open>The engine stores text, or nothing, under the keys that the scorer reads, and a list of texts under \<open>tags\<close>.\<close>

definition meta_text :: "context_item \<Rightarrow> string \<Rightarrow> string option" where
  "meta_text it k = (case dict_get (ci_metadata it) k of Some (PStr s) \<Rightarrow> Some s | _ \<Rightarrow> None)"

definition meta_tags :: "context_item \<Rightarrow> string list" where
  "meta_tags it = (case dict_get (ci_metadata it) ''tags'' of
     Some (PList xs) \<Rightarrow> List.map_filter (\<lambda>x. case x of PStr s \<Rightarrow> Some s | _ \<Rightarrow> None) xs | _ \<Rightarrow> [])"

definition slashes :: string where
  "slashes = [CHR ''/'', CHR 0x5C]"

definition clean_source :: "context_item \<Rightarrow> string" where
  "clean_source it = lstrip_chars slashes (strip (ci_source_id it))"

definition clean_item_path :: "context_item \<Rightarrow> string" where
  "clean_item_path it = lstrip_chars slashes (strip (or_else (meta_text it ''relative_path'') []))"

definition is_explicit :: "string list \<Rightarrow> context_item \<Rightarrow> bool" where
  "is_explicit refs it \<longleftrightarrow>
     clean_source it \<in> set refs \<or> clean_item_path it \<in> set refs \<or>
     list_ex (\<lambda>r. r \<noteq> [] \<and> (contains (clean_item_path it) r \<or> contains (clean_source it) r)) refs"

type_synonym scored = "rat \<times> string list"

definition add_score :: "float_ops \<Rightarrow> rat \<Rightarrow> string \<Rightarrow> scored \<Rightarrow> scored" where
  "add_score F x why sr = (fadd F (fst sr) (fl F x), snd sr @ [why])"

definition relation_boost :: "float_ops \<Rightarrow> task \<Rightarrow> context_item \<Rightarrow> scored \<Rightarrow> scored" where
  "relation_boost F t it sr =
     (let a = meta_text it ''task_id''; b = meta_text it ''related_task_id'' in
      if a = Some (t_id t) \<or> b = Some (t_id t) then
        add_score F (25/100) (''Directly associated with active task '' @ quoted (t_id t) @ '' (+0.25)'') sr
      else if a \<in> Some ` set (t_dependencies t) \<or> b \<in> Some ` set (t_dependencies t) then
        add_score F (20/100) ''Associated with prerequisite task (+0.20)'' sr
      else if given (t_parent_task_id t) \<and> a = t_parent_task_id t then
        add_score F (15/100) (''Associated with parent task '' @ quoted (the (t_parent_task_id t)) @ '' (+0.15)'') sr
      else sr)"

definition matched_keywords :: "task \<Rightarrow> string list \<Rightarrow> context_item \<Rightarrow> string list" where
  "matched_keywords t focus it =
     (let targets = extract_keywords (t_title t @ '' '' @ t_objective t) @ concat (map extract_keywords focus);
          found = extract_keywords (ci_title it @ '' '' @ or_else (meta_text it ''relative_path'') [] @ '' '' @ join_with '' '' (meta_tags it))
      in filter (\<lambda>k. k \<in> set targets) found)"

definition keyword_boost :: "float_ops \<Rightarrow> string list \<Rightarrow> scored \<Rightarrow> scored" where
  "keyword_boost F matched sr =
     (if length matched \<ge> 3 then
        add_score F (30/100) (''High keyword overlap: '' @ repr_val (str_list (take 4 (sort matched))) @ '' (+0.30)'') sr
      else if length matched \<ge> 1 then
        add_score F (15/100) (''Keyword match: '' @ repr_val (str_list (sort matched)) @ '' (+0.15)'') sr
      else sr)"

definition focus_boost :: "float_ops \<Rightarrow> string list \<Rightarrow> context_item \<Rightarrow> scored \<Rightarrow> scored" where
  "focus_boost F focus it sr =
     (case find (\<lambda>fa. contains (lower (ci_title it)) (lower fa) \<or> contains (lower (clean_item_path it)) (lower fa)) focus of
        Some fa \<Rightarrow> add_score F (20/100) (''Focus area match for '' @ quoted fa @ '' (+0.20)'') sr
      | None \<Rightarrow> sr)"

definition item_timestamp :: "context_item \<Rightarrow> string option" where
  "item_timestamp it =
     (if given (meta_text it ''updated_at'') then meta_text it ''updated_at''
      else if given (meta_text it ''created_at'') then meta_text it ''created_at''
      else meta_text it ''timestamp'')"

definition freshness_boost :: "float_ops \<Rightarrow> rat \<Rightarrow> source_type \<Rightarrow> scored \<Rightarrow> scored" where
  "freshness_boost F fresh ty sr =
     (if fresh \<ge> 95/100 then add_score F (5/100) ''Recent update (+0.05)'' sr
      else if fresh \<le> 60/100 \<and> ty \<in> {CS_REPORT, CS_RECENT_EVENTS} then
        (fsub F (fst sr) (fl F (10/100)), snd sr @ [''Older report age penalty (-0.10)''])
      else sr)"

definition score_priority :: "float_ops \<Rightarrow> rat \<Rightarrow> context_priority" where
  "score_priority F x =
     (if x \<ge> fl F (85/100) then CP_HIGH else if x \<ge> fl F (60/100) then CP_MEDIUM
      else if x \<ge> fl F (35/100) then CP_LOW else CP_OPTIONAL)"

definition score_item ::
  "float_ops \<Rightarrow> (string \<Rightarrow> rat option) \<Rightarrow> task \<Rightarrow> string list \<Rightarrow> string list \<Rightarrow> context_item \<Rightarrow> context_item" where
  "score_item F hours t focus refs it =
     (if ci_source_type it = CS_TASK_OBJECTIVE then
        it\<lparr>ci_score := 1, ci_priority := CP_MANDATORY, ci_required := True,
           ci_reasons := [''Authoritative active task objective and constraints (Mandatory, score: 1.00)'']\<rparr>
      else
        let explicit = is_explicit refs it;
            fresh = calculate_freshness hours (item_timestamp it);
            s1 = add_score F (fst (baseline_score (ci_source_type it))) (snd (baseline_score (ci_source_type it))) (0, []);
            s2 = (if explicit then add_score F (40/100) ''Explicitly referenced in task configuration (+0.40)'' s1 else s1);
            s3 = relation_boost F t it s2;
            s4 = keyword_boost F (matched_keywords t focus it) s3;
            s5 = focus_boost F focus it s4;
            s6 = freshness_boost F fresh (ci_source_type it) s5;
            final = max 0 (min 1 (fst s6));
            held = (if explicit then CP_HIGH else ci_priority it)
        in it\<lparr>ci_freshness := fresh, ci_score := final, ci_reasons := snd s6,
              ci_priority := (if held \<noteq> CP_MANDATORY then score_priority F final else held)\<rparr>)"

lemma score_item_keeps [simp]:
  "ci_id (score_item F hours t focus refs it) = ci_id it"
  "ci_source_type (score_item F hours t focus refs it) = ci_source_type it"
  "ci_source_id (score_item F hours t focus refs it) = ci_source_id it"
  "ci_content (score_item F hours t focus refs it) = ci_content it"
  "ci_tokens (score_item F hours t focus refs it) = ci_tokens it"
  "ci_characters (score_item F hours t focus refs it) = ci_characters it"
  "ci_title (score_item F hours t focus refs it) = ci_title it"
  "ci_checksum (score_item F hours t focus refs it) = ci_checksum it"
  by (simp_all add: score_item_def Let_def)

lemma score_item_required [simp]:
  "ci_required (score_item F hours t focus refs it) \<longleftrightarrow> ci_source_type it = CS_TASK_OBJECTIVE \<or> ci_required it"
  by (simp add: score_item_def Let_def)

lemma score_item_range: "0 \<le> ci_score (score_item F hours t focus refs it) \<and> ci_score (score_item F hours t focus refs it) \<le> 1"
  by (simp add: score_item_def Let_def)

end
