(* ===== verification/Context_Engine.thy ===== *)
theory Context_Engine
  imports Context_Items Memory_Manager
begin

text \<open>
  The context engine of \<open>core/context/engine.py\<close>: discovery of the candidates in the store, the event log and the
  project directory, removal of duplicates, ordering, and the allocation of the budget. Files are text; the digest,
  the age of a time stamp and the JSON text of a snapshot are parameters.
\<close>

section \<open>Discovery\<close>

definition nl :: string where
  "nl = [CHR 0x0A]"

definition references_of :: "task \<Rightarrow> context_request \<Rightarrow> string list" where
  \<comment> \<open>\<open>_extract_explicit_references\<close>, a set listed in the order of insertion\<close>
  "references_of t q =
     List.map_filter (\<lambda>r. case r of
         PDict d \<Rightarrow>
           (let v = p_or (p_or (py_get d ''path'') (py_get d ''target'')) (py_get d ''file'') in
            if truthy v then Some (lstrip_chars slashes (strip (str_val v))) else None)
       | PStr s \<Rightarrow> Some (lstrip_chars slashes (strip s))
       | _ \<Rightarrow> None) (t_context_references t) @
     map strip (t_dependencies t) @
     map (\<lambda>fa. lstrip_chars slashes (strip fa)) (cq_focus_areas q)"

definition or_text :: "string \<Rightarrow> string \<Rightarrow> string" where
  "or_text s d = (if s = [] then d else s)"

definition criterion_line :: "pyval \<Rightarrow> string" where
  "criterion_line c = ''- [ ] '' @ (case c of PDict d \<Rightarrow> str_val (get_or d ''description'' c) | _ \<Rightarrow> str_val c)"

definition task_content :: "task \<Rightarrow> string" where
  "task_content t =
     join_with nl
       [''# Task: '' @ t_title t, [], ''- **Task ID**: `'' @ t_id t @ ''`'',
        ''- **Status**: `'' @ task_status_value (t_status t) @ ''`'',
        ''- **Priority**: `'' @ int_str (t_priority t) @ ''` | **Risk**: `'' @ risk_level_value (t_risk t) @ ''`'',
        ''- **Attempts**: '' @ int_str (t_attempts t) @ ''/'' @ int_str (t_max_attempts t), [],
        ''## Objective'', or_text (t_objective t) ''No objective specified.'', [],
        ''## Success Criteria'', or_text (join_with nl (map criterion_line (t_success_criteria t))) ''None specified.'', [],
        ''## Dependencies'', or_text (join_with nl (map (\<lambda>d. ''- `'' @ d @ ''`'') (t_dependencies t))) ''No prerequisite dependencies.'',
        []]"

definition task_item :: "(string \<Rightarrow> string) \<Rightarrow> task \<Rightarrow> context_item" where
  "task_item sha t =
     (new_item sha (''ctx-task-'' @ t_id t) CS_TASK_OBJECTIVE (t_id t) (''Task Objective: '' @ t_title t) (task_content t)
        [(''task_id'', PStr (t_id t)), (''status'', PStr (task_status_value (t_status t)))])
     \<lparr>ci_priority := CP_MANDATORY, ci_required := True\<rparr>"

definition memory_source :: "memory_type \<Rightarrow> source_type" where
  "memory_source ty =
     (case ty of M_ARCHITECTURE \<Rightarrow> CS_ARCHITECTURE | M_CURRENT_STATE \<Rightarrow> CS_CURRENT_STATE | M_DECISION \<Rightarrow> CS_DECISION
      | M_TASK_MEMORY \<Rightarrow> CS_TASK_MEMORY | M_REPORT \<Rightarrow> CS_REPORT | M_ISSUE \<Rightarrow> CS_ISSUE | _ \<Rightarrow> CS_PROJECT_MAP)"

definition memory_item :: "(string \<Rightarrow> string) \<Rightarrow> memory_document \<Rightarrow> context_item" where
  "memory_item sha m =
     new_item sha (''ctx-mem-'' @ m_id m) (memory_source (m_memory_type m)) (m_id m) (m_title m) (m_content m)
       [(''relative_path'', PStr (m_relative_path m)), (''tags'', str_list (m_tags m)), (''task_id'', opt_str (m_related_task_id m)),
        (''worker_id'', opt_str (m_related_worker_id m)), (''version'', PInt (m_version m)), (''updated_at'', PStr (m_updated_at m))]"

definition contradicts :: "task \<Rightarrow> memory_document \<Rightarrow> bool" where
  "contradicts t m \<longleftrightarrow>
     m_memory_type m = M_TASK_MEMORY \<and> m_related_task_id m = Some (t_id t) \<and>
     contains (m_content m) ''Status: COMPLETED'' \<and> t_status t \<noteq> T_COMPLETED"

definition contradiction :: "task \<Rightarrow> memory_document \<Rightarrow> context_warning" where
  "contradiction t m =
     \<lparr>cw_type = CW_CONTRADICTORY_MEMORY,
      cw_message = ''Task memory '' @ quoted (m_relative_path m) @ '' reports COMPLETED but authoritative Task Engine state is '' @
        quoted (task_status_value (t_status t)) @ ''. Authoritative state takes precedence.'',
      cw_target_id = Some (m_id m), cw_details = []\<rparr>"

text \<open>\<open>splitlines()\<close> of ASCII text; the flag says that the last character was a carriage return.\<close>

fun lines_from :: "bool \<Rightarrow> string \<Rightarrow> string \<Rightarrow> string list" where
  "lines_from cr cur [] = (if cur = [] then [] else [rev cur])"
| "lines_from cr cur (c # cs) =
     (let n = of_char c :: nat in
      if cr \<and> n = 10 then lines_from False cur cs
      else if n = 13 then rev cur # lines_from True [] cs
      else if n \<in> {10, 11, 12, 28, 29, 30} then rev cur # lines_from False [] cs
      else lines_from False (c # cur) cs)"

definition code_fence :: string where
  "code_fence = [CHR 0x60, CHR 0x60, CHR 0x60]"

definition large_file :: "string \<Rightarrow> bool" where
  "large_file content \<longleftrightarrow> length content > 6000"

definition file_snippet :: "string \<Rightarrow> string \<Rightarrow> string" where
  "file_snippet p content =
     (if large_file content then
        join_with nl [''# File: '' @ p @ '' (Truncated / Reference Pointer)'', code_fence,
          join_with nl (take 60 (lines_from False [] content)),
          ''... [Full file size: '' @ nat_str (length content) @
            '' characters. Use workspace tools to inspect remaining lines] ...'', code_fence]
      else join_with nl [''# File: '' @ p, code_fence, content, code_fence])"

definition file_item :: "(string \<Rightarrow> string) \<Rightarrow> string \<Rightarrow> string \<Rightarrow> context_item" where
  "file_item sha p content =
     (new_item sha (''ctx-file-'' @ map (\<lambda>c. if c = CHR ''/'' then CHR ''-'' else c) p) CS_REPOSITORY_FILE p
        (''Source Code: '' @ p) (file_snippet p content)
        [(''relative_path'', PStr p), (''file_size'', PInt (int (length content)))])
     \<lparr>ci_reference_only := large_file content, ci_priority := CP_HIGH\<rparr>"

definition missing_file :: "string \<Rightarrow> context_warning" where
  "missing_file p =
     \<lparr>cw_type = CW_MISSING_FILE, cw_message = ''Referenced repository file '' @ quoted p @ '' not found on disk.'',
      cw_target_id = Some p, cw_details = []\<rparr>"

definition file_reference :: "pyval \<Rightarrow> string option" where
  \<comment> \<open>the path of a repository file that a context reference names\<close>
  "file_reference r =
     (let v = (case r of PDict d \<Rightarrow> py_get d ''path'' | _ \<Rightarrow> r); p = lstrip_chars slashes (strip (str_val v)) in
      if truthy v \<and> \<not> startswith p ''.autonomos'' then Some p else None)"

definition read_reference :: "filesystem \<Rightarrow> path \<Rightarrow> string \<Rightarrow> string option" where
  "read_reference fs rootdir p =
     (case os_path fs (rootdir @ path_parts p) of None \<Rightarrow> None | Some f \<Rightarrow> dict_get (fs_files fs) f)"

definition file_candidates ::
  "(string \<Rightarrow> string) \<Rightarrow> filesystem \<Rightarrow> path \<Rightarrow> pyval list \<Rightarrow> context_item list \<times> context_warning list" where
  "file_candidates sha fs rootdir refs =
     (let ps = List.map_filter file_reference refs in
      (List.map_filter (\<lambda>p. map_option (file_item sha p) (read_reference fs rootdir p)) ps,
       map missing_file (filter (\<lambda>p. read_reference fs rootdir p = None) ps)))"

definition artifact_item :: "(string \<Rightarrow> string) \<Rightarrow> artifact \<Rightarrow> context_item" where
  "artifact_item sha a =
     new_item sha (''ctx-art-'' @ a_id a) CS_ARTIFACT_METADATA (a_id a) (''Artifact: '' @ a_path a)
       (''Artifact `'' @ a_path a @ ''` ('' @ artifact_type_value (a_type a) @ ''): '' @ a_description a @ nl @ ''Checksum: `'' @
          or_else (a_checksum a) ''N/A'' @ ''`'')
       [(''task_id'', PStr (a_task_id a)), (''artifact_id'', PStr (a_id a)), (''relative_path'', PStr (a_path a))]"

definition event_line :: "event \<Rightarrow> string" where
  \<comment> \<open>a stored event has a sequence number\<close>
  "event_line e =
     ''- `['' @ e_timestamp e @ '']` #'' @ zero_pad 4 (case e_sequence_number e of Some n \<Rightarrow> int_str n | None \<Rightarrow> []) @ '' **'' @
     e_event_type e @ ''** ('' @ e_source e @ '')''"

definition events_item :: "(string \<Rightarrow> string) \<Rightarrow> task \<Rightarrow> event list \<Rightarrow> context_item" where
  "events_item sha t es =
     new_item sha (''ctx-events-'' @ t_id t) CS_RECENT_EVENTS (''events-'' @ t_id t) (''Recent Event Timeline for Task '' @ t_id t)
       (''# Recent Event Timeline'' @ nl @ join_with nl (map event_line (drop (length es - 10) es)))
       [(''task_id'', PStr (t_id t)), (''event_count'', PInt (int (length es)))]"

definition discover_candidates ::
  "(string \<Rightarrow> string) \<Rightarrow> workspace \<Rightarrow> context_request \<Rightarrow> task \<Rightarrow> string \<Rightarrow> context_item list \<times> context_warning list" where
  "discover_candidates sha w q t rootdir =
     (let docs = list_memory_documents (ws_store w) (Some (cq_project_id q)) None None None;
          files = file_candidates sha (ws_fs w) (collapse (path_parts rootdir)) (t_context_references t);
          arts = filter (\<lambda>a. a_task_id a = t_id t \<or> a_task_id a \<in> set (t_dependencies t))
                   (list_artifacts_for_project (ws_store w) (cq_project_id q));
          es = get_events_by_task (ws_store w) (t_id t)
      in ([task_item sha t] @ map (memory_item sha) docs @ fst files @ map (artifact_item sha) arts @
            (if es \<noteq> [] then [events_item sha t es] else []),
          map (contradiction t) (filter (contradicts t) docs) @ snd files))"


section \<open>Duplicates\<close>

record dedup_state =
  dd_kept :: "context_item list"
  dd_keys :: "(source_type \<times> string, context_item) dict"
  dd_checksums :: "string list"
  dd_warnings :: "context_warning list"

definition source_key :: "context_item \<Rightarrow> source_type \<times> string" where
  "source_key it = (ci_source_type it, ci_source_id it)"

definition duplicate_warning :: "string \<Rightarrow> context_item \<Rightarrow> context_warning" where
  "duplicate_warning msg it = \<lparr>cw_type = CW_DUPLICATE_REMOVED, cw_message = msg, cw_target_id = Some (ci_id it), cw_details = []\<rparr>"

definition dedup_step :: "context_item \<Rightarrow> dedup_state \<Rightarrow> dedup_state" where
  "dedup_step it st =
     (case dict_get (dd_keys st) (source_key it) of
        Some old \<Rightarrow>
          (let st = st\<lparr>dd_warnings := dd_warnings st @ [duplicate_warning
                 (''Duplicate source item '' @ quoted (ci_title it) @ '' removed in favor of higher priority candidate.'') it]\<rparr> in
           if ci_score it > ci_score old then
             st\<lparr>dd_kept := remove1 old (dd_kept st) @ [it], dd_keys := dict_set (source_key it) it (dd_keys st)\<rparr>
           else st)
      | None \<Rightarrow>
          (if ci_checksum it \<noteq> [] \<and> ci_checksum it \<in> set (dd_checksums st) then
             st\<lparr>dd_warnings := dd_warnings st @ [duplicate_warning
                 (''Duplicate content checksum for '' @ quoted (ci_title it) @ '' removed.'') it]\<rparr>
           else
             st\<lparr>dd_kept := dd_kept st @ [it], dd_keys := dict_set (source_key it) it (dd_keys st),
                dd_checksums := (if ci_checksum it \<noteq> [] then ci_checksum it # dd_checksums st else dd_checksums st)\<rparr>))"

definition deduplicate_items :: "context_item list \<Rightarrow> context_item list \<times> context_warning list" where
  "deduplicate_items items =
     (let st = fold dedup_step items \<lparr>dd_kept = [], dd_keys = [], dd_checksums = [], dd_warnings = []\<rparr> in
      (dd_kept st, dd_warnings st))"


section \<open>Order\<close>

definition source_order :: "source_type \<Rightarrow> nat" where
  "source_order ty =
     (case ty of CS_TASK_OBJECTIVE \<Rightarrow> 1 | CS_EXPLICIT_REFERENCE \<Rightarrow> 2 | CS_ARCHITECTURE \<Rightarrow> 3 | CS_PROJECT_MAP \<Rightarrow> 4
      | CS_CURRENT_STATE \<Rightarrow> 5 | CS_DECISION \<Rightarrow> 6 | CS_REPORT \<Rightarrow> 7 | CS_TASK_MEMORY \<Rightarrow> 8 | CS_REPOSITORY_FILE \<Rightarrow> 9
      | CS_ARTIFACT_METADATA \<Rightarrow> 10 | CS_RECENT_EVENTS \<Rightarrow> 11 | CS_ISSUE \<Rightarrow> 12)"

definition round_four :: "float_ops \<Rightarrow> rat \<Rightarrow> rat" where
  \<comment> \<open>\<open>round(x, 4)\<close>\<close>
  "round_four F x = fl F (of_int (half_even (x * 10000)) / 10000)"

definition item_key :: "float_ops \<Rightarrow> context_item \<Rightarrow> nat \<times> rat \<times> nat \<times> string" where
  "item_key F it =
     (if ci_required it then 0 else 1, - round_four F (ci_score it), source_order (ci_source_type it), ci_id it)"

definition sort_context_items :: "float_ops \<Rightarrow> context_item list \<Rightarrow> context_item list" where
  "sort_context_items F items = sort_key (item_key F) items"


section \<open>Budget\<close>

record allocation =
  al_selected :: "context_item list"
  al_tokens :: int
  al_characters :: int
  al_warnings :: "context_warning list"

definition take_item :: "context_item \<Rightarrow> allocation \<Rightarrow> allocation" where
  "take_item it al =
     al\<lparr>al_selected := al_selected al @ [it], al_tokens := al_tokens al + ci_tokens it,
        al_characters := al_characters al + ci_characters it\<rparr>"

definition truncation_notice :: string where
  "truncation_notice = nl @ nl @ ''[... Truncated due to context budget limits ...]''"

definition truncated :: "int \<Rightarrow> context_item \<Rightarrow> context_item" where
  "truncated limit it =
     (let c = take (nat limit) (ci_content it) @ truncation_notice in
      it\<lparr>ci_content := c, ci_characters := int (length c), ci_tokens := estimate_tokens c\<rparr>)"

definition truncation_warning :: "context_item \<Rightarrow> int \<Rightarrow> context_warning" where
  "truncation_warning it remaining =
     \<lparr>cw_type = CW_TRUNCATED_ITEM,
      cw_message = ''Context item '' @ quoted (ci_title it) @ '' was safely truncated to fit remaining token budget.'',
      cw_target_id = Some (ci_id it),
      cw_details = [(''original_size'', PInt (ci_characters it)), (''budget_remaining'', PInt remaining)]\<rparr>"

definition offer_item :: "context_budget \<Rightarrow> context_item \<Rightarrow> allocation \<Rightarrow> allocation" where
  \<comment> \<open>one optional item, when the loop has not ended\<close>
  "offer_item b it al =
     (let tokens = cb_max_tokens b - al_tokens al; chars = cb_max_characters b - al_characters al in
      if ci_tokens it \<le> tokens \<and> ci_characters it \<le> chars then take_item it al
      else if ci_source_type it \<in> {CS_REPOSITORY_FILE, CS_REPORT} \<and> tokens \<ge> 150 \<and> chars - 200 \<ge> 400 then
        (let it' = truncated (chars - 200) it; al' = take_item it' al in
         al'\<lparr>al_warnings := al_warnings al' @ [truncation_warning it' tokens]\<rparr>)
      else al)"

fun allocate_optional :: "context_budget \<Rightarrow> context_item list \<Rightarrow> allocation \<Rightarrow> allocation" where
  "allocate_optional b [] al = al"
| "allocate_optional b (it # its) al =
     (if int (length (al_selected al)) \<ge> cb_max_items b then al
      else if cb_max_tokens b - al_tokens al \<le> 50 then al
      else allocate_optional b its (offer_item b it al))"

definition budget_warning :: "context_budget \<Rightarrow> int \<Rightarrow> context_warning" where
  "budget_warning b tokens =
     \<lparr>cw_type = CW_BUDGET_EXCEEDED,
      cw_message = ''Mandatory task context ('' @ int_str tokens @ '' tokens) exceeds total budget ('' @ int_str (cb_max_tokens b) @
        '' tokens). Protected mandatory items retained.'',
      cw_target_id = None, cw_details = [(''current_tokens'', PInt tokens), (''max_tokens'', PInt (cb_max_tokens b))]\<rparr>"

definition allocate_mandatory :: "context_budget \<Rightarrow> context_item list \<Rightarrow> allocation" where
  "allocate_mandatory b items =
     (let al = fold take_item (filter ci_required items)
                 \<lparr>al_selected = [], al_tokens = 0, al_characters = 0, al_warnings = []\<rparr> in
      if al_tokens al > cb_max_tokens b then al\<lparr>al_warnings := [budget_warning b (al_tokens al)]\<rparr> else al)"

definition allocate_budget :: "context_budget \<Rightarrow> context_item list \<Rightarrow> context_item list \<times> context_warning list" where
  "allocate_budget b items =
     (let al = allocate_optional b (filter (\<lambda>it. \<not> ci_required it) items) (allocate_mandatory b items) in
      (al_selected al, al_warnings al))"


section \<open>Assembly\<close>

record context_env =
  ce_sha :: "string \<Rightarrow> string"
  ce_floats :: float_ops
  ce_hours :: "string \<Rightarrow> rat option"
  ce_json :: "context_package \<Rightarrow> string"
  ce_now :: string

definition orchestration_task :: "project \<Rightarrow> string \<Rightarrow> string \<Rightarrow> task" where
  "orchestration_task p tid now =
     \<lparr>t_id = tid, t_project_id = p_id p, t_title = ''Manager Orchestration: '' @ p_name p,
      t_objective = ''Orchestrating autonomous workforce planning and task execution'', t_parent_task_id = None,
      t_status = T_PENDING, t_priority = 1, t_risk = R_LOW, t_assigned_worker = None, t_dependencies = [],
      t_success_criteria = [], t_context_references = [], t_artifacts = [], t_attempts = 0, t_max_attempts = 3,
      t_metadata = [], t_created_at = now, t_started_at = None, t_completed_at = None\<rparr>"

definition context_task :: "store \<Rightarrow> project \<Rightarrow> string \<Rightarrow> string \<Rightarrow> error + task" where
  "context_task s p tid now =
     (case get_task s tid of
        Some t \<Rightarrow> Inr t
      | None \<Rightarrow>
          if startswith tid ''mgr-state-'' \<or> startswith tid ''project-ctx-'' then Inr (orchestration_task p tid now)
          else Inl (TaskNotFoundError tid))"

definition save_context_snapshot :: "context_env \<Rightarrow> context_package \<Rightarrow> string \<Rightarrow> filesystem \<Rightarrow> string + filesystem" where
  \<comment> \<open>the project root is absolute; the request identifier is one component of the path\<close>
  "save_context_snapshot env pkg rootdir fs =
     (let dir = path_parts rootdir @ [''.autonomos'', ''context_snapshots''] in
      case mkdir_parents dir fs of
        Inl e \<Rightarrow> Inl e
      | Inr fs1 \<Rightarrow>
          (let file = dir @ [pk_request_id pkg @ ''.json''] in
           if is_dir fs1 file then Inl ''Is a directory'' else Inr (write_file file (ce_json env pkg) fs1)))"

definition sum_of :: "(context_item \<Rightarrow> int) \<Rightarrow> context_item list \<Rightarrow> int" where
  "sum_of f items = sum_list (map f items)"

definition build_package :: "context_env \<Rightarrow> context_request \<Rightarrow> workspace \<Rightarrow> task \<Rightarrow> string \<Rightarrow> context_package" where
  "build_package env q w t rootdir =
     (let (candidates, found) = discover_candidates (ce_sha env) w q t rootdir;
          scored = map (score_item (ce_floats env) (ce_hours env) t (cq_focus_areas q) (references_of t q)) candidates;
          wanted = (if cq_excluded_sources q \<noteq> [] then filter (\<lambda>it. ci_source_type it \<notin> set (cq_excluded_sources q)) scored else scored);
          (unique, dups) = deduplicate_items wanted;
          ordered = sort_context_items (ce_floats env) unique;
          (selected, over) = allocate_budget (cq_budget q) ordered
      in \<lparr>pk_request_id = cq_request_id q, pk_project_id = cq_project_id q, pk_task_id = cq_task_id q,
          pk_worker_id = cq_worker_id q, pk_items = selected, pk_tokens = sum_of ci_tokens selected,
          pk_characters = sum_of ci_characters selected, pk_budget = cq_budget q, pk_warnings = found @ dups @ over,
          pk_candidates = int (length candidates), pk_selected = int (length selected), pk_metadata = cq_metadata q\<rparr>)"

definition assemble_context :: "context_env \<Rightarrow> context_request \<Rightarrow> workspace \<Rightarrow> (error + context_package) \<times> workspace" where
  "assemble_context env q w =
     (case get_project (ws_store w) (cq_project_id q) of
        None \<Rightarrow> (Inl (ProjectNotFoundError (cq_project_id q)), w)
      | Some p \<Rightarrow>
          (case context_task (ws_store w) p (cq_task_id q) (ce_now env) of
             Inl e \<Rightarrow> (Inl e, w)
           | Inr t \<Rightarrow>
               (let pkg = build_package env q w t (p_root_path p) in
                (Inr pkg, case save_context_snapshot env pkg (p_root_path p) (ws_fs w) of
                   Inl _ \<Rightarrow> w | Inr fs \<Rightarrow> w\<lparr>ws_fs := fs\<rparr>))))"

end
