(* ===== verification/Context_Guarantees.thy ===== *)
theory Context_Guarantees
  imports Context_Engine
begin

text \<open>
  What a context package guarantees: the budget, the task objective, and that every item comes from a
  discovered source, once.
\<close>

section \<open>Budget\<close>

lemma sum_of_simps [simp]: "sum_of f [] = 0" "sum_of f (x # xs) = f x + sum_of f xs" "sum_of f (xs @ ys) = sum_of f xs + sum_of f ys"
  by (simp_all add: sum_of_def)

lemma take_item_simps [simp]:
  "al_selected (take_item it al) = al_selected al @ [it]" "al_tokens (take_item it al) = al_tokens al + ci_tokens it"
  "al_characters (take_item it al) = al_characters al + ci_characters it" "al_warnings (take_item it al) = al_warnings al"
  by (simp_all add: take_item_def)

lemma truncated_simps [simp]:
  "ci_id (truncated n it) = ci_id it" "ci_source_type (truncated n it) = ci_source_type it"
  "ci_source_id (truncated n it) = ci_source_id it" "ci_required (truncated n it) = ci_required it"
  "ci_content (truncated n it) = take (nat n) (ci_content it) @ truncation_notice"
  "ci_characters (truncated n it) = int (length (ci_content (truncated n it)))"
  by (simp_all add: truncated_def Let_def)

lemma truncated_fits: "400 \<le> n \<Longrightarrow> ci_characters (truncated n it) \<le> n + 200"
  by (simp add: truncation_notice_def nl_def)

definition no_truncation :: "context_warning list \<Rightarrow> bool" where
  "no_truncation ws \<longleftrightarrow> (\<forall>w \<in> set ws. cw_type w \<noteq> CW_TRUNCATED_ITEM)"

definition allocation_ok :: "context_budget \<Rightarrow> context_item list \<Rightarrow> allocation \<Rightarrow> bool" where
  "allocation_ok b m al \<longleftrightarrow>
     al_tokens al = sum_of ci_tokens (al_selected al) \<and> al_characters al = sum_of ci_characters (al_selected al) \<and>
     (\<exists>opt. al_selected al = m @ opt \<and> (\<forall>it \<in> set opt. \<not> ci_required it)) \<and>
     al_characters al \<le> max (cb_max_characters b) (sum_of ci_characters m) \<and>
     int (length (al_selected al)) \<le> max (cb_max_items b) (int (length m)) \<and>
     (no_truncation (al_warnings al) \<longrightarrow> al_tokens al \<le> max (cb_max_tokens b) (sum_of ci_tokens m))"

lemma allocation_take:
  assumes "allocation_ok b m al" and "\<not> ci_required it" and "int (length (al_selected al)) < cb_max_items b"
    and "al_characters al + ci_characters it \<le> cb_max_characters b"
    and "no_truncation ws \<Longrightarrow> no_truncation (al_warnings al) \<and> al_tokens al + ci_tokens it \<le> cb_max_tokens b"
  shows "allocation_ok b m ((take_item it al)\<lparr>al_warnings := ws\<rparr>)"
  using assms unfolding allocation_ok_def by auto

lemma allocation_offer:
  assumes ok: "allocation_ok b m al" and "\<not> ci_required it" and "int (length (al_selected al)) < cb_max_items b"
  shows "allocation_ok b m (offer_item b it al)"
proof -
  let ?tokens = "cb_max_tokens b - al_tokens al" and ?chars = "cb_max_characters b - al_characters al"
  let ?cut = "truncated (?chars - 200) it"
  let ?worth = "ci_source_type it \<in> {CS_REPOSITORY_FILE, CS_REPORT} \<and> ?tokens \<ge> 150 \<and> ?chars - 200 \<ge> 400"
  show ?thesis
  proof (cases "ci_tokens it \<le> ?tokens \<and> ci_characters it \<le> ?chars")
    case True
    have same: "(take_item it al)\<lparr>al_warnings := al_warnings al\<rparr> = take_item it al" by (simp add: take_item_def)
    have "allocation_ok b m ((take_item it al)\<lparr>al_warnings := al_warnings al\<rparr>)" using True by (intro allocation_take[OF assms]) auto
    then have "allocation_ok b m (take_item it al)" unfolding same .
    then show ?thesis using True by (simp add: offer_item_def)
  next
    case False
    show ?thesis
    proof (cases ?worth)
      case True
      have "allocation_ok b m ((take_item ?cut al)\<lparr>al_warnings := al_warnings al @ [truncation_warning ?cut ?tokens]\<rparr>)"
        using truncated_fits[of "?chars - 200" it] True assms(2)
        by (intro allocation_take[OF ok _ assms(3)]) (auto simp: no_truncation_def truncation_warning_def simp del: truncated_simps(6))
      then show ?thesis unfolding offer_item_def Let_def if_not_P[OF False] if_P[OF True] by simp
    next
      case worthless: False
      show ?thesis unfolding offer_item_def Let_def if_not_P[OF False] if_not_P[OF worthless] by (rule ok)
    qed
  qed
qed

lemma allocate_optional_ok:
  "allocation_ok b m al \<Longrightarrow> (\<And>it. it \<in> set its \<Longrightarrow> \<not> ci_required it) \<Longrightarrow> allocation_ok b m (allocate_optional b its al)"
proof (induction b its al rule: allocate_optional.induct)
  case (2 b it its al)
  then show ?case using allocation_offer[of b m al it] by simp
qed simp

lemma fold_take:
  "al_selected (fold take_item its al) = al_selected al @ its"
  "al_tokens (fold take_item its al) = al_tokens al + sum_of ci_tokens its"
  "al_characters (fold take_item its al) = al_characters al + sum_of ci_characters its"
  "al_warnings (fold take_item its al) = al_warnings al"
  by (induction its arbitrary: al) simp_all

lemma allocate_mandatory_ok: "allocation_ok b (filter ci_required items) (allocate_mandatory b items)"
  by (auto simp: allocation_ok_def allocate_mandatory_def fold_take Let_def)

lemma allocate_budget_ok:
  assumes "allocate_budget b items = (selected, ws)"
  obtains al where "allocation_ok b (filter ci_required items) al" "selected = al_selected al" "ws = al_warnings al"
  using assms allocate_optional_ok[OF allocate_mandatory_ok, of "filter (\<lambda>it. \<not> ci_required it) items"]
  by (auto simp: allocate_budget_def Let_def)


section \<open>Duplicates\<close>

definition dedup_ok :: "context_item list \<Rightarrow> dedup_state \<Rightarrow> bool" where
  "dedup_ok items st \<longleftrightarrow>
     distinct (map source_key (dd_kept st)) \<and> set (dd_kept st) \<subseteq> set items \<and>
     (\<forall>k it. dict_get (dd_keys st) k = Some it \<longleftrightarrow> it \<in> set (dd_kept st) \<and> source_key it = k)"

lemma dedup_ok_get:
  "dedup_ok items st \<Longrightarrow> dict_get (dd_keys st) k = Some it \<longleftrightarrow> it \<in> set (dd_kept st) \<and> source_key it = k"
  unfolding dedup_ok_def by blast

lemma distinct_key_eq: "distinct (map f xs) \<Longrightarrow> x \<in> set xs \<Longrightarrow> y \<in> set xs \<Longrightarrow> f x = f y \<Longrightarrow> x = y"
  by (metis distinct_map inj_onD)

lemma dedup_ok_warn: "dedup_ok items st \<Longrightarrow> dedup_ok items (st\<lparr>dd_warnings := ws\<rparr>)"
  by (simp add: dedup_ok_def)

lemma dedup_ok_new:
  assumes "dedup_ok items st" and "it \<in> set items" and "dict_get (dd_keys st) (source_key it) = None"
  shows "dedup_ok items (st\<lparr>dd_kept := dd_kept st @ [it], dd_keys := dict_set (source_key it) it (dd_keys st), dd_checksums := cs\<rparr>)"
proof -
  have "source_key x \<noteq> source_key it" if "x \<in> set (dd_kept st)" for x
    using dedup_ok_get[OF assms(1), of "source_key x" x] that assms(3) by auto
  then show ?thesis
    using assms(1,2) unfolding dedup_ok_def by (auto simp: dict_simps simp del: split_paired_All) metis+
qed

lemma dedup_ok_better:
  assumes ok: "dedup_ok items st" and "it \<in> set items" and old: "dict_get (dd_keys st) (source_key it) = Some old"
  shows "dedup_ok items (st\<lparr>dd_kept := remove1 old (dd_kept st) @ [it], dd_keys := dict_set (source_key it) it (dd_keys st)\<rparr>)"
proof -
  have d: "distinct (dd_kept st)" "distinct (map source_key (dd_kept st))" using ok by (auto simp: dedup_ok_def distinct_map)
  have "old \<in> set (dd_kept st)" "source_key old = source_key it" using dedup_ok_get[OF ok] old by auto
  then have kept: "x \<in> set (remove1 old (dd_kept st)) \<longleftrightarrow> x \<in> set (dd_kept st) \<and> source_key x \<noteq> source_key it" for x
    using d distinct_key_eq[OF d(2), of x old] by auto
  have "distinct (map source_key (remove1 old (dd_kept st)))" using d by (simp add: distinct_map inj_on_def)
  then show ?thesis
    using assms(1,2) kept unfolding dedup_ok_def by (auto simp: dict_simps simp del: split_paired_All)
qed

lemma dedup_step_ok:
  assumes ok: "dedup_ok items st" and it: "it \<in> set items"
  shows "dedup_ok items (dedup_step it st)"
proof (cases "dict_get (dd_keys st) (source_key it)")
  case None
  show ?thesis
    unfolding dedup_step_def None option.case by (split if_split) (intro conjI impI dedup_ok_warn[OF ok] dedup_ok_new[OF ok it None])
next
  case (Some old)
  note warned = dedup_ok_warn[OF ok]
  have "dict_get (dd_keys (st\<lparr>dd_warnings := ws\<rparr>)) (source_key it) = Some old" for ws using Some by simp
  note better = dedup_ok_better[OF warned it this]
  show ?thesis unfolding dedup_step_def Some option.case Let_def by (split if_split) (intro conjI impI better warned)
qed

lemma fold_dedup_ok: "set its \<subseteq> set items \<Longrightarrow> dedup_ok items st \<Longrightarrow> dedup_ok items (fold dedup_step its st)"
  by (induction its arbitrary: st) (auto intro: dedup_step_ok)

text \<open>An item whose source type no later item has stays where it is.\<close>

lemma dedup_step_head:
  assumes "dedup_ok items st" and "dd_kept st = x # rest" and "ci_source_type it \<noteq> ci_source_type x"
  shows "\<exists>rest'. dd_kept (dedup_step it st) = x # rest'"
proof (cases "dict_get (dd_keys st) (source_key it)")
  case (Some old)
  then have "source_key old = source_key it" using dedup_ok_get[OF assms(1)] by auto
  then have "old \<noteq> x" using assms(3) by (auto simp: source_key_def)
  then show ?thesis using Some assms(2) by (simp add: dedup_step_def Let_def)
qed (use assms(2) in \<open>simp add: dedup_step_def\<close>)

lemma fold_dedup_head:
  "dedup_ok items st \<Longrightarrow> set its \<subseteq> set items \<Longrightarrow> dd_kept st = x # rest \<Longrightarrow>
    (\<And>it. it \<in> set its \<Longrightarrow> ci_source_type it \<noteq> ci_source_type x) \<Longrightarrow> \<exists>rest'. dd_kept (fold dedup_step its st) = x # rest'"
proof (induction its arbitrary: st rest)
  case (Cons it its)
  obtain rest1 where "dd_kept (dedup_step it st) = x # rest1" using dedup_step_head[of items st x rest it] Cons.prems by auto
  then show ?case using Cons.IH[of "dedup_step it st" rest1] dedup_step_ok[of items st it] Cons.prems by simp
qed simp

lemma deduplicate_ok:
  assumes "deduplicate_items items = (unique, ws)"
  shows "distinct (map source_key unique)" "set unique \<subseteq> set items"
proof -
  let ?st = "\<lparr>dd_kept = [], dd_keys = [], dd_checksums = [], dd_warnings = []\<rparr>"
  have "dedup_ok items ?st" by (simp add: dedup_ok_def)
  then have "dedup_ok items (fold dedup_step items ?st)" using fold_dedup_ok[OF subset_refl] by blast
  then show "distinct (map source_key unique)" "set unique \<subseteq> set items"
    using assms by (auto simp: deduplicate_items_def Let_def dedup_ok_def)
qed

lemma deduplicate_head:
  assumes "deduplicate_items (x # items) = (unique, ws)" and "\<And>it. it \<in> set items \<Longrightarrow> ci_source_type it \<noteq> ci_source_type x"
  shows "\<exists>rest. unique = x # rest"
proof -
  let ?st = "dedup_step x \<lparr>dd_kept = [], dd_keys = [], dd_checksums = [], dd_warnings = []\<rparr>"
  have "dedup_ok (x # items) ?st" by (rule dedup_step_ok) (simp_all add: dedup_ok_def)
  moreover have "dd_kept ?st = [x]" by (simp add: dedup_step_def)
  ultimately have "\<exists>rest. dd_kept (fold dedup_step items ?st) = x # rest" using assms(2) by (intro fold_dedup_head) auto
  then show ?thesis using assms(1) by (simp add: deduplicate_items_def Let_def)
qed


section \<open>From candidates to the package\<close>

lemma discovered:
  obtains rest found where "discover_candidates sha w q t rootdir = (task_item sha t # rest, found)"
    and "\<And>it. it \<in> set rest \<Longrightarrow> ci_source_type it \<noteq> CS_TASK_OBJECTIVE \<and> \<not> ci_required it"
proof -
  have item: "ci_source_type (new_item s i ty src ti c m) = ty" "\<not> ci_required (new_item s i ty src ti c m)" for s i ty src ti c m
    by (simp_all add: new_item_def)
  have memory: "memory_source ty \<noteq> CS_TASK_OBJECTIVE" for ty by (cases ty) (simp_all add: memory_source_def)
  define rest where "rest = tl (fst (discover_candidates sha w q t rootdir))"
  have eq: "discover_candidates sha w q t rootdir = (task_item sha t # rest, snd (discover_candidates sha w q t rootdir))"
    unfolding rest_def by (simp add: discover_candidates_def Let_def)
  have "ci_source_type it \<noteq> CS_TASK_OBJECTIVE \<and> \<not> ci_required it" if "it \<in> set rest" for it
    using that memory unfolding rest_def
    by (auto simp: discover_candidates_def Let_def file_candidates_def memory_item_def artifact_item_def events_item_def
        file_item_def item List.map_filter_def split: if_splits)
  then show thesis using that[OF eq] by blast
qed

lemma offer_item_cases:
  "al_selected (offer_item b it al) = al_selected al \<or> al_selected (offer_item b it al) = al_selected al @ [it] \<or>
   (\<exists>n. al_selected (offer_item b it al) = al_selected al @ [truncated n it] \<and>
     ci_source_type it \<in> {CS_REPOSITORY_FILE, CS_REPORT})"
  by (auto simp: offer_item_def Let_def)

definition derived :: "context_item \<Rightarrow> context_item \<Rightarrow> bool" where
  \<comment> \<open>the item itself, or a file or report cut to fit\<close>
  "derived c it \<longleftrightarrow> it = c \<or> (ci_source_type c \<in> {CS_REPOSITORY_FILE, CS_REPORT} \<and> (\<exists>n. it = truncated n c))"

lemma allocate_optional_from:
  "\<exists>opt. al_selected (allocate_optional b its al) = al_selected al @ opt \<and>
     (\<forall>it \<in> set opt. \<exists>c \<in> set its. derived c it) \<and> subseq (map source_key opt) (map source_key its)"
proof (induction b its al rule: allocate_optional.induct)
  case (2 b it its al)
  show ?case
  proof (cases "int (length (al_selected al)) \<ge> cb_max_items b \<or> cb_max_tokens b - al_tokens al \<le> 50")
    case False
    then obtain opt where opt: "al_selected (allocate_optional b its (offer_item b it al)) = al_selected (offer_item b it al) @ opt"
      "\<forall>x \<in> set opt. \<exists>c \<in> set its. derived c x" "subseq (map source_key opt) (map source_key its)"
      using 2 by auto
    have same: "source_key (truncated n it) = source_key it" for n by (simp add: source_key_def)
    show ?thesis
      using offer_item_cases[of b it al] False opt same by (auto simp: derived_def)
  qed auto
qed simp

lemma subseq_distinct: "subseq xs ys \<Longrightarrow> distinct ys \<Longrightarrow> distinct xs"
  by (induction rule: list_emb.induct) (auto dest: list_emb_set)

lemma allocate_budget_from:
  assumes "allocate_budget b items = (selected, ws)" and "distinct (map source_key items)"
  shows "\<And>it. it \<in> set selected \<Longrightarrow> \<exists>c \<in> set items. derived c it" and "distinct (map source_key selected)"
    and "\<exists>opt. selected = filter ci_required items @ opt"
proof -
  let ?opt = "filter (\<lambda>it. \<not> ci_required it) items" and ?m = "filter ci_required items"
  have m: "al_selected (allocate_mandatory b items) = ?m" by (simp add: allocate_mandatory_def fold_take Let_def)
  obtain opt where opt: "selected = ?m @ opt" "\<forall>it \<in> set opt. \<exists>c \<in> set ?opt. derived c it"
      "subseq (map source_key opt) (map source_key ?opt)"
    using allocate_optional_from[of b ?opt "allocate_mandatory b items"] assms(1) unfolding m
    by (auto simp: allocate_budget_def Let_def)
  show "\<exists>c \<in> set items. derived c it" if "it \<in> set selected" for it
    using that opt by (auto simp: derived_def)
  have "subseq (map source_key selected) (map source_key (?m @ ?opt))"
    using opt by (auto intro: list_emb_append_mono)
  moreover have "distinct (map source_key (?m @ ?opt))" using assms(2) by (auto simp: distinct_map inj_on_def)
  ultimately show "distinct (map source_key selected)" using subseq_distinct by blast
  show "\<exists>opt. selected = ?m @ opt" using opt(1) by blast
qed

definition scored_candidates :: "context_env \<Rightarrow> context_request \<Rightarrow> workspace \<Rightarrow> task \<Rightarrow> string \<Rightarrow> context_item list" where
  "scored_candidates env q w t rootdir =
     filter (\<lambda>it. ci_source_type it \<notin> set (cq_excluded_sources q))
       (map (score_item (ce_floats env) (ce_hours env) t (cq_focus_areas q) (references_of t q))
         (fst (discover_candidates (ce_sha env) w q t rootdir)))"

lemma build_package_stages:
  obtains unique dups selected over where
    "deduplicate_items (scored_candidates env q w t rootdir) = (unique, dups)"
    "allocate_budget (cq_budget q) (sort_context_items (ce_floats env) unique) = (selected, over)"
    "pk_items (build_package env q w t rootdir) = selected"
    "pk_tokens (build_package env q w t rootdir) = sum_of ci_tokens selected"
    "pk_characters (build_package env q w t rootdir) = sum_of ci_characters selected"
    "\<exists>found. pk_warnings (build_package env q w t rootdir) = found @ dups @ over"
proof -
  obtain candidates found where d: "discover_candidates (ce_sha env) w q t rootdir = (candidates, found)" by fastforce
  obtain unique dups where u: "deduplicate_items (scored_candidates env q w t rootdir) = (unique, dups)" by fastforce
  obtain selected over where s: "allocate_budget (cq_budget q) (sort_context_items (ce_floats env) unique) = (selected, over)"
    by fastforce
  have same: "(if cq_excluded_sources q \<noteq> [] then filter (\<lambda>it. ci_source_type it \<notin> set (cq_excluded_sources q)) xs else xs) =
      filter (\<lambda>it. ci_source_type it \<notin> set (cq_excluded_sources q)) xs" for xs by simp
  note u' = u[unfolded scored_candidates_def d fst_conv]
  have eq: "build_package env q w t rootdir = \<lparr>pk_request_id = cq_request_id q, pk_project_id = cq_project_id q, pk_task_id = cq_task_id q,
      pk_worker_id = cq_worker_id q, pk_items = selected, pk_tokens = sum_of ci_tokens selected,
      pk_characters = sum_of ci_characters selected, pk_budget = cq_budget q, pk_warnings = found @ dups @ over,
      pk_candidates = int (length candidates), pk_selected = int (length selected), pk_metadata = cq_metadata q\<rparr>"
    unfolding build_package_def d prod.case Let_def same u' s by (rule refl)
  show thesis by (rule that[OF u s]) (simp_all add: eq)
qed

lemma assemble_cases:
  assumes "assemble_context env q w = (Inr pkg, w')"
  obtains p t where "get_project (ws_store w) (cq_project_id q) = Some p"
    "context_task (ws_store w) p (cq_task_id q) (ce_now env) = Inr t" "pkg = build_package env q w t (p_root_path p)"
    "w' = (case save_context_snapshot env pkg (p_root_path p) (ws_fs w) of Inl _ \<Rightarrow> w | Inr fs \<Rightarrow> w\<lparr>ws_fs := fs\<rparr>)"
proof (cases "get_project (ws_store w) (cq_project_id q)")
  case None
  then show thesis using assms by (simp add: assemble_context_def)
next
  case (Some p)
  note p = this
  show thesis
  proof (cases "context_task (ws_store w) p (cq_task_id q) (ce_now env)")
    case (Inl e)
    then show thesis using assms p by (simp add: assemble_context_def)
  next
    case (Inr t)
    have "Inr pkg = (Inr (build_package env q w t (p_root_path p)) :: error + context_package)"
      using assms unfolding assemble_context_def p option.case Inr sum.case Let_def prod.inject by (elim conjE) (rule sym)
    then have pkg: "pkg = build_package env q w t (p_root_path p)" by simp
    have "w' = (case save_context_snapshot env pkg (p_root_path p) (ws_fs w) of Inl _ \<Rightarrow> w | Inr fs \<Rightarrow> w\<lparr>ws_fs := fs\<rparr>)"
      using assms unfolding assemble_context_def p option.case Inr sum.case Let_def prod.inject pkg by (elim conjE) (rule sym)
    then show thesis using that p Inr pkg by blast
  qed
qed

lemma set_sorted [simp]: "set (sort_context_items F items) = set items"
  by (simp add: sort_context_items_def)

lemma filter_sorted: "filter P (sort_context_items F items) = sort_context_items F (filter P items)"
  by (simp add: sort_context_items_def filter_sort)

lemma distinct_sorted: "distinct (map f (sort_context_items F items)) \<longleftrightarrow> distinct (map f items)"
  by (metis sort_context_items_def distinct_sort distinct_map set_sort)

lemma task_item_simps [simp]:
  "ci_source_type (task_item sha t) = CS_TASK_OBJECTIVE" "ci_required (task_item sha t)" "ci_content (task_item sha t) = task_content t"
  by (simp_all add: task_item_def new_item_def)

lemma required_scored:
  assumes "it \<in> set (scored_candidates env q w t rootdir)"
  shows "ci_required it \<longleftrightarrow> ci_source_type it = CS_TASK_OBJECTIVE"
proof -
  obtain rest found where d: "discover_candidates (ce_sha env) w q t rootdir = (task_item (ce_sha env) t # rest, found)"
    "\<And>it. it \<in> set rest \<Longrightarrow> ci_source_type it \<noteq> CS_TASK_OBJECTIVE \<and> \<not> ci_required it" using discovered by metis
  show ?thesis using assms d(2) unfolding scored_candidates_def d(1) by (auto split: if_splits)
qed

text \<open>
  C13: a package keeps to its budget. Its totals are the sums over its items, the number of items and of characters
  exceed the limits only by what is required anyway, and so does the estimate of tokens as long as no item had
  to be cut: a warning tells when one was.
\<close>

theorem context_budget_respected:
  assumes "assemble_context env q w = (Inr pkg, w')"
  shows "pk_tokens pkg = sum_of ci_tokens (pk_items pkg) \<and> pk_characters pkg = sum_of ci_characters (pk_items pkg) \<and>
     (let required = filter ci_required (pk_items pkg) in
      int (length (pk_items pkg)) \<le> max (cb_max_items (cq_budget q)) (int (length required)) \<and>
      pk_characters pkg \<le> max (cb_max_characters (cq_budget q)) (sum_of ci_characters required) \<and>
      ((\<exists>x \<in> set (pk_warnings pkg). cw_type x = CW_TRUNCATED_ITEM) \<or>
       pk_tokens pkg \<le> max (cb_max_tokens (cq_budget q)) (sum_of ci_tokens required)))"
proof -
  obtain p t where t: "get_project (ws_store w) (cq_project_id q) = Some p"
    "context_task (ws_store w) p (cq_task_id q) (ce_now env) = Inr t" and pkg: "pkg = build_package env q w t (p_root_path p)"
    and "w' = (case save_context_snapshot env pkg (p_root_path p) (ws_fs w) of Inl _ \<Rightarrow> w | Inr fs \<Rightarrow> w\<lparr>ws_fs := fs\<rparr>)"
    by (rule assemble_cases[OF assms])
  obtain unique dups selected over where stages:
    "deduplicate_items (scored_candidates env q w t (p_root_path p)) = (unique, dups)"
    "allocate_budget (cq_budget q) (sort_context_items (ce_floats env) unique) = (selected, over)"
    "pk_items pkg = selected" "pk_tokens pkg = sum_of ci_tokens selected" "pk_characters pkg = sum_of ci_characters selected"
    "\<exists>found. pk_warnings pkg = found @ dups @ over"
    unfolding pkg by (rule build_package_stages)
  note s = stages(2-)
  obtain al where al: "allocation_ok (cq_budget q) (filter ci_required (sort_context_items (ce_floats env) unique)) al"
    "selected = al_selected al" "over = al_warnings al" using s(1) by (rule allocate_budget_ok)
  then have "filter ci_required selected = filter ci_required (sort_context_items (ce_floats env) unique)"
    by (auto simp: allocation_ok_def filter_empty_conv)
  then show ?thesis using al s by (auto simp: allocation_ok_def no_truncation_def Let_def)
qed

text \<open>
  C14: unless the request excludes it, the package opens with the objective of the task, whole and marked as
  required, whatever the budget, and nothing else is required.
\<close>

theorem task_objective_kept:
  assumes "assemble_context env q w = (Inr pkg, w')" and "CS_TASK_OBJECTIVE \<notin> set (cq_excluded_sources q)"
  shows "\<exists>p t it rest. get_project (ws_store w) (cq_project_id q) = Some p \<and>
     context_task (ws_store w) p (cq_task_id q) (ce_now env) = Inr t \<and> pk_items pkg = it # rest \<and>
     ci_source_type it = CS_TASK_OBJECTIVE \<and> ci_required it \<and> ci_content it = task_content t \<and>
     (\<forall>x \<in> set rest. \<not> ci_required x)"
proof -
  obtain p t where t: "get_project (ws_store w) (cq_project_id q) = Some p"
    "context_task (ws_store w) p (cq_task_id q) (ce_now env) = Inr t" and pkg: "pkg = build_package env q w t (p_root_path p)"
    and "w' = (case save_context_snapshot env pkg (p_root_path p) (ws_fs w) of Inl _ \<Rightarrow> w | Inr fs \<Rightarrow> w\<lparr>ws_fs := fs\<rparr>)"
    by (rule assemble_cases[OF assms(1)])
  let ?cands = "scored_candidates env q w t (p_root_path p)"
  obtain unique dups selected over where s: "deduplicate_items (scored_candidates env q w t (p_root_path p)) = (unique, dups)"
    "allocate_budget (cq_budget q) (sort_context_items (ce_floats env) unique) = (selected, over)"
    "pk_items pkg = selected" "pk_tokens pkg = sum_of ci_tokens selected" "pk_characters pkg = sum_of ci_characters selected"
    "\<exists>found. pk_warnings pkg = found @ dups @ over"
    unfolding pkg by (rule build_package_stages)
  obtain rest found where d: "discover_candidates (ce_sha env) w q t (p_root_path p) = (task_item (ce_sha env) t # rest, found)"
    "\<And>it. it \<in> set rest \<Longrightarrow> ci_source_type it \<noteq> CS_TASK_OBJECTIVE \<and> \<not> ci_required it" using discovered by metis
  define h where "h = score_item (ce_floats env) (ce_hours env) t (cq_focus_areas q) (references_of t q) (task_item (ce_sha env) t)"
  have h: "ci_source_type h = CS_TASK_OBJECTIVE" "ci_content h = task_content t" "ci_required h"
    by (simp_all add: h_def)
  obtain others where others: "?cands = h # others" "\<And>it. it \<in> set others \<Longrightarrow> ci_source_type it \<noteq> CS_TASK_OBJECTIVE"
  proof
    show "?cands = h # filter (\<lambda>it. ci_source_type it \<notin> set (cq_excluded_sources q))
        (map (score_item (ce_floats env) (ce_hours env) t (cq_focus_areas q) (references_of t q)) rest)"
      using assms(2) h(1) unfolding scored_candidates_def d(1) h_def by simp
  qed (use d(2) in auto)
  obtain rest' where unique: "unique = h # rest'"
    using deduplicate_head[of h others unique dups] s(1) others h(1) by auto
  have keys: "distinct (map source_key unique)" "set unique \<subseteq> set ?cands" using deduplicate_ok[OF s(1)] by auto
  have "\<not> ci_required it" if "it \<in> set rest'" for it
  proof
    assume "ci_required it"
    then have "it \<in> set others \<or> it = h" "ci_source_type it = CS_TASK_OBJECTIVE"
      using that keys(2) unique others(1) required_scored[of it env q w t "p_root_path p"] by auto
    then have "it = h" using others(2) by blast
    then show False using that keys(1) unique by auto
  qed
  then have "filter ci_required (sort_context_items (ce_floats env) unique) = [h]"
  proof -
    assume "\<And>it. it \<in> set rest' \<Longrightarrow> \<not> ci_required it"
    then have "filter ci_required unique = [h]" using h(3) by (simp add: unique filter_empty_conv)
    then show ?thesis unfolding filter_sorted by (simp add: sort_context_items_def)
  qed
  moreover obtain al where al: "allocation_ok (cq_budget q) (filter ci_required (sort_context_items (ce_floats env) unique)) al"
    "selected = al_selected al" using s(2) by (rule allocate_budget_ok)
  ultimately have "\<exists>opt. selected = h # opt \<and> (\<forall>x \<in> set opt. \<not> ci_required x)" by (auto simp: allocation_ok_def)
  then show ?thesis using t h s(3) by metis
qed


text \<open>
  Assembling a package changes nothing but the snapshot: the store is the same, and so is every file
  outside of the directory of the snapshots.
\<close>

theorem assembly_only_writes_snapshot:
  assumes "assemble_context env q w = (res, w')"
  shows "ws_store w' = ws_store w"
    and "get_project (ws_store w) (cq_project_id q) = Some p \<Longrightarrow>
      \<not> prefix (path_parts (p_root_path p) @ [''.autonomos'', ''context_snapshots'']) f \<Longrightarrow>
      dict_get (fs_files (ws_fs w')) f = dict_get (fs_files (ws_fs w)) f"
proof -
  have frame: "dict_get (fs_files fs') f = dict_get (fs_files fs) f"
    if "save_context_snapshot env pkg r fs = Inr fs'" "\<not> prefix (path_parts r @ [''.autonomos'', ''context_snapshots'']) f"
    for pkg r fs fs' f
    using that by (auto simp: save_context_snapshot_def Let_def dict_simps mkdir_parents_files split: sum.splits if_splits)
  have unchanged: "w' = w" if "res = Inl e" for e
    using assms that by (auto simp: assemble_context_def Let_def split: option.splits sum.splits)
  show "ws_store w' = ws_store w"
  proof (cases res)
    case (Inr pkg)
    show ?thesis
      using assms unfolding Inr by (rule assemble_cases) (auto split: sum.splits)
  qed (use unchanged in simp)
  show "dict_get (fs_files (ws_fs w')) f = dict_get (fs_files (ws_fs w)) f"
    if p: "get_project (ws_store w) (cq_project_id q) = Some p"
      and f: "\<not> prefix (path_parts (p_root_path p) @ [''.autonomos'', ''context_snapshots'']) f"
  proof (cases res)
    case (Inr pkg)
    show ?thesis
      using assms unfolding Inr by (rule assemble_cases) (use p frame[OF _ f] in \<open>auto split: sum.splits\<close>)
  qed (use unchanged in simp)
qed


section \<open>Concrete packages\<close>

definition ideal_floats :: float_ops where
  "ideal_floats = \<lparr>fl = (\<lambda>x. x), fl_repr = (\<lambda>x. ''0.5'')\<rparr>"

definition sample_context_env :: context_env where
  "sample_context_env = \<lparr>ce_sha = (\<lambda>s. s), ce_floats = ideal_floats, ce_hours = (\<lambda>s. None), ce_json = (\<lambda>p. ''{}''), ce_now = ''now''\<rparr>"

definition sample_context_request :: context_request where
  "sample_context_request =
     \<lparr>cq_project_id = ''p'', cq_task_id = ''t'', cq_worker_id = None, cq_request_id = ''r'',
      cq_budget = \<lparr>cb_max_tokens = 4000, cb_max_characters = 16000, cb_max_items = 25, cb_reserved_tokens = 1000\<rparr>,
      cq_required_sources = [], cq_excluded_sources = [], cq_focus_areas = [], cq_metadata = []\<rparr>"

definition context_workspace :: workspace where
  "context_workspace = put_ws_store (save_task (sample_task ''t'' T_READY) (ws_store sample_workspace)) sample_workspace"

lemma sample_assembled: "\<exists>pkg w'. assemble_context sample_context_env sample_context_request context_workspace = (Inr pkg, w')"
proof -
  have "get_project (ws_store context_workspace) ''p'' \<noteq> None" by code_simp
  moreover have "get_task (ws_store context_workspace) ''t'' \<noteq> None" by code_simp
  ultimately show ?thesis
    by (auto simp: assemble_context_def context_task_def sample_context_request_def Let_def)
qed

theorem context_budget_respected_witness:
  "\<exists>pkg w'. assemble_context sample_context_env sample_context_request context_workspace = (Inr pkg, w') \<and>
     pk_tokens pkg = sum_of ci_tokens (pk_items pkg)"
  using sample_assembled context_budget_respected by blast

theorem task_objective_kept_witness:
  "\<exists>pkg w' it rest. assemble_context sample_context_env sample_context_request context_workspace = (Inr pkg, w') \<and>
     pk_items pkg = it # rest \<and> ci_required it"
proof -
  obtain pkg w' where "assemble_context sample_context_env sample_context_request context_workspace = (Inr pkg, w')"
    using sample_assembled by blast
  then show ?thesis using task_objective_kept[of sample_context_env sample_context_request context_workspace pkg w']
    by (auto simp: sample_context_request_def)
qed


text \<open>
  A cut item is measured in characters only, so it can exceed the tokens that are left: here a report of 2000
  characters enters a budget of 200 tokens with 513, and not a character of it is cut.
\<close>

lemma estimate_tokens_ge: "(int (length s) + 3) div 4 \<le> estimate_tokens s"
  by (auto simp: estimate_tokens_def)

definition long_report :: context_item where
  "long_report = new_item (\<lambda>s. s) ''r'' CS_REPORT ''r'' ''R'' (replicate 2000 (CHR ''a'')) []"

definition small_budget :: context_budget where
  "small_budget = \<lparr>cb_max_tokens = 200, cb_max_characters = 16000, cb_max_items = 25, cb_reserved_tokens = 1000\<rparr>"

lemma cut_report_exceeds_tokens:
  "\<exists>it. fst (allocate_budget small_budget [long_report]) = [it] \<and> ci_tokens it \<ge> 513 \<and>
     prefix (ci_content long_report) (ci_content it)"
proof -
  have tokens: "200 < ci_tokens long_report"
    using estimate_tokens_ge[of "replicate 2000 (CHR ''a'')"] by (simp add: long_report_def new_item_def)
  have plain: "\<not> ci_required long_report" "ci_source_type long_report = CS_REPORT" "ci_content long_report = replicate 2000 (CHR ''a'')"
    by (simp_all add: long_report_def new_item_def)
  have "fst (allocate_budget small_budget [long_report]) = [truncated 15800 long_report]"
    using tokens plain
    by (simp add: allocate_budget_def allocate_mandatory_def offer_item_def small_budget_def Let_def)
  moreover have "513 \<le> ci_tokens (truncated 15800 long_report)"
    using estimate_tokens_ge[of "ci_content (truncated 15800 long_report)"] plain
    by (simp add: truncated_def Let_def truncation_notice_def nl_def)
  ultimately show ?thesis using plain by simp
qed

text \<open>The warning of a cut item gives as the original size the size after the cut.\<close>

lemma original_size_is_the_cut_one:
  "cw_details (truncation_warning (truncated n it) k) =
     [(''original_size'', PInt (int (length (take (nat n) (ci_content it) @ truncation_notice)))), (''budget_remaining'', PInt k)]"
  by (simp add: truncation_warning_def del: length_append)

text \<open>A context reference with \<open>..\<close> reads a file outside of the project directory.\<close>

lemma reference_reads_outside:
  "map (\<lambda>it. (ci_source_id it, ci_metadata it))
     (fst (file_candidates (\<lambda>s. s) \<lparr>fs_files = [([''secret''], ''key'')], fs_dirs = [[''p'']]\<rparr> [''p''] [PStr ''../secret''])) =
   [(''../secret'', [(''relative_path'', PStr ''../secret''), (''file_size'', PInt 3)])]"
  by code_simp

text \<open>A blank focus area is a reference to everything that has no path.\<close>

lemma blank_focus_matches_events:
  "is_explicit (references_of t (q\<lparr>cq_focus_areas := ['' '']\<rparr>)) (events_item sha t' es)"
proof -
  have "strip '' '' = []" by code_simp
  then have "[] \<in> set (references_of t (q\<lparr>cq_focus_areas := ['' '']\<rparr>))" by (simp add: references_of_def lstrip_chars_def)
  moreover have "clean_item_path (events_item sha t' es) = []"
    by (simp add: clean_item_path_def meta_text_def events_item_def new_item_def strip_def lstrip_chars_def)
  ultimately show ?thesis by (simp add: is_explicit_def)
qed

text \<open>An explicitly referenced item is set to high priority, and then to the one of its score.\<close>

definition sample_issue :: context_item where
  "sample_issue = new_item (\<lambda>s. s) ''i'' CS_ISSUE ''i'' ''I'' ''text'' []"

lemma explicit_item_not_high:
  "is_explicit [''i''] sample_issue"
  "ci_priority (score_item ideal_floats (\<lambda>s. None) (sample_task ''t'' T_READY) [] [''i''] sample_issue) = CP_MEDIUM"
  by (code_simp, code_simp)

text \<open>The objective of the task, which is mandatory, can be excluded by the request.\<close>

lemma objective_can_be_excluded:
  "pk_items (build_package sample_context_env (sample_context_request\<lparr>cq_excluded_sources := [CS_TASK_OBJECTIVE]\<rparr>)
     context_workspace (sample_task ''t'' T_READY) ''/home/p'') = []"
  by code_simp

end
