(* ===== verification/Spec2Isabelle.thy ===== *)
theory Spec2Isabelle
  imports Run_Outcomes Sqlite_Refinement Workflow Inference_Gateway Request_Dispatch Context_Guarantees
begin

text \<open>
  A model of the core of AutonomOS.
\<close>

end
